(* ===== verification/Tamga_Prelude.thy ===== *)
theory Tamga_Prelude
  imports Main "HOL-Library.Word" "HOL-Library.Sublist" "HOL-Library.Char_ord"
    "HOL-Library.List_Lexorder"
begin

text \<open>
  Shared vocabulary of the development: the machine types of the C++ sources, the parts of
  the C and C++ standard library that the sources call (character classes, searches in a
  \<open>std::string\<close>), the fact collections the components add to, and generic lemmas on words,
  lists and searches.

  Conventions. A \<open>std::vector<std::uint8_t>\<close> is a \<open>bytes\<close>; a \<open>std::string\<close> is a HOL
  \<open>string\<close>, whose characters are bytes as well. \<open>std::size_t\<close> is 64 bits wide where
  overflow matters (\<open>size_w\<close>) and a \<open>nat\<close> where the sources only index containers.
  \<open>std::string::npos\<close> is \<open>None\<close> in the results of the searches.
\<close>

unbundle bit_operations_syntax

section \<open>Machine types\<close>

type_synonym byte = "8 word"
type_synonym bytes = "byte list"
type_synonym u16 = "16 word"
type_synonym u32 = "32 word"
type_synonym u64 = "64 word"
type_synonym size_w = "64 word"

named_theorems codec_simps \<open>facts that evaluate the encoders and decoders of util\<close>
named_theorems fail_closed \<open>facts that describe the early returns of the validators\<close>

abbreviation code :: "char \<Rightarrow> nat" where
  "code c \<equiv> of_char c"

definition char_of_byte :: "byte \<Rightarrow> char" where
  "char_of_byte b = char_of (unat b)"

definition byte_of_char :: "char \<Rightarrow> byte" where
  "byte_of_char c = word_of_nat (code c)"

lemma code_less: "code c < 256"
  by (rule nat_of_char_less_256)

lemma code_char_of [simp]: "n < 256 \<Longrightarrow> code (char_of n) = (n :: nat)"
  by (simp add: of_char_of)

lemma char_of_byte_of_char [simp]: "char_of_byte (byte_of_char c) = c"
  using code_less [of c] by (simp add: char_of_byte_def byte_of_char_def unat_of_nat)

lemma byte_of_char_of_byte [simp]: "byte_of_char (char_of_byte b) = b"
proof -
  have "unat b < 256" using unsigned_less [of b, where ?'a = nat] by simp
  then show ?thesis by (simp add: char_of_byte_def byte_of_char_def)
qed

lemma inj_char_of_byte: "inj char_of_byte"
  by (rule inj_on_inverseI [where g = byte_of_char]) simp

lemma inj_byte_of_char: "inj byte_of_char"
  by (rule inj_on_inverseI [where g = char_of_byte]) simp

definition string_of_bytes :: "bytes \<Rightarrow> string" where
  "string_of_bytes bs = map char_of_byte bs"

definition bytes_of_string :: "string \<Rightarrow> bytes" where
  "bytes_of_string s = map byte_of_char s"

lemma bytes_of_string_inverse [simp]: "string_of_bytes (bytes_of_string s) = s"
  by (simp add: string_of_bytes_def bytes_of_string_def comp_def)

lemma string_of_bytes_inverse [simp]: "bytes_of_string (string_of_bytes b) = b"
  by (simp add: string_of_bytes_def bytes_of_string_def comp_def)

lemma bytes_of_string_inject [simp]: "bytes_of_string s = bytes_of_string t \<longleftrightarrow> s = t"
  by (metis bytes_of_string_inverse)

section \<open>Character classes of the C locale\<close>

definition isspace :: "char \<Rightarrow> bool" where
  "isspace c \<longleftrightarrow> code c = 32 \<or> (9 \<le> code c \<and> code c \<le> 13)"

definition isdigit :: "char \<Rightarrow> bool" where
  "isdigit c \<longleftrightarrow> 48 \<le> code c \<and> code c \<le> 57"

definition isupper :: "char \<Rightarrow> bool" where
  "isupper c \<longleftrightarrow> 65 \<le> code c \<and> code c \<le> 90"

definition islower :: "char \<Rightarrow> bool" where
  "islower c \<longleftrightarrow> 97 \<le> code c \<and> code c \<le> 122"

definition isalnum :: "char \<Rightarrow> bool" where
  "isalnum c \<longleftrightarrow> isdigit c \<or> isupper c \<or> islower c"

definition tolower :: "char \<Rightarrow> char" where
  "tolower c = (if isupper c then char_of (code c + 32) else c)"

definition digit_value :: "char \<Rightarrow> nat" where
  "digit_value c = code c - 48"

lemma tolower_not_upper [simp]: "\<not> isupper (tolower c)"
  by (auto simp: tolower_def isupper_def)

lemma tolower_idem [simp]: "tolower (tolower c) = tolower c"
  using tolower_not_upper [of c] by (simp add: tolower_def)

text \<open>\<open>std::to_string\<close> and the decimal output of a stream.\<close>

fun nat_to_string :: "nat \<Rightarrow> string" where
  "nat_to_string n = (if n < 10 then [char_of (48 + n)]
     else nat_to_string (n div 10) @ [char_of (48 + n mod 10)])"

declare nat_to_string.simps [simp del]

definition to_string :: "int \<Rightarrow> string" where
  "to_string n = (if n < 0 then ''-'' @ nat_to_string (nat (- n)) else nat_to_string (nat n))"

section \<open>Searches in a string\<close>

text \<open>
  \<open>find_char\<close>, \<open>find_first_of\<close> and \<open>str_find\<close> are \<open>std::string::find\<close> and
  \<open>find_first_of\<close> from position 0, \<open>rfind_char\<close> is \<open>std::string::rfind\<close> of one character.
  A test \<open>s.rfind(p, 0) == 0\<close> is \<open>prefix p s\<close>.
\<close>

fun find_index :: "('a \<Rightarrow> bool) \<Rightarrow> 'a list \<Rightarrow> nat option" where
  "find_index P [] = None"
| "find_index P (x # xs) = (if P x then Some 0 else map_option Suc (find_index P xs))"

definition find_char :: "char \<Rightarrow> string \<Rightarrow> nat option" where
  "find_char c s = find_index (\<lambda>x. x = c) s"

definition find_first_of :: "string \<Rightarrow> string \<Rightarrow> nat option" where
  "find_first_of cs s = find_index (\<lambda>x. x \<in> set cs) s"

definition rfind_char :: "char \<Rightarrow> string \<Rightarrow> nat option" where
  "rfind_char c s = map_option (\<lambda>k. length s - 1 - k) (find_char c (rev s))"

fun str_find :: "string \<Rightarrow> string \<Rightarrow> nat option" where
  "str_find p [] = (if p = [] then Some 0 else None)"
| "str_find p (x # xs) = (if prefix p (x # xs) then Some 0 else map_option Suc (str_find p xs))"

definition str_contains :: "string \<Rightarrow> string \<Rightarrow> bool" where
  "str_contains p s \<longleftrightarrow> str_find p s \<noteq> None"

lemma find_index_Some_iff:
  "find_index P xs = Some i \<longleftrightarrow> i < length xs \<and> P (xs ! i) \<and> (\<forall>j < i. \<not> P (xs ! j))"
proof (induction xs arbitrary: i)
  case Nil
  then show ?case by simp
next
  case (Cons x xs)
  show ?case
  proof (cases i)
    case 0
    then show ?thesis by auto
  next
    case (Suc k)
    then show ?thesis using Cons.IH [of k] by (auto simp: less_Suc_eq_0_disj)
  qed
qed

lemma find_index_None_iff: "find_index P xs = None \<longleftrightarrow> (\<forall>x \<in> set xs. \<not> P x)"
  by (induction xs) auto

lemma find_index_SomeD:
  assumes "find_index P xs = Some i"
  shows "i < length xs" "P (xs ! i)" "j < i \<Longrightarrow> \<not> P (xs ! j)"
  using assms by (auto simp: find_index_Some_iff)

lemma find_index_take:
  assumes "find_index P xs = Some i" and "x \<in> set (take i xs)"
  shows "\<not> P x"
  using assms by (auto simp: find_index_Some_iff in_set_conv_nth)

lemma find_index_append:
  "find_index P (xs @ ys) = (case find_index P xs of Some i \<Rightarrow> Some i
     | None \<Rightarrow> map_option (\<lambda>k. length xs + k) (find_index P ys))"
  by (induction xs; cases "find_index P ys") (auto split: option.splits)

lemma str_contains_sublist: "str_contains p s \<longleftrightarrow> (\<exists>u v. s = u @ p @ v)"
proof (induction s)
  case Nil
  then show ?case by (auto simp: str_contains_def)
next
  case (Cons x xs)
  have "str_contains p (x # xs) \<longleftrightarrow> prefix p (x # xs) \<or> str_contains p xs"
    by (auto simp: str_contains_def)
  also have "\<dots> \<longleftrightarrow> (\<exists>u v. x # xs = u @ p @ v)"
    using Cons.IH by (auto simp: prefix_def Cons_eq_append_conv)
  finally show ?case .
qed

lemma str_contains_prefixI [simp, intro]: "str_contains p (p @ s)"
  by (auto simp: str_contains_sublist intro: exI [of _ "[]"])

section \<open>Numbers in a string\<close>

text \<open>What a C function sees of a \<open>std::string\<close> through \<open>c_str()\<close>.\<close>

definition c_str :: "string \<Rightarrow> string" where
  "c_str s = takeWhile (\<lambda>c. c \<noteq> CHR 0x00) s"

text \<open>
  \<open>strtoul\<close> and \<open>strtoull\<close> with 64 bits: white space, a sign, for base 0 a prefix, the longest
  run of digits. The result is the value, whether it overflowed (\<open>ERANGE\<close>) and what \<open>end\<close>
  points to; without digits \<open>end\<close> is the start of the input. A negative sign negates the value
  in the unsigned type.
\<close>

definition digit_in_base :: "nat \<Rightarrow> char \<Rightarrow> nat option" where
  "digit_in_base base c =
     (let v = (if isdigit c then code c - 48 else if isupper c then code c - 55
               else if islower c then code c - 87 else base)
      in if v < base then Some v else None)"

definition number_base :: "nat \<Rightarrow> string \<Rightarrow> nat \<times> string" where
  "number_base base s =
     (if base \<noteq> 0 then (base, s)
      else case s of
        z # x # d # rest \<Rightarrow>
          if z = CHR ''0'' \<and> (x = CHR ''x'' \<or> x = CHR ''X'') \<and> digit_in_base 16 d \<noteq> None then (16, d # rest)
          else if z = CHR ''0'' then (8, s) else (10, s)
      | z # _ \<Rightarrow> if z = CHR ''0'' then (8, s) else (10, s)
      | [] \<Rightarrow> (10, s))"

definition digits_number :: "nat \<Rightarrow> string \<Rightarrow> int" where
  "digits_number base ds = foldl (\<lambda>n c. n * int base + int (the (digit_in_base base c))) 0 ds"

definition strtoull :: "nat \<Rightarrow> string \<Rightarrow> int \<times> bool \<times> string" where
  "strtoull base s =
     (let t = dropWhile isspace s;
          neg = (case t of c # _ \<Rightarrow> c = CHR ''-'' | [] \<Rightarrow> False);
          body = (case t of c # r \<Rightarrow> if c = CHR ''-'' \<or> c = CHR ''+'' then r else t | [] \<Rightarrow> t);
          (b, rest) = number_base base body;
          ds = takeWhile (\<lambda>c. digit_in_base b c \<noteq> None) rest;
          v = digits_number b ds
      in if ds = [] then (0, False, s)
         else if v \<ge> 2 ^ 64 then (2 ^ 64 - 1, True, drop (length ds) rest)
         else ((if neg then (2 ^ 64 - v) mod 2 ^ 64 else v), False, drop (length ds) rest))"

section \<open>Words\<close>

lemma and_mask_numeral:
  "(x :: 'a::len word) AND 63 = take_bit 6 x"
  "x AND 255 = take_bit 8 x"
  "x AND 15 = take_bit 4 x"
  "x AND 31 = take_bit 5 x"
  "x AND 7 = take_bit 3 x"
  "x AND 127 = take_bit 7 x"
  "x AND 1023 = take_bit 10 x"
  by (simp_all add: take_bit_eq_mask mask_eq_exp_minus_1)

text \<open>Equality of words of a concrete length, bit by bit: \<open>simp\<close> evaluates the list of positions.\<close>

lemma word_bitsI:
  assumes "list_all (\<lambda>n. bit x n \<longleftrightarrow> bit y n) [0..<LENGTH('a)]"
  shows "x = (y :: 'a::len word)"
  using assms by (auto simp: list_all_iff intro: bit_word_eqI)

lemma bit_positions:
  "[0..<8] = [0, 1, 2, 3, 4, 5, 6, 7]"
  "[0..<16] = [0, 1, 2, 3, 4, 5, 6, 7, 8, 9, 10, 11, 12, 13, 14, 15]"
  "[0..<32] = [0, 1, 2, 3, 4, 5, 6, 7, 8, 9, 10, 11, 12, 13, 14, 15,
     16, 17, 18, 19, 20, 21, 22, 23, 24, 25, 26, 27, 28, 29, 30, 31]"
  by code_simp+

lemma bit_byte_high: "8 \<le> n \<Longrightarrow> \<not> bit (b :: byte) n"
  using bit_imp_le_length [of b n] by auto

lemma bit_u16_high: "16 \<le> n \<Longrightarrow> \<not> bit (b :: u16) n"
  using bit_imp_le_length [of b n] by auto

lemmas bitwise_simps = and_mask_numeral bit_simps bit_positions bit_byte_high bit_u16_high

lemma take_bit_word_unat_less: "unat (take_bit k (x :: 'a::len word)) < 2 ^ k"
  by (simp add: unsigned_take_bit_eq)

lemma unat_byte_less [simp]: "unat (b :: byte) < 256"
  using unsigned_less [of b, where ?'a = nat] by simp

lemma unat_ucast_byte [simp]:
  "unat (ucast (b :: byte) :: u64) = unat b"
  "unat (ucast (b :: byte) :: u32) = unat b"
  "unat (ucast (b :: byte) :: u16) = unat b"
  by (simp_all only: unsigned_ucast_eq len_num0 len_num1 len_bit0 len_bit1,
      (rule take_bit_nat_eq_self, rule less_trans [OF unat_byte_less], simp)+)

end
