(* ===== verification/Hex.thy ===== *)
theory Hex
  imports Tamga_Prelude
begin

text \<open>
  \<open>src/lib/util/Hex.cpp\<close>: lower-case hexadecimal text of bytes, of a 64-bit number, and
  the FNV-1a fingerprint that the caches use as a key. \<open>HexDecode\<close> is a reference decoder
  of this development, not of the sources; it states that the encoders lose nothing.
\<close>

section \<open>The program\<close>

definition kHex :: string where
  "kHex = ''0123456789abcdef''"

text \<open>\<open>stream << std::hex << std::setfill('0') << std::setw(2)\<close> of one byte.\<close>

definition hex_byte :: "byte \<Rightarrow> string" where
  "hex_byte b = [kHex ! (unat b div 16), kHex ! (unat b mod 16)]"

definition HexEncode :: "bytes \<Rightarrow> string" where
  "HexEncode data = (if data = [] then [] else concat (map hex_byte data))"

definition HexFromUInt64 :: "u64 \<Rightarrow> string" where
  "HexFromUInt64 value =
     map (\<lambda>i. kHex ! unat (drop_bit ((16 - 1 - i) * 4) value AND 0x0F)) [0..<16]"

definition fnv_step :: "u64 \<Rightarrow> byte \<Rightarrow> u64" where
  "fnv_step hash b = (hash XOR ucast b) * 1099511628211"

definition StableDerHash :: "bytes \<Rightarrow> string" where
  "StableDerHash data = HexFromUInt64 (foldl fnv_step 1469598103934665603 data)"

section \<open>A reference decoder\<close>

definition hex_value :: "char \<Rightarrow> nat option" where
  "hex_value c = find_index (\<lambda>x. x = c) kHex"

fun HexDecode :: "string \<Rightarrow> bytes option" where
  "HexDecode [] = Some []"
| "HexDecode [_] = None"
| "HexDecode (c # d # rest) =
     (case (hex_value c, hex_value d, HexDecode rest) of
        (Some hi, Some lo, Some tail) \<Rightarrow> Some (word_of_nat (16 * hi + lo) # tail)
      | _ \<Rightarrow> None)"

lemma hex_values: "map hex_value kHex = map Some [0..<16]"
  by code_simp

lemma length_kHex [simp]: "length kHex = 16"
  by (simp add: kHex_def)

lemma hex_value_nth [simp]: "n < 16 \<Longrightarrow> hex_value (kHex ! n) = Some n"
  using arg_cong [OF hex_values, of "\<lambda>xs. xs ! n"] by simp

lemma kHex_nth_inject: "m < 16 \<Longrightarrow> n < 16 \<Longrightarrow> kHex ! m = kHex ! n \<longleftrightarrow> m = n"
  by (metis hex_value_nth option.inject)

section \<open>Round trip and injectivity\<close>

lemma HexDecode_concat: "HexDecode (concat (map hex_byte data)) = Some data"
proof (induction data)
  case (Cons b data)
  have "unat b div 16 < 16" using unat_byte_less [of b] by linarith
  with Cons show ?case by (simp add: hex_byte_def)
qed simp

lemma HexDecode_HexEncode [codec_simps]: "HexDecode (HexEncode data) = Some data"
  by (simp add: HexEncode_def HexDecode_concat)

lemma length_HexEncode: "length (HexEncode data) = 2 * length data"
proof -
  have "length (concat (map hex_byte data)) = 2 * length data"
    by (induction data) (simp_all add: hex_byte_def)
  then show ?thesis by (simp add: HexEncode_def)
qed

lemma nibble_less: "unat (drop_bit k (v :: u64) AND 0x0F) < 16"
  using take_bit_word_unat_less [of 4 "drop_bit k v"] by (simp add: and_mask_numeral)

lemma word64_from_nibbles:
  assumes "\<And>i. i < 16 \<Longrightarrow> drop_bit (i * 4) (v :: u64) AND 0x0F = drop_bit (i * 4) w AND 0x0F"
  shows "v = w"
proof (rule bit_word_eqI)
  fix n
  assume "n < LENGTH(64)"
  then have n: "n div 4 < 16" by simp
  have "bit (take_bit 4 (drop_bit (n div 4 * 4) v)) (n mod 4)
      = bit (take_bit 4 (drop_bit (n div 4 * 4) w)) (n mod 4)"
    using assms [OF n] by (simp add: and_mask_numeral)
  then show "bit v n = bit w n"
    by (simp add: bit_take_bit_iff bit_drop_bit_eq)
qed

lemma HexFromUInt64_nth:
  "i < 16 \<Longrightarrow> HexFromUInt64 v ! (15 - i) = kHex ! unat (drop_bit (i * 4) v AND 0x0F)"
  using nth_upt [of 0 "15 - i" 16] by (simp add: HexFromUInt64_def)

lemma HexFromUInt64_inject: "HexFromUInt64 v = HexFromUInt64 w \<longleftrightarrow> v = w"
proof
  assume eq: "HexFromUInt64 v = HexFromUInt64 w"
  have "drop_bit (i * 4) v AND 0x0F = drop_bit (i * 4) w AND 0x0F" if i: "i < 16" for i
  proof -
    have "kHex ! unat (drop_bit (i * 4) v AND 0x0F) = kHex ! unat (drop_bit (i * 4) w AND 0x0F)"
      using HexFromUInt64_nth [OF i, of v] HexFromUInt64_nth [OF i, of w] eq by simp
    then show ?thesis
      by (simp add: kHex_nth_inject nibble_less word_unat_eq_iff)
  qed
  then show "v = w" by (rule word64_from_nibbles)
qed simp

text \<open>
  \<open>HexEncode\<close> produces two characters for every byte and loses nothing: the reference
  decoder returns the bytes; \<open>HexFromUInt64\<close> always produces 16 characters and two
  different numbers never share a text, so a \<open>StableDerHash\<close> key collides exactly when the
  two FNV-1a fingerprints do.
\<close>

theorem hex_faithful:
  "HexDecode (HexEncode data) = Some data \<and> length (HexEncode data) = 2 * length data
   \<and> length (HexFromUInt64 v) = 16
   \<and> (StableDerHash x = StableDerHash y \<longleftrightarrow>
       foldl fnv_step 1469598103934665603 x = foldl fnv_step 1469598103934665603 y)"
  by (simp add: codec_simps length_HexEncode StableDerHash_def HexFromUInt64_inject)
    (simp add: HexFromUInt64_def)

end
