(* ===== verification/Sha256.thy ===== *)
theory Sha256
  imports Hex
begin

text \<open>
  \<open>core/policy/Sha256Helper.h\<close>: the project's own SHA-256 on 32-bit words, which names the
  pieces of evidence. The model follows the code: the padding loop, the schedule array filled
  in place, 64 rounds over eight variables. It is proved equal to a separate reference
  definition in the style of the standard (recursive schedule, closed-form padding, the
  library's rotation).
\<close>

unbundle bit_operations_syntax

section \<open>The program\<close>

definition RotateRight :: "u32 \<Rightarrow> nat \<Rightarrow> u32" where
  "RotateRight value bits = drop_bit bits value OR push_bit (32 - bits) value"

definition ReadBigEndian32 :: "bytes \<Rightarrow> nat \<Rightarrow> u32" where
  "ReadBigEndian32 bs i =
     push_bit 24 (ucast (bs ! i)) OR push_bit 16 (ucast (bs ! (i + 1))) OR
     push_bit 8 (ucast (bs ! (i + 2))) OR ucast (bs ! (i + 3))"

definition WriteBigEndian64 :: "bytes \<Rightarrow> u64 \<Rightarrow> bytes" where
  "WriteBigEndian64 bs value =
     bs @ map (\<lambda>shift. ucast (drop_bit shift value AND 0xff)) [56, 48, 40, 32, 24, 16, 8, 0]"

definition sha_k :: "u32 list" where
  "sha_k = concat [
      [0x428a2f98, 0x71374491, 0xb5c0fbcf, 0xe9b5dba5],
      [0x3956c25b, 0x59f111f1, 0x923f82a4, 0xab1c5ed5],
      [0xd807aa98, 0x12835b01, 0x243185be, 0x550c7dc3],
      [0x72be5d74, 0x80deb1fe, 0x9bdc06a7, 0xc19bf174],
      [0xe49b69c1, 0xefbe4786, 0x0fc19dc6, 0x240ca1cc],
      [0x2de92c6f, 0x4a7484aa, 0x5cb0a9dc, 0x76f988da],
      [0x983e5152, 0xa831c66d, 0xb00327c8, 0xbf597fc7],
      [0xc6e00bf3, 0xd5a79147, 0x06ca6351, 0x14292967],
      [0x27b70a85, 0x2e1b2138, 0x4d2c6dfc, 0x53380d13],
      [0x650a7354, 0x766a0abb, 0x81c2c92e, 0x92722c85],
      [0xa2bfe8a1, 0xa81a664b, 0xc24b8b70, 0xc76c51a3],
      [0xd192e819, 0xd6990624, 0xf40e3585, 0x106aa070],
      [0x19a4c116, 0x1e376c08, 0x2748774c, 0x34b0bcb5],
      [0x391c0cb3, 0x4ed8aa4a, 0x5b9cca4f, 0x682e6ff3],
      [0x748f82ee, 0x78a5636f, 0x84c87814, 0x8cc70208],
      [0x90befffa, 0xa4506ceb, 0xbef9a3f7, 0xc67178f2]]"

text \<open>The number of zero bytes the padding of \<open>n\<close> bytes needs, and the \<open>while\<close> loop that adds them.\<close>

definition pad_count :: "nat \<Rightarrow> nat" where
  "pad_count n = (if n mod 64 \<le> 56 then 56 - n mod 64 else 120 - n mod 64)"

lemma pad_count_0 [simp]: "n mod 64 = 56 \<Longrightarrow> pad_count n = 0"
  by (simp add: pad_count_def)

lemma pad_count_Suc: "n mod 64 \<noteq> 56 \<Longrightarrow> pad_count n = Suc (pad_count (Suc n))"
  using mod_less_divisor [of 64 n] by (auto simp: pad_count_def mod_Suc)

lemma pad_count_full: "(n + pad_count n + 8) mod 64 = 0"
proof -
  have "n mod 64 < 64" by simp
  then have "n mod 64 + (pad_count n + 8) = 64 \<or> n mod 64 + (pad_count n + 8) = 128"
    by (auto simp: pad_count_def)
  then have "(n mod 64 + (pad_count n + 8)) mod 64 = 0" by (elim disjE) (simp_all only:, simp_all)
  then show ?thesis unfolding mod_add_left_eq by (simp add: add.assoc)
qed

function pad_zeros :: "bytes \<Rightarrow> bytes" where
  "pad_zeros message = (if length message mod 64 \<noteq> 56 then pad_zeros (message @ [0]) else message)"
  by pat_completeness auto
termination
  by (relation "measure (\<lambda>message. pad_count (length message))") (simp_all add: pad_count_Suc)

declare pad_zeros.simps [simp del]

definition sha_pad :: "bytes \<Rightarrow> bytes" where
  "sha_pad input =
     (let bit_length = of_nat (length input) * 8
      in WriteBigEndian64 (pad_zeros (input @ [0x80])) bit_length)"

text \<open>One assignment of the schedule loop, to the next element \<open>w[i]\<close> with \<open>i = length w\<close>.\<close>

definition schedule_step :: "u32 list \<Rightarrow> u32 list" where
  "schedule_step w =
     (let i = length w;
          s0 = RotateRight (w ! (i - 15)) 7 XOR RotateRight (w ! (i - 15)) 18 XOR drop_bit 3 (w ! (i - 15));
          s1 = RotateRight (w ! (i - 2)) 17 XOR RotateRight (w ! (i - 2)) 19 XOR drop_bit 10 (w ! (i - 2))
      in w @ [w ! (i - 16) + s0 + w ! (i - 7) + s1])"

definition sha_schedule :: "bytes \<Rightarrow> nat \<Rightarrow> u32 list" where
  "sha_schedule message offset =
     (schedule_step ^^ 48) (map (\<lambda>i. ReadBigEndian32 message (offset + i * 4)) [0..<16])"

type_synonym sha_state = "u32 \<times> u32 \<times> u32 \<times> u32 \<times> u32 \<times> u32 \<times> u32 \<times> u32"

definition sha_round :: "u32 list \<Rightarrow> nat \<Rightarrow> sha_state \<Rightarrow> sha_state" where
  "sha_round w i = (\<lambda>(a, b, c, d, e, f, g, h).
     let s1 = RotateRight e 6 XOR RotateRight e 11 XOR RotateRight e 25;
         ch = (e AND f) XOR (NOT e AND g);
         temp1 = h + s1 + ch + sha_k ! i + w ! i;
         s0 = RotateRight a 2 XOR RotateRight a 13 XOR RotateRight a 22;
         maj = (a AND b) XOR (a AND c) XOR (b AND c);
         temp2 = s0 + maj
     in (temp1 + temp2, a, b, c, d + temp1, e, f, g))"

definition sha_init :: sha_state where
  "sha_init = (0x6a09e667, 0xbb67ae85, 0x3c6ef372, 0xa54ff53a, 0x510e527f, 0x9b05688c, 0x1f83d9ab, 0x5be0cd19)"

definition sha_add :: "sha_state \<Rightarrow> sha_state \<Rightarrow> sha_state" where
  "sha_add = (\<lambda>(h0, h1, h2, h3, h4, h5, h6, h7) (a, b, c, d, e, f, g, h).
     (h0 + a, h1 + b, h2 + c, h3 + d, h4 + e, h5 + f, h6 + g, h7 + h))"

definition sha_block :: "bytes \<Rightarrow> sha_state \<Rightarrow> nat \<Rightarrow> sha_state" where
  "sha_block message st offset =
     (let w = sha_schedule message offset in sha_add st (fold (sha_round w) [0..<64] st))"

definition word_bytes :: "u32 \<Rightarrow> bytes" where
  "word_bytes x = [ucast (drop_bit 24 x AND 0xff), ucast (drop_bit 16 x AND 0xff),
                   ucast (drop_bit 8 x AND 0xff), ucast (x AND 0xff)]"

definition Sha256 :: "bytes \<Rightarrow> bytes" where
  "Sha256 input =
     (let message = sha_pad input;
          (h0, h1, h2, h3, h4, h5, h6, h7) =
            foldl (sha_block message) sha_init (map (\<lambda>i. i * 64) [0..<(length message + 63) div 64])
      in concat (map word_bytes [h0, h1, h2, h3, h4, h5, h6, h7]))"

definition LowerHex :: "bytes \<Rightarrow> string" where
  "LowerHex digest = concat (map (\<lambda>b. [kHex ! unat (drop_bit 4 b AND 0x0f), kHex ! unat (b AND 0x0f)]) digest)"

definition ComputeSha256Hex :: "bytes \<Rightarrow> string" where
  "ComputeSha256Hex bs = (if bs = [] then [] else ''sha256:'' @ LowerHex (Sha256 bs))"

section \<open>Padding\<close>

lemma pad_zeros_closed: "pad_zeros message = message @ replicate (pad_count (length message)) 0"
proof (induction message rule: pad_zeros.induct)
  case (1 message)
  show ?case
  proof (cases "length message mod 64 \<noteq> 56")
    case True
    then show ?thesis using 1 by (simp add: pad_zeros.simps [of message] pad_count_Suc)
  qed (simp add: pad_zeros.simps [of message])
qed

lemma sha_pad_closed:
  "sha_pad input = input @ [0x80] @ replicate (pad_count (length input + 1)) 0
     @ WriteBigEndian64 [] (of_nat (length input) * 8)"
  by (simp add: sha_pad_def WriteBigEndian64_def pad_zeros_closed Let_def)

lemma sha_pad_length: "64 dvd length (sha_pad input)"
  using pad_count_full [of "Suc (length input)"]
  by (simp add: sha_pad_closed WriteBigEndian64_def dvd_eq_mod_eq_0 add.commute add.left_commute)

section \<open>Reference definition\<close>

text \<open>
  The functions of FIPS 180-4 with the library's rotation, the schedule by recursion on the
  index, the message of whole blocks of sixteen words.
\<close>

definition fips_Ch :: "u32 \<Rightarrow> u32 \<Rightarrow> u32 \<Rightarrow> u32" where
  "fips_Ch x y z = (x AND y) XOR (NOT x AND z)"

definition fips_Maj :: "u32 \<Rightarrow> u32 \<Rightarrow> u32 \<Rightarrow> u32" where
  "fips_Maj x y z = (x AND y) XOR (x AND z) XOR (y AND z)"

definition fips_S0 :: "u32 \<Rightarrow> u32" where
  "fips_S0 x = word_rotr 2 x XOR word_rotr 13 x XOR word_rotr 22 x"

definition fips_S1 :: "u32 \<Rightarrow> u32" where
  "fips_S1 x = word_rotr 6 x XOR word_rotr 11 x XOR word_rotr 25 x"

definition fips_s0 :: "u32 \<Rightarrow> u32" where
  "fips_s0 x = word_rotr 7 x XOR word_rotr 18 x XOR drop_bit 3 x"

definition fips_s1 :: "u32 \<Rightarrow> u32" where
  "fips_s1 x = word_rotr 17 x XOR word_rotr 19 x XOR drop_bit 10 x"

fun fips_W :: "(nat \<Rightarrow> u32) \<Rightarrow> nat \<Rightarrow> u32" where
  "fips_W M t = (if t < 16 then M t
     else fips_s1 (fips_W M (t - 2)) + fips_W M (t - 7) + fips_s0 (fips_W M (t - 15)) + fips_W M (t - 16))"

declare fips_W.simps [simp del]

fun fips_rounds :: "(nat \<Rightarrow> u32) \<Rightarrow> nat \<Rightarrow> sha_state \<Rightarrow> sha_state" where
  "fips_rounds M 0 st = st"
| "fips_rounds M (Suc t) st =
     (case fips_rounds M t st of (a, b, c, d, e, f, g, h) \<Rightarrow>
        let T1 = h + fips_S1 e + fips_Ch e f g + sha_k ! t + fips_W M t;
            T2 = fips_S0 a + fips_Maj a b c
        in (T1 + T2, a, b, c, d + T1, e, f, g))"

definition big_endian :: "bytes \<Rightarrow> nat" where
  "big_endian bs = foldl (\<lambda>n b. n * 256 + unat b) 0 bs"

definition fips_word :: "bytes \<Rightarrow> nat \<Rightarrow> nat \<Rightarrow> u32" where
  "fips_word message i t = of_nat (big_endian (take 4 (drop (64 * i + 4 * t) message)))"

definition fips_hash :: "bytes \<Rightarrow> nat \<Rightarrow> sha_state" where
  "fips_hash message n =
     foldl (\<lambda>st i. sha_add st (fips_rounds (fips_word message i) 64 st)) sha_init [0..<n]"

lemma RotateRight_word_rotr: "0 < n \<Longrightarrow> n < 32 \<Longrightarrow> RotateRight x n = word_rotr n x"
proof (rule bit_word_eqI)
  fix i
  assume "0 < n" "n < 32" "i < LENGTH(32)"
  moreover from this have "(i + n) mod 32 = (if i + n < 32 then i + n else i + n - 32)"
    by (simp add: le_mod_geq)
  moreover have "\<not> bit x (i + n)" if "32 \<le> i + n" using bit_imp_le_length [of x "i + n"] that by auto
  ultimately show "bit (RotateRight x n) i \<longleftrightarrow> bit (word_rotr n x) i"
    by (auto simp: RotateRight_def bit_word_rotr_iff bit_or_iff bit_drop_bit_eq bit_push_bit_iff add.commute)
qed

lemma schedule_length: "length ((schedule_step ^^ n) w) = length w + n"
  by (induction n) (simp_all add: schedule_step_def Let_def)

lemma schedule_fips:
  "length w = 16 \<Longrightarrow> i < 16 + n \<Longrightarrow> (schedule_step ^^ n) w ! i = fips_W (\<lambda>t. w ! t) i"
proof (induction n arbitrary: i)
  case 0
  then show ?case by (simp add: fips_W.simps)
next
  case (Suc n)
  let ?v = "(schedule_step ^^ n) w"
  have len: "length ?v = 16 + n" using Suc.prems(1) by (simp add: schedule_length)
  have step: "(schedule_step ^^ Suc n) w = schedule_step ?v" by simp
  show ?case
  proof (cases "i < 16 + n")
    case True
    then have "schedule_step ?v ! i = ?v ! i" using len by (simp add: schedule_step_def Let_def nth_append)
    then show ?thesis using Suc.IH [OF Suc.prems(1) True] step by simp
  next
    case False
    then have i: "i = n + 16" using Suc.prems(2) by simp
    have prev: "?v ! (i - k) = fips_W (\<lambda>t. w ! t) (i - k)" if "0 < k" for k
      using Suc.IH [OF Suc.prems(1), of "i - k"] i that by simp
    have "schedule_step ?v ! i = ?v ! (i - 16) + fips_s0 (?v ! (i - 15)) + ?v ! (i - 7) + fips_s1 (?v ! (i - 2))"
      using len i by (simp add: schedule_step_def Let_def nth_append fips_s0_def fips_s1_def RotateRight_word_rotr)
    also have "\<dots> = fips_W (\<lambda>t. w ! t) i"
      using prev [of 16] prev [of 15] prev [of 7] prev [of 2] unfolding i
      by (simp add: fips_W.simps [of _ "n + 16"] algebra_simps)
    finally show ?thesis using step by simp
  qed
qed

lemma fips_W_cong: "(\<And>t. t < 16 \<Longrightarrow> M t = N t) \<Longrightarrow> fips_W M t = fips_W N t"
proof (induction M t rule: fips_W.induct)
  case (1 M t)
  then show ?case by (simp add: fips_W.simps [of M t] fips_W.simps [of N t])
qed

lemma round_fips:
  "length w = 64 \<Longrightarrow> (\<forall>i<64. w ! i = fips_W M i) \<Longrightarrow> n \<le> 64 \<Longrightarrow>
     fold (sha_round w) [0..<n] st = fips_rounds M n st"
proof (induction n)
  case (Suc n)
  then have "fold (sha_round w) [0..<n] st = fips_rounds M n st" "w ! n = fips_W M n" by simp_all
  then have "fold (sha_round w) [0..<Suc n] st = sha_round w n (fips_rounds M n st)" by simp
  also have "\<dots> = fips_rounds M (Suc n) st"
    using \<open>w ! n = fips_W M n\<close>
    by (simp add: sha_round_def fips_S0_def fips_S1_def fips_Ch_def fips_Maj_def RotateRight_word_rotr
        Let_def)
  finally show ?case .
qed simp

lemma ReadBigEndian32_value:
  assumes "i + 4 \<le> length bs"
  shows "ReadBigEndian32 bs i = of_nat (big_endian (take 4 (drop i bs)))"
proof -
  have t: "take 4 (drop i bs) = [bs ! i, bs ! (i + 1), bs ! (i + 2), bs ! (i + 3)]"
    using assms by (simp add: take_Suc_conv_app_nth numeral_eq_Suc Cons_nth_drop_Suc [symmetric])
  have len: "n < 8" if "bit a n" for a :: byte and n using bit_imp_le_length [OF that] by simp
  have e1: "push_bit 8 (ucast c) OR ucast d = push_bit 8 (ucast c) + (ucast d :: u32)" for c d :: byte
    by (rule disjunctive_add_eq_or [symmetric]) (auto simp: bit_eq_iff bit_simps dest: len)
  have e2: "push_bit 16 (ucast b) OR push_bit 8 (ucast c) OR ucast d
      = push_bit 16 (ucast b) + (push_bit 8 (ucast c) OR (ucast d :: u32))" for b c d :: byte
    by (rule disjunctive_add_eq_or [symmetric]) (auto simp: bit_eq_iff bit_simps dest: len)
  have e3: "push_bit 24 (ucast a) OR push_bit 16 (ucast b) OR push_bit 8 (ucast c) OR ucast d
      = push_bit 24 (ucast a) + (push_bit 16 (ucast b) OR push_bit 8 (ucast c) OR (ucast d :: u32))" for a b c d :: byte
    by (rule disjunctive_add_eq_or [symmetric]) (auto simp: bit_eq_iff bit_simps dest: len)
  show ?thesis
    unfolding ReadBigEndian32_def t big_endian_def unfolding e3 unfolding e2 unfolding e1
    by (simp add: push_bit_eq_mult algebra_simps)
qed

text \<open>
  C11. The project's SHA-256 is the standard function: for every input, the digest is the
  result of the reference definition on the padded message, whose length is a multiple of
  64 bytes and which is the input, the byte 0x80, the least number of zero bytes and the
  64-bit length in bits.
\<close>

theorem Sha256_refines_reference:
  "64 dvd length (sha_pad input)
   \<and> sha_pad input = input @ [0x80] @ replicate (pad_count (length input + 1)) 0
       @ WriteBigEndian64 [] (of_nat (length input) * 8)
   \<and> Sha256 input = (case fips_hash (sha_pad input) (length (sha_pad input) div 64) of
       (h0, h1, h2, h3, h4, h5, h6, h7) \<Rightarrow> concat (map word_bytes [h0, h1, h2, h3, h4, h5, h6, h7]))"
proof (intro conjI sha_pad_length sha_pad_closed)
  let ?m = "sha_pad input"
  obtain n where n: "length ?m = 64 * n" using sha_pad_length by (metis dvdE)
  have blocks: "(length ?m + 63) div 64 = n" "length ?m div 64 = n" using n by auto
  have block: "sha_block ?m st (i * 64) = sha_add st (fips_rounds (fips_word ?m i) 64 st)" if "i < n" for st i
  proof -
    let ?w = "map (\<lambda>k. ReadBigEndian32 ?m (i * 64 + k * 4)) [0..<16]"
    have word: "?w ! t = fips_word ?m i t" if "t < 16" for t
      using that \<open>i < n\<close> n by (simp add: fips_word_def ReadBigEndian32_value algebra_simps)
    then have "fips_W (\<lambda>t. ?w ! t) t = fips_W (fips_word ?m i) t" for t by (intro fips_W_cong) blast
    then have "\<forall>t<64. sha_schedule ?m (i * 64) ! t = fips_W (fips_word ?m i) t"
      by (simp add: sha_schedule_def schedule_fips)
    moreover have "length (sha_schedule ?m (i * 64)) = 64" by (simp add: sha_schedule_def schedule_length)
    ultimately show ?thesis using round_fips [of _ "fips_word ?m i" 64 st] by (simp add: sha_block_def Let_def)
  qed
  have "foldl (sha_block ?m) st (map (\<lambda>i. i * 64) is) = foldl (\<lambda>st i. sha_add st (fips_rounds (fips_word ?m i) 64 st)) st is"
    if "\<forall>i\<in>set is. i < n" for st "is"
    using that by (induction "is" arbitrary: st) (simp_all add: block)
  then have "foldl (sha_block ?m) sha_init (map (\<lambda>i. i * 64) [0..<n]) = fips_hash ?m n"
    by (simp add: fips_hash_def)
  then show "Sha256 input = (case fips_hash ?m (length ?m div 64) of
       (h0, h1, h2, h3, h4, h5, h6, h7) \<Rightarrow> concat (map word_bytes [h0, h1, h2, h3, h4, h5, h6, h7]))"
    by (simp add: Sha256_def Let_def blocks)
qed

text \<open>
  The standard derives its constants: a word is the first 32 bits of the fractional part of
  the \<open>n\<close>-th root of a prime \<open>p\<close> when, below some integer part \<open>q\<close>, the number \<open>q + w / 2\<^sup>3\<^sup>2\<close> is the
  root rounded down to 32 binary places.
\<close>

definition root_word :: "nat \<Rightarrow> int \<Rightarrow> u32 \<Rightarrow> bool" where
  "root_word n p w \<longleftrightarrow> list_ex (\<lambda>q. let r = q * 2 ^ 32 + uint w
     in r ^ n \<le> p * (2 ^ 32) ^ n \<and> p * (2 ^ 32) ^ n < (r + 1) ^ n) [0..15]"

definition first_primes :: "int list" where
  "first_primes = [
      2, 3, 5, 7, 11, 13, 17, 19, 23, 29, 31, 37, 41, 43, 47, 53,
      59, 61, 67, 71, 73, 79, 83, 89, 97, 101, 103, 107, 109, 113, 127, 131,
      137, 139, 149, 151, 157, 163, 167, 173, 179, 181, 191, 193, 197, 199, 211, 223,
      227, 229, 233, 239, 241, 251, 257, 263, 269, 271, 277, 281, 283, 293, 307, 311]"

text \<open>
  The constants in the source are those of the standard: the 64 round constants come from
  the cube roots of the first 64 primes and the initial hash value from the square roots of
  the first eight.
\<close>

theorem sha_constants_standard:
  "list_all2 (root_word 3) first_primes sha_k
   \<and> (case sha_init of (h0, h1, h2, h3, h4, h5, h6, h7) \<Rightarrow>
        list_all2 (root_word 2) (take 8 first_primes) [h0, h1, h2, h3, h4, h5, h6, h7])"
  by code_simp

section \<open>Evidence names\<close>

lemma hex_nibbles: "unat (drop_bit 4 b AND 0x0f) = unat b div 16" "unat (b AND 0x0f) = unat b mod 16" for b :: byte
proof -
  have "unat b div 16 < 16" using unat_byte_less [of b] by linarith
  then show "unat (drop_bit 4 b AND 0x0f) = unat b div 16"
    by (simp add: and_mask_numeral unsigned_take_bit_eq unsigned_drop_bit_eq take_bit_eq_mod [of _ "_ :: nat"]
        drop_bit_eq_div [of _ "unat b"])
  show "unat (b AND 0x0f) = unat b mod 16"
    by (simp add: and_mask_numeral unsigned_take_bit_eq take_bit_eq_mod [of _ "_ :: nat"])
qed

lemma LowerHex_eq: "LowerHex d = HexEncode d"
proof -
  have "(\<lambda>b. [kHex ! unat (drop_bit 4 b AND 0x0f), kHex ! unat (b AND 0x0f)]) = hex_byte"
    unfolding hex_nibbles(1) unfolding hex_nibbles(2) by (rule ext) (simp add: hex_byte_def)
  then show ?thesis by (simp only: LowerHex_def HexEncode_def) simp
qed

lemma Sha256_length: "length (Sha256 input) = 32"
  by (simp add: Sha256_def Let_def word_bytes_def split: prod.split)

lemma ComputeSha256Hex_empty_iff [simp]: "ComputeSha256Hex bs = [] \<longleftrightarrow> bs = []"
  by (simp add: ComputeSha256Hex_def)

lemma ComputeSha256Hex_inject:
  assumes "x \<noteq> []" "y \<noteq> []"
  shows "ComputeSha256Hex x = ComputeSha256Hex y \<longleftrightarrow> Sha256 x = Sha256 y"
proof -
  have "HexEncode (Sha256 x) = HexEncode (Sha256 y) \<longleftrightarrow> Sha256 x = Sha256 y"
    using HexDecode_HexEncode by (metis option.inject)
  then show ?thesis using assms by (simp add: ComputeSha256Hex_def LowerHex_eq)
qed

end
