(* ===== verification/Sha1.thy ===== *)
theory Sha1
  imports Sha256
begin

text \<open>
  The SHA-1 of \<open>core/KeyParsers.cpp\<close>, which protects Java key stores: whole blocks are read from
  the input, the rest and the length are laid into a tail of one or two blocks. It is proved
  equal to a reference definition in the style of the standard on the padded message.
\<close>

section \<open>The program\<close>

definition RotateLeft32Bits :: "u32 \<Rightarrow> nat \<Rightarrow> u32" where
  "RotateLeft32Bits value shift = push_bit shift value OR drop_bit (32 - shift) value"

type_synonym sha1_state = "u32 \<times> u32 \<times> u32 \<times> u32 \<times> u32"

definition sha1_schedule_step :: "u32 list \<Rightarrow> u32 list" where
  "sha1_schedule_step w =
     (let i = length w
      in w @ [RotateLeft32Bits (w ! (i - 3) XOR w ! (i - 8) XOR w ! (i - 14) XOR w ! (i - 16)) 1])"

definition sha1_schedule :: "bytes \<Rightarrow> u32 list" where
  "sha1_schedule block = (sha1_schedule_step ^^ 64) (map (\<lambda>i. ReadBigEndian32 block (i * 4)) [0..<16])"

definition sha1_round :: "u32 list \<Rightarrow> nat \<Rightarrow> sha1_state \<Rightarrow> sha1_state" where
  "sha1_round schedule i = (\<lambda>(a, b, c, d, e).
     let (f, k) =
           (if i < 20 then ((b AND c) OR (NOT b AND d), 0x5A827999)
            else if i < 40 then (b XOR c XOR d, 0x6ED9EBA1)
            else if i < 60 then ((b AND c) OR (b AND d) OR (c AND d), 0x8F1BBCDC)
            else (b XOR c XOR d, 0xCA62C1D6));
         temp = RotateLeft32Bits a 5 + f + e + k + schedule ! i
     in (temp, a, RotateLeft32Bits b 30, c, d))"

definition sha1_init :: sha1_state where
  "sha1_init = (0x67452301, 0xEFCDAB89, 0x98BADCFE, 0x10325476, 0xC3D2E1F0)"

definition sha1_add :: "sha1_state \<Rightarrow> sha1_state \<Rightarrow> sha1_state" where
  "sha1_add = (\<lambda>(h0, h1, h2, h3, h4) (a, b, c, d, e). (h0 + a, h1 + b, h2 + c, h3 + d, h4 + e))"

definition process_block :: "sha1_state \<Rightarrow> bytes \<Rightarrow> sha1_state" where
  "process_block st block = sha1_add st (fold (sha1_round (sha1_schedule block)) [0..<80] st)"

text \<open>The 128 bytes of the tail, and how many of them are used.\<close>

definition sha1_total_tail :: "nat \<Rightarrow> nat" where
  "sha1_total_tail remainder = (if remainder \<ge> 56 then 128 else 64)"

definition sha1_tail :: "bytes \<Rightarrow> bytes" where
  "sha1_tail data =
     (let size = length data;
          remainder = size mod 64;
          tail = drop (size div 64 * 64) data @ replicate (128 - remainder) 0;
          tail = tail[remainder := 0x80];
          bit_length = of_nat size * 8 :: u64;
          length_offset = sha1_total_tail remainder - 8
      in foldl (\<lambda>tail i. tail[length_offset + i := ucast (drop_bit ((7 - i) * 8) bit_length AND 0xff)]) tail [0..<8])"

definition Sha1Digest :: "bytes \<Rightarrow> bytes" where
  "Sha1Digest data =
     (let full_blocks = length data div 64;
          st = foldl (\<lambda>st i. process_block st (drop (i * 64) data)) sha1_init [0..<full_blocks];
          st = process_block st (sha1_tail data);
          st = (if length data mod 64 \<ge> 56 then process_block st (drop 64 (sha1_tail data)) else st);
          (h0, h1, h2, h3, h4) = st
      in concat (map word_bytes [h0, h1, h2, h3, h4]))"

section \<open>Reference definition\<close>

definition fips1_f :: "nat \<Rightarrow> u32 \<Rightarrow> u32 \<Rightarrow> u32 \<Rightarrow> u32" where
  "fips1_f t x y z = (if t < 20 then fips_Ch x y z else if 40 \<le> t \<and> t < 60 then fips_Maj x y z else x XOR y XOR z)"

definition fips1_K :: "nat \<Rightarrow> u32" where
  "fips1_K t = [0x5A827999, 0x6ED9EBA1, 0x8F1BBCDC, 0xCA62C1D6] ! (t div 20)"

fun fips1_W :: "(nat \<Rightarrow> u32) \<Rightarrow> nat \<Rightarrow> u32" where
  "fips1_W M t = (if t < 16 then M t
     else word_rotl 1 (fips1_W M (t - 3) XOR fips1_W M (t - 8) XOR fips1_W M (t - 14) XOR fips1_W M (t - 16)))"

declare fips1_W.simps [simp del]

fun fips1_rounds :: "(nat \<Rightarrow> u32) \<Rightarrow> nat \<Rightarrow> sha1_state \<Rightarrow> sha1_state" where
  "fips1_rounds M 0 st = st"
| "fips1_rounds M (Suc t) st =
     (case fips1_rounds M t st of (a, b, c, d, e) \<Rightarrow>
        (word_rotl 5 a + fips1_f t b c d + e + fips1_K t + fips1_W M t, a, word_rotl 30 b, c, d))"

definition fips1_hash :: "bytes \<Rightarrow> nat \<Rightarrow> sha1_state" where
  "fips1_hash message n =
     foldl (\<lambda>st i. sha1_add st (fips1_rounds (fips_word message i) 80 st)) sha1_init [0..<n]"

section \<open>One block\<close>

lemma RotateLeft_word_rotl: "0 < n \<Longrightarrow> n < 32 \<Longrightarrow> RotateLeft32Bits x n = word_rotl n x"
proof (rule bit_word_eqI)
  fix i
  assume n: "0 < n" "n < 32" and i: "i < LENGTH(32)"
  have m: "(i + (LENGTH(32) - n mod LENGTH(32))) mod LENGTH(32) = (if n \<le> i then i - n else i + 32 - n)"
    using n i by (auto simp: mod_if)
  have "\<not> bit x (i + 32 - n)" if "n \<le> i" using bit_imp_le_length [of x "i + 32 - n"] that by auto
  then show "bit (RotateLeft32Bits x n) i \<longleftrightarrow> bit (word_rotl n x) i"
    unfolding bit_word_rotl_iff m using n i
    by (auto simp: RotateLeft32Bits_def bit_or_iff bit_drop_bit_eq bit_push_bit_iff add.commute)
qed

lemma sha1_schedule_length: "length ((sha1_schedule_step ^^ n) w) = length w + n"
  by (induction n) (simp_all add: sha1_schedule_step_def Let_def)

lemma sha1_schedule_fips:
  "length w = 16 \<Longrightarrow> i < 16 + n \<Longrightarrow> (sha1_schedule_step ^^ n) w ! i = fips1_W (\<lambda>t. w ! t) i"
proof (induction n arbitrary: i)
  case 0
  then show ?case by (simp add: fips1_W.simps)
next
  case (Suc n)
  let ?v = "(sha1_schedule_step ^^ n) w"
  have len: "length ?v = 16 + n" using Suc.prems(1) by (simp add: sha1_schedule_length)
  show ?case
  proof (cases "i < 16 + n")
    case True
    then have "sha1_schedule_step ?v ! i = ?v ! i" using len by (simp add: sha1_schedule_step_def Let_def nth_append)
    then show ?thesis using Suc.IH [OF Suc.prems(1) True] by simp
  next
    case False
    then have i: "i = n + 16" using Suc.prems(2) by simp
    have prev: "?v ! (i - k) = fips1_W (\<lambda>t. w ! t) (i - k)" if "0 < k" for k
      using Suc.IH [OF Suc.prems(1), of "i - k"] i that by simp
    have "sha1_schedule_step ?v ! i = word_rotl 1 (?v ! (i - 3) XOR ?v ! (i - 8) XOR ?v ! (i - 14) XOR ?v ! (i - 16))"
      using len i by (simp add: sha1_schedule_step_def Let_def nth_append RotateLeft_word_rotl)
    also have "\<dots> = fips1_W (\<lambda>t. w ! t) i"
      using prev [of 3] prev [of 8] prev [of 14] prev [of 16] unfolding i
      by (simp add: fips1_W.simps [of _ "n + 16"])
    finally show ?thesis by simp
  qed
qed

lemma fips1_W_cong: "(\<And>t. t < 16 \<Longrightarrow> M t = N t) \<Longrightarrow> fips1_W M t = fips1_W N t"
proof (induction M t rule: fips1_W.induct)
  case (1 M t)
  then show ?case by (simp add: fips1_W.simps [of M t] fips1_W.simps [of N t])
qed

lemma boolean_forms:
  "(b AND c) OR (NOT b AND d) = fips_Ch b c d" "(b AND c) OR (b AND d) OR (c AND d) = fips_Maj b c d"
  by (rule bit_word_eqI, auto simp: fips_Ch_def fips_Maj_def bit_simps)+

lemma sha1_round_fips:
  assumes "i < 80" "schedule ! i = fips1_W M i"
  shows "sha1_round schedule i (a, b, c, d, e)
    = (word_rotl 5 a + fips1_f i b c d + e + fips1_K i + fips1_W M i, a, word_rotl 30 b, c, d)"
proof -
  consider "i < 20" "i div 20 = 0" | "20 \<le> i" "i < 40" "i div 20 = 1" | "40 \<le> i" "i < 60" "i div 20 = 2"
    | "60 \<le> i" "i < 80" "i div 20 = 3"
    using assms(1) by linarith
  then show ?thesis
    using assms(2)
    by cases (simp_all add: sha1_round_def Let_def fips1_f_def fips1_K_def boolean_forms RotateLeft_word_rotl)
qed

lemma sha1_rounds_fips:
  "(\<forall>i<80. w ! i = fips1_W M i) \<Longrightarrow> n \<le> 80 \<Longrightarrow> fold (sha1_round w) [0..<n] st = fips1_rounds M n st"
proof (induction n)
  case (Suc n)
  then have "fold (sha1_round w) [0..<n] st = fips1_rounds M n st" "w ! n = fips1_W M n" by simp_all
  then show ?case using Suc.prems by (auto simp: sha1_round_fips split: prod.split)
qed simp

lemma process_block_fips:
  assumes "\<And>t. t < 16 \<Longrightarrow> ReadBigEndian32 block (t * 4) = M t"
  shows "process_block st block = sha1_add st (fips1_rounds M 80 st)"
proof -
  let ?w = "map (\<lambda>i. ReadBigEndian32 block (i * 4)) [0..<16]"
  have "fips1_W (\<lambda>t. ?w ! t) t = fips1_W M t" for t using assms by (intro fips1_W_cong) simp
  then have "\<forall>t<80. sha1_schedule block ! t = fips1_W M t"
    by (simp add: sha1_schedule_def sha1_schedule_fips)
  then have "fold (sha1_round (sha1_schedule block)) [0..<80] st = fips1_rounds M 80 st"
    by (rule sha1_rounds_fips) simp
  then show ?thesis by (simp only: process_block_def)
qed

lemma process_block_word:
  assumes "take 64 block = take 64 (drop (64 * i) message)" "64 * i + 64 \<le> length message"
  shows "process_block st block = sha1_add st (fips1_rounds (fips_word message i) 80 st)"
proof (rule process_block_fips)
  fix t :: nat
  assume "t < 16"
  have "length (take 64 block) = 64" using assms by simp
  then have len: "64 \<le> length block" by simp
  have "take 4 (drop (t * 4) block) = take 4 (drop (t * 4) (take 64 block))"
    using \<open>t < 16\<close> by (simp add: drop_take)
  also have "\<dots> = take 4 (drop (64 * i + 4 * t) message)"
    unfolding assms(1) using \<open>t < 16\<close> by (simp add: drop_take algebra_simps)
  finally show "ReadBigEndian32 block (t * 4) = fips_word message i t"
    using \<open>t < 16\<close> len by (simp add: ReadBigEndian32_value fips_word_def)
qed

section \<open>The tail\<close>

lemma updates_length: "length (foldl (\<lambda>tail i. tail[a + i := f i]) tail is) = length tail"
  by (induction "is" arbitrary: tail) simp_all

lemma tail_updates:
  assumes "length tail = a + 8 + b"
  shows "foldl (\<lambda>tail i. tail[a + i := f i]) tail [0..<8] = take a tail @ map f [0..<8] @ drop (a + 8) tail"
proof (rule nth_equalityI)
  have u: "[0..<8] = [0, 1, 2, 3, 4, 5, 6, 7 :: nat]" by (simp add: upt_rec)
  show "length (foldl (\<lambda>tail i. tail[a + i := f i]) tail [0..<8]) = length (take a tail @ map f [0..<8] @ drop (a + 8) tail)"
    unfolding u using assms by simp
  fix i
  assume "i < length (foldl (\<lambda>tail i. tail[a + i := f i]) tail [0..<8])"
  then have i: "i < a + 8 + b" unfolding u using assms by simp
  consider "i < a" | k where "k < 8" "i = a + k" | "a + 8 \<le> i"
    by (metis add.commute le_Suc_ex linorder_not_less nat_add_left_cancel_less)
  then show "foldl (\<lambda>tail i. tail[a + i := f i]) tail [0..<8] ! i = (take a tail @ map f [0..<8] @ drop (a + 8) tail) ! i"
  proof cases
    case 2
    then have "k \<in> {0, 1, 2, 3, 4, 5, 6, 7}" by auto
    then show ?thesis unfolding u 2(2) using assms by (elim insertE) (simp_all add: nth_append)
  qed (use i assms in \<open>simp_all add: u nth_append\<close>)
qed

lemma sha1_tail_closed:
  defines "n \<equiv> \<lambda>data. length (data :: bytes) mod 64"
  shows "take (sha1_total_tail (n data)) (sha1_tail data) =
    drop (length data div 64 * 64) data @ [0x80] @ replicate (pad_count (length data + 1)) 0
      @ WriteBigEndian64 [] (of_nat (length data) * 8)"
    and "length (sha1_tail data) = 128"
proof -
  let ?r = "length data mod 64" and ?rest = "drop (length data div 64 * 64) data"
  let ?f = "\<lambda>i. ucast (drop_bit ((7 - i) * 8) (of_nat (length data) * 8 :: u64) AND 0xff) :: byte"
  let ?T = "sha1_total_tail ?r"
  have r: "length ?rest = ?r" "?r < 64" by (simp_all add: minus_div_mult_eq_mod)
  have T: "?r + 9 \<le> ?T" "?T \<le> 128" "?T = 64 \<or> ?T = 128" using r(2) by (auto simp: sha1_total_tail_def)
  have base: "(?rest @ replicate (128 - ?r) 0)[?r := 0x80] = ?rest @ 0x80 # replicate (127 - ?r) 0"
  proof -
    have "128 - ?r = Suc (127 - ?r)" using r(2) by arith
    then have "replicate (128 - ?r) (0 :: byte) = 0 # replicate (127 - ?r) 0" by (simp only: replicate_Suc)
    then show ?thesis using r(1) by (simp add: list_update_append)
  qed
  have len: "length (?rest @ 0x80 # replicate (127 - ?r) (0 :: byte)) = (?T - 8) + 8 + (128 - ?T)" using r T by simp
  have tail: "sha1_tail data = take (?T - 8) (?rest @ 0x80 # replicate (127 - ?r) 0) @ map ?f [0..<8]
      @ drop (?T - 8 + 8) (?rest @ 0x80 # replicate (127 - ?r) 0)"
    unfolding sha1_tail_def Let_def base by (rule tail_updates [OF len])
  have count: "?T - 9 - ?r = pad_count (length data + 1)"
    using r(2) by (auto simp: sha1_total_tail_def pad_count_def mod_Suc)
  have "take (?T - 8) (?rest @ 0x80 # replicate (127 - ?r) 0) = ?rest @ 0x80 # replicate (?T - 9 - ?r) 0"
  proof -
    have "?T - (9 + ?r) \<le> 127 - ?r" "?T - 8 - ?r = Suc (?T - (9 + ?r))" "?r \<le> ?T - 8" using T(1,2) by linarith+
    then show ?thesis using r by (simp add: min_def)
  qed
  moreover have "map ?f [0..<8] = WriteBigEndian64 [] (of_nat (length data) * 8)"
    by (simp add: WriteBigEndian64_def upt_rec)
  moreover have "length (map ?f [0..<8]) = 8" by simp
  ultimately have "sha1_tail data = (?rest @ 0x80 # replicate (?T - 9 - ?r) 0 @ WriteBigEndian64 [] (of_nat (length data) * 8))
      @ drop (?T - 8 + 8) (?rest @ 0x80 # replicate (127 - ?r) 0)" unfolding tail by simp
  moreover have "length (?rest @ 0x80 # replicate (?T - 9 - ?r) 0 @ WriteBigEndian64 [] (of_nat (length data) * 8)) = ?T"
    using r T by (simp add: WriteBigEndian64_def)
  ultimately show "take (sha1_total_tail (n data)) (sha1_tail data) =
    ?rest @ [0x80] @ replicate (pad_count (length data + 1)) 0 @ WriteBigEndian64 [] (of_nat (length data) * 8)"
    unfolding n_def count by (metis append.simps append_eq_conv_conj)
  show "length (sha1_tail data) = 128"
    unfolding sha1_tail_def Let_def updates_length using r by simp
qed

lemma sha1_message: "sha_pad data = take (length data div 64 * 64) data @ take (sha1_total_tail (length data mod 64)) (sha1_tail data)"
  unfolding sha_pad_closed sha1_tail_closed(1) by (metis append.assoc append_take_drop_id)

text \<open>
  The SHA-1 of the key store reader is the standard function: for every input, the digest is
  the result of the reference definition on the padded message, although the program pads in a
  separate tail and never builds that message.
\<close>

theorem Sha1_refines_reference:
  "Sha1Digest input = (case fips1_hash (sha_pad input) (length (sha_pad input) div 64) of
     (h0, h1, h2, h3, h4) \<Rightarrow> concat (map word_bytes [h0, h1, h2, h3, h4]))"
proof -
  let ?m = "sha_pad input" and ?n = "length input div 64" and ?r = "length input mod 64" and ?t = "sha1_tail input"
  let ?T = "sha1_total_tail ?r"
  let ?step = "\<lambda>st i. sha1_add st (fips1_rounds (fips_word ?m i) 80 st)"
  have T: "?T = 64 \<or> ?T = 128" "?r \<ge> 56 \<longleftrightarrow> ?T = 128" by (auto simp: sha1_total_tail_def)
  have lenm: "length ?m = 64 * ?n + ?T" 
    unfolding sha1_message using T sha1_tail_closed(2) [of input] by auto
  have full: "process_block st (drop (i * 64) input) = ?step st i" if "i < ?n" for st i
  proof (rule process_block_word)
    have "i * 64 + 64 \<le> ?n * 64" using that by simp
    then show "take 64 (drop (i * 64) input) = take 64 (drop (64 * i) ?m)"
      unfolding sha1_message by (simp add: mult.commute drop_take)
    show "64 * i + 64 \<le> length ?m" using that lenm by simp
  qed
  have prefix_len: "length (take (?n * 64) input) = 64 * ?n" by simp
  have first: "process_block st ?t = ?step st ?n" for st
    by (rule process_block_word) (use T lenm prefix_len in \<open>auto simp: sha1_message min_def\<close>)
  have second: "process_block st (drop 64 ?t) = ?step st (Suc ?n)" if "?T = 128" for st
  proof (rule process_block_word)
    have "drop (64 * Suc ?n) ?m = drop 64 (take 128 ?t)"
      unfolding sha1_message that using prefix_len by (simp add: drop_append)
    then show "take 64 (drop 64 ?t) = take 64 (drop (64 * Suc ?n) ?m)" by (simp add: drop_take)
    show "64 * Suc ?n + 64 \<le> length ?m" using lenm that by simp
  qed
  have blocks: "foldl (\<lambda>st i. process_block st (drop (i * 64) input)) st [0..<k] = foldl ?step st [0..<k]" if "k \<le> ?n" for st k
    using that by (induction k) (simp_all add: full)
  have "fips1_hash ?m (length ?m div 64) = (let st = process_block (foldl ?step sha1_init [0..<?n]) ?t
      in if ?r \<ge> 56 then process_block st (drop 64 ?t) else st)"
    using T(1)
  proof
    assume "?T = 64"
    then show ?thesis using lenm T(2) by (simp add: fips1_hash_def Let_def first)
  next
    assume "?T = 128"
    then have "length ?m div 64 = Suc (Suc ?n)" using lenm by simp
    then show ?thesis using T(2) \<open>?T = 128\<close> by (simp add: fips1_hash_def Let_def first second)
  qed
  then show ?thesis by (simp add: Sha1Digest_def Let_def blocks)
qed

lemma Sha1Digest_length [simp]: "length (Sha1Digest data) = 20"
  by (simp add: Sha1Digest_def Let_def word_bytes_def split: prod.split)

end
