(* ===== verification/Utf.thy ===== *)
theory Utf
  imports Tamga_Prelude
begin

text \<open>
  \<open>util/Utf.{h,cpp}\<close>: conversions between UTF-8, UTF-16 and the platform's wide strings. A
  function that returns \<open>bool\<close> and fills an out-parameter is a function to \<open>option\<close>; what the
  parameter holds after \<open>false\<close> is not modelled. A wide character has 32 bits here; the argument
  \<open>narrow\<close> says whether \<open>sizeof(wchar_t) == sizeof(char16_t)\<close>, as on Windows.
\<close>

section \<open>UTF-16 and wide strings\<close>

definition kMaxImplicitShortWcharLength :: nat where
  "kMaxImplicitShortWcharLength = 2 ^ 20"

text \<open>The memory behind a \<open>const char16_t*\<close> is a function of the index.\<close>

function measure_from :: "(nat \<Rightarrow> u16) \<Rightarrow> nat \<Rightarrow> nat" where
  "measure_from src len =
     (if len < kMaxImplicitShortWcharLength \<and> src len \<noteq> 0 then measure_from src (Suc len) else len)"
  by pat_completeness auto
termination by (relation "measure (\<lambda>(src, len). kMaxImplicitShortWcharLength - len)") auto

declare measure_from.simps [simp del]

definition MeasureShortWchar :: "(nat \<Rightarrow> u16) \<Rightarrow> nat" where
  "MeasureShortWchar src = measure_from src 0"

definition is_lead :: "u16 \<Rightarrow> bool" where
  "is_lead c \<longleftrightarrow> c \<ge> 0xD800 \<and> c \<le> 0xDBFF"

definition is_trail :: "u16 \<Rightarrow> bool" where
  "is_trail c \<longleftrightarrow> c \<ge> 0xDC00 \<and> c \<le> 0xDFFF"

definition surrogate_value :: "u16 \<Rightarrow> u16 \<Rightarrow> u32" where
  "surrogate_value lead trail = 0x10000 + push_bit 10 (ucast lead - 0xD800) + (ucast trail - 0xDC00)"

fun utf16_wide :: "u16 list \<Rightarrow> u32 list" where
  "utf16_wide [] = []"
| "utf16_wide [lead] = [ucast lead]"
| "utf16_wide (lead # trail # src) =
     (if is_lead lead \<and> is_trail trail then surrogate_value lead trail # utf16_wide src
      else ucast lead # utf16_wide (trail # src))"

definition Utf16ToWide :: "bool \<Rightarrow> u16 list \<Rightarrow> u32 list" where
  "Utf16ToWide narrow src = (if narrow then map ucast src else utf16_wide src)"

definition push_utf16 :: "u32 \<Rightarrow> u16 list" where
  "push_utf16 code_point =
     (if code_point \<le> 0xFFFF then [ucast code_point]
      else let adjusted = code_point - 0x10000
           in [ucast (0xD800 + (drop_bit 10 adjusted AND 0x3FF)), ucast (0xDC00 + (adjusted AND 0x3FF))])"

definition WideToUtf16 :: "bool \<Rightarrow> u32 list \<Rightarrow> u16 list" where
  "WideToUtf16 narrow src = (if narrow then map ucast src else concat (map push_utf16 src))"

section \<open>UTF-8\<close>

text \<open>The lead byte: the value it carries and how many bytes follow.\<close>

definition utf8_lead :: "byte \<Rightarrow> (u32 \<times> nat) option" where
  "utf8_lead lead =
     (if lead \<le> 0x7F then Some (ucast lead, 0)
      else if lead AND 0xE0 = 0xC0 then (if lead AND 0x1F = 0 then None else Some (ucast (lead AND 0x1F), 1))
      else if lead AND 0xF0 = 0xE0 then Some (ucast (lead AND 0x0F), 2)
      else if lead AND 0xF8 = 0xF0 then Some (ucast (lead AND 0x07), 3)
      else None)"

fun continue_code_point :: "u32 \<Rightarrow> bytes \<Rightarrow> u32 option" where
  "continue_code_point code_point [] = Some code_point"
| "continue_code_point code_point (continuation # cs) =
     (if continuation AND 0xC0 \<noteq> 0x80 then None
      else continue_code_point (push_bit 6 code_point OR ucast (continuation AND 0x3F)) cs)"

definition acceptable :: "nat \<Rightarrow> u32 \<Rightarrow> bool" where
  "acceptable continuation_count code_point \<longleftrightarrow>
     \<not> (continuation_count = 1 \<and> code_point < 0x80 \<or> continuation_count = 2 \<and> code_point < 0x800
        \<or> continuation_count = 3 \<and> code_point < 0x10000 \<or> code_point > 0x10FFFF
        \<or> code_point \<ge> 0xD800 \<and> code_point \<le> 0xDFFF)"

function DecodeUtf8ToUtf16 :: "bytes \<Rightarrow> u16 list option" where
  "DecodeUtf8ToUtf16 [] = Some []"
| "DecodeUtf8ToUtf16 (lead # rest) =
     (case utf8_lead lead of
        None \<Rightarrow> None
      | Some (code_point, continuation_count) \<Rightarrow>
          if continuation_count > length rest then None
          else case continue_code_point code_point (take continuation_count rest) of
            None \<Rightarrow> None
          | Some code_point \<Rightarrow>
              if \<not> acceptable continuation_count code_point then None
              else map_option (\<lambda>out. push_utf16 code_point @ out) (DecodeUtf8ToUtf16 (drop continuation_count rest)))"
  by pat_completeness auto
termination by (relation "measure length") auto

definition AppendUtf8CodePoint :: "u32 \<Rightarrow> bytes option" where
  "AppendUtf8CodePoint code_point =
     (if code_point > 0x10FFFF \<or> code_point \<ge> 0xD800 \<and> code_point \<le> 0xDFFF then None
      else if code_point \<le> 0x7F then Some [ucast code_point]
      else if code_point \<le> 0x7FF then
        Some [ucast (0xC0 OR (drop_bit 6 code_point AND 0x1F)), ucast (0x80 OR (code_point AND 0x3F))]
      else if code_point \<le> 0xFFFF then
        Some [ucast (0xE0 OR (drop_bit 12 code_point AND 0x0F)), ucast (0x80 OR (drop_bit 6 code_point AND 0x3F)),
              ucast (0x80 OR (code_point AND 0x3F))]
      else
        Some [ucast (0xF0 OR (drop_bit 18 code_point AND 0x07)), ucast (0x80 OR (drop_bit 12 code_point AND 0x3F)),
              ucast (0x80 OR (drop_bit 6 code_point AND 0x3F)), ucast (0x80 OR (code_point AND 0x3F))])"

text \<open>One code unit or one surrogate pair at a time.\<close>

fun EncodeUtf16ToUtf8 :: "u16 list \<Rightarrow> bytes option" where
  "EncodeUtf16ToUtf8 [] = Some []"
| "EncodeUtf16ToUtf8 (c # src) =
     (if is_lead c then
        (case src of
           [] \<Rightarrow> None
         | trail # src' \<Rightarrow>
             if \<not> is_trail trail then None
             else case AppendUtf8CodePoint (surrogate_value c trail) of
               None \<Rightarrow> None
             | Some out \<Rightarrow> map_option (\<lambda>rest. out @ rest) (EncodeUtf16ToUtf8 src'))
      else if is_trail c then None
      else case AppendUtf8CodePoint (ucast c) of
        None \<Rightarrow> None
      | Some out \<Rightarrow> map_option (\<lambda>rest. out @ rest) (EncodeUtf16ToUtf8 src))"

text \<open>The pointer may be null (\<open>None\<close>); length 0 asks for the length to be measured.\<close>

definition FromShortWchar :: "bool \<Rightarrow> (nat \<Rightarrow> u16) option \<Rightarrow> nat \<Rightarrow> u32 list" where
  "FromShortWchar narrow src len =
     (case src of
        None \<Rightarrow> []
      | Some mem \<Rightarrow>
          let len = (if len = 0 then MeasureShortWchar mem else len)
          in Utf16ToWide narrow (map mem [0..<len]))"

definition ToShortWchar :: "bool \<Rightarrow> u32 list \<Rightarrow> u16 list" where
  "ToShortWchar narrow src = WideToUtf16 narrow src"

definition FromUtf8 :: "bool \<Rightarrow> bytes \<Rightarrow> u32 list" where
  "FromUtf8 narrow src =
     (case DecodeUtf8ToUtf16 src of None \<Rightarrow> [] | Some utf16 \<Rightarrow> Utf16ToWide narrow utf16)"

definition ToUtf8 :: "bool \<Rightarrow> u32 list \<Rightarrow> bytes" where
  "ToUtf8 narrow src = (case EncodeUtf16ToUtf8 (WideToUtf16 narrow src) of None \<Rightarrow> [] | Some out \<Rightarrow> out)"

definition TryDecodeUtf8ToUtf16 :: "bytes \<Rightarrow> u16 list option" where
  "TryDecodeUtf8ToUtf16 src = DecodeUtf8ToUtf16 src"

definition TryEncodeUtf16ToUtf8 :: "u16 list \<Rightarrow> bytes option" where
  "TryEncodeUtf16ToUtf8 src = EncodeUtf16ToUtf8 src"

section \<open>The values of the words\<close>

text \<open>The encoding of a code point as RFC 3629 has it, in natural numbers.\<close>

definition utf8_octets :: "nat \<Rightarrow> nat list" where
  "utf8_octets n =
     (if n < 0x80 then [n]
      else if n < 0x800 then [0xC0 + n div 64, 0x80 + n mod 64]
      else if n < 0x10000 then [0xE0 + n div 4096, 0x80 + n div 64 mod 64, 0x80 + n mod 64]
      else [0xF0 + n div 262144, 0x80 + n div 4096 mod 64, 0x80 + n div 64 mod 64, 0x80 + n mod 64])"

definition scalar_value :: "nat \<Rightarrow> bool" where
  "scalar_value n \<longleftrightarrow> n \<le> 0x10FFFF \<and> \<not> (0xD800 \<le> n \<and> n \<le> 0xDFFF)"

lemma or_take_bit_eq_add:
  fixes x :: u32
  assumes "take_bit k h = 0"
  shows "h OR take_bit k x = h + take_bit k x"
proof -
  have "h AND take_bit k x = 0"
    using assms by (auto simp: bit_eq_iff bit_simps)
  then show ?thesis using word_plus_and_or [of h "take_bit k x"] by simp
qed

lemma unat_ucast_to_byte: "unat (ucast (w :: u32) :: byte) = unat w mod 256"
  by (simp add: unsigned_ucast_eq take_bit_eq_mod)

lemma packed_octet:
  fixes x :: u32
  assumes "take_bit k h = 0" "unat h + 2 ^ k \<le> 256"
  shows "unat (ucast (h OR take_bit k x) :: byte) = unat h + unat x mod 2 ^ k"
proof -
  have t: "unat (take_bit k x) = unat x mod 2 ^ k" unfolding unsigned_take_bit_eq by (simp add: take_bit_eq_mod)
  have "unat x mod 2 ^ k < 2 ^ k" by simp
  then have sum: "unat h + unat x mod 2 ^ k < 256" using assms(2) by linarith
  then have "unat (h + take_bit k x) = unat h + unat x mod 2 ^ k"
    using t by (simp add: unat_word_ariths)
  then show ?thesis using sum by (simp add: or_take_bit_eq_add [OF assms(1)] unat_ucast_to_byte)
qed

lemma AppendUtf8CodePoint_eq:
  "AppendUtf8CodePoint cp = (if scalar_value (unat cp) then Some (map of_nat (utf8_octets (unat cp))) else None)"
proof -
  have le: "cp \<le> 0x7F \<longleftrightarrow> unat cp < 0x80" "cp \<le> 0x7FF \<longleftrightarrow> unat cp < 0x800" "cp \<le> 0xFFFF \<longleftrightarrow> unat cp < 0x10000"
    "cp > 0x10FFFF \<longleftrightarrow> unat cp > 0x10FFFF" "cp \<ge> 0xD800 \<longleftrightarrow> unat cp \<ge> 0xD800" "cp \<le> 0xDFFF \<longleftrightarrow> unat cp \<le> 0xDFFF"
    by (auto simp: word_le_nat_alt word_less_nat_alt)
  have octet: "ucast w = (of_nat n :: byte)" if "unat (ucast w :: byte) = n" for w :: u32 and n
    using that by (simp add: that [symmetric])
  have shift: "unat (drop_bit k cp) = unat cp div 2 ^ k" for k
    by (subst unat_drop_bit_eq) (simp add: drop_bit_eq_div)
  have leads: "ucast (0xC0 OR (drop_bit 6 cp AND 0x1F)) = (of_nat (0xC0 + unat cp div 64 mod 32) :: byte)"
    "ucast (0xE0 OR (drop_bit 12 cp AND 0x0F)) = (of_nat (0xE0 + unat cp div 4096 mod 16) :: byte)"
    "ucast (0xF0 OR (drop_bit 18 cp AND 0x07)) = (of_nat (0xF0 + unat cp div 262144 mod 8) :: byte)"
    unfolding and_mask_numeral by (rule octet, subst packed_octet, simp, simp, simp add: shift)+
  have conts: "ucast (0x80 OR (drop_bit k cp AND 0x3F)) = (of_nat (0x80 + unat cp div 2 ^ k mod 64) :: byte)" for k
    unfolding and_mask_numeral by (rule octet, subst packed_octet, simp, simp, simp add: shift)
  have first: "ucast cp = (of_nat (unat cp) :: byte)" if "unat cp < 0x80"
    by (rule octet) (use that in \<open>simp add: unat_ucast_to_byte\<close>)
  show ?thesis
    using conts [of 0] conts [of 6] conts [of 12] first
    unfolding AppendUtf8CodePoint_def le leads scalar_value_def utf8_octets_def
    by (auto simp: not_less)
qed

lemma all_bytes:
  assumes "list_all P (map of_nat [0..<256])"
  shows "P (b :: byte)"
proof -
  have "b = of_nat (unat b)" "unat b < 256" by simp_all
  then have "b \<in> set (map of_nat [0..<256])" by (metis atLeastLessThan_iff imageI le0 set_map set_upt)
  then show ?thesis using assms by (simp only: list_all_iff)
qed

definition lead_octet :: "nat \<Rightarrow> (nat \<times> nat) option" where
  "lead_octet n =
     (if n < 0x80 then Some (n, 0) else if n \<le> 0xC0 then None else if n < 0xE0 then Some (n - 0xC0, 1)
      else if n < 0xF0 then Some (n - 0xE0, 2) else if n < 0xF8 then Some (n - 0xF0, 3) else None)"

lemma utf8_lead_eq: "map_option (map_prod unat id) (utf8_lead b) = lead_octet (unat b)"
  by (rule all_bytes [where P = "\<lambda>b. map_option (map_prod unat id) (utf8_lead b) = lead_octet (unat b)"]) code_simp

lemma continuation_octet:
  "(b AND 0xC0 = 0x80 \<longleftrightarrow> 0x80 \<le> unat b \<and> unat b < 0xC0) \<and> (b AND 0xC0 = 0x80 \<longrightarrow> unat (b AND 0x3F) = unat b - 0x80)"
  for b :: byte
  by (rule all_bytes [where P = "\<lambda>b. (b AND 0xC0 = 0x80 \<longleftrightarrow> 0x80 \<le> unat b \<and> unat b < 0xC0)
    \<and> (b AND 0xC0 = 0x80 \<longrightarrow> unat (b AND 0x3F) = unat b - 0x80)"]) code_simp

lemma continuation_value:
  fixes cp :: u32 and c :: byte
  assumes "c AND 0xC0 = 0x80" "(unat cp + 1) * 64 \<le> 2 ^ 32"
  shows "unat (push_bit 6 cp OR ucast (c AND 0x3F)) = unat cp * 64 + (unat c - 0x80)"
proof -
  let ?d = "ucast (c AND 0x3F) :: u32"
  have d: "unat ?d = unat c - 0x80" "unat c - 0x80 < 64" using continuation_octet [of c] assms(1) by auto
  have "push_bit 6 cp AND ?d = 0"
    by (auto simp: bit_eq_iff bitwise_simps)
  then have "push_bit 6 cp OR ?d = push_bit 6 cp + ?d" using word_plus_and_or [of "push_bit 6 cp" ?d] by simp
  moreover have "unat (push_bit 6 cp) = unat cp * 64"
    using assms(2) by (simp add: push_bit_eq_mult unat_word_ariths mult.commute)
  ultimately show ?thesis using d assms(2) by (simp add: unat_word_ariths)
qed

definition continuation :: "byte \<Rightarrow> bool" where
  "continuation c \<longleftrightarrow> 0x80 \<le> unat c \<and> unat c < 0xC0"

lemma continue_code_point_value:
  assumes "(unat cp + 1) * 64 ^ length cs \<le> 2 ^ 32"
  shows "continue_code_point cp cs = Some r \<longleftrightarrow>
    list_all continuation cs \<and> unat r = foldl (\<lambda>n c. n * 64 + (unat c - 0x80)) (unat cp) cs"
  using assms
proof (induction cs arbitrary: cp)
  case Nil
  then show ?case by (auto simp: word_unat_eq_iff)
next
  case (Cons c cs)
  show ?case
  proof (cases "c AND 0xC0 = 0x80")
    case True
    have c: "continuation c" "unat c - 0x80 < 64" using continuation_octet [of c] True by (auto simp: continuation_def)
    have one: "1 \<le> (64 :: nat) ^ length cs" by simp
    have bound: "(unat cp + 1) * 64 * 64 ^ length cs \<le> 2 ^ 32" using Cons.prems by (simp only: length_Cons power_Suc mult.assoc)
    then have "(unat cp + 1) * 64 \<le> 2 ^ 32" using one by (metis mult_le_mono2 mult.right_neutral le_trans)
    note v = continuation_value [OF True this]
    have "(unat cp * 64 + (unat c - 0x80) + 1) \<le> (unat cp + 1) * 64" using c(2) by simp
    then have "(unat cp * 64 + (unat c - 0x80) + 1) * 64 ^ length cs \<le> 2 ^ 32"
      using bound by (meson le_trans mult_le_mono1)
    then show ?thesis using Cons.IH v True c(1) by simp
  next
    case False
    then show ?thesis using continuation_octet [of c] by (auto simp: continuation_def)
  qed
qed

text \<open>A lead byte and its continuations stand for a code point exactly when they are its encoding.\<close>

definition sequence_value :: "byte \<Rightarrow> bytes \<Rightarrow> u32 \<Rightarrow> bool" where
  "sequence_value lead cs cp \<longleftrightarrow>
     (\<exists>v. utf8_lead lead = Some (v, length cs) \<and> continue_code_point v cs = Some cp \<and> acceptable (length cs) cp)"

lemma lead_octet_bound: "lead_octet n = Some (v, k) \<Longrightarrow> (v + 1) * 64 ^ k \<le> 2 ^ 32 \<and> k \<le> 3"
  by (auto simp: lead_octet_def split: if_splits)

lemma sequence_value_octets:
  "sequence_value lead cs cp \<longleftrightarrow>
     (\<exists>v. lead_octet (unat lead) = Some (v, length cs) \<and> list_all continuation cs
       \<and> unat cp = foldl (\<lambda>n c. n * 64 + (unat c - 0x80)) v cs \<and> acceptable (length cs) cp)"
proof (cases "utf8_lead lead")
  case None
  then show ?thesis using utf8_lead_eq [of lead] by (simp add: sequence_value_def)
next
  case (Some p)
  obtain w k where p: "p = (w, k)" by force
  have l: "lead_octet (unat lead) = Some (unat w, k)" using utf8_lead_eq [of lead] Some p by simp
  show ?thesis
    using continue_code_point_value [of w cs cp] lead_octet_bound [OF l] by (auto simp: sequence_value_def Some p l)
qed

lemma acceptable_iff:
  "acceptable k cp \<longleftrightarrow> scalar_value (unat cp) \<and> (k = 1 \<longrightarrow> 0x80 \<le> unat cp) \<and> (k = 2 \<longrightarrow> 0x800 \<le> unat cp)
     \<and> (k = 3 \<longrightarrow> 0x10000 \<le> unat cp)"
  by (auto simp: acceptable_def scalar_value_def word_le_nat_alt word_less_nat_alt)

lemma map_octets:
  assumes "list_all (\<lambda>n. n < 256) ns"
  shows "map of_nat ns = bs \<longleftrightarrow> ns = map unat (bs :: bytes)"
proof
  have "map unat (map of_nat ns :: bytes) = ns"
    using assms by (auto simp: list_all_iff unsigned_of_nat take_bit_eq_mod intro!: map_idI)
  then show "ns = map unat bs" if "map of_nat ns = bs" using that by simp
  show "map of_nat ns = bs" if "ns = map unat bs" using that by (simp add: comp_def)
qed

lemma utf8_octets_small: "n \<le> 0x10FFFF \<Longrightarrow> list_all (\<lambda>n. n < 256) (utf8_octets n)"
  by (auto simp: utf8_octets_def)

lemma base64_digits:
  fixes n :: nat
  shows "n div 64 * 64 + n mod 64 = n" "n div 4096 * 4096 + n div 64 mod 64 * 64 + n mod 64 = n"
    "n div 262144 * 262144 + n div 4096 mod 64 * 4096 + n div 64 mod 64 * 64 + n mod 64 = n"
proof -
  have d: "n div 4096 = n div 64 div 64" "n div 262144 = n div 64 div 64 div 64" by (simp_all add: div_mult2_eq [symmetric])
  show one: "m div 64 * 64 + m mod 64 = m" for m :: nat by simp
  show two: "n div 4096 * 4096 + n div 64 mod 64 * 64 + n mod 64 = n"
    using one [of n] one [of "n div 64"] unfolding d by linarith
  show "n div 262144 * 262144 + n div 4096 mod 64 * 4096 + n div 64 mod 64 * 64 + n mod 64 = n"
    using two one [of "n div 64 div 64"] unfolding d by linarith
qed

lemma base64_step: "(y :: nat) < 64 \<Longrightarrow> (w * 64 + y) div 64 = w" "y < 64 \<Longrightarrow> (w * 64 + y) mod 64 = y"
  by simp_all

lemma octets_sequence:
  assumes "scalar_value n"
  shows "utf8_octets n = m # ms \<longleftrightarrow>
    (\<exists>v. lead_octet m = Some (v, length ms) \<and> list_all (\<lambda>c. 0x80 \<le> c \<and> c < 0xC0) ms
      \<and> n = foldl (\<lambda>n c. n * 64 + (c - 0x80)) v ms
      \<and> (length ms = 1 \<longrightarrow> 0x80 \<le> n) \<and> (length ms = 2 \<longrightarrow> 0x800 \<le> n) \<and> (length ms = 3 \<longrightarrow> 0x10000 \<le> n))"
  (is "_ \<longleftrightarrow> ?seq")
proof
  assume enc: "utf8_octets n = m # ms"
  consider "n < 0x80" | "0x80 \<le> n" "n < 0x800" | "0x800 \<le> n" "n < 0x10000" | "0x10000 \<le> n" "n \<le> 0x10FFFF"
    using assms unfolding scalar_value_def by linarith
  then show ?seq
  proof cases
    case 1
    then show ?thesis using enc by (auto simp: utf8_octets_def lead_octet_def)
  next
    case 2
    then show ?thesis using enc by (auto simp: utf8_octets_def lead_octet_def)
  next
    case 3
    then show ?thesis using enc base64_digits(2) [of n] by (auto simp: utf8_octets_def lead_octet_def mult.commute)
  next
    case 4
    then show ?thesis using enc base64_digits(3) [of n] by (auto simp: utf8_octets_def lead_octet_def mult.commute)
  qed
next
  assume ?seq
  then obtain v where v: "lead_octet m = Some (v, length ms)" "list_all (\<lambda>c. 0x80 \<le> c \<and> c < 0xC0) ms"
    "n = foldl (\<lambda>n c. n * 64 + (c - 0x80)) v ms"
    "length ms = 1 \<longrightarrow> 0x80 \<le> n" "length ms = 2 \<longrightarrow> 0x800 \<le> n" "length ms = 3 \<longrightarrow> 0x10000 \<le> n" by blast
  consider "ms = []" | a where "ms = [a]" | a b where "ms = [a, b]" | a b c where "ms = [a, b, c]"
    using lead_octet_bound [OF v(1)] by (cases ms; cases "tl ms"; cases "tl (tl ms)") auto
  then show "utf8_octets n = m # ms"
  proof cases
    case 1
    then show ?thesis using v by (auto simp: lead_octet_def utf8_octets_def split: if_splits)
  next
    case (2 a)
    obtain x where x: "a = 0x80 + x" "x < 64" using v(2) 2 by (auto simp: le_iff_add)
    have m: "m = 0xC0 + v" "v < 32" using v(1) 2 by (auto simp: lead_octet_def split: if_splits)
    show ?thesis using v(3,4) 2 x m by (auto simp: utf8_octets_def)
  next
    case (3 a b)
    obtain x y where x: "a = 0x80 + x" "x < 64" "b = 0x80 + y" "y < 64" using v(2) 3 by (auto simp: le_iff_add)
    have m: "m = 0xE0 + v" "v < 16" using v(1) 3 by (auto simp: lead_octet_def split: if_splits)
    have n: "n = (v * 64 + x) * 64 + y" using v(3) 3 x by simp
    have "n div 64 = v * 64 + x" "n mod 64 = y" unfolding n by (rule base64_step, rule x)+
    moreover have "n div 4096 = v" using calculation(1) base64_step(1) [OF x(2)] div_mult2_eq [of n 64 64] by simp
    moreover have "v \<le> 15" "x \<le> 63" "y \<le> 63" using m x by simp_all
    then have "n < 0x10000" using n by simp
    ultimately show ?thesis using v(5) 3 x m by (auto simp: utf8_octets_def)
  next
    case (4 a b c)
    obtain x y z where x: "a = 0x80 + x" "x < 64" "b = 0x80 + y" "y < 64" "c = 0x80 + z" "z < 64"
      using v(2) 4 by (auto simp: le_iff_add)
    have m: "m = 0xF0 + v" using v(1) 4 by (auto simp: lead_octet_def split: if_splits)
    have n: "n = ((v * 64 + x) * 64 + y) * 64 + z" using v(3) 4 x by simp
    have d: "n div 64 = (v * 64 + x) * 64 + y" "n mod 64 = z" unfolding n by (rule base64_step, rule x)+
    have e: "n div 4096 = v * 64 + x" using d(1) base64_step(1) [OF x(4)] div_mult2_eq [of n 64 64] by simp
    have f: "n div 262144 = v" using e base64_step(1) [OF x(2)] div_mult2_eq [of n 4096 64] by simp
    have g: "n div 64 mod 64 = y" "n div 4096 mod 64 = x" unfolding d(1) e by (rule base64_step, rule x)+
    have "utf8_octets n = [0xF0 + n div 262144, 0x80 + n div 4096 mod 64, 0x80 + n div 64 mod 64, 0x80 + n mod 64]"
      using v(6) 4 by (simp add: utf8_octets_def)
    then show ?thesis unfolding f g d(2) m 4 x(1,3,5) .
  qed
qed

lemma foldl_octets: "foldl (\<lambda>n c. n * 64 + (unat c - 0x80)) v cs = foldl (\<lambda>n c. n * 64 + (c - 0x80)) v (map unat cs)"
  by (simp add: foldl_map)

lemma sequence_value_iff: "sequence_value lead cs cp \<longleftrightarrow> AppendUtf8CodePoint cp = Some (lead # cs)"
proof (cases "scalar_value (unat cp)")
  case True
  then have "list_all (\<lambda>n. n < 256) (utf8_octets (unat cp))" by (intro utf8_octets_small) (simp add: scalar_value_def)
  note enc = map_octets [OF this, of "lead # cs"]
  have "list_all continuation cs \<longleftrightarrow> list_all (\<lambda>c. 0x80 \<le> c \<and> c < 0xC0) (map unat cs)"
    by (simp add: list_all_iff continuation_def)
  then show ?thesis
    unfolding sequence_value_octets AppendUtf8CodePoint_eq acceptable_iff foldl_octets
    using octets_sequence [OF True, of "unat lead" "map unat cs"] enc True by auto
next
  case False
  then show ?thesis by (simp add: sequence_value_octets AppendUtf8CodePoint_eq acceptable_iff)
qed

lemma Decode_Cons_iff:
  "DecodeUtf8ToUtf16 (lead # rest) = Some u \<longleftrightarrow>
     (\<exists>cs rest' cp u'. rest = cs @ rest' \<and> AppendUtf8CodePoint cp = Some (lead # cs)
        \<and> u = push_utf16 cp @ u' \<and> DecodeUtf8ToUtf16 rest' = Some u')"
proof
  assume "DecodeUtf8ToUtf16 (lead # rest) = Some u"
  then obtain v k cp u' where "utf8_lead lead = Some (v, k)" "k \<le> length rest"
    "continue_code_point v (take k rest) = Some cp" "acceptable k cp"
    "u = push_utf16 cp @ u'" "DecodeUtf8ToUtf16 (drop k rest) = Some u'"
    by (auto split: option.splits if_splits)
  then show "\<exists>cs rest' cp u'. rest = cs @ rest' \<and> AppendUtf8CodePoint cp = Some (lead # cs)
        \<and> u = push_utf16 cp @ u' \<and> DecodeUtf8ToUtf16 rest' = Some u'"
    by (intro exI [of _ "take k rest"] exI [of _ "drop k rest"] exI [of _ cp] exI [of _ u'])
      (simp add: sequence_value_iff [symmetric] sequence_value_def)
next
  assume "\<exists>cs rest' cp u'. rest = cs @ rest' \<and> AppendUtf8CodePoint cp = Some (lead # cs)
        \<and> u = push_utf16 cp @ u' \<and> DecodeUtf8ToUtf16 rest' = Some u'"
  then show "DecodeUtf8ToUtf16 (lead # rest) = Some u"
    by (auto simp: sequence_value_iff [symmetric] sequence_value_def)
qed

section \<open>Surrogates\<close>

lemma unat_u16_less [simp]: "unat (c :: u16) < 65536"
  using unsigned_less [of c, where ?'a = nat] by simp

lemma unat_ucast_u16 [simp]: "unat (ucast (c :: u16) :: u32) = unat c"
  by (simp add: unsigned_ucast_eq take_bit_nat_eq_self less_trans [OF unat_u16_less])

lemma unat_ucast_to_u16: "unat (ucast (w :: u32) :: u16) = unat w mod 65536"
  by (simp add: unsigned_ucast_eq take_bit_eq_mod)

lemma surrogates_nat:
  "is_lead c \<longleftrightarrow> 0xD800 \<le> unat c \<and> unat c < 0xDC00" "is_trail c \<longleftrightarrow> 0xDC00 \<le> unat c \<and> unat c < 0xE000"
  by (auto simp: is_lead_def is_trail_def word_le_nat_alt)

lemma unat_surrogate_value:
  assumes "is_lead l" "is_trail t"
  shows "unat (surrogate_value l t) = 0x10000 + (unat l - 0xD800) * 1024 + (unat t - 0xDC00)"
proof -
  have l: "unat (ucast l - 0xD800 :: u32) = unat l - 0xD800" "unat (ucast t - 0xDC00 :: u32) = unat t - 0xDC00"
    using assms by (simp_all add: surrogates_nat unat_sub word_le_nat_alt)
  have small: "unat (ucast l - 0xD800 :: u32) < 1024" using assms(1) l(1) unfolding surrogates_nat by linarith
  have "unat (push_bit 10 x) = unat x * 1024" if "unat x < 1024" for x :: u32
    using that by (simp add: push_bit_eq_mult unat_word_ariths mult.commute)
  then have "unat (push_bit 10 (ucast l - 0xD800 :: u32)) = (unat l - 0xD800) * 1024"
    using small l(1) by (metis (full_types))
  moreover have "(unat l - 0xD800) * 1024 < 0x100000" "unat t < 0xE000" using small l(1) assms(2) by (simp_all add: surrogates_nat)
  ultimately show ?thesis using assms l by (simp add: surrogate_value_def unat_word_ariths surrogates_nat)
qed

lemma push_utf16_single:
  assumes "\<not> is_lead c" "\<not> is_trail c"
  shows "push_utf16 (ucast c) = [c]" "scalar_value (unat c)"
proof -
  have "(ucast c :: u32) \<le> 0xFFFF" using unat_u16_less [of c] by (simp add: word_le_nat_alt del: unat_u16_less)
  moreover have "(ucast (ucast c :: u32) :: u16) = c"
    by (simp add: word_unat_eq_iff unat_ucast_to_u16)
  ultimately show "push_utf16 (ucast c) = [c]" by (simp add: push_utf16_def)
  show "scalar_value (unat c)"
    using assms unat_u16_less [of c] unfolding surrogates_nat scalar_value_def by linarith
qed

lemma unat_push_high:
  fixes cp :: u32
  assumes "0x10000 \<le> unat cp" "unat cp \<le> 0x10FFFF"
  shows "unat (ucast (0xD800 + (drop_bit 10 (cp - 0x10000) AND 0x3FF)) :: u16) = 0xD800 + (unat cp - 0x10000) div 1024"
    "unat (ucast (0xDC00 + ((cp - 0x10000) AND 0x3FF)) :: u16) = 0xDC00 + (unat cp - 0x10000) mod 1024"
proof -
  let ?a = "cp - 0x10000"
  have a: "unat ?a = unat cp - 0x10000" using assms by (simp add: unat_sub word_le_nat_alt)
  have t: "unat (take_bit 10 x) = unat x mod 1024" for x :: u32 unfolding unsigned_take_bit_eq by (simp add: take_bit_eq_mod)
  have d: "unat (drop_bit 10 ?a) = (unat cp - 0x10000) div 1024"
    by (subst unat_drop_bit_eq) (simp add: drop_bit_eq_div a)
  have q: "(unat cp - 0x10000) div 1024 < 1024" using assms by (simp add: less_mult_imp_div_less)
  have sum: "unat (h + y) = unat h + unat y" if "unat h \<le> 0xDC00" "unat y < 1024" for h y :: u32
    using that by (simp add: unat_word_ariths)
  have less: "unat (take_bit 10 x) < 1024" for x :: u32 unfolding t by simp
  show "unat (ucast (0xD800 + (drop_bit 10 ?a AND 0x3FF)) :: u16) = 0xD800 + (unat cp - 0x10000) div 1024"
    unfolding and_mask_numeral unat_ucast_to_u16 using sum [OF _ less, of "0xD800" "drop_bit 10 ?a"] q by (simp add: t d)
  have "(unat cp - 0x10000) mod 1024 < 1024" by simp
  then show "unat (ucast (0xDC00 + (?a AND 0x3FF)) :: u16) = 0xDC00 + (unat cp - 0x10000) mod 1024"
    unfolding and_mask_numeral unat_ucast_to_u16 using sum [OF _ less, of "0xDC00" ?a] by (simp add: t a)
qed

lemma push_utf16_pair:
  assumes "is_lead l" "is_trail t"
  shows "push_utf16 (surrogate_value l t) = [l, t]" "scalar_value (unat (surrogate_value l t))"
proof -
  let ?cp = "surrogate_value l t"
  note v = unat_surrogate_value [OF assms]
  have r: "unat l - 0xD800 < 1024" "unat t - 0xDC00 < 1024" using assms by (auto simp: surrogates_nat)
  then have range: "0x10000 \<le> unat ?cp" "unat ?cp \<le> 0x10FFFF" unfolding v by linarith+
  then show "scalar_value (unat ?cp)" by (simp add: scalar_value_def)
  have w: "unat ?cp - 0x10000 = (unat l - 0xD800) * 1024 + (unat t - 0xDC00)" unfolding v by simp
  have "(unat ?cp - 0x10000) div 1024 = unat l - 0xD800" "(unat ?cp - 0x10000) mod 1024 = unat t - 0xDC00"
    unfolding w using r(2) by simp_all
  then have "ucast (0xD800 + (drop_bit 10 (?cp - 0x10000) AND 0x3FF)) = l" "ucast (0xDC00 + ((?cp - 0x10000) AND 0x3FF)) = t"
    using unat_push_high [OF range] assms unfolding word_unat_eq_iff surrogates_nat by simp_all
  moreover have "\<not> ?cp \<le> 0xFFFF" using range(1) by (simp add: word_le_nat_alt)
  ultimately show "push_utf16 ?cp = [l, t]" by (simp add: push_utf16_def Let_def)
qed

text \<open>The code units of a scalar value, and how the encoder reads them back.\<close>

lemma push_utf16_cases:
  assumes "scalar_value (unat cp)"
  obtains c where "push_utf16 cp = [c]" "\<not> is_lead c" "\<not> is_trail c" "ucast c = cp"
  | l t where "push_utf16 cp = [l, t]" "is_lead l" "is_trail t" "surrogate_value l t = cp"
proof (cases "cp \<le> 0xFFFF")
  case True
  then have small: "unat cp < 65536" by (simp add: word_le_nat_alt)
  let ?c = "ucast cp :: u16"
  have c: "unat ?c = unat cp" using small by (simp add: unat_ucast_to_u16)
  show ?thesis
  proof (rule that(1) [of ?c])
    show "push_utf16 cp = [?c]" using True by (simp add: push_utf16_def)
    show "\<not> is_lead ?c" "\<not> is_trail ?c" using assms c by (auto simp: surrogates_nat scalar_value_def)
    show "ucast ?c = cp" using c by (simp add: word_unat_eq_iff)
  qed
next
  case False
  then have range: "0x10000 \<le> unat cp" "unat cp \<le> 0x10FFFF" using assms by (simp_all add: word_le_nat_alt scalar_value_def)
  let ?l = "ucast (0xD800 + (drop_bit 10 (cp - 0x10000) AND 0x3FF)) :: u16"
  let ?t = "ucast (0xDC00 + ((cp - 0x10000) AND 0x3FF)) :: u16"
  note u = unat_push_high [OF range]
  have q: "(unat cp - 0x10000) div 1024 < 1024" "(unat cp - 0x10000) mod 1024 < 1024"
    using range by (simp_all add: less_mult_imp_div_less)
  have s: "is_lead ?l" "is_trail ?t" unfolding surrogates_nat u using q by simp_all
  show ?thesis
  proof (rule that(2) [of ?l ?t])
    show "push_utf16 cp = [?l, ?t]" using False by (simp add: push_utf16_def Let_def)
    have compose: "0x10000 + (0xD800 + a - 0xD800) * 1024 + (0xDC00 + b - 0xDC00) = n"
      if "a * 1024 + b = n - 0x10000" "0x10000 \<le> n" for a b n :: nat
      using that by simp
    have "unat (surrogate_value ?l ?t) = unat cp"
      unfolding unat_surrogate_value [OF s] u by (rule compose [OF div_mult_mod_eq range(1)])
    then show "surrogate_value ?l ?t = cp" by (simp add: word_unat_eq_iff)
  qed (rule s)+
qed

section \<open>The codecs are inverse to each other\<close>

lemma AppendUtf8CodePoint_scalar: "AppendUtf8CodePoint cp = Some bs \<Longrightarrow> scalar_value (unat cp)"
  by (simp add: AppendUtf8CodePoint_eq split: if_splits)

lemma Encode_push:
  assumes "AppendUtf8CodePoint cp = Some bs"
  shows "EncodeUtf16ToUtf8 (push_utf16 cp @ u) = map_option (\<lambda>rest. bs @ rest) (EncodeUtf16ToUtf8 u)"
  using AppendUtf8CodePoint_scalar [OF assms]
  by (rule push_utf16_cases) (use assms in auto)

lemma Decode_append:
  assumes "AppendUtf8CodePoint cp = Some bs" "DecodeUtf8ToUtf16 rest = Some u"
  shows "DecodeUtf8ToUtf16 (bs @ rest) = Some (push_utf16 cp @ u)"
proof -
  have "bs \<noteq> []" using assms(1) by (auto simp: AppendUtf8CodePoint_eq utf8_octets_def split: if_splits)
  then obtain lead cs where "bs = lead # cs" by (cases bs) auto
  then show ?thesis using assms by (auto simp: Decode_Cons_iff simp del: DecodeUtf8ToUtf16.simps)
qed

lemma Decode_imp_Encode: "DecodeUtf8ToUtf16 s = Some u \<Longrightarrow> EncodeUtf16ToUtf8 u = Some s"
proof (induction s arbitrary: u rule: length_induct)
  case (1 s)
  show ?case
  proof (cases s)
    case (Cons lead rest)
    then obtain cs rest' cp u' where "rest = cs @ rest'" "AppendUtf8CodePoint cp = Some (lead # cs)"
      "u = push_utf16 cp @ u'" "DecodeUtf8ToUtf16 rest' = Some u'"
      using "1.prems" by (auto simp: Decode_Cons_iff simp del: DecodeUtf8ToUtf16.simps)
    then show ?thesis using "1.IH" Cons Encode_push by auto
  qed (use "1.prems" in simp)
qed

lemma Encode_imp_Decode: "EncodeUtf16ToUtf8 u = Some s \<Longrightarrow> DecodeUtf8ToUtf16 s = Some u"
proof (induction u arbitrary: s rule: EncodeUtf16ToUtf8.induct)
  case (2 c src)
  show ?case
  proof (cases "is_lead c")
    case True
    then obtain t src' bs rest where e: "src = t # src'" "is_trail t" "AppendUtf8CodePoint (surrogate_value c t) = Some bs"
      "EncodeUtf16ToUtf8 src' = Some rest" "s = bs @ rest"
      using "2.prems" by (auto split: list.splits if_splits option.splits)
    have "DecodeUtf8ToUtf16 rest = Some src'" using "2.IH"(1) True e by simp
    then show ?thesis using Decode_append [OF e(3)] push_utf16_pair(1) [OF True e(2)] e by simp
  next
    case False
    then obtain bs rest where e: "\<not> is_trail c" "AppendUtf8CodePoint (ucast c) = Some bs"
      "EncodeUtf16ToUtf8 src = Some rest" "s = bs @ rest"
      using "2.prems" by (auto split: if_splits option.splits)
    have "DecodeUtf8ToUtf16 rest = Some src" using "2.IH"(2) False e by simp
    then show ?thesis using Decode_append [OF e(2)] push_utf16_single(1) [OF False e(1)] e by simp
  qed
qed simp

text \<open>
  The two codecs are exactly inverse: a byte string decodes to a UTF-16 string if and only
  if that string encodes to those bytes. So neither accepts what the other would not produce: no
  overlong form, no encoded surrogate, no value beyond U+10FFFF, and nothing is lost on the way.
\<close>

theorem utf_codecs_inverse: "TryDecodeUtf8ToUtf16 s = Some u \<longleftrightarrow> TryEncodeUtf16ToUtf8 u = Some s"
  unfolding TryDecodeUtf8ToUtf16_def TryEncodeUtf16ToUtf8_def
  using Decode_imp_Encode Encode_imp_Decode by blast

section \<open>Wide strings\<close>

fun paired :: "u16 list \<Rightarrow> bool" where
  "paired [] \<longleftrightarrow> True"
| "paired (c # src) \<longleftrightarrow>
     (if is_lead c then (case src of [] \<Rightarrow> False | t # src' \<Rightarrow> is_trail t \<and> paired src')
      else \<not> is_trail c \<and> paired src)"

lemma AppendUtf8CodePoint_Some: "scalar_value (unat cp) \<Longrightarrow> \<exists>bs. AppendUtf8CodePoint cp = Some bs"
  by (simp add: AppendUtf8CodePoint_eq)

lemma Encode_defined_iff: "EncodeUtf16ToUtf8 u \<noteq> None \<longleftrightarrow> paired u"
proof (induction u rule: EncodeUtf16ToUtf8.induct)
  case (2 c src)
  show ?case
  proof (cases "is_lead c")
    case True
    have app: "AppendUtf8CodePoint (surrogate_value c t) \<noteq> None" if "is_trail t" for t
      using AppendUtf8CodePoint_Some [OF push_utf16_pair(2) [OF True that]] by auto
    show ?thesis
    proof (cases src)
      case (Cons t src')
      then show ?thesis using "2.IH"(1) True app [of t] by (auto split: option.splits)
    qed (simp add: True)
  next
    case False
    then show ?thesis
      using "2.IH"(2) push_utf16_single(2) [OF False] AppendUtf8CodePoint_Some [of "ucast c"]
      by (auto split: option.splits)
  qed
qed simp

lemma wide_roundtrip: "paired u \<Longrightarrow> concat (map push_utf16 (utf16_wide u)) = u"
proof (induction u rule: utf16_wide.induct)
  case (3 lead trail src)
  then show ?case
    using push_utf16_pair(1) [of lead trail] push_utf16_single(1) [of lead]
    by (cases "is_lead lead") auto
qed (auto simp: push_utf16_single split: if_splits)

lemma narrow_roundtrip: "map ucast (map ucast u :: u32 list) = (u :: u16 list)"
  by (auto simp: comp_def word_unat_eq_iff unat_ucast_to_u16 intro: map_idI)

text \<open>
  With either width of the wide character, converting well-formed UTF-8 to a wide string
  and back returns the same bytes; the wide string is empty only for the empty input. Exactly the
  strings with paired surrogates survive the way from UTF-16 through a wide string to UTF-8.
\<close>

theorem wide_strings_roundtrip:
  assumes "TryDecodeUtf8ToUtf16 s = Some u"
  shows "ToUtf8 narrow (FromUtf8 narrow s) = s \<and> ToShortWchar narrow (FromUtf8 narrow s) = u
    \<and> (FromUtf8 narrow s = [] \<longleftrightarrow> s = []) \<and> paired u"
proof -
  note d = assms [unfolded TryDecodeUtf8ToUtf16_def]
  note e = Decode_imp_Encode [OF d]
  have p: "paired u" using e Encode_defined_iff [of u] by simp
  have w: "WideToUtf16 narrow (Utf16ToWide narrow u) = u"
    using wide_roundtrip [OF p] narrow_roundtrip [of u] by (simp add: WideToUtf16_def Utf16ToWide_def)
  have "FromUtf8 narrow s = [] \<longleftrightarrow> u = []"
    using w by (auto simp: FromUtf8_def d WideToUtf16_def Utf16ToWide_def split: if_splits)
  moreover have "u = [] \<longleftrightarrow> s = []" using d e by auto
  ultimately show ?thesis using p w e by (simp add: FromUtf8_def ToUtf8_def ToShortWchar_def d)
qed

theorem wide_strings_roundtrip_witness:
  "TryDecodeUtf8ToUtf16 [0xD0, 0x87, 0xF0, 0x9F, 0x94, 0x91] = Some [0x407, 0xD83D, 0xDD11]
   \<and> ToUtf8 False (FromUtf8 False [0xD0, 0x87, 0xF0, 0x9F, 0x94, 0x91]) = [0xD0, 0x87, 0xF0, 0x9F, 0x94, 0x91]"
proof -
  have "TryDecodeUtf8ToUtf16 [0xD0, 0x87, 0xF0, 0x9F, 0x94, 0x91] = Some [0x407, 0xD83D, 0xDD11]" by code_simp
  with wide_strings_roundtrip [OF this, of False] show ?thesis by blast
qed

end
