(* ===== verification/Utf_Path.thy ===== *)
theory Utf_Path
  imports Utf
begin

text \<open>
  The check of a path's encoding before a \<open>std::filesystem::path\<close> is built from it
  (\<open>core/session/SessionHelpers.ipp\<close>). It is written apart from the decoder of \<open>util/Utf.cpp\<close>; here
  the two are shown to accept the same byte strings.
\<close>

definition path_lead :: "byte \<Rightarrow> (nat \<times> u32) option" where
  "path_lead lead =
     (if lead AND 0xE0 = 0xC0 then Some (1, ucast (lead AND 0x1F))
      else if lead AND 0xF0 = 0xE0 then Some (2, ucast (lead AND 0x0F))
      else if lead AND 0xF8 = 0xF0 then Some (3, ucast (lead AND 0x07))
      else None)"

fun path_code :: "u32 \<Rightarrow> bytes \<Rightarrow> u32 option" where
  "path_code cp [] = Some cp"
| "path_code cp (cont # bytes) =
     (if cont AND 0xC0 \<noteq> 0x80 then None else path_code (push_bit 6 cp OR ucast (cont AND 0x3F)) bytes)"

definition path_code_rejected :: "nat \<Rightarrow> u32 \<Rightarrow> bool" where
  "path_code_rejected extra cp \<longleftrightarrow>
     extra = 1 \<and> cp < 0x80 \<or> extra = 2 \<and> cp < 0x800 \<or> extra = 3 \<and> cp < 0x10000
     \<or> cp \<ge> 0xD800 \<and> cp \<le> 0xDFFF \<or> cp > 0x10FFFF"

function IsValidUtf8Path :: "bytes \<Rightarrow> bool" where
  "IsValidUtf8Path [] = True"
| "IsValidUtf8Path (lead # rest) =
     (if lead < 0x80 then IsValidUtf8Path rest
      else case path_lead lead of
        None \<Rightarrow> False
      | Some (extra, cp) \<Rightarrow>
          if extra \<ge> Suc (length rest) then False
          else case path_code cp (take extra rest) of
            None \<Rightarrow> False
          | Some cp \<Rightarrow>
              if path_code_rejected extra cp then False else IsValidUtf8Path (drop extra rest))"
  by pat_completeness auto
termination by (relation "measure length") auto

lemma path_code_eq: "path_code = continue_code_point"
proof (intro ext)
  fix cp bytes
  show "path_code cp bytes = continue_code_point cp bytes"
    by (induction cp bytes rule: path_code.induct) simp_all
qed

lemma path_code_rejected_iff: "path_code_rejected extra cp \<longleftrightarrow> \<not> acceptable extra cp"
  by (auto simp: path_code_rejected_def acceptable_def)

text \<open>The lead byte \<open>C0\<close> is refused at once by the decoder, and as an overlong sequence by the check.\<close>

lemma overlong_C0: fixes cont :: byte shows "path_code_rejected (Suc 0) (ucast (cont AND 0x3F))"
proof -
  have "cont AND 0x3F \<le> 0x3F" by (rule word_and_le1)
  then have "unat (cont AND 0x3F) < 0x80" by (simp add: word_le_nat_alt)
  then have "(ucast (cont AND 0x3F) :: u32) < 0x80" by (simp add: word_less_nat_alt unat_ucast_byte)
  then show ?thesis by (simp add: path_code_rejected_def)
qed

lemma path_lead_utf8:
  assumes "\<not> lead < 0x80"
  shows "path_lead lead = (if lead = 0xC0 then Some (1, 0) else map_option prod.swap (utf8_lead lead))"
  using assms
  by (rule all_bytes [where P = "\<lambda>lead. \<not> lead < 0x80 \<longrightarrow>
        path_lead lead = (if lead = 0xC0 then Some (1, 0) else map_option prod.swap (utf8_lead lead))", rule_format, rotated]) code_simp

text \<open>
  The path check and the UTF-8 decoder agree: a path passes exactly when the decoder can
  turn it into UTF-16. Truncated, overlong and surrogate sequences, and cp points beyond
  Unicode, are refused by both.
\<close>

theorem path_check_agrees: "IsValidUtf8Path path \<longleftrightarrow> TryDecodeUtf8ToUtf16 path \<noteq> None"
  unfolding TryDecodeUtf8ToUtf16_def
proof (induction path rule: IsValidUtf8Path.induct)
  case (2 lead rest)
  consider (ascii) "lead < 0x80" | (null) "lead = 0xC0" | (long) "\<not> lead < 0x80" "lead \<noteq> 0xC0" by blast
  then show ?case
  proof cases
    case ascii
    then have lead: "utf8_lead lead = Some (ucast lead, 0)"
      by (simp add: utf8_lead_def word_less_nat_alt word_le_nat_alt)
    have "acceptable 0 (ucast lead)"
    proof -
      have "unat (ucast lead :: u32) < 0x80" using ascii by (simp add: word_less_nat_alt unat_ucast_byte)
      then show ?thesis by (simp add: acceptable_def word_less_nat_alt word_le_nat_alt)
    qed
    then show ?thesis using 2(1) ascii lead by simp
  next
    case null
    have "utf8_lead 0xC0 = None" "path_lead 0xC0 = Some (1, 0)" "\<not> (0xC0 :: byte) < 0x80" by code_simp+
    then show ?thesis unfolding null by (cases rest) (simp_all add: overlong_C0)
  next
    case long
    then have lead: "path_lead lead = map_option prod.swap (utf8_lead lead)" by (simp add: path_lead_utf8)
    show ?thesis
    proof (cases "utf8_lead lead")
      case None
      then show ?thesis using long lead by simp
    next
      case (Some vk)
      obtain v k where "vk = (v, k)" by (cases vk)
      then have some: "path_lead lead = Some (k, v)" "utf8_lead lead = Some (v, k)" using Some lead by simp_all
      show ?thesis
        using 2(2) [OF long(1) some(1) refl] long(1)
        by (auto simp: some path_code_eq path_code_rejected_iff not_less_eq_eq split: option.split)
    qed
  qed
qed simp

end
