(* ===== verification/Der.thy ===== *)
theory Der
  imports Tamga_Prelude
begin

text \<open>
  \<open>src/lib/util/Der.cpp\<close> and \<open>Der.h\<close>: the one DER reader of the project. Offsets, limits
  and lengths are 64-bit words, so that the additions wrap as \<open>std::size_t\<close> does; a read of
  \<open>data[i]\<close> outside the buffer is the result \<open>None\<close> of the whole call, which the theorems
  exclude. The boolean of a result is the return value, the other components are the
  reference parameters after the call.
\<close>

section \<open>The program\<close>

record TlvView =
  tag :: byte
  value_offset :: size_w
  value_length :: size_w
  next_offset :: size_w

definition mem_read :: "bytes \<Rightarrow> size_w \<Rightarrow> byte option" where
  "mem_read data i = (if unat i < length data then Some (data ! unat i) else None)"

definition InBounds :: "size_w \<Rightarrow> size_w \<Rightarrow> size_w \<Rightarrow> bool" where
  "InBounds start len limit \<longleftrightarrow> start \<le> limit \<and> len \<le> limit - start"

text \<open>The loop over the octets of a long-form length.\<close>

fun der_length_loop :: "bytes \<Rightarrow> nat \<Rightarrow> size_w \<Rightarrow> size_w \<Rightarrow> (bool \<times> size_w \<times> size_w) option" where
  "der_length_loop data 0 offset len = Some (True, offset, len)"
| "der_length_loop data (Suc n) offset len =
     (if len > drop_bit 8 (-1) then Some (False, offset, len)
      else case mem_read data offset of
        None \<Rightarrow> None
      | Some b \<Rightarrow> der_length_loop data n (offset + 1) (push_bit 8 len OR ucast b))"

text \<open>
  The pointer form; \<open>null\<close> is \<open>data == nullptr\<close>. \<open>sizeof(std::size_t)\<close> is 8.
\<close>

definition ParseDerLength_ptr ::
    "bool \<Rightarrow> bytes \<Rightarrow> size_w \<Rightarrow> size_w \<Rightarrow> size_w \<Rightarrow> (bool \<times> size_w \<times> size_w) option" where
  "ParseDerLength_ptr null data limit offset len =
     (if null \<or> offset \<ge> limit then Some (False, offset, len)
      else case mem_read data offset of
        None \<Rightarrow> None
      | Some first \<Rightarrow>
          let offset = offset + 1
          in if first AND 0x80 = 0
             then let len = ucast first in Some (InBounds offset len limit, offset, len)
             else let count = ucast (first AND 0x7F) :: size_w
                  in if count = 0 \<or> count > 8 \<or> \<not> InBounds offset count limit
                     then Some (False, offset, len)
                     else case der_length_loop data (unat count) offset 0 of
                            None \<Rightarrow> None
                          | Some (ok, offset, len) \<Rightarrow>
                              Some (ok \<and> InBounds offset len limit, offset, len))"

definition ParseTlvAt_ptr ::
    "bool \<Rightarrow> bytes \<Rightarrow> size_w \<Rightarrow> size_w \<Rightarrow> TlvView \<Rightarrow> (bool \<times> TlvView) option" where
  "ParseTlvAt_ptr null data offset limit out =
     (if null \<or> offset \<ge> limit then Some (False, out)
      else case mem_read data offset of
        None \<Rightarrow> None
      | Some t \<Rightarrow>
          (case ParseDerLength_ptr null data limit (offset + 1) 0 of
             None \<Rightarrow> None
           | Some (False, voff, _) \<Rightarrow> Some (False, out\<lparr>tag := t, value_offset := voff\<rparr>)
           | Some (True, voff, vlen) \<Rightarrow>
               Some (True, out\<lparr>tag := t, value_offset := voff, value_length := vlen,
                              next_offset := voff + vlen\<rparr>)))"

text \<open>
  The vector forms clamp the limit to the buffer; the last one uses the whole buffer.
  \<open>data()\<close> of an empty vector may be null, and then every offset is at the limit.
\<close>

definition buffer_size :: "bytes \<Rightarrow> size_w" where
  "buffer_size data = word_of_nat (length data)"

definition ParseDerLength :: "bytes \<Rightarrow> size_w \<Rightarrow> size_w \<Rightarrow> size_w \<Rightarrow> (bool \<times> size_w \<times> size_w) option" where
  "ParseDerLength data limit offset len =
     (let effective = (if limit < buffer_size data then limit else buffer_size data)
      in ParseDerLength_ptr (data = []) data effective offset len)"

definition ParseTlvAt_limit :: "bytes \<Rightarrow> size_w \<Rightarrow> size_w \<Rightarrow> TlvView \<Rightarrow> (bool \<times> TlvView) option" where
  "ParseTlvAt_limit data offset limit out =
     (let effective = (if limit < buffer_size data then limit else buffer_size data)
      in ParseTlvAt_ptr (data = []) data offset effective out)"

definition ParseTlvAt :: "bytes \<Rightarrow> size_w \<Rightarrow> TlvView \<Rightarrow> (bool \<times> TlvView) option" where
  "ParseTlvAt data offset out = ParseTlvAt_ptr (data = []) data offset (buffer_size data) out"

section \<open>The overflow-safe bounds check\<close>

lemma InBounds_unat: "InBounds s n l \<longleftrightarrow> unat s + unat n \<le> unat l"
  by (auto simp: InBounds_def word_le_nat_alt unat_sub)

lemma InBounds_no_wrap: "InBounds s n l \<Longrightarrow> unat (s + n) = unat s + unat n"
proof -
  assume "InBounds s n l"
  then have "unat s + unat n < 2 ^ 64"
    using unsigned_less [of l, where ?'a = nat] by (simp add: InBounds_unat)
  then show ?thesis by (simp add: unat_word_ariths)
qed

lemma unat_Suc_offset: "offset < limit \<Longrightarrow> unat (offset + 1 :: size_w) = Suc (unat offset)"
  using unsigned_less [of limit, where ?'a = nat]
  by (simp add: word_less_nat_alt unat_word_ariths)

section \<open>Reads stay inside the buffer\<close>

lemma mem_read_inside: "unat limit \<le> length data \<Longrightarrow> offset < limit \<Longrightarrow> mem_read data offset = Some (data ! unat offset)"
  by (simp add: mem_read_def word_less_nat_alt)

text \<open>
  The loop over \<open>n\<close> octets that lie below \<open>limit\<close> always returns, leaves the offset behind
  the octets and reads them as a big-endian number, as long as the number fits 64 bits.
\<close>

definition be_value :: "bytes \<Rightarrow> nat" where
  "be_value bs = foldl (\<lambda>acc b. 256 * acc + unat b) 0 bs"

lemma be_value_snoc: "be_value (bs @ [b]) = 256 * be_value bs + unat b"
  by (simp add: be_value_def)

lemma radix_step: "v < p \<Longrightarrow> u < 256 \<Longrightarrow> 256 * v + u < 256 * (p :: nat)"
  by linarith

lemma be_value_bound: "be_value bs < 256 ^ length bs"
proof (induction bs rule: rev_induct)
  case (snoc b bs)
  then show ?case using radix_step [OF snoc unat_byte_less [of b]] by (simp add: be_value_snoc)
qed (simp add: be_value_def)

lemma be_value_bound_mono: "length bs \<le> k \<Longrightarrow> be_value bs < 256 ^ k"
  by (rule less_le_trans [OF be_value_bound]) (simp add: power_increasing)

text \<open>Shifting in one octet is multiplication by 256, without loss below \<open>2 ^ 56\<close>.\<close>

lemma shift_in_octet:
  assumes "v < 2 ^ 56"
  shows "push_bit 8 (word_of_nat v :: size_w) OR ucast (b :: byte) = word_of_nat (256 * v + unat b)"
proof -
  have "push_bit 8 (word_of_nat v :: size_w) OR ucast b = push_bit 8 (word_of_nat v) + ucast b"
    by (rule disjunctive_add_eq_or [symmetric], rule bit_word_eqI) (auto simp: bitwise_simps)
  also have "\<dots> = word_of_nat (256 * v + unat b)"
    by (simp add: push_bit_eq_mult)
  finally show ?thesis .
qed

lemma max_shifted: "drop_bit 8 (-1 :: size_w) = 2 ^ 56 - 1"
  by code_simp

lemma octets_below_guard:
  assumes "v < 2 ^ 56"
  shows "\<not> (word_of_nat v :: size_w) > drop_bit 8 (-1)"
proof -
  have "unat (word_of_nat v :: size_w) = v" using assms by (simp add: unat_of_nat)
  then show ?thesis using assms unfolding max_shifted by (simp add: word_less_nat_alt)
qed


text \<open>
  The loop over \<open>n\<close> octets inside the buffer always returns \<open>true\<close>, leaves the offset
  behind the octets and has read them as a big-endian number; the guard against losing
  high bits never fires, because at most eight octets are read.
\<close>

lemma der_length_loop_value:
  assumes "unat offset + n \<le> length data" and "unat offset + n < 2 ^ 64"
    and "length pre + n \<le> 8"
  shows "der_length_loop data n offset (word_of_nat (be_value pre))
    = Some (True, offset + word_of_nat n,
            word_of_nat (be_value (pre @ take n (drop (unat offset) data))))"
  using assms
proof (induction n arbitrary: offset pre)
  case (Suc n)
  let ?b = "data ! unat offset"
  have small: "be_value pre < 2 ^ 56"
    using be_value_bound_mono [of pre 7] Suc.prems by simp
  have next_off: "unat (offset + 1) = Suc (unat offset)"
    using Suc.prems by (simp add: unat_word_ariths)
  have split: "take (Suc n) (drop (unat offset) data)
      = ?b # take n (drop (Suc (unat offset)) data)"
    using Suc.prems by (simp add: Cons_nth_drop_Suc [symmetric])
  have step: "der_length_loop data (Suc n) offset (word_of_nat (be_value pre))
      = der_length_loop data n (offset + 1) (word_of_nat (be_value (pre @ [?b])))"
    using Suc.prems octets_below_guard [OF small]
    by (simp add: mem_read_def shift_in_octet [OF small] be_value_snoc)
  have "der_length_loop data n (offset + 1) (word_of_nat (be_value (pre @ [?b])))
    = Some (True, offset + 1 + word_of_nat n,
        word_of_nat (be_value ((pre @ [?b]) @ take n (drop (unat (offset + 1)) data))))"
    using Suc.prems by (intro Suc.IH) (simp_all add: next_off)
  then show ?case
    unfolding step by (simp add: split next_off add.assoc)
qed simp


section \<open>What a successful parse means\<close>

text \<open>
  The value of a length field, as ITU-T X.690 defines it: one octet below 128, or a count
  octet \<open>0x80 + n\<close> (\<open>1 \<le> n \<le> 8\<close>) and \<open>n\<close> octets of a big-endian number.
\<close>

fun der_length_spec :: "bytes \<Rightarrow> (nat \<times> nat) option" where
  "der_length_spec [] = None"
| "der_length_spec (b # bs) =
     (if unat b < 128 then Some (1, unat b)
      else let n = unat b - 128
           in if n = 0 \<or> n > 8 \<or> n > length bs then None
              else Some (Suc n, be_value (take n bs)))"

lemma high_bit_clear: "b AND 0x80 = 0 \<longleftrightarrow> unat (b :: byte) < 128"
proof -
  have "b AND 0x80 = 0 \<longleftrightarrow> \<not> bit b 7"
    using and_exp_eq_0_iff_not_bit [of b 7] by simp
  also have "bit b 7 \<longleftrightarrow> bit (unat b) 7"
    by (simp add: bit_unsigned_iff)
  also have "\<dots> \<longleftrightarrow> odd (unat b div 128)"
    by (simp add: bit_iff_odd)
  also have "\<dots> \<longleftrightarrow> 128 \<le> unat b"
  proof -
    have "unat b div 128 < 2" using unat_byte_less [of b] by linarith
    then show ?thesis by (auto simp: less_2_cases_iff elim: oddE)
  qed
  finally show ?thesis by auto
qed

lemma low_bits_value: "\<not> unat (b :: byte) < 128 \<Longrightarrow> unat (ucast (b AND 0x7F) :: size_w) = unat b - 128"
proof -
  assume high: "\<not> unat b < 128"
  have "unat (take_bit 7 b) = unat b mod 128"
    unfolding unsigned_take_bit_eq by (simp add: take_bit_eq_mod)
  then have "unat (b AND 0x7F) = unat b - 128"
    using high unat_byte_less [of b] unfolding and_mask_numeral by (simp add: le_mod_geq)
  then show ?thesis by simp
qed

text \<open>
  A length field at \<open>off\<close> whose value ends at or before \<open>lim\<close>, and a whole TLV: the
  reference parsers, over natural numbers, that the word-level code has to implement.
\<close>

definition len_spec :: "bytes \<Rightarrow> nat \<Rightarrow> nat \<Rightarrow> (nat \<times> nat) option" where
  "len_spec data off lim =
     (if lim \<le> off then None
      else case der_length_spec (take (lim - off) (drop off data)) of
        None \<Rightarrow> None
      | Some (k, v) \<Rightarrow> if off + k + v \<le> lim then Some (off + k, v) else None)"

definition tlv_spec :: "bytes \<Rightarrow> nat \<Rightarrow> nat \<Rightarrow> (byte \<times> nat \<times> nat) option" where
  "tlv_spec data off lim =
     (if lim \<le> off then None
      else map_option (\<lambda>(voff, vlen). (data ! off, voff, vlen)) (len_spec data (Suc off) lim))"

lemma len_spec_bounds: "len_spec data off lim = Some (vo, v) \<Longrightarrow> off < vo \<and> vo + v \<le> lim"
proof -
  assume "len_spec data off lim = Some (vo, v)"
  then obtain k where k: "der_length_spec (take (lim - off) (drop off data)) = Some (k, v)"
    "vo = off + k" "off + k + v \<le> lim"
    by (auto simp: len_spec_def split: if_splits option.splits)
  then have "0 < k" by (cases "take (lim - off) (drop off data)") (auto simp: Let_def split: if_splits)
  with k show ?thesis by simp
qed

definition length_result :: "(bool \<times> size_w \<times> size_w) option \<Rightarrow> (nat \<times> nat) option \<Rightarrow> bool" where
  "length_result r spec = (case (r, spec) of
      (Some (True, vo, v), Some (vo', v')) \<Rightarrow> unat vo = vo' \<and> unat v = v'
    | (Some (False, _, _), None) \<Rightarrow> True
    | _ \<Rightarrow> False)"

text \<open>
  The pointer form on a readable range never reads outside it and implements the
  reference parser. The two cases are the short and the long form.
\<close>

lemma length_short_form:
  assumes off: "offset < limit" and rd: "mem_read data offset = Some b" and short: "unat b < 128"
    and field: "take (unat limit - unat offset) (drop (unat offset) data) = b # rest"
  shows "length_result (ParseDerLength_ptr False data limit offset len)
    (len_spec data (unat offset) (unat limit))"
proof -
  have "unat offset < unat limit" "\<not> limit \<le> offset" using off by (simp_all add: word_less_nat_alt word_le_nat_alt)
  moreover have "b AND 0x80 = 0" using short by (simp add: high_bit_clear)
  ultimately show ?thesis
    using short by (simp add: length_result_def ParseDerLength_ptr_def rd len_spec_def field
        InBounds_unat unat_Suc_offset [OF off] Let_def)
qed

lemma length_long_form:
  assumes lim: "unat limit \<le> length data" and off: "offset < limit"
    and rd: "mem_read data offset = Some b" and long: "\<not> unat b < 128"
    and field: "take (unat limit - unat offset) (drop (unat offset) data) = b # rest"
    and rest: "rest = take (unat limit - Suc (unat offset)) (drop (Suc (unat offset)) data)"
  shows "length_result (ParseDerLength_ptr False data limit offset len)
    (len_spec data (unat offset) (unat limit))"
proof -
  define n where "n = unat b - 128"
  have idx: "unat offset < unat limit" "\<not> limit \<le> offset" using off by (simp_all add: word_less_nat_alt word_le_nat_alt)
  have off1: "unat (offset + 1) = Suc (unat offset)" by (rule unat_Suc_offset [OF off])
  have len_rest: "length rest = unat limit - Suc (unat offset)" using lim by (simp add: rest)
  have nz: "b AND 0x80 \<noteq> 0" using long by (simp add: high_bit_clear)
  have cnt: "unat (ucast (b AND 0x7F) :: size_w) = n" unfolding n_def by (rule low_bits_value [OF long])
  have zero: "(ucast (b AND 0x7F) :: size_w) = 0 \<longleftrightarrow> n = 0" using cnt by (simp flip: unat_eq_0)
  have cond: "(ucast (b AND 0x7F) :: size_w) = 0 \<or> (ucast (b AND 0x7F) :: size_w) > 8
        \<or> \<not> InBounds (offset + 1) (ucast (b AND 0x7F)) limit
      \<longleftrightarrow> n = 0 \<or> n > 8 \<or> n > length rest"
    unfolding zero using idx cnt by (auto simp: word_less_nat_alt InBounds_unat off1 len_rest)
  show ?thesis
  proof (cases "n = 0 \<or> n > 8 \<or> n > length rest")
    case True
    then show ?thesis using long cond idx
      by (simp add: length_result_def ParseDerLength_ptr_def rd nz len_spec_def field n_def Let_def)
  next
    case good: False
    then have inside: "Suc (unat offset) + n \<le> unat limit" using idx unfolding len_rest by linarith
    have lim64: "unat limit < 2 ^ 64" using unsigned_less [of limit, where ?'a = nat] by simp
    have loop: "der_length_loop data n (offset + 1) 0
        = Some (True, offset + 1 + word_of_nat n, word_of_nat (be_value (take n rest)))"
      using der_length_loop_value [of "offset + 1" n data "[]"] good inside lim lim64
      by (simp add: off1 be_value_def [of "[]"] rest min_absorb1)
    have "length (take n rest) \<le> 8" using good by simp
    then have "be_value (take n rest) < 2 ^ 64" using be_value_bound_mono [of "take n rest" 8] by simp
    then have val: "unat (word_of_nat (be_value (take n rest)) :: size_w) = be_value (take n rest)"
      by (simp add: unat_of_nat)
    have off2: "unat (offset + 1 + word_of_nat n) = Suc (unat offset) + n"
      using inside lim64 by (simp add: unat_word_ariths off1 unat_of_nat)
    have "ParseDerLength_ptr False data limit offset len
      = Some (InBounds (offset + 1 + word_of_nat n) (word_of_nat (be_value (take n rest))) limit,
              offset + 1 + word_of_nat n, word_of_nat (be_value (take n rest)))"
      using good cond idx by (simp add: ParseDerLength_ptr_def rd nz cnt [simplified] loop Let_def)
    moreover have "der_length_spec (b # rest) = Some (Suc n, be_value (take n rest))"
      using good long by (simp add: n_def Let_def)
    ultimately show ?thesis
      using idx by (simp add: length_result_def len_spec_def field InBounds_unat val off2)
  qed
qed

lemma ParseDerLength_ptr_correct:
  assumes lim: "unat limit \<le> length data"
  shows "length_result (ParseDerLength_ptr False data limit offset len)
    (len_spec data (unat offset) (unat limit))"
proof (cases "offset < limit")
  case off: True
  define rest where "rest = take (unat limit - Suc (unat offset)) (drop (Suc (unat offset)) data)"
  have idx: "unat offset < unat limit" using off by (simp add: word_less_nat_alt)
  have field: "take (unat limit - unat offset) (drop (unat offset) data) = data ! unat offset # rest"
    using idx lim Suc_diff_Suc [OF idx]
    by (simp add: rest_def Cons_nth_drop_Suc [symmetric] flip: take_Suc_Cons)
  show ?thesis
    using length_short_form [OF off mem_read_inside [OF lim off] _ field]
      length_long_form [OF lim off mem_read_inside [OF lim off] _ field rest_def] by blast
next
  case False
  then show ?thesis
    by (auto simp: length_result_def ParseDerLength_ptr_def len_spec_def word_less_nat_alt word_le_nat_alt)
qed


definition tlv_result :: "(bool \<times> TlvView) option \<Rightarrow> (byte \<times> nat \<times> nat) option \<Rightarrow> bool" where
  "tlv_result r spec = (case (r, spec) of
      (Some (True, out), Some (t, voff, vlen)) \<Rightarrow>
        tag out = t \<and> unat (value_offset out) = voff \<and> unat (value_length out) = vlen
        \<and> unat (next_offset out) = voff + vlen
    | (Some (False, _), None) \<Rightarrow> True
    | _ \<Rightarrow> False)"

lemma ParseTlvAt_ptr_correct:
  assumes lim: "unat limit \<le> length data"
  shows "tlv_result (ParseTlvAt_ptr False data offset limit out)
    (tlv_spec data (unat offset) (unat limit))"
proof (cases "offset < limit")
  case off: True
  have idx: "unat offset < unat limit" "\<not> limit \<le> offset"
    using off by (simp_all add: word_less_nat_alt word_le_nat_alt)
  have "length_result (ParseDerLength_ptr False data limit (offset + 1) 0)
      (len_spec data (Suc (unat offset)) (unat limit))"
    using ParseDerLength_ptr_correct [OF lim, of "offset + 1" 0] by (simp add: unat_Suc_offset [OF off])
  moreover have "unat (vo + v) = vo' + v'"
    if "len_spec data (Suc (unat offset)) (unat limit) = Some (vo', v')" "unat vo = vo'" "unat v = v'"
    for vo v :: size_w and vo' v'
  proof -
    have "vo' + v' < 2 ^ 64"
      using len_spec_bounds [OF that(1)] unsigned_less [of limit, where ?'a = nat] by simp
    with that show ?thesis by (simp add: unat_word_ariths)
  qed
  ultimately show ?thesis using idx
    by (auto simp: tlv_result_def length_result_def ParseTlvAt_ptr_def tlv_spec_def not_le [symmetric]
        mem_read_inside [OF lim off] split: option.splits bool.splits)
next
  case False
  then show ?thesis
    by (auto simp: tlv_result_def ParseTlvAt_ptr_def tlv_spec_def word_less_nat_alt word_le_nat_alt)
qed

lemma unat_buffer_size: "length data < 2 ^ 64 \<Longrightarrow> unat (buffer_size data) = length data"
  by (simp add: buffer_size_def unat_of_nat)

lemma unat_clamped:
  "length data < 2 ^ 64 \<Longrightarrow>
   unat (if limit < buffer_size data then limit else buffer_size data) = min (unat limit) (length data)"
  by (auto simp: word_less_nat_alt unat_buffer_size)

text \<open>
  Whatever the bytes, the offset and the limit, \<open>ParseTlvAt\<close> on a vector reads only
  inside the vector and implements the reference parser on the smaller of the limit and
  the vector's size: it accepts exactly the well-formed TLVs that fit, without any
  wrap-around, and reports their tag, value range and next offset. (A vector is smaller
  than the address space.)
\<close>

theorem ParseTlvAt_limit_refines:
  assumes "length data < 2 ^ 64"
  shows "tlv_result (ParseTlvAt_limit data offset limit out)
    (tlv_spec data (unat offset) (min (unat limit) (length data)))"
proof (cases "data = []")
  case True
  then show ?thesis
    by (auto simp: ParseTlvAt_limit_def ParseTlvAt_ptr_def tlv_result_def tlv_spec_def)
next
  case False
  let ?eff = "if limit < buffer_size data then limit else buffer_size data"
  have "unat ?eff \<le> length data" using unat_clamped [OF assms, of limit] by simp
  from ParseTlvAt_ptr_correct [OF this, of offset out]
  show ?thesis unfolding unat_clamped [OF assms] using False by (simp add: ParseTlvAt_limit_def Let_def)
qed

definition empty_view :: TlvView where
  "empty_view = \<lparr>tag = 0, value_offset = 0, value_length = 0, next_offset = 0\<rparr>"

theorem ParseTlvAt_limit_refines_witness:
  "length [0x30, 0x03, 0x02, 0x01, 0x05 :: byte] < 2 ^ 64 \<and>
   tlv_result (ParseTlvAt_limit [0x30, 0x03, 0x02, 0x01, 0x05] 0 9 empty_view)
     (tlv_spec [0x30, 0x03, 0x02, 0x01, 0x05] 0 (length [0x30, 0x03, 0x02, 0x01, 0x05 :: byte]))"
proof -
  have h: "length [0x30, 0x03, 0x02, 0x01, 0x05 :: byte] < 2 ^ 64" by simp
  show ?thesis using h ParseTlvAt_limit_refines [OF h, of 0 9 empty_view] by simp
qed

section \<open>Reading back a canonical encoding\<close>

text \<open>The octets of a number below \<open>256 ^ n\<close>, most significant first.\<close>

fun be_octets :: "nat \<Rightarrow> nat \<Rightarrow> bytes" where
  "be_octets 0 v = []"
| "be_octets (Suc n) v = be_octets n (v div 256) @ [word_of_nat (v mod 256)]"

lemma length_be_octets [simp]: "length (be_octets n v) = n"
  by (induction n arbitrary: v) simp_all

lemma be_value_octets: "v < 256 ^ n \<Longrightarrow> be_value (be_octets n v) = v"
proof (induction n arbitrary: v)
  case (Suc n)
  have "v div 256 < 256 ^ n" using Suc.prems by (simp add: less_mult_imp_div_less mult.commute)
  then have "be_value (be_octets n (v div 256)) = v div 256" by (rule Suc.IH)
  then show ?case by (simp add: be_value_snoc unat_of_nat)
qed (simp add: be_value_def)

text \<open>Any definite length form of X.690: the short form, or \<open>n\<close> octets in the long form.\<close>

definition der_header :: "nat \<Rightarrow> nat \<Rightarrow> bytes" where
  "der_header n v = (if n = 0 then [word_of_nat v] else word_of_nat (128 + n) # be_octets n v)"

definition header_ok :: "nat \<Rightarrow> nat \<Rightarrow> bool" where
  "header_ok n v \<longleftrightarrow> n \<le> 8 \<and> (if n = 0 then v < 128 else v < 256 ^ n)"

lemma der_length_spec_header:
  "header_ok n v \<Longrightarrow> der_length_spec (der_header n v @ post) = Some (Suc n, v)"
proof -
  assume h: "header_ok n v"
  have "unat (word_of_nat (128 + n) :: byte) = 128 + n"
    using h by (subst unat_of_nat) (simp add: header_ok_def)
  with h show ?thesis
    by (cases "n = 0") (auto simp: header_ok_def der_header_def unat_of_nat be_value_octets Let_def
        simp del: of_nat_add)
qed

text \<open>
  A TLV written with any definite length form, at any position of a buffer and with
  any bytes after it, is read back: the tag, the position and length of the value, and the
  offset of what follows. The length octets need not be minimal, so the reader also accepts
  the non-minimal forms that DER itself forbids.
\<close>

theorem ParseTlvAt_reads_encoding:
  assumes "header_ok n (length val)"
    and "data = pre @ t # der_header n (length val) @ val @ post" and "length data < 2 ^ 64"
  shows "\<exists>out'. ParseTlvAt data (word_of_nat (length pre)) out = Some (True, out') \<and>
    tag out' = t \<and> unat (value_offset out') = length pre + 1 + length (der_header n (length val)) \<and>
    unat (value_length out') = length val \<and>
    unat (next_offset out') = length data - length post"
proof -
  have hl: "length (der_header n (length val)) = Suc n" by (simp add: der_header_def)
  have "tlv_result (ParseTlvAt data (word_of_nat (length pre)) out)
      (tlv_spec data (length pre) (length data))"
    using ParseTlvAt_ptr_correct [of "buffer_size data" data "word_of_nat (length pre)" out] assms
    by (simp add: ParseTlvAt_def unat_buffer_size unat_of_nat)
  moreover have "tlv_spec data (length pre) (length data)
      = Some (t, length pre + Suc (Suc n), length val)"
    using assms(1,2) by (simp add: tlv_spec_def len_spec_def der_length_spec_header hl)
  ultimately show ?thesis
    using assms(2) hl by (auto simp: tlv_result_def split: option.splits prod.splits bool.splits)
qed

theorem ParseTlvAt_reads_encoding_witness:
  "header_ok 1 (length [7 :: byte]) \<and>
   (\<exists>out'. ParseTlvAt [0xAA, 0x04, 0x81, 0x01, 7, 0xBB] 1 empty_view = Some (True, out') \<and>
     tag out' = 4 \<and> unat (value_offset out') = 4 \<and> unat (value_length out') = 1 \<and>
     unat (next_offset out') = 5)"
proof -
  have h: "header_ok 1 (length [7 :: byte])" by (simp add: header_ok_def)
  have d: "[0xAA, 0x04, 0x81, 0x01, 7, 0xBB :: byte]
      = [0xAA] @ 0x04 # der_header 1 (length [7 :: byte]) @ [7] @ [0xBB]"
    by (simp add: der_header_def)
  obtain out' where out: "ParseTlvAt [0xAA, 0x04, 0x81, 0x01, 7, 0xBB] 1 empty_view = Some (True, out')"
    "tag out' = 4" "unat (value_offset out') = 4" "unat (value_length out') = 1" "unat (next_offset out') = 5"
    using ParseTlvAt_reads_encoding [OF h d, of empty_view] by (auto simp: der_header_def)
  show ?thesis by (intro conjI h exI [of _ out']) (fact out)+
qed

end
