(* ===== verification/Jks.thy ===== *)
theory Jks
  imports Sha1 Utf_Path Der
begin

text \<open>
  The reader of Java key stores (\<open>core/KeyParsers.cpp\<close>): the big-endian fields, Java's modified
  UTF-8, the integrity digest over the store, the protection of a private key and the selection of
  an entry by its alias. The cursor of the readers is the rest of the body, which ends before the
  trailing digest. Each error message is a value of the left side of the result.
\<close>

section \<open>Results\<close>

definition sbind :: "'e + 'a \<Rightarrow> ('a \<Rightarrow> 'e + 'b) \<Rightarrow> 'e + 'b" where
  "sbind r f = (case r of Inl e \<Rightarrow> Inl e | Inr x \<Rightarrow> f x)"

definition need :: "'e \<Rightarrow> 'a option \<Rightarrow> 'e + 'a" where
  "need e r = (case r of None \<Rightarrow> Inl e | Some x \<Rightarrow> Inr x)"

definition guard :: "'e \<Rightarrow> bool \<Rightarrow> 'e + unit" where
  "guard e b = (if b then Inr () else Inl e)"

lemma sbind_simps [simp]: "sbind (Inl e) f = Inl e" "sbind (Inr x) f = f x" "need e None = Inl e" "need e (Some x) = Inr x"
  "guard e True = Inr ()" "guard e False = Inl e"
  by (simp_all add: sbind_def need_def guard_def)

lemma sbind_Inr_iff: "sbind r f = Inr y \<longleftrightarrow> (\<exists>x. r = Inr x \<and> f x = Inr y)"
  by (simp add: sbind_def split: sum.split)

lemma need_Inr_iff: "need e r = Inr x \<longleftrightarrow> r = Some x"
  by (simp add: need_def split: option.split)

lemma guard_Inr_iff: "guard e b = Inr u \<longleftrightarrow> b"
  by (simp add: guard_def)

lemmas result_iffs = sbind_Inr_iff need_Inr_iff guard_Inr_iff

section \<open>Fields\<close>

definition ReadU16 :: "bytes \<Rightarrow> (u16 \<times> bytes) option" where
  "ReadU16 data = (case data of b0 # b1 # rest \<Rightarrow> Some (push_bit 8 (ucast b0) OR ucast b1, rest) | _ \<Rightarrow> None)"

definition ReadU32 :: "bytes \<Rightarrow> (u32 \<times> bytes) option" where
  "ReadU32 data = (case data of
     b0 # b1 # b2 # b3 # rest \<Rightarrow>
       Some (push_bit 24 (ucast b0) OR push_bit 16 (ucast b1) OR push_bit 8 (ucast b2) OR ucast b3, rest)
   | _ \<Rightarrow> None)"

definition ReadU64 :: "bytes \<Rightarrow> (u64 \<times> bytes) option" where
  "ReadU64 data =
     (if length data < 8 then None else Some (foldl (\<lambda>out b. push_bit 8 out OR ucast b) 0 (take 8 data), drop 8 data))"

definition ReadBytes :: "nat \<Rightarrow> bytes \<Rightarrow> (bytes \<times> bytes) option" where
  "ReadBytes n data = (if length data < n then None else Some (take n data, drop n data))"

fun DecodeJavaModifiedUtf8 :: "bytes \<Rightarrow> u16 list option" where
  "DecodeJavaModifiedUtf8 [] = Some []"
| "DecodeJavaModifiedUtf8 (lead # rest) =
     (if lead AND 0x80 = 0 then
        if lead = 0 then None else map_option (\<lambda>out. ucast lead # out) (DecodeJavaModifiedUtf8 rest)
      else if lead AND 0xE0 = 0xC0 then
        (case rest of
           [] \<Rightarrow> None
         | trail # rest \<Rightarrow>
             if trail AND 0xC0 \<noteq> 0x80 then None
             else
               let value = push_bit 6 (ucast (lead AND 0x1F)) OR ucast (trail AND 0x3F)
               in if value = 0 then map_option (\<lambda>out. 0 # out) (DecodeJavaModifiedUtf8 rest)
                  else if value < 0x80 then None
                  else map_option (\<lambda>out. value # out) (DecodeJavaModifiedUtf8 rest))
      else if lead AND 0xF0 = 0xE0 then
        (case rest of
           trail1 # trail2 # rest \<Rightarrow>
             if trail1 AND 0xC0 \<noteq> 0x80 \<or> trail2 AND 0xC0 \<noteq> 0x80 then None
             else
               let value = push_bit 12 (ucast (lead AND 0x0F)) OR push_bit 6 (ucast (trail1 AND 0x3F)) OR ucast (trail2 AND 0x3F)
               in if value < 0x800 then None
                  else map_option (\<lambda>out. value # out) (DecodeJavaModifiedUtf8 rest)
         | _ \<Rightarrow> None)
      else None)"

definition ReadModifiedUtf8 :: "bytes \<Rightarrow> (string \<times> bytes) option" where
  "ReadModifiedUtf8 data =
     (case ReadU16 data of
        None \<Rightarrow> None
      | Some (len, data) \<Rightarrow>
          if unat len > length data then None
          else case DecodeJavaModifiedUtf8 (take (unat len) data) of
            None \<Rightarrow> None
          | Some decoded \<Rightarrow>
              (case TryEncodeUtf16ToUtf8 decoded of
                 None \<Rightarrow> None
               | Some out \<Rightarrow> Some (string_of_bytes out, drop (unat len) data)))"

section \<open>Passwords and aliases\<close>

definition kJksWhitener :: bytes where
  "kJksWhitener = bytes_of_string ''Mighty Aphrodite''"

definition ToJksPasswordBytes :: "string \<Rightarrow> bytes option" where
  "ToJksPasswordBytes password =
     (if password = [] then Some []
      else map_option (\<lambda>utf16. concat (map (\<lambda>ch. [ucast (drop_bit 8 ch AND 0xFF), ucast (ch AND 0xFF)]) utf16))
        (TryDecodeUtf8ToUtf16 (bytes_of_string password)))"

definition to_lower_utf16 :: "u16 \<Rightarrow> u16" where
  "to_lower_utf16 ch =
     (if ch \<ge> 0x41 \<and> ch \<le> 0x5A then ch - 0x41 + 0x61
      else if ch \<ge> 0x410 \<and> ch \<le> 0x42F then ch + 0x20
      else if ch = 0x401 then 0x451 else if ch = 0x404 then 0x454 else if ch = 0x406 then 0x456
      else if ch = 0x407 then 0x457 else if ch = 0x490 then 0x491 else ch)"

definition NormalizeJksAlias :: "string \<Rightarrow> string" where
  "NormalizeJksAlias alias =
     (case TryDecodeUtf8ToUtf16 (bytes_of_string alias) of
        Some utf16 \<Rightarrow>
          (case TryEncodeUtf16ToUtf8 (map to_lower_utf16 utf16) of
             Some lowered \<Rightarrow> string_of_bytes lowered
           | None \<Rightarrow> map tolower alias)
      | None \<Rightarrow> map tolower alias)"

definition kJksDigestLength :: nat where "kJksDigestLength = 20"
definition kJksSaltLength :: nat where "kJksSaltLength = 20"

definition VerifyJksIntegrity :: "bytes \<Rightarrow> nat \<Rightarrow> string \<Rightarrow> string + unit" where
  "VerifyJksIntegrity input body_size store_password =
     (if store_password = [] then Inr ()
      else if length input < body_size + kJksDigestLength then Inl ''JKS integrity trailer is truncated''
      else
        sbind (need ''JKS store password is not valid UTF-8'' (ToJksPasswordBytes store_password)) (\<lambda>digest_input.
        let computed = Sha1Digest (digest_input @ kJksWhitener @ take body_size input)
        in guard ''JKS keystore password is incorrect or the store was tampered with''
             (computed = take kJksDigestLength (drop body_size input))))"

section \<open>The protected private key\<close>

text \<open>A call of the DER reader with a limit; out-of-bounds reads do not occur (\<open>Der\<close>).\<close>

definition tlv_at :: "bytes \<Rightarrow> size_w \<Rightarrow> size_w \<Rightarrow> TlvView option" where
  "tlv_at data offset limit =
     (case ParseTlvAt_limit data offset limit \<lparr>tag = 0, value_offset = 0, value_length = 0, next_offset = 0\<rparr> of
        Some (True, view) \<Rightarrow> Some view
      | _ \<Rightarrow> None)"

definition slice :: "bytes \<Rightarrow> size_w \<Rightarrow> size_w \<Rightarrow> bytes" where
  "slice data from until = take (unat until - unat from) (drop (unat from) data)"

definition value_of :: "bytes \<Rightarrow> TlvView \<Rightarrow> bytes" where
  "value_of data view = slice data (value_offset view) (value_offset view + value_length view)"

definition kJksKeyProtectorOid :: bytes where
  "kJksKeyProtectorOid = [0x2B, 0x06, 0x01, 0x04, 0x01, 0x2A, 0x02, 0x11, 0x01, 0x01]"

definition ExtractJksEncryptedPayload :: "bytes \<Rightarrow> string + bytes" where
  "ExtractJksEncryptedPayload protected =
     sbind (need ''JKS private key entry is not valid EncryptedPrivateKeyInfo'' (tlv_at protected 0 (buffer_size protected))) (\<lambda>outer.
     sbind (guard ''JKS private key entry is not valid EncryptedPrivateKeyInfo''
       (tag outer = 0x30 \<and> next_offset outer = buffer_size protected)) (\<lambda>_.
     sbind (need ''JKS private key entry has invalid encryption algorithm metadata''
       (tlv_at protected (value_offset outer) (next_offset outer))) (\<lambda>algorithm.
     sbind (guard ''JKS private key entry has invalid encryption algorithm metadata'' (tag algorithm = 0x30)) (\<lambda>_.
     sbind (need ''JKS private key entry does not contain encryption OID''
       (tlv_at protected (value_offset algorithm) (next_offset algorithm))) (\<lambda>algorithm_oid.
     sbind (guard ''JKS private key entry does not contain encryption OID'' (tag algorithm_oid = 0x06)) (\<lambda>_.
     sbind (guard ''JKS private key entry uses unsupported protection algorithm''
       (value_length algorithm_oid = 10 \<and> value_of protected algorithm_oid = kJksKeyProtectorOid)) (\<lambda>_.
     sbind (need ''JKS private key entry has invalid encrypted payload''
       (tlv_at protected (next_offset algorithm) (next_offset outer))) (\<lambda>encrypted_data.
     sbind (guard ''JKS private key entry has invalid encrypted payload''
       (tag encrypted_data = 0x04 \<and> next_offset encrypted_data = next_offset outer)) (\<lambda>_.
     Inr (slice protected (value_offset encrypted_data) (next_offset encrypted_data)))))))))))"

function jks_xor_key :: "bytes \<Rightarrow> nat \<Rightarrow> bytes \<Rightarrow> bytes \<Rightarrow> bytes" where
  "jks_xor_key password_bytes needed previous_digest xor_key =
     (if length xor_key < needed then
        let digest = Sha1Digest (password_bytes @ previous_digest);
            chunk = min (length digest) (needed - length xor_key)
        in jks_xor_key password_bytes needed digest (xor_key @ take chunk digest)
      else xor_key)"
  by pat_completeness auto
termination
  by (relation "measure (\<lambda>(_, needed, _, xor_key). needed - length xor_key)") auto

declare jks_xor_key.simps [simp del]

definition RecoverJksPrivateKey :: "bytes \<Rightarrow> string \<Rightarrow> string + bytes" where
  "RecoverJksPrivateKey protected key_password =
     (if key_password = [] then Inl ''JKS private key entry requires non-empty key password''
      else
        sbind (ExtractJksEncryptedPayload protected) (\<lambda>payload.
        if length payload < kJksSaltLength + kJksDigestLength then Inl ''JKS private key entry payload is too short''
        else
          let encrypted_key_length = length payload - kJksSaltLength - kJksDigestLength
          in sbind (need ''JKS private key password is not valid UTF-8'' (ToJksPasswordBytes key_password)) (\<lambda>password_bytes.
             let xor_key = jks_xor_key password_bytes encrypted_key_length (take kJksSaltLength payload) [];
                 pkcs8 = map (\<lambda>i. payload ! (kJksSaltLength + i) XOR xor_key ! i) [0..<encrypted_key_length];
                 computed = Sha1Digest (password_bytes @ pkcs8)
             in if computed = take kJksDigestLength (drop (kJksSaltLength + encrypted_key_length) payload) then Inr pkcs8
                else Inl ''JKS private key password is incorrect'')))"

section \<open>Entries\<close>

record PrivateKeyEntry =
  pk_alias :: string
  pk_private_key_pkcs8 :: bytes
  pk_certificate :: bytes
  pk_certificate_chain :: "bytes list"

record jks_selection =
  found_any_private_key :: bool
  found_requested_alias :: bool
  selected_protected_private_key :: bytes
  selected_first_certificate :: bytes
  selected_certificate_chain :: "bytes list"
  selected_alias :: string

text \<open>A certificate, preceded in version 2 by the name of its type.\<close>

definition read_certificate :: "string \<Rightarrow> string \<Rightarrow> string \<Rightarrow> u32 \<Rightarrow> bytes \<Rightarrow> string + bytes \<times> bytes" where
  "read_certificate type_error length_error bytes_error version data =
     sbind (if version = 2 then map_sum id snd (need type_error (ReadModifiedUtf8 data)) else Inr data) (\<lambda>data.
     sbind (need length_error (ReadU32 data)) (\<lambda>(len, data).
     need bytes_error (ReadBytes (unat len) data)))"

fun read_chain :: "u32 \<Rightarrow> nat \<Rightarrow> bytes \<Rightarrow> string + bytes list \<times> bytes" where
  "read_chain version 0 data = Inr ([], data)"
| "read_chain version (Suc n) data =
     sbind (read_certificate ''JKS certificate type field is invalid'' ''JKS certificate length field is invalid''
       ''JKS certificate entry is truncated'' version data) (\<lambda>(certificate, data).
     sbind (read_chain version n data) (\<lambda>(chain, data). Inr (certificate # chain, data)))"

definition read_key_entry :: "u32 \<Rightarrow> string \<Rightarrow> string \<Rightarrow> jks_selection \<Rightarrow> bytes \<Rightarrow> string + jks_selection \<times> bytes" where
  "read_key_entry version requested alias sel data =
     (let sel = sel\<lparr>found_any_private_key := True\<rparr>
      in sbind (need ''JKS private key entry length is invalid'' (ReadU32 data)) (\<lambda>(key_length, data).
         sbind (need ''JKS private key entry is truncated'' (ReadBytes (unat key_length) data)) (\<lambda>(protected, data).
         sbind (need ''JKS certificate chain header is truncated'' (ReadU32 data)) (\<lambda>(certificate_count, data).
         sbind (guard ''JKS certificate chain count exceeds the container size'' (unat certificate_count \<le> length data div 5)) (\<lambda>_.
         sbind (read_chain version (unat certificate_count) data) (\<lambda>(chain, data).
         let alias_matches = (if requested = [] then selected_protected_private_key sel = [] else NormalizeJksAlias alias = requested)
         in Inr (if alias_matches then
               sel\<lparr>found_requested_alias := True, selected_alias := alias, selected_protected_private_key := protected,
                 selected_certificate_chain := chain, selected_first_certificate := (if chain = [] then [] else hd chain)\<rparr>
             else sel, data)))))))"

definition read_entry :: "u32 \<Rightarrow> string \<Rightarrow> jks_selection \<Rightarrow> bytes \<Rightarrow> string + jks_selection \<times> bytes" where
  "read_entry version requested sel data =
     sbind (need ''JKS entry header is truncated'' (ReadU32 data)) (\<lambda>(entry_tag, data).
     sbind (need ''JKS alias is invalid'' (ReadModifiedUtf8 data)) (\<lambda>(alias, data).
     sbind (need ''JKS timestamp is truncated'' (ReadU64 data)) (\<lambda>(timestamp, data).
     if entry_tag = 1 then read_key_entry version requested alias sel data
     else if entry_tag = 2 then
       sbind (read_certificate ''JKS trusted certificate type is invalid'' ''JKS trusted certificate length field is invalid''
         ''JKS trusted certificate entry is truncated'' version data) (\<lambda>(certificate, data). Inr (sel, data))
     else Inl ''JKS entry tag is unsupported'')))"

fun read_entries :: "u32 \<Rightarrow> string \<Rightarrow> nat \<Rightarrow> jks_selection \<Rightarrow> bytes \<Rightarrow> string + jks_selection \<times> bytes" where
  "read_entries version requested 0 sel data = Inr (sel, data)"
| "read_entries version requested (Suc n) sel data =
     sbind (read_entry version requested sel data) (\<lambda>(sel, data). read_entries version requested n sel data)"

definition no_selection :: jks_selection where
  "no_selection = \<lparr>found_any_private_key = False, found_requested_alias = False, selected_protected_private_key = [],
     selected_first_certificate = [], selected_certificate_chain = [], selected_alias = []\<rparr>"

definition LoadPrivateKeyEntry :: "bytes \<Rightarrow> string \<Rightarrow> string \<Rightarrow> string \<Rightarrow> string + PrivateKeyEntry" where
  "LoadPrivateKeyEntry input store_password key_password preferred_alias =
     (if length input < 12 + kJksDigestLength then Inl ''JKS container is too short''
      else
        let body_size = length input - kJksDigestLength
        in sbind (need ''JKS magic is invalid'' (ReadU32 (take body_size input))) (\<lambda>(magic, data).
           sbind (guard ''JKS magic is invalid'' (magic = 0xFEEDFEED)) (\<lambda>_.
           sbind (need ''JKS header is truncated'' (ReadU32 data)) (\<lambda>(version, data).
           sbind (need ''JKS header is truncated'' (ReadU32 data)) (\<lambda>(entries, data).
           sbind (guard ''JKS version is not supported'' (version = 1 \<or> version = 2)) (\<lambda>_.
           let requested = (if preferred_alias = [] then [] else NormalizeJksAlias preferred_alias)
           in sbind (read_entries version requested (unat entries) no_selection data) (\<lambda>(sel, data).
              sbind (guard ''JKS container has trailing bytes before integrity trailer'' (data = [])) (\<lambda>_.
              sbind (VerifyJksIntegrity input body_size store_password) (\<lambda>_.
              sbind (guard ''JKS does not contain private key entry'' (found_any_private_key sel)) (\<lambda>_.
              sbind (guard ''JKS does not contain requested private key alias'' (requested = [] \<or> found_requested_alias sel)) (\<lambda>_.
              sbind (guard ''JKS does not contain readable private key entry'' (selected_protected_private_key sel \<noteq> [])) (\<lambda>_.
              sbind (RecoverJksPrivateKey (selected_protected_private_key sel)
                (if key_password = [] then store_password else key_password)) (\<lambda>pkcs8.
              Inr \<lparr>pk_alias = selected_alias sel, pk_private_key_pkcs8 = pkcs8, pk_certificate = selected_first_certificate sel,
                pk_certificate_chain = selected_certificate_chain sel\<rparr>)))))))))))))"

end
