(* ===== verification/Jks_Store.thy ===== *)
theory Jks_Store
  imports Jks
begin

text \<open>
  The format of a Java key store from the writer's side, and that the reader of \<open>Jks\<close> gets back what
  was written: the entry chosen by the alias, its certificates, and the private key under the
  password that protects it.
\<close>

section \<open>Java's writer\<close>

text \<open>Modified UTF-8 writes the character 0 in two bytes and a surrogate in three.\<close>

definition java_octets :: "u16 \<Rightarrow> bytes" where
  "java_octets c = (if c = 0 then [0xC0, 0x80] else map of_nat (utf8_octets (unat c)))"

definition java_string :: "u16 list \<Rightarrow> bytes" where
  "java_string s = be_octets 2 (length (concat (map java_octets s))) @ concat (map java_octets s)"

datatype java_entry =
  Java_Key (java_alias: "u16 list") nat bytes "(u16 list \<times> bytes) list"
| Java_Trusted (java_alias: "u16 list") nat "u16 list \<times> bytes"

definition java_certificate :: "nat \<Rightarrow> u16 list \<times> bytes \<Rightarrow> bytes" where
  "java_certificate version = (\<lambda>(name, der). (if version = 2 then java_string name else []) @ be_octets 4 (length der) @ der)"

fun java_entry_bytes :: "nat \<Rightarrow> java_entry \<Rightarrow> bytes" where
  "java_entry_bytes version (Java_Key alias time protected chain) =
     be_octets 4 1 @ java_string alias @ be_octets 8 time @ be_octets 4 (length protected) @ protected
       @ be_octets 4 (length chain) @ concat (map (java_certificate version) chain)"
| "java_entry_bytes version (Java_Trusted alias time certificate) =
     be_octets 4 2 @ java_string alias @ be_octets 8 time @ java_certificate version certificate"

definition java_body :: "nat \<Rightarrow> java_entry list \<Rightarrow> bytes" where
  "java_body version entries = be_octets 4 0xFEEDFEED @ be_octets 4 version @ be_octets 4 (length entries)
     @ concat (map (java_entry_bytes version) entries)"

definition java_store :: "nat \<Rightarrow> java_entry list \<Rightarrow> bytes \<Rightarrow> bytes" where
  "java_store version entries password_bytes =
     java_body version entries @ Sha1Digest (password_bytes @ kJksWhitener @ java_body version entries)"

text \<open>What the format can hold: two bytes of string length, four of every other length, no empty certificate in a chain.\<close>

definition java_string_ok :: "u16 list \<Rightarrow> bool" where
  "java_string_ok s \<longleftrightarrow> paired s \<and> length (concat (map java_octets s)) < 2 ^ 16"

definition java_certificate_ok :: "nat \<Rightarrow> u16 list \<times> bytes \<Rightarrow> bool" where
  "java_certificate_ok version = (\<lambda>(name, der). (version = 2 \<longrightarrow> java_string_ok name) \<and> length der < 2 ^ 32)"

fun java_entry_ok :: "nat \<Rightarrow> java_entry \<Rightarrow> bool" where
  "java_entry_ok version (Java_Key alias time protected chain) \<longleftrightarrow>
     java_string_ok alias \<and> length protected < 2 ^ 32 \<and> length chain < 2 ^ 32
     \<and> list_all (java_certificate_ok version) chain \<and> list_all (\<lambda>c. snd c \<noteq> []) chain"
| "java_entry_ok version (Java_Trusted alias time certificate) \<longleftrightarrow> java_string_ok alias \<and> java_certificate_ok version certificate"

section \<open>Reading the fields back\<close>

lemma be_value_big_endian: "big_endian bs = be_value bs"
  by (simp add: big_endian_def be_value_def mult.commute)

lemma be_octets_4: "be_octets 4 v = [word_of_nat (v div 256 div 256 div 256 mod 256), word_of_nat (v div 256 div 256 mod 256),
    word_of_nat (v div 256 mod 256), word_of_nat (v mod 256)]"
proof -
  have "(4 :: nat) = Suc (Suc (Suc (Suc 0)))" by simp
  then show ?thesis by (simp only: be_octets.simps append.simps)
qed

lemma ReadU32_octets: "v < 2 ^ 32 \<Longrightarrow> ReadU32 (be_octets 4 v @ rest) = Some (word_of_nat v, rest)"
proof -
  assume "v < 2 ^ 32"
  then have v: "v < 256 ^ 4" by simp
  have "ReadBigEndian32 (be_octets 4 v) 0 = word_of_nat v"
    using be_value_octets [OF v] by (simp add: ReadBigEndian32_value be_value_big_endian)
  then show ?thesis
    unfolding be_octets_4 by (simp add: ReadU32_def ReadBigEndian32_def)
qed

lemma or_add_u16: "n < 8 \<Longrightarrow> unat y < 2 ^ n \<Longrightarrow> push_bit n (ucast x) OR ucast y = (word_of_nat (2 ^ n * unat x + unat y) :: u16)" for x y :: byte
proof -
  assume n: "n < 8" "unat y < 2 ^ n"
  have "\<not> bit y i" if "n \<le> i" for i
  proof -
    have "take_bit n y = y" using n(2) by (simp add: word_unat_eq_iff unsigned_take_bit_eq take_bit_nat_eq_self)
    then show ?thesis using that by (metis bit_take_bit_iff linorder_not_less)
  qed
  then have "push_bit n (ucast x) OR ucast y = push_bit n (ucast x) + (ucast y :: u16)"
    by (intro disjunctive_add_eq_or [symmetric] bit_word_eqI) (auto simp: bit_simps not_le)
  then show ?thesis by (simp add: push_bit_eq_mult mult.commute)
qed

lemma or_add_u16_wide: "push_bit 8 (ucast x) OR ucast y = (word_of_nat (256 * unat x + unat y) :: u16)" for x y :: byte
proof -
  have "push_bit 8 (ucast x) OR ucast y = push_bit 8 (ucast x) + (ucast y :: u16)"
    by (intro disjunctive_add_eq_or [symmetric] bit_word_eqI) (auto simp: bit_simps dest: bit_imp_le_length)
  then show ?thesis by (simp add: push_bit_eq_mult mult.commute)
qed

lemma ReadU16_octets: "v < 2 ^ 16 \<Longrightarrow> ReadU16 (be_octets 2 v @ rest) = Some (word_of_nat v, rest)"
proof -
  assume v: "v < 2 ^ 16"
  have "(2 :: nat) = Suc (Suc 0)" by simp
  then have o: "be_octets 2 v = [word_of_nat (v div 256 mod 256), word_of_nat (v mod 256)]"
    by (simp only: be_octets.simps append.simps)
  have "unat (word_of_nat (v div 256 mod 256) :: byte) = v div 256" "unat (word_of_nat (v mod 256) :: byte) = v mod 256"
    using v by (simp_all add: unat_of_nat)
  then have "push_bit 8 (ucast (word_of_nat (v div 256 mod 256) :: byte)) OR ucast (word_of_nat (v mod 256) :: byte) = (word_of_nat v :: u16)"
    unfolding or_add_u16_wide by (simp only: mult_div_mod_eq)
  then show ?thesis unfolding o by (simp only: ReadU16_def append.simps list.case)
qed

lemma ReadU64_octets: "\<exists>w. ReadU64 (be_octets 8 v @ rest) = Some (w, rest)"
  by (simp add: ReadU64_def)

lemma ReadBytes_append: "ReadBytes (length bs) (bs @ rest) = Some (bs, rest)"
  by (simp add: ReadBytes_def)

lemma octet_classes:
  "(b AND 0x80 = 0 \<longleftrightarrow> unat b < 0x80) \<and> (b AND 0xE0 = 0xC0 \<longleftrightarrow> 0xC0 \<le> unat b \<and> unat b < 0xE0)
   \<and> (b AND 0xF0 = 0xE0 \<longleftrightarrow> 0xE0 \<le> unat b \<and> unat b < 0xF0) \<and> (b AND 0xC0 = 0x80 \<longleftrightarrow> 0x80 \<le> unat b \<and> unat b < 0xC0)
   \<and> unat (b AND 0x1F) = unat b mod 32 \<and> unat (b AND 0x0F) = unat b mod 16 \<and> unat (b AND 0x3F) = unat b mod 64"
  for b :: byte
  by (rule all_bytes) code_simp

lemma unat_octet: "n < 256 \<Longrightarrow> unat (word_of_nat n :: byte) = n"
  by (simp add: unat_of_nat)

lemma decode_two:
  assumes "x < 32" "y < 64" "64 * x + y = 0 \<or> 0x80 \<le> 64 * x + y"
  shows "DecodeJavaModifiedUtf8 (word_of_nat (0xC0 + x) # word_of_nat (0x80 + y) # rest)
    = map_option (\<lambda>out. word_of_nat (64 * x + y) # out) (DecodeJavaModifiedUtf8 rest)"
proof -
  let ?a = "word_of_nat (0xC0 + x) :: byte" and ?b = "word_of_nat (0x80 + y) :: byte"
  have a: "unat ?a = 0xC0 + x" and b: "unat ?b = 0x80 + y" using assms by (simp_all add: unat_octet del: of_nat_add)
  have m: "unat (?a AND 0x1F) = x" "unat (?b AND 0x3F) = y"
    using assms octet_classes [of ?a] octet_classes [of ?b] unfolding a b by (simp_all add: mod_add_eq mod_if)
  then have v: "push_bit 6 (ucast (?a AND 0x1F)) OR ucast (?b AND 0x3F) = (word_of_nat (64 * x + y) :: u16)"
    using or_add_u16 [of 6 "?b AND 0x3F" "?a AND 0x1F"] assms by simp
  have u: "unat (word_of_nat (64 * x + y) :: u16) = 64 * x + y" using assms by (simp add: unat_of_nat del: of_nat_add of_nat_mult)
  have "word_of_nat (64 * x + y) = (0 :: u16) \<longleftrightarrow> 64 * x + y = 0" "word_of_nat (64 * x + y) < (0x80 :: u16) \<longleftrightarrow> 64 * x + y < 0x80"
    using u by (simp_all add: word_unat_eq_iff word_less_nat_alt del: of_nat_add of_nat_mult)
  moreover have "\<not> ?a AND 0x80 = 0" "?a AND 0xE0 = 0xC0" "?b AND 0xC0 = 0x80"
    using assms octet_classes [of ?a] octet_classes [of ?b] unfolding a b by simp_all
  ultimately show ?thesis using assms(3) by (auto simp: v Let_def simp del: of_nat_add of_nat_mult)
qed

lemma or_add_three: "unat y < 64 \<Longrightarrow> unat z < 64 \<Longrightarrow>
  push_bit 12 (ucast x) OR push_bit 6 (ucast y) OR ucast z = (word_of_nat (4096 * unat x + 64 * unat y + unat z) :: u16)" for x y z :: byte
proof -
  assume y: "unat y < 64" and z: "unat z < 64"
  have "push_bit 6 (ucast y) OR ucast z = (word_of_nat (64 * unat y + unat z) :: u16)"
    using or_add_u16 [of 6 z y] z by simp
  moreover have "push_bit 12 (ucast x) OR (word_of_nat (64 * unat y + unat z) :: u16) = push_bit 12 (ucast x) + word_of_nat (64 * unat y + unat z)"
  proof (intro disjunctive_add_eq_or [symmetric] bit_word_eqI)
    have "unat (word_of_nat (64 * unat y + unat z) :: u16) < 2 ^ 12"
      using y z by (simp add: unat_of_nat del: of_nat_add of_nat_mult)
    then have "take_bit 12 (word_of_nat (64 * unat y + unat z) :: u16) = word_of_nat (64 * unat y + unat z)"
      by (simp add: word_unat_eq_iff unsigned_take_bit_eq take_bit_nat_eq_self del: of_nat_add of_nat_mult)
    then have "\<not> bit (word_of_nat (64 * unat y + unat z) :: u16) i" if "12 \<le> i" for i
      using that by (metis bit_take_bit_iff linorder_not_less)
    then show "bit (push_bit 12 (ucast x) AND (word_of_nat (64 * unat y + unat z) :: u16)) i \<longleftrightarrow> bit (0 :: u16) i" for i
      by (auto simp: bit_and_iff bit_push_bit_iff not_le simp del: of_nat_add of_nat_mult)
  qed
  ultimately show ?thesis by (simp add: push_bit_eq_mult algebra_simps)
qed

lemma decode_three:
  assumes "x < 16" "y < 64" "z < 64" "0x800 \<le> 4096 * x + 64 * y + z"
  shows "DecodeJavaModifiedUtf8 (word_of_nat (0xE0 + x) # word_of_nat (0x80 + y) # word_of_nat (0x80 + z) # rest)
    = map_option (\<lambda>out. word_of_nat (4096 * x + 64 * y + z) # out) (DecodeJavaModifiedUtf8 rest)"
proof -
  let ?a = "word_of_nat (0xE0 + x) :: byte" and ?b = "word_of_nat (0x80 + y) :: byte" and ?c = "word_of_nat (0x80 + z) :: byte"
  have a: "unat ?a = 0xE0 + x" and b: "unat ?b = 0x80 + y" and c: "unat ?c = 0x80 + z"
    using assms by (simp_all add: unat_octet del: of_nat_add)
  have m: "unat (?a AND 0x0F) = x" "unat (?b AND 0x3F) = y" "unat (?c AND 0x3F) = z"
    using assms octet_classes [of ?a] octet_classes [of ?b] octet_classes [of ?c] unfolding a b c by (simp_all add: mod_add_eq mod_if)
  then have v: "push_bit 12 (ucast (?a AND 0x0F)) OR push_bit 6 (ucast (?b AND 0x3F)) OR ucast (?c AND 0x3F)
      = (word_of_nat (4096 * x + 64 * y + z) :: u16)"
    using or_add_three [of "?b AND 0x3F" "?c AND 0x3F" "?a AND 0x0F"] assms by simp
  have "unat (word_of_nat (4096 * x + 64 * y + z) :: u16) = 4096 * x + 64 * y + z"
    using assms by (simp add: unat_of_nat del: of_nat_add of_nat_mult)
  then have "\<not> word_of_nat (4096 * x + 64 * y + z) < (0x800 :: u16)"
    using assms(4) by (simp add: word_less_nat_alt del: of_nat_add of_nat_mult)
  moreover have "\<not> ?a AND 0x80 = 0" "\<not> ?a AND 0xE0 = 0xC0" "?a AND 0xF0 = 0xE0" "?b AND 0xC0 = 0x80" "?c AND 0xC0 = 0x80"
    using assms octet_classes [of ?a] octet_classes [of ?b] octet_classes [of ?c] unfolding a b c by simp_all
  ultimately show ?thesis by (simp add: v Let_def del: of_nat_add of_nat_mult)
qed

lemma decode_java_octets:
  "DecodeJavaModifiedUtf8 (java_octets c @ rest) = map_option (\<lambda>out. c # out) (DecodeJavaModifiedUtf8 rest)"
proof -
  let ?n = "unat c"
  have n: "?n < 65536" "c = word_of_nat ?n" by simp_all
  consider "c = 0" | "c \<noteq> 0" "?n < 0x80" | "0x80 \<le> ?n" "?n < 0x800" | "0x800 \<le> ?n" by linarith
  then show ?thesis
  proof cases
    case 1
    then show ?thesis using decode_two [of 0 0 rest] by (simp add: java_octets_def)
  next
    case 2
    then have "?n \<noteq> 0" by (simp add: unat_eq_0)
    moreover have u: "unat (ucast c :: byte) = ?n" using 2 by (simp add: unsigned_ucast_eq take_bit_nat_eq_self)
    moreover have "ucast (ucast c :: byte) = c" using u by (simp add: word_unat_eq_iff unsigned_ucast_eq unsigned_take_bit_eq)
    moreover have "(ucast c :: byte) \<noteq> 0" using u \<open>?n \<noteq> 0\<close> by (metis unat_0)
    ultimately show ?thesis
      using 2 octet_classes [of "ucast c"] by (simp add: java_octets_def utf8_octets_def)
  next
    case 3
    then have "c \<noteq> 0" by auto
    have "64 * (?n div 64) + ?n mod 64 = ?n" by simp
    then show ?thesis
      using 3 \<open>c \<noteq> 0\<close> decode_two [of "?n div 64" "?n mod 64" rest] n(2) by (simp add: java_octets_def utf8_octets_def del: of_nat_add)
  next
    case 4
    then have "c \<noteq> 0" by auto
    have d: "4096 * (?n div 4096) + 64 * (?n div 64 mod 64) + ?n mod 64 = ?n"
      using base64_digits(2) [of ?n] by (simp add: mult.commute)
    have o: "java_octets c = [word_of_nat (0xE0 + ?n div 4096), word_of_nat (0x80 + ?n div 64 mod 64), word_of_nat (0x80 + ?n mod 64)]"
      using 4 n(1) \<open>c \<noteq> 0\<close> by (simp add: java_octets_def utf8_octets_def del: of_nat_add)
    have "?n div 4096 < 16" using n(1) by (simp add: less_mult_imp_div_less)
    from decode_three [OF this, of "?n div 64 mod 64" "?n mod 64" rest] show ?thesis
      unfolding o d using 4 by (simp del: of_nat_add DecodeJavaModifiedUtf8.simps)
  qed
qed

lemma decode_java: "DecodeJavaModifiedUtf8 (concat (map java_octets s)) = Some s"
  by (induction s) (simp_all add: decode_java_octets)

definition utf8_text :: "u16 list \<Rightarrow> string" where
  "utf8_text s = string_of_bytes (the (TryEncodeUtf16ToUtf8 s))"

lemma ReadModifiedUtf8_java: "java_string_ok s \<Longrightarrow> ReadModifiedUtf8 (java_string s @ rest) = Some (utf8_text s, rest)"
proof -
  let ?o = "concat (map java_octets s)"
  assume ok: "java_string_ok s"
  then obtain out where "TryEncodeUtf16ToUtf8 s = Some out"
    using Encode_defined_iff [of s] by (auto simp: java_string_ok_def TryEncodeUtf16ToUtf8_def)
  moreover have "unat (word_of_nat (length ?o) :: u16) = length ?o"
    using ok by (simp add: java_string_ok_def unat_of_nat)
  ultimately show ?thesis
    using ok unfolding ReadModifiedUtf8_def java_string_def append_assoc
    by (subst ReadU16_octets) (simp_all add: java_string_ok_def decode_java utf8_text_def)
qed

lemma unat_length32: "length xs < 2 ^ 32 \<Longrightarrow> unat (word_of_nat (length xs) :: u32) = length xs"
  by (simp add: unat_of_nat)

lemma read_certificate_java:
  assumes "java_certificate_ok version c" "version = 1 \<or> version = 2"
  shows "read_certificate e1 e2 e3 (word_of_nat version) (java_certificate version c @ rest) = Inr (snd c, rest)"
proof -
  obtain name der where c: "c = (name, der)" by force
  have v: "word_of_nat version = (2 :: u32) \<longleftrightarrow> version = 2" using assms(2) by auto
  have len: "length der < 2 ^ 32" using assms(1) by (simp add: java_certificate_ok_def c)
  have "(if version = 2 then map_sum id snd (need e1 (ReadModifiedUtf8 (java_certificate version c @ rest)))
      else Inr (java_certificate version c @ rest)) = Inr (be_octets 4 (length der) @ der @ rest)"
    using assms by (auto simp: java_certificate_ok_def java_certificate_def c ReadModifiedUtf8_java)
  then show ?thesis
    unfolding read_certificate_def v using ReadU32_octets [OF len, of "der @ rest"] len
    by (simp add: unat_length32 ReadBytes_append c)
qed

lemma read_chain_java:
  assumes "list_all (java_certificate_ok version) chain" "version = 1 \<or> version = 2"
  shows "read_chain (word_of_nat version) (length chain) (concat (map (java_certificate version) chain) @ rest) = Inr (map snd chain, rest)"
  using assms(1)
proof (induction chain)
  case (Cons c chain)
  then show ?case using assms(2) by (simp add: read_certificate_java)
qed simp

text \<open>A certificate takes five bytes or more, so the count passes the check against the size of the container.\<close>

lemma chain_bytes:
  assumes "list_all (\<lambda>c. snd c \<noteq> []) chain"
  shows "length chain \<le> length (concat (map (java_certificate version) chain) @ rest) div 5"
proof -
  have "5 \<le> length (java_certificate version c)" if "snd c \<noteq> []" for c
    using that by (cases c; cases "snd c") (auto simp: java_certificate_def)
  with assms have "5 * length chain \<le> length (concat (map (java_certificate version) chain))"
    by (induction chain) (auto simp: add_mono)
  then show ?thesis by simp
qed

text \<open>What a key entry does to the selection.\<close>

fun select_entry :: "string \<Rightarrow> java_entry \<Rightarrow> jks_selection \<Rightarrow> jks_selection" where
  "select_entry requested (Java_Key alias time protected chain) sel =
     (let sel = sel\<lparr>found_any_private_key := True\<rparr>
      in if (if requested = [] then selected_protected_private_key sel = [] else NormalizeJksAlias (utf8_text alias) = requested)
         then sel\<lparr>found_requested_alias := True, selected_alias := utf8_text alias, selected_protected_private_key := protected,
           selected_certificate_chain := map snd chain, selected_first_certificate := (if chain = [] then [] else snd (hd chain))\<rparr>
         else sel)"
| "select_entry requested (Java_Trusted alias time certificate) sel = sel"

lemma read_entry_java:
  assumes "java_entry_ok version entry" "version = 1 \<or> version = 2"
  shows "read_entry (word_of_nat version) requested sel (java_entry_bytes version entry @ rest) = Inr (select_entry requested entry sel, rest)"
proof (cases entry)
  case (Java_Key name time protected chain)
  let ?after = "be_octets 4 (length protected) @ protected @ be_octets 4 (length chain)
       @ concat (map (java_certificate version) chain) @ rest"
  have ok: "java_string_ok name" "length protected < 2 ^ 32" "length chain < 2 ^ 32"
    "list_all (java_certificate_ok version) chain" "list_all (\<lambda>c. snd c \<noteq> []) chain"
    using assms(1) Java_Key by simp_all
  obtain w where w: "ReadU64 (be_octets 8 time @ ?after) = Some (w, ?after)" using ReadU64_octets by blast
  have "read_key_entry (word_of_nat version) requested (utf8_text name) sel ?after = Inr (select_entry requested entry sel, rest)"
    unfolding read_key_entry_def Java_Key
    using ok assms(2) chain_bytes [OF ok(5), of version rest]
    by (simp add: ReadU32_octets unat_length32 ReadBytes_append read_chain_java Let_def hd_map)
  then show ?thesis
    using ok(1) ReadU32_octets [of 1 "java_string name @ be_octets 8 time @ ?after"]
    by (simp add: read_entry_def Java_Key ReadModifiedUtf8_java w)
next
  case (Java_Trusted name time certificate)
  let ?after = "java_certificate version certificate @ rest"
  obtain w where w: "ReadU64 (be_octets 8 time @ ?after) = Some (w, ?after)" using ReadU64_octets by blast
  have "java_string_ok name" "java_certificate_ok version certificate" using assms(1) Java_Trusted by simp_all
  then show ?thesis
    using assms(2) ReadU32_octets [of 2 "java_string name @ be_octets 8 time @ ?after"]
    by (simp add: read_entry_def Java_Trusted ReadModifiedUtf8_java w read_certificate_java)
qed

lemma read_entries_java:
  assumes "list_all (java_entry_ok version) entries" "version = 1 \<or> version = 2"
  shows "read_entries (word_of_nat version) requested (length entries) sel (concat (map (java_entry_bytes version) entries) @ rest)
    = Inr (fold (select_entry requested) entries sel, rest)"
  using assms(1)
proof (induction entries arbitrary: sel)
  case (Cons e entries)
  then show ?case using assms(2) by (simp add: read_entry_java)
qed simp

section \<open>Which entry is chosen\<close>

fun key_matches :: "string \<Rightarrow> java_entry \<Rightarrow> bool" where
  "key_matches requested (Java_Key name time protected chain) \<longleftrightarrow>
     (if requested = [] then protected \<noteq> [] else NormalizeJksAlias (utf8_text name) = requested)"
| "key_matches requested (Java_Trusted name time certificate) \<longleftrightarrow> False"

text \<open>Without an alias the first key that is not empty, with an alias the last entry that has it.\<close>

definition chosen :: "string \<Rightarrow> java_entry list \<Rightarrow> java_entry option" where
  "chosen requested entries = find (key_matches requested) (if requested = [] then entries else rev entries)"

fun holds_entry :: "jks_selection \<Rightarrow> java_entry \<Rightarrow> bool" where
  "holds_entry sel (Java_Key name time protected chain) \<longleftrightarrow>
     found_any_private_key sel \<and> found_requested_alias sel \<and> selected_alias sel = utf8_text name
     \<and> selected_protected_private_key sel = protected \<and> selected_certificate_chain sel = map snd chain
     \<and> selected_first_certificate sel = (if chain = [] then [] else snd (hd chain))"
| "holds_entry sel (Java_Trusted name time certificate) \<longleftrightarrow> False"

lemma find_snoc: "find P (xs @ [x]) = (case find P xs of None \<Rightarrow> if P x then Some x else None | Some y \<Rightarrow> Some y)"
  by (induction xs) auto

lemma select_keeps: "\<not> key_matches requested e \<Longrightarrow> requested \<noteq> [] \<Longrightarrow> holds_entry sel e' \<Longrightarrow> holds_entry (select_entry requested e sel) e'"
  by (cases e; cases e') auto

lemma select_takes: "key_matches requested e \<Longrightarrow> requested \<noteq> [] \<Longrightarrow> holds_entry (select_entry requested e sel) e"
  by (cases e) auto

lemma chosen_alias:
  assumes "requested \<noteq> []"
  shows "chosen requested entries = Some e \<Longrightarrow> holds_entry (fold (select_entry requested) entries sel) e"
proof (induction entries rule: rev_induct)
  case (snoc x entries)
  then show ?case
    using assms select_keeps select_takes by (auto simp: chosen_def split: if_splits)
qed (simp add: chosen_def assms)

lemma chosen_first:
  "(\<forall>e. chosen [] entries = Some e \<longrightarrow> holds_entry (fold (select_entry []) entries no_selection) e)
   \<and> (chosen [] entries = None \<longrightarrow> selected_protected_private_key (fold (select_entry []) entries no_selection) = [])"
proof (induction entries rule: rev_induct)
  case (snoc x entries)
  let ?sel = "fold (select_entry []) entries no_selection"
  have chosen: "chosen [] (entries @ [x])
      = (case chosen [] entries of None \<Rightarrow> if key_matches [] x then Some x else None | Some y \<Rightarrow> Some y)"
    by (simp add: chosen_def find_snoc)
  have keep: "holds_entry (select_entry [] x ?sel) e" if "holds_entry ?sel e" "key_matches [] e" for e
    using that by (cases x; cases e) auto
  have matches: "key_matches [] e" if "chosen [] entries = Some e" for e
    using that by (auto simp: chosen_def find_Some_iff)
  show ?case
  proof (cases "chosen [] entries")
    case None
    then show ?thesis unfolding chosen using snoc by (cases x) auto
  next
    case (Some e)
    then show ?thesis unfolding chosen using snoc keep matches by auto
  qed
qed (simp add: chosen_def no_selection_def)

lemma chosen_holds: "chosen requested entries = Some e \<Longrightarrow> holds_entry (fold (select_entry requested) entries no_selection) e"
  using chosen_alias chosen_first by (cases "requested = []") blast+

section \<open>The protected key\<close>

lemma tlv_at_read:
  assumes "header_ok n (length val)" "data = pre @ t # der_header n (length val) @ val @ post" "length data < 2 ^ 64"
    and "unat offset = length pre" "length pre + n + 2 + length val \<le> unat limit"
  shows "\<exists>view. tlv_at data offset limit = Some view \<and> tag view = t \<and> unat (value_offset view) = length pre + n + 2
    \<and> unat (value_length view) = length val \<and> unat (next_offset view) = length pre + n + 2 + length val"
proof -
  let ?lim = "if limit < buffer_size data then limit else buffer_size data"
  let ?view = "\<lparr>tag = 0, value_offset = 0, value_length = 0, next_offset = 0\<rparr>"
  have lim: "unat ?lim = min (unat limit) (length data)" by (rule unat_clamped [OF assms(3)])
  have hl: "length (der_header n (length val)) = Suc n" by (simp add: der_header_def)
  have top: "length pre + n + 2 + length val \<le> unat ?lim" using assms(2,5) hl lim by simp
  have "tlv_result (ParseTlvAt_ptr False data offset ?lim ?view) (tlv_spec data (length pre) (unat ?lim))"
    using ParseTlvAt_ptr_correct [of ?lim data offset ?view] lim assms(4) by simp
  moreover have "tlv_spec data (length pre) (unat ?lim) = Some (t, length pre + n + 2, length val)"
  proof -
    let ?k = "unat ?lim - Suc (length pre)"
    have "take ?k (drop (Suc (length pre)) data) = der_header n (length val) @ take (?k - Suc n) (val @ post)"
      using top hl by (simp add: assms(2) take_append)
    then have "len_spec data (Suc (length pre)) (unat ?lim) = Some (length pre + n + 2, length val)"
      using top assms(1) by (simp add: len_spec_def der_length_spec_header)
    then show ?thesis using top assms(2) by (simp add: tlv_spec_def)
  qed
  ultimately obtain view where "ParseTlvAt_ptr False data offset ?lim ?view = Some (True, view)" and view: "tag view = t"
    "unat (value_offset view) = length pre + n + 2" "unat (value_length view) = length val"
    "unat (next_offset view) = length pre + n + 2 + length val"
    by (auto simp: tlv_result_def split: option.splits bool.splits)
  moreover have "data \<noteq> []" using assms(2) by simp
  ultimately have "tlv_at data offset limit = Some view"
    unfolding tlv_at_def ParseTlvAt_limit_def Let_def by (simp only: option.case prod.case bool.case)
  then show ?thesis using view by blast
qed

text \<open>The algorithm identifier of the protection with absent parameters, and the whole structure around a payload.\<close>

definition java_algorithm :: bytes where
  "java_algorithm = [0x30, 0x0E, 0x06, 0x0A] @ kJksKeyProtectorOid @ [0x05, 0x00]"

definition java_protected :: "nat \<Rightarrow> nat \<Rightarrow> bytes \<Rightarrow> bytes" where
  "java_protected n m payload =
     (let inner = java_algorithm @ 0x04 # der_header m (length payload) @ payload in 0x30 # der_header n (length inner) @ inner)"

definition protected_ok :: "nat \<Rightarrow> nat \<Rightarrow> bytes \<Rightarrow> bool" where
  "protected_ok n m payload \<longleftrightarrow> header_ok m (length payload)
     \<and> header_ok n (length (java_algorithm @ 0x04 # der_header m (length payload) @ payload)) \<and> length payload < 2 ^ 32"

lemma extract_java:
  assumes "protected_ok n m payload"
  shows "ExtractJksEncryptedPayload (java_protected n m payload) = Inr payload"
proof -
  define inner where "inner = java_algorithm @ 0x04 # der_header m (length payload) @ payload"
  define pre where "pre = 0x30 # der_header n (length inner)"
  define data where "data = java_protected n m payload"
  define params :: bytes where "params = [0x06, 0x0A] @ kJksKeyProtectorOid @ [0x05, 0x00]"
  define rest where "rest = 0x04 # der_header m (length payload) @ payload"
  have ok: "header_ok m (length payload)" "header_ok n (length inner)" "length payload < 2 ^ 32"
    using assms by (simp_all add: protected_ok_def inner_def)
  have hl: "length (der_header k v) = Suc k" for k v by (simp add: der_header_def)
  have nm: "n \<le> 8" "m \<le> 8" using ok by (simp_all add: header_ok_def)
  have al: "length java_algorithm = 16" "length params = 14" "length kJksKeyProtectorOid = 10"
    by (simp_all add: java_algorithm_def params_def kJksKeyProtectorOid_def)
  have pl: "length pre = n + 2" by (simp add: pre_def hl)
  have D: "data = [] @ 0x30 # der_header n (length inner) @ inner @ []" by (simp add: data_def java_protected_def inner_def Let_def)
  have len: "length data = n + m + 20 + length payload" unfolding D inner_def using al hl by simp
  then have small: "length data < 2 ^ 64" using nm ok(3) by simp
  have size: "unat (buffer_size data) = length data" by (rule unat_buffer_size [OF small])
  have h: "header_ok 0 (length params)" "header_ok 0 (length kJksKeyProtectorOid)" using al by (simp_all add: header_ok_def)
  have A: "data = pre @ 0x30 # der_header 0 (length params) @ params @ rest"
    unfolding D al by (simp add: inner_def rest_def params_def pre_def java_algorithm_def der_header_def)
  have B: "data = (pre @ [0x30, 0x0E]) @ 0x06 # der_header 0 (length kJksKeyProtectorOid) @ kJksKeyProtectorOid @ [0x05, 0x00] @ rest"
    unfolding A al by (simp add: params_def der_header_def)
  have C: "data = (pre @ java_algorithm) @ 0x04 # der_header m (length payload) @ payload @ []"
    unfolding D by (simp add: inner_def pre_def)
  from tlv_at_read [OF ok(2) D small, of 0 "buffer_size data"] obtain outer where
    outer: "tlv_at data 0 (buffer_size data) = Some outer" "tag outer = 0x30" "unat (value_offset outer) = n + 2"
      "unat (next_offset outer) = length data"
    using size al hl len by (auto simp: inner_def)
  have limit: "next_offset outer = buffer_size data" using outer(4) size by (simp add: word_unat_eq_iff)
  from tlv_at_read [OF h(1) A small, of "value_offset outer" "next_offset outer"] obtain algorithm where
    algorithm: "tlv_at data (value_offset outer) (next_offset outer) = Some algorithm" "tag algorithm = 0x30"
      "unat (value_offset algorithm) = n + 4" "unat (next_offset algorithm) = n + 18"
    using outer len pl al by auto
  from tlv_at_read [OF h(2) B small, of "value_offset algorithm" "next_offset algorithm"] obtain oid where
    oid: "tlv_at data (value_offset algorithm) (next_offset algorithm) = Some oid" "tag oid = 0x06"
      "unat (value_offset oid) = n + 6" "unat (value_length oid) = 10"
    using algorithm pl al by auto
  have "unat (value_offset oid + value_length oid) = n + 16" using oid nm by (simp add: unat_word_ariths)
  then have oid_value: "value_of data oid = kJksKeyProtectorOid"
    using oid(3) pl al unfolding value_of_def slice_def by (simp add: B der_header_def)
  have oid_length: "value_length oid = 10" using oid(4) by (simp add: word_unat_eq_iff)
  from tlv_at_read [OF ok(1) C small, of "next_offset algorithm" "next_offset outer"] obtain enc where
    enc: "tlv_at data (next_offset algorithm) (next_offset outer) = Some enc" "tag enc = 0x04"
      "unat (value_offset enc) = n + m + 20" "unat (next_offset enc) = length data"
    using algorithm outer pl al len by auto
  have "slice data (value_offset enc) (next_offset enc) = payload"
    unfolding slice_def enc(3,4) len unfolding C using hl al pl by simp
  moreover have "next_offset enc = next_offset outer" using enc(4) outer(4) by (simp add: word_unat_eq_iff)
  ultimately have "ExtractJksEncryptedPayload data = Inr payload"
    unfolding ExtractJksEncryptedPayload_def using outer algorithm oid oid_value oid_length enc limit by simp
  then show ?thesis by (simp only: data_def)
qed

text \<open>The stream of digests that hides the key, and the payload with salt and check digest.\<close>

fun java_digests :: "bytes \<Rightarrow> bytes \<Rightarrow> nat \<Rightarrow> bytes" where
  "java_digests password_bytes previous 0 = []"
| "java_digests password_bytes previous (Suc n) =
     (let digest = Sha1Digest (password_bytes @ previous) in digest @ java_digests password_bytes digest n)"

definition java_payload :: "bytes \<Rightarrow> bytes \<Rightarrow> bytes \<Rightarrow> bytes" where
  "java_payload password_bytes salt key =
     salt @ map2 (XOR) key (take (length key) (java_digests password_bytes salt (length key))) @ Sha1Digest (password_bytes @ key)"

lemma java_digests_length: "length (java_digests password_bytes previous n) = 20 * n"
  by (induction n arbitrary: previous) (simp_all add: Let_def)

lemma jks_xor_key_stream:
  "length acc \<le> needed \<Longrightarrow> needed \<le> length acc + 20 * n \<Longrightarrow>
   jks_xor_key pw needed previous acc = acc @ take (needed - length acc) (java_digests pw previous n)"
proof (induction n arbitrary: previous acc)
  case 0
  then show ?case by (simp add: jks_xor_key.simps)
next
  case (Suc n)
  let ?d = "Sha1Digest (pw @ previous)" and ?chunk = "min 20 (needed - length acc)"
  show ?case
  proof (cases "length acc < needed")
    case True
    then have "jks_xor_key pw needed previous acc = jks_xor_key pw needed ?d (acc @ take ?chunk ?d)"
      by (subst jks_xor_key.simps) (simp add: Let_def)
    also have "\<dots> = (acc @ take ?chunk ?d) @ take (needed - length (acc @ take ?chunk ?d)) (java_digests pw ?d n)"
      using Suc.prems by (intro Suc.IH) (auto simp: min_def)
    also have "\<dots> = acc @ take (needed - length acc) (java_digests pw previous (Suc n))"
      by (auto simp: Let_def min_def)
    finally show ?thesis .
  next
    case False
    then show ?thesis using Suc.prems(1) by (subst jks_xor_key.simps) simp
  qed
qed

lemma xor_back: "length ks = length key \<Longrightarrow> map (\<lambda>i. map2 (XOR) key ks ! i XOR ks ! i) [0..<length key] = key" for key :: bytes
  by (rule nth_equalityI) (simp_all add: xor.assoc)

lemma recover_java:
  assumes "key_password \<noteq> []" "ToJksPasswordBytes key_password = Some password_bytes" "length salt = 20"
    and "protected_ok n m (java_payload password_bytes salt key)"
  shows "RecoverJksPrivateKey (java_protected n m (java_payload password_bytes salt key)) key_password = Inr key"
proof -
  let ?payload = "java_payload password_bytes salt key"
  let ?ks = "take (length key) (java_digests password_bytes salt (length key))"
  have ks: "length ?ks = length key" by (simp add: java_digests_length)
  have len: "length ?payload = 40 + length key" using assms(3) ks by (simp add: java_payload_def)
  have stream: "jks_xor_key password_bytes (length key) salt [] = ?ks"
    using jks_xor_key_stream [of "[]" "length key" "length key"] by simp
  have pieces: "take 20 ?payload = salt" "take 20 (drop (20 + length key) ?payload) = Sha1Digest (password_bytes @ key)"
    using assms(3) ks by (simp_all add: java_payload_def)
  have "map (\<lambda>i. ?payload ! (20 + i) XOR ?ks ! i) [0..<length key] = map (\<lambda>i. map2 (XOR) key ?ks ! i XOR ?ks ! i) [0..<length key]"
    using assms(3) ks by (intro map_cong refl) (simp add: java_payload_def nth_append)
  then have key: "map (\<lambda>i. ?payload ! (20 + i) XOR ?ks ! i) [0..<length key] = key" using xor_back [OF ks] by simp
  show ?thesis
    unfolding RecoverJksPrivateKey_def kJksSaltLength_def kJksDigestLength_def Let_def extract_java [OF assms(4)] assms(2)
    using assms(1) len by (simp add: pieces stream key del: upt_Suc)
qed

section \<open>Reading a written store\<close>

lemma java_body_split: "ReadU32 (java_body version entries) =
  Some (0xFEEDFEED, be_octets 4 version @ be_octets 4 (length entries) @ concat (map (java_entry_bytes version) entries))"
  unfolding java_body_def by (subst ReadU32_octets) simp_all

text \<open>
  C34. What Java wrote is what the reader gets. For a store of version 1 or 2 with any key entries and
  trusted certificates, written under a store password, the reader returns, for the entry that the
  alias chooses (the last one with that alias, or the first non-empty key without an alias), its
  name, its certificate chain in order and exactly the private key that was protected under the key
  password, or under the store password when no key password is given.
\<close>

theorem jks_roundtrip:
  assumes "version = 1 \<or> version = 2" "list_all (java_entry_ok version) entries" "length entries < 2 ^ 32"
    and "ToJksPasswordBytes store_password = Some store_bytes"
    and "requested = (if preferred_alias = [] then [] else NormalizeJksAlias preferred_alias)"
    and "effective = (if key_password = [] then store_password else key_password)"
    and "effective \<noteq> []" "ToJksPasswordBytes effective = Some key_bytes"
    and "length salt = 20" "protected_ok n m (java_payload key_bytes salt key)"
    and "chosen requested entries = Some (Java_Key name time (java_protected n m (java_payload key_bytes salt key)) chain)"
  shows "LoadPrivateKeyEntry (java_store version entries store_bytes) store_password key_password preferred_alias
    = Inr \<lparr>pk_alias = utf8_text name, pk_private_key_pkcs8 = key,
           pk_certificate = (if chain = [] then [] else snd (hd chain)), pk_certificate_chain = map snd chain\<rparr>"
proof -
  let ?store = "java_store version entries store_bytes" and ?body = "java_body version entries"
  let ?sel = "fold (select_entry requested) entries no_selection"
  let ?protected = "java_protected n m (java_payload key_bytes salt key)"
  have size: "length ?store - 20 = length ?body" "take (length ?body) ?store = ?body" "12 + 20 \<le> length ?store"
    by (simp_all add: java_store_def java_body_def)
  have v: "word_of_nat version = (1 :: u32) \<or> word_of_nat version = (2 :: u32)" using assms(1) by auto
  have sel: "holds_entry ?sel (Java_Key name time ?protected chain)" using chosen_holds [OF assms(11)] .
  have ne: "?protected \<noteq> []" by (simp add: java_protected_def Let_def)
  have entries: "read_entries (word_of_nat version) requested (length entries) no_selection (concat (map (java_entry_bytes version) entries))
      = Inr (?sel, [])"
    using read_entries_java [OF assms(2,1), of requested no_selection "[]"] by simp
  have integrity: "VerifyJksIntegrity ?store (length ?body) store_password = Inr ()"
    using assms(4) by (simp add: VerifyJksIntegrity_def java_store_def kJksDigestLength_def)
  have "ReadU32 (be_octets 4 version @ r) = Some (word_of_nat version, r)" "ReadU32 (be_octets 4 (length entries) @ r) = Some (word_of_nat (length entries), r)" for r
    using assms(1,3) by (auto intro!: ReadU32_octets)
  then show ?thesis
    unfolding LoadPrivateKeyEntry_def kJksDigestLength_def Let_def size(1,2) java_body_split assms(5) [symmetric] assms(6) [symmetric]
    using size(3) v sel ne integrity entries recover_java [OF assms(7-10)]
    by (simp add: unat_length32 [OF assms(3)])
qed

text \<open>A trusted certificate and a key under the alias \<open>key\<close>, asked for as \<open>KEY\<close>; the key has a password of its own.\<close>

definition sample_protected :: bytes where
  "sample_protected = java_protected 0 0 (java_payload [0, 107] (replicate 20 3) [0x30, 0])"

definition sample_entries :: "java_entry list" where
  "sample_entries = [Java_Trusted [99] 5 ([88], [1]), Java_Key [107, 101, 121] 6 sample_protected [([88], [7]), ([88], [8])]]"

theorem jks_roundtrip_witness:
  "LoadPrivateKeyEntry (java_store 2 sample_entries [0, 115]) ''s'' ''k'' ''KEY''
    = Inr \<lparr>pk_alias = ''key'', pk_private_key_pkcs8 = [0x30, 0], pk_certificate = [7], pk_certificate_chain = [[7], [8]]\<rparr>"
proof -
  have pw: "ToJksPasswordBytes ''s'' = Some [0, 115]" "ToJksPasswordBytes ''k'' = Some [0, 107]" by code_simp+
  have names: "NormalizeJksAlias ''KEY'' = ''key''" "utf8_text [107, 101, 121] = ''key''" "NormalizeJksAlias ''key'' = ''key''" by code_simp+
  have strings: "java_string_ok [99]" "java_string_ok [88]" "java_string_ok [107, 101, 121]"
    by (simp_all add: java_string_ok_def java_octets_def utf8_octets_def) code_simp+
  have len: "length (java_payload [0, 107] (replicate 20 3) [0x30, 0]) = 42" by (simp add: java_payload_def Let_def)
  then have ok: "protected_ok 0 0 (java_payload [0, 107] (replicate 20 3) [0x30, 0])"
    by (simp add: protected_ok_def header_ok_def java_algorithm_def kJksKeyProtectorOid_def der_header_def)
  have "length sample_protected < 2 ^ 32"
    using len by (simp add: sample_protected_def java_protected_def Let_def java_algorithm_def kJksKeyProtectorOid_def der_header_def)
  then have "list_all (java_entry_ok 2) sample_entries"
    using strings by (simp add: sample_entries_def java_certificate_ok_def)
  moreover have "chosen ''key'' sample_entries = Some (Java_Key [107, 101, 121] 6 sample_protected [([88], [7]), ([88], [8])])"
    using names by (simp add: chosen_def sample_entries_def)
  ultimately show ?thesis
    using jks_roundtrip [of 2 sample_entries "''s''" "[0, 115]" "''key''" "''KEY''" "''k''" "''k''" "[0, 107]" "replicate 20 3" 0 0 "[0x30, 0]"
        "[107, 101, 121]" 6 "[([88], [7]), ([88], [8])]"] pw names ok
    by (simp add: sample_entries_def sample_protected_def)
qed

end
