(* ===== verification/Validation_Types.thy ===== *)
theory Validation_Types
  imports Tamga_Prelude
begin

text \<open>
  The data of the validation pipeline: \<open>core/policy/PolicyTypes.h\<close> and
  \<open>core/validation/ValidationTypes.h\<close>, and \<open>PolicyResolver::Resolve\<close> from
  \<open>core/validation/PolicyResolver.cpp\<close>, which turns a profile and a level into the policy
  every later stage obeys.

  The two scoped enumerations a caller passes in, profile and level, have an extra
  constructor for values outside the declared ones, which a cast can produce and which the
  resolver handles. Record fields carry a prefix of their struct. Ukrainian message
  literals of the sources appear as English text with the prefix \<open>uk: \<close>; distinct literals
  have distinct texts.
\<close>

section \<open>Statuses of the validators (PolicyTypes.h)\<close>

datatype ChainStatus =
    Chain_NotChecked | Chain_Trusted | Chain_Untrusted | Chain_Incomplete | Chain_Expired
  | Chain_InvalidSignature | Chain_SignerMissing

datatype RevocationStatus =
    Rev_NotChecked | Rev_Good | Rev_Revoked | Rev_Unknown | Rev_Stale | Rev_Invalid
  | Rev_ResponderUnavailable

datatype TimestampStatus =
    Ts_NotChecked | Ts_Missing | Ts_Valid | Ts_InvalidImprint | Ts_InvalidSignature
  | Ts_UntrustedTsa | Ts_TsaExpired | Ts_Unsupported

section \<open>Profiles, policies and decisions (ValidationTypes.h)\<close>

datatype ValidationProfile =
    Profile_Strict | Profile_Compatibility | Profile_UkraineLegal | Profile_Offline
  | Profile_Forensic | Profile_other int

datatype ValidationLevel =
    Level_Basic | Level_Standard | Level_Extended | Level_Forensic | Level_other int

datatype TrustAnchorPolicy =
    CurrentTLOnly | HistoricalAtSigningTime | ExplicitLegacyAnchorBundle | PinnedAnchors
  | CustomTrustStore | ForensicAllPossible

datatype OverallStatus =
    Overall_Valid | Overall_IntegrityOnly | Overall_Indeterminate | Overall_Invalid

datatype SigningTimeSource =
    Source_Unavailable | Source_Rfc3161Timestamp | Source_ClaimedSigningTime
  | Source_VerificationTimeFallback

datatype SigningTimeConfidence =
    Confidence_Trusted | Confidence_Claimed | Confidence_Fallback | Confidence_Unavailable

text \<open>The value of a level as the built-in comparison of a scoped enumeration sees it.\<close>

fun level_code :: "ValidationLevel \<Rightarrow> int" where
  "level_code Level_Basic = 0"
| "level_code Level_Standard = 1"
| "level_code Level_Extended = 2"
| "level_code Level_Forensic = 3"
| "level_code (Level_other n) = n"

record ValidationContext =
  ctx_profile :: ValidationProfile
  ctx_level :: ValidationLevel
  ctx_verification_time :: string
  ctx_offline :: bool
  ctx_work_dir :: string
  ctx_cms_der :: bytes
  ctx_claimed_signing_time :: string
  ctx_embedded_revocation_ocsp_der :: "bytes list"
  ctx_embedded_revocation_crl_der :: "bytes list"
  ctx_ocsp_url :: string
  ctx_signature_crypto_valid :: bool

record ValidationPolicy =
  trust_anchor_policy :: TrustAnchorPolicy
  revocation_hard_fail :: bool
  require_trusted_signing_time :: bool
  require_service_level_trust :: bool
  allow_historical_trust :: bool
  forensic_diagnostics :: bool

record ValidationPlan =
  network_allowed :: bool
  trust_store_path :: string
  historical_trust_store_path :: string
  selected_trust_snapshot_id :: string
  timeout_ms :: int

record ResolvedValidationPolicy =
  res_policy :: ValidationPolicy
  res_plan :: ValidationPlan

record ValidationDecision =
  dec_overall_status :: OverallStatus
  dec_signature_valid :: bool
  dec_trust_valid :: bool
  dec_qualified_valid :: bool
  dec_ltv_valid :: bool
  dec_trusted_signing_time :: string
  dec_signature_evaluation_time :: string
  dec_level_reached :: ValidationLevel
  dec_summary :: string
  dec_trust_status :: string
  dec_trust_reason :: string
  dec_because :: "string list"
  dec_warnings :: "string list"
  dec_limitations :: "string list"

record SigningTimeCandidate =
  cand_source :: SigningTimeSource
  cand_time :: string
  cand_evidence_id :: string
  cand_cryptographically_valid :: bool
  cand_trusted :: bool
  cand_warnings :: "string list"

record SigningTimeResolution =
  st_signature_evaluation_time :: string
  st_source :: SigningTimeSource
  st_confidence :: SigningTimeConfidence
  st_evidence_id :: string
  st_warnings :: "string list"
  st_limitations :: "string list"
  st_trusted_time :: bool

text \<open>The default member initialisers of the structs.\<close>

definition default_policy :: ValidationPolicy where
  "default_policy = \<lparr>trust_anchor_policy = CurrentTLOnly, revocation_hard_fail = False,
     require_trusted_signing_time = False, require_service_level_trust = False,
     allow_historical_trust = False, forensic_diagnostics = False\<rparr>"

definition default_plan :: ValidationPlan where
  "default_plan = \<lparr>network_allowed = False, trust_store_path = [],
     historical_trust_store_path = [], selected_trust_snapshot_id = [], timeout_ms = 10000\<rparr>"

definition default_decision :: ValidationDecision where
  "default_decision = \<lparr>dec_overall_status = Overall_Indeterminate, dec_signature_valid = False,
     dec_trust_valid = False, dec_qualified_valid = False, dec_ltv_valid = False,
     dec_trusted_signing_time = [], dec_signature_evaluation_time = [],
     dec_level_reached = Level_Basic, dec_summary = ''not-executed'', dec_trust_status = [],
     dec_trust_reason = [], dec_because = [], dec_warnings = [], dec_limitations = []\<rparr>"

definition default_resolution :: SigningTimeResolution where
  "default_resolution = \<lparr>st_signature_evaluation_time = [], st_source = Source_Unavailable,
     st_confidence = Confidence_Unavailable, st_evidence_id = [], st_warnings = [],
     st_limitations = [], st_trusted_time = False\<rparr>"

definition IsLongTermValidationValid ::
    "bool \<Rightarrow> RevocationStatus \<Rightarrow> bool \<Rightarrow> bool \<Rightarrow> bool" where
  "IsLongTermValidationValid trust_valid signer_revocation_status timestamp_attempted timestamp_valid
     \<longleftrightarrow> trust_valid \<and> signer_revocation_status = Rev_Good \<and> timestamp_attempted \<and> timestamp_valid"

section \<open>PolicyResolver\<close>

definition IsKnownProfile :: "ValidationProfile \<Rightarrow> bool" where
  "IsKnownProfile p \<longleftrightarrow> p = Profile_Strict \<or> p = Profile_Compatibility \<or> p = Profile_UkraineLegal
     \<or> p = Profile_Offline \<or> p = Profile_Forensic"

definition IsKnownLevel :: "ValidationLevel \<Rightarrow> bool" where
  "IsKnownLevel l \<longleftrightarrow> l = Level_Basic \<or> l = Level_Standard \<or> l = Level_Extended \<or> l = Level_Forensic"

definition IsStandardOrHigher :: "ValidationLevel \<Rightarrow> bool" where
  "IsStandardOrHigher l \<longleftrightarrow> l = Level_Standard \<or> l = Level_Extended \<or> l = Level_Forensic"

definition IsExtendedOrHigher :: "ValidationLevel \<Rightarrow> bool" where
  "IsExtendedOrHigher l \<longleftrightarrow> l = Level_Extended \<or> l = Level_Forensic"

text \<open>
  \<open>work_dir / name\<close> of \<open>std::filesystem::path\<close>, for a relative \<open>name\<close>: a separator is
  inserted unless the directory already ends with one.
\<close>

definition path_append :: "string \<Rightarrow> string \<Rightarrow> string" where
  "path_append dir name = (if dir \<noteq> [] \<and> last dir \<noteq> CHR ''/'' then dir @ ''/'' @ name else dir @ name)"

definition ResolveWorkDirPaths :: "string \<Rightarrow> ValidationPlan \<Rightarrow> ValidationPlan" where
  "ResolveWorkDirPaths work_dir plan =
     (if work_dir = [] then plan
      else plan\<lparr>trust_store_path := path_append work_dir ''trust-store'',
                historical_trust_store_path := path_append work_dir ''historical-trust-store''\<rparr>)"

text \<open>The \<open>switch\<close> over the profile, for a known profile and level.\<close>

fun profile_policy :: "ValidationProfile \<Rightarrow> ValidationLevel \<Rightarrow> ValidationPolicy" where
  "profile_policy Profile_Strict l =
     default_policy\<lparr>trust_anchor_policy := CurrentTLOnly,
       revocation_hard_fail := IsStandardOrHigher l\<rparr>"
| "profile_policy Profile_Compatibility l =
     default_policy\<lparr>trust_anchor_policy := ExplicitLegacyAnchorBundle,
       allow_historical_trust := True, revocation_hard_fail := IsExtendedOrHigher l\<rparr>"
| "profile_policy Profile_UkraineLegal l =
     default_policy\<lparr>trust_anchor_policy := HistoricalAtSigningTime,
       allow_historical_trust := True, revocation_hard_fail := IsStandardOrHigher l,
       require_trusted_signing_time := IsExtendedOrHigher l,
       require_service_level_trust := IsExtendedOrHigher l\<rparr>"
| "profile_policy Profile_Offline l =
     default_policy\<lparr>trust_anchor_policy := CustomTrustStore,
       revocation_hard_fail := IsStandardOrHigher l\<rparr>"
| "profile_policy Profile_Forensic l =
     default_policy\<lparr>trust_anchor_policy := ForensicAllPossible,
       revocation_hard_fail := IsStandardOrHigher l, forensic_diagnostics := True\<rparr>"
| "profile_policy (Profile_other n) l = default_policy"

definition PolicyResolver_Resolve :: "ValidationContext \<Rightarrow> ResolvedValidationPolicy" where
  "PolicyResolver_Resolve context =
     (let plan = ResolveWorkDirPaths (ctx_work_dir context) default_plan
      in if \<not> IsKnownProfile (ctx_profile context) \<or> \<not> IsKnownLevel (ctx_level context)
         then \<lparr>res_policy = default_policy\<lparr>revocation_hard_fail := True\<rparr>,
               res_plan = plan\<lparr>network_allowed := False\<rparr>\<rparr>
         else \<lparr>res_policy = profile_policy (ctx_profile context) (ctx_level context),
               res_plan = plan\<lparr>network_allowed :=
                 \<not> ctx_offline context \<and> ctx_profile context \<noteq> Profile_Offline\<rparr>\<rparr>)"

abbreviation policy_of :: "ValidationContext \<Rightarrow> ValidationPolicy" where
  "policy_of context \<equiv> res_policy (PolicyResolver_Resolve context)"

abbreviation plan_of :: "ValidationContext \<Rightarrow> ValidationPlan" where
  "plan_of context \<equiv> res_plan (PolicyResolver_Resolve context)"

section \<open>What the resolver promises\<close>

lemmas resolver_simps = PolicyResolver_Resolve_def Let_def IsKnownProfile_def IsKnownLevel_def
  IsStandardOrHigher_def IsExtendedOrHigher_def default_policy_def default_plan_def
  ResolveWorkDirPaths_def

lemma network_needs_permission:
  "network_allowed (plan_of context) \<Longrightarrow>
     \<not> ctx_offline context \<and> ctx_profile context \<noteq> Profile_Offline
     \<and> IsKnownProfile (ctx_profile context) \<and> IsKnownLevel (ctx_level context)"
  by (auto simp: PolicyResolver_Resolve_def Let_def split: if_splits)

text \<open>
  How strict a policy is: each demand of the weaker one is a demand of the stricter one, and
  historical anchors are allowed by the stricter one only if the weaker one allows them.
\<close>

definition at_least_as_strict :: "ValidationPolicy \<Rightarrow> ValidationPolicy \<Rightarrow> bool" where
  "at_least_as_strict weak strict \<longleftrightarrow>
     (revocation_hard_fail weak \<longrightarrow> revocation_hard_fail strict) \<and>
     (require_trusted_signing_time weak \<longrightarrow> require_trusted_signing_time strict) \<and>
     (require_service_level_trust weak \<longrightarrow> require_service_level_trust strict) \<and>
     (allow_historical_trust strict \<longrightarrow> allow_historical_trust weak)"

lemma unknown_fail_closed [fail_closed]:
  "\<not> IsKnownProfile (ctx_profile context) \<or> \<not> IsKnownLevel (ctx_level context) \<Longrightarrow>
     \<not> network_allowed (plan_of context) \<and> revocation_hard_fail (policy_of context)
     \<and> trust_anchor_policy (policy_of context) = CurrentTLOnly"
  by (auto simp: PolicyResolver_Resolve_def Let_def default_policy_def)

lemma level_strictness:
  assumes "IsKnownLevel l" "IsKnownLevel m" "level_code l \<le> level_code m"
  shows "at_least_as_strict (policy_of (c\<lparr>ctx_level := l\<rparr>)) (policy_of (c\<lparr>ctx_level := m\<rparr>))"
  using assms by (cases "ctx_profile c"; cases l; cases m) (simp_all add: at_least_as_strict_def resolver_simps)

lemma historical_only_when_profile_allows:
  "allow_historical_trust (policy_of context) \<longleftrightarrow>
     IsKnownLevel (ctx_level context) \<and> ctx_profile context \<in> {Profile_Compatibility, Profile_UkraineLegal}"
  by (cases "ctx_profile context") (simp_all add: resolver_simps)

lemma custom_store_iff_offline_profile:
  "trust_anchor_policy (policy_of context) = CustomTrustStore \<longleftrightarrow>
     IsKnownLevel (ctx_level context) \<and> ctx_profile context = Profile_Offline"
  by (cases "ctx_profile context") (simp_all add: resolver_simps)

text \<open>
  The resolver fails closed and never loosens a policy as the level rises: an unknown
  profile or level gets no network and a hard fail on revocation; the network is allowed
  only when the caller is not offline and the profile is not the offline one; and for one
  profile, a higher level is at least as strict as a lower one.
\<close>

theorem policy_resolver_fail_closed:
  "(\<not> IsKnownProfile (ctx_profile c) \<or> \<not> IsKnownLevel (ctx_level c) \<longrightarrow>
      \<not> network_allowed (plan_of c) \<and> revocation_hard_fail (policy_of c)
      \<and> trust_anchor_policy (policy_of c) = CurrentTLOnly) \<and>
   (network_allowed (plan_of c) \<longrightarrow> \<not> ctx_offline c \<and> ctx_profile c \<noteq> Profile_Offline) \<and>
   (IsKnownLevel l \<and> IsKnownLevel m \<and> level_code l \<le> level_code m \<longrightarrow>
      at_least_as_strict (policy_of (c\<lparr>ctx_level := l\<rparr>)) (policy_of (c\<lparr>ctx_level := m\<rparr>)))"
  using unknown_fail_closed [of c] network_needs_permission [of c] level_strictness [of l m c]
  by blast

definition sample_context :: ValidationContext where
  "sample_context = \<lparr>ctx_profile = Profile_UkraineLegal, ctx_level = Level_Extended,
     ctx_verification_time = ''2026-01-01T00:00:00Z'', ctx_offline = False, ctx_work_dir = [],
     ctx_cms_der = [], ctx_claimed_signing_time = [], ctx_embedded_revocation_ocsp_der = [],
     ctx_embedded_revocation_crl_der = [], ctx_ocsp_url = [], ctx_signature_crypto_valid = True\<rparr>"

theorem policy_resolver_fail_closed_witness:
  "network_allowed (plan_of sample_context) \<and> \<not> ctx_offline sample_context
   \<and> ctx_profile sample_context \<noteq> Profile_Offline
   \<and> at_least_as_strict (policy_of (sample_context\<lparr>ctx_level := Level_Standard\<rparr>))
       (policy_of (sample_context\<lparr>ctx_level := Level_Extended\<rparr>))"
proof -
  have n: "network_allowed (plan_of sample_context)"
    by (simp add: sample_context_def resolver_simps)
  have l: "IsKnownLevel Level_Standard \<and> IsKnownLevel Level_Extended
      \<and> level_code Level_Standard \<le> level_code Level_Extended"
    by (simp add: IsKnownLevel_def)
  show ?thesis
    using n l policy_resolver_fail_closed [of sample_context Level_Standard Level_Extended] by blast
qed

end
