(* ===== verification/Base64.thy ===== *)
theory Base64
  imports Tamga_Prelude
begin

text \<open>
  \<open>src/lib/util/Base64.cpp\<close>: the encoder, which works on 24-bit groups of three input
  bytes, and the decoder, which drops white space, insists on whole groups of four
  characters and rejects every character outside the alphabet. The main result is the
  round trip, with the white space a transport may insert.
\<close>

section \<open>The program\<close>

definition kAlphabet :: string where
  "kAlphabet = ''ABCDEFGHIJKLMNOPQRSTUVWXYZabcdefghijklmnopqrstuvwxyz0123456789+/''"

definition DecodeChar :: "char \<Rightarrow> byte" where
  "DecodeChar c =
     (if CHR ''A'' \<le> c \<and> c \<le> CHR ''Z'' then word_of_nat (code c - code CHR ''A'')
      else if CHR ''a'' \<le> c \<and> c \<le> CHR ''z'' then word_of_nat (code c - code CHR ''a'' + 26)
      else if CHR ''0'' \<le> c \<and> c \<le> CHR ''9'' then word_of_nat (code c - code CHR ''0'' + 52)
      else if c = CHR ''+'' then 62
      else if c = CHR ''/'' then 63
      else 255)"

text \<open>\<open>kAlphabet[(triple >> k) & 0x3F]\<close>\<close>

definition alphabet_at :: "u32 \<Rightarrow> nat \<Rightarrow> char" where
  "alphabet_at triple k = kAlphabet ! unat (drop_bit k triple AND 0x3F)"

definition triple_of :: "byte \<Rightarrow> byte \<Rightarrow> byte \<Rightarrow> u32" where
  "triple_of b0 b1 b2 = push_bit 16 (ucast b0) OR push_bit 8 (ucast b1) OR ucast b2"

text \<open>One iteration of the loop consumes three bytes, or the one or two that are left.\<close>

fun Base64Encode :: "bytes \<Rightarrow> string" where
  "Base64Encode [] = []"
| "Base64Encode [b0] =
     (let t = triple_of b0 0 0
      in [alphabet_at t 18, alphabet_at t 12, CHR ''='', CHR ''=''])"
| "Base64Encode [b0, b1] =
     (let t = triple_of b0 b1 0
      in [alphabet_at t 18, alphabet_at t 12, alphabet_at t 6, CHR ''=''])"
| "Base64Encode (b0 # b1 # b2 # rest) =
     (let t = triple_of b0 b1 b2
      in [alphabet_at t 18, alphabet_at t 12, alphabet_at t 6, alphabet_at t 0]
         @ Base64Encode rest)"

definition decode_triple :: "byte \<Rightarrow> byte \<Rightarrow> byte \<Rightarrow> byte \<Rightarrow> u32" where
  "decode_triple d0 d1 d2 d3 =
     push_bit 18 (ucast d0) OR push_bit 12 (ucast d1) OR push_bit 6 (ucast d2) OR ucast d3"

definition triple_byte :: "u32 \<Rightarrow> nat \<Rightarrow> byte" where
  "triple_byte triple k = ucast (drop_bit k triple AND 0xFF)"

definition decode_group :: "char \<Rightarrow> char \<Rightarrow> char \<Rightarrow> char \<Rightarrow> bytes option" where
  "decode_group c0 c1 c2 c3 =
     (let d0 = DecodeChar c0;
          d1 = DecodeChar c1;
          d2 = (if c2 = CHR ''='' then 0 else DecodeChar c2);
          d3 = (if c3 = CHR ''='' then 0 else DecodeChar c3)
      in if d0 = 255 \<or> d1 = 255 \<or> (c2 \<noteq> CHR ''='' \<and> d2 = 255) \<or> (c3 \<noteq> CHR ''='' \<and> d3 = 255)
         then None
         else let t = decode_triple d0 d1 d2 d3
              in Some (triple_byte t 16
                       # (if c2 \<noteq> CHR ''='' then [triple_byte t 8] else [])
                       @ (if c3 \<noteq> CHR ''='' then [triple_byte t 0] else [])))"

text \<open>
  The loop over the groups. The source has already checked that the length is a multiple
  of four, so a last incomplete group does not occur; \<open>None\<close> is the return value \<open>false\<close>.
\<close>

fun decode_groups :: "string \<Rightarrow> bytes option" where
  "decode_groups (c0 # c1 # c2 # c3 # rest) =
     (case decode_group c0 c1 c2 c3 of
        None \<Rightarrow> None
      | Some out \<Rightarrow> map_option (\<lambda>tail. out @ tail) (decode_groups rest))"
| "decode_groups _ = Some []"

definition Base64Decode :: "string \<Rightarrow> bytes option" where
  "Base64Decode input =
     (let normalized = filter (\<lambda>c. \<not> isspace c) input
      in if length normalized mod 4 \<noteq> 0 then None else decode_groups normalized)"

section \<open>The alphabet\<close>

lemma DecodeChar_alphabet_list:
  "map DecodeChar kAlphabet = map word_of_nat [0..<64]"
  by code_simp

lemma alphabet_plain_list:
  "list_all (\<lambda>c. c \<noteq> CHR ''='' \<and> \<not> isspace c \<and> DecodeChar c \<noteq> 255) kAlphabet"
  by code_simp

lemma length_kAlphabet [simp]: "length kAlphabet = 64"
  by (simp add: kAlphabet_def)

lemma DecodeChar_nth: "n < 64 \<Longrightarrow> DecodeChar (kAlphabet ! n) = word_of_nat n"
  using arg_cong [OF DecodeChar_alphabet_list, of "\<lambda>xs. xs ! n"] by simp

lemma alphabet_plain:
  "n < 64 \<Longrightarrow> kAlphabet ! n \<noteq> CHR ''='' \<and> \<not> isspace (kAlphabet ! n) \<and> DecodeChar (kAlphabet ! n) \<noteq> 255"
  using alphabet_plain_list by (simp add: list_all_length)

lemma sextet_less: "unat (drop_bit k (t :: u32) AND 0x3F) < 64"
  using take_bit_word_unat_less [of 6 "drop_bit k t"] by (simp add: and_mask_numeral)

lemmas alphabet_at_plain = alphabet_plain [OF sextet_less, folded alphabet_at_def]

lemma DecodeChar_alphabet_at:
  "DecodeChar (alphabet_at t k) = ucast (drop_bit k t AND 0x3F)"
proof -
  have "DecodeChar (alphabet_at t k) = word_of_nat (unat (drop_bit k t AND 0x3F))"
    by (simp add: alphabet_at_def DecodeChar_nth [OF sextet_less])
  then show ?thesis by simp
qed

section \<open>Recomposing a group\<close>

lemma decode_triple_sextets:
  "decode_triple (ucast (drop_bit 18 t AND 0x3F)) (ucast (drop_bit 12 t AND 0x3F))
     (ucast (drop_bit 6 t AND 0x3F)) (ucast (drop_bit 0 t AND 0x3F)) = take_bit 24 t"
  by (rule word_bitsI) (simp add: decode_triple_def bitwise_simps)

lemma decode_triple_pad:
  "decode_triple (ucast (drop_bit 18 t AND 0x3F)) (ucast (drop_bit 12 t AND 0x3F))
     (ucast (drop_bit 6 t AND 0x3F)) 0 = push_bit 6 (drop_bit 6 (take_bit 24 t))"
  "decode_triple (ucast (drop_bit 18 t AND 0x3F)) (ucast (drop_bit 12 t AND 0x3F)) 0 0
     = push_bit 12 (drop_bit 12 (take_bit 24 t))"
  by (rule word_bitsI, simp add: decode_triple_def bitwise_simps)+

lemma triple_byte_triple_of:
  "triple_byte (take_bit 24 (triple_of b0 b1 b2)) 16 = b0"
  "triple_byte (take_bit 24 (triple_of b0 b1 b2)) 8 = b1"
  "triple_byte (take_bit 24 (triple_of b0 b1 b2)) 0 = b2"
  "triple_byte (push_bit 6 (drop_bit 6 (take_bit 24 (triple_of b0 b1 b2)))) 16 = b0"
  "triple_byte (push_bit 6 (drop_bit 6 (take_bit 24 (triple_of b0 b1 b2)))) 8 = b1"
  "triple_byte (push_bit 12 (drop_bit 12 (take_bit 24 (triple_of b0 b1 b2)))) 16 = b0"
  by (rule word_bitsI,
      simp add: triple_byte_def triple_of_def bitwise_simps)+

lemmas group_simps = decode_group_def DecodeChar_alphabet_at alphabet_at_plain Let_def

lemma group_not_255: "(ucast (drop_bit k (t :: u32) AND 0x3F) :: byte) \<noteq> 255"
  using alphabet_at_plain [of t k] by (simp add: DecodeChar_alphabet_at)

lemma decode_group_full:
  "decode_group (alphabet_at (triple_of b0 b1 b2) 18) (alphabet_at (triple_of b0 b1 b2) 12)
     (alphabet_at (triple_of b0 b1 b2) 6) (alphabet_at (triple_of b0 b1 b2) 0) = Some [b0, b1, b2]"
  by (simp add: group_simps group_not_255 group_not_255 [of 0, simplified]
      decode_triple_sextets [simplified] triple_byte_triple_of)

lemma decode_group_pad1:
  "decode_group (alphabet_at (triple_of b0 b1 0) 18) (alphabet_at (triple_of b0 b1 0) 12)
     (alphabet_at (triple_of b0 b1 0) 6) (CHR ''='') = Some [b0, b1]"
  by (simp add: group_simps group_not_255 decode_triple_pad triple_byte_triple_of)

lemma decode_group_pad2:
  "decode_group (alphabet_at (triple_of b0 0 0) 18) (alphabet_at (triple_of b0 0 0) 12)
     (CHR ''='') (CHR ''='') = Some [b0]"
  by (simp add: group_simps group_not_255 decode_triple_pad triple_byte_triple_of)

lemmas decode_group_encoded [codec_simps] = decode_group_full decode_group_pad1 decode_group_pad2

section \<open>The round trip\<close>

lemma decode_groups_Encode: "decode_groups (Base64Encode bs) = Some bs"
  by (induction bs rule: Base64Encode.induct) (simp_all add: Let_def codec_simps)

lemma Base64Encode_no_space: "filter (\<lambda>c. \<not> isspace c) (Base64Encode bs) = Base64Encode bs"
  by (induction bs rule: Base64Encode.induct)
    (simp_all add: Let_def alphabet_at_plain isspace_def [of "CHR ''=''"])

lemma length_Base64Encode: "length (Base64Encode bs) = 4 * ((length bs + 2) div 3)"
  by (induction bs rule: Base64Encode.induct) (simp_all add: Let_def, presburger)

text \<open>
  Decoding returns exactly the bytes that were encoded, also when the transport has
  inserted white space (spaces, tabs, line breaks) anywhere into the text: every text whose
  non-space characters are those of the encoding decodes to the original bytes.
\<close>

theorem Base64_roundtrip:
  assumes "filter (\<lambda>c. \<not> isspace c) text = Base64Encode bs"
  shows "Base64Decode text = Some bs"
  using assms by (simp add: Base64Decode_def decode_groups_Encode length_Base64Encode)

text \<open>The witness: \<open>TWFu\<close> with a line break in the middle decodes to the bytes of \<open>Man\<close>.\<close>

theorem Base64_roundtrip_witness:
  "filter (\<lambda>c. \<not> isspace c) (''TW'' @ [CHR 0x0A] @ ''Fu '') = Base64Encode [77, 97, 110]
   \<and> Base64Decode (''TW'' @ [CHR 0x0A] @ ''Fu '') = Some [77, 97, 110]"
proof -
  have h: "filter (\<lambda>c. \<not> isspace c) (''TW'' @ [CHR 0x0A] @ ''Fu '') = Base64Encode [77, 97, 110]"
    by code_simp
  show ?thesis using h Base64_roundtrip [OF h] by blast
qed

end
