(* ===== verification/Trust_List.thy ===== *)
theory Trust_List
  imports Validation_Types Base64
begin

text \<open>
  The trust list as a document: \<open>xml/XmlCore.h\<close> and the parser \<open>core/policy/TrustListParser.cpp\<close>. The
  function \<open>xmlReadMemory\<close> of libxml2 is an argument. A node of its tree has the local name, the
  namespace, the text of \<open>xmlNodeGetContent\<close> and the children.
\<close>

section \<open>Documents\<close>

datatype xml_node =
  Xml_Node (xn_element: bool) (xn_name: string) (xn_namespace: "string option") (xn_content: string) (xn_children: "xml_node list")

record xml_doc =
  xd_dtd :: bool
  xd_root :: "xml_node option"

definition kMaxXmlBytes :: nat where
  "kMaxXmlBytes = 64 * 1024 * 1024"

definition ParseHardened :: "(string \<Rightarrow> xml_doc option) \<Rightarrow> string \<Rightarrow> string + xml_doc" where
  "ParseHardened xmlReadMemory xml =
     (if xml = [] then Inl ''uk: XML is empty''
      else if length xml > kMaxXmlBytes then
        Inl (''uk: XML is too large, the limit is '' @ to_string (int kMaxXmlBytes) @ '' bytes'')
      else case xmlReadMemory xml of
        None \<Rightarrow> Inl ''uk: XML cannot be parsed''
      | Some doc \<Rightarrow> if xd_dtd doc then Inl ''uk: XML has a DTD, which is forbidden'' else Inr doc)"

definition MatchesElement :: "xml_node \<Rightarrow> string \<Rightarrow> string option \<Rightarrow> bool" where
  "MatchesElement node local_name ns_uri \<longleftrightarrow>
     xn_element node \<and> xn_name node = local_name \<and> (ns_uri = None \<or> xn_namespace node = ns_uri)"

lemma size_list_filter: "size_list f (filter P xs) \<le> size_list f xs"
  by (induction xs) auto

text \<open>
  The loop of \<open>ForEachElement\<close>, which gives the nodes it visits in order; the vector \<open>pending\<close> has its end at
  the head of the list, and the children are reversed before they are pushed.
\<close>

function visit_pending :: "xml_node list \<Rightarrow> xml_node list" where
  "visit_pending [] = []"
| "visit_pending (node # pending) =
     (if xn_element node then [node] else []) @ visit_pending (filter xn_element (xn_children node) @ pending)"
  by pat_completeness auto
termination
proof (relation "measure (size_list size)", goal_cases)
  case (2 node pending)
  then show ?case using size_list_filter [of size xn_element "xn_children node"] by (cases node) (simp add: size_list_append)
qed simp

definition ForEachElement :: "xml_node \<Rightarrow> xml_node list" where
  "ForEachElement root = visit_pending [root]"

text \<open>Document order: a node before its children, and each child with its subtree before the next.\<close>

fun elements_of :: "xml_node \<Rightarrow> xml_node list" where
  "elements_of (Xml_Node element name ns content children) =
     (if element then [Xml_Node element name ns content children] else []) @ concat (map elements_of (filter xn_element children))"

lemma visit_pending_elements: "visit_pending nodes = concat (map elements_of nodes)"
proof (induction nodes rule: visit_pending.induct)
  case (2 node pending)
  then show ?case by (cases node) simp
qed simp

lemma ForEachElement_elements: "ForEachElement root = elements_of root"
  by (simp add: ForEachElement_def visit_pending_elements)

lemma elements_of_element: "m \<in> set (elements_of node) \<Longrightarrow> xn_element m"
  by (induction node rule: elements_of.induct) (auto split: if_splits)

lemma elements_of_trans: "m \<in> set (elements_of node) \<Longrightarrow> set (elements_of m) \<subseteq> set (elements_of node)"
proof (induction node rule: elements_of.induct)
  case (1 element name ns content children)
  show ?case
  proof (cases "m = Xml_Node element name ns content children")
    case False
    then obtain child where "child \<in> set children" "xn_element child" "m \<in> set (elements_of child)"
      using "1.prems" by (auto split: if_splits)
    then show ?thesis using "1.IH" [of child] by fastforce
  qed simp
qed

section \<open>The parser\<close>

record TrustListEndpoints =
  ep_crl_urls :: "string list"
  ep_ocsp_urls :: "string list"
  ep_tsp_urls :: "string list"

record TrustListServiceRecord =
  sr_provider_name :: string
  sr_service_type :: string
  sr_status :: string
  sr_subject_name :: string
  sr_certificates :: "bytes list"
  sr_endpoints :: TrustListEndpoints

record TrustListParseResult =
  tl_ok :: bool
  tl_message :: string
  tl_certificates :: "bytes list"
  tl_endpoints :: TrustListEndpoints
  tl_services :: "TrustListServiceRecord list"

definition no_endpoints :: TrustListEndpoints where
  "no_endpoints = \<lparr>ep_crl_urls = [], ep_ocsp_urls = [], ep_tsp_urls = []\<rparr>"

definition not_parsed :: "string \<Rightarrow> TrustListParseResult" where
  "not_parsed message = \<lparr>tl_ok = False, tl_message = message, tl_certificates = [], tl_endpoints = no_endpoints, tl_services = []\<rparr>"

definition TrimText :: "string \<Rightarrow> string" where
  "TrimText value = rev (dropWhile isspace (rev (dropWhile isspace value)))"

definition ElementsNamed :: "xml_node \<Rightarrow> string \<Rightarrow> xml_node list" where
  "ElementsNamed root local_name = filter (\<lambda>node. MatchesElement node local_name None) (ForEachElement root)"

definition ElementValues :: "xml_node \<Rightarrow> string \<Rightarrow> string list" where
  "ElementValues root local_name =
     map (\<lambda>node. TrimText (xn_content node)) (filter (\<lambda>node. MatchesElement node local_name None) (ForEachElement root))"

definition FirstElementValue :: "xml_node \<Rightarrow> string \<Rightarrow> string" where
  "FirstElementValue root local_name = (case ElementValues root local_name of [] \<Rightarrow> [] | v # _ \<Rightarrow> v)"

definition DecodeCertificates :: "xml_node \<Rightarrow> bytes list" where
  "DecodeCertificates root =
     List.map_filter (\<lambda>encoded. case Base64Decode encoded of Some der \<Rightarrow> if der \<noteq> [] then Some der else None | None \<Rightarrow> None)
       (ElementValues root ''X509Certificate'')"

definition ExtractEndpoints :: "xml_node \<Rightarrow> TrustListEndpoints" where
  "ExtractEndpoints root =
     \<lparr>ep_crl_urls = filter (\<lambda>v. v \<noteq> []) (ElementValues root ''CRL''),
      ep_ocsp_urls = filter (\<lambda>v. v \<noteq> []) (ElementValues root ''OCSP''),
      ep_tsp_urls = filter (\<lambda>v. v \<noteq> []) (ElementValues root ''TSP'')\<rparr>"

definition BuildServiceRecord :: "xml_node \<Rightarrow> string \<Rightarrow> TrustListServiceRecord" where
  "BuildServiceRecord service_node provider_name =
     \<lparr>sr_provider_name = provider_name,
      sr_service_type = (let t = FirstElementValue service_node ''ServiceTypeIdentifier''
                         in if t = [] then FirstElementValue service_node ''ServiceType'' else t),
      sr_status = FirstElementValue service_node ''ServiceStatus'',
      sr_subject_name = FirstElementValue service_node ''X509SubjectName'',
      sr_certificates = DecodeCertificates service_node,
      sr_endpoints = ExtractEndpoints service_node\<rparr>"

definition CollectServices :: "xml_node \<Rightarrow> string \<Rightarrow> string \<Rightarrow> TrustListServiceRecord list" where
  "CollectServices provider_node service_local_name provider_name =
     filter (\<lambda>service. sr_certificates service \<noteq> [] \<or> sr_service_type service \<noteq> [] \<or> sr_status service \<noteq> [])
       (map (\<lambda>service_node. BuildServiceRecord service_node provider_name) (ElementsNamed provider_node service_local_name))"

definition parse_root :: "xml_node \<Rightarrow> TrustListParseResult" where
  "parse_root root =
     (let certificates = DecodeCertificates root;
          endpoints = ExtractEndpoints root;
          services = concat (map (\<lambda>provider_node.
            let provider_name = FirstElementValue provider_node ''Name''
            in CollectServices provider_node ''TSPService'' provider_name @ CollectServices provider_node ''Service'' provider_name)
            (ElementsNamed root ''TrustServiceProvider''));
          ok = (certificates \<noteq> [] \<or> ep_crl_urls endpoints \<noteq> [] \<or> ep_ocsp_urls endpoints \<noteq> [] \<or> ep_tsp_urls endpoints \<noteq> []
                \<or> services \<noteq> [])
      in \<lparr>tl_ok = ok, tl_message = (if ok then ''Trust list parsed'' else ''Trust list does not contain supported entries''),
          tl_certificates = certificates, tl_endpoints = endpoints, tl_services = services\<rparr>)"

definition TrustListParser_Parse :: "(string \<Rightarrow> xml_doc option) \<Rightarrow> string \<Rightarrow> TrustListParseResult" where
  "TrustListParser_Parse xmlReadMemory xml =
     (case ParseHardened xmlReadMemory xml of
        Inl parse_error \<Rightarrow> not_parsed (if parse_error = [] then ''Trust list XML is empty or has no root element'' else parse_error)
      | Inr doc \<Rightarrow>
          (case xd_root doc of
             None \<Rightarrow> not_parsed ''Trust list XML is empty or has no root element''
           | Some root \<Rightarrow> parse_root root))"

section \<open>Services are parts of the list\<close>

lemma ElementsNamed_inside: "node \<in> set (ElementsNamed root name) \<Longrightarrow> set (ForEachElement node) \<subseteq> set (ForEachElement root)"
  using elements_of_trans [of node root] by (auto simp: ElementsNamed_def ForEachElement_elements)

lemma ElementValues_mono:
  "set (ForEachElement node) \<subseteq> set (ForEachElement root) \<Longrightarrow> set (ElementValues node name) \<subseteq> set (ElementValues root name)"
  by (auto simp: ElementValues_def)

lemma DecodeCertificates_mono:
  "set (ElementValues node ''X509Certificate'') \<subseteq> set (ElementValues root ''X509Certificate'') \<Longrightarrow>
     set (DecodeCertificates node) \<subseteq> set (DecodeCertificates root)"
  by (auto simp: DecodeCertificates_def List.map_filter_def)

text \<open>
  The parser reads the elements in document order, although its loop works with a stack, and
  nothing is in a service that is not in the list: the certificates and addresses of every service it returns are among those
  of the whole list.
\<close>

lemma parsed_services_covered:
  assumes "service \<in> set (tl_services (parse_root root))"
  shows "set (sr_certificates service) \<subseteq> set (tl_certificates (parse_root root))"
    "set (ep_tsp_urls (sr_endpoints service)) \<subseteq> set (ep_tsp_urls (tl_endpoints (parse_root root)))"
proof -
  obtain provider node provider_name name where "provider \<in> set (ElementsNamed root ''TrustServiceProvider'')"
    "node \<in> set (ElementsNamed provider name)" and s: "service = BuildServiceRecord node provider_name"
    using assms by (auto simp: parse_root_def CollectServices_def Let_def)
  then have "set (ForEachElement node) \<subseteq> set (ForEachElement root)" using ElementsNamed_inside by (meson subset_trans)
  note vals = ElementValues_mono [OF this]
  show "set (sr_certificates service) \<subseteq> set (tl_certificates (parse_root root))"
    using DecodeCertificates_mono [OF vals] by (simp add: s BuildServiceRecord_def parse_root_def Let_def)
  show "set (ep_tsp_urls (sr_endpoints service)) \<subseteq> set (ep_tsp_urls (tl_endpoints (parse_root root)))"
    using vals [of "''TSP''"] by (auto simp: s BuildServiceRecord_def ExtractEndpoints_def parse_root_def Let_def)
qed

end
