(* ===== verification/Trust_Signature.thy ===== *)
theory Trust_Signature
  imports Trust_List
begin

text \<open>
  The check of the signature of a trust list (\<open>core/policy/TlXmlSigCheck.cpp\<close>) and how
  \<open>XmlSignatureVerifier::Verify\<close> finds the signature and the certificate (\<open>xmldsig/XmlSignatureVerifier.cpp\<close>,
  \<open>xmldsig/detail/XmlDocUtil.h\<close>). The digests of the references and the value of the signature are
  computed by functions of the record \<open>xml_engine\<close>.
\<close>

section \<open>Searching a document\<close>

definition DsigNamespace :: string where
  "DsigNamespace = ''http://www.w3.org/2000/09/xmldsig#''"

definition IsElementNamed :: "xml_node \<Rightarrow> string \<Rightarrow> bool" where
  "IsElementNamed node local_name \<longleftrightarrow> xn_element node \<and> xn_name node = local_name"

definition IsElementInNamespace :: "xml_node \<Rightarrow> string \<Rightarrow> bool" where
  "IsElementInNamespace node ns_uri \<longleftrightarrow> xn_element node \<and> xn_namespace node = Some ns_uri"

definition IsDsigElementNamed :: "xml_node \<Rightarrow> string \<Rightarrow> bool" where
  "IsDsigElementNamed node local_name \<longleftrightarrow> IsElementNamed node local_name \<and> IsElementInNamespace node DsigNamespace"

text \<open>The first argument is a node together with its next siblings.\<close>

fun FindFirstElementBy :: "xml_node list \<Rightarrow> string \<Rightarrow> (xml_node \<Rightarrow> string \<Rightarrow> bool) \<Rightarrow> xml_node option" where
  "FindFirstElementBy [] local_name match = None"
| "FindFirstElementBy (Xml_Node element name ns content children # siblings) local_name match =
     (if match (Xml_Node element name ns content children) local_name then Some (Xml_Node element name ns content children)
      else case FindFirstElementBy children local_name match of
        Some found \<Rightarrow> Some found
      | None \<Rightarrow> FindFirstElementBy siblings local_name match)"

definition FindFirstElementInSubtreeBy :: "xml_node \<Rightarrow> string \<Rightarrow> (xml_node \<Rightarrow> string \<Rightarrow> bool) \<Rightarrow> xml_node option" where
  "FindFirstElementInSubtreeBy node local_name match =
     (if match node local_name then Some node else FindFirstElementBy (xn_children node) local_name match)"

definition FindFirstElement :: "xml_node list \<Rightarrow> string \<Rightarrow> xml_node option" where
  "FindFirstElement nodes local_name = FindFirstElementBy nodes local_name IsElementNamed"

definition FindFirstElementInSubtree :: "xml_node \<Rightarrow> string \<Rightarrow> xml_node option" where
  "FindFirstElementInSubtree node local_name = FindFirstElementInSubtreeBy node local_name IsElementNamed"

fun CountElementsByLocalName :: "xml_node list \<Rightarrow> string \<Rightarrow> nat" where
  "CountElementsByLocalName [] local_name = 0"
| "CountElementsByLocalName (Xml_Node element name ns content children # siblings) local_name =
     (if IsElementNamed (Xml_Node element name ns content children) local_name then 1 else 0)
     + CountElementsByLocalName children local_name + CountElementsByLocalName siblings local_name"

section \<open>The verifier\<close>

record XmlSignatureVerificationResult =
  xv_signature_valid :: bool
  xv_digest_valid :: bool
  xv_signing_cert_id :: string
  xv_signature_algorithm_unsupported :: bool
  xv_signature_value_error :: string

text \<open>
  \<open>xe_enabled\<close> says whether the build has XML signatures. For a signature and the certificate found in it,
  \<open>xe_references\<close> says whether all digests of the references agree, and \<open>xe_signature_value\<close> whether the
  value is a signature on \<open>SignedInfo\<close> under the key of the certificate, whether its algorithm is missing in
  this build, and a message; each may fail with an error instead.
\<close>

record xml_engine =
  xe_enabled :: bool
  xe_read :: "string \<Rightarrow> xml_doc option"
  xe_references :: "xml_node \<Rightarrow> string \<Rightarrow> bytes \<Rightarrow> string + bool"
  xe_signature_value :: "xml_node \<Rightarrow> string \<Rightarrow> bytes \<Rightarrow> string + bool \<times> bool \<times> string"

definition TrimmedText :: "xml_node \<Rightarrow> string" where
  "TrimmedText node =
     (let blank = (\<lambda>c. c \<in> {CHR '' '', CHR 0x09, CHR 0x0D, CHR 0x0A})
      in rev (dropWhile blank (rev (dropWhile blank (xn_content node)))))"

definition ExtractEmbeddedCertificate :: "xml_node \<Rightarrow> bytes" where
  "ExtractEmbeddedCertificate signature_scope_node =
     (case FindFirstElementInSubtreeBy signature_scope_node ''X509Certificate'' IsDsigElementNamed of
        None \<Rightarrow> []
      | Some cert_node \<Rightarrow> (case Base64Decode (TrimmedText cert_node) of None \<Rightarrow> [] | Some der \<Rightarrow> der))"

definition VerifySignatureAtPosition :: "xml_engine \<Rightarrow> xml_node \<Rightarrow> string \<Rightarrow> string + XmlSignatureVerificationResult" where
  "VerifySignatureAtPosition X signature_node signed_xml =
     (let cert_der = ExtractEmbeddedCertificate signature_node;
          cert_id = (if cert_der \<noteq> [] then ''embedded-x509'' else ''(no certificate in KeyInfo)'')
      in case xe_references X signature_node signed_xml cert_der of
           Inl err \<Rightarrow> Inl err
         | Inr all_digests \<Rightarrow>
             if cert_der = [] then
               Inr \<lparr>xv_signature_valid = False, xv_digest_valid = all_digests, xv_signing_cert_id = cert_id,
                 xv_signature_algorithm_unsupported = False, xv_signature_value_error = ''no certificate in KeyInfo''\<rparr>
             else case xe_signature_value X signature_node signed_xml cert_der of
               Inl err \<Rightarrow> Inl err
             | Inr (valid, unsupported, message) \<Rightarrow>
                 Inr \<lparr>xv_signature_valid = valid \<and> \<not> unsupported, xv_digest_valid = all_digests, xv_signing_cert_id = cert_id,
                   xv_signature_algorithm_unsupported = unsupported, xv_signature_value_error = message\<rparr>)"

definition XmlSignatureVerifier_Verify :: "xml_engine \<Rightarrow> string \<Rightarrow> string + XmlSignatureVerificationResult" where
  "XmlSignatureVerifier_Verify X signed_xml =
     (case ParseHardened (xe_read X) signed_xml of
        Inl err \<Rightarrow> Inl err
      | Inr doc \<Rightarrow>
          let root = (case xd_root doc of None \<Rightarrow> [] | Some root \<Rightarrow> [root])
          in if CountElementsByLocalName root ''Signature'' = 0 then Inl ''uk: ds:Signature not found''
             else if CountElementsByLocalName root ''Signature'' > 1 then Inl ''uk: several ds:Signature are not supported''
             else if CountElementsByLocalName root ''SignedInfo'' \<noteq> 1 then Inl ''uk: exactly one ds:SignedInfo is expected''
             else if CountElementsByLocalName root ''SignatureValue'' \<noteq> 1 then Inl ''uk: exactly one ds:SignatureValue is expected''
             else if CountElementsByLocalName root ''SignedProperties'' > 1 then Inl ''uk: several xades:SignedProperties''
             else case FindFirstElementBy root ''Signature'' IsDsigElementNamed of
               None \<Rightarrow> Inl ''uk: ds:Signature not found in the namespace of XMLDSIG''
             | Some signature_node \<Rightarrow> VerifySignatureAtPosition X signature_node signed_xml)"

section \<open>The check of a trust list\<close>

record TlXmlSigCheckResult =
  xs_succeeded :: bool
  xs_not_supported :: bool
  xs_error :: string

definition failed_sig_check :: "string \<Rightarrow> TlXmlSigCheckResult" where
  "failed_sig_check err = \<lparr>xs_succeeded = False, xs_not_supported = False, xs_error = err\<rparr>"

definition ExtractFirstX509CertDer :: "(string \<Rightarrow> xml_doc option) \<Rightarrow> string \<Rightarrow> bytes" where
  "ExtractFirstX509CertDer read xml =
     (case ParseHardened read xml of
        Inl _ \<Rightarrow> []
      | Inr doc \<Rightarrow>
          (case xd_root doc of
             None \<Rightarrow> []
           | Some root \<Rightarrow>
               (case FindFirstElement (xn_children root) ''Signature'' of
                  None \<Rightarrow> []
                | Some signature \<Rightarrow>
                    (case FindFirstElementInSubtree signature ''KeyInfo'' of
                       None \<Rightarrow> []
                     | Some key_info \<Rightarrow>
                         (case FindFirstElementInSubtree key_info ''X509Certificate'' of
                            None \<Rightarrow> []
                          | Some cert_node \<Rightarrow>
                              (case Base64Decode (filter (\<lambda>c. \<not> isspace c) (xn_content cert_node)) of
                                 None \<Rightarrow> [] | Some der \<Rightarrow> der))))))"

definition VerifyTlXmlSignature :: "xml_engine \<Rightarrow> string \<Rightarrow> bytes \<Rightarrow> TlXmlSigCheckResult" where
  "VerifyTlXmlSignature X xml pinned_cert_der =
     (if \<not> xe_enabled X then
        \<lparr>xs_succeeded = False, xs_not_supported = True,
         xs_error = ''TL XML signature verification requires TAMGA_ENABLE_XML_SIGNATURES''\<rparr>
      else if xml = [] then failed_sig_check ''TL XML is empty''
      else if pinned_cert_der \<noteq> [] \<and> ExtractFirstX509CertDer (xe_read X) xml = [] then
        failed_sig_check ''ds:KeyInfo/X509Certificate not found in TL XML''
      else if pinned_cert_der \<noteq> [] \<and> ExtractFirstX509CertDer (xe_read X) xml \<noteq> pinned_cert_der then
        failed_sig_check ''TL XML signer certificate does not match the pinned certificate''
      else case XmlSignatureVerifier_Verify X xml of
        Inl error_message \<Rightarrow>
          failed_sig_check (if error_message = [] then ''TL XML signature verification error'' else error_message)
      | Inr verify_result \<Rightarrow>
          if \<not> xv_signature_valid verify_result then
            \<lparr>xs_succeeded = False, xs_not_supported = xv_signature_algorithm_unsupported verify_result,
             xs_error = (if xv_signature_value_error verify_result = [] then ''TL XML signature is not valid''
                         else xv_signature_value_error verify_result)\<rparr>
          else \<lparr>xs_succeeded = True, xs_not_supported = False, xs_error = []\<rparr>)"

section \<open>Searches as lists of nodes\<close>

fun nodes_of :: "xml_node list \<Rightarrow> xml_node list" where
  "nodes_of [] = []"
| "nodes_of (Xml_Node element name ns content children # siblings) =
     Xml_Node element name ns content children # nodes_of children @ nodes_of siblings"

lemma find_append: "find P (xs @ ys) = (case find P xs of Some x \<Rightarrow> Some x | None \<Rightarrow> find P ys)"
  by (induction xs) auto

lemma FindFirstElementBy_find: "FindFirstElementBy nodes local_name match = find (\<lambda>n. match n local_name) (nodes_of nodes)"
  by (induction nodes rule: nodes_of.induct) (auto simp: find_append split: option.split)

lemma CountElementsByLocalName_length:
  "CountElementsByLocalName nodes local_name = length (filter (\<lambda>n. IsElementNamed n local_name) (nodes_of nodes))"
  by (induction nodes rule: nodes_of.induct) auto

lemma FindFirstElementInSubtreeBy_find:
  "FindFirstElementInSubtreeBy node local_name match = find (\<lambda>n. match n local_name) (nodes_of [node])"
  by (cases node) (simp add: FindFirstElementInSubtreeBy_def FindFirstElementBy_find)

lemmas search_simps = FindFirstElement_def FindFirstElementInSubtree_def FindFirstElementBy_find FindFirstElementInSubtreeBy_find

lemma nodes_of_append [simp]: "nodes_of (xs @ ys) = nodes_of xs @ nodes_of ys"
  by (induction xs rule: nodes_of.induct) simp_all

lemma nodes_of_trans: "m \<in> set (nodes_of nodes) \<Longrightarrow> set (nodes_of [m]) \<subseteq> set (nodes_of nodes)"
  by (induction nodes rule: nodes_of.induct) auto

lemma nodes_of_children: "set (nodes_of (xn_children node)) \<subseteq> set (nodes_of [node])"
  by (cases node) auto

lemma find_elementD: "find P xs = Some x \<Longrightarrow> x \<in> set xs \<and> P x"
  by (auto simp: find_Some_iff)

lemma found:
  "FindFirstElement nodes local_name = Some p \<Longrightarrow> p \<in> set (nodes_of nodes) \<and> IsElementNamed p local_name"
  "FindFirstElementInSubtree node local_name = Some p \<Longrightarrow> p \<in> set (nodes_of [node]) \<and> IsElementNamed p local_name"
  "FindFirstElementBy nodes local_name match = Some p \<Longrightarrow> p \<in> set (nodes_of nodes) \<and> match p local_name"
  "FindFirstElementInSubtreeBy node local_name match = Some p \<Longrightarrow> p \<in> set (nodes_of [node]) \<and> match p local_name"
  unfolding search_simps by (drule find_elementD, assumption)+

lemma filter_single: "length (filter P xs) = 1 \<Longrightarrow> x \<in> set xs \<Longrightarrow> P x \<Longrightarrow> y \<in> set xs \<Longrightarrow> P y \<Longrightarrow> x = y"
proof -
  assume one: "length (filter P xs) = 1" and "x \<in> set xs" "P x" "y \<in> set xs" "P y"
  obtain z where z: "filter P xs = [z]" using one by (cases "filter P xs") auto
  have "w = z" if "w \<in> set xs" "P w" for w
  proof -
    have "w \<in> set (filter P xs)" using that by simp
    then show ?thesis unfolding z by simp
  qed
  then show "x = y" using \<open>x \<in> set xs\<close> \<open>P x\<close> \<open>y \<in> set xs\<close> \<open>P y\<close> by metis
qed

lemma Base64Decode_ignores_space: "Base64Decode (filter (\<lambda>c. \<not> isspace c) text) = Base64Decode text"
  by (simp add: Base64Decode_def)

lemma Base64Decode_trimmed: "Base64Decode (TrimmedText node) = Base64Decode (xn_content node)"
proof -
  let ?blank = "\<lambda>c. c \<in> {CHR '' '', CHR 0x09, CHR 0x0D, CHR 0x0A}" and ?f = "filter (\<lambda>c. \<not> isspace c)"
  have f: "?f (dropWhile ?blank s) = ?f s" for s
    by (induction s) (auto simp: isspace_def)
  then have "?f (rev (dropWhile ?blank (rev s))) = ?f s" for s
    by (metis rev_filter rev_rev_ident)
  then have "?f (TrimmedText node) = ?f (xn_content node)"
    using f unfolding TrimmedText_def Let_def by presburger
  then show ?thesis by (metis Base64Decode_ignores_space)
qed

section \<open>What a successful check says\<close>

lemma Verify_signature:
  assumes "XmlSignatureVerifier_Verify X xml = Inr r"
  obtains doc root signature where "ParseHardened (xe_read X) xml = Inr doc" "xd_root doc = Some root"
    "CountElementsByLocalName [root] ''Signature'' = 1" "FindFirstElementBy [root] ''Signature'' IsDsigElementNamed = Some signature"
    "VerifySignatureAtPosition X signature xml = Inr r"
proof -
  obtain doc where d: "ParseHardened (xe_read X) xml = Inr doc"
    using assms by (auto simp: XmlSignatureVerifier_Verify_def split: sum.splits)
  show thesis
  proof (cases "xd_root doc")
    case None
    then show thesis using assms by (simp add: XmlSignatureVerifier_Verify_def d)
  next
    case (Some root)
    then show thesis
      using assms that [OF d Some] unfolding XmlSignatureVerifier_Verify_def d
      by (auto simp: Let_def not_less less_Suc_eq_le le_Suc_eq split: if_splits option.splits)
  qed
qed

lemma VerifyTl_succeeded:
  assumes "xs_succeeded (VerifyTlXmlSignature X xml pinned)"
  obtains r where "XmlSignatureVerifier_Verify X xml = Inr r" "xv_signature_valid r"
    "pinned \<noteq> [] \<Longrightarrow> ExtractFirstX509CertDer (xe_read X) xml = pinned"
  using assms that
  by (auto simp: VerifyTlXmlSignature_def failed_sig_check_def split: if_splits sum.splits)

lemma VerifySignature_valid:
  assumes "VerifySignatureAtPosition X signature xml = Inr r" "xv_signature_valid r"
  shows "\<exists>message. xe_signature_value X signature xml (ExtractEmbeddedCertificate signature) = Inr (True, False, message)"
  using assms by (auto simp: VerifySignatureAtPosition_def Let_def split: sum.splits if_splits)

lemma IsDsig_named: "IsDsigElementNamed n local_name \<Longrightarrow> IsElementNamed n local_name"
  by (simp add: IsDsigElementNamed_def)

lemma first_certificate:
  assumes "ExtractFirstX509CertDer read xml = pinned" "pinned \<noteq> []" "ParseHardened read xml = Inr doc" "xd_root doc = Some root"
  shows "\<exists>p k c. FindFirstElement (xn_children root) ''Signature'' = Some p \<and> FindFirstElementInSubtree p ''KeyInfo'' = Some k
    \<and> FindFirstElementInSubtree k ''X509Certificate'' = Some c
    \<and> (case Base64Decode (xn_content c) of None \<Rightarrow> [] | Some der \<Rightarrow> der) = pinned"
proof -
  have e: "pinned = (case FindFirstElement (xn_children root) ''Signature'' of None \<Rightarrow> [] | Some signature \<Rightarrow>
      (case FindFirstElementInSubtree signature ''KeyInfo'' of None \<Rightarrow> [] | Some key_info \<Rightarrow>
        (case FindFirstElementInSubtree key_info ''X509Certificate'' of None \<Rightarrow> [] | Some c \<Rightarrow>
          (case Base64Decode (xn_content c) of None \<Rightarrow> [] | Some der \<Rightarrow> der))))"
    using assms(1) unfolding ExtractFirstX509CertDer_def assms(3,4) sum.case option.case Base64Decode_ignores_space by simp
  obtain p where p: "FindFirstElement (xn_children root) ''Signature'' = Some p" 
    using e assms(2) by (cases "FindFirstElement (xn_children root) ''Signature''") auto
  obtain k where k: "FindFirstElementInSubtree p ''KeyInfo'' = Some k"
    using e assms(2) unfolding p by (cases "FindFirstElementInSubtree p ''KeyInfo''") auto
  obtain c where c: "FindFirstElementInSubtree k ''X509Certificate'' = Some c"
    using e assms(2) unfolding p option.case k by (cases "FindFirstElementInSubtree k ''X509Certificate''") auto
  have "(case Base64Decode (xn_content c) of None \<Rightarrow> [] | Some der \<Rightarrow> der) = pinned" using e unfolding p option.case k c by (rule sym)
  then show ?thesis using p k c by blast
qed

text \<open>
  C24. A pinned certificate, in an unambiguous document. When the signature has one element named
  \<open>X509Certificate\<close> and the check succeeds with a pinned certificate, then the value of the signature
  was verified with the key of the pinned certificate.
\<close>

theorem pinned_certificate_verifies:
  assumes "xs_succeeded (VerifyTlXmlSignature X xml pinned)" "pinned \<noteq> []"
    and "xe_read X xml = Some doc" "xd_root doc = Some root"
    and "FindFirstElement [root] ''Signature'' = Some signature" "CountElementsByLocalName [signature] ''X509Certificate'' = 1"
  shows "\<exists>message. xe_signature_value X signature xml pinned = Inr (True, False, message)"
proof -
  obtain r where v: "XmlSignatureVerifier_Verify X xml = Inr r" "xv_signature_valid r"
    and pin: "ExtractFirstX509CertDer (xe_read X) xml = pinned"
    using VerifyTl_succeeded [OF assms(1)] assms(2) by metis
  obtain doc' root' s where d: "ParseHardened (xe_read X) xml = Inr doc'" "xd_root doc' = Some root'"
    and one: "CountElementsByLocalName [root'] ''Signature'' = 1"
    and s: "FindFirstElementBy [root'] ''Signature'' IsDsigElementNamed = Some s" "VerifySignatureAtPosition X s xml = Inr r"
    using Verify_signature [OF v(1)] by metis
  have "doc' = doc" using d(1) assms(3) by (auto simp: ParseHardened_def split: if_splits)
  then have root: "root' = root" using d(2) assms(4) by simp
  note one = filter_single [OF one [unfolded root CountElementsByLocalName_length]]
  have s_in: "s \<in> set (nodes_of [root]) \<and> IsElementNamed s ''Signature''"
    using found(3) [OF s(1)] IsDsig_named by (simp add: root)
  moreover have "signature \<in> set (nodes_of [root]) \<and> IsElementNamed signature ''Signature''"
    using found(1) [OF assms(5)] .
  ultimately have sig: "s = signature" using one by blast
  obtain p k c where p: "FindFirstElement (xn_children root) ''Signature'' = Some p"
    and k: "FindFirstElementInSubtree p ''KeyInfo'' = Some k" and c: "FindFirstElementInSubtree k ''X509Certificate'' = Some c"
    and der: "(case Base64Decode (xn_content c) of None \<Rightarrow> [] | Some der \<Rightarrow> der) = pinned"
    using first_certificate [OF pin assms(2) d(1) d(2)] unfolding root by blast
  have "p \<in> set (nodes_of [root]) \<and> IsElementNamed p ''Signature''"
    using found(1) [OF p] subsetD [OF nodes_of_children] by blast
  then have "p = signature" using one s_in sig by blast
  then have "k \<in> set (nodes_of [signature])" using found(2) [OF k] by simp
  then have c_in: "c \<in> set (nodes_of [signature]) \<and> IsElementNamed c ''X509Certificate''"
    using found(2) [OF c] subsetD [OF nodes_of_trans] by blast
  obtain message where m: "xe_signature_value X signature xml (ExtractEmbeddedCertificate signature) = Inr (True, False, message)"
    using VerifySignature_valid [OF s(2) v(2)] sig by blast
  have "ExtractEmbeddedCertificate signature \<noteq> []"
    using s(2) v(2) sig by (auto simp: VerifySignatureAtPosition_def Let_def split: sum.splits if_splits)
  then obtain e where e: "FindFirstElementInSubtreeBy signature ''X509Certificate'' IsDsigElementNamed = Some e"
    unfolding ExtractEmbeddedCertificate_def by (auto split: option.splits)
  then have "e \<in> set (nodes_of [signature]) \<and> IsElementNamed e ''X509Certificate''"
    using found(4) [OF e] IsDsig_named by blast
  then have "e = c" using filter_single [OF assms(6) [unfolded CountElementsByLocalName_length]] c_in by blast
  then have "ExtractEmbeddedCertificate signature = pinned" using der e by (simp add: ExtractEmbeddedCertificate_def Base64Decode_trimmed)
  then show ?thesis using m by simp
qed

section \<open>Signed lists\<close>

definition ds_element :: "string \<Rightarrow> string \<Rightarrow> xml_node list \<Rightarrow> xml_node" where
  "ds_element name content children = Xml_Node True name (Some DsigNamespace) content children"

definition list_signature :: "xml_node list \<Rightarrow> xml_node" where
  "list_signature certificates = ds_element ''Signature'' []
     [ds_element ''SignedInfo'' [] [], ds_element ''SignatureValue'' [] [], ds_element ''KeyInfo'' [] certificates]"

definition signed_list :: "xml_node list \<Rightarrow> xml_node list \<Rightarrow> xml_node" where
  "signed_list body certificates = Xml_Node True ''TrustServiceStatusList'' None [] (body @ [list_signature certificates])"

definition certificate_element :: "string \<Rightarrow> bytes \<Rightarrow> xml_node" where
  "certificate_element ns der = Xml_Node True ''X509Certificate'' (Some ns) (Base64Encode der) []"

definition sample_engine :: "xml_node \<Rightarrow> bytes \<Rightarrow> bool \<Rightarrow> xml_engine" where
  "sample_engine root signer digests =
     \<lparr>xe_enabled = True, xe_read = (\<lambda>xml. Some \<lparr>xd_dtd = False, xd_root = Some root\<rparr>), xe_references = (\<lambda>s xml c. Inr digests),
      xe_signature_value = (\<lambda>s xml c. Inr (c = signer, False, []))\<rparr>"

theorem pinned_certificate_verifies_witness:
  "\<exists>message. xe_signature_value (sample_engine (signed_list [] [certificate_element DsigNamespace [1, 2, 3]]) [1, 2, 3] True)
     (list_signature [certificate_element DsigNamespace [1, 2, 3]]) ''list'' [1, 2, 3] = Inr (True, False, message)"
proof (rule pinned_certificate_verifies)
  let ?root = "signed_list [] [certificate_element DsigNamespace [1, 2, 3]]"
  let ?X = "sample_engine ?root [1, 2, 3] True"
  have d: "ParseHardened (xe_read ?X) ''list'' = Inr \<lparr>xd_dtd = False, xd_root = Some ?root\<rparr>"
    by (simp add: ParseHardened_def sample_engine_def kMaxXmlBytes_def)
  have "ExtractFirstX509CertDer (xe_read ?X) ''list'' = [1, 2, 3]" unfolding ExtractFirstX509CertDer_def d by code_simp
  moreover have "XmlSignatureVerifier_Verify ?X ''list'' = Inr \<lparr>xv_signature_valid = True, xv_digest_valid = True,
      xv_signing_cert_id = ''embedded-x509'', xv_signature_algorithm_unsupported = False, xv_signature_value_error = []\<rparr>"
    unfolding XmlSignatureVerifier_Verify_def d by code_simp
  ultimately show "xs_succeeded (VerifyTlXmlSignature ?X ''list'' [1, 2, 3])"
    by (simp add: VerifyTlXmlSignature_def) (simp add: sample_engine_def)
  show "xe_read (sample_engine ?root [1, 2, 3] True) ''list'' = Some \<lparr>xd_dtd = False, xd_root = Some ?root\<rparr>"
    by (simp add: sample_engine_def)
  show "FindFirstElement [?root] ''Signature'' = Some (list_signature [certificate_element DsigNamespace [1, 2, 3]])" by code_simp
  show "CountElementsByLocalName [list_signature [certificate_element DsigNamespace [1, 2, 3]]] ''X509Certificate'' = 1" by code_simp
qed simp_all

section \<open>What the check does not say\<close>

text \<open>The part of the verifier's result that the check reads.\<close>

definition read_part :: "string + XmlSignatureVerificationResult \<Rightarrow> string + bool \<times> bool \<times> string" where
  "read_part = map_sum (\<lambda>e. e) (\<lambda>r. (xv_signature_valid r, xv_signature_algorithm_unsupported r, xv_signature_value_error r))"

lemma VerifyTl_read_part:
  assumes "read_part (XmlSignatureVerifier_Verify X xml) = read_part (XmlSignatureVerifier_Verify Y xml)"
    "xe_enabled X = xe_enabled Y" "xe_read X = xe_read Y"
  shows "VerifyTlXmlSignature X xml pinned = VerifyTlXmlSignature Y xml pinned"
  using assms unfolding VerifyTlXmlSignature_def
  by (cases "XmlSignatureVerifier_Verify X xml"; cases "XmlSignatureVerifier_Verify Y xml") (simp_all add: read_part_def)

lemma VerifySignature_digests:
  "read_part (VerifySignatureAtPosition (X\<lparr>xe_references := \<lambda>s x c. Inr (digests s x c)\<rparr>) signature xml)
   = (let c = ExtractEmbeddedCertificate signature
      in if c = [] then Inr (False, False, ''no certificate in KeyInfo'')
         else map_sum (\<lambda>e. e) (\<lambda>(valid, unsupported, message). (valid \<and> \<not> unsupported, unsupported, message))
           (xe_signature_value X signature xml c))"
  by (cases "xe_signature_value X signature xml (ExtractEmbeddedCertificate signature)")
    (auto simp: VerifySignatureAtPosition_def read_part_def Let_def split: prod.split)

lemma Verify_read_part:
  assumes "\<And>signature. read_part (VerifySignatureAtPosition X signature xml) = read_part (VerifySignatureAtPosition Y signature xml)"
    "xe_read X = xe_read Y"
  shows "read_part (XmlSignatureVerifier_Verify X xml) = read_part (XmlSignatureVerifier_Verify Y xml)"
proof (cases "ParseHardened (xe_read Y) xml")
  case (Inl e)
  then show ?thesis using assms(2) by (simp add: XmlSignatureVerifier_Verify_def)
next
  case (Inr doc)
  then show ?thesis using assms by (auto simp: XmlSignatureVerifier_Verify_def Let_def split: option.split)
qed

text \<open>
  C22. The digests do not count. The verifier computes for a list whether the digests of what was signed
  agree, but the check of a trust list reads only whether the value of the signature on \<open>SignedInfo\<close>
  is valid: with any other outcome of the digests it gives the same result. So a list whose content was changed
  under an authentic signature passes.
\<close>

theorem reference_digests_ignored:
  "VerifyTlXmlSignature (X\<lparr>xe_references := \<lambda>signature xml certificate. Inr (digests signature xml certificate)\<rparr>) xml pinned
   = VerifyTlXmlSignature (X\<lparr>xe_references := \<lambda>signature xml certificate. Inr (other signature xml certificate)\<rparr>) xml pinned"
  by (rule VerifyTl_read_part, rule Verify_read_part) (simp_all only: VerifySignature_digests, simp_all)

text \<open>
  C23. A pinned certificate can be shown without being used. The pin is compared with the first
  element named \<open>X509Certificate\<close> in the first \<open>KeyInfo\<close>, in any namespace, while the signature is verified with the
  first one in the namespace of XMLDSIG. So a list signed by anyone passes, if the pinned
  certificate stands before the signer's in an element of another namespace.
\<close>

theorem decoy_certificate_accepted:
  fixes X :: xml_engine and pinned signer :: bytes
  defines "certificates \<equiv> [certificate_element ''urn:decoy'' pinned, certificate_element DsigNamespace signer]"
  assumes "xe_enabled X" "xml \<noteq> []" "length xml \<le> kMaxXmlBytes" "pinned \<noteq> []" "signer \<noteq> []"
    and "list_all (\<lambda>name. CountElementsByLocalName body name = 0) [''Signature'', ''SignedInfo'', ''SignatureValue'', ''SignedProperties'']"
    and "xe_read X xml = Some \<lparr>xd_dtd = False, xd_root = Some (signed_list body certificates)\<rparr>"
    and "xe_references X (list_signature certificates) xml signer = Inr digests"
    and "xe_signature_value X (list_signature certificates) xml signer = Inr (True, False, message)"
  shows "xs_succeeded (VerifyTlXmlSignature X xml pinned)"
proof -
  let ?s = "list_signature certificates" and ?root = "signed_list body certificates"
  have decoded: "Base64Decode (Base64Encode der) = Some der" for der
    by (simp add: Base64Decode_def Base64Encode_no_space decode_groups_Encode length_Base64Encode)
  have n: "nodes_of [?s] = [?s, ds_element ''SignedInfo'' [] [], ds_element ''SignatureValue'' [] [], ds_element ''KeyInfo'' [] certificates]
      @ certificates"
    by (simp add: list_signature_def ds_element_def certificates_def certificate_element_def)
  have r: "nodes_of [?root] = ?root # nodes_of body @ nodes_of [?s]" by (simp add: signed_list_def)
  have names: "IsElementNamed (signed_list b cs) name \<longleftrightarrow> name = ''TrustServiceStatusList''" "IsElementNamed (list_signature cs) name \<longleftrightarrow> name = ''Signature''"
    "IsElementNamed (ds_element name' content children) name \<longleftrightarrow> name' = name"
    "IsElementNamed (certificate_element ns der) name \<longleftrightarrow> name = ''X509Certificate''"
    "IsDsigElementNamed (signed_list b cs) name \<longleftrightarrow> False"
    "IsDsigElementNamed (list_signature cs) name \<longleftrightarrow> name = ''Signature''" "IsDsigElementNamed (ds_element name' content children) name \<longleftrightarrow> name' = name"
    "IsDsigElementNamed (certificate_element ns der) name \<longleftrightarrow> name = ''X509Certificate'' \<and> ns = DsigNamespace"
    for name name' content children ns der b cs
    by (auto simp: IsElementNamed_def IsDsigElementNamed_def IsElementInNamespace_def signed_list_def list_signature_def ds_element_def certificate_element_def)
  have none: "filter (\<lambda>x. IsElementNamed x name) (nodes_of body) = []"
    if "name \<in> {''Signature'', ''SignedInfo'', ''SignatureValue'', ''SignedProperties''}" for name
    using that assms(7) by (auto simp: CountElementsByLocalName_length)
  have nosig: "find (\<lambda>x. IsElementNamed x ''Signature'') (nodes_of body) = None" "find (\<lambda>x. IsDsigElementNamed x ''Signature'') (nodes_of body) = None"
    using none [of "''Signature''"] by (auto simp: find_None_iff filter_empty_conv IsDsigElementNamed_def)
  have d: "ParseHardened (xe_read X) xml = Inr \<lparr>xd_dtd = False, xd_root = Some ?root\<rparr>"
    using assms(3,4,8) by (simp add: ParseHardened_def)
  have "DsigNamespace \<noteq> ''urn:decoy''" by (simp add: DsigNamespace_def)
  then have e: "ExtractEmbeddedCertificate ?s = signer"
    unfolding ExtractEmbeddedCertificate_def FindFirstElementInSubtreeBy_find n
    by (simp add: names certificates_def Base64Decode_trimmed) (simp add: certificate_element_def decoded)
  have "CountElementsByLocalName [?root] ''Signature'' = 1" "CountElementsByLocalName [?root] ''SignedInfo'' = 1"
    "CountElementsByLocalName [?root] ''SignatureValue'' = 1" "CountElementsByLocalName [?root] ''SignedProperties'' = 0"
    unfolding CountElementsByLocalName_length r n by (simp_all add: none names certificates_def)
  moreover have "FindFirstElementBy [?root] ''Signature'' IsDsigElementNamed = Some ?s"
    unfolding FindFirstElementBy_find r n by (simp add: names find_append nosig)
  ultimately have v: "XmlSignatureVerifier_Verify X xml = Inr \<lparr>xv_signature_valid = True, xv_digest_valid = digests,
      xv_signing_cert_id = ''embedded-x509'', xv_signature_algorithm_unsupported = False, xv_signature_value_error = message\<rparr>"
    unfolding XmlSignatureVerifier_Verify_def d using assms(6,9,10) by (simp add: Let_def VerifySignatureAtPosition_def e)
  have k: "FindFirstElement (xn_children ?root) ''Signature'' = Some ?s" "FindFirstElementInSubtree ?s ''KeyInfo'' = Some (ds_element ''KeyInfo'' [] certificates)"
    unfolding search_simps n by (simp_all add: names signed_list_def find_append nosig n)
  have "FindFirstElementInSubtree (ds_element ''KeyInfo'' [] certificates) ''X509Certificate'' = Some (certificate_element ''urn:decoy'' pinned)"
    unfolding search_simps by (simp add: ds_element_def certificates_def certificate_element_def IsElementNamed_def)
  then have "ExtractFirstX509CertDer (xe_read X) xml = pinned"
    unfolding ExtractFirstX509CertDer_def d by (simp add: k Base64Decode_ignores_space) (simp add: certificate_element_def decoded)
  then show ?thesis using assms(2,3,5) v by (simp add: VerifyTlXmlSignature_def)
qed

theorem decoy_certificate_accepted_witness:
  "xs_succeeded (VerifyTlXmlSignature
     (sample_engine (signed_list [] [certificate_element ''urn:decoy'' [1, 2, 3], certificate_element DsigNamespace [6, 6]]) [6, 6] False)
     ''list'' [1, 2, 3])"
  by (rule decoy_certificate_accepted [where body = "[]" and signer = "[6, 6]" and digests = False and message = "[]"])
    (simp_all add: sample_engine_def kMaxXmlBytes_def)

end
