(* ===== verification/Http_Policy.thy ===== *)
theory Http_Policy
  imports Tamga_Prelude
begin

text \<open>
  \<open>core/net/HttpAccessPolicy.{h,cpp}\<close>: the decision whether an HTTP request may be sent to an
  address (the guard against requests to local and reserved networks). The parser of IP literals
  of the operating system, \<open>inet_pton\<close>, is a parameter: an IPv4 literal gives the address as a
  number in host order, an IPv6 literal gives 16 bytes. The resolver of host names is an
  argument, as in the source.
\<close>

section \<open>Data\<close>

record DestinationUrl =
  du_scheme :: string
  du_host :: string
  du_valid :: bool

definition default_url :: DestinationUrl where
  "default_url = \<lparr>du_scheme = [], du_host = [], du_valid = False\<rparr>"

datatype IpClassification = NotAnIp | Public | Blocked

record HttpDestinationResult =
  hd_allowed :: bool
  hd_message :: string
  hd_resolved_addresses :: "string list"

record ip_lib =
  inet_pton4 :: "string \<Rightarrow> u32 option"
  inet_pton6 :: "string \<Rightarrow> bytes option"

section \<open>ParseDestinationUrl\<close>

definition LowerAscii :: "string \<Rightarrow> string" where
  "LowerAscii value = map tolower value"

text \<open>
  How the authority splits into host and port. Two of the rejections return the record as it is
  so far and the others a fresh one.
\<close>

datatype host_port = Reject_partial | Reject_fresh | Host string string

definition split_authority :: "string \<Rightarrow> host_port" where
  "split_authority authority =
     (if authority \<noteq> [] \<and> hd authority = CHR ''['' then
        (case find_char (CHR '']'') authority of
           None \<Rightarrow> Reject_partial
         | Some close \<Rightarrow>
             if close = 1 then Reject_partial
             else let host = take (close - 1) (drop 1 authority)
                  in if close + 1 < length authority then
                       (if authority ! (close + 1) \<noteq> CHR '':'' then Reject_fresh
                        else let port = drop (close + 2) authority
                             in if port = [] then Reject_fresh else Host host port)
                     else Host host [])
      else
        (case rfind_char (CHR '':'') authority of
           Some colon \<Rightarrow>
             if find_char (CHR '':'') authority \<noteq> Some colon then Reject_fresh
             else if colon + 1 = length authority then Reject_fresh
             else Host (take colon authority) (drop (colon + 1) authority)
         | None \<Rightarrow> Host authority []))"

definition port_ok :: "string \<Rightarrow> bool" where
  "port_ok port \<longleftrightarrow> list_all isdigit port
     \<and> (case strtoull 10 (c_str port) of (value, erange, rest) \<Rightarrow>
          \<not> erange \<and> rest = [] \<and> value \<noteq> 0 \<and> value \<le> 65535)"

definition ParseDestinationUrl :: "string \<Rightarrow> DestinationUrl" where
  "ParseDestinationUrl url =
     (if url = [] \<or> find_first_of [CHR 0x0D, CHR 0x0A, CHR 0x09, CHR '' ''] url \<noteq> None then default_url
      else case str_find ''://'' url of
        None \<Rightarrow> default_url
      | Some scheme_end \<Rightarrow>
          let parsed = default_url\<lparr>du_scheme := LowerAscii (take scheme_end url)\<rparr>
          in if du_scheme parsed \<noteq> ''http'' \<and> du_scheme parsed \<noteq> ''https'' then parsed
             else
               let rest = drop (scheme_end + 3) url;
                   authority = (case find_first_of ''/?#'' rest of None \<Rightarrow> rest | Some k \<Rightarrow> take k rest)
               in if authority = [] \<or> CHR ''@'' \<in> set authority \<or> CHR 0x5C \<in> set authority \<or> CHR ''%'' \<in> set authority
                  then parsed
                  else case split_authority authority of
                    Reject_partial \<Rightarrow> parsed
                  | Reject_fresh \<Rightarrow> default_url
                  | Host host port \<Rightarrow>
                      if host = [] then default_url
                      else if port \<noteq> [] \<and> \<not> port_ok port then default_url
                      else let host = LowerAscii host;
                               host = (if host \<noteq> [] \<and> last host = CHR ''.'' then butlast host else host)
                           in parsed\<lparr>du_host := host, du_valid := host \<noteq> []\<rparr>)"

section \<open>Classification of addresses\<close>

definition IsBlockedIpv4 :: "u32 \<Rightarrow> bool" where
  "IsBlockedIpv4 address =
     (let first = (ucast (drop_bit 24 address) :: byte);
          second = (ucast (drop_bit 16 address) :: byte);
          third = (ucast (drop_bit 8 address) :: byte)
      in if first = 0 \<or> first = 10 \<or> first = 127 \<or> first \<ge> 224 then True
         else if first = 100 \<and> second \<ge> 64 \<and> second \<le> 127 then True
         else if first = 169 \<and> second = 254 then True
         else if first = 172 \<and> second \<ge> 16 \<and> second \<le> 31 then True
         else if first = 192 \<and> second = 168 then True
         else if first = 192 \<and> second = 0 \<and> (third = 0 \<or> third = 2) then True
         else if first = 198 \<and> (second = 18 \<or> second = 19) then True
         else if first = 198 \<and> second = 51 \<and> third = 100 then True
         else if first = 203 \<and> second = 0 \<and> third = 113 then True
         else False)"

definition Ipv4FromBytes :: "bytes \<Rightarrow> u32" where
  "Ipv4FromBytes bytes =
     push_bit 24 (ucast (bytes ! 0)) OR push_bit 16 (ucast (bytes ! 1)) OR push_bit 8 (ucast (bytes ! 2)) OR ucast (bytes ! 3)"

text \<open>
  The loop of \<open>ParseLegacyIpv4\<close> over the parts of the text, with the numbers read so far; the
  result is the list of numbers, or \<open>None\<close> where the loop returns \<open>false\<close>.
\<close>

function legacy_parts :: "string \<Rightarrow> int list \<Rightarrow> int list option" where
  "legacy_parts text parts =
     (let end_pos = find_char (CHR ''.'') text;
          part = (case end_pos of None \<Rightarrow> text | Some k \<Rightarrow> take k text)
      in if part = [] then None
         else case strtoull 0 (c_str part) of (value, erange, rest) \<Rightarrow>
           if erange \<or> rest \<noteq> [] then None
           else case end_pos of
             None \<Rightarrow> Some (parts @ [value])
           | Some k \<Rightarrow> if length parts + 1 = 4 then None else legacy_parts (drop (k + 1) text) (parts @ [value]))"
  by pat_completeness auto
termination
  by (relation "measure (\<lambda>(text, parts). length text)")
    (auto simp: find_char_def dest: find_index_SomeD(1) split: option.splits)

declare legacy_parts.simps [simp del]

definition legacy_value :: "int list \<Rightarrow> int option" where
  "legacy_value parts =
     (case parts of
        [a] \<Rightarrow> if a > 0xffffffff then None else Some a
      | [a, b] \<Rightarrow> if a > 0xff \<or> b > 0xffffff then None else Some (push_bit 24 a OR b)
      | [a, b, c] \<Rightarrow> if a > 0xff \<or> b > 0xff \<or> c > 0xffff then None else Some (push_bit 24 a OR push_bit 16 b OR c)
      | [a, b, c, d] \<Rightarrow> if a > 0xff \<or> b > 0xff \<or> c > 0xff \<or> d > 0xff then None
          else Some (push_bit 24 a OR push_bit 16 b OR push_bit 8 c OR d)
      | _ \<Rightarrow> None)"

definition ParseLegacyIpv4 :: "string \<Rightarrow> u32 option" where
  "ParseLegacyIpv4 text =
     (if text = [] \<or> hd text = CHR ''+'' \<or> hd text = CHR ''-'' then None
      else case legacy_parts text [] of
        None \<Rightarrow> None
      | Some parts \<Rightarrow> map_option word_of_int (legacy_value parts))"

definition judge_ipv4 :: "u32 \<Rightarrow> IpClassification" where
  "judge_ipv4 address = (if IsBlockedIpv4 address then Blocked else Public)"

text \<open>The part of \<open>ClassifyIpAddress\<close> that judges the bytes of an IPv6 address.\<close>

definition ipv6_reserved :: "bytes \<Rightarrow> bool" where
  "ipv6_reserved b \<longleftrightarrow>
     b ! 0 AND 0xfe = 0xfc \<or> (b ! 0 = 0xfe \<and> b ! 1 AND 0xc0 = 0x80) \<or> b ! 0 = 0xff
     \<or> (b ! 0 = 0x20 \<and> b ! 1 = 0x01 \<and> b ! 2 AND 0xfe = 0)
     \<or> (b ! 0 = 0x20 \<and> b ! 1 = 0x01 \<and> b ! 2 = 0x0d \<and> b ! 3 = 0xb8)
     \<or> (b ! 0 = 0x3f \<and> b ! 1 AND 0xf0 = 0xf0)
     \<or> (b ! 0 = 0x26 \<and> b ! 1 = 0x20 \<and> b ! 2 = 0 \<and> b ! 3 = 0x4f \<and> b ! 4 = 0x80 \<and> b ! 5 = 0)"

definition classify_ipv6 :: "bytes \<Rightarrow> IpClassification" where
  "classify_ipv6 b =
     (if list_all (\<lambda>x. x = 0) (take 16 b) then Blocked
      else if list_all (\<lambda>x. x = 0) (take 15 b) \<and> b ! 15 = 1 then Blocked
      else if list_all (\<lambda>x. x = 0) (take 10 b) \<and> b ! 10 = 0xff \<and> b ! 11 = 0xff then judge_ipv4 (Ipv4FromBytes (drop 12 b))
      else if b ! 0 = 0 \<and> b ! 1 = 0x64 \<and> b ! 2 = 0xff \<and> b ! 3 = 0x9b then
        (if \<not> list_all (\<lambda>x. x = 0) (take 8 (drop 4 b)) then Blocked else judge_ipv4 (Ipv4FromBytes (drop 12 b)))
      else if ipv6_reserved b then Blocked
      else if b ! 0 = 0x20 \<and> b ! 1 = 0x02 then judge_ipv4 (Ipv4FromBytes (drop 2 b))
      else if b ! 0 AND 0xe0 = 0x20 then Public else Blocked)"

definition ClassifyIpAddress :: "ip_lib \<Rightarrow> string \<Rightarrow> IpClassification" where
  "ClassifyIpAddress L text =
     (case inet_pton4 L (c_str text) of
        Some address \<Rightarrow> judge_ipv4 address
      | None \<Rightarrow>
        (case ParseLegacyIpv4 text of
           Some address \<Rightarrow> judge_ipv4 address
         | None \<Rightarrow>
           (case inet_pton6 L (c_str text) of
              None \<Rightarrow> NotAnIp
            | Some b \<Rightarrow> classify_ipv6 b)))"

definition IsAllowedPublicAddress :: "ip_lib \<Rightarrow> string \<Rightarrow> bool" where
  "IsAllowedPublicAddress L peer_address_text \<longleftrightarrow> ClassifyIpAddress L peer_address_text = Public"

definition IsBlockedHostname :: "string \<Rightarrow> bool" where
  "IsBlockedHostname host \<longleftrightarrow>
     host \<in> {''localhost'', ''metadata'', ''instance-data'', ''metadata.google.internal'', ''metadata.azure.internal''}
     \<or> suffix ''.localhost'' host \<or> suffix ''.local'' host \<or> suffix ''.internal'' host
     \<or> suffix ''.lan'' host \<or> suffix ''.home'' host"

section \<open>CheckDestination\<close>

definition denied :: "string \<Rightarrow> string list \<Rightarrow> HttpDestinationResult" where
  "denied message addresses = \<lparr>hd_allowed = False, hd_message = message, hd_resolved_addresses = addresses\<rparr>"

definition allowed :: "string list \<Rightarrow> HttpDestinationResult" where
  "allowed addresses = \<lparr>hd_allowed = True, hd_message = [], hd_resolved_addresses = addresses\<rparr>"

definition CheckDestination ::
    "ip_lib \<Rightarrow> string \<Rightarrow> (string \<Rightarrow> string list) option \<Rightarrow> bool \<Rightarrow> HttpDestinationResult" where
  "CheckDestination L url resolver treat_missing_resolver_as_allowed =
     (let parsed = ParseDestinationUrl url
      in if \<not> du_valid parsed then
           denied ''network destination denied: malformed or unsupported HTTP(S) URL'' []
         else if IsBlockedHostname (du_host parsed) then
           denied ''network destination denied: local or metadata hostname'' []
         else case ClassifyIpAddress L (du_host parsed) of
           Blocked \<Rightarrow> denied ''network destination denied: non-public IP address'' []
         | Public \<Rightarrow> allowed [du_host parsed]
         | NotAnIp \<Rightarrow>
             if \<not> list_all (\<lambda>ch. isalnum ch \<or> ch = CHR ''.'' \<or> ch = CHR ''-'') (du_host parsed) then
               denied ''network destination denied: invalid hostname'' []
             else if treat_missing_resolver_as_allowed \<and> resolver = None then allowed []
             else
               let addresses = (case resolver of None \<Rightarrow> [] | Some f \<Rightarrow> f (du_host parsed))
               in if addresses = [] then denied ''network destination denied: hostname did not resolve'' []
                  else if \<not> list_all (IsAllowedPublicAddress L) addresses then
                    denied ''network destination denied: DNS returned a non-public address'' addresses
                  else allowed addresses)"

section \<open>The reserved networks\<close>

text \<open>
  The IPv4 networks that are not public, in the notation of the address registries: a base
  address and the length of its prefix.
\<close>

definition in_block4 :: "u32 \<Rightarrow> u32 \<times> nat \<Rightarrow> bool" where
  "in_block4 a = (\<lambda>(base, len). drop_bit (32 - len) a = drop_bit (32 - len) base)"

definition special_ipv4 :: "(u32 \<times> nat) list" where
  "special_ipv4 =
     [(0x00000000, 8), (0x0A000000, 8), (0x7F000000, 8), (0xE0000000, 3), (0x64400000, 10), (0xA9FE0000, 16),
      (0xAC100000, 12), (0xC0A80000, 16), (0xC0000000, 24), (0xC0000200, 24), (0xC6120000, 15),
      (0xC6336400, 24), (0xCB007100, 24)]"

lemma unat_drop_bit: "unat (drop_bit k (a :: u32)) = unat a div 2 ^ k"
  by (subst unat_drop_bit_eq) (rule drop_bit_eq_div)

lemma drop_bit_eq_iff: "drop_bit k (a :: u32) = drop_bit k b \<longleftrightarrow> unat a div 2 ^ k = unat b div 2 ^ k"
  by (simp only: word_unat_eq_iff unat_drop_bit)

lemma unat_byte_of_word: "unat (ucast (w :: u32) :: byte) = unat w mod 256"
  by (simp add: unsigned_ucast_eq take_bit_eq_mod)

text \<open>An address as its four octets.\<close>

lemma octets:
  obtains f s t d where "unat (a :: u32) = ((f * 256 + s) * 256 + t) * 256 + d" "f < 256" "s < 256" "t < 256" "d < 256"
proof
  let ?n = "unat a"
  have "?n < 2 ^ 32" using unsigned_less [of a, where ?'a = nat] by simp
  then show "?n div 2 ^ 24 < 256" by simp
  have "?n div 2 ^ 16 = ?n div 2 ^ 8 div 256" "?n div 2 ^ 24 = ?n div 2 ^ 8 div 256 div 256"
    by (simp_all flip: div_mult2_eq)
  then show "?n = ((?n div 2 ^ 24 * 256 + ?n div 2 ^ 16 mod 256) * 256 + ?n div 2 ^ 8 mod 256) * 256 + ?n mod 256"
    by (simp add: div_mult_mod_eq)
qed simp_all

lemma octet_div:
  fixes f s t d :: nat
  assumes "t < 256" "d < 256"
  shows "(((f * 256 + s) * 256 + t) * 256 + d) div 2 ^ 8 = (f * 256 + s) * 256 + t"
    "(((f * 256 + s) * 256 + t) * 256 + d) div 2 ^ (16 + k) = (f * 256 + s) div 2 ^ k"
proof -
  have low: "(x * 256 + y) div 2 ^ 8 = x" if "y < 256" for x y :: nat using that by simp
  show "(((f * 256 + s) * 256 + t) * 256 + d) div 2 ^ 8 = (f * 256 + s) * 256 + t" by (rule low [OF assms(2)])
  have "n div 2 ^ (16 + k) = n div 2 ^ 8 div 2 ^ 8 div 2 ^ k" for n :: nat
    by (simp add: power_add flip: div_mult2_eq)
  then show "(((f * 256 + s) * 256 + t) * 256 + d) div 2 ^ (16 + k) = (f * 256 + s) div 2 ^ k"
    by (simp only: low [OF assms(1)] low [OF assms(2)])
qed

lemma digit256: "y < 256 \<Longrightarrow> z < 256 \<Longrightarrow> x * 256 + y = w * 256 + z \<longleftrightarrow> x = w \<and> y = (z :: nat)"
  by (auto dest: arg_cong [of _ _ "\<lambda>n. n div 256"] arg_cong [of _ _ "\<lambda>n. n mod 256"])

lemma div_eq_range:
  assumes "0 < k"
  shows "n div k = q \<longleftrightarrow> q * k \<le> n \<and> n < (q + 1) * (k :: nat)"
proof
  show "q * k \<le> n \<and> n < (q + 1) * k" if "n div k = q"
    using that dividend_less_div_times [OF assms, of n] by auto
  show "n div k = q" if "q * k \<le> n \<and> n < (q + 1) * k"
    by (rule div_nat_eqI) (use that in \<open>simp_all add: mult.commute\<close>)
qed

lemma octet_ranges:
  fixes f s :: nat
  assumes "f < 256" "s < 256"
  shows "f div 32 = 7 \<longleftrightarrow> 224 \<le> f" "(f * 256 + s) div 64 = 401 \<longleftrightarrow> f = 100 \<and> 64 \<le> s \<and> s \<le> 127"
    "(f * 256 + s) div 16 = 2753 \<longleftrightarrow> f = 172 \<and> 16 \<le> s \<and> s \<le> 31"
    "(f * 256 + s) div 2 = 25353 \<longleftrightarrow> f = 198 \<and> (s = 18 \<or> s = 19)"
proof -
  show "f div 32 = 7 \<longleftrightarrow> 224 \<le> f" using assms by (simp add: div_eq_range)
  show "(f * 256 + s) div 64 = 401 \<longleftrightarrow> f = 100 \<and> 64 \<le> s \<and> s \<le> 127"
    using assms by (cases f "100 :: nat" rule: linorder_cases) (simp_all add: div_eq_range, linarith+)
  show "(f * 256 + s) div 16 = 2753 \<longleftrightarrow> f = 172 \<and> 16 \<le> s \<and> s \<le> 31"
    using assms by (cases f "172 :: nat" rule: linorder_cases) (simp_all add: div_eq_range, linarith+)
  show "(f * 256 + s) div 2 = 25353 \<longleftrightarrow> f = 198 \<and> (s = 18 \<or> s = 19)"
    using assms by (cases f "198 :: nat" rule: linorder_cases) (simp_all add: div_eq_range, linarith+)
qed

lemma octet_pairs:
  fixes f s t :: nat
  assumes "s < 256" "t < 256"
  shows "f * 256 + s = 43518 \<longleftrightarrow> f = 169 \<and> s = 254" "f * 256 + s = 49320 \<longleftrightarrow> f = 192 \<and> s = 168"
    "(f * 256 + s) * 256 + t = 12582912 \<longleftrightarrow> f = 192 \<and> s = 0 \<and> t = 0" "(f * 256 + s) * 256 + t = 12582914 \<longleftrightarrow> f = 192 \<and> s = 0 \<and> t = 2"
    "(f * 256 + s) * 256 + t = 12989284 \<longleftrightarrow> f = 198 \<and> s = 51 \<and> t = 100" "(f * 256 + s) * 256 + t = 13303921 \<longleftrightarrow> f = 203 \<and> s = 0 \<and> t = 113"
proof -
  have p: "f * 256 + s = x * 256 + y \<longleftrightarrow> f = x \<and> s = y" if "y < 256" for x y by (rule digit256 [OF assms(1) that])
  have q: "(f * 256 + s) * 256 + t = (x * 256 + y) * 256 + z \<longleftrightarrow> f = x \<and> s = y \<and> t = z" if "y < 256" "z < 256" for x y z
    unfolding digit256 [OF assms(2) that(2)] p [OF that(1)] by blast
  show "f * 256 + s = 43518 \<longleftrightarrow> f = 169 \<and> s = 254" using p [of 254 169] by simp
  show "f * 256 + s = 49320 \<longleftrightarrow> f = 192 \<and> s = 168" using p [of 168 192] by simp
  show "(f * 256 + s) * 256 + t = 12582912 \<longleftrightarrow> f = 192 \<and> s = 0 \<and> t = 0" using q [of 0 0 192] by simp
  show "(f * 256 + s) * 256 + t = 12582914 \<longleftrightarrow> f = 192 \<and> s = 0 \<and> t = 2" using q [of 0 2 192] by simp
  show "(f * 256 + s) * 256 + t = 12989284 \<longleftrightarrow> f = 198 \<and> s = 51 \<and> t = 100" using q [of 51 100 198] by simp
  show "(f * 256 + s) * 256 + t = 13303921 \<longleftrightarrow> f = 203 \<and> s = 0 \<and> t = 113" using q [of 0 113 203] by simp
qed

lemma IsBlockedIpv4_special: "IsBlockedIpv4 a \<longleftrightarrow> list_ex (in_block4 a) special_ipv4"
proof -
  obtain f s t d where n: "unat a = ((f * 256 + s) * 256 + t) * 256 + d" and lt: "f < 256" "s < 256" "t < 256" "d < 256"
    by (rule octets)
  note divs = octet_div [OF lt(3,4), of f s, folded n]
  have d16: "unat a div 2 ^ 16 = f * 256 + s" "unat a div 2 ^ 17 = (f * 256 + s) div 2" "unat a div 2 ^ 20 = (f * 256 + s) div 16"
    "unat a div 2 ^ 22 = (f * 256 + s) div 64" "unat a div 2 ^ 24 = f" "unat a div 2 ^ 29 = f div 32"
  proof -
    have f: "(f * 256 + s) div 2 ^ 8 = f" using lt by simp
    have "(f * 256 + s) div 2 ^ 13 = (f * 256 + s) div 2 ^ 8 div 2 ^ 5" by (simp flip: div_mult2_eq)
    then show "unat a div 2 ^ 29 = f div 32" using divs(2) [of 13] unfolding f by simp
    show "unat a div 2 ^ 24 = f" using divs(2) [of 8] unfolding f by simp
  qed (use divs(2) [of 0] divs(2) [of 1] divs(2) [of 4] divs(2) [of 6] in simp_all)
  have v: "unat (ucast (drop_bit 24 a) :: byte) = f" "unat (ucast (drop_bit 16 a) :: byte) = s"
    "unat (ucast (drop_bit 8 a) :: byte) = t"
    using lt by (simp_all only: unat_byte_of_word unat_drop_bit divs(1) d16 mod_mult_self3) simp_all
  have code: "IsBlockedIpv4 a \<longleftrightarrow> f = 0 \<or> f = 10 \<or> f = 127 \<or> 224 \<le> f \<or> f = 100 \<and> 64 \<le> s \<and> s \<le> 127 \<or> f = 169 \<and> s = 254
      \<or> f = 172 \<and> 16 \<le> s \<and> s \<le> 31 \<or> f = 192 \<and> s = 168 \<or> f = 192 \<and> s = 0 \<and> (t = 0 \<or> t = 2)
      \<or> f = 198 \<and> (s = 18 \<or> s = 19) \<or> f = 198 \<and> s = 51 \<and> t = 100 \<or> f = 203 \<and> s = 0 \<and> t = 113"
    unfolding IsBlockedIpv4_def Let_def word_unat_eq_iff word_le_nat_alt v by simp
  have "list_ex (in_block4 a) special_ipv4 \<longleftrightarrow> f = 0 \<or> f = 10 \<or> f = 127 \<or> f div 32 = 7 \<or> (f * 256 + s) div 64 = 401
      \<or> f * 256 + s = 43518 \<or> (f * 256 + s) div 16 = 2753 \<or> f * 256 + s = 49320
      \<or> (f * 256 + s) * 256 + t = 12582912 \<or> (f * 256 + s) * 256 + t = 12582914 \<or> (f * 256 + s) div 2 = 25353
      \<or> (f * 256 + s) * 256 + t = 12989284 \<or> (f * 256 + s) * 256 + t = 13303921"
    by (simp add: special_ipv4_def in_block4_def drop_bit_eq_iff divs(1) [simplified] d16 [simplified] del: of_nat_numeral)
  then show ?thesis
    unfolding code octet_ranges [OF lt(1,2)] octet_pairs [OF lt(2,3)] by blast
qed

text \<open>
  The same for IPv6, with the leading bytes of the base. An address may carry an IPv4 address:
  in its last four bytes (\<open>::ffff:0:0/96\<close> and \<open>64:ff9b::/96\<close>) or behind the prefix \<open>2002::/16\<close>; then
  the IPv4 address decides. Otherwise an address is public inside \<open>2000::/3\<close> and outside the
  reserved networks.
\<close>

definition in_block6 :: "bytes \<Rightarrow> bytes \<times> nat \<Rightarrow> bool" where
  "in_block6 b = (\<lambda>(base, len). take (len div 8) b = take (len div 8) base
     \<and> (len mod 8 \<noteq> 0 \<longrightarrow> drop_bit (8 - len mod 8) (b ! (len div 8)) = drop_bit (8 - len mod 8) (base ! (len div 8))))"

definition special_ipv6 :: "(bytes \<times> nat) list" where
  "special_ipv6 =
     [([0, 0, 0, 0, 0, 0, 0, 0, 0, 0, 0, 0, 0, 0, 0, 0], 128), ([0, 0, 0, 0, 0, 0, 0, 0, 0, 0, 0, 0, 0, 0, 0, 1], 128),
      ([0, 0x64, 0xff, 0x9b], 32), ([0xfc], 7), ([0xfe, 0x80], 10), ([0xff], 8), ([0x20, 0x01, 0], 23),
      ([0x20, 0x01, 0x0d, 0xb8], 32), ([0x3f, 0xf0], 12), ([0x26, 0x20, 0, 0x4f, 0x80, 0], 48)]"

definition embedded_ipv4 :: "bytes \<Rightarrow> u32 option" where
  "embedded_ipv4 b =
     (if in_block6 b ([0, 0, 0, 0, 0, 0, 0, 0, 0, 0, 0xff, 0xff], 96) \<or> in_block6 b ([0, 0x64, 0xff, 0x9b, 0, 0, 0, 0, 0, 0, 0, 0], 96)
      then Some (Ipv4FromBytes (drop 12 b))
      else if in_block6 b ([0x20, 0x02], 16) then Some (Ipv4FromBytes (drop 2 b))
      else None)"

definition public_ipv4 :: "u32 \<Rightarrow> bool" where
  "public_ipv4 a \<longleftrightarrow> \<not> list_ex (in_block4 a) special_ipv4"

definition public_ipv6 :: "bytes \<Rightarrow> bool" where
  "public_ipv6 b \<longleftrightarrow>
     (case embedded_ipv4 b of Some a \<Rightarrow> public_ipv4 a
      | None \<Rightarrow> in_block6 b ([0x20], 3) \<and> \<not> list_ex (in_block6 b) special_ipv6)"

lemma byte_bits_iff: "x = y \<longleftrightarrow> list_all (\<lambda>n. bit x n \<longleftrightarrow> bit (y :: byte) n) [0..<8]"
  using word_bitsI [of x y] by (auto simp: list_all_iff)

lemma byte_masks:
  fixes b :: byte
  shows "b AND 0xfe = 0xfc \<longleftrightarrow> drop_bit 1 b = 0x7e" "b AND 0xc0 = 0x80 \<longleftrightarrow> drop_bit 6 b = 2"
    "b AND 0xfe = 0 \<longleftrightarrow> drop_bit 1 b = 0" "b AND 0xf0 = 0xf0 \<longleftrightarrow> drop_bit 4 b = 0xf" "b AND 0xe0 = 0x20 \<longleftrightarrow> drop_bit 5 b = 1"
  by (simp_all add: byte_bits_iff bitwise_simps) (simp_all add: eval_nat_numeral)

lemma judge_ipv4_public: "judge_ipv4 a = Public \<longleftrightarrow> public_ipv4 a"
  by (simp add: judge_ipv4_def IsBlockedIpv4_special public_ipv4_def)

text \<open>The tests of the code as memberships of networks, and the networks that exclude each other.\<close>

lemma ipv6_tests:
  assumes "length b = 16"
  shows "list_all (\<lambda>x. x = 0) (take 16 b) \<longleftrightarrow> in_block6 b ([0, 0, 0, 0, 0, 0, 0, 0, 0, 0, 0, 0, 0, 0, 0, 0], 128)"
    "list_all (\<lambda>x. x = 0) (take 15 b) \<and> b ! 15 = 1 \<longleftrightarrow> in_block6 b ([0, 0, 0, 0, 0, 0, 0, 0, 0, 0, 0, 0, 0, 0, 0, 1], 128)"
    "list_all (\<lambda>x. x = 0) (take 10 b) \<and> b ! 10 = 0xff \<and> b ! 11 = 0xff \<longleftrightarrow> in_block6 b ([0, 0, 0, 0, 0, 0, 0, 0, 0, 0, 0xff, 0xff], 96)"
    "b ! 0 = 0 \<and> b ! 1 = 0x64 \<and> b ! 2 = 0xff \<and> b ! 3 = 0x9b \<longleftrightarrow> in_block6 b ([0, 0x64, 0xff, 0x9b], 32)"
    "in_block6 b ([0, 0x64, 0xff, 0x9b], 32) \<and> list_all (\<lambda>x. x = 0) (take 8 (drop 4 b)) \<longleftrightarrow>
       in_block6 b ([0, 0x64, 0xff, 0x9b, 0, 0, 0, 0, 0, 0, 0, 0], 96)"
    "b ! 0 = 0x20 \<and> b ! 1 = 0x02 \<longleftrightarrow> in_block6 b ([0x20, 0x02], 16)"
    "b ! 0 AND 0xe0 = 0x20 \<longleftrightarrow> in_block6 b ([0x20], 3)"
    "ipv6_reserved b \<longleftrightarrow> list_ex (in_block6 b) (drop 3 special_ipv6)"
proof -
  obtain b0 b1 b2 b3 b4 b5 b6 b7 b8 b9 b10 b11 b12 b13 b14 b15 where
    b: "b = [b0, b1, b2, b3, b4, b5, b6, b7, b8, b9, b10, b11, b12, b13, b14, b15]"
    using assms by (auto simp: numeral_eq_Suc length_Suc_conv)
  show "ipv6_reserved b \<longleftrightarrow> list_ex (in_block6 b) (drop 3 special_ipv6)"
    unfolding ipv6_reserved_def byte_masks special_ipv6_def b by (simp add: in_block6_def)
  show "b ! 0 AND 0xe0 = 0x20 \<longleftrightarrow> in_block6 b ([0x20], 3)"
    unfolding byte_masks b by (simp add: in_block6_def)
  show "list_all (\<lambda>x. x = 0) (take 16 b) \<longleftrightarrow> in_block6 b ([0, 0, 0, 0, 0, 0, 0, 0, 0, 0, 0, 0, 0, 0, 0, 0], 128)"
    unfolding b by (simp add: in_block6_def)
  show "list_all (\<lambda>x. x = 0) (take 15 b) \<and> b ! 15 = 1 \<longleftrightarrow> in_block6 b ([0, 0, 0, 0, 0, 0, 0, 0, 0, 0, 0, 0, 0, 0, 0, 1], 128)"
    unfolding b by (simp add: in_block6_def)
  show "list_all (\<lambda>x. x = 0) (take 10 b) \<and> b ! 10 = 0xff \<and> b ! 11 = 0xff \<longleftrightarrow> in_block6 b ([0, 0, 0, 0, 0, 0, 0, 0, 0, 0, 0xff, 0xff], 96)"
    unfolding b by (simp add: in_block6_def)
  show "b ! 0 = 0 \<and> b ! 1 = 0x64 \<and> b ! 2 = 0xff \<and> b ! 3 = 0x9b \<longleftrightarrow> in_block6 b ([0, 0x64, 0xff, 0x9b], 32)"
    unfolding b by (simp add: in_block6_def)
  show "in_block6 b ([0, 0x64, 0xff, 0x9b], 32) \<and> list_all (\<lambda>x. x = 0) (take 8 (drop 4 b)) \<longleftrightarrow>
       in_block6 b ([0, 0x64, 0xff, 0x9b, 0, 0, 0, 0, 0, 0, 0, 0], 96)"
    unfolding b by (simp add: in_block6_def)
  show "b ! 0 = 0x20 \<and> b ! 1 = 0x02 \<longleftrightarrow> in_block6 b ([0x20, 0x02], 16)"
    unfolding b by (simp add: in_block6_def)
qed

lemma ipv6_exclusive:
  assumes "length b = 16"
  shows "in_block6 b ([0x20, 0x02], 16) \<Longrightarrow> \<not> in_block6 b ([0, 0x64, 0xff, 0x9b], 32) \<and> \<not> list_ex (in_block6 b) special_ipv6"
    "in_block6 b ([0, 0, 0, 0, 0, 0, 0, 0, 0, 0, 0xff, 0xff], 96) \<Longrightarrow> \<not> in_block6 b ([0, 0x64, 0xff, 0x9b], 32)
       \<and> \<not> list_ex (in_block6 b) (take 2 special_ipv6)"
    "in_block6 b ([0, 0x64, 0xff, 0x9b], 32) \<Longrightarrow> \<not> list_ex (in_block6 b) (take 2 special_ipv6)"
proof -
  obtain b0 b1 b2 b3 b4 b5 b6 b7 b8 b9 b10 b11 b12 b13 b14 b15 where
    b: "b = [b0, b1, b2, b3, b4, b5, b6, b7, b8, b9, b10, b11, b12, b13, b14, b15]"
    using assms by (auto simp: numeral_eq_Suc length_Suc_conv)
  show "\<not> in_block6 b ([0, 0x64, 0xff, 0x9b], 32) \<and> \<not> list_ex (in_block6 b) special_ipv6" if "in_block6 b ([0x20, 0x02], 16)"
    using that unfolding b by (simp add: in_block6_def special_ipv6_def)
  show "\<not> in_block6 b ([0, 0x64, 0xff, 0x9b], 32) \<and> \<not> list_ex (in_block6 b) (take 2 special_ipv6)"
    if "in_block6 b ([0, 0, 0, 0, 0, 0, 0, 0, 0, 0, 0xff, 0xff], 96)"
    using that unfolding b by (simp add: in_block6_def special_ipv6_def)
  show "\<not> list_ex (in_block6 b) (take 2 special_ipv6)" if "in_block6 b ([0, 0x64, 0xff, 0x9b], 32)"
    using that unfolding b by (simp add: in_block6_def special_ipv6_def)
qed

lemma classify_ipv6_public:
  assumes "length b = 16"
  shows "classify_ipv6 b = Public \<longleftrightarrow> public_ipv6 b"
proof -
  let ?unspec = "in_block6 b ([0, 0, 0, 0, 0, 0, 0, 0, 0, 0, 0, 0, 0, 0, 0, 0], 128)"
  let ?loop = "in_block6 b ([0, 0, 0, 0, 0, 0, 0, 0, 0, 0, 0, 0, 0, 0, 0, 1], 128)"
  let ?nat64 = "in_block6 b ([0, 0x64, 0xff, 0x9b], 32)"
  have special: "list_ex (in_block6 b) (take 2 special_ipv6) \<longleftrightarrow> ?unspec \<or> ?loop"
    "list_ex (in_block6 b) special_ipv6 \<longleftrightarrow> ?unspec \<or> ?loop \<or> ?nat64 \<or> list_ex (in_block6 b) (drop 3 special_ipv6)"
    by (simp_all add: special_ipv6_def)
  note excl = ipv6_exclusive [OF assms, unfolded special]
  have "classify_ipv6 b = Public \<longleftrightarrow>
    (if ?unspec \<or> ?loop then False
     else if in_block6 b ([0, 0, 0, 0, 0, 0, 0, 0, 0, 0, 0xff, 0xff], 96) then public_ipv4 (Ipv4FromBytes (drop 12 b))
     else if ?nat64 then in_block6 b ([0, 0x64, 0xff, 0x9b, 0, 0, 0, 0, 0, 0, 0, 0], 96) \<and> public_ipv4 (Ipv4FromBytes (drop 12 b))
     else if list_ex (in_block6 b) (drop 3 special_ipv6) then False
     else if in_block6 b ([0x20, 0x02], 16) then public_ipv4 (Ipv4FromBytes (drop 2 b))
     else in_block6 b ([0x20], 3))"
    unfolding classify_ipv6_def ipv6_tests(1-4,6-8) [OF assms] ipv6_tests(5) [OF assms, symmetric]
    by (simp add: judge_ipv4_public)
  also have "\<dots> \<longleftrightarrow> public_ipv6 b"
    unfolding public_ipv6_def embedded_ipv4_def special using excl ipv6_tests(5) [OF assms] by auto
  finally show ?thesis .
qed

section \<open>What an accepted destination promises\<close>

text \<open>The address a text denotes, by the order in which the code tries the notations.\<close>

definition public_address :: "ip_lib \<Rightarrow> string \<Rightarrow> bool" where
  "public_address L text \<longleftrightarrow>
     (case inet_pton4 L (c_str text) of
        Some a \<Rightarrow> public_ipv4 a
      | None \<Rightarrow> (case ParseLegacyIpv4 text of
          Some a \<Rightarrow> public_ipv4 a
        | None \<Rightarrow> (case inet_pton6 L (c_str text) of None \<Rightarrow> False | Some b \<Rightarrow> public_ipv6 b)))"

lemma IsAllowedPublicAddress_iff:
  assumes "\<And>text b. inet_pton6 L text = Some b \<Longrightarrow> length b = 16"
  shows "IsAllowedPublicAddress L text \<longleftrightarrow> public_address L text"
  using assms by (auto simp: IsAllowedPublicAddress_def ClassifyIpAddress_def public_address_def judge_ipv4_public
      classify_ipv6_public split: option.splits)

text \<open>
  C13. The guard against requests to local networks is exact. Outside the test mode, a URL is
  accepted if and only if it is a well-formed HTTP or HTTPS URL whose host is not a local or
  metadata name and which is either a literal of a public address or a syntactically valid name
  that resolves to at least one address and only to public ones; and the accepted addresses are
  then public. Public means outside every reserved IPv4 and IPv6 network, where an IPv6 address
  that carries an IPv4 address is judged by the latter.
\<close>

theorem destination_guard_exact:
  assumes "\<And>text b. inet_pton6 L text = Some b \<Longrightarrow> length b = 16"
  shows "(hd_allowed (CheckDestination L url resolver False) \<longleftrightarrow>
      du_valid (ParseDestinationUrl url) \<and> \<not> IsBlockedHostname (du_host (ParseDestinationUrl url))
      \<and> (public_address L (du_host (ParseDestinationUrl url))
         \<or> ClassifyIpAddress L (du_host (ParseDestinationUrl url)) = NotAnIp
           \<and> list_all (\<lambda>c. isalnum c \<or> c = CHR ''.'' \<or> c = CHR ''-'') (du_host (ParseDestinationUrl url))
           \<and> (\<exists>f. resolver = Some f \<and> f (du_host (ParseDestinationUrl url)) \<noteq> []
                \<and> (\<forall>a \<in> set (f (du_host (ParseDestinationUrl url))). public_address L a))))
    \<and> (hd_allowed (CheckDestination L url resolver False) \<longrightarrow>
        hd_resolved_addresses (CheckDestination L url resolver False) \<noteq> []
        \<and> (\<forall>a \<in> set (hd_resolved_addresses (CheckDestination L url resolver False)). public_address L a))"
proof -
  let ?h = "du_host (ParseDestinationUrl url)"
  have pub: "IsAllowedPublicAddress L t \<longleftrightarrow> public_address L t" for t
    by (rule IsAllowedPublicAddress_iff) (rule assms)
  have lit: "ClassifyIpAddress L ?h = Public \<longleftrightarrow> public_address L ?h"
    using pub by (simp add: IsAllowedPublicAddress_def)
  show ?thesis
    by (cases "ClassifyIpAddress L ?h")
      (use lit in \<open>auto simp: CheckDestination_def denied_def allowed_def Let_def list_all_iff pub split: option.splits\<close>)
qed

text \<open>A literal parser that knows one address of each kind, and a resolver that answers with both.\<close>

definition sample_ip_lib :: ip_lib where
  "sample_ip_lib =
     \<lparr>inet_pton4 = (\<lambda>text. if text = ''93.184.216.34'' then Some 0x5DB8D822 else None),
      inet_pton6 = (\<lambda>text. if text = ''2002:5db8:d822::'' then Some [0x20, 0x02, 0x5d, 0xb8, 0xd8, 0x22, 0, 0, 0, 0, 0, 0, 0, 0, 0, 0]
        else None)\<rparr>"

definition sample_resolver :: "string \<Rightarrow> string list" where
  "sample_resolver host = (if host = ''ocsp.example.ua'' then [''93.184.216.34'', ''2002:5db8:d822::''] else [])"

theorem destination_guard_exact_witness:
  "hd_allowed (CheckDestination sample_ip_lib ''http://OCSP.example.ua:8080/a'' (Some sample_resolver) False)
   \<and> public_address sample_ip_lib ''93.184.216.34'' \<and> public_address sample_ip_lib ''2002:5db8:d822::''"
proof -
  let ?r = "CheckDestination sample_ip_lib ''http://OCSP.example.ua:8080/a'' (Some sample_resolver) False"
  have law: "length b = 16" if "inet_pton6 sample_ip_lib t = Some b" for t b
    using that by (auto simp: sample_ip_lib_def split: if_splits)
  have run: "hd_allowed ?r" "hd_resolved_addresses ?r = [''93.184.216.34'', ''2002:5db8:d822::'']" by code_simp+
  show ?thesis
    using destination_guard_exact [of sample_ip_lib "''http://OCSP.example.ua:8080/a''" "Some sample_resolver", OF law] run by simp
qed

section \<open>Accepted URLs\<close>

lemma find_first_of_None: "find_first_of cs s = None \<longleftrightarrow> set cs \<inter> set s = {}"
  by (auto simp: find_first_of_def find_index_None_iff)

lemma LowerAscii_no_upper: "c \<in> set (LowerAscii s) \<Longrightarrow> \<not> isupper c"
  by (auto simp: LowerAscii_def)

lemma ParseDestinationUrl_valid:
  assumes "du_valid (ParseDestinationUrl url)"
  shows "du_scheme (ParseDestinationUrl url) \<in> {''http'', ''https''}" "du_host (ParseDestinationUrl url) \<noteq> []"
    "c \<in> set (du_host (ParseDestinationUrl url)) \<Longrightarrow> \<not> isupper c" "url \<noteq> []"
    "c \<in> set url \<Longrightarrow> c \<noteq> CHR 0x0D \<and> c \<noteq> CHR 0x0A \<and> c \<noteq> CHR '' ''"
proof -
  have url: "url \<noteq> []" "find_first_of [CHR 0x0D, CHR 0x0A, CHR 0x09, CHR '' ''] url = None"
    using assms by (auto simp: ParseDestinationUrl_def default_url_def split: if_splits)
  obtain k where k: "str_find ''://'' url = Some k"
    using assms url by (cases "str_find ''://'' url") (auto simp: ParseDestinationUrl_def default_url_def)
  let ?rest = "drop (k + 3) url"
  let ?auth = "case find_first_of ''/?#'' ?rest of None \<Rightarrow> ?rest | Some j \<Rightarrow> take j ?rest"
  obtain h p where auth: "split_authority ?auth = Host h p"
    using assms url k by (cases "split_authority ?auth") (auto simp: ParseDestinationUrl_def default_url_def Let_def split: if_splits)
  show "du_scheme (ParseDestinationUrl url) \<in> {''http'', ''https''}" "du_host (ParseDestinationUrl url) \<noteq> []"
    using assms url k auth by (auto simp: ParseDestinationUrl_def default_url_def Let_def split: if_splits)
  show "\<not> isupper c" if "c \<in> set (du_host (ParseDestinationUrl url))"
    using assms url k auth that
    by (auto simp: ParseDestinationUrl_def default_url_def Let_def dest: in_set_butlastD LowerAscii_no_upper split: if_splits)
  show "url \<noteq> []" by (rule url)
  show "c \<noteq> CHR 0x0D \<and> c \<noteq> CHR 0x0A \<and> c \<noteq> CHR '' ''" if "c \<in> set url"
    using url(2) that unfolding find_first_of_None by auto
qed

end
