(* ===== verification/Http_Syntax.thy ===== *)
theory Http_Syntax
  imports Http_Policy
begin

text \<open>
  \<open>core/net/HttpMessageSyntax.{h,cpp}\<close>: the value of a response header and the URL a redirect
  leads to. Out-parameters are results; \<open>std::string::npos\<close> is \<open>None\<close>.
\<close>

section \<open>Headers\<close>

text \<open>The lines \<open>std::getline\<close> reads: the part after the last line feed is one only if it is not empty.\<close>

function getlines :: "string \<Rightarrow> string list" where
  "getlines s = (if s = [] then []
     else takeWhile (\<lambda>c. c \<noteq> CHR 0x0A) s # getlines (drop 1 (dropWhile (\<lambda>c. c \<noteq> CHR 0x0A) s)))"
  by pat_completeness auto
termination
proof (relation "measure length")
  show "(drop 1 (dropWhile (\<lambda>c. c \<noteq> CHR 0x0A) s), s) \<in> measure length" if "s \<noteq> []" for s :: string
    using that length_dropWhile_le [of "\<lambda>c. c \<noteq> CHR 0x0A" s] by (cases s) (auto simp: le_imp_less_Suc)
qed simp

declare getlines.simps [simp del]

definition header_line :: "string \<Rightarrow> string \<Rightarrow> string option" where
  "header_line name line =
     (let line = (if line \<noteq> [] \<and> last line = CHR 0x0D then butlast line else line)
      in case find_char (CHR '':'') line of
           None \<Rightarrow> None
         | Some colon \<Rightarrow>
             if LowerAscii (take colon line) \<noteq> name then None
             else Some (rev (dropWhile isspace (rev (dropWhile isspace (drop (colon + 1) line))))))"

definition ResponseHeaderValue :: "string \<Rightarrow> string \<Rightarrow> string" where
  "ResponseHeaderValue headers requested_name =
     (case List.map_filter (header_line (LowerAscii requested_name)) (getlines headers) of [] \<Rightarrow> [] | v # _ \<Rightarrow> v)"

section \<open>Redirects\<close>

text \<open>The end of the first path segment: the first slash behind the leading one.\<close>

definition segment_end :: "string \<Rightarrow> nat option" where
  "segment_end input =
     (case input of
        c # rest \<Rightarrow> if c = CHR ''/'' then map_option Suc (find_char (CHR ''/'') rest) else find_char (CHR ''/'') input
      | [] \<Rightarrow> None)"

definition drop_last_segment :: "string \<Rightarrow> string" where
  "drop_last_segment output = (case rfind_char (CHR ''/'') output of None \<Rightarrow> [] | Some slash \<Rightarrow> take slash output)"

lemma segment_end_pos: "segment_end input = Some k \<Longrightarrow> 0 < k \<and> k < length input"
  by (cases input) (auto simp: segment_end_def find_char_def dest: find_index_SomeD(1) split: if_splits)

function remove_dots :: "string \<Rightarrow> string \<Rightarrow> string" where
  "remove_dots input output =
     (if input = [] then output
      else if prefix ''../'' input then remove_dots (drop 3 input) output
      else if prefix ''./'' input then remove_dots (drop 2 input) output
      else if prefix ''/./'' input then remove_dots (''/'' @ drop 3 input) output
      else if input = ''/.'' then remove_dots ''/'' output
      else if prefix ''/../'' input \<or> input = ''/..'' then
        remove_dots (if input = ''/..'' then ''/'' else ''/'' @ drop 4 input) (drop_last_segment output)
      else if input = ''.'' \<or> input = ''..'' then output
      else case segment_end input of
        None \<Rightarrow> output @ input
      | Some next \<Rightarrow> remove_dots (drop next input) (output @ take next input))"
  by pat_completeness auto
termination
  by (relation "measure (\<lambda>(input, output). length input)")
    (auto simp: prefix_def dest: segment_end_pos)

declare remove_dots.simps [simp del]

definition RemoveDotSegments :: "string \<Rightarrow> string" where
  "RemoveDotSegments input = remove_dots input []"

definition SplitRefPath :: "string \<Rightarrow> string \<times> string" where
  "SplitRefPath ref = (case find_first_of ''?#'' ref of None \<Rightarrow> (ref, []) | Some pos \<Rightarrow> (take pos ref, drop pos ref))"

text \<open>The path and the query of the base, from what follows its authority.\<close>

definition base_parts :: "string \<Rightarrow> string \<times> string" where
  "base_parts rest =
     (let rest_no_fragment = (case find_char (CHR ''#'') rest of None \<Rightarrow> rest | Some k \<Rightarrow> take k rest);
          (path, query) = (case find_char (CHR ''?'') rest_no_fragment of
             None \<Rightarrow> (rest_no_fragment, []) | Some k \<Rightarrow> (take k rest_no_fragment, drop k rest_no_fragment))
      in (if path = [] then ''/'' else path, query))"

definition is_absolute :: "string \<Rightarrow> bool" where
  "is_absolute location \<longleftrightarrow> prefix ''http://'' (LowerAscii location) \<or> prefix ''https://'' (LowerAscii location)"

definition merge_path :: "string \<Rightarrow> string \<Rightarrow> string" where
  "merge_path base_path ref_path =
     (case rfind_char (CHR ''/'') base_path of None \<Rightarrow> ''/'' | Some slash \<Rightarrow> take (slash + 1) base_path) @ ref_path"

text \<open>A failure is the empty string, as in the source.\<close>

definition ResolveHttpRedirectUrl :: "string \<Rightarrow> string \<Rightarrow> string" where
  "ResolveHttpRedirectUrl base location =
     (if location = [] then []
      else if is_absolute location then location
      else case str_find ''://'' base of
        None \<Rightarrow> []
      | Some scheme_end \<Rightarrow>
          if scheme_end = 0 then []
          else
            let after = drop (scheme_end + 3) base;
                authority_len = (case find_first_of ''/?#'' after of None \<Rightarrow> length after | Some k \<Rightarrow> k);
                scheme = take scheme_end base;
                origin = take (scheme_end + 3 + authority_len) base;
                (base_path, base_query) = base_parts (drop authority_len after)
            in if find_first_of ''/?#'' after = Some 0 then []
               else if prefix ''//'' location then
                 (let (path, tail) = SplitRefPath (drop 2 location);
                      authority = (case find_char (CHR ''/'') path of None \<Rightarrow> path | Some k \<Rightarrow> take k path);
                      ref_path = (case find_char (CHR ''/'') path of None \<Rightarrow> [] | Some k \<Rightarrow> drop k path)
                  in if authority = [] then []
                     else scheme @ ''://'' @ authority @ RemoveDotSegments ref_path @ tail)
               else if hd location = CHR ''#'' then origin @ base_path @ base_query @ location
               else if hd location = CHR ''?'' then origin @ base_path @ location
               else
                 let (ref_path, tail) = SplitRefPath location
                 in if hd location = CHR ''/'' then origin @ RemoveDotSegments ref_path @ tail
                    else origin @ RemoveDotSegments (merge_path base_path ref_path) @ tail)"

definition IsRedirectStatus :: "int \<Rightarrow> bool" where
  "IsRedirectStatus status \<longleftrightarrow> status = 301 \<or> status = 302 \<or> status = 303 \<or> status = 307 \<or> status = 308"

section \<open>Path segments\<close>

lemma find_char_SomeD:
  assumes "find_char c s = Some k"
  shows "s = take k s @ c # drop (Suc k) s" "c \<notin> set (take k s)"
  using find_index_SomeD [OF assms [unfolded find_char_def]]
  by (auto simp: id_take_nth_drop in_set_conv_nth)

lemma find_char_NoneD: "find_char c s = None \<Longrightarrow> c \<notin> set s"
  by (auto simp: find_char_def find_index_None_iff)

lemma rfind_char_SomeD:
  assumes "rfind_char c s = Some k"
  shows "s = take k s @ c # drop (Suc k) s"
proof -
  obtain j where j: "find_char c (rev s) = Some j" and k: "k = length s - 1 - j"
    using assms by (auto simp: rfind_char_def)
  note f = find_index_SomeD(1,2) [OF j [unfolded find_char_def]]
  have "k < length s" "s ! k = c" using f k by (simp_all add: rev_nth)
  then show ?thesis by (metis id_take_nth_drop)
qed

fun path_segments :: "string \<Rightarrow> string list" where
  "path_segments [] = [[]]"
| "path_segments (c # s) =
     (if c = CHR ''/'' then [] # path_segments s
      else case path_segments s of x # xs \<Rightarrow> (c # x) # xs | [] \<Rightarrow> [[c]])"

definition no_dot_segment :: "string \<Rightarrow> bool" where
  "no_dot_segment s \<longleftrightarrow> ''.'' \<notin> set (path_segments s) \<and> ''..'' \<notin> set (path_segments s)"

lemma path_segments_nonempty [simp]: "path_segments s \<noteq> []"
  by (induction s) (auto split: list.splits)

lemma path_segments_append: "path_segments (a @ CHR ''/'' # b) = path_segments a @ path_segments b"
  by (induction a) (auto split: list.splits)

lemma path_segments_single: "CHR ''/'' \<notin> set s \<Longrightarrow> path_segments s = [s]"
  by (induction s) auto

lemma drop_last_segment_clean: "no_dot_segment output \<Longrightarrow> no_dot_segment (drop_last_segment output)"
proof (cases "rfind_char (CHR ''/'') output")
  case (Some k)
  assume "no_dot_segment output"
  then show ?thesis
    using rfind_char_SomeD [OF Some] Some path_segments_append [of "take k output" "drop (Suc k) output"]
    by (auto simp: no_dot_segment_def drop_last_segment_def)
qed (simp add: drop_last_segment_def no_dot_segment_def)

text \<open>The shape of the piece the loop moves to the output.\<close>

lemma find_char_split:
  assumes "find_char c s = Some k"
  obtains u v where "s = u @ c # v" "c \<notin> set u" "k = length u"
proof
  note f = find_index_SomeD(1) [OF assms [unfolded find_char_def]]
  show "s = take k s @ c # drop (Suc k) s" "c \<notin> set (take k s)" by (rule find_char_SomeD [OF assms])+
  show "k = length (take k s)" using f by simp
qed

lemma segment_end_Some:
  assumes "segment_end input = Some k"
  shows "\<exists>seg rest. CHR ''/'' \<notin> set seg \<and> drop k input = CHR ''/'' # rest
    \<and> (take k input = CHR ''/'' # seg \<and> input = CHR ''/'' # seg @ CHR ''/'' # rest
       \<or> take k input = seg \<and> input = seg @ CHR ''/'' # rest)"
proof (cases input)
  case (Cons c rest)
  show ?thesis
  proof (cases "c = CHR ''/''")
    case True
    then obtain j where j: "find_char (CHR ''/'') rest = Some j" "k = Suc j"
      using assms Cons by (auto simp: segment_end_def)
    from j(1) obtain u v where "rest = u @ CHR ''/'' # v" "CHR ''/'' \<notin> set u" "j = length u" by (rule find_char_split)
    then show ?thesis using True Cons j(2) by auto
  next
    case False
    then have "find_char (CHR ''/'') input = Some k" using assms Cons by (auto simp: segment_end_def)
    then obtain u v where "input = u @ CHR ''/'' # v" "CHR ''/'' \<notin> set u" "k = length u" by (rule find_char_split)
    then show ?thesis by auto
  qed
qed (use assms in \<open>simp add: segment_end_def\<close>)

lemma segment_end_None:
  assumes "segment_end input = None" "input \<noteq> []"
  shows "\<exists>seg. CHR ''/'' \<notin> set seg \<and> (input = CHR ''/'' # seg \<or> input = seg)"
proof (cases input)
  case (Cons c rest)
  then show ?thesis
    using assms find_char_NoneD [of "CHR ''/''" rest] find_char_NoneD [of "CHR ''/''" input]
    by (cases "c = CHR ''/''") (auto simp: segment_end_def)
qed (use assms in simp)

lemma no_dot_segment_append_slash:
  "no_dot_segment output \<Longrightarrow> CHR ''/'' \<notin> set seg \<Longrightarrow> seg \<noteq> ''.'' \<Longrightarrow> seg \<noteq> ''..'' \<Longrightarrow> no_dot_segment (output @ CHR ''/'' # seg)"
  by (auto simp: no_dot_segment_def path_segments_append path_segments_single)

lemma no_dot_segment_single:
  "CHR ''/'' \<notin> set seg \<Longrightarrow> seg \<noteq> ''.'' \<Longrightarrow> seg \<noteq> ''..'' \<Longrightarrow> no_dot_segment seg"
  by (simp add: no_dot_segment_def path_segments_single)

lemma remove_dots_clean:
  "no_dot_segment output \<Longrightarrow> output = [] \<or> input = [] \<or> hd input = CHR ''/'' \<Longrightarrow> no_dot_segment (remove_dots input output)"
proof (induction input "output" rule: remove_dots.induct)
  case (1 input "output")
  consider "input = []" | "prefix ''../'' input" | "prefix ''./'' input" | "prefix ''/./'' input" | "input = ''/.''"
    | "prefix ''/../'' input \<or> input = ''/..''" | "input = ''.'' \<or> input = ''..''"
    | (seg) "input \<noteq> []" "\<not> prefix ''../'' input" "\<not> prefix ''./'' input" "\<not> prefix ''/./'' input" "input \<noteq> ''/.''"
        "\<not> (prefix ''/../'' input \<or> input = ''/..'')" "\<not> (input = ''.'' \<or> input = ''..'')"
    by blast
  then show ?case
  proof cases
    case seg
    show ?thesis
    proof (cases "segment_end input")
      case None
      then obtain x where x: "CHR ''/'' \<notin> set x" "input = CHR ''/'' # x \<or> input = x" using segment_end_None seg(1) by blast
      have "remove_dots input output = output @ input" using seg None by (simp add: remove_dots.simps [of input])
      moreover have "no_dot_segment (output @ input)"
        using x "1.prems" seg no_dot_segment_append_slash [OF "1.prems"(1) x(1)] no_dot_segment_single [OF x(1)] by (cases input) auto
      ultimately show ?thesis by simp
    next
      case (Some k)
      obtain x rest where x: "CHR ''/'' \<notin> set x" "drop k input = CHR ''/'' # rest"
        "take k input = CHR ''/'' # x \<and> input = CHR ''/'' # x @ CHR ''/'' # rest \<or> take k input = x \<and> input = x @ CHR ''/'' # rest"
        using segment_end_Some [OF Some] by blast
      have "no_dot_segment (output @ take k input)" using x(3)
      proof (elim disjE conjE)
        assume "take k input = CHR ''/'' # x" "input = CHR ''/'' # x @ CHR ''/'' # rest"
        moreover from this have "x \<noteq> ''.''" "x \<noteq> ''..''" using seg(4,6) by auto
        ultimately show ?thesis using no_dot_segment_append_slash [OF "1.prems"(1) x(1)] by simp
      next
        assume t: "take k input = x" "input = x @ CHR ''/'' # rest"
        then have "x \<noteq> ''.''" "x \<noteq> ''..''" using seg(2,3) by auto
        moreover have "x \<noteq> []" using t(1) segment_end_pos [OF Some] by auto
        then have "output = []" using t(2) x(1) "1.prems"(2) by (cases x) auto
        ultimately show ?thesis using no_dot_segment_single [OF x(1)] t(1) by simp
      qed
      then show ?thesis
        using "1.IH"(6) [OF seg Some] x(2) seg Some by (simp add: remove_dots.simps [of input])
    qed
  qed (use "1.prems" "1.IH"(1-5) in \<open>auto simp: remove_dots.simps [of input] remove_dots.simps [of "[]"]
      remove_dots.simps [of "''/.''"] prefix_def drop_last_segment_clean split: if_splits\<close>)
qed

text \<open>A rooted path stays rooted, and no character is invented.\<close>

lemma drop_last_segment_rooted:
  "output = [] \<or> hd output = CHR ''/'' \<Longrightarrow> drop_last_segment output = [] \<or> hd (drop_last_segment output) = CHR ''/''"
  by (cases "output") (auto simp: drop_last_segment_def take_Cons split: option.splits nat.splits)

lemma segment_end_rooted: "segment_end input = Some k \<Longrightarrow> hd (drop k input) = CHR ''/''"
  using segment_end_Some by fastforce

lemma set_drop_last_segment: "set (drop_last_segment output) \<subseteq> set output"
  by (auto simp: drop_last_segment_def dest: in_set_takeD split: option.splits)

text \<open>An invariant of the loop's two variables, kept by each kind of turn, holds at its end.\<close>

lemma remove_dots_invariant:
  assumes "keep input output"
    and "\<And>i r. keep i r \<Longrightarrow> prefix ''../'' i \<Longrightarrow> keep (drop 3 i) r"
    and "\<And>i r. keep i r \<Longrightarrow> prefix ''./'' i \<Longrightarrow> keep (drop 2 i) r"
    and "\<And>i r. keep i r \<Longrightarrow> prefix ''/.'' i \<Longrightarrow> keep (CHR ''/'' # drop 3 i) r"
    and "\<And>i r. keep i r \<Longrightarrow> prefix ''/..'' i \<Longrightarrow> keep (CHR ''/'' # drop 4 i) (drop_last_segment r)"
    and "\<And>i r k. keep i r \<Longrightarrow> segment_end i = Some k \<Longrightarrow> keep (drop k i) (r @ take k i)"
    and "\<And>i r. keep i r \<Longrightarrow> post r" and "\<And>i r. keep i r \<Longrightarrow> post (r @ i)"
  shows "post (remove_dots input output)"
  using assms(1)
proof (induction input "output" rule: remove_dots.induct)
  case (1 input "output")
  have steps: "input = ''/.'' \<Longrightarrow> keep ''/'' output" "input = ''/..'' \<Longrightarrow> keep ''/'' (drop_last_segment output)"
    using assms(4,5) [OF "1.prems"] by auto
  have "prefix ''/./'' input \<Longrightarrow> prefix ''/.'' input" "prefix ''/../'' input \<Longrightarrow> prefix ''/..'' input"
    by (auto simp: prefix_def)
  moreover have "input = ''/..'' \<Longrightarrow> post (remove_dots ''/'' (drop_last_segment output))"
    using "1.IH"(5) steps(2) by simp
  ultimately show ?case
    using "1.IH" steps assms(2-6) [OF "1.prems"] assms(7,8) [OF "1.prems"]
    by (subst remove_dots.simps) (simp split: option.split)
qed

lemma remove_dots_rooted:
  assumes "input = [] \<or> hd input = CHR ''/''" "output = [] \<or> hd output = CHR ''/''"
  shows "remove_dots input output = [] \<or> hd (remove_dots input output) = CHR ''/''"
proof (rule remove_dots_invariant
    [where keep = "\<lambda>i r. (i = [] \<or> hd i = CHR ''/'') \<and> (r = [] \<or> hd r = CHR ''/'')"], goal_cases)
  case (5 i r)
  then show ?case using drop_last_segment_rooted by simp
next
  case (6 i r k)
  then show ?case using segment_end_rooted [OF 6(2)] segment_end_pos [OF 6(2)] by (cases r; cases i; cases k) auto
next
  case (8 i r)
  then show ?case by (cases r) auto
qed (use assms in \<open>auto simp: prefix_def\<close>)

lemma set_remove_dots: "set (remove_dots input output) \<subseteq> insert (CHR ''/'') (set input \<union> set output)"
proof (rule remove_dots_invariant
    [where keep = "\<lambda>i r. set i \<union> set r \<subseteq> insert (CHR ''/'') (set input \<union> set output)"], goal_cases)
  case (5 i r)
  then show ?case using set_drop_last_segment [of r] by (auto dest: in_set_dropD)
qed (auto dest: in_set_dropD in_set_takeD)

section \<open>The origin of a relative redirect\<close>

lemma str_find_append:
  "str_find p (a @ b) = Some k \<Longrightarrow> p \<noteq> [] \<Longrightarrow> k + length p \<le> length a \<Longrightarrow> str_find p (a @ c) = Some k"
proof (induction a arbitrary: k)
  case (Cons x a)
  have "prefix p (x # a @ t) \<longleftrightarrow> prefix p (x # a)" if "length p \<le> length (x # a)" for t
    using that by (metis append_Cons prefix_length_prefix prefixI prefix_order.trans)
  then show ?case using Cons by (cases k) (auto split: if_splits)
qed (auto split: if_splits)

lemma str_find_SomeD: "str_find p s = Some k \<Longrightarrow> prefix p (drop k s)"
  by (induction s arbitrary: k) (auto split: if_splits)

text \<open>Scheme and authority, up to the first of \<open>/\<close>, \<open>?\<close> and \<open>#\<close>.\<close>

definition url_origin :: "string \<Rightarrow> string" where
  "url_origin url =
     (case str_find ''://'' url of
        None \<Rightarrow> []
      | Some k \<Rightarrow> take (k + 3) url @ takeWhile (\<lambda>c. c \<notin> set ''/?#'') (drop (k + 3) url))"

lemma find_index_takeWhile:
  "(case find_index P xs of None \<Rightarrow> xs | Some k \<Rightarrow> take k xs) = takeWhile (\<lambda>x. \<not> P x) xs"
  "(case find_index P xs of None \<Rightarrow> length xs | Some k \<Rightarrow> k) = length (takeWhile (\<lambda>x. \<not> P x) xs)"
  by (induction xs) (auto split: option.splits)

lemma takeWhile_stop: "q = [] \<or> \<not> P (hd q) \<Longrightarrow> takeWhile P (takeWhile P xs @ q) = takeWhile P xs"
  by (induction xs; cases q) (auto dest: set_takeWhileD)

lemma take_length_takeWhile [simp]: "take (length (takeWhile P xs)) xs = takeWhile P xs"
  by (metis takeWhile_eq_take)

text \<open>The guard sees nothing of a URL but its origin and which characters it has.\<close>

lemma ParseDestinationUrl_origin:
  assumes base: "str_find ''://'' base = Some k" and no: "find_first_of [CHR 0x0D, CHR 0x0A, CHR 0x09, CHR '' ''] base = None"
    and q: "q = [] \<or> hd q \<in> set ''/?#''" "find_first_of [CHR 0x0D, CHR 0x0A, CHR 0x09, CHR '' ''] q = None"
  shows "ParseDestinationUrl (url_origin base @ q) = ParseDestinationUrl base"
proof -
  define u where "u = url_origin base @ q"
  define auth where "auth = takeWhile (\<lambda>c. c \<notin> set ''/?#'') (drop (k + 3) base)"
  have len: "k + 3 \<le> length base" using str_find_SomeD [OF base] by (cases "drop k base") (auto simp: prefix_def dest: arg_cong [of _ _ length])
  have u: "u = take (k + 3) base @ auth @ q" using base by (simp add: u_def url_origin_def auth_def)
  have split: "base = take (k + 3) base @ drop (k + 3) base" by simp
  have find: "str_find ''://'' u = Some k"
    unfolding u by (rule str_find_append [of _ _ "drop (k + 3) base"]) (use base len in simp_all)
  have auth: "takeWhile (\<lambda>c. c \<notin> set ''/?#'') (drop (k + 3) u) = takeWhile (\<lambda>c. c \<notin> set ''/?#'') (drop (k + 3) base)"
    using q(1) len takeWhile_stop [of q "\<lambda>c. c \<notin> set ''/?#''" "drop (k + 3) base"] unfolding auth_def [symmetric]
    by (simp only: u drop_append) simp
  have scheme: "take k u = take k base" using len by (simp add: u min_def)
  have chars: "find_first_of [CHR 0x0D, CHR 0x0A, CHR 0x09, CHR '' ''] u = None"
    using no q(2) by (auto simp: find_first_of_None u auth_def dest: in_set_takeD in_set_dropD set_takeWhileD)
  have nonempty: "(u = []) = False" "(base = []) = False" using len by (auto simp: u)
  have "ParseDestinationUrl u = ParseDestinationUrl base"
    unfolding ParseDestinationUrl_def find_first_of_def [of "''/?#''"] find_index_takeWhile(1)
    by (simp only: nonempty chars no find base option.simps(5) scheme Let_def auth)
  then show ?thesis by (simp add: u_def)
qed

lemma ParseDestinationUrl_shape:
  assumes "du_valid (ParseDestinationUrl url)"
  obtains k where "str_find ''://'' url = Some k" "0 < k" "find_first_of ''/?#'' (drop (k + 3) url) \<noteq> Some 0"
    "find_first_of [CHR 0x0D, CHR 0x0A, CHR 0x09, CHR '' ''] url = None"
proof -
  have url: "url \<noteq> []" "find_first_of [CHR 0x0D, CHR 0x0A, CHR 0x09, CHR '' ''] url = None"
    using assms by (auto simp: ParseDestinationUrl_def default_url_def split: if_splits)
  obtain k where k: "str_find ''://'' url = Some k"
    using assms url by (cases "str_find ''://'' url") (auto simp: ParseDestinationUrl_def default_url_def)
  have "k \<noteq> 0"
  proof
    assume "k = 0"
    then show False using assms url k by (simp add: ParseDestinationUrl_def default_url_def LowerAscii_def)
  qed
  moreover have "find_first_of ''/?#'' (drop (k + 3) url) \<noteq> Some 0"
    using assms url k by (auto simp: ParseDestinationUrl_def default_url_def Let_def split: if_splits)
  ultimately show ?thesis using that [OF k] url(2) by simp
qed

text \<open>A cut at the first of some characters: the rest starts with one of them or is empty.\<close>

lemma find_index_dropWhile:
  "(case find_index P xs of None \<Rightarrow> [] | Some k \<Rightarrow> drop k xs) = dropWhile (\<lambda>x. \<not> P x) xs"
  by (induction xs) (auto split: option.splits)

lemma cut_at:
  "(case find_index P xs of None \<Rightarrow> (xs, []) | Some k \<Rightarrow> (take k xs, drop k xs))
     = (takeWhile (\<lambda>x. \<not> P x) xs, dropWhile (\<lambda>x. \<not> P x) xs)"
  using find_index_takeWhile(1) [where P = P and xs = xs] find_index_dropWhile [where P = P and xs = xs] by (cases "find_index P xs") auto

lemma dropWhile_stop: "dropWhile (\<lambda>x. \<not> P x) xs = [] \<or> P (hd (dropWhile (\<lambda>x. \<not> P x) xs))"
  by (induction xs) auto

lemma takeWhile_start: "takeWhile P xs = [] \<or> hd (takeWhile P xs) = hd xs"
  by (cases xs) auto

lemma SplitRefPath_eq:
  "SplitRefPath ref = (takeWhile (\<lambda>c. c \<notin> set ''?#'') ref, dropWhile (\<lambda>c. c \<notin> set ''?#'') ref)"
  unfolding SplitRefPath_def find_first_of_def cut_at ..

lemma base_parts_eq:
  "base_parts rest = (let r = takeWhile (\<lambda>c. c \<noteq> CHR ''#'') rest; p = takeWhile (\<lambda>c. c \<noteq> CHR ''?'') r
     in (if p = [] then ''/'' else p, dropWhile (\<lambda>c. c \<noteq> CHR ''?'') r))"
  unfolding base_parts_def find_char_def find_index_takeWhile(1) cut_at Let_def by simp

lemma base_parts_shape:
  assumes "rest = [] \<or> hd rest \<in> set ''/?#''" "base_parts rest = (path, query)"
  shows "path \<noteq> []" "hd path = CHR ''/''" "query = [] \<or> hd query = CHR ''?''"
    "set path \<union> set query \<subseteq> insert (CHR ''/'') (set rest)"
proof -
  let ?r = "takeWhile (\<lambda>c. c \<noteq> CHR ''#'') rest"
  have p: "path = (if takeWhile (\<lambda>c. c \<noteq> CHR ''?'') ?r = [] then ''/'' else takeWhile (\<lambda>c. c \<noteq> CHR ''?'') ?r)"
    and q: "query = dropWhile (\<lambda>c. c \<noteq> CHR ''?'') ?r"
    using assms(2) unfolding base_parts_eq Let_def by simp_all
  show "path \<noteq> []" using p by auto
  show "hd path = CHR ''/''" using p assms(1) by (cases rest) auto
  show "query = [] \<or> hd query = CHR ''?''" unfolding q by (rule dropWhile_stop [of "\<lambda>c. c = CHR ''?''"])
  show "set path \<union> set query \<subseteq> insert (CHR ''/'') (set rest)"
    unfolding p q by (auto dest: set_takeWhileD set_dropWhileD)
qed

lemma merge_path_shape:
  assumes "path \<noteq> []" "hd path = CHR ''/''"
  shows "hd (merge_path path ref) = CHR ''/''" "set (merge_path path ref) \<subseteq> insert (CHR ''/'') (set path \<union> set ref)"
  using assms by (cases path; auto simp: merge_path_def dest: in_set_takeD split: option.splits)+

lemma RemoveDotSegments_shape:
  assumes "path = [] \<or> hd path = CHR ''/''"
  shows "RemoveDotSegments path = [] \<or> hd (RemoveDotSegments path) = CHR ''/''"
    "no_dot_segment (RemoveDotSegments path)" "set (RemoveDotSegments path) \<subseteq> insert (CHR ''/'') (set path)"
  using remove_dots_rooted [of path "[]"] remove_dots_clean [of "[]" path] set_remove_dots [of path "[]"] assms
  by (simp_all add: RemoveDotSegments_def no_dot_segment_def)

lemma resolve_relative:
  assumes base: "str_find ''://'' base = Some k" "0 < k" "find_first_of ''/?#'' (drop (k + 3) base) \<noteq> Some 0"
    and location: "location \<noteq> []" "\<not> is_absolute location" "\<not> prefix ''//'' location"
  obtains path tail where "ResolveHttpRedirectUrl base location = url_origin base @ path @ tail"
    "path = [] \<or> hd path = CHR ''/''" "tail = [] \<or> hd tail \<in> set ''?#''"
    "hd location \<notin> set ''?#'' \<longrightarrow> no_dot_segment path"
    "set path \<union> set tail \<subseteq> insert (CHR ''/'') (set base \<union> set location)"
proof -
  define rest where "rest = dropWhile (\<lambda>c. c \<notin> set ''/?#'') (drop (k + 3) base)"
  obtain bp bq where parts: "base_parts rest = (bp, bq)" by force
  have "rest = [] \<or> hd rest \<in> set ''/?#''" unfolding rest_def by (rule dropWhile_stop)
  note bp = base_parts_shape [OF this parts]
  have in_rest: "set rest \<subseteq> set base" by (auto simp: rest_def dest: set_dropWhileD in_set_dropD)
  obtain rp tail where ref: "SplitRefPath location = (rp, tail)" by force
  have rp: "rp = [] \<or> hd rp = hd location" "tail = [] \<or> hd tail \<in> set ''?#''" "set rp \<union> set tail \<subseteq> set location"
    using ref takeWhile_start [of "\<lambda>c. c \<notin> set ''?#''" location] dropWhile_stop [of "\<lambda>c. c \<in> set ''?#''" location]
    by (auto simp: SplitRefPath_eq dest: set_takeWhileD set_dropWhileD)
  have origin: "url_origin base = take (k + 3 + length (takeWhile (\<lambda>c. c \<notin> set ''/?#'') (drop (k + 3) base))) base"
    using base(1) by (simp add: url_origin_def take_add)
  have calc: "ResolveHttpRedirectUrl base location =
      (if hd location = CHR ''#'' then url_origin base @ bp @ bq @ location
       else if hd location = CHR ''?'' then url_origin base @ bp @ location
       else if hd location = CHR ''/'' then url_origin base @ RemoveDotSegments rp @ tail
       else url_origin base @ RemoveDotSegments (merge_path bp rp) @ tail)"
    using base location parts [unfolded rest_def dropWhile_eq_drop] ref
    unfolding ResolveHttpRedirectUrl_def find_first_of_def [of "''/?#''"] find_index_takeWhile(2) Let_def origin
    by simp
  consider "hd location = CHR ''#''" "ResolveHttpRedirectUrl base location = url_origin base @ bp @ (bq @ location)"
    | "hd location = CHR ''?''" "ResolveHttpRedirectUrl base location = url_origin base @ bp @ location"
    | p where "p = [] \<or> hd p = CHR ''/''" "set p \<subseteq> insert (CHR ''/'') (set base \<union> set location)"
        "ResolveHttpRedirectUrl base location = url_origin base @ RemoveDotSegments p @ tail"
  proof (cases "hd location = CHR ''/''")
    case True
    show ?thesis
      by (rule that(3) [of rp]) (use calc rp True in auto)
  next
    case False
    have "hd (merge_path bp rp) = CHR ''/''" "set (merge_path bp rp) \<subseteq> insert (CHR ''/'') (set base \<union> set location)"
      using merge_path_shape [OF bp(1,2), of rp] bp(4) in_rest rp(3) by blast+
    then show ?thesis using that(1,2) that(3) [of "merge_path bp rp"] calc False by argo
  qed
  then show ?thesis
  proof cases
    case 1
    have "bq @ location = [] \<or> hd (bq @ location) \<in> set ''?#''" using bp(3) 1(1) by (cases bq) auto
    then show ?thesis using that [OF 1(2)] bp in_rest 1(1) by auto
  next
    case 2
    then show ?thesis using that [OF 2(2)] bp in_rest by auto
  next
    case (3 p)
    show ?thesis using that [OF 3(3)] RemoveDotSegments_shape [OF 3(1)] 3(2) rp(2,3) by blast
  qed
qed

text \<open>
  A relative redirect stays where it was: whatever \<open>Location\<close> a server sends that is neither an
  absolute URL nor starts with \<open>//\<close> (and holds no blank), the resolved URL is the origin of the
  base followed by a rooted path and a tail, the destination guard reads the same scheme and host
  from it as from the base, and no segment of a new path is \<open>.\<close> or \<open>..\<close>.
\<close>

theorem relative_redirect_stays:
  assumes "du_valid (ParseDestinationUrl base)"
    and "location \<noteq> []" "\<not> is_absolute location" "\<not> prefix ''//'' location"
      "find_first_of [CHR 0x0D, CHR 0x0A, CHR 0x09, CHR '' ''] location = None"
  shows "ParseDestinationUrl (ResolveHttpRedirectUrl base location) = ParseDestinationUrl base
    \<and> (\<exists>path tail. ResolveHttpRedirectUrl base location = url_origin base @ path @ tail
        \<and> (path = [] \<or> hd path = CHR ''/'') \<and> (tail = [] \<or> hd tail \<in> set ''?#'')
        \<and> (hd location \<notin> set ''?#'' \<longrightarrow> no_dot_segment path))"
proof -
  obtain k where k: "str_find ''://'' base = Some k" "0 < k" "find_first_of ''/?#'' (drop (k + 3) base) \<noteq> Some 0"
    "find_first_of [CHR 0x0D, CHR 0x0A, CHR 0x09, CHR '' ''] base = None"
    by (rule ParseDestinationUrl_shape [OF assms(1)])
  obtain path tail where r: "ResolveHttpRedirectUrl base location = url_origin base @ path @ tail"
    "path = [] \<or> hd path = CHR ''/''" "tail = [] \<or> hd tail \<in> set ''?#''"
    "hd location \<notin> set ''?#'' \<longrightarrow> no_dot_segment path"
    "set path \<union> set tail \<subseteq> insert (CHR ''/'') (set base \<union> set location)"
    by (rule resolve_relative [OF k(1-3) assms(2-4)])
  have "find_first_of [CHR 0x0D, CHR 0x0A, CHR 0x09, CHR '' ''] (path @ tail) = None"
    using r(5) k(4) assms(5) unfolding find_first_of_None by auto
  moreover have "path @ tail = [] \<or> hd (path @ tail) \<in> set ''/?#''" using r(2,3) by (cases path) auto
  ultimately have "ParseDestinationUrl (url_origin base @ path @ tail) = ParseDestinationUrl base"
    by (intro ParseDestinationUrl_origin [OF k(1,4)])
  then show ?thesis using r(1-4) by auto
qed

theorem relative_redirect_stays_witness:
  "ResolveHttpRedirectUrl ''https://ca.example:8443/a/b/file?x=1'' ''../c/./d?y#z'' = ''https://ca.example:8443/a/c/d?y#z''
   \<and> ParseDestinationUrl ''https://ca.example:8443/a/c/d?y#z'' = ParseDestinationUrl ''https://ca.example:8443/a/b/file?x=1''"
proof -
  have r: "ResolveHttpRedirectUrl ''https://ca.example:8443/a/b/file?x=1'' ''../c/./d?y#z'' = ''https://ca.example:8443/a/c/d?y#z''"
    by code_simp
  have "du_valid (ParseDestinationUrl ''https://ca.example:8443/a/b/file?x=1'')"
    "\<not> is_absolute ''../c/./d?y#z''" "\<not> prefix ''//'' ''../c/./d?y#z''"
    "find_first_of [CHR 0x0D, CHR 0x0A, CHR 0x09, CHR '' ''] ''../c/./d?y#z'' = None"
    by code_simp+
  from relative_redirect_stays [OF this(1) _ this(2-4)] show ?thesis unfolding r by simp
qed

end
