(* ===== verification/Http_Client.thy ===== *)
theory Http_Client
  imports Http_Syntax "HOL-Library.Monad_Syntax"
begin

text \<open>
  \<open>core/HttpClient.{h,cpp}\<close> in the configuration that is shipped, the one on WinHTTP
  (\<open>TAMGA_LIBCURL_ENABLED=0\<close>), and the write callback of the other one.

  The operating system is a record of functions, \<open>http_world\<close>. Name resolution and the other side
  of a connection may answer differently each time, so each of these functions has as an argument
  the trace of what the client did before. The client's global variables, the two test seams, and
  that trace are the state. What one run of \<open>WinHttpRequestOnce\<close> gets from WinHTTP is an
  \<open>exchange\<close>: the code of each call that may fail (\<open>None\<close> when it did not) and what the calls deliver.
\<close>

section \<open>Data\<close>

record HttpRequest =
  rq_method :: string
  rq_url :: string
  rq_body :: bytes
  rq_content_type :: string
  rq_accept :: string
  rq_timeout_ms :: int

record HttpResponse =
  rs_succeeded :: bool
  rs_status_code :: int
  rs_body :: bytes
  rs_message :: string
  rs_response_headers :: string

record HttpProbeResult =
  pb_attempted :: bool
  pb_succeeded :: bool
  pb_status_code :: int
  pb_message :: string

record HttpPostResult =
  http_attempted :: bool
  http_succeeded :: bool
  http_status_code :: int
  http_message :: string
  http_response_content_type :: string
  http_response_headers :: string
  http_body :: bytes

definition default_post_result :: HttpPostResult where
  "default_post_result = \<lparr>http_attempted = False, http_succeeded = False, http_status_code = 0, http_message = [],
     http_response_content_type = [], http_response_headers = [], http_body = []\<rparr>"

lemma default_post_result_fields [simp]:
  "http_body default_post_result = []" "\<not> http_succeeded default_post_result" "http_status_code default_post_result = 0"
  by (simp_all add: default_post_result_def)

definition default_probe_result :: HttpProbeResult where
  "default_probe_result = \<lparr>pb_attempted = False, pb_succeeded = False, pb_status_code = 0, pb_message = []\<rparr>"

definition IsHttpSuccess :: "HttpPostResult \<Rightarrow> bool" where
  "IsHttpSuccess response \<longleftrightarrow>
     http_succeeded response \<and> http_status_code response \<ge> 200 \<and> http_status_code response < 300"

definition kMaxHttpResponseSize :: int where
  "kMaxHttpResponseSize = 64 * 1024 * 1024"

definition kMaxHttpRedirects :: nat where
  "kMaxHttpRedirects = 5"

text \<open>What the client does to the world: it judges a destination, and it makes a request.\<close>

datatype http_event = Checked string HttpDestinationResult | Requested HttpRequest

type_synonym http_trace = "http_event list"
type_synonym HttpTransport = "http_trace \<Rightarrow> HttpRequest \<Rightarrow> HttpResponse"
type_synonym HttpHostResolver = "http_trace \<Rightarrow> string \<Rightarrow> string list"

record http_state =
  g_mock_transport :: "HttpTransport option"
  g_mock_resolver :: "HttpHostResolver option"
  http_trace :: http_trace

text \<open>
  The peer of a connection, as \<open>WINHTTP_OPTION_CONNECTION_INFO\<close> tells it, and one turn of the read
  loop: what \<open>WinHttpQueryDataAvailable\<close> says and, behind it, what \<open>WinHttpReadData\<close> reads.
\<close>

datatype peer_info = No_info | Ipv4_unformatted | Ipv6_unformatted | Unknown_family | Peer string

datatype read_event = Query_failed int | Available u32 "int + bytes"

record exchange =
  ex_crack_url :: bool
  ex_open :: "int option"
  ex_connect :: "int option"
  ex_open_request :: "int option"
  ex_send :: "int option"
  ex_peer :: peer_info
  ex_receive :: "int option"
  ex_status :: u32
  ex_raw_headers :: "string option"
  ex_content_type :: "string option"
  ex_reads :: "nat \<Rightarrow> read_event"

record http_world =
  hw_ip :: ip_lib
  hw_getaddrinfo :: "http_trace \<Rightarrow> string \<Rightarrow> string option list option"
  hw_exchange :: "http_trace \<Rightarrow> HttpRequest \<Rightarrow> exchange"

section \<open>The destination check\<close>

text \<open>An entry that \<open>getnameinfo\<close> cannot print is \<open>None\<close> and is left out, as is a repeated address.\<close>

definition ResolveSystemHost :: "http_world \<Rightarrow> http_trace \<Rightarrow> string \<Rightarrow> string list" where
  "ResolveSystemHost W t host =
     (case hw_getaddrinfo W t (c_str host) of
        None \<Rightarrow> []
      | Some addresses \<Rightarrow>
          foldl (\<lambda>result current. case current of
                   None \<Rightarrow> result
                 | Some buffer \<Rightarrow> if buffer \<in> set result then result else result @ [buffer]) [] addresses)"

definition CheckDestinationVia ::
    "http_world \<Rightarrow> string \<Rightarrow> bool \<Rightarrow> http_state \<Rightarrow> HttpDestinationResult \<times> http_state" where
  "CheckDestinationVia W url treat_missing_resolver_as_allowed s =
     (let resolver = (case g_mock_resolver s of
            Some f \<Rightarrow> Some (f (http_trace s))
          | None \<Rightarrow> if treat_missing_resolver_as_allowed then None else Some (ResolveSystemHost W (http_trace s)));
          result = CheckDestination (hw_ip W) url resolver treat_missing_resolver_as_allowed
      in (result, s\<lparr>http_trace := http_trace s @ [Checked url result]\<rparr>))"

definition HttpClient_CheckDestination :: "http_world \<Rightarrow> string \<Rightarrow> http_state \<Rightarrow> HttpDestinationResult \<times> http_state" where
  "HttpClient_CheckDestination W url s = CheckDestinationVia W url False s"

text \<open>The scoped test seams: a constructor keeps the old value, the destructor puts it back.\<close>

definition ScopedMockTransport :: "HttpTransport option \<Rightarrow> http_state \<Rightarrow> HttpTransport option \<times> http_state" where
  "ScopedMockTransport transport s = (g_mock_transport s, s\<lparr>g_mock_transport := transport\<rparr>)"

definition ScopedMockTransport_destroy :: "HttpTransport option \<Rightarrow> http_state \<Rightarrow> http_state" where
  "ScopedMockTransport_destroy previous s = s\<lparr>g_mock_transport := previous\<rparr>"

definition ScopedMockResolver :: "HttpHostResolver option \<Rightarrow> http_state \<Rightarrow> HttpHostResolver option \<times> http_state" where
  "ScopedMockResolver resolver s = (g_mock_resolver s, s\<lparr>g_mock_resolver := resolver\<rparr>)"

definition ScopedMockResolver_destroy :: "HttpHostResolver option \<Rightarrow> http_state \<Rightarrow> http_state" where
  "ScopedMockResolver_destroy previous s = s\<lparr>g_mock_resolver := previous\<rparr>"

section \<open>One request\<close>

definition WinHttpPeerAddressIsPublic :: "ip_lib \<Rightarrow> peer_info \<Rightarrow> bool \<times> string" where
  "WinHttpPeerAddressIsPublic L peer =
     (case peer of
        No_info \<Rightarrow> (False, ''connection info unavailable'')
      | Ipv4_unformatted \<Rightarrow> (False, ''IPv4 peer address could not be formatted'')
      | Ipv6_unformatted \<Rightarrow> (False, ''IPv6 peer address could not be formatted'')
      | Unknown_family \<Rightarrow> (False, ''unknown peer address family'')
      | Peer buffer \<Rightarrow> (IsAllowedPublicAddress L buffer, buffer))"

datatype read_result = Complete bytes | Read_failed int | Too_large

text \<open>
  The read loop. Nothing in it ends it when WinHTTP goes on announcing data and delivers none, so
  it is a partial function and \<open>None\<close> is a run that does not end.
\<close>

partial_function (option) read_body :: "(nat \<Rightarrow> read_event) \<Rightarrow> nat \<Rightarrow> bytes \<Rightarrow> read_result option" where
  "read_body reads i body =
     (case reads i of
        Query_failed err \<Rightarrow> Some (Read_failed err)
      | Available bytes_available data \<Rightarrow>
          if bytes_available = 0 then Some (Complete body)
          else if int (length body) + uint bytes_available > kMaxHttpResponseSize then Some Too_large
          else case data of
            Inl err \<Rightarrow> Some (Read_failed err)
          | Inr chunk \<Rightarrow> read_body reads (Suc i) (body @ chunk))"

declare read_body.simps [code]

definition strip_nul :: "string \<Rightarrow> string" where
  "strip_nul s = rev (dropWhile (\<lambda>c. c = CHR 0x00) (rev s))"

text \<open>What is done with the response once it has begun: status, headers, body, verdict.\<close>

definition receive_body :: "exchange \<Rightarrow> HttpPostResult \<Rightarrow> HttpPostResult option" where
  "receive_body ex result =
     (let result = result\<lparr>
            http_status_code := sint (ex_status ex),
            http_response_headers := (case ex_raw_headers ex of None \<Rightarrow> [] | Some raw \<Rightarrow> strip_nul raw),
            http_response_content_type := (case ex_content_type ex of None \<Rightarrow> [] | Some raw \<Rightarrow> strip_nul raw)\<rparr>
      in do {
        outcome \<leftarrow> read_body (ex_reads ex) 0 (http_body result);
        Some (case outcome of
          Read_failed err \<Rightarrow> result\<lparr>http_body := [], http_succeeded := False,
            http_message := ''WinHTTP: response body read failed, code='' @ to_string err\<rparr>
        | Too_large \<Rightarrow> result\<lparr>http_body := [], http_succeeded := False,
            http_message := ''WinHTTP: response exceeds the maximum allowed size''\<rparr>
        | Complete body \<Rightarrow>
            let good = http_status_code result \<ge> 200 \<and> http_status_code result < 300
            in result\<lparr>http_body := body, http_succeeded := good,
                 http_message := (if good then ''ok'' else ''HTTP status '' @ to_string (http_status_code result))\<rparr>)
      })"

definition WinHttpRequestOnce :: "http_world \<Rightarrow> HttpRequest \<Rightarrow> http_state \<Rightarrow> (HttpPostResult \<times> http_state) option" where
  "WinHttpRequestOnce W request s =
     (let ex = hw_exchange W (http_trace s) request;
          s = s\<lparr>http_trace := http_trace s @ [Requested request]\<rparr>;
          result = default_post_result\<lparr>http_attempted := True\<rparr>;
          fail = (\<lambda>what err. Some (result\<lparr>http_message := ''WinHTTP: '' @ what @ '' failed, code='' @ to_string err\<rparr>, s))
      in if \<not> ex_crack_url ex then
           Some (result\<lparr>http_message := ''WinHTTP: failed to parse URL: '' @ rq_url request\<rparr>, s)
         else case ex_open ex of Some err \<Rightarrow> fail ''WinHttpOpen'' err | None \<Rightarrow>
         (case ex_connect ex of Some err \<Rightarrow> fail ''WinHttpConnect'' err | None \<Rightarrow>
         (case ex_open_request ex of Some err \<Rightarrow> fail ''WinHttpOpenRequest'' err | None \<Rightarrow>
         (case ex_send ex of Some err \<Rightarrow> fail ''WinHttpSendRequest'' err | None \<Rightarrow>
         (case WinHttpPeerAddressIsPublic (hw_ip W) (ex_peer ex) of (public, peer) \<Rightarrow>
            if \<not> public then
              Some (result\<lparr>http_message := ''WinHTTP: peer address did not pass destination policy ('' @ peer
                      @ ''); response rejected'', http_succeeded := False, http_body := []\<rparr>, s)
            else case ex_receive ex of Some err \<Rightarrow> fail ''WinHttpReceiveResponse'' err | None \<Rightarrow>
              map_option (\<lambda>r. (r, s)) (receive_body ex result))))))"

section \<open>Redirects\<close>

text \<open>A redirect after which the request is repeated as a \<open>GET\<close> without a body.\<close>

definition becomes_get :: "int \<Rightarrow> string \<Rightarrow> bool" where
  "becomes_get status method \<longleftrightarrow> status = 303 \<or> ((status = 301 \<or> status = 302) \<and> method = ''POST'')"

definition follow_redirect :: "int \<Rightarrow> string \<Rightarrow> HttpRequest \<Rightarrow> HttpRequest" where
  "follow_redirect status next_url request =
     (if becomes_get status (rq_method request)
      then request\<lparr>rq_method := ''GET'', rq_body := [], rq_content_type := [], rq_url := next_url\<rparr>
      else request\<lparr>rq_url := next_url\<rparr>)"

text \<open>The loop, by the number of turns that are left; the last one has \<open>redirect == kMaxHttpRedirects\<close>.\<close>

primrec winhttp_loop :: "http_world \<Rightarrow> bool \<Rightarrow> nat \<Rightarrow> HttpRequest \<Rightarrow> http_state \<Rightarrow> (HttpPostResult \<times> http_state) option" where
  "winhttp_loop W initial_https 0 request s =
     Some (default_post_result\<lparr>http_message := ''WinHTTP: redirect processing failed''\<rparr>, s)"
| "winhttp_loop W initial_https (Suc left) request s =
     (case CheckDestinationVia W (rq_url request) False s of (destination, s) \<Rightarrow>
        if \<not> hd_allowed destination then Some (default_post_result\<lparr>http_message := hd_message destination\<rparr>, s)
        else do {
          (result, s) \<leftarrow> WinHttpRequestOnce W request s;
          if \<not> IsRedirectStatus (http_status_code result) then Some (result, s)
          else if left = 0 then
            Some (result\<lparr>http_succeeded := False, http_message := ''WinHTTP: too many redirects''\<rparr>, s)
          else
            let next_url = ResolveHttpRedirectUrl (rq_url request)
                  (ResponseHeaderValue (http_response_headers result) ''location'');
                next_dest = ParseDestinationUrl next_url
            in if \<not> du_valid next_dest \<or> (initial_https \<and> du_scheme next_dest \<noteq> ''https'') then
                 Some (result\<lparr>http_succeeded := False, http_message := ''WinHTTP: redirect destination denied''\<rparr>, s)
               else case CheckDestinationVia W next_url False s of (next_destination, s) \<Rightarrow>
                 if \<not> hd_allowed next_destination then
                   Some (result\<lparr>http_succeeded := False, http_message := hd_message next_destination\<rparr>, s)
                 else winhttp_loop W initial_https left
                        (follow_redirect (http_status_code result) next_url request) s
        })"

definition WinHttpRequest :: "http_world \<Rightarrow> HttpRequest \<Rightarrow> http_state \<Rightarrow> (HttpPostResult \<times> http_state) option" where
  "WinHttpRequest W request s =
     winhttp_loop W (du_scheme (ParseDestinationUrl (rq_url request)) = ''https'') (Suc kMaxHttpRedirects) request s"

definition WinHttpGet :: "http_world \<Rightarrow> string \<Rightarrow> string \<Rightarrow> int \<Rightarrow> http_state \<Rightarrow> (HttpPostResult \<times> http_state) option" where
  "WinHttpGet W url accept timeout_ms s =
     WinHttpRequest W \<lparr>rq_method = ''GET'', rq_url = url, rq_body = [], rq_content_type = [], rq_accept = accept,
       rq_timeout_ms = timeout_ms\<rparr> s"

definition WinHttpPost ::
    "http_world \<Rightarrow> string \<Rightarrow> bytes \<Rightarrow> string \<Rightarrow> string \<Rightarrow> int \<Rightarrow> http_state \<Rightarrow> (HttpPostResult \<times> http_state) option" where
  "WinHttpPost W url body content_type accept timeout_ms s =
     WinHttpRequest W \<lparr>rq_method = ''POST'', rq_url = url, rq_body = body, rq_content_type = content_type,
       rq_accept = accept, rq_timeout_ms = timeout_ms\<rparr> s"

definition WinHttpProbe :: "http_world \<Rightarrow> string \<Rightarrow> int \<Rightarrow> http_state \<Rightarrow> (HttpProbeResult \<times> http_state) option" where
  "WinHttpProbe W url timeout_ms s = do {
     (post, s) \<leftarrow> WinHttpPost W url [] ''application/octet-stream'' ''application/octet-stream'' timeout_ms s;
     Some (\<lparr>pb_attempted = True,
        pb_succeeded = (http_status_code post \<ge> 200 \<and> http_status_code post < 500),
        pb_status_code = http_status_code post, pb_message = http_message post\<rparr>, s)
   }"

section \<open>The test transport\<close>

definition ToPostResult :: "HttpResponse \<Rightarrow> HttpPostResult" where
  "ToPostResult response = default_post_result\<lparr>
     http_attempted := True, http_succeeded := rs_succeeded response, http_status_code := rs_status_code response,
     http_message := rs_message response, http_response_headers := rs_response_headers response,
     http_body := rs_body response\<rparr>"

primrec mock_loop :: "http_world \<Rightarrow> HttpTransport \<Rightarrow> bool \<Rightarrow> nat \<Rightarrow> HttpRequest \<Rightarrow> http_state \<Rightarrow> HttpPostResult \<times> http_state" where
  "mock_loop W transport initial_https 0 request s =
     (default_post_result\<lparr>http_message := ''mock HTTP transport: redirect processing failed''\<rparr>, s)"
| "mock_loop W transport initial_https (Suc left) request s =
     (case CheckDestinationVia W (rq_url request) True s of (destination, s) \<Rightarrow>
        if \<not> hd_allowed destination then (default_post_result\<lparr>http_message := hd_message destination\<rparr>, s)
        else
          let result = ToPostResult (transport (http_trace s) request);
              s = s\<lparr>http_trace := http_trace s @ [Requested request]\<rparr>
          in if \<not> IsRedirectStatus (http_status_code result) then (result, s)
             else if left = 0 then
               (result\<lparr>http_succeeded := False, http_message := ''mock HTTP transport: too many redirects''\<rparr>, s)
             else
               let next_url = ResolveHttpRedirectUrl (rq_url request)
                     (ResponseHeaderValue (http_response_headers result) ''location'');
                   next_dest = ParseDestinationUrl next_url
               in if \<not> du_valid next_dest \<or> (initial_https \<and> du_scheme next_dest \<noteq> ''https'') then
                    (result\<lparr>http_succeeded := False,
                       http_message := ''mock HTTP transport: redirect destination denied''\<rparr>, s)
                  else mock_loop W transport initial_https left
                         (follow_redirect (http_status_code result) next_url request) s)"

definition ExecuteMockRequest :: "http_world \<Rightarrow> HttpTransport \<Rightarrow> HttpRequest \<Rightarrow> http_state \<Rightarrow> HttpPostResult \<times> http_state" where
  "ExecuteMockRequest W transport request s =
     mock_loop W transport (du_scheme (ParseDestinationUrl (rq_url request)) = ''https'') (Suc kMaxHttpRedirects) request s"

section \<open>HttpClient\<close>

definition HttpClient_ProbeEndpoint :: "http_world \<Rightarrow> string \<Rightarrow> int \<Rightarrow> http_state \<Rightarrow> (HttpProbeResult \<times> http_state) option" where
  "HttpClient_ProbeEndpoint W url timeout_ms s =
     (case CheckDestinationVia W url False s of (destination, s) \<Rightarrow>
        if \<not> hd_allowed destination then Some (default_probe_result\<lparr>pb_message := hd_message destination\<rparr>, s)
        else WinHttpProbe W url timeout_ms s)"

definition HttpClient_Get :: "http_world \<Rightarrow> string \<Rightarrow> string \<Rightarrow> int \<Rightarrow> http_state \<Rightarrow> (HttpPostResult \<times> http_state) option" where
  "HttpClient_Get W url accept timeout_ms s =
     (let mock_transport = g_mock_transport s
      in case CheckDestinationVia W url (mock_transport \<noteq> None) s of (destination, s) \<Rightarrow>
           if \<not> hd_allowed destination then Some (default_post_result\<lparr>http_message := hd_message destination\<rparr>, s)
           else case mock_transport of
             Some transport \<Rightarrow>
               Some (ExecuteMockRequest W transport \<lparr>rq_method = ''GET'', rq_url = url, rq_body = [],
                 rq_content_type = [], rq_accept = accept, rq_timeout_ms = timeout_ms\<rparr> s)
           | None \<Rightarrow> WinHttpGet W url accept timeout_ms s)"


text \<open>The write callback of the libcurl configuration: the size of the block wraps at the width of \<open>size_t\<close>.\<close>

definition WriteCallback :: "bytes \<Rightarrow> 64 word \<Rightarrow> 64 word \<Rightarrow> bytes \<Rightarrow> 64 word \<times> bytes" where
  "WriteCallback contents block nmemb mem =
     (let realsize = block * nmemb
      in if int (length mem) > kMaxHttpResponseSize \<or> uint realsize > kMaxHttpResponseSize - int (length mem)
         then (0, mem)
         else (realsize, mem @ take (unat realsize) contents))"

section \<open>Every request is judged first\<close>






lemma receive_body_succeeded: "receive_body ex r = Some r' \<Longrightarrow> http_succeeded r' \<Longrightarrow> 200 \<le> http_status_code r' \<and> http_status_code r' < 300"
  by (auto simp: receive_body_def Let_def split: Option.bind_splits read_result.splits)







section \<open>The response is read to its end or given up\<close>

text \<open>
  \<open>WinHttpReadData\<close> as it is documented for synchronous use: after data was announced it delivers
  at least one byte and not more than it was asked for.
\<close>

definition reads_progress :: "(nat \<Rightarrow> read_event) \<Rightarrow> bool" where
  "reads_progress reads \<longleftrightarrow>
     (\<forall>i n chunk. reads i = Available n (Inr chunk) \<longrightarrow> n \<noteq> 0 \<longrightarrow> chunk \<noteq> [] \<and> int (length chunk) \<le> uint n)"

lemma read_body_returns:
  assumes "reads_progress reads" "int (length body) \<le> kMaxHttpResponseSize"
  shows "\<exists>r. read_body reads i body = Some r \<and> (\<forall>b. r = Complete b \<longrightarrow> int (length b) \<le> kMaxHttpResponseSize)"
  using assms(2)
proof (induction "nat (kMaxHttpResponseSize - int (length body))" arbitrary: i body rule: less_induct)
  case less
  have step: "\<exists>r. read_body reads (Suc i) (body @ chunk) = Some r \<and> (\<forall>b. r = Complete b \<longrightarrow> int (length b) \<le> kMaxHttpResponseSize)"
    if "reads i = Available n (Inr chunk)" "n \<noteq> 0" "\<not> int (length body) + uint n > kMaxHttpResponseSize" for n chunk
  proof (rule less.hyps)
    have c: "chunk \<noteq> []" "int (length chunk) \<le> uint n" using assms(1) that(1,2) unfolding reads_progress_def by blast+
    then have len: "0 < length chunk" by simp
    show "int (length (body @ chunk)) \<le> kMaxHttpResponseSize" using c that(3) by simp
    then show "nat (kMaxHttpResponseSize - int (length (body @ chunk))) < nat (kMaxHttpResponseSize - int (length body))"
      using len by (simp add: zless_nat_conj del: length_greater_0_conv)
  qed
  show ?case
    using less.prems step by (subst read_body.simps) (auto split: read_event.split sum.split)
qed

text \<open>A body that is complete: all that was read until WinHTTP said that nothing is left.\<close>

definition chunk_at :: "(nat \<Rightarrow> read_event) \<Rightarrow> nat \<Rightarrow> bytes" where
  "chunk_at reads i = (case reads i of Available _ (Inr chunk) \<Rightarrow> chunk | _ \<Rightarrow> [])"

definition whole_stream :: "(nat \<Rightarrow> read_event) \<Rightarrow> bytes \<Rightarrow> bool" where
  "whole_stream reads body \<longleftrightarrow>
     (\<exists>n d. reads n = Available 0 d \<and> body = concat (map (chunk_at reads) [0..<n]))"

lemma read_body_complete:
  assumes "read_body reads i body = Some (Complete b)" "body = concat (map (chunk_at reads) [0..<i])"
  shows "whole_stream reads b"
proof -
  have "body = concat (map (chunk_at reads) [0..<i]) \<longrightarrow> (\<forall>b. Complete b = Complete b' \<longrightarrow> whole_stream reads b)"
    if "b = b'" for b'
  proof (rule read_body.raw_induct [where P = "\<lambda>reads i body y. body = concat (map (chunk_at reads) [0..<i])
      \<longrightarrow> (\<forall>b. Complete b = y \<longrightarrow> whole_stream reads b)", OF _ assms(1) [unfolded that]], goal_cases)
    case (1 f reads i body y)
    have "f reads (Suc i) (body @ chunk) = Some y \<Longrightarrow> body @ chunk = concat (map (chunk_at reads) [0..<Suc i])
        \<Longrightarrow> Complete b = y \<Longrightarrow> whole_stream reads b" for chunk b
      using 1(1) by blast
    then show ?case
      using 1(2) unfolding whole_stream_def
      by (auto simp: chunk_at_def [of reads i] split: read_event.splits if_splits sum.splits)
  qed
  then show ?thesis using assms(2) by blast
qed

lemma WinHttpRequestOnce_returns:
  assumes "reads_progress (ex_reads (hw_exchange W (http_trace s) q))"
  shows "\<exists>r. WinHttpRequestOnce W q s = Some (r, s\<lparr>http_trace := http_trace s @ [Requested q]\<rparr>)
    \<and> int (length (http_body r)) \<le> kMaxHttpResponseSize
    \<and> (http_succeeded r \<longrightarrow> whole_stream (ex_reads (hw_exchange W (http_trace s) q)) (http_body r))"
proof -
  let ?ex = "hw_exchange W (http_trace s) q" and ?r = "default_post_result\<lparr>http_attempted := True\<rparr>"
  have max: "int (length (http_body ?r)) \<le> kMaxHttpResponseSize" "0 \<le> kMaxHttpResponseSize"
    by (simp_all add: default_post_result_def kMaxHttpResponseSize_def)
  obtain o1 where o1: "read_body (ex_reads ?ex) 0 [] = Some o1"
    "\<And>b. o1 = Complete b \<Longrightarrow> int (length b) \<le> kMaxHttpResponseSize"
    using read_body_returns [OF assms, of "[]" 0] max(2) by auto
  have "\<exists>r. receive_body ?ex ?r = Some r \<and> int (length (http_body r)) \<le> kMaxHttpResponseSize
      \<and> (http_succeeded r \<longrightarrow> whole_stream (ex_reads ?ex) (http_body r))"
    using o1 max(2) read_body_complete [of "ex_reads ?ex" 0 "[]"]
    by (cases o1) (auto simp: receive_body_def Let_def)
  then show ?thesis
    using max by (auto simp: WinHttpRequestOnce_def Let_def split: option.split prod.split)
qed

lemma winhttp_loop_returns:
  assumes "\<And>t q. reads_progress (ex_reads (hw_exchange W t q))"
  shows "\<exists>r s'. winhttp_loop W https left q s = Some (r, s') \<and> int (length (http_body r)) \<le> kMaxHttpResponseSize
    \<and> (http_succeeded r \<longrightarrow> (\<exists>t q'. http_trace s' = t @ [Requested q'] \<and> whole_stream (ex_reads (hw_exchange W t q')) (http_body r)))"
proof (induction left arbitrary: q s)
  case (Suc left)
  obtain d s0 where d: "CheckDestinationVia W (rq_url q) False s = (d, s0)" by force
  obtain r where r: "WinHttpRequestOnce W q s0 = Some (r, s0\<lparr>http_trace := http_trace s0 @ [Requested q]\<rparr>)"
    "int (length (http_body r)) \<le> kMaxHttpResponseSize"
    "http_succeeded r \<longrightarrow> whole_stream (ex_reads (hw_exchange W (http_trace s0) q)) (http_body r)"
    using WinHttpRequestOnce_returns [OF assms] by blast
  have "0 \<le> kMaxHttpResponseSize" by (simp add: kMaxHttpResponseSize_def)
  then show ?case
    using d r Suc.IH by (auto simp: Let_def default_post_result_def split: prod.split)
qed (simp add: default_post_result_def kMaxHttpResponseSize_def)

lemma WinHttpRequest_returns:
  assumes "\<And>t q. reads_progress (ex_reads (hw_exchange W t q))"
  shows "\<exists>r s'. WinHttpRequest W q s = Some (r, s') \<and> int (length (http_body r)) \<le> 64 * 1024 * 1024
    \<and> (http_succeeded r \<longrightarrow> (\<exists>t q'. http_trace s' = t @ [Requested q'] \<and> whole_stream (ex_reads (hw_exchange W t q')) (http_body r)))"
  unfolding WinHttpRequest_def kMaxHttpResponseSize_def [symmetric] by (rule winhttp_loop_returns) (rule assms)

text \<open>
  C15. \<open>Get\<close> returns. Provided that WinHTTP delivers at least one byte of the data it announces, the
  read loop and the redirects come to an end whatever the peers send, the body never has more
  than 64 MiB, and a response reported as a success carries the whole stream of the last request:
  a connection that breaks or a body that is too long is never passed on as a shorter body.
\<close>

theorem http_get_returns:
  assumes "\<And>t q. reads_progress (ex_reads (hw_exchange W t q))" and "g_mock_transport s = None"
  shows "\<exists>r s'. HttpClient_Get W url accept timeout_ms s = Some (r, s')
    \<and> int (length (http_body r)) \<le> 64 * 1024 * 1024
    \<and> (http_succeeded r \<longrightarrow> (\<exists>t q. http_trace s' = t @ [Requested q] \<and> whole_stream (ex_reads (hw_exchange W t q)) (http_body r)))"
proof -
  obtain d s1 where d: "CheckDestinationVia W url False s = (d, s1)" by force
  show ?thesis
    using WinHttpRequest_returns [where W = W and s = s1, OF assms(1)] assms(2) d
    by (simp add: HttpClient_Get_def WinHttpGet_def)
qed

text \<open>
  The write callback of the other backend keeps the same bound: the buffer never grows beyond 64
  MiB, and a block is either refused, with the buffer as it was, or appended in full.
\<close>

theorem write_callback_bounded:
  assumes "int (length mem) \<le> 64 * 1024 * 1024" and "WriteCallback contents block nmemb mem = (accepted, mem')"
  shows "int (length mem') \<le> 64 * 1024 * 1024
    \<and> (accepted = 0 \<and> mem' = mem \<or> accepted = block * nmemb \<and> mem' = mem @ take (unat accepted) contents)"
proof -
  define n where "n = block * nmemb"
  have n: "int (length (take (unat n) contents)) \<le> uint n"
    unfolding uint_nat by (rule of_nat_mono) simp
  show ?thesis
  proof (cases "uint n > 64 * 1024 * 1024 - int (length mem)")
    case True
    then have "accepted = 0 \<and> mem' = mem"
      using assms unfolding WriteCallback_def kMaxHttpResponseSize_def Let_def n_def by simp
    then show ?thesis using assms(1) by blast
  next
    case False
    then have "accepted = n \<and> mem' = mem @ take (unat n) contents"
      using assms unfolding WriteCallback_def kMaxHttpResponseSize_def Let_def n_def by auto
    moreover from this have "int (length mem') = int (length mem) + int (length (take (unat n) contents))"
      by (simp only: length_append of_nat_add)
    ultimately show ?thesis using False n unfolding n_def [symmetric] by auto
  qed
qed

section \<open>A sample world\<close>

text \<open>
  A name server that knows one host, and a server that redirects its front page to a relative
  address and answers everything else with three bytes, in two chunks.
\<close>

definition sample_exchange :: "u32 \<Rightarrow> string \<Rightarrow> exchange" where
  "sample_exchange status headers =
     \<lparr>ex_crack_url = True, ex_open = None, ex_connect = None, ex_open_request = None, ex_send = None,
      ex_peer = Peer ''93.184.216.34'', ex_receive = None, ex_status = status, ex_raw_headers = Some headers,
      ex_content_type = None,
      ex_reads = (\<lambda>i. if i = 0 then Available 2 (Inr [1, 2]) else if i = 1 then Available 5 (Inr [3]) else Available 0 (Inr []))\<rparr>"

definition sample_world :: http_world where
  "sample_world =
     \<lparr>hw_ip = sample_ip_lib,
      hw_getaddrinfo = (\<lambda>t host. if host = ''ocsp.example.ua'' then Some [Some ''93.184.216.34'', None, Some ''93.184.216.34''] else None),
      hw_exchange = (\<lambda>t q. if rq_url q = ''https://ocsp.example.ua/'' then sample_exchange 302 (''Location: next'' @ [CHR 0x0D, CHR 0x0A])
        else sample_exchange 200 [])\<rparr>"

definition sample_http_state :: http_state where
  "sample_http_state = \<lparr>g_mock_transport = None, g_mock_resolver = None, http_trace = []\<rparr>"

lemma sample_world_progress: "reads_progress (ex_reads (hw_exchange sample_world t q))"
  by (auto simp: reads_progress_def sample_world_def sample_exchange_def split: if_splits)


theorem http_get_returns_witness:
  "\<exists>r s'. HttpClient_Get sample_world ''https://ocsp.example.ua/'' ''c/d'' 1000 sample_http_state = Some (r, s')
    \<and> int (length (http_body r)) \<le> 64 * 1024 * 1024"
  using http_get_returns [of sample_world sample_http_state "''https://ocsp.example.ua/''" "''c/d''" 1000, OF sample_world_progress]
  by (auto simp: sample_http_state_def)

theorem write_callback_bounded_witness:
  "WriteCallback [1, 2, 3, 4] 2 2 [9] = (4, [9, 1, 2, 3, 4]) \<and> int (length [9 :: byte, 1, 2, 3, 4]) \<le> 64 * 1024 * 1024"
proof -
  have "WriteCallback [1, 2, 3, 4] 2 2 [9] = (4, [9, 1, 2, 3, 4])" by code_simp
  with write_callback_bounded [of "[9]" "[1, 2, 3, 4]" 2 2] show ?thesis by simp
qed

end
