(* ===== verification/Cert_Fetch.thy ===== *)
theory Cert_Fetch
  imports Der Base64 Http_Client
begin

text \<open>
  The network sources of certificates (\<open>core/net/CertificateFetcher.cpp\<close>): a directory, an HTTP
  address, and CMP. They only propose candidates. The LDAP client of the platform, the HTTP client
  and the two calls of the cryptographic library are in the record \<open>cert_net\<close>; the transports that
  tests put in place of the network are not modelled.
\<close>

section \<open>Requests and results\<close>

record CertificateFetchRequest =
  cf_url :: string
  cf_base_dn :: string
  cf_subject_hint :: string
  cf_timeout_ms :: int

record CertificateFetchResult =
  cf_executed :: bool
  cf_candidates :: "bytes list"
  cf_message :: string

definition no_fetch :: "string \<Rightarrow> CertificateFetchResult" where
  "no_fetch message = \<lparr>cf_executed = False, cf_candidates = [], cf_message = message\<rparr>"

text \<open>
  \<open>ldap_search host port timeout_ms base_dn filter\<close> is the session with the directory: an error
  message, or for each entry the values of an attribute.
\<close>

record cert_net =
  on_windows :: bool
  ldap_search :: "string \<Rightarrow> int \<Rightarrow> int \<Rightarrow> string \<Rightarrow> string \<Rightarrow> string + (string \<Rightarrow> bytes list) list"
  ExtractCertificatesFromPkcs7 :: "bytes \<Rightarrow> bytes list option"
  IsCertificateDer :: "bytes \<Rightarrow> bool"
  cn_get :: "string \<Rightarrow> string \<Rightarrow> int \<Rightarrow> HttpPostResult"
  cn_post :: "string \<Rightarrow> bytes \<Rightarrow> string \<Rightarrow> string \<Rightarrow> int \<Rightarrow> HttpPostResult"

section \<open>Certificates in a response\<close>

definition find_at :: "string \<Rightarrow> nat \<Rightarrow> string \<Rightarrow> nat option" where
  "find_at p pos s = map_option (\<lambda>k. pos + k) (str_find p (drop pos s))"

lemma find_at_ge: "find_at p pos s = Some k \<Longrightarrow> pos \<le> k"
  by (auto simp: find_at_def)

lemma str_find_less: "str_find p s = Some k \<Longrightarrow> p \<noteq> [] \<Longrightarrow> k < length s"
  by (induction s arbitrary: k) (auto split: if_splits)

lemma find_at_less: "find_at p pos s = Some k \<Longrightarrow> p \<noteq> [] \<Longrightarrow> k < length s"
  using str_find_less [of p "drop pos s"] by (fastforce simp: find_at_def)

text \<open>All PEM blocks from a position on; a block that does not decode to a sequence is left out.\<close>

function pem_certificates :: "string \<Rightarrow> nat \<Rightarrow> bytes list" where
  "pem_certificates s pos =
     (case find_at ''-----BEGIN'' pos s of
        None \<Rightarrow> []
      | Some start \<Rightarrow>
          (case find_at [CHR 0x0A] start s of
             None \<Rightarrow> []
           | Some header_end \<Rightarrow>
               (case find_at ''-----END'' header_end s of
                  None \<Rightarrow> []
                | Some footer \<Rightarrow>
                    (case Base64Decode (take (footer - header_end - 1) (drop (header_end + 1) s)) of
                       Some der \<Rightarrow> if der \<noteq> [] \<and> hd der = 0x30 then [der] else []
                     | None \<Rightarrow> []) @ pem_certificates s (footer + 1))))"
  by pat_completeness auto
termination
proof (relation "measure (\<lambda>(s, pos). length s - pos)", goal_cases)
  case (2 s pos start header_end footer)
  then show ?case
    using find_at_ge [OF 2(1)] find_at_ge [OF 2(2)] find_at_ge [OF 2(3)] find_at_less [OF 2(3)] by simp
qed simp

definition AppendCertificates :: "cert_net \<Rightarrow> bytes \<Rightarrow> bytes list \<Rightarrow> bytes list" where
  "AppendCertificates N raw out =
     (if raw = [] then out
      else case ExtractCertificatesFromPkcs7 N raw of
        Some (cert # bundle) \<Rightarrow> out @ cert # bundle
      | _ \<Rightarrow> if hd raw = 0x30 then out @ [raw] else out @ pem_certificates (string_of_bytes raw) 0)"

section \<open>LDAP\<close>

definition LDAP_PORT :: int where
  "LDAP_PORT = 389"

text \<open>
  Host, port and base; \<open>None\<close> where the address is refused. The outer \<open>None\<close> is the exception
  \<open>std::out_of_range\<close> of \<open>std::stoi\<close> on a port of more digits than an \<open>int\<close> has.
\<close>

definition SplitLdapUrl :: "string \<Rightarrow> string \<Rightarrow> (string \<times> int \<times> string) option option" where
  "SplitLdapUrl url base_dn =
     (let scheme = ''ldap://''
      in if length url \<le> length scheme \<or> map tolower (take (length scheme) url) \<noteq> scheme then Some None
         else
           let rest = drop (length scheme) url;
               (authority, base_dn) = (case find_char CHR ''/'' rest of
                 Some slash \<Rightarrow> (take slash rest, drop (slash + 1) rest) | None \<Rightarrow> (rest, base_dn))
           in case rfind_char CHR '':'' authority of
                None \<Rightarrow> Some (if authority = [] then None else Some (authority, LDAP_PORT, base_dn))
              | Some colon \<Rightarrow>
                  (let host = take colon authority;
                       port_text = drop (colon + 1) authority;
                       found = (\<lambda>port. Some (if host = [] then None else Some (host, port, base_dn)))
                   in if port_text = [] \<or> \<not> list_all isdigit port_text then found LDAP_PORT
                      else if digits_number 10 port_text > 2 ^ 31 - 1 then None
                      else found (digits_number 10 port_text)))"

definition escape_filter_char :: "char \<Rightarrow> string" where
  "escape_filter_char ch =
     (if ch = CHR ''*'' then CHR 0x5C # ''2a''
      else if ch = CHR ''('' then CHR 0x5C # ''28''
      else if ch = CHR '')'' then CHR 0x5C # ''29''
      else if ch = CHR 0x5C then CHR 0x5C # ''5c''
      else if ch = CHR 0x00 then CHR 0x5C # ''00''
      else [ch])"

definition EscapeLdapFilterValue :: "string \<Rightarrow> string" where
  "EscapeLdapFilterValue v = concat (map escape_filter_char v)"

definition ldap_filter :: "string \<Rightarrow> string" where
  "ldap_filter subject_hint =
     (if subject_hint = [] then ''(objectClass=*)''
      else let hint = EscapeLdapFilterValue subject_hint
           in ''(|(serialNumber='' @ hint @ '')(cn='' @ hint @ '')(ou='' @ hint @ ''))'')"

definition ldap_values :: "(string \<Rightarrow> bytes list) list \<Rightarrow> bytes list" where
  "ldap_values entries =
     filter (\<lambda>v. v \<noteq> []) (concat (map (\<lambda>entry. entry ''userCertificate;binary'' @ entry ''userCertificate'') entries))"

definition FetchViaWinLdap :: "cert_net \<Rightarrow> CertificateFetchRequest \<Rightarrow> CertificateFetchResult option" where
  "FetchViaWinLdap N request =
     (case SplitLdapUrl (cf_url request) (cf_base_dn request) of
        None \<Rightarrow> None
      | Some None \<Rightarrow> Some (no_fetch ''LDAP fetch: unsupported URL (expected ldap://host[:port][/base-dn])'')
      | Some (Some (host, port, base_dn)) \<Rightarrow>
          if base_dn = [] then Some (no_fetch ''LDAP fetch: base DN is required (neither in the URL nor in settings)'')
          else Some (case ldap_search N host port (cf_timeout_ms request) base_dn (ldap_filter (cf_subject_hint request)) of
            Inl message \<Rightarrow> no_fetch message
          | Inr entries \<Rightarrow>
              (let candidates = foldl (\<lambda>out v. AppendCertificates N v out) [] (ldap_values entries)
               in \<lparr>cf_executed = True, cf_candidates = candidates,
                   cf_message = (if candidates = [] then ''LDAP fetch: directory returned no certificates'' else [])\<rparr>)))"

definition LdapCertificateFetcher_Fetch :: "cert_net \<Rightarrow> CertificateFetchRequest \<Rightarrow> CertificateFetchResult option" where
  "LdapCertificateFetcher_Fetch N request =
     (if cf_url request = [] then Some (no_fetch ''LDAP fetch: no directory URL configured'')
      else if on_windows N then FetchViaWinLdap N request
      else Some (no_fetch ''LDAP fetch is only implemented on Windows (winldap)''))"

section \<open>CMP\<close>

text \<open>The octets of a length, most significant first.\<close>

function length_octets :: "nat \<Rightarrow> bytes" where
  "length_octets v = (if v = 0 then [] else length_octets (v div 256) @ [word_of_nat (v mod 256)])"
  by pat_completeness auto
termination
  by (relation "measure (\<lambda>v. v)") auto

declare length_octets.simps [simp del]

definition AppendDerLength :: "bytes \<Rightarrow> nat \<Rightarrow> bytes" where
  "AppendDerLength out len =
     (if len < 0x80 then out @ [word_of_nat len]
      else let buf = length_octets len in out @ (0x80 OR word_of_nat (length buf)) # buf)"

definition DerTlv :: "byte \<Rightarrow> bytes \<Rightarrow> bytes" where
  "DerTlv t content = AppendDerLength [t] (length content) @ content"

definition BuildCaCertsGenMessage :: bytes where
  "BuildCaCertsGenMessage =
     (let null_dn = DerTlv 0xA4 (DerTlv 0x30 []);
          header = DerTlv 0x30 (DerTlv 0x02 [0x02] @ null_dn @ null_dn);
          id_it_ca_certs = DerTlv 0x06 [0x2B, 0x06, 0x01, 0x05, 0x05, 0x07, 0x04, 0x11];
          info = DerTlv 0x30 id_it_ca_certs;
          pki_body = DerTlv 0xB5 (DerTlv 0x30 info)
      in DerTlv 0x30 (header @ pki_body))"

text \<open>
  The scan of a response. A candidate at \<open>i\<close> is a sequence with the long form of the length; the
  length comes from \<open>ParseTlvAt\<close>, whose limit is the size of the buffer.
\<close>

definition blob_size :: "bytes \<Rightarrow> nat" where
  "blob_size der_blob = unat (buffer_size der_blob)"

definition candidate_length :: "bytes \<Rightarrow> nat \<Rightarrow> nat option" where
  "candidate_length der_blob i =
     (if der_blob ! i \<noteq> 0x30 \<or> der_blob ! (i + 1) AND 0x80 = 0 then None
      else case ParseTlvAt_limit der_blob (word_of_nat i) (buffer_size der_blob) empty_view of
        Some (True, tlv) \<Rightarrow>
          if value_length tlv = 0 then None else Some (unat (next_offset tlv - word_of_nat i))
      | _ \<Rightarrow> None)"

lemma blob_size_le: "blob_size der_blob \<le> length der_blob"
  by (simp add: blob_size_def buffer_size_def unat_of_nat)

lemma candidate_length_bounds:
  assumes "candidate_length der_blob i = Some extent" "i < blob_size der_blob"
  shows "0 < extent" "i + extent \<le> blob_size der_blob"
proof -
  have i: "unat (word_of_nat i :: size_w) = i" using assms(2) unsigned_less [of "buffer_size der_blob", where ?'a = nat]
    by (simp add: blob_size_def unat_of_nat)
  have b: "der_blob \<noteq> []" using assms(2) by (auto simp: blob_size_def buffer_size_def)
  obtain tlv where t: "ParseTlvAt_limit der_blob (word_of_nat i) (buffer_size der_blob) empty_view = Some (True, tlv)"
    and extent: "extent = unat (next_offset tlv - word_of_nat i)"
    using assms(1) by (auto simp: candidate_length_def split: if_splits option.splits prod.splits bool.splits)
  have "tlv_result (Some (True, tlv)) (tlv_spec der_blob i (blob_size der_blob))"
    using ParseTlvAt_ptr_correct [of "buffer_size der_blob" der_blob "word_of_nat i" empty_view] t b blob_size_le [of der_blob]
    by (simp add: ParseTlvAt_limit_def Let_def i blob_size_def)
  then obtain voff vlen where s: "len_spec der_blob (Suc i) (blob_size der_blob) = Some (voff, vlen)" "unat (next_offset tlv) = voff + vlen"
    by (auto simp: tlv_result_def tlv_spec_def split: option.splits if_splits)
  have "Suc i < voff" "voff + vlen \<le> blob_size der_blob" using len_spec_bounds [OF s(1)] by simp_all
  moreover have "extent = voff + vlen - i"
    unfolding extent using s(2) calculation by (subst unat_sub) (simp_all add: i word_le_nat_alt)
  ultimately show "0 < extent" "i + extent \<le> blob_size der_blob" by simp_all
qed

function harvest_from :: "cert_net \<Rightarrow> bytes \<Rightarrow> nat \<Rightarrow> bytes list" where
  "harvest_from N der_blob i =
     (if i + 4 < blob_size der_blob then
        (case candidate_length der_blob i of
           None \<Rightarrow> harvest_from N der_blob (i + 1)
         | Some extent \<Rightarrow>
             let candidate = take extent (drop i der_blob)
             in if IsCertificateDer N candidate then candidate # harvest_from N der_blob (i + extent)
                else harvest_from N der_blob (i + 1))
      else [])"
  by pat_completeness auto
termination
  by (relation "measure (\<lambda>(N, der_blob, i). blob_size der_blob - i)") (auto dest: candidate_length_bounds intro!: diff_less_mono2)

declare harvest_from.simps [simp del] pem_certificates.simps [simp del]

definition HarvestCertificates :: "cert_net \<Rightarrow> bytes \<Rightarrow> bytes list" where
  "HarvestCertificates N der_blob = (if blob_size der_blob < 64 then [] else harvest_from N der_blob 0)"

definition CmpCertificateFetcher_Fetch :: "cert_net \<Rightarrow> CertificateFetchRequest \<Rightarrow> CertificateFetchResult" where
  "CmpCertificateFetcher_Fetch N request =
     (if cf_url request = [] then no_fetch ''CMP fetch: no endpoint configured (cmpAddress is empty for this CA)''
      else
        let response = cn_post N (cf_url request) BuildCaCertsGenMessage ''application/pkixcmp'' ''application/pkixcmp'' (cf_timeout_ms request)
        in if \<not> IsHttpSuccess response
           then no_fetch (''CMP fetch: request failed (status '' @ to_string (http_status_code response) @ '')'')
           else
             let candidates = HarvestCertificates N (http_body response)
             in \<lparr>cf_executed = True, cf_candidates = candidates,
                 cf_message = (if candidates = [] then ''CMP fetch: response contained no certificates'' else [])\<rparr>)"

section \<open>HTTP\<close>

definition HttpCertificateFetcher_Fetch :: "cert_net \<Rightarrow> CertificateFetchRequest \<Rightarrow> CertificateFetchResult" where
  "HttpCertificateFetcher_Fetch N request =
     (if cf_url request = [] then no_fetch ''HTTP fetch: no certificate URL configured''
      else
        let response = cn_get N (cf_url request) ''application/pkcs7-mime, application/x-x509-ca-cert, */*'' (cf_timeout_ms request)
        in if \<not> IsHttpSuccess response
           then no_fetch (''HTTP fetch: request failed (status '' @ to_string (http_status_code response) @ '')'')
           else
             let candidates = AppendCertificates N (http_body response) []
             in \<lparr>cf_executed = True, cf_candidates = candidates,
                 cf_message = (if candidates = [] then ''HTTP fetch: response contained no certificates'' else [])\<rparr>)"

section \<open>The filter of a search\<close>

text \<open>
  A reader of filters as RFC 4515 defines them: a value goes to the closing parenthesis, an escape
  is a backslash with two hexadecimal digits, the other special characters do not occur in a value.
  \<open>read_or\<close> reads a disjunction of equalities to its end.
\<close>

definition hex_digit_of :: "char \<Rightarrow> nat option" where
  "hex_digit_of ch = digit_in_base 16 ch"

fun filter_value :: "string \<Rightarrow> (string \<times> string) option" where
  "filter_value [] = None"
| "filter_value (ch # s) =
     (if ch = CHR '')'' then Some ([], s)
      else if ch = CHR ''('' \<or> ch = CHR ''*'' \<or> ch = CHR 0x00 then None
      else if ch = CHR 0x5C then
        (case s of
           a # b # s \<Rightarrow>
             (case (hex_digit_of a, hex_digit_of b, filter_value s) of
                (Some h, Some l, Some (v, rest)) \<Rightarrow> Some (char_of (16 * h + l) # v, rest)
              | _ \<Rightarrow> None)
         | _ \<Rightarrow> None)
      else map_option (\<lambda>(v, rest). (ch # v, rest)) (filter_value s))"

definition read_equality :: "string \<Rightarrow> (string \<times> string \<times> string) option" where
  "read_equality s =
     (case s of
        [] \<Rightarrow> None
      | ch # s \<Rightarrow>
          if ch \<noteq> CHR ''('' then None
          else case find_char CHR ''='' s of
            None \<Rightarrow> None
          | Some k \<Rightarrow> map_option (\<lambda>(v, rest). (take k s, v, rest)) (filter_value (drop (k + 1) s)))"

fun read_equalities :: "nat \<Rightarrow> string \<Rightarrow> (string \<times> string) list option" where
  "read_equalities 0 s = (if s = '')'' then Some [] else None)"
| "read_equalities (Suc n) s =
     (case read_equality s of
        None \<Rightarrow> None
      | Some (attribute, v, rest) \<Rightarrow> map_option (\<lambda>es. (attribute, v) # es) (read_equalities n rest))"

definition read_or :: "nat \<Rightarrow> string \<Rightarrow> (string \<times> string) list option" where
  "read_or n s = (if prefix ''(|'' s then read_equalities n (drop 2 s) else None)"

lemma filter_value_escaped: "filter_value (EscapeLdapFilterValue v @ CHR '')'' # rest) = Some (v, rest)"
proof (induction v)
  case (Cons ch v)
  have hex: "hex_digit_of CHR ''2'' = Some 2" "hex_digit_of CHR ''a'' = Some 10" "hex_digit_of CHR ''8'' = Some 8"
    "hex_digit_of CHR ''9'' = Some 9" "hex_digit_of CHR ''5'' = Some 5" "hex_digit_of CHR ''c'' = Some 12" "hex_digit_of CHR ''0'' = Some 0"
    by code_simp+
  have chars: "char_of (42 :: nat) = CHR ''*''" "char_of (40 :: nat) = CHR ''(''" "char_of (41 :: nat) = CHR '')''"
    "char_of (92 :: nat) = CHR 0x5C" "char_of (0 :: nat) = CHR 0x00" by code_simp+
  show ?case using Cons by (auto simp: EscapeLdapFilterValue_def escape_filter_char_def hex chars)
qed (simp add: EscapeLdapFilterValue_def)

text \<open>
  The search filter for a hint, as a directory reads it, is the disjunction of three equalities
  whose value is the hint, byte for byte, whatever characters it has: no hint can end a value, add
  a condition or act as a wildcard.
\<close>

theorem ldap_filter_exact:
  assumes "hint \<noteq> []"
  shows "read_or 3 (ldap_filter hint) = Some [(''serialNumber'', hint), (''cn'', hint), (''ou'', hint)]"
proof -
  have e: "read_equality (CHR ''('' # attribute @ CHR ''='' # EscapeLdapFilterValue hint @ CHR '')'' # rest) = Some (attribute, hint, rest)"
    if "CHR ''='' \<notin> set attribute" for attribute rest
  proof -
    have "find_index (\<lambda>x. x = CHR ''='') attribute = None" using that by (auto simp: find_index_None_iff)
    then have "find_char CHR ''='' (attribute @ CHR ''='' # s) = Some (length attribute)" for s
      by (simp add: find_char_def find_index_append)
    then show ?thesis by (simp add: read_equality_def filter_value_escaped)
  qed
  show ?thesis
    using assms e [of "''serialNumber''"] e [of "''cn''"] e [of "''ou''"]
    by (simp add: ldap_filter_def Let_def read_or_def numeral_3_eq_3)
qed

theorem ldap_filter_exact_witness:
  "read_or 3 (ldap_filter ''x)(cn=*'') = Some [(''serialNumber'', ''x)(cn=*''), (''cn'', ''x)(cn=*''), (''ou'', ''x)(cn=*'')]"
  using ldap_filter_exact [of "''x)(cn=*''"] by simp

section \<open>What a scan finds\<close>

text \<open>A certificate at a position, and places in a buffer that follow each other without overlap.\<close>

definition cert_at :: "cert_net \<Rightarrow> bytes \<Rightarrow> nat \<Rightarrow> nat \<Rightarrow> bool" where
  "cert_at N der_blob i n \<longleftrightarrow> candidate_length der_blob i = Some n \<and> IsCertificateDer N (take n (drop i der_blob))"

fun apart :: "nat \<Rightarrow> (nat \<times> nat) list \<Rightarrow> bool" where
  "apart i [] = True"
| "apart i ((s, n) # places) = (i \<le> s \<and> 0 < n \<and> apart (s + n) places)"

lemma apart_mono: "apart i places \<Longrightarrow> j \<le> i \<Longrightarrow> apart j places"
  by (cases places) auto

lemma harvest_places:
  "\<exists>places. harvest_from N der_blob i = map (\<lambda>(s, n). take n (drop s der_blob)) places \<and> apart i places
     \<and> list_all (\<lambda>(s, n). cert_at N der_blob s n) places
     \<and> (\<forall>j n. i \<le> j \<and> j + 4 < blob_size der_blob \<and> cert_at N der_blob j n \<longrightarrow> (\<exists>(s, m) \<in> set places. s \<le> j \<and> j < s + m))"
proof (induction N der_blob i rule: harvest_from.induct)
  case (1 N der_blob i)
  show ?case
  proof (cases "i + 4 < blob_size der_blob \<and> (\<exists>n. cert_at N der_blob i n)")
    case True
    then obtain n where c: "candidate_length der_blob i = Some n" "IsCertificateDer N (take n (drop i der_blob))" by (auto simp: cert_at_def)
    obtain places where p: "harvest_from N der_blob (i + n) = map (\<lambda>(s, n). take n (drop s der_blob)) places" "apart (i + n) places"
      "list_all (\<lambda>(s, n). cert_at N der_blob s n) places"
      "\<forall>j m. i + n \<le> j \<and> j + 4 < blob_size der_blob \<and> cert_at N der_blob j m \<longrightarrow> (\<exists>(s, m) \<in> set places. s \<le> j \<and> j < s + m)"
      using 1(2) [OF _ c(1) refl c(2)] True by blast
    have "0 < n" using candidate_length_bounds [OF c(1)] True by simp
    moreover have "harvest_from N der_blob i = take n (drop i der_blob) # harvest_from N der_blob (i + n)"
      using True c by (simp add: harvest_from.simps [of N der_blob i])
    moreover have "\<exists>(s, m) \<in> set ((i, n) # places). s \<le> j \<and> j < s + m"
      if "i \<le> j" "j + 4 < blob_size der_blob" "cert_at N der_blob j m" for j m
      using that p(4) by (cases "i + n \<le> j") auto
    ultimately show ?thesis
      using p(1,2,3) c by (intro exI [of _ "(i, n) # places"] conjI allI impI) (simp_all add: cert_at_def, blast)
  next
    case no: False
    show ?thesis
    proof (cases "i + 4 < blob_size der_blob")
      case True
      then have step: "harvest_from N der_blob i = harvest_from N der_blob (i + 1)"
        using no by (auto simp: harvest_from.simps [of N der_blob i] cert_at_def Let_def split: option.split)
      obtain places where p: "harvest_from N der_blob (i + 1) = map (\<lambda>(s, n). take n (drop s der_blob)) places" "apart (i + 1) places"
        "list_all (\<lambda>(s, n). cert_at N der_blob s n) places"
        "\<forall>j m. i + 1 \<le> j \<and> j + 4 < blob_size der_blob \<and> cert_at N der_blob j m \<longrightarrow> (\<exists>(s, m) \<in> set places. s \<le> j \<and> j < s + m)"
      proof (cases "candidate_length der_blob i")
        case None
        then show ?thesis using that 1(1) [OF True None] by blast
      next
        case (Some n)
        then have "\<not> IsCertificateDer N (take n (drop i der_blob))" using no True by (auto simp: cert_at_def)
        then show ?thesis using that 1(3) [OF True Some refl] by blast
      qed
      have "i + 1 \<le> j" if "i \<le> j" "cert_at N der_blob j m" "j + 4 < blob_size der_blob" for j m
        using that no by (cases "i = j") auto
      then have "\<forall>j n. i \<le> j \<and> j + 4 < blob_size der_blob \<and> cert_at N der_blob j n \<longrightarrow> (\<exists>(s, m) \<in> set places. s \<le> j \<and> j < s + m)"
        using p(4) by blast
      then show ?thesis using p(1,3) step apart_mono [OF p(2), of i] by (intro exI [of _ places] conjI) simp_all
    qed (auto simp: harvest_from.simps [of N der_blob i] intro: exI [of _ "[]"])
  qed
qed

end
