(* ===== verification/Json.thy ===== *)
theory Json
  imports Utf
begin

text \<open>
  \<open>util/Json.{h,cpp}\<close>: escaping, the string token, the skipper of values with its limit on nesting,
  and the lookup of a member by a path of keys. The cursor \<open>offset\<close> into \<open>json\<close> is modelled by the
  part of the text that is still to be read: the sources read only there. A function that returns
  \<open>bool\<close> and moves the cursor is a function to \<open>option\<close> that gives the rest.
\<close>

abbreviation quote :: char where "quote \<equiv> CHR 0x22"
abbreviation backslash :: char where "backslash \<equiv> CHR 0x5C"

definition kMaxJsonNestingDepth :: nat where
  "kMaxJsonNestingDepth = 100"

section \<open>Tokens\<close>

definition json_hex_digit :: "char \<Rightarrow> u32 option" where
  "json_hex_digit ch =
     (if code CHR ''0'' \<le> code ch \<and> code ch \<le> code CHR ''9'' then Some (of_nat (code ch - code CHR ''0''))
      else if code CHR ''a'' \<le> code ch \<and> code ch \<le> code CHR ''f'' then Some (of_nat (10 + (code ch - code CHR ''a'')))
      else if code CHR ''A'' \<le> code ch \<and> code ch \<le> code CHR ''F'' then Some (of_nat (10 + (code ch - code CHR ''A'')))
      else None)"

fun json_hex_digits :: "u32 \<Rightarrow> string \<Rightarrow> u32 option" where
  "json_hex_digits v [] = Some v"
| "json_hex_digits v (ch # chs) =
     (case json_hex_digit ch of None \<Rightarrow> None | Some d \<Rightarrow> json_hex_digits (push_bit 4 v OR d) chs)"

definition ParseJsonHexQuad :: "string \<Rightarrow> (u32 \<times> string) option" where
  "ParseJsonHexQuad json =
     (if length json < 4 then None else map_option (\<lambda>v. (v, drop 4 json)) (json_hex_digits 0 (take 4 json)))"

definition SkipJsonWhitespace :: "string \<Rightarrow> string" where
  "SkipJsonWhitespace json = dropWhile isspace json"

text \<open>What an escape sequence adds to the output, the backslash being read already.\<close>

definition parse_unicode_escape :: "string \<Rightarrow> (string \<times> string) option" where
  "parse_unicode_escape json =
     (case ParseJsonHexQuad json of
        None \<Rightarrow> None
      | Some (code_point, json) \<Rightarrow>
          (case (if code_point \<ge> 0xD800 \<and> code_point \<le> 0xDBFF then
                   if length json < 6 \<or> json ! 0 \<noteq> backslash \<or> json ! 1 \<noteq> CHR ''u'' then None
                   else (case ParseJsonHexQuad (drop 2 json) of
                       None \<Rightarrow> None
                     | Some (trail, json) \<Rightarrow>
                         if trail < 0xDC00 \<or> trail > 0xDFFF then None
                         else Some (0x10000 + push_bit 10 (code_point - 0xD800) + (trail - 0xDC00), json))
                 else Some (code_point, json)) of
             None \<Rightarrow> None
           | Some (code_point, json) \<Rightarrow> map_option (\<lambda>bs. (string_of_bytes bs, json)) (AppendUtf8CodePoint code_point)))"

definition parse_escape :: "string \<Rightarrow> (string \<times> string) option" where
  "parse_escape json =
     (case json of
        [] \<Rightarrow> None
      | escaped # json \<Rightarrow>
          if escaped = quote \<or> escaped = backslash \<or> escaped = CHR ''/'' then Some ([escaped], json)
          else if escaped = CHR ''b'' then Some ([CHR 0x08], json)
          else if escaped = CHR ''f'' then Some ([CHR 0x0C], json)
          else if escaped = CHR ''n'' then Some ([CHR 0x0A], json)
          else if escaped = CHR ''r'' then Some ([CHR 0x0D], json)
          else if escaped = CHR ''t'' then Some ([CHR 0x09], json)
          else if escaped = CHR ''u'' then parse_unicode_escape json
          else None)"

lemma ParseJsonHexQuad_rest: "ParseJsonHexQuad json = Some (v, rest) \<Longrightarrow> length rest < length json"
  by (auto simp: ParseJsonHexQuad_def split: if_splits)

lemma parse_unicode_escape_rest:
  assumes "parse_unicode_escape json = Some (out, rest)" shows "length rest < length json"
proof -
  obtain cp json' where q: "ParseJsonHexQuad json = Some (cp, json')"
    using assms by (auto simp: parse_unicode_escape_def split: option.splits)
  have t: "length r < length json'" if "ParseJsonHexQuad (drop 2 json') = Some (v, r)" for v r
    using ParseJsonHexQuad_rest [OF that] by simp
  show ?thesis
    using assms t ParseJsonHexQuad_rest [OF q] unfolding parse_unicode_escape_def q
    by (fastforce split: option.splits if_splits prod.splits)
qed

lemma parse_escape_rest: "parse_escape json = Some (out, rest) \<Longrightarrow> length rest < length json"
  by (auto simp: parse_escape_def dest!: parse_unicode_escape_rest split: list.splits if_splits)

function parse_json_chars :: "string \<Rightarrow> (string \<times> string) option" where
  "parse_json_chars [] = None"
| "parse_json_chars (ch # json) =
     (if ch = quote then Some ([], json)
      else if code ch < 0x20 then None
      else if ch \<noteq> backslash then map_option (\<lambda>(out, rest). (ch # out, rest)) (parse_json_chars json)
      else case parse_escape json of
        None \<Rightarrow> None
      | Some (piece, json) \<Rightarrow> map_option (\<lambda>(out, rest). (piece @ out, rest)) (parse_json_chars json))"
  by pat_completeness auto
termination by (relation "measure length") (auto dest: parse_escape_rest)

definition ParseJsonString :: "string \<Rightarrow> (string \<times> string) option" where
  "ParseJsonString json =
     (case json of [] \<Rightarrow> None | ch # json \<Rightarrow> if ch \<noteq> quote then None else parse_json_chars json)"

lemma parse_json_chars_rest: "parse_json_chars json = Some (out, rest) \<Longrightarrow> length rest < length json"
proof (induction json arbitrary: out rest rule: parse_json_chars.induct)
  case (2 ch json)
  show ?case
  proof (cases "ch = quote \<or> code ch < 0x20 \<or> ch \<noteq> backslash")
    case True
    then show ?thesis using 2 by (fastforce split: if_splits)
  next
    case False
    then obtain piece json' where "parse_escape json = Some (piece, json')"
      using "2.prems" by (auto split: option.splits)
    then show ?thesis using False "2.prems" "2.IH"(2) [OF _ _ _ \<open>parse_escape json = _\<close> refl] parse_escape_rest
      by (fastforce split: if_splits)
  qed
qed simp

lemma ParseJsonString_rest: "ParseJsonString json = Some (out, rest) \<Longrightarrow> length rest < length json"
  by (auto simp: ParseJsonString_def dest: parse_json_chars_rest split: list.splits if_splits)

lemma SkipJsonWhitespace_length: "length (SkipJsonWhitespace json) \<le> length json"
  by (simp add: SkipJsonWhitespace_def length_dropWhile_le)

section \<open>Skipping a value\<close>

definition skip_digits :: "string \<Rightarrow> string option" where
  "skip_digits json = (case json of [] \<Rightarrow> None | ch # _ \<Rightarrow> if isdigit ch then Some (dropWhile isdigit json) else None)"

definition skip_integer_part :: "string \<Rightarrow> string option" where
  "skip_integer_part json =
     (case json of [] \<Rightarrow> None | ch # rest \<Rightarrow> if ch = CHR ''0'' then Some rest else skip_digits json)"

definition skip_fraction :: "string \<Rightarrow> string option" where
  "skip_fraction json = (case json of ch # rest \<Rightarrow> if ch = CHR ''.'' then skip_digits rest else Some json | [] \<Rightarrow> Some json)"

definition skip_exponent :: "string \<Rightarrow> string option" where
  "skip_exponent json =
     (case json of
        ch # rest \<Rightarrow>
          if ch = CHR ''e'' \<or> ch = CHR ''E'' then
            skip_digits (case rest of s # rest' \<Rightarrow> if s = CHR ''+'' \<or> s = CHR ''-'' then rest' else rest | [] \<Rightarrow> rest)
          else Some json
      | [] \<Rightarrow> Some json)"

definition SkipJsonNumberToken :: "string \<Rightarrow> string option" where
  "SkipJsonNumberToken json =
     (case skip_integer_part (case json of ch # rest \<Rightarrow> if ch = CHR ''-'' then rest else json | [] \<Rightarrow> json) of
        None \<Rightarrow> None
      | Some json1 \<Rightarrow>
          (case skip_fraction json1 of
             None \<Rightarrow> None
           | Some json2 \<Rightarrow>
               (case skip_exponent json2 of
                  None \<Rightarrow> None
                | Some json3 \<Rightarrow> if length json3 < length json then Some json3 else None)))"

definition SkipJsonLiteralToken :: "string \<Rightarrow> string \<Rightarrow> string option" where
  "SkipJsonLiteralToken json literal =
     (if take (length literal) json \<noteq> literal then None else Some (drop (length literal) json))"

lemma skip_digits_rest: "skip_digits json = Some rest \<Longrightarrow> length rest < length json"
  by (auto simp: skip_digits_def le_imp_less_Suc length_dropWhile_le split: list.splits if_splits)

lemma SkipJsonNumberToken_rest: "SkipJsonNumberToken json = Some rest \<Longrightarrow> length rest < length json"
  by (auto simp: SkipJsonNumberToken_def split: option.splits if_splits)

lemma SkipJsonLiteralToken_rest:
  "SkipJsonLiteralToken json literal = Some rest \<Longrightarrow> literal \<noteq> [] \<Longrightarrow> length rest < length json"
  by (cases json) (auto simp: SkipJsonLiteralToken_def split: if_splits)

text \<open>A key with its colon, as both loops over members read it.\<close>

definition skip_colon :: "string \<Rightarrow> string option" where
  "skip_colon json =
     (case SkipJsonWhitespace json of
        ch # rest \<Rightarrow> if ch \<noteq> CHR '':'' then None else Some (SkipJsonWhitespace rest) | [] \<Rightarrow> None)"

definition read_key :: "string \<Rightarrow> (string \<times> string) option" where
  "read_key json =
     (case ParseJsonString json of
        None \<Rightarrow> None
      | Some (key, json) \<Rightarrow> map_option (\<lambda>rest. (key, rest)) (skip_colon json))"

lemma whitespace_Cons: "SkipJsonWhitespace json = ch # rest \<Longrightarrow> length rest < length json"
  using SkipJsonWhitespace_length [of json] by simp

lemma read_key_rest: assumes "read_key json = Some (key, rest)" shows "length rest < length json"
proof -
  obtain json1 where p: "ParseJsonString json = Some (key, json1)" "skip_colon json1 = Some rest"
    using assms by (auto simp: read_key_def split: option.splits)
  then obtain ch json2 where "SkipJsonWhitespace json1 = ch # json2" "rest = SkipJsonWhitespace json2"
    by (auto simp: skip_colon_def split: list.splits if_splits)
  then show ?thesis
    using ParseJsonString_rest [OF p(1)] whitespace_Cons [of json1] SkipJsonWhitespace_length [of json2] by fastforce
qed

function SkipJsonValue :: "nat \<Rightarrow> string \<Rightarrow> string option"
  and SkipJsonComposite :: "char \<Rightarrow> char \<Rightarrow> nat \<Rightarrow> string \<Rightarrow> string option"
  and skip_elements :: "char \<Rightarrow> char \<Rightarrow> nat \<Rightarrow> string \<Rightarrow> string option" where
  "SkipJsonValue enclosing_depth json =
     (case SkipJsonWhitespace json of
        [] \<Rightarrow> None
      | ch # rest \<Rightarrow>
          if ch = quote then map_option snd (ParseJsonString (ch # rest))
          else if ch = CHR ''{'' then SkipJsonComposite CHR ''{'' CHR ''}'' (enclosing_depth + 1) (ch # rest)
          else if ch = CHR ''['' then SkipJsonComposite CHR ''['' CHR '']'' (enclosing_depth + 1) (ch # rest)
          else if ch = CHR ''t'' then SkipJsonLiteralToken (ch # rest) ''true''
          else if ch = CHR ''f'' then SkipJsonLiteralToken (ch # rest) ''false''
          else if ch = CHR ''n'' then SkipJsonLiteralToken (ch # rest) ''null''
          else SkipJsonNumberToken (ch # rest))"
| "SkipJsonComposite open close depth json =
     (if depth > kMaxJsonNestingDepth then None
      else case json of
        [] \<Rightarrow> None
      | ch # rest \<Rightarrow>
          if ch \<noteq> open then None
          else case SkipJsonWhitespace rest of
            [] \<Rightarrow> None
          | ch # rest' \<Rightarrow> if ch = close then Some rest' else skip_elements open close depth (ch # rest'))"
| "skip_elements open close depth json =
     (if json = [] then None
      else case (if open = CHR ''{'' then map_option snd (read_key json) else Some json) of
        None \<Rightarrow> None
      | Some json1 \<Rightarrow>
          (case SkipJsonValue depth json1 of
             None \<Rightarrow> None
           | Some json2 \<Rightarrow>
               (case SkipJsonWhitespace json2 of
                  [] \<Rightarrow> None
                | ch # rest \<Rightarrow>
                    if ch = close then Some rest
                    else if ch \<noteq> CHR '','' then None
                    else skip_elements open close depth (SkipJsonWhitespace rest))))"
  by pat_completeness auto

text \<open>A value takes text away wherever the skipper returns; so its calls get shorter texts and it always returns.\<close>

lemma skip_rest_partial:
  "SkipJsonValue_SkipJsonComposite_skip_elements_dom (Inl (d, json)) \<Longrightarrow>
     (\<forall>rest. SkipJsonValue d json = Some rest \<longrightarrow> length rest < length json)"
  "SkipJsonValue_SkipJsonComposite_skip_elements_dom (Inr (Inl (oc, cc, d, json))) \<Longrightarrow>
     (\<forall>rest. SkipJsonComposite oc cc d json = Some rest \<longrightarrow> length rest < length json)"
  "SkipJsonValue_SkipJsonComposite_skip_elements_dom (Inr (Inr (oc, cc, d, json))) \<Longrightarrow>
     (\<forall>rest. skip_elements oc cc d json = Some rest \<longrightarrow> length rest < length json)"
proof (induction d json and oc cc d json and oc cc d json rule: SkipJsonValue_SkipJsonComposite_skip_elements.pinduct)
  case (1 d json)
  show ?case
  proof (cases "SkipJsonWhitespace json")
    case Nil
    then show ?thesis using 1(1) by (simp add: SkipJsonValue.psimps)
  next
    case (Cons ch rest)
    show ?thesis
    proof (intro allI impI)
      fix r
      assume "SkipJsonValue d json = Some r"
      note r = this [unfolded SkipJsonValue.psimps [OF 1(1)] Cons list.case]
      have "length r < length (ch # rest)"
      proof (cases "ch = CHR ''{'' \<or> ch = CHR ''[''")
        case True
        then show ?thesis using r 1(2) [OF Cons] 1(3) [OF Cons] by auto
      next
        case False
        then show ?thesis
          using r by (auto dest: ParseJsonString_rest SkipJsonLiteralToken_rest SkipJsonNumberToken_rest split: if_splits)
      qed
      then show "length r < length json" using Cons SkipJsonWhitespace_length [of json] by simp
    qed
  qed
next
  case (2 oc cc d json)
  show ?case
  proof (cases "\<exists>rest ch rest'. json = oc # rest \<and> SkipJsonWhitespace rest = ch # rest'")
    case True
    then obtain rest ch rest' where j: "json = oc # rest" "SkipJsonWhitespace rest = ch # rest'" by blast
    then show ?thesis
      using 2(1) 2(2) [OF _ j(1) _ j(2)] whitespace_Cons [OF j(2)]
      by (fastforce simp: SkipJsonComposite.psimps split: if_splits)
  next
    case False
    then show ?thesis using 2(1) by (auto simp: SkipJsonComposite.psimps split: list.splits if_splits)
  qed
next
  case (3 oc cc d json)
  show ?case
  proof (intro allI impI)
    fix rest
    assume r: "skip_elements oc cc d json = Some rest"
    then have ne: "json \<noteq> []" using 3(1) by (auto simp: skip_elements.psimps)
    with r obtain json1 where j1: "(if oc = CHR ''{'' then map_option snd (read_key json) else Some json) = Some json1"
      using 3(1) by (auto simp: skip_elements.psimps split: option.splits)
    with r ne obtain json2 where j2: "SkipJsonValue d json1 = Some json2"
      using 3(1) by (auto simp: skip_elements.psimps split: option.splits)
    with r ne j1 obtain ch rest1 where j3: "SkipJsonWhitespace json2 = ch # rest1"
      using 3(1) by (auto simp: skip_elements.psimps split: list.splits)
    have "length json1 \<le> length json" using j1 read_key_rest by (fastforce split: if_splits)
    moreover have "length json2 < length json1" using 3(2) [OF ne j1] j2 by blast
    moreover note whitespace_Cons [OF j3] SkipJsonWhitespace_length [of rest1]
    ultimately show "length rest < length json"
      using 3(1) 3(3) [OF ne j1 j2 j3] r ne j1 j2 j3 by (fastforce simp: skip_elements.psimps split: if_splits)
  qed
qed

lemma skip_returns: "All SkipJsonValue_SkipJsonComposite_skip_elements_dom"
proof (relation "measures [\<lambda>x. case x of Inl (d, json) \<Rightarrow> length json | Inr (Inl (oc, cc, d, json)) \<Rightarrow> length json
      | Inr (Inr (oc, cc, d, json)) \<Rightarrow> length json,
    \<lambda>x. case x of Inl _ \<Rightarrow> 2 | Inr (Inl _) \<Rightarrow> 1 | Inr (Inr _) \<Rightarrow> 3]", goal_cases)
  case 1
  then show ?case by simp
next
  case (2 d json ch rest)
  then show ?case using whitespace_Cons [OF 2(1)] by auto
next
  case (3 d json ch rest)
  then show ?case using whitespace_Cons [OF 3(1)] by auto
next
  case (4 oc cc d json ch rest ch' rest')
  then show ?case using whitespace_Cons [of rest] by auto
next
  case (5 oc cc d json json1)
  then have "length json1 \<le> length json" using read_key_rest by (fastforce split: if_splits)
  then show ?case by auto
next
  case (6 oc cc d json json1 json2 ch rest)
  have "length json1 \<le> length json" using 6(2) read_key_rest by (fastforce split: if_splits)
  moreover have "length json2 < length json1" using skip_rest_partial(1) [OF 6(7)] 6(3) by blast
  moreover note whitespace_Cons [OF 6(4)] SkipJsonWhitespace_length [of rest]
  ultimately show ?case by simp
qed

termination SkipJsonValue by (rule skip_returns)

declare SkipJsonValue.simps [simp del] SkipJsonComposite.simps [simp del] skip_elements.simps [simp del]

lemma skip_value_rest: "SkipJsonValue d json = Some rest \<Longrightarrow> length rest < length json"
  using skip_rest_partial(1) skip_returns by blast

section \<open>Looking up a member\<close>

function find_member :: "string \<Rightarrow> nat \<Rightarrow> string \<Rightarrow> string option" where
  "find_member key depth json =
     (case read_key json of
        None \<Rightarrow> None
      | Some (current_key, json1) \<Rightarrow>
          if current_key = key then Some json1
          else (case SkipJsonValue depth json1 of
             None \<Rightarrow> None
           | Some json2 \<Rightarrow>
               (case SkipJsonWhitespace json2 of
                  [] \<Rightarrow> None
                | ch # rest \<Rightarrow>
                    if ch = CHR ''}'' then None
                    else if ch \<noteq> CHR '','' then None
                    else find_member key depth (SkipJsonWhitespace rest))))"
  by pat_completeness auto
termination
proof (relation "measure (\<lambda>(key, depth, json). length json)", goal_cases)
  case (2 key depth json x current_key json1 json2 ch rest)
  then show ?case
    using read_key_rest [of json] skip_value_rest [of depth json1] whitespace_Cons [of json2] SkipJsonWhitespace_length [of rest]
    by fastforce
qed simp

declare find_member.simps [simp del]

definition FindJsonMemberValue :: "string \<Rightarrow> string \<Rightarrow> nat \<Rightarrow> string option" where
  "FindJsonMemberValue json key depth =
     (case SkipJsonWhitespace json of
        [] \<Rightarrow> None
      | ch # rest \<Rightarrow>
          if ch \<noteq> CHR ''{'' then None
          else case SkipJsonWhitespace rest of
            ch # rest' \<Rightarrow> if ch = CHR ''}'' then None else find_member key depth (ch # rest')
          | [] \<Rightarrow> None)"

fun find_path_from :: "nat \<Rightarrow> string list \<Rightarrow> string \<Rightarrow> string option" where
  "find_path_from i [] json = Some json"
| "find_path_from i (key # path) json =
     (case FindJsonMemberValue json key (i + 1) of None \<Rightarrow> None | Some json \<Rightarrow> find_path_from (i + 1) path json)"

definition FindJsonPathValue :: "string \<Rightarrow> string list \<Rightarrow> string option" where
  "FindJsonPathValue json path = (if path = [] then None else find_path_from 0 path json)"

definition is_value_terminator :: "string \<Rightarrow> bool" where
  "is_value_terminator json =
     (case json of [] \<Rightarrow> True | ch # _ \<Rightarrow> ch = CHR '','' \<or> ch = CHR ''}'' \<or> ch = CHR '']'' \<or> isspace ch)"

definition ReadBoolAt :: "string \<Rightarrow> bool option" where
  "ReadBoolAt json =
     (if take 4 json = ''true'' \<and> is_value_terminator (drop 4 json) then Some True
      else if take 5 json = ''false'' \<and> is_value_terminator (drop 5 json) then Some False
      else None)"

definition ExtractJsonStringPath :: "string \<Rightarrow> string list \<Rightarrow> string option" where
  "ExtractJsonStringPath json path =
     (case FindJsonPathValue json path of None \<Rightarrow> None | Some v \<Rightarrow> map_option fst (ParseJsonString v))"

definition ExtractJsonBoolPath :: "string \<Rightarrow> string list \<Rightarrow> bool option" where
  "ExtractJsonBoolPath json path = (case FindJsonPathValue json path of None \<Rightarrow> None | Some v \<Rightarrow> ReadBoolAt v)"

definition ExtractJsonString :: "string \<Rightarrow> string \<Rightarrow> string option" where
  "ExtractJsonString json key = ExtractJsonStringPath json [key]"

definition ExtractJsonBool :: "string \<Rightarrow> string \<Rightarrow> bool option" where
  "ExtractJsonBool json key = ExtractJsonBoolPath json [key]"

section \<open>Writing\<close>

definition hex_digit_char :: "nat \<Rightarrow> char" where
  "hex_digit_char n = (if n < 10 then char_of (48 + n) else char_of (87 + n))"

definition escape_json_char :: "char \<Rightarrow> string" where
  "escape_json_char ch =
     (if ch = backslash then [backslash, backslash]
      else if ch = quote then [backslash, quote]
      else if ch = CHR 0x0A then [backslash, CHR ''n'']
      else if ch = CHR 0x0D then [backslash, CHR ''r'']
      else if ch = CHR 0x09 then [backslash, CHR ''t'']
      else if ch = CHR 0x08 then [backslash, CHR ''b'']
      else if ch = CHR 0x0C then [backslash, CHR ''f'']
      else if code ch < 0x20 then
        [backslash, CHR ''u'', CHR ''0'', CHR ''0'', hex_digit_char (code ch div 16), hex_digit_char (code ch mod 16)]
      else [ch])"

definition EscapeJson :: "string \<Rightarrow> string" where
  "EscapeJson value = concat (map escape_json_char value)"

definition BoolJson :: "bool \<Rightarrow> string" where
  "BoolJson value = (if value then ''true'' else ''false'')"

section \<open>Strings survive\<close>

lemma json_hex_digit_char: "n < 16 \<Longrightarrow> json_hex_digit (hex_digit_char n) = Some (of_nat n)"
  by (auto simp: json_hex_digit_def hex_digit_char_def)

lemma control_quad: "n < 32 \<Longrightarrow> push_bit 4 (of_nat (n div 16)) OR of_nat (n mod 16) = (of_nat n :: u32)"
proof -
  have "list_all (\<lambda>n. push_bit 4 (of_nat (n div 16)) OR of_nat (n mod 16) = (of_nat n :: u32)) [0..<32]" by code_simp
  then show "n < 32 \<Longrightarrow> push_bit 4 (of_nat (n div 16)) OR of_nat (n mod 16) = (of_nat n :: u32)" by (simp add: list_all_iff)
qed

lemma unicode_escape_control:
  assumes "n < 32"
  shows "parse_unicode_escape (CHR ''0'' # CHR ''0'' # hex_digit_char (n div 16) # hex_digit_char (n mod 16) # rest)
    = Some ([char_of n], rest)"
proof -
  have "json_hex_digit CHR ''0'' = Some 0" by code_simp
  moreover have "n div 16 < 16" "n mod 16 < 16" using assms by auto
  ultimately have q: "ParseJsonHexQuad (CHR ''0'' # CHR ''0'' # hex_digit_char (n div 16) # hex_digit_char (n mod 16) # rest)
      = Some (of_nat n, rest)"
    using control_quad [OF assms] by (simp add: ParseJsonHexQuad_def json_hex_digit_char)
  have u: "unat (of_nat n :: u32) = n" "unat (of_nat n :: byte) = n" using assms by (simp_all add: unat_of_nat)
  then have "ucast (of_nat n :: u32) = (of_nat n :: byte)"
    using assms by (simp add: word_unat_eq_iff unat_ucast_to_byte)
  with u have small: "\<not> (of_nat n :: u32) \<ge> 0xD800" "AppendUtf8CodePoint (of_nat n) = Some [of_nat n]"
    using assms by (simp_all add: AppendUtf8CodePoint_def word_le_nat_alt word_less_nat_alt)
  show ?thesis
    unfolding parse_unicode_escape_def q option.case prod.case using small u
    by (simp add: string_of_bytes_def char_of_byte_def)
qed

lemma parse_escaped_char:
  "parse_json_chars (escape_json_char ch @ json) = map_option (\<lambda>(out, rest). (ch # out, rest)) (parse_json_chars json)"
proof (cases "code ch < 0x20 \<and> ch \<notin> {CHR 0x0A, CHR 0x0D, CHR 0x09, CHR 0x08, CHR 0x0C}")
  case True
  then have "ch \<noteq> backslash" "ch \<noteq> quote" by auto
  with True have e: "escape_json_char ch
      = [backslash, CHR ''u'', CHR ''0'', CHR ''0'', hex_digit_char (code ch div 16), hex_digit_char (code ch mod 16)]"
    by (simp add: escape_json_char_def)
  have "parse_unicode_escape (CHR ''0'' # CHR ''0'' # hex_digit_char (code ch div 16) # hex_digit_char (code ch mod 16) # json)
      = Some ([ch], json)"
    using unicode_escape_control [of "code ch" json] True by simp
  then show ?thesis unfolding e by (simp add: parse_escape_def)
next
  case False
  then show ?thesis by (auto simp: escape_json_char_def parse_escape_def)
qed

lemma parse_escaped: "parse_json_chars (EscapeJson v @ quote # rest) = Some (v, rest)"
proof (induction v)
  case Nil
  then show ?case by (simp add: EscapeJson_def)
next
  case (Cons ch v)
  then show ?case using parse_escaped_char [of ch "EscapeJson v @ quote # rest"] by (simp add: EscapeJson_def)
qed

text \<open>
  Every string survives JSON: the token reader, applied to the escaped text of a string in
  quotes, returns exactly the string and the text after the closing quote, whatever bytes the
  string holds (control characters, quotes, backslashes, bytes that are no UTF-8).
\<close>

theorem json_string_roundtrip: "ParseJsonString (quote # EscapeJson value @ quote # rest) = Some (value, rest)"
  by (simp add: ParseJsonString_def parse_escaped)

section \<open>Documents\<close>

text \<open>
  What the library writes: compact text without white space, keys and strings escaped. A document
  is a tree; its depth counts the nested arrays and objects.
\<close>

datatype json_tree =
  J_Null | J_Bool bool | J_Number int | J_String string | J_Array "json_tree list" | J_Object "(string \<times> json_tree) list"

fun join_commas :: "string list \<Rightarrow> string" where
  "join_commas [] = []"
| "join_commas [x] = x"
| "join_commas (x # y # xs) = x @ CHR '','' # join_commas (y # xs)"

definition quoted :: "string \<Rightarrow> string" where
  "quoted s = quote # EscapeJson s @ [quote]"

fun json_text :: "json_tree \<Rightarrow> string" where
  "json_text J_Null = ''null''"
| "json_text (J_Bool b) = BoolJson b"
| "json_text (J_Number n) = to_string n"
| "json_text (J_String s) = quoted s"
| "json_text (J_Array vs) = ''['' @ join_commas (map json_text vs) @ '']''"
| "json_text (J_Object ms) = ''{'' @ join_commas (map (\<lambda>(k, v). quoted k @ CHR '':'' # json_text v) ms) @ ''}''"

fun json_depth :: "json_tree \<Rightarrow> nat" where
  "json_depth (J_Array vs) = Suc (Max (insert 0 (set (map json_depth vs))))"
| "json_depth (J_Object ms) = Suc (Max (insert 0 (set (map (\<lambda>(k, v). json_depth v) ms))))"
| "json_depth _ = 0"

fun tree_path :: "string list \<Rightarrow> json_tree \<Rightarrow> json_tree option" where
  "tree_path [] v = Some v"
| "tree_path (k # ks) (J_Object ms) = (case map_of ms k of None \<Rightarrow> None | Some v \<Rightarrow> tree_path ks v)"
| "tree_path (k # ks) _ = None"

definition ends_value :: "string \<Rightarrow> bool" where
  "ends_value rest = (case rest of [] \<Rightarrow> True | ch # _ \<Rightarrow> ch = CHR '','' \<or> ch = CHR ''}'' \<or> ch = CHR '']'')"

lemma ends_value_simps [simp]: "ends_value []" "ends_value (CHR '','' # r)" "ends_value (CHR ''}'' # r)" "ends_value (CHR '']'' # r)"
  by (simp_all add: ends_value_def)

subsection \<open>Numbers\<close>

lemma nat_to_string_digits: "list_all isdigit (nat_to_string n)"
proof (induction n rule: nat_to_string.induct)
  case (1 n)
  show ?case
  proof (cases "n < 10")
    case True
    then show ?thesis by (subst nat_to_string.simps) (simp add: isdigit_def)
  next
    case False
    moreover have "isdigit (char_of (48 + n mod 10))" by (simp add: isdigit_def)
    ultimately show ?thesis using 1 by (subst nat_to_string.simps) simp
  qed
qed

lemma digit_zero: "m < 10 \<Longrightarrow> char_of (48 + m) = CHR ''0'' \<longleftrightarrow> m = (0 :: nat)"
proof -
  assume m: "m < 10"
  have "char_of (48 + m) = CHR ''0'' \<longleftrightarrow> code (char_of (48 + m)) = code CHR ''0''" by (metis char_of_char)
  then show ?thesis using m by simp
qed

lemma nat_to_string_first:
  "\<exists>ch rest. nat_to_string n = ch # rest \<and> isdigit ch \<and> (ch = CHR ''0'' \<longleftrightarrow> n = 0) \<and> (n = 0 \<longrightarrow> rest = [])"
proof (induction n rule: nat_to_string.induct)
  case (1 n)
  show ?case
  proof (cases "n < 10")
    case True
    then show ?thesis by (subst nat_to_string.simps) (simp add: isdigit_def digit_zero)
  next
    case False
    then have "n div 10 \<noteq> 0" by simp
    then obtain ch rest where "nat_to_string (n div 10) = ch # rest" "isdigit ch" "ch \<noteq> CHR ''0''" using 1 [OF False] by metis
    then show ?thesis using False by (subst nat_to_string.simps) simp
  qed
qed

lemma dropWhile_digits: "list_all isdigit ds \<Longrightarrow> ends_value rest \<Longrightarrow> dropWhile isdigit (ds @ rest) = rest"
  by (induction ds) (auto simp: ends_value_def isdigit_def split: list.splits)

lemma skip_integer_text: "ends_value rest \<Longrightarrow> skip_integer_part (nat_to_string n @ rest) = Some rest"
proof -
  assume rest: "ends_value rest"
  obtain ch ds where d: "nat_to_string n = ch # ds" "isdigit ch" "ch = CHR ''0'' \<longleftrightarrow> n = 0" "n = 0 \<longrightarrow> ds = []"
    using nat_to_string_first by blast
  show ?thesis
    using d dropWhile_digits [OF nat_to_string_digits rest, of n] by (auto simp: skip_integer_part_def skip_digits_def)
qed

lemma skip_fraction_end: "ends_value rest \<Longrightarrow> skip_fraction rest = Some rest" "ends_value rest \<Longrightarrow> skip_exponent rest = Some rest"
  by (auto simp: ends_value_def skip_fraction_def skip_exponent_def split: list.splits)

lemma skip_number_text: "ends_value rest \<Longrightarrow> SkipJsonNumberToken (to_string n @ rest) = Some rest"
proof -
  assume rest: "ends_value rest"
  obtain ch ds where d: "nat_to_string (nat \<bar>n\<bar>) = ch # ds" "isdigit ch" using nat_to_string_first by blast
  then have "ch \<noteq> CHR ''-''" by (auto simp: isdigit_def)
  then show ?thesis
    using skip_integer_text [OF rest, of "nat \<bar>n\<bar>"] d skip_fraction_end [OF rest]
    by (cases "n < 0") (simp_all add: SkipJsonNumberToken_def to_string_def)
qed

lemma to_string_first: "\<exists>ch rest. to_string n = ch # rest \<and> (isdigit ch \<or> ch = CHR ''-'')"
  using nat_to_string_first [of "nat \<bar>n\<bar>"] by (cases "n < 0") (auto simp: to_string_def)

subsection \<open>The skipper on documents\<close>

text \<open>A value never starts with white space, a comma or a closing bracket.\<close>

lemma json_text_first:
  "\<exists>ch rest. json_text v = ch # rest \<and> \<not> isspace ch \<and> ch \<noteq> CHR '']'' \<and> ch \<noteq> CHR ''}'' \<and> ch \<noteq> CHR '',''"
proof (cases v)
  case (J_Number n)
  then show ?thesis using to_string_first [of n] by (auto simp: isdigit_def isspace_def)
qed (auto simp: BoolJson_def quoted_def isspace_def)

lemma json_text_ws [simp]: "SkipJsonWhitespace (json_text v @ rest) = json_text v @ rest"
  using json_text_first [of v] by (auto simp: SkipJsonWhitespace_def)

lemma punctuation_ws [simp]:
  "SkipJsonWhitespace (CHR '','' # r) = CHR '','' # r" "SkipJsonWhitespace (CHR ''}'' # r) = CHR ''}'' # r"
  "SkipJsonWhitespace (CHR '']'' # r) = CHR '']'' # r" "SkipJsonWhitespace (CHR '':'' # r) = CHR '':'' # r"
  "SkipJsonWhitespace (CHR ''{'' # r) = CHR ''{'' # r" "SkipJsonWhitespace (quote # r) = quote # r" "SkipJsonWhitespace [] = []"
  by (simp_all add: SkipJsonWhitespace_def isspace_def)

lemma read_key_text [simp]: "read_key (quoted k @ CHR '':'' # json_text v @ rest) = Some (k, json_text v @ rest)"
  by (simp add: read_key_def quoted_def ParseJsonString_def parse_escaped skip_colon_def)

lemma SkipJsonValue_scalar:
  "SkipJsonValue d (json_text J_Null @ rest) = Some rest" "SkipJsonValue d (json_text (J_Bool b) @ rest) = Some rest"
  "SkipJsonValue d (json_text (J_String s) @ rest) = Some rest"
  "ends_value rest \<Longrightarrow> SkipJsonValue d (json_text (J_Number n) @ rest) = Some rest"
proof -
  show "SkipJsonValue d (json_text J_Null @ rest) = Some rest" "SkipJsonValue d (json_text (J_Bool b) @ rest) = Some rest"
    by (simp_all only: SkipJsonValue.simps json_text_ws) (simp_all add: SkipJsonLiteralToken_def BoolJson_def)
  show "SkipJsonValue d (json_text (J_String s) @ rest) = Some rest"
    by (simp only: SkipJsonValue.simps json_text_ws) (simp add: quoted_def ParseJsonString_def parse_escaped)
  assume "ends_value rest"
  moreover obtain ch ds where "to_string n = ch # ds" "isdigit ch \<or> ch = CHR ''-''" using to_string_first by blast
  moreover from this(2) have "ch \<noteq> quote" "ch \<noteq> CHR ''{''" "ch \<noteq> CHR ''[''" "ch \<noteq> CHR ''t''" "ch \<noteq> CHR ''f''" "ch \<noteq> CHR ''n''"
    by (auto simp: isdigit_def)
  ultimately show "SkipJsonValue d (json_text (J_Number n) @ rest) = Some rest"
    using skip_number_text [of rest n] by (simp only: SkipJsonValue.simps json_text_ws) simp
qed

lemma skip_elements_step:
  assumes "json \<noteq> []"
    and "(case (if oc = CHR ''{'' then map_option snd (read_key json) else Some json) of
         None \<Rightarrow> None | Some json \<Rightarrow> SkipJsonValue d json) = r"
  shows "skip_elements oc cc d json = (case r of None \<Rightarrow> None | Some json2 \<Rightarrow>
     (case SkipJsonWhitespace json2 of [] \<Rightarrow> None
      | ch # rest \<Rightarrow> if ch = cc then Some rest else if ch \<noteq> CHR '','' then None
                    else skip_elements oc cc d (SkipJsonWhitespace rest)))"
  using assms by (subst skip_elements.simps) (cases "if oc = CHR ''{'' then map_option snd (read_key json) else Some json", simp_all)

lemma skip_elements_join:
  assumes "xs \<noteq> []" "cc = CHR '']'' \<or> cc = CHR ''}''"
    and first: "\<And>x. x \<in> set xs \<Longrightarrow> \<exists>ch r. f x = ch # r \<and> \<not> isspace ch"
    and step: "\<And>x rest. x \<in> set xs \<Longrightarrow> ends_value rest \<Longrightarrow>
      (case (if oc = CHR ''{'' then map_option snd (read_key (f x @ rest)) else Some (f x @ rest)) of
         None \<Rightarrow> None | Some json \<Rightarrow> SkipJsonValue d json) = (if ok x then Some rest else None)"
  shows "skip_elements oc cc d (join_commas (map f xs) @ cc # rest) = (if list_all ok xs then Some rest else None)"
  using assms(1) first step
proof (induction xs)
  case (Cons x xs)
  have ws: "SkipJsonWhitespace (cc # r) = cc # r" "ends_value (cc # r)" for r using assms(2) by auto
  have ne: "f x @ r \<noteq> []" for r using Cons.prems(2) [of x] by auto
  note step = Cons.prems(3) [of x]
  show ?case
  proof (cases xs)
    case Nil
    show ?thesis
      using skip_elements_step [OF ne step [OF _ ws(2)], of cc rest] ws(1) [of rest] by (simp add: Nil)
  next
    case (Cons y ys)
    obtain ch r where y: "f y = ch # r" "\<not> isspace ch" using Cons.prems(2) [of y] Cons by auto
    have tail: "SkipJsonWhitespace (join_commas (map f xs) @ cc # rest) = join_commas (map f xs) @ cc # rest"
      using y unfolding Cons by (cases ys) (simp_all add: SkipJsonWhitespace_def)
    have IH: "skip_elements oc cc d (join_commas (map f xs) @ cc # rest) = (if list_all ok xs then Some rest else None)"
      using Cons.IH Cons.prems Cons by simp
    have "CHR '','' \<noteq> cc" using assms(2) by auto
    then show ?thesis
      using skip_elements_step [OF ne step, of "CHR '','' # join_commas (map f xs) @ cc # rest" cc] tail IH by (simp add: Cons)
  qed
qed simp

definition fits :: "nat \<Rightarrow> json_tree \<Rightarrow> bool" where
  "fits d v \<longleftrightarrow> d + json_depth v \<le> kMaxJsonNestingDepth \<or> json_depth v = 0"

lemma depth_list_le: "Max (insert 0 (set ns)) \<le> m \<longleftrightarrow> list_all (\<lambda>n. n \<le> m) ns" for m :: nat
  by (auto simp: list_all_iff)

lemma fits_composite:
  "fits d (J_Array vs) \<longleftrightarrow> d < kMaxJsonNestingDepth \<and> list_all (fits (Suc d)) vs"
  "fits d (J_Object ms) \<longleftrightarrow> d < kMaxJsonNestingDepth \<and> list_all (\<lambda>m. fits (Suc d) (snd m)) ms"
proof -
  have "Suc d + m \<le> K \<longleftrightarrow> d < K \<and> m \<le> K - Suc d" for m K :: nat by auto
  then show "fits d (J_Array vs) \<longleftrightarrow> d < kMaxJsonNestingDepth \<and> list_all (fits (Suc d)) vs"
    "fits d (J_Object ms) \<longleftrightarrow> d < kMaxJsonNestingDepth \<and> list_all (\<lambda>m. fits (Suc d) (snd m)) ms"
    unfolding fits_def json_depth.simps add_Suc_right add_Suc [symmetric] depth_list_le
    by (auto simp: list_all_iff le_diff_conv2)
qed

lemma skip_composite_join:
  assumes "(oc = CHR ''['' \<and> cc = CHR '']'') \<or> (oc = CHR ''{'' \<and> cc = CHR ''}'')"
    and first: "\<And>x. x \<in> set xs \<Longrightarrow> \<exists>ch r. f x = ch # r \<and> \<not> isspace ch \<and> ch \<noteq> cc"
    and step: "\<And>x rest. x \<in> set xs \<Longrightarrow> ends_value rest \<Longrightarrow>
      (case (if oc = CHR ''{'' then map_option snd (read_key (f x @ rest)) else Some (f x @ rest)) of
         None \<Rightarrow> None | Some json \<Rightarrow> SkipJsonValue (Suc d) json) = (if ok x then Some rest else None)"
  shows "SkipJsonValue d (oc # join_commas (map f xs) @ cc # rest)
    = (if d < kMaxJsonNestingDepth \<and> list_all ok xs then Some rest else None)"
proof -
  have ws: "SkipJsonWhitespace (cc # r) = cc # r" "SkipJsonWhitespace (oc # r) = oc # r" for r
    using assms(1) by (auto simp: SkipJsonWhitespace_def isspace_def)
  have composite: "SkipJsonValue d (oc # r) = SkipJsonComposite oc cc (Suc d) (oc # r)" for r
    using assms(1) ws(2) [of r] by (subst SkipJsonValue.simps) auto
  show ?thesis
  proof (cases xs)
    case Nil
    then show ?thesis unfolding composite by (subst SkipJsonComposite.simps) (auto simp: ws)
  next
    case (Cons x xs')
    obtain ch r where x: "f x = ch # r" "\<not> isspace ch" "ch \<noteq> cc" using first [of x] Cons by auto
    then obtain r' where j: "join_commas (map f xs) @ cc # rest = ch # r'"
      unfolding Cons by (cases xs') auto
    have "SkipJsonWhitespace (ch # r') = ch # r'" using x by (simp add: SkipJsonWhitespace_def)
    moreover have "skip_elements oc cc (Suc d) (ch # r') = (if list_all ok xs then Some rest else None)"
      unfolding j [symmetric] 
      by (rule skip_elements_join) (use assms(1) first step Cons in blast)+
    ultimately show ?thesis
      unfolding composite j using x(3) by (subst SkipJsonComposite.simps) auto
  qed
qed

lemma skip_text: "ends_value rest \<Longrightarrow> SkipJsonValue d (json_text v @ rest) = (if fits d v then Some rest else None)"
proof (induction v arbitrary: d rest)
  case (J_Array vs)
  have "\<exists>ch r. json_text v = ch # r \<and> \<not> isspace ch \<and> ch \<noteq> CHR '']''" for v using json_text_first [of v] by blast
  with skip_composite_join [of "CHR ''[''" "CHR '']''" vs json_text d "fits (Suc d)" rest] J_Array
  show ?case by (simp add: fits_composite)
next
  case (J_Object ms)
  have "\<exists>ch r. (case m of (k, v) \<Rightarrow> quoted k @ CHR '':'' # json_text v) = ch # r \<and> \<not> isspace ch \<and> ch \<noteq> CHR ''}''" for m
    by (cases m) (simp add: quoted_def isspace_def)
  moreover have "SkipJsonValue (Suc d) (json_text (snd m) @ r) = (if fits (Suc d) (snd m) then Some r else None)"
    if "m \<in> set ms" "ends_value r" for m r
    using J_Object(1) [OF that(1), of "snd m"] that(2) by (cases m) (simp add: snds.intros)
  ultimately show ?case
    using skip_composite_join [of "CHR ''{''" "CHR ''}''" ms "\<lambda>(k, v). quoted k @ CHR '':'' # json_text v" d "\<lambda>m. fits (Suc d) (snd m)" rest]
    by (simp add: fits_composite case_prod_beta)
qed (simp_all only: SkipJsonValue_scalar, simp_all add: fits_def)

text \<open>
  The skipper reads exactly one value of a document and nothing more, and refuses it if and
  only if arrays and objects are nested deeper than a hundred levels, counting the levels that
  are already open around the value.
\<close>

theorem json_nesting_limit:
  assumes "ends_value rest"
  shows "SkipJsonValue enclosing_depth (json_text v @ rest)
    = (if json_depth v = 0 \<or> enclosing_depth + json_depth v \<le> 100 then Some rest else None)"
  using skip_text [OF assms, of enclosing_depth v] by (auto simp: fits_def kMaxJsonNestingDepth_def)

definition nested_arrays :: "nat \<Rightarrow> json_tree" where
  "nested_arrays n = ((\<lambda>v. J_Array [v]) ^^ n) J_Null"

lemma nested_arrays_depth: "json_depth (nested_arrays n) = n"
  by (induction n) (simp_all add: nested_arrays_def)

theorem json_nesting_limit_witness:
  "SkipJsonValue 0 (json_text (nested_arrays 100) @ '','') = Some '','' \<and> SkipJsonValue 0 (json_text (nested_arrays 101) @ '','') = None"
  using json_nesting_limit [of "'',''" 0 "nested_arrays 100"] json_nesting_limit [of "'',''" 0 "nested_arrays 101"]
  by (simp add: nested_arrays_depth)

subsection \<open>The lookup on documents\<close>

abbreviation member_text :: "string \<times> json_tree \<Rightarrow> string" where
  "member_text \<equiv> \<lambda>(k, v). quoted k @ CHR '':'' # json_text v"

lemma join_member_ws: "SkipJsonWhitespace (join_commas (map member_text ms) @ CHR ''}'' # rest) = join_commas (map member_text ms) @ CHR ''}'' # rest"
  by (cases ms rule: remdups_adj.cases) (auto simp: quoted_def)

lemma find_member_text:
  assumes "list_all (\<lambda>m. fits d (snd m)) ms" "ms \<noteq> []"
  shows "(map_of ms key = None \<longrightarrow> find_member key d (join_commas (map member_text ms) @ CHR ''}'' # rest) = None)
    \<and> (\<forall>v. map_of ms key = Some v \<longrightarrow> (\<exists>rest'. ends_value rest' \<and>
        find_member key d (join_commas (map member_text ms) @ CHR ''}'' # rest) = Some (json_text v @ rest')))"
  using assms
proof (induction ms)
  case (Cons m ms)
  obtain k v where m: "m = (k, v)" by (cases m)
  define tail where "tail = (if ms = [] then CHR ''}'' # rest else CHR '','' # join_commas (map member_text ms) @ CHR ''}'' # rest)"
  have tail: "ends_value tail" by (simp add: tail_def)
  have j: "join_commas (map member_text (m # ms)) @ CHR ''}'' # rest = quoted k @ CHR '':'' # json_text v @ tail"
    by (cases ms) (simp_all add: m tail_def)
  have skip: "SkipJsonValue d (json_text v @ tail) = Some tail"
    using skip_text [OF tail, of d v] Cons.prems(1) by (simp add: m)
  show ?case
  proof (cases "k = key \<or> ms = []")
    case True
    then have "find_member key d (quoted k @ CHR '':'' # json_text v @ tail) = (if k = key then Some (json_text v @ tail) else None)"
      by (subst find_member.simps) (auto simp: skip, simp add: tail_def)
    then show ?thesis using True tail unfolding j by (auto simp: m)
  next
    case False
    then have "find_member key d (quoted k @ CHR '':'' # json_text v @ tail)
        = find_member key d (join_commas (map member_text ms) @ CHR ''}'' # rest)"
      by (subst find_member.simps) (simp add: skip, simp add: tail_def join_member_ws)
    then show ?thesis using Cons.IH Cons.prems False unfolding j by (auto simp: m)
  qed
qed simp

lemma text_not_object:
  assumes "json_text v = ch # r" "\<nexists>ms. v = J_Object ms"
  shows "ch \<noteq> CHR ''{''"
proof (cases v)
  case (J_Number n)
  then show ?thesis using assms(1) to_string_first [of n] by (auto simp: isdigit_def)
next
  case (J_Bool b)
  then show ?thesis using assms(1) by (cases b) (auto simp: BoolJson_def)
qed (use assms in \<open>auto simp: quoted_def\<close>)

lemma find_path_text:
  assumes "fits i v" "ends_value rest"
  shows "(tree_path path v = None \<longrightarrow> find_path_from i path (json_text v @ rest) = None)
    \<and> (\<forall>w. tree_path path v = Some w \<longrightarrow>
          (\<exists>rest'. ends_value rest' \<and> find_path_from i path (json_text v @ rest) = Some (json_text w @ rest')))"
  using assms
proof (induction path arbitrary: i v rest)
  case (Cons key path)
  show ?case
  proof (cases "\<exists>ms. v = J_Object ms \<and> ms \<noteq> []")
    case True
    then obtain ms where v: "v = J_Object ms" "ms \<noteq> []" by blast
    have fit: "list_all (\<lambda>m. fits (Suc i) (snd m)) ms" using Cons.prems(1) by (simp add: v fits_composite)
    obtain m ms' where ms: "ms = m # ms'" using v(2) by (cases ms) auto
    obtain r where "join_commas (map member_text ms) @ CHR ''}'' # rest = quote # r"
      unfolding ms by (cases m; cases ms') (auto simp: quoted_def)
    then have find: "FindJsonMemberValue (json_text v @ rest) key (Suc i)
        = find_member key (Suc i) (join_commas (map member_text ms) @ CHR ''}'' # rest)"
      by (simp add: FindJsonMemberValue_def v)
    show ?thesis
    proof (cases "map_of ms key")
      case None
      then show ?thesis using find_member_text [OF fit v(2), of key rest] find by (simp add: v)
    next
      case (Some w)
      then obtain rest' where w: "ends_value rest'" "FindJsonMemberValue (json_text v @ rest) key (Suc i) = Some (json_text w @ rest')"
        using find_member_text [OF fit v(2), of key rest] find by auto
      have "fits (Suc i) w" using fit map_of_SomeD [OF Some] by (auto simp: list_all_iff)
      from Cons.IH [OF this w(1)] show ?thesis using w Some by (simp add: v)
    qed
  next
    case False
    obtain ch r where first: "json_text v = ch # r" "\<not> isspace ch" using json_text_first by blast
    have "FindJsonMemberValue (json_text v @ rest) key (Suc i) = None"
    proof (cases "\<exists>ms. v = J_Object ms")
      case True
      then have "v = J_Object []" using False by blast
      then show ?thesis by (simp add: FindJsonMemberValue_def)
    next
      case False
      then have "ch \<noteq> CHR ''{''" using first text_not_object by blast
      then show ?thesis using first by (simp add: FindJsonMemberValue_def SkipJsonWhitespace_def)
    qed
    moreover have "tree_path (key # path) v = None" using False by (cases v) auto
    ultimately show ?thesis by simp
  qed
qed auto

lemma parse_string_text: "ParseJsonString (json_text w @ rest) = (case w of J_String s \<Rightarrow> Some (s, rest) | _ \<Rightarrow> None)"
proof (cases w)
  case (J_Number n)
  then show ?thesis using to_string_first [of n] by (auto simp: ParseJsonString_def isdigit_def)
qed (auto simp: ParseJsonString_def quoted_def parse_escaped BoolJson_def)

lemma read_bool_text: "ends_value rest \<Longrightarrow> ReadBoolAt (json_text w @ rest) = (case w of J_Bool b \<Rightarrow> Some b | _ \<Rightarrow> None)"
proof (cases w)
  case (J_Bool b)
  moreover assume "ends_value rest"
  then have "is_value_terminator rest" by (auto simp: ends_value_def is_value_terminator_def split: list.splits)
  ultimately show ?thesis by (simp add: ReadBoolAt_def BoolJson_def)
next
  case (J_Number n)
  then show ?thesis using to_string_first [of n] by (auto simp: ReadBoolAt_def isdigit_def)
qed (auto simp: ReadBoolAt_def quoted_def)

lemma extract_path_text:
  assumes "json_depth v \<le> kMaxJsonNestingDepth" "path \<noteq> []"
  shows "tree_path path v = None \<Longrightarrow> FindJsonPathValue (json_text v) path = None"
    "tree_path path v = Some w \<Longrightarrow> \<exists>rest. ends_value rest \<and> FindJsonPathValue (json_text v) path = Some (json_text w @ rest)"
proof -
  have "fits 0 v" using assms(1) by (simp add: fits_def)
  from find_path_text [OF this ends_value_simps(1), of path] assms(2)
  show "tree_path path v = None \<Longrightarrow> FindJsonPathValue (json_text v) path = None"
    "tree_path path v = Some w \<Longrightarrow> \<exists>rest. ends_value rest \<and> FindJsonPathValue (json_text v) path = Some (json_text w @ rest)"
    by (auto simp: FindJsonPathValue_def)
qed

lemma extract_text:
  assumes "json_depth v \<le> kMaxJsonNestingDepth" "path \<noteq> []"
  shows "ExtractJsonStringPath (json_text v) path = (case tree_path path v of Some (J_String s) \<Rightarrow> Some s | _ \<Rightarrow> None)"
    "ExtractJsonBoolPath (json_text v) path = (case tree_path path v of Some (J_Bool b) \<Rightarrow> Some b | _ \<Rightarrow> None)"
proof (atomize (full), cases "tree_path path v")
  case None
  then show "ExtractJsonStringPath (json_text v) path = (case tree_path path v of Some (J_String s) \<Rightarrow> Some s | _ \<Rightarrow> None)
    \<and> ExtractJsonBoolPath (json_text v) path = (case tree_path path v of Some (J_Bool b) \<Rightarrow> Some b | _ \<Rightarrow> None)"
    using extract_path_text(1) [OF assms] by (simp add: ExtractJsonStringPath_def ExtractJsonBoolPath_def)
next
  case (Some w)
  then obtain rest where rest: "ends_value rest" and f: "FindJsonPathValue (json_text v) path = Some (json_text w @ rest)"
    using extract_path_text(2) [OF assms] by blast
  show "ExtractJsonStringPath (json_text v) path = (case tree_path path v of Some (J_String s) \<Rightarrow> Some s | _ \<Rightarrow> None)
    \<and> ExtractJsonBoolPath (json_text v) path = (case tree_path path v of Some (J_Bool b) \<Rightarrow> Some b | _ \<Rightarrow> None)"
    unfolding ExtractJsonStringPath_def ExtractJsonBoolPath_def f Some option.case parse_string_text read_bool_text [OF rest]
    by (cases w) simp_all
qed

text \<open>
  C39. On every document within the nesting limit the extraction functions compute the lookup in
  the tree: they return the string or the truth value at the path, and nothing where a key is
  missing, a step is no object or the value has another type. A member of the same name in
  another object is never returned.
\<close>

theorem json_path_lookup:
  assumes "json_depth v \<le> 100" "path \<noteq> []"
  shows "ExtractJsonStringPath (json_text v) path = (case tree_path path v of Some (J_String s) \<Rightarrow> Some s | _ \<Rightarrow> None)
    \<and> ExtractJsonBoolPath (json_text v) path = (case tree_path path v of Some (J_Bool b) \<Rightarrow> Some b | _ \<Rightarrow> None)"
  using extract_text assms by (simp add: kMaxJsonNestingDepth_def)

definition sample_document :: json_tree where
  "sample_document = J_Object [(''trust'', J_Object [(''status'', J_String ''invalid''), (''valid'', J_Bool False)]),
     (''summary'', J_Object [(''details'', J_Array [J_Number (- 12), J_Null]), (''valid'', J_Bool True)])]"

theorem json_path_lookup_witness:
  "ExtractJsonBoolPath (json_text sample_document) [''summary'', ''valid''] = Some True
   \<and> ExtractJsonStringPath (json_text sample_document) [''summary'', ''status''] = None"
  using json_path_lookup [of sample_document "[''summary'', ''valid'']"] json_path_lookup [of sample_document "[''summary'', ''status'']"]
  by (simp add: sample_document_def)

end
