(* ===== verification/Ca_Registry.thy ===== *)
theory Ca_Registry
  imports Json Http_Client
begin

text \<open>
  The registry of certification authorities (\<open>core/net/CaSettingsRegistry.cpp\<close>): the document
  \<open>CAs.json\<close> is parsed whole or refused, kept in a file with its source and the time it was
  fetched, and searched by a hint. Texts are read as in the theory \<open>Json\<close>, from a suffix of the document.
  The files are a state with the record \<open>registry_files\<close>; the HTTP client is an argument.
\<close>

section \<open>Entries\<close>

record CaSettingsEntry =
  ca_issuer_cns :: "string list"
  ca_address :: string
  ca_edrpou :: string
  ca_ocsp_url :: string
  ca_cmp_url :: string
  ca_tsp_url :: string
  ca_direct_access :: bool

text \<open>The parameters that \<open>ParseEntry\<close> fills.\<close>

record raw_entry =
  re_entry :: CaSettingsEntry
  re_ocsp_address :: string
  re_ocsp_port :: string
  re_cmp_address :: string
  re_tsp_address :: string
  re_tsp_port :: string

definition new_entry :: raw_entry where
  "new_entry = \<lparr>re_entry = \<lparr>ca_issuer_cns = [], ca_address = [], ca_edrpou = [], ca_ocsp_url = [], ca_cmp_url = [], ca_tsp_url = [],
     ca_direct_access = False\<rparr>, re_ocsp_address = [], re_ocsp_port = [], re_cmp_address = [], re_tsp_address = [], re_tsp_port = []\<rparr>"

definition kArrayElementEnclosingDepth :: nat where
  "kArrayElementEnclosingDepth = 1"

definition kEntryMemberEnclosingDepth :: nat where
  "kEntryMemberEnclosingDepth = 2"

definition AtDocumentEnd :: "string \<Rightarrow> bool" where
  "AtDocumentEnd rest \<longleftrightarrow> SkipJsonWhitespace rest = []"

text \<open>The strings of \<open>issuerCNs\<close>, after the opening bracket.\<close>

function parse_names :: "string \<Rightarrow> (string list \<times> string) option" where
  "parse_names json =
     (case ParseJsonString json of
        None \<Rightarrow> None
      | Some (cn, json) \<Rightarrow>
          (case SkipJsonWhitespace json of
             [] \<Rightarrow> None
           | ch # rest \<Rightarrow>
               if ch = CHR '','' then map_option (\<lambda>(cns, rest). (cn # cns, rest)) (parse_names (SkipJsonWhitespace rest))
               else if ch = CHR '']'' then Some ([cn], rest)
               else None))"
  by pat_completeness auto
termination
proof (relation "measure length", goal_cases)
  case (2 json x cn json1 ch rest)
  then show ?case
    using ParseJsonString_rest [of json cn json1] whitespace_Cons [of json1 ch rest] SkipJsonWhitespace_length [of rest] by simp
qed simp

definition set_member :: "string \<Rightarrow> string \<Rightarrow> raw_entry \<Rightarrow> raw_entry" where
  "set_member key v e =
     (if key = ''address'' then e\<lparr>re_entry := (re_entry e)\<lparr>ca_address := v\<rparr>\<rparr>
      else if key = ''codeEDRPOU'' then e\<lparr>re_entry := (re_entry e)\<lparr>ca_edrpou := v\<rparr>\<rparr>
      else if key = ''ocspAccessPointAddress'' then e\<lparr>re_ocsp_address := v\<rparr>
      else if key = ''ocspAccessPointPort'' then e\<lparr>re_ocsp_port := v\<rparr>
      else if key = ''cmpAddress'' then e\<lparr>re_cmp_address := v\<rparr>
      else if key = ''tspAddress'' then e\<lparr>re_tsp_address := v\<rparr>
      else if key = ''tspAddressPort'' then e\<lparr>re_tsp_port := v\<rparr>
      else e)"

definition string_members :: "string list" where
  "string_members = [''address'', ''codeEDRPOU'', ''ocspAccessPointAddress'', ''ocspAccessPointPort'', ''cmpAddress'', ''tspAddress'', ''tspAddressPort'']"

text \<open>One value; the text begins with it.\<close>

definition parse_member :: "string \<Rightarrow> string \<Rightarrow> raw_entry \<Rightarrow> (raw_entry \<times> string) option" where
  "parse_member key json e =
     (let skipped = (\<lambda>e. map_option (\<lambda>rest. (e, rest)) (SkipJsonValue kEntryMemberEnclosingDepth json))
      in if key = ''issuerCNs'' \<and> json \<noteq> [] \<and> hd json = CHR ''['' then
           (let body = SkipJsonWhitespace (tl json)
            in if body \<noteq> [] \<and> hd body = CHR '']'' then Some (e, tl body)
               else map_option (\<lambda>(cns, rest). (e\<lparr>re_entry := (re_entry e)\<lparr>ca_issuer_cns := ca_issuer_cns (re_entry e) @ cns\<rparr>\<rparr>, rest))
                      (parse_names body))
         else if key \<in> set string_members then
           (let json' = SkipJsonWhitespace json
            in if json' \<noteq> [] \<and> hd json' = quote then map_option (\<lambda>(v, rest). (set_member key v e, rest)) (ParseJsonString json')
               else skipped e)
         else if key = ''directAccess'' then skipped (e\<lparr>re_entry := (re_entry e)\<lparr>ca_direct_access := prefix ''true'' json\<rparr>\<rparr>)
         else skipped e)"

lemma parse_names_rest: "parse_names json = Some (cns, rest) \<Longrightarrow> length rest < length json"
proof (induction json arbitrary: cns rest rule: parse_names.induct)
  case (1 json)
  obtain cn json1 where p: "ParseJsonString json = Some (cn, json1)" using 1(2) by (auto simp: parse_names.simps [of json] split: option.splits)
  obtain ch r where w: "SkipJsonWhitespace json1 = ch # r" using 1(2) p by (auto simp: parse_names.simps [of json] split: list.splits)
  have l: "length r < length json" using ParseJsonString_rest [OF p] whitespace_Cons [OF w] by simp
  show ?case
  proof (cases "ch = CHR '',''")
    case True
    then obtain cns' where "parse_names (SkipJsonWhitespace r) = Some (cns', rest)"
      using 1(2) p w by (auto simp: parse_names.simps [of json])
    then show ?thesis using 1(1) [OF p refl w True] SkipJsonWhitespace_length [of r] l by fastforce
  next
    case False
    then show ?thesis using 1(2) p w l by (auto simp: parse_names.simps [of json] split: if_splits)
  qed
qed

lemma parse_member_rest: "parse_member key json e = Some (e', rest) \<Longrightarrow> length rest < length json"
proof -
  assume a: "parse_member key json e = Some (e', rest)"
  consider (names) body where "json \<noteq> []" "body = SkipJsonWhitespace (tl json)" "body \<noteq> [] \<and> rest = tl body \<or> (\<exists>cns. parse_names body = Some (cns, rest))"
    | (str) v where "ParseJsonString (SkipJsonWhitespace json) = Some (v, rest)"
    | (skip) "SkipJsonValue kEntryMemberEnclosingDepth json = Some rest"
    using a unfolding parse_member_def Let_def by (auto split: if_splits)
  then show ?thesis
  proof cases
    case names
    have "length body < length json" using names(1,2) SkipJsonWhitespace_length [of "tl json"] by (cases json) auto
    then show ?thesis using names(3) parse_names_rest [of body] by fastforce
  next
    case str
    then show ?thesis using ParseJsonString_rest [OF str] SkipJsonWhitespace_length [of json] by simp
  next
    case skip
    then show ?thesis by (rule skip_value_rest)
  qed
qed

text \<open>The members of an entry, to its closing brace.\<close>

function parse_members :: "string \<Rightarrow> raw_entry \<Rightarrow> raw_entry option" where
  "parse_members json e =
     (case read_key json of
        None \<Rightarrow> None
      | Some (key, json1) \<Rightarrow>
          (case parse_member key json1 e of
             None \<Rightarrow> None
           | Some (e, json2) \<Rightarrow>
               (case SkipJsonWhitespace json2 of
                  [] \<Rightarrow> None
                | ch # rest \<Rightarrow>
                    if ch = CHR '','' then parse_members (SkipJsonWhitespace rest) e
                    else if ch = CHR ''}'' then Some e
                    else None)))"
  by pat_completeness auto
termination
proof (relation "measure (\<lambda>(json, e). length json)", goal_cases)
  case (2 json e x key json1 y e' json2 ch rest)
  then show ?case
    using read_key_rest [of json key json1] parse_member_rest [of key json1 e e' json2] whitespace_Cons [of json2 ch rest]
      SkipJsonWhitespace_length [of rest] by simp
qed simp

definition ParseEntry :: "string \<Rightarrow> raw_entry option" where
  "ParseEntry json =
     (case SkipJsonWhitespace json of
        [] \<Rightarrow> None
      | ch # rest \<Rightarrow>
          if ch \<noteq> CHR ''{'' then None
          else
            let rest = SkipJsonWhitespace rest
            in if rest \<noteq> [] \<and> hd rest = CHR ''}'' then None else parse_members rest new_entry)"

definition BuildUrl :: "string \<Rightarrow> string \<Rightarrow> string \<Rightarrow> string" where
  "BuildUrl address port default_path =
     (if address = [] then []
      else if prefix ''http://'' address \<or> prefix ''https://'' address then address
      else
        let (host, path) = (case find_char CHR ''/'' address of
              None \<Rightarrow> (address, []) | Some slash \<Rightarrow> (take slash address, drop slash address));
            url = ''http://'' @ host @ (if port \<noteq> [] \<and> port \<noteq> ''80'' then CHR '':'' # port else [])
        in url @ (if path \<noteq> [] then path else default_path))"

definition finish_entry :: "raw_entry \<Rightarrow> CaSettingsEntry" where
  "finish_entry e = (re_entry e)\<lparr>
     ca_ocsp_url := BuildUrl (re_ocsp_address e) (re_ocsp_port e) ''/services/ocsp/'',
     ca_cmp_url := BuildUrl (re_cmp_address e) [] ''/services/cmp/'',
     ca_tsp_url := BuildUrl (re_tsp_address e) (re_tsp_port e) ''/services/tsp/''\<rparr>"

section \<open>The document\<close>

definition usable_entry :: "string \<Rightarrow> CaSettingsEntry list" where
  "usable_entry json =
     (case ParseEntry json of Some e \<Rightarrow> if ca_address (re_entry e) \<noteq> [] then [finish_entry e] else [] | None \<Rightarrow> [])"

text \<open>The elements after the opening bracket, and what follows the array.\<close>

function parse_entries :: "string \<Rightarrow> string + CaSettingsEntry list \<times> string" where
  "parse_entries json =
     (case SkipJsonValue kArrayElementEnclosingDepth json of
        None \<Rightarrow> Inl ''CAs.json: malformed or truncated array element''
      | Some json1 \<Rightarrow>
          (case SkipJsonWhitespace json1 of
             [] \<Rightarrow> Inl ''CAs.json: unterminated top-level array''
           | ch # rest \<Rightarrow>
               if ch = CHR '','' then map_sum (\<lambda>m. m) (\<lambda>(out, rest). (usable_entry json @ out, rest)) (parse_entries rest)
               else if ch = CHR '']'' then Inr (usable_entry json, rest)
               else Inl ''CAs.json: unterminated top-level array''))"
  by pat_completeness auto
termination
proof (relation "measure length", goal_cases)
  case (2 json json1 ch rest)
  then show ?case using skip_value_rest [of kArrayElementEnclosingDepth json json1] whitespace_Cons [of json1 ch rest] by simp
qed simp

declare parse_names.simps [simp del] parse_members.simps [simp del] parse_entries.simps [simp del]

definition CaSettingsRegistry_ParseJson :: "string \<Rightarrow> string + CaSettingsEntry list" where
  "CaSettingsRegistry_ParseJson json =
     (case SkipJsonWhitespace json of
        [] \<Rightarrow> Inl ''CAs.json: expected a top-level array''
      | ch # rest \<Rightarrow>
          if ch \<noteq> CHR ''['' then Inl ''CAs.json: expected a top-level array''
          else
            let rest = SkipJsonWhitespace rest
            in if rest \<noteq> [] \<and> hd rest = CHR '']'' then
                 (if AtDocumentEnd (tl rest) then Inr [] else Inl ''CAs.json: trailing data after the top-level array'')
               else case parse_entries rest of
                 Inl message \<Rightarrow> Inl message
               | Inr (out, rest) \<Rightarrow>
                   if \<not> AtDocumentEnd rest then Inl ''CAs.json: trailing data after the top-level array''
                   else if out = [] then Inl ''CAs.json: no usable CA entries''
                   else Inr out)"

section \<open>The cache\<close>

record 'fs registry_files =
  rf_read_text :: "'fs \<Rightarrow> string \<Rightarrow> int \<Rightarrow> string option"
  rf_write :: "string \<Rightarrow> bytes \<Rightarrow> 'fs \<Rightarrow> bool \<times> 'fs"
  rf_create_directories :: "string \<Rightarrow> 'fs \<Rightarrow> 'fs"
  rf_join :: "string \<Rightarrow> string \<Rightarrow> string"
  rf_parent :: "string \<Rightarrow> string"

definition kMaxCachedArtifactSize :: int where
  "kMaxCachedArtifactSize = 64 * 1024 * 1024"

definition kCacheTtlSeconds :: int where
  "kCacheTtlSeconds = 24 * 60 * 60"

definition CacheMetadataPath :: "'fs registry_files \<Rightarrow> string \<Rightarrow> string" where
  "CacheMetadataPath R cache = rf_join R (rf_parent R cache) ''CAs.source''"

definition cache_metadata :: "string \<Rightarrow> int \<Rightarrow> string" where
  "cache_metadata source now = source @ [CHR 0x0A] @ to_string now @ [CHR 0x0A]"

definition WriteCacheMetadata :: "'fs registry_files \<Rightarrow> int \<Rightarrow> string \<Rightarrow> string \<Rightarrow> 'fs \<Rightarrow> 'fs" where
  "WriteCacheMetadata R now meta_path source fs = snd (rf_write R meta_path (bytes_of_string (cache_metadata source now)) fs)"

text \<open>\<open>strtoll\<close> in base 10; \<open>None\<close> without digits or outside 64 bits.\<close>

definition strtoll :: "string \<Rightarrow> int option" where
  "strtoll s =
     (let t = dropWhile isspace (c_str s);
          negative = (case t of ch # _ \<Rightarrow> ch = CHR ''-'' | [] \<Rightarrow> False);
          body = (case t of ch # r \<Rightarrow> if ch = CHR ''-'' \<or> ch = CHR ''+'' then r else t | [] \<Rightarrow> t);
          ds = takeWhile isdigit body;
          v = (if negative then - digits_number 10 ds else digits_number 10 ds)
      in if ds = [] \<or> v < - (2 ^ 63) \<or> v > 2 ^ 63 - 1 then None else Some v)"

definition IsCacheFresh :: "'fs registry_files \<Rightarrow> int \<Rightarrow> string \<Rightarrow> string \<Rightarrow> 'fs \<Rightarrow> bool" where
  "IsCacheFresh R now meta_path source fs =
     (case rf_read_text R fs meta_path kMaxCachedArtifactSize of
        None \<Rightarrow> False
      | Some content \<Rightarrow>
          (case find_char CHR 0x0A content of
             None \<Rightarrow> False
           | Some first_newline \<Rightarrow>
               if take first_newline content \<noteq> source then False
               else case strtoll (drop (first_newline + 1) content) of
                 None \<Rightarrow> False
               | Some written_at \<Rightarrow>
                   if written_at \<le> 0 then False
                   else if written_at > now then False
                   else now - written_at \<le> kCacheTtlSeconds))"

definition DefaultUrl :: string where
  "DefaultUrl = ''https://czo.gov.ua/download/certificates/CAs.json''"

definition registry_source :: "string \<Rightarrow> string" where
  "registry_source url = (if url = [] then DefaultUrl else url)"

definition cached_entries :: "'fs registry_files \<Rightarrow> string \<Rightarrow> 'fs \<Rightarrow> CaSettingsEntry list option" where
  "cached_entries R cache fs =
     (case rf_read_text R fs cache kMaxCachedArtifactSize of
        None \<Rightarrow> None
      | Some content \<Rightarrow>
          if content = [] then None
          else case CaSettingsRegistry_ParseJson content of Inl _ \<Rightarrow> None | Inr entries \<Rightarrow> Some entries)"

definition CaSettingsRegistry_Load ::
    "'fs registry_files \<Rightarrow> (string \<Rightarrow> string \<Rightarrow> int \<Rightarrow> HttpPostResult) \<Rightarrow> int \<Rightarrow> string \<Rightarrow> bool \<Rightarrow> string \<Rightarrow> int \<Rightarrow> 'fs
     \<Rightarrow> (string + CaSettingsEntry list) \<times> 'fs" where
  "CaSettingsRegistry_Load R get now work_dir offline url timeout fs =
     (let source = registry_source url;
          cache = (if work_dir = [] then [] else rf_join R work_dir ''CAs.json'');
          cached = (if work_dir = [] then None else cached_entries R cache fs);
          usable = (cached \<noteq> None \<and> IsCacheFresh R now (CacheMetadataPath R cache) source fs)
      in if offline then
           (case cached of
              Some entries \<Rightarrow> (Inr entries, fs)
            | None \<Rightarrow> (Inl ''CA registry is not cached and offline mode forbids the download'', fs))
         else if usable then (Inr (the cached), fs)
         else
           let response = get source ''application/json'' timeout;
               body = string_of_bytes (http_body response);
               fallback = (\<lambda>message. (case cached of Some entries \<Rightarrow> Inr entries | None \<Rightarrow> Inl message, fs))
           in if IsHttpSuccess response then
                (case CaSettingsRegistry_ParseJson body of
                   Inl message \<Rightarrow> fallback message
                 | Inr entries \<Rightarrow>
                     (Inr entries,
                      if cache = [] then fs
                      else
                        let fs = rf_create_directories R (rf_parent R cache) fs
                        in case rf_write R cache (bytes_of_string body) fs of
                             (True, fs) \<Rightarrow> WriteCacheMetadata R now (CacheMetadataPath R cache) source fs
                           | (False, fs) \<Rightarrow> fs))
              else fallback (''CA registry download failed (status '' @ to_string (http_status_code response) @ '')''))"

section \<open>Search\<close>

definition ToLowerAscii :: "string \<Rightarrow> string" where
  "ToLowerAscii v = map tolower v"

definition CaSettingsRegistry_Find :: "CaSettingsEntry list \<Rightarrow> string \<Rightarrow> CaSettingsEntry option" where
  "CaSettingsRegistry_Find entries hint =
     (if hint = [] then None
      else
        let needle = ToLowerAscii hint
        in case find (\<lambda>e. ca_edrpou e \<noteq> [] \<and> ca_edrpou e = hint) entries of
             Some e \<Rightarrow> Some e
           | None \<Rightarrow>
               (case find (\<lambda>e. ca_address e \<noteq> [] \<and> ToLowerAscii (ca_address e) = needle) entries of
                  Some e \<Rightarrow> Some e
                | None \<Rightarrow> find (\<lambda>e. \<exists>cn \<in> set (ca_issuer_cns e). str_contains needle (ToLowerAscii cn)) entries))"

section \<open>Reading a document\<close>

text \<open>
  What an entry means, on the tree of the document and independently of the parser: every member
  has a place of its own, the last string given for it counts and a value of another type is ignored, the issuer names
  are collected, and the addresses of the services are completed to URLs. An array of issuer names with
  something else than a string in it makes the entry unusable, and so does a missing address.
\<close>

definition member_strings :: "string \<Rightarrow> (string \<times> json_tree) list \<Rightarrow> string list" where
  "member_strings key ms = [s. (k, J_String s) \<leftarrow> ms, k = key]"

definition member_string :: "string \<Rightarrow> (string \<times> json_tree) list \<Rightarrow> string" where
  "member_string key ms = last ([] # member_strings key ms)"

definition direct_flags :: "(string \<times> json_tree) list \<Rightarrow> bool list" where
  "direct_flags ms = [v = J_Bool True. (k, v) \<leftarrow> ms, k = ''directAccess'']"

definition issuer_names :: "(string \<times> json_tree) list \<Rightarrow> string list" where
  "issuer_names ms = [s. (k, J_Array ts) \<leftarrow> ms, k = ''issuerCNs'', J_String s \<leftarrow> ts]"

definition issuer_names_ok :: "(string \<times> json_tree) list \<Rightarrow> bool" where
  "issuer_names_ok ms \<longleftrightarrow> list_all (\<lambda>t. case t of J_String s \<Rightarrow> True | _ \<Rightarrow> False) [t. (k, J_Array ts) \<leftarrow> ms, k = ''issuerCNs'', t \<leftarrow> ts]"

definition access_point_url :: "string \<Rightarrow> string \<Rightarrow> string \<Rightarrow> string" where
  "access_point_url address port service =
     (if address = [] \<or> take 7 address = ''http://'' \<or> take 8 address = ''https://'' then address
      else
        let host = takeWhile (\<lambda>ch. ch \<noteq> CHR ''/'') address;
            path = dropWhile (\<lambda>ch. ch \<noteq> CHR ''/'') address
        in concat [''http://'', host, if port \<in> {[], ''80''} then [] else '':'' @ port, if path = [] then service else path])"

definition registry_entry :: "(string \<times> json_tree) list \<Rightarrow> CaSettingsEntry" where
  "registry_entry ms =
     \<lparr>ca_issuer_cns = issuer_names ms,
      ca_address = member_string ''address'' ms,
      ca_edrpou = member_string ''codeEDRPOU'' ms,
      ca_ocsp_url = access_point_url (member_string ''ocspAccessPointAddress'' ms) (member_string ''ocspAccessPointPort'' ms) ''/services/ocsp/'',
      ca_cmp_url = access_point_url (member_string ''cmpAddress'' ms) [] ''/services/cmp/'',
      ca_tsp_url = access_point_url (member_string ''tspAddress'' ms) (member_string ''tspAddressPort'' ms) ''/services/tsp/'',
      ca_direct_access = last (False # direct_flags ms)\<rparr>"

definition registry_entries :: "json_tree list \<Rightarrow> CaSettingsEntry list" where
  "registry_entries ts = [registry_entry ms. J_Object ms \<leftarrow> ts, issuer_names_ok ms, member_string ''address'' ms \<noteq> []]"

text \<open>The same on the way to it, with the parser's own steps on the members of the tree.\<close>

definition string_of_tree :: "json_tree \<Rightarrow> string option" where
  "string_of_tree v = (case v of J_String s \<Rightarrow> Some s | _ \<Rightarrow> None)"

definition names_of_trees :: "json_tree list \<Rightarrow> string list option" where
  "names_of_trees ts = (if list_all (\<lambda>t. string_of_tree t \<noteq> None) ts then Some (map (\<lambda>t. the (string_of_tree t)) ts) else None)"

definition tree_member :: "string \<Rightarrow> json_tree \<Rightarrow> raw_entry \<Rightarrow> raw_entry option" where
  "tree_member key v e =
     (case v of
        J_Array ts \<Rightarrow>
          if key = ''issuerCNs''
          then map_option (\<lambda>cns. e\<lparr>re_entry := (re_entry e)\<lparr>ca_issuer_cns := ca_issuer_cns (re_entry e) @ cns\<rparr>\<rparr>) (names_of_trees ts)
          else if key = ''directAccess'' then Some (e\<lparr>re_entry := (re_entry e)\<lparr>ca_direct_access := False\<rparr>\<rparr>) else Some e
      | _ \<Rightarrow>
          if key \<in> set string_members then Some (case string_of_tree v of Some s \<Rightarrow> set_member key s e | None \<Rightarrow> e)
          else if key = ''directAccess'' then Some (e\<lparr>re_entry := (re_entry e)\<lparr>ca_direct_access := (v = J_Bool True)\<rparr>\<rparr>)
          else Some e)"

fun tree_members :: "(string \<times> json_tree) list \<Rightarrow> raw_entry \<Rightarrow> raw_entry option" where
  "tree_members [] e = Some e"
| "tree_members ((key, v) # ms) e = (case tree_member key v e of None \<Rightarrow> None | Some e \<Rightarrow> tree_members ms e)"

definition tree_entry :: "json_tree \<Rightarrow> raw_entry option" where
  "tree_entry t = (case t of J_Object (m # ms) \<Rightarrow> tree_members (m # ms) new_entry | _ \<Rightarrow> None)"

definition filled :: "(string \<times> json_tree) list \<Rightarrow> raw_entry \<Rightarrow> raw_entry" where
  "filled ms e =
     \<lparr>re_entry = \<lparr>ca_issuer_cns = ca_issuer_cns (re_entry e) @ issuer_names ms,
        ca_address = last (ca_address (re_entry e) # member_strings ''address'' ms),
        ca_edrpou = last (ca_edrpou (re_entry e) # member_strings ''codeEDRPOU'' ms),
        ca_ocsp_url = ca_ocsp_url (re_entry e), ca_cmp_url = ca_cmp_url (re_entry e), ca_tsp_url = ca_tsp_url (re_entry e),
        ca_direct_access = last (ca_direct_access (re_entry e) # direct_flags ms)\<rparr>,
      re_ocsp_address = last (re_ocsp_address e # member_strings ''ocspAccessPointAddress'' ms),
      re_ocsp_port = last (re_ocsp_port e # member_strings ''ocspAccessPointPort'' ms),
      re_cmp_address = last (re_cmp_address e # member_strings ''cmpAddress'' ms),
      re_tsp_address = last (re_tsp_address e # member_strings ''tspAddress'' ms),
      re_tsp_port = last (re_tsp_port e # member_strings ''tspAddressPort'' ms)\<rparr>"

lemma last_Cons_append: "last (d # xs @ ys) = last (last (d # xs) # ys)"
  by (cases ys rule: rev_cases) auto

lemma members_Cons:
  "member_strings key (m # ms) = member_strings key [m] @ member_strings key ms"
  "direct_flags (m # ms) = direct_flags [m] @ direct_flags ms" "issuer_names (m # ms) = issuer_names [m] @ issuer_names ms"
  by (simp_all add: member_strings_def direct_flags_def issuer_names_def)

lemma filled_Cons: "filled (m # ms) e = filled ms (filled [m] e)"
  by (simp only: filled_def members_Cons [where m = m and ms = ms] last_Cons_append raw_entry.simps CaSettingsEntry.simps append_assoc)

lemma string_tree: "string_of_tree t \<noteq> None \<longleftrightarrow> (case t of J_String s \<Rightarrow> True | _ \<Rightarrow> False)"
  by (cases t) (simp_all add: string_of_tree_def)

lemma names_of_trees_ok:
  "names_of_trees ts = (if list_all (\<lambda>t. case t of J_String s \<Rightarrow> True | _ \<Rightarrow> False) ts then Some [s. J_String s \<leftarrow> ts] else None)"
proof -
  have "map (\<lambda>t. the (string_of_tree t)) ts = [s. J_String s \<leftarrow> ts]" if "list_all (\<lambda>t. case t of J_String s \<Rightarrow> True | _ \<Rightarrow> False) ts"
    using that by (induction ts) (simp_all add: string_of_tree_def split: json_tree.splits)
  then show ?thesis unfolding names_of_trees_def string_tree by simp
qed

lemmas one_member = tree_member_def filled_def issuer_names_ok_def issuer_names_def member_strings_def direct_flags_def

lemma tree_member_filled:
  "tree_member key v e = (if issuer_names_ok [(key, v)] then Some (filled [(key, v)] e) else None)"
proof (cases v)
  case (J_String s)
  show ?thesis
  proof (cases "key \<in> set string_members")
    case True
    then have "key = ''address'' \<or> key = ''codeEDRPOU'' \<or> key = ''ocspAccessPointAddress'' \<or> key = ''ocspAccessPointPort''
        \<or> key = ''cmpAddress'' \<or> key = ''tspAddress'' \<or> key = ''tspAddressPort''" by (simp add: string_members_def)
    then show ?thesis by (elim disjE) (simp_all add: J_String one_member string_of_tree_def string_members_def set_member_def)
  next
    case False
    then show ?thesis by (cases "key = ''directAccess''") (simp_all add: J_String one_member string_members_def)
  qed
next
  case (J_Array ts)
  then show ?thesis
    by (cases "key = ''issuerCNs''"; cases "key = ''directAccess''") (simp_all add: one_member names_of_trees_ok)
qed (cases "key = ''directAccess''"; simp add: one_member string_of_tree_def string_members_def)+

lemma tree_members_filled: "tree_members ms e = (if issuer_names_ok ms then Some (filled ms e) else None)"
proof (induction ms arbitrary: e)
  case Nil
  then show ?case by (simp add: filled_def issuer_names_ok_def issuer_names_def member_strings_def direct_flags_def)
next
  case (Cons m ms)
  have "issuer_names_ok (m # ms) \<longleftrightarrow> issuer_names_ok [m] \<and> issuer_names_ok ms" by (simp add: issuer_names_ok_def)
  then show ?case using Cons.IH by (cases m) (simp add: tree_member_filled filled_Cons [of _ ms])
qed

lemma scheme_take:
  "prefix ''http://'' s \<longleftrightarrow> take 7 s = ''http://''" "prefix ''https://'' s \<longleftrightarrow> take 8 s = ''https://''"
proof -
  have "prefix p s \<longleftrightarrow> take (length p) s = p" for p :: string by (metis append_eq_conv_conj append_take_drop_id prefix_def)
  from this [of "''http://''"] this [of "''https://''"]
  show "prefix ''http://'' s \<longleftrightarrow> take 7 s = ''http://''" "prefix ''https://'' s \<longleftrightarrow> take 8 s = ''https://''"
    by (simp_all add: eval_nat_numeral)
qed

lemma find_char_takeWhile:
  "find_char ch s = (if ch \<in> set s then Some (length (takeWhile (\<lambda>x. x \<noteq> ch) s)) else None)"
  by (induction s) (auto simp: find_char_def)

lemma slash_parts:
  fixes s :: string
  assumes "find_char ch s = Some i"
  shows "take i s = takeWhile (\<lambda>x. x \<noteq> ch) s" "drop i s = dropWhile (\<lambda>x. x \<noteq> ch) s" "dropWhile (\<lambda>x. x \<noteq> ch) s \<noteq> []"
  using assms by (auto simp: find_char_takeWhile takeWhile_eq_take [symmetric] dropWhile_eq_drop [symmetric] split: if_splits)

lemma no_slash_parts:
  fixes s :: string
  assumes "find_char ch s = None"
  shows "takeWhile (\<lambda>x. x \<noteq> ch) s = s" "dropWhile (\<lambda>x. x \<noteq> ch) s = []"
  using assms by (auto simp: find_char_takeWhile takeWhile_eq_all_conv split: if_splits)

lemma BuildUrl_service: "BuildUrl address port service = access_point_url address port service"
proof (cases "address = [] \<or> take 7 address = ''http://'' \<or> take 8 address = ''https://''")
  case True
  then show ?thesis by (elim disjE) (simp_all add: BuildUrl_def access_point_url_def scheme_take)
next
  case False
  show ?thesis
  proof (cases "find_char CHR ''/'' address")
    case None
    then show ?thesis using False by (simp add: BuildUrl_def access_point_url_def scheme_take no_slash_parts [OF None])
  next
    case (Some i)
    then show ?thesis using False by (simp add: BuildUrl_def access_point_url_def scheme_take slash_parts [OF Some]) auto
  qed
qed

lemma finish_filled: "finish_entry (filled ms new_entry) = registry_entry ms"
  by (simp add: finish_entry_def filled_def new_entry_def registry_entry_def member_string_def BuildUrl_service)

lemma registry_entries_tree:
  "registry_entries (t # ts) =
     (case tree_entry t of Some e \<Rightarrow> if ca_address (re_entry e) \<noteq> [] then [finish_entry e] else [] | None \<Rightarrow> []) @ registry_entries ts"
proof (cases t)
  case (J_Object ms)
  have "ca_address (re_entry (filled ms new_entry)) = member_string ''address'' ms"
    by (simp add: filled_def new_entry_def member_string_def)
  moreover have "member_string key [] = []" for key by (simp add: member_string_def member_strings_def)
  ultimately show ?thesis
    by (cases ms) (simp_all add: J_Object registry_entries_def tree_entry_def tree_members_filled finish_filled del: tree_members.simps)
qed (simp_all add: registry_entries_def tree_entry_def)

lemma join_text_ws [simp]:
  "SkipJsonWhitespace (join_commas (map json_text ts) @ CHR '']'' # rest) = join_commas (map json_text ts) @ CHR '']'' # rest"
  by (cases ts rule: remdups_adj.cases) auto

lemma join_text_first:
  "ts \<noteq> [] \<Longrightarrow> \<exists>ch r. join_commas (map json_text ts) @ rest = ch # r \<and> ch \<noteq> CHR '']''"
  using json_text_first [of "hd ts"] by (cases ts rule: remdups_adj.cases) auto

lemma parse_names_text:
  "ts \<noteq> [] \<Longrightarrow> parse_names (join_commas (map json_text ts) @ CHR '']'' # rest) = map_option (\<lambda>cns. (cns, rest)) (names_of_trees ts)"
proof (induction ts)
  case (Cons t ts)
  show ?case
  proof (cases ts)
    case Nil
    then show ?thesis
      by (simp add: parse_names.simps [of "json_text t @ CHR '']'' # rest"] parse_string_text names_of_trees_def string_of_tree_def split: json_tree.split)
  next
    case (Cons u us)
    let ?tail = "join_commas (map json_text ts) @ CHR '']'' # rest"
    have "parse_names (json_text t @ CHR '','' # ?tail)
        = (case string_of_tree t of None \<Rightarrow> None | Some cn \<Rightarrow> map_option (\<lambda>(cns, rest). (cn # cns, rest)) (parse_names ?tail))"
      by (simp add: parse_names.simps [of "json_text t @ CHR '','' # ?tail"] parse_string_text string_of_tree_def split: json_tree.split)
    moreover have "join_commas (map json_text (t # ts)) @ CHR '']'' # rest = json_text t @ CHR '','' # ?tail" by (simp add: Cons)
    ultimately show ?thesis
      using Cons.IH Cons by (auto simp: names_of_trees_def split: option.split)
  qed
qed simp

lemma text_first_char:
  "json_text v @ rest \<noteq> []" "hd (json_text v @ rest) = quote \<longleftrightarrow> string_of_tree v \<noteq> None"
  "hd (json_text v @ rest) = CHR ''['' \<longleftrightarrow> (\<exists>ts. v = J_Array ts)" "prefix ''true'' (json_text v @ rest) \<longleftrightarrow> v = J_Bool True"
proof -
  show "json_text v @ rest \<noteq> []" using json_text_first [of v] by auto
  have "(hd (json_text v @ rest) = quote \<longleftrightarrow> string_of_tree v \<noteq> None) \<and> (hd (json_text v @ rest) = CHR ''['' \<longleftrightarrow> (\<exists>ts. v = J_Array ts))
    \<and> (prefix ''true'' (json_text v @ rest) \<longleftrightarrow> v = J_Bool True)"
  proof (cases v)
    case (J_Number n)
    then show ?thesis using to_string_first [of n] by (auto simp: isdigit_def string_of_tree_def)
  qed (auto simp: string_of_tree_def quoted_def BoolJson_def)
  then show "hd (json_text v @ rest) = quote \<longleftrightarrow> string_of_tree v \<noteq> None"
    "hd (json_text v @ rest) = CHR ''['' \<longleftrightarrow> (\<exists>ts. v = J_Array ts)" "prefix ''true'' (json_text v @ rest) \<longleftrightarrow> v = J_Bool True" by blast+
qed

lemma parse_member_text:
  assumes "ends_value rest" "fits kEntryMemberEnclosingDepth v"
  shows "parse_member key (json_text v @ rest) e = map_option (\<lambda>e. (e, rest)) (tree_member key v e)"
proof (cases "key = ''issuerCNs'' \<and> (\<exists>ts. v = J_Array ts)")
  case True
  then obtain ts where v: "v = J_Array ts" by blast
  have "SkipJsonWhitespace (join_commas (map json_text ts) @ CHR '']'' # rest) = join_commas (map json_text ts) @ CHR '']'' # rest" by simp
  then show ?thesis
    using True join_text_first [of ts "CHR '']'' # rest"] parse_names_text [of ts rest]
    by (cases "ts = []") (auto simp: v parse_member_def tree_member_def names_of_trees_def option.map_comp comp_def)
next
  case False
  note skip = skip_text [OF assms(1), of kEntryMemberEnclosingDepth v]
  have s: "ParseJsonString (json_text v @ rest) = map_option (\<lambda>s. (s, rest)) (string_of_tree v)"
    by (simp add: parse_string_text string_of_tree_def split: json_tree.split)
  have "parse_member key (json_text v @ rest) e =
      (if key \<in> set string_members then Some (case string_of_tree v of Some s \<Rightarrow> set_member key s e | None \<Rightarrow> e, rest)
       else if key = ''directAccess'' then Some (e\<lparr>re_entry := (re_entry e)\<lparr>ca_direct_access := (v = J_Bool True)\<rparr>\<rparr>, rest)
       else Some (e, rest))"
    unfolding parse_member_def Let_def json_text_ws text_first_char(2,3,4) s skip
    using False assms(2) text_first_char(1) [of v rest] by (auto split: option.split)
  moreover have "''issuerCNs'' \<notin> set string_members" "''directAccess'' \<notin> set string_members" by (simp_all add: string_members_def)
  ultimately show ?thesis using False by (auto simp: tree_member_def string_of_tree_def split: json_tree.split)
qed

lemma parse_members_text:
  assumes "list_all (\<lambda>m. fits kEntryMemberEnclosingDepth (snd m)) ms" "ms \<noteq> []"
  shows "parse_members (join_commas (map member_text ms) @ CHR ''}'' # rest) e = tree_members ms e"
  using assms
proof (induction ms arbitrary: e)
  case (Cons m ms)
  obtain k v where m: "m = (k, v)" by (cases m)
  define rest' where "rest' = (if ms = [] then CHR ''}'' # rest else CHR '','' # join_commas (map member_text ms) @ CHR ''}'' # rest)"
  have tail: "ends_value rest'" by (simp add: rest'_def)
  have j: "join_commas (map member_text (m # ms)) @ CHR ''}'' # rest = quoted k @ CHR '':'' # json_text v @ rest'"
    by (cases ms) (simp_all add: m rest'_def)
  have v: "parse_member k (json_text v @ rest') e = map_option (\<lambda>e. (e, rest')) (tree_member k v e)"
    using parse_member_text [OF tail] Cons.prems(1) by (simp add: m)
  show ?case
    unfolding j using Cons.IH Cons.prems
    by (cases "ms = []"; cases "tree_member k v e")
      (simp_all add: parse_members.simps [of "quoted k @ CHR '':'' # json_text v @ rest'"] v m, simp_all add: rest'_def join_member_ws)
qed simp

lemma ParseEntry_text:
  assumes "fits kArrayElementEnclosingDepth t" "ends_value rest"
  shows "ParseEntry (json_text t @ rest) = tree_entry t"
proof (cases "\<exists>ms. t = J_Object ms")
  case True
  then obtain ms where t: "t = J_Object ms" by blast
  have f: "list_all (\<lambda>m. fits kEntryMemberEnclosingDepth (snd m)) ms"
    using assms(1) by (simp add: t fits_composite kArrayElementEnclosingDepth_def kEntryMemberEnclosingDepth_def numeral_2_eq_2)
  show ?thesis
  proof (cases ms)
    case (Cons m ms')
    have j: "SkipJsonWhitespace (json_text t @ rest) = CHR ''{'' # join_commas (map member_text ms) @ CHR ''}'' # rest" by (simp add: t)
    obtain r where "join_commas (map member_text ms) @ CHR ''}'' # rest = quote # r"
      by (cases ms') (auto simp: Cons quoted_def case_prod_beta)
    then have "hd (join_commas (map member_text ms) @ CHR ''}'' # rest) \<noteq> CHR ''}''" by simp
    then show ?thesis
      unfolding ParseEntry_def j list.case Let_def join_member_ws using parse_members_text [OF f, of rest new_entry]
      by (simp add: t Cons tree_entry_def)
  qed (simp add: ParseEntry_def t tree_entry_def)
next
  case False
  obtain ch r where c: "json_text t = ch # r" using json_text_first [of t] by blast
  then have "ch \<noteq> CHR ''{''" using text_not_object False by blast
  then have "ParseEntry (json_text t @ rest) = None"
    unfolding ParseEntry_def json_text_ws by (simp add: c)
  then show ?thesis using False by (auto simp: tree_entry_def split: json_tree.split)
qed

lemma registry_entries_Cons: "fits kArrayElementEnclosingDepth t \<Longrightarrow> ends_value rest \<Longrightarrow> registry_entries (t # ts) = usable_entry (json_text t @ rest) @ registry_entries ts"
  by (simp add: registry_entries_tree usable_entry_def ParseEntry_text)

lemma parse_entries_text:
  assumes "list_all (fits kArrayElementEnclosingDepth) ts" "ts \<noteq> []"
  shows "parse_entries (join_commas (map json_text ts) @ CHR '']'' # rest) = Inr (registry_entries ts, rest)"
  using assms
proof (induction ts)
  case (Cons t ts)
  define rest' where "rest' = (if ts = [] then CHR '']'' # rest else CHR '','' # join_commas (map json_text ts) @ CHR '']'' # rest)"
  have tail: "ends_value rest'" by (simp add: rest'_def)
  have j: "join_commas (map json_text (t # ts)) @ CHR '']'' # rest = json_text t @ rest'" by (cases ts) (simp_all add: rest'_def)
  have t: "fits kArrayElementEnclosingDepth t" using Cons.prems by simp
  show ?case
  proof (cases "ts = []")
    case True
    then show ?thesis
      unfolding j registry_entries_Cons [OF t tail]
      by (simp add: parse_entries.simps [of "json_text t @ rest'"] skip_text [OF tail] t, simp add: rest'_def registry_entries_def)
  next
    case False
    then have "parse_entries (json_text t @ rest') =
        map_sum (\<lambda>m. m) (\<lambda>(out, rest). (usable_entry (json_text t @ rest') @ out, rest)) (parse_entries (join_commas (map json_text ts) @ CHR '']'' # rest))"
      by (simp add: parse_entries.simps [of "json_text t @ rest'"] skip_text [OF tail] t, simp add: rest'_def)
    then show ?thesis
      unfolding j registry_entries_Cons [OF t tail] using Cons.IH Cons.prems False by simp
  qed
qed simp

lemma registry_text:
  assumes "json_depth (J_Array ts) \<le> 100"
  shows "CaSettingsRegistry_ParseJson (json_text (J_Array ts)) =
    (if ts \<noteq> [] \<and> registry_entries ts = [] then Inl ''CAs.json: no usable CA entries'' else Inr (registry_entries ts))"
proof -
  have "fits 0 (J_Array ts)" using assms by (simp add: fits_def kMaxJsonNestingDepth_def)
  then have f: "list_all (fits kArrayElementEnclosingDepth) ts" by (simp add: fits_composite kArrayElementEnclosingDepth_def)
  have w: "SkipJsonWhitespace (json_text (J_Array ts)) = CHR ''['' # join_commas (map json_text ts) @ CHR '']'' # []"
    using json_text_ws [of "J_Array ts" "[]"] by simp
  show ?thesis
  proof (cases "ts = []")
    case False
    then have "hd (join_commas (map json_text ts) @ CHR '']'' # []) \<noteq> CHR '']''" using join_text_first [of ts "CHR '']'' # []"] by auto
    then show ?thesis
      unfolding CaSettingsRegistry_ParseJson_def w using parse_entries_text [OF f False, of "[]"] False
      by (simp add: Let_def AtDocumentEnd_def)
  qed (simp add: CaSettingsRegistry_ParseJson_def SkipJsonWhitespace_def isspace_def AtDocumentEnd_def registry_entries_def)
qed

text \<open>
  C29. A registry document is read as its tree says. From the compact text (without white space
  between tokens) of an array nested at most 100 deep the parser makes one entry, in order, for each object that has an
  address and no value but strings in its arrays of issuer names, and none for the other elements. Each field comes from the member that is
  named for it, the last string given counts, and the addresses of the three services are completed with
  the scheme, the port and the path of the service. The parser reports an error exactly if there
  are elements but no entry.
\<close>

theorem registry_read:
  assumes "json_depth (J_Array ts) \<le> 100"
  shows "CaSettingsRegistry_ParseJson (json_text (J_Array ts)) =
    (if ts \<noteq> [] \<and> registry_entries ts = [] then Inl ''CAs.json: no usable CA entries'' else Inr (registry_entries ts))"
  using assms by (rule registry_text)

definition sample_registry :: "json_tree list" where
  "sample_registry =
     [J_Object [(''issuerCNs'', J_Array [J_String ''CA One'', J_String [CHR 0x22]]), (''address'', J_String ''ca.one''),
        (''cmpAddress'', J_String ''ca.one''), (''ocspAccessPointPort'', J_Number 80)],
      J_Object [(''codeEDRPOU'', J_String ''1'')]]"

theorem registry_read_witness:
  "CaSettingsRegistry_ParseJson (json_text (J_Array sample_registry)) =
     Inr [\<lparr>ca_issuer_cns = [''CA One'', [CHR 0x22]], ca_address = ''ca.one'', ca_edrpou = [], ca_ocsp_url = [],
       ca_cmp_url = ''http://ca.one/services/cmp/'', ca_tsp_url = [], ca_direct_access = False\<rparr>]"
proof -
  have e: "registry_entries sample_registry = [\<lparr>ca_issuer_cns = [''CA One'', [CHR 0x22]], ca_address = ''ca.one'', ca_edrpou = [], ca_ocsp_url = [],
       ca_cmp_url = ''http://ca.one/services/cmp/'', ca_tsp_url = [], ca_direct_access = False\<rparr>]" by code_simp
  have "json_depth (J_Array sample_registry) \<le> 100" by code_simp
  then show ?thesis using registry_read [of sample_registry] unfolding e by (simp add: sample_registry_def)
qed

section \<open>The cache is used again\<close>

lemma digits_number_text: "digits_number 10 (nat_to_string n) = int n"
proof (induction n rule: nat_to_string.induct)
  case (1 n)
  have d: "digit_in_base 10 (char_of (48 + m)) = Some m" if "m < 10" for m :: nat
    using that by (simp add: digit_in_base_def isdigit_def)
  show ?case
  proof (cases "n < 10")
    case True
    then show ?thesis by (simp add: nat_to_string.simps [of n] digits_number_def d)
  next
    case False
    have "digits_number 10 (nat_to_string n) = digits_number 10 (nat_to_string (n div 10)) * 10 + int (n mod 10)"
      using False by (simp add: nat_to_string.simps [of n] digits_number_def d)
    also have "\<dots> = int (n div 10) * 10 + int (n mod 10)" using 1 False by simp
    also have "\<dots> = int n" by (metis div_mult_mod_eq of_nat_add of_nat_mult of_nat_numeral)
    finally show ?thesis .
  qed
qed

lemma strtoll_line:
  assumes "0 \<le> n" "n < 2 ^ 63"
  shows "strtoll (to_string n @ [CHR 0x0A]) = Some n"
proof -
  let ?ds = "nat_to_string (nat n)"
  have ds: "list_all isdigit ?ds" by (rule nat_to_string_digits)
  have ne: "?ds \<noteq> []" by (subst nat_to_string.simps) simp
  have "isdigit ch \<Longrightarrow> ch \<noteq> CHR 0x00" for ch by (auto simp: isdigit_def)
  then have c: "c_str (?ds @ [CHR 0x0A]) = ?ds @ [CHR 0x0A]" using ds by (auto simp: c_str_def list_all_iff)
  obtain ch r where f: "?ds = ch # r" "isdigit ch" using ds ne by (cases ?ds) simp_all
  then have ch: "\<not> isspace ch" "ch \<noteq> CHR ''-''" "ch \<noteq> CHR ''+''" by (auto simp: isdigit_def isspace_def)
  have t: "takeWhile isdigit (?ds @ [CHR 0x0A]) = ?ds" using ds by (auto simp: list_all_iff isdigit_def)
  have c': "c_str (ch # r @ [CHR 0x0A]) = ch # r @ [CHR 0x0A]" using c by (simp add: f)
  show ?thesis
    using assms ch f t digits_number_text [of "nat n"] unfolding strtoll_def to_string_def by (simp add: c' Let_def)
qed

lemma metadata_fresh:
  assumes "rf_read_text R fs meta_path kMaxCachedArtifactSize = Some (cache_metadata source written)"
    and "CHR 0x0A \<notin> set source" "0 < written" "written \<le> now" "now - written \<le> kCacheTtlSeconds" "now < 2 ^ 63"
  shows "IsCacheFresh R now meta_path source fs"
proof -
  have "find_index (\<lambda>x. x = CHR 0x0A) source = None" using assms(2) by (auto simp: find_index_None_iff)
  then have "find_char CHR 0x0A (cache_metadata source written) = Some (length source)"
    by (simp add: find_char_def cache_metadata_def find_index_append)
  then show ?thesis
    using assms strtoll_line [of written] by (simp add: IsCacheFresh_def cache_metadata_def)
qed

text \<open>
  C30. A registry that was downloaded and stored is used for a day: a later call with the same source
  returns the same entries whatever the network does, changes no file, and asks nothing, as long as
  the clock does not go back. The laws of the files are that a written file is read back and that
  other files are as before.
\<close>

theorem registry_cache_reused:
  fixes R :: "'fs registry_files" and work_dir :: string
  defines "cache \<equiv> rf_join R work_dir ''CAs.json''"
  assumes read_back: "\<And>path data fs fs'. rf_write R path data fs = (True, fs') \<Longrightarrow> int (length data) \<le> kMaxCachedArtifactSize \<Longrightarrow>
      rf_read_text R fs' path kMaxCachedArtifactSize = Some (string_of_bytes data)"
    and kept: "\<And>path data fs ok fs' path'. rf_write R path data fs = (ok, fs') \<Longrightarrow> path' \<noteq> path \<Longrightarrow>
      rf_read_text R fs' path' kMaxCachedArtifactSize = rf_read_text R fs path' kMaxCachedArtifactSize"
    and written: "\<And>path data fs. fst (rf_write R path data fs)"
    and paths: "work_dir \<noteq> []" "cache \<noteq> []" "CacheMetadataPath R cache \<noteq> cache"
    and stale: "\<not> IsCacheFresh R t (CacheMetadataPath R cache) (registry_source url) fs"
    and response: "IsHttpSuccess (get (registry_source url) ''application/json'' timeout)"
      "string_of_bytes (http_body (get (registry_source url) ''application/json'' timeout)) = body" "body \<noteq> []"
      "CaSettingsRegistry_ParseJson body = Inr entries" "int (length body) \<le> kMaxCachedArtifactSize"
    and source: "CHR 0x0A \<notin> set (registry_source url)" "int (length (cache_metadata (registry_source url) t)) \<le> kMaxCachedArtifactSize"
    and time: "0 < t" "t \<le> now" "now - t \<le> kCacheTtlSeconds" "now < 2 ^ 63"
    and first: "CaSettingsRegistry_Load R get t work_dir False url timeout fs = (result, fs')"
  shows "result = Inr entries \<and> CaSettingsRegistry_Load R other_get now work_dir False url other_timeout fs' = (Inr entries, fs')"
proof -
  let ?meta = "CacheMetadataPath R cache" and ?source = "registry_source url"
  let ?fs0 = "rf_create_directories R (rf_parent R cache) fs"
  obtain fs1 where w1: "rf_write R cache (bytes_of_string body) ?fs0 = (True, fs1)"
    using written [of cache "bytes_of_string body" ?fs0] by (cases "rf_write R cache (bytes_of_string body) ?fs0") simp
  obtain fs2 where w2: "rf_write R ?meta (bytes_of_string (cache_metadata ?source t)) fs1 = (True, fs2)"
    using written [of ?meta "bytes_of_string (cache_metadata ?source t)" fs1] by (cases "rf_write R ?meta (bytes_of_string (cache_metadata ?source t)) fs1") simp
  have load: "result = Inr entries" "fs' = fs2"
    using first paths stale response w1 w2 by (simp_all add: CaSettingsRegistry_Load_def cache_def Let_def WriteCacheMetadata_def)
  have len: "length (bytes_of_string s) = length s" for s by (simp add: bytes_of_string_def)
  have "rf_read_text R fs2 cache kMaxCachedArtifactSize = Some body"
    using kept [OF w2, of cache] read_back [OF w1] paths(3) response(5) by (simp add: len)
  moreover have "rf_read_text R fs2 ?meta kMaxCachedArtifactSize = Some (cache_metadata ?source t)"
    using read_back [OF w2] source(2) by (simp add: len)
  then have "IsCacheFresh R now ?meta ?source fs2" by (rule metadata_fresh [OF _ source(1) time])
  ultimately show ?thesis
    using load paths response(3,4) by (simp add: CaSettingsRegistry_Load_def cache_def [symmetric] cached_entries_def Let_def)
qed

definition sample_registry_files :: "(string \<Rightarrow> bytes option) registry_files" where
  "sample_registry_files =
     \<lparr>rf_read_text = (\<lambda>fs path limit. case fs path of Some data \<Rightarrow> if int (length data) \<le> limit then Some (string_of_bytes data) else None | None \<Rightarrow> None),
      rf_write = (\<lambda>path data fs. (True, fs(path := Some data))), rf_create_directories = (\<lambda>path fs. fs),
      rf_join = (\<lambda>a b. a @ ''/'' @ b), rf_parent = (\<lambda>path. ''w'')\<rparr>"

definition sample_get :: "string \<Rightarrow> string \<Rightarrow> int \<Rightarrow> HttpPostResult" where
  "sample_get url acc timeout = default_post_result\<lparr>http_succeeded := True, http_status_code := 200,
     http_body := bytes_of_string (json_text (J_Array sample_registry))\<rparr>"

lemma sample_registry_parsed: "\<exists>entries. CaSettingsRegistry_ParseJson (json_text (J_Array sample_registry)) = Inr entries"
proof -
  have "json_depth (J_Array sample_registry) \<le> 100" by code_simp
  moreover have "registry_entries sample_registry \<noteq> []" by code_simp
  ultimately show ?thesis using registry_text [of sample_registry] by simp
qed

theorem registry_cache_reused_witness:
  "\<exists>entries fs'. CaSettingsRegistry_Load sample_registry_files sample_get 1000 ''w'' False [] 1 Map.empty = (Inr entries, fs')
     \<and> CaSettingsRegistry_Load sample_registry_files (\<lambda>url acc timeout. default_post_result) 87400 ''w'' False [] 1 fs' = (Inr entries, fs')"
proof -
  let ?R = sample_registry_files
  obtain entries where e: "CaSettingsRegistry_ParseJson (json_text (J_Array sample_registry)) = Inr entries" using sample_registry_parsed by blast
  obtain result fs' where l: "CaSettingsRegistry_Load ?R sample_get 1000 ''w'' False [] 1 Map.empty = (result, fs')" by force
  have paths: "rf_join ?R ''w'' ''CAs.json'' \<noteq> []" "CacheMetadataPath ?R (rf_join ?R ''w'' ''CAs.json'') \<noteq> rf_join ?R ''w'' ''CAs.json''"
    by (simp_all add: sample_registry_files_def CacheMetadataPath_def)
  have stale: "\<not> IsCacheFresh ?R 1000 path source Map.empty" for path source by (simp add: IsCacheFresh_def sample_registry_files_def)
  have body: "json_text (J_Array sample_registry) \<noteq> []" "int (length (json_text (J_Array sample_registry))) \<le> kMaxCachedArtifactSize" by code_simp+
  have src: "CHR 0x0A \<notin> set (registry_source [])" "int (length (cache_metadata (registry_source []) 1000)) \<le> kMaxCachedArtifactSize" by code_simp+
  have "result = Inr entries \<and> CaSettingsRegistry_Load ?R (\<lambda>url acc timeout. default_post_result) 87400 ''w'' False [] 1 fs' = (Inr entries, fs')"
    by (rule registry_cache_reused [where get = sample_get and t = 1000 and timeout = 1 and fs = Map.empty and body = "json_text (J_Array sample_registry)"])
      (use paths stale body src e l in \<open>auto simp: sample_registry_files_def sample_get_def IsHttpSuccess_def default_post_result_def kCacheTtlSeconds_def simp del: json_text.simps split: if_splits\<close>)
  then show ?thesis using l by blast
qed

end
