(* ===== verification/Iso_Time.thy ===== *)
theory Iso_Time
  imports Tamga_Prelude
begin

text \<open>
  Times: \<open>FormatAsIso8601\<close> (\<open>util/Iso8601.cpp\<close>), \<open>ParseIso8601Time\<close>
  (\<open>core/policy/CertificateChainValidator.cpp\<close>), which every validity and freshness check
  uses, and \<open>ParseTimestampTime\<close> (\<open>core/validation/TimestampEngine.cpp\<close>), the strict
  reader of the \<open>genTime\<close> of a timestamp token.

  \<open>scan_int\<close> is the conversion \<open>%Nd\<close> of \<open>std::sscanf\<close> and \<open>timegm\<close> the POSIX function,
  with the normalisation of out-of-range months; a \<open>time_t\<close> is an \<open>int\<close> (no value that
  four-digit years produce comes near its bounds).
\<close>

section \<open>The C library\<close>

fun take_digits :: "nat \<Rightarrow> string \<Rightarrow> string" where
  "take_digits 0 s = []"
| "take_digits (Suc n) [] = []"
| "take_digits (Suc n) (c # s) = (if isdigit c then c # take_digits n s else [])"

definition digits_value :: "string \<Rightarrow> int" where
  "digits_value ds = foldl (\<lambda>acc c. 10 * acc + int (digit_value c)) 0 ds"

text \<open>\<open>%Nd\<close>: white space, an optional sign that counts towards the width, digits.\<close>

definition scan_int :: "nat \<Rightarrow> string \<Rightarrow> (int \<times> string) option" where
  "scan_int width s =
     (let s = dropWhile isspace s;
          signed = (s \<noteq> [] \<and> (hd s = CHR ''+'' \<or> hd s = CHR ''-''));
          neg = (s \<noteq> [] \<and> hd s = CHR ''-'');
          body = (if signed then tl s else s);
          ds = take_digits (if signed then width - 1 else width) body
      in if ds = [] then None
         else Some ((if neg then - digits_value ds else digits_value ds), drop (length ds) body))"

definition scan_lit :: "char \<Rightarrow> string \<Rightarrow> string option" where
  "scan_lit c s = (case s of x # rest \<Rightarrow> if x = c then Some rest else None | [] \<Rightarrow> None)"

text \<open>
  A format as a list of conversions, each \<open>%wd\<close> followed by a literal character if any. The
  result is the list of converted numbers and the input that is left; scanning stops at the
  first conversion or literal that fails.
\<close>

fun scan_fields :: "(nat \<times> char option) list \<Rightarrow> string \<Rightarrow> int list \<times> string option" where
  "scan_fields [] s = ([], Some s)"
| "scan_fields ((w, lit) # fs) s =
     (case scan_int w s of
        None \<Rightarrow> ([], None)
      | Some (v, rest) \<Rightarrow>
          (case lit of
             None \<Rightarrow> (let (vs, r) = scan_fields fs rest in (v # vs, r))
           | Some c \<Rightarrow> (case scan_lit c rest of
                 None \<Rightarrow> ([v], None)
               | Some rest' \<Rightarrow> (let (vs, r) = scan_fields fs rest' in (v # vs, r)))))"

definition is_leap :: "int \<Rightarrow> bool" where
  "is_leap y \<longleftrightarrow> y mod 4 = 0 \<and> (y mod 100 \<noteq> 0 \<or> y mod 400 = 0)"

definition month_days :: "int \<Rightarrow> nat list" where
  "month_days y = [31, if is_leap y then 29 else 28, 31, 30, 31, 30, 31, 31, 30, 31, 30, 31]"

definition leaps_through :: "int \<Rightarrow> int" where
  "leaps_through y = y div 4 - y div 100 + y div 400"

definition days_before_year :: "int \<Rightarrow> int" where
  "days_before_year y = 365 * (y - 1970) + leaps_through (y - 1) - leaps_through 1969"

definition timegm :: "int \<Rightarrow> int \<Rightarrow> int \<Rightarrow> int \<Rightarrow> int \<Rightarrow> int \<Rightarrow> int" where
  "timegm year mon mday hour minute second =
     (let y = year + mon div 12; m = nat (mon mod 12);
          days = days_before_year y + int (sum_list (take m (month_days y))) + mday - 1
      in ((days * 24 + hour) * 60 + minute) * 60 + second)"

section \<open>ParseIso8601Time\<close>

definition iso_format :: "(nat \<times> char option) list" where
  "iso_format = [(4, Some CHR ''-''), (2, Some CHR ''-''), (2, Some CHR ''T''),
     (2, Some CHR '':''), (2, Some CHR '':''), (2, None)]"

text \<open>The shift of a numeric zone: the first sign after the \<open>T\<close>, then \<open>%2d:%2d\<close>.\<close>

definition zone_shift :: "string \<Rightarrow> int" where
  "zone_shift text =
     (case find_char (CHR ''T'') text of
        None \<Rightarrow> 0
      | Some t_pos \<Rightarrow>
          (case find_first_of ''+-'' (drop (t_pos + 1) text) of
             None \<Rightarrow> 0
           | Some k \<Rightarrow>
               let sign_pos = t_pos + 1 + k;
                   (vs, _) = scan_fields [(2, Some CHR '':''), (2, None)] (c_str (drop (sign_pos + 1) text));
                   tz_hour = (if length vs \<ge> 1 then vs ! 0 else 0);
                   tz_min = (if length vs \<ge> 2 then vs ! 1 else 0);
                   offset_sec = tz_hour * 3600 + tz_min * 60
               in if vs = [] then 0
                  else if text ! sign_pos = CHR ''+'' then - offset_sec else offset_sec))"

definition ParseIso8601Time :: "string \<Rightarrow> int option" where
  "ParseIso8601Time text =
     (if text = [] then None
      else let (vs, rest) = scan_fields iso_format (c_str text)
           in if length vs < 6 then None
              else let t_val = timegm (vs ! 0) (vs ! 1 - 1) (vs ! 2) (vs ! 3) (vs ! 4) (vs ! 5)
                   in if t_val = -1 then None
                      else case rest of
                        Some (z # _) \<Rightarrow>
                          if z \<noteq> CHR ''Z'' \<and> z \<noteq> CHR ''z'' then Some (t_val + zone_shift text)
                          else Some t_val
                      | _ \<Rightarrow> Some t_val)"

section \<open>FormatAsIso8601 and ParseTimestampTime\<close>

definition substr :: "nat \<Rightarrow> nat \<Rightarrow> string \<Rightarrow> string" where
  "substr pos n s = take n (drop pos s)"

definition iso_of_digits :: "string \<Rightarrow> string" where
  "iso_of_digits raw =
     substr 0 4 raw @ ''-'' @ substr 4 2 raw @ ''-'' @ substr 6 2 raw @ ''T''
     @ substr 8 2 raw @ '':'' @ substr 10 2 raw @ '':'' @ substr 12 2 raw @ ''Z''"

definition FormatAsIso8601 :: "string \<Rightarrow> string" where
  "FormatAsIso8601 generalized_time =
     (if length generalized_time < 14 \<or> find_char (CHR ''-'') generalized_time \<noteq> None
      then generalized_time else iso_of_digits generalized_time)"

definition number :: "string \<Rightarrow> nat \<Rightarrow> nat \<Rightarrow> int" where
  "number raw offset count = digits_value (substr offset count raw)"

definition timestamp_shape :: "string \<Rightarrow> bool" where
  "timestamp_shape raw \<longleftrightarrow>
     15 \<le> length raw \<and> length raw \<le> 64 \<and> last raw = CHR ''Z'' \<and> list_all isdigit (take 14 raw) \<and>
     (length raw \<noteq> 15 \<longrightarrow>
        17 \<le> length raw \<and> raw ! 14 = CHR ''.'' \<and> list_all isdigit (butlast (drop 15 raw)))"

definition calendar_ok :: "int \<Rightarrow> int \<Rightarrow> int \<Rightarrow> int \<Rightarrow> int \<Rightarrow> int \<Rightarrow> bool" where
  "calendar_ok year month day hour minute second \<longleftrightarrow>
     \<not> (year < 1970 \<or> month < 1 \<or> month > 12 \<or> hour > 23 \<or> minute > 59 \<or> second > 59) \<and>
     \<not> (day < 1 \<or> day > int (month_days year ! nat (month - 1)))"

definition ParseTimestampTime :: "string \<Rightarrow> string option" where
  "ParseTimestampTime raw =
     (if \<not> timestamp_shape raw then None
      else if \<not> calendar_ok (number raw 0 4) (number raw 4 2) (number raw 6 2)
                (number raw 8 2) (number raw 10 2) (number raw 12 2) then None
      else let normalized = iso_of_digits raw
           in case ParseIso8601Time normalized of None \<Rightarrow> None | Some _ \<Rightarrow> Some normalized)"

definition NormalizeTimestampTime :: "string \<Rightarrow> string option" where
  "NormalizeTimestampTime raw = ParseTimestampTime raw"

section \<open>Scanning digits\<close>

lemma take_digits_append:
  "list_all isdigit ds \<Longrightarrow> length ds = n \<Longrightarrow> take_digits n (ds @ s) = ds"
  by (induction ds arbitrary: n) (auto simp: Suc_length_conv)

lemma digit_not_special: "isdigit c \<Longrightarrow> \<not> isspace c \<and> c \<noteq> CHR ''+'' \<and> c \<noteq> CHR ''-'' \<and> c \<noteq> CHR 0x00"
  by (auto simp: isdigit_def isspace_def)

lemma scan_int_digits:
  assumes "list_all isdigit ds" "length ds = n" "0 < n"
  shows "scan_int n (ds @ s) = Some (digits_value ds, s)"
proof -
  obtain c cs where ds: "ds = c # cs" using assms by (cases ds) auto
  have "isdigit c" using assms ds by simp
  note c = digit_not_special [OF this]
  have td: "take_digits n (ds @ s) = ds" by (rule take_digits_append [OF assms(1,2)])
  show ?thesis using c td ds by (simp add: scan_int_def)
qed

lemma digits_value_nonneg: "0 \<le> digits_value ds"
proof (induction ds rule: rev_induct)
  case (snoc c ds)
  then show ?case by (simp add: digits_value_def)
qed (simp add: digits_value_def)


lemma scan_fields_Some:
  assumes "list_all isdigit ds" "length ds = n" "0 < n"
  shows "scan_fields ((n, Some c) # fs) (ds @ c # s)
    = (let (vs, r) = scan_fields fs s in (digits_value ds # vs, r))"
  using scan_int_digits [OF assms] by (simp add: scan_lit_def)

lemma scan_fields_None:
  assumes "list_all isdigit ds" "length ds = n" "0 < n"
  shows "scan_fields [(n, None)] (ds @ s) = ([digits_value ds], Some s)"
  using scan_int_digits [OF assms] by simp

lemma scan_iso_text:
  assumes "list_all isdigit a" "length a = 4" "list_all isdigit b" "length b = 2"
    "list_all isdigit c" "length c = 2" "list_all isdigit d" "length d = 2"
    "list_all isdigit e" "length e = 2" "list_all isdigit f" "length f = 2"
  shows "scan_fields iso_format (a @ ''-'' @ b @ ''-'' @ c @ ''T'' @ d @ '':'' @ e @ '':'' @ f @ ''Z'')
    = ([digits_value a, digits_value b, digits_value c, digits_value d, digits_value e, digits_value f],
       Some ''Z'')"
  using assms unfolding iso_format_def
  by (simp add: scan_fields_Some scan_fields_None del: scan_fields.simps)

lemma digits_no_nul: "list_all isdigit ds \<Longrightarrow> list_all (\<lambda>c. c \<noteq> CHR 0x00) ds"
  using digit_not_special by (auto simp: list_all_iff)

lemma list_all_substr: "list_all P (take m s) \<Longrightarrow> i + n \<le> m \<Longrightarrow> list_all P (substr i n s)"
proof -
  assume "list_all P (take m s)" "i + n \<le> m"
  moreover have "substr i n s = take n (drop i (take m s))" if "i + n \<le> m"
    using that by (simp add: substr_def drop_take min_absorb1)
  ultimately show ?thesis by (auto simp: list_all_iff dest: in_set_takeD in_set_dropD)
qed

lemma takeWhile_all: "list_all P xs \<Longrightarrow> takeWhile P xs = xs"
  by (auto simp: list_all_iff takeWhile_eq_all_conv)

lemma iso_text_c_str:
  assumes "list_all isdigit (take 14 raw)"
  shows "c_str (iso_of_digits raw) = iso_of_digits raw"
proof -
  have "list_all (\<lambda>c. c \<noteq> CHR 0x00) (iso_of_digits raw)"
    using assms by (simp add: iso_of_digits_def digits_no_nul list_all_substr)
  then show ?thesis by (simp add: c_str_def takeWhile_all)
qed

definition raw_time :: "string \<Rightarrow> int" where
  "raw_time raw = timegm (number raw 0 4) (number raw 4 2 - 1) (number raw 6 2)
     (number raw 8 2) (number raw 10 2) (number raw 12 2)"

lemma ParseIso8601Time_digits:
  assumes "14 \<le> length raw" "list_all isdigit (take 14 raw)"
  shows "ParseIso8601Time (iso_of_digits raw) = (if raw_time raw = -1 then None else Some (raw_time raw))"
proof -
  have sub: "list_all isdigit (substr i n raw)" "length (substr i n raw) = n" if "i + n \<le> 14" for i n
    using list_all_substr [OF assms(2) that] assms(1) that by (auto simp: substr_def)
  have "scan_fields iso_format (iso_of_digits raw) = ([number raw 0 4, number raw 4 2, number raw 6 2,
      number raw 8 2, number raw 10 2, number raw 12 2], Some ''Z'')"
    unfolding iso_of_digits_def number_def by (rule scan_iso_text) (simp_all add: sub)
  moreover have "iso_of_digits raw \<noteq> []" by (simp add: iso_of_digits_def)
  ultimately show ?thesis
    by (simp add: ParseIso8601Time_def iso_text_c_str [OF assms(2)] raw_time_def)
qed

section \<open>A valid calendar date is not before the epoch\<close>

lemma div_step: "0 < k \<Longrightarrow> (y :: int) div k = (y - 1) div k + (if k dvd y then 1 else 0)"
proof -
  assume k: "0 < k"
  show ?thesis
  proof (cases "k dvd y")
    case True
    then obtain q where y: "y = k * q" by auto
    have "(k * q - 1) div k = q - 1"
      by (rule int_div_pos_eq [where r = "k - 1"]) (use k in \<open>simp_all add: algebra_simps\<close>)
    with y k True show ?thesis by simp
  next
    case False
    then have "y mod k \<noteq> 0" by (simp add: dvd_eq_mod_eq_0)
    then have r: "0 < y mod k" using k by (simp add: less_le)
    have "(y - 1) div k = y div k"
      by (rule int_div_pos_eq [where r = "y mod k - 1"]) (use k r pos_mod_bound [OF k, of y] in \<open>simp_all add: algebra_simps\<close>)
    with False show ?thesis by simp
  qed
qed

lemma leaps_through_step: "leaps_through (y - 1) \<le> leaps_through y"
proof -
  have "(100 :: int) dvd y \<Longrightarrow> 4 dvd y" by (rule dvd_trans [of 4 100 y]) simp_all
  then show ?thesis
    using div_step [of 4 y] div_step [of 100 y] div_step [of 400 y]
    by (auto simp: leaps_through_def split: if_splits)
qed

lemma leaps_through_mono: "a \<le> b \<Longrightarrow> leaps_through a \<le> leaps_through b"
proof (induction "nat (b - a)" arbitrary: b)
  case (Suc n)
  then have "leaps_through a \<le> leaps_through (b - 1)" by simp
  then show ?case using leaps_through_step [of b] by linarith
qed simp

lemma timegm_nonneg:
  assumes "1970 \<le> y" "0 \<le> m" "m < 12" "1 \<le> d" "0 \<le> h" "0 \<le> mi" "0 \<le> s"
  shows "0 \<le> timegm y m d h mi s"
proof -
  have "0 \<le> days_before_year y"
    using leaps_through_mono [of 1969 "y - 1"] assms by (simp add: days_before_year_def)
  with assms show ?thesis by (simp add: timegm_def Let_def)
qed

lemma raw_time_nonneg:
  assumes "calendar_ok (number raw 0 4) (number raw 4 2) (number raw 6 2) (number raw 8 2)
    (number raw 10 2) (number raw 12 2)"
  shows "0 \<le> raw_time raw"
  unfolding raw_time_def
  by (rule timegm_nonneg) (use assms in \<open>auto simp: calendar_ok_def number_def digits_value_nonneg\<close>)

lemma timestamp_chars:
  assumes shape: "timestamp_shape raw" and "c \<in> set raw"
  shows "isdigit c \<or> c = CHR ''.'' \<or> c = CHR ''Z''"
proof -
  from assms(2) obtain i where i: "i < length raw" "c = raw ! i" by (auto simp: in_set_conv_nth)
  then have z: "last raw = raw ! (length raw - 1)" by (intro last_conv_nth) auto
  consider "i < 14" | "i = 14" | "14 < i" "i = length raw - 1" | "14 < i" "i < length raw - 1"
    using i by linarith
  then show ?thesis
  proof cases
    case 1
    then show ?thesis using shape i by (auto simp: timestamp_shape_def list_all_length)
  next
    case 2
    then show ?thesis using shape i by (cases "length raw = 15") (auto simp: timestamp_shape_def z)
  next
    case 3
    then show ?thesis using shape i by (auto simp: timestamp_shape_def z)
  next
    case 4
    then have "i - 15 < length (butlast (drop 15 raw))" "butlast (drop 15 raw) ! (i - 15) = c"
      using i by (simp_all add: nth_butlast)
    then show ?thesis using shape 4 by (auto simp: timestamp_shape_def list_all_length)
  qed
qed

text \<open>
  The reader of a timestamp's \<open>genTime\<close> accepts a text exactly when it is a UTC
  GeneralizedTime (14 digits, an optional fraction, \<open>Z\<close>) that names an existing date and
  time from 1970 on; the ISO text it returns is the one \<open>FormatAsIso8601\<close> would show, and
  every later stage that parses this text gets the same number of seconds since the epoch,
  never a fallback to the current time.
\<close>

theorem timestamp_time_strict:
  "NormalizeTimestampTime raw = Some text \<longleftrightarrow>
     timestamp_shape raw \<and>
     calendar_ok (number raw 0 4) (number raw 4 2) (number raw 6 2) (number raw 8 2)
       (number raw 10 2) (number raw 12 2) \<and>
     text = FormatAsIso8601 raw \<and> ParseIso8601Time text = Some (raw_time raw)"
proof (cases "timestamp_shape raw \<and> calendar_ok (number raw 0 4) (number raw 4 2) (number raw 6 2)
    (number raw 8 2) (number raw 10 2) (number raw 12 2)")
  case True
  then have shape: "15 \<le> length raw" "list_all isdigit (take 14 raw)" by (auto simp: timestamp_shape_def)
  have parse: "ParseIso8601Time (iso_of_digits raw) = Some (raw_time raw)"
    using ParseIso8601Time_digits [OF _ shape(2)] shape(1) raw_time_nonneg [of raw] True by auto
  have "find_char (CHR ''-'') raw = None"
    using timestamp_chars [of raw] True digit_not_special
    by (auto simp: find_char_def find_index_None_iff)
  then have "FormatAsIso8601 raw = iso_of_digits raw" using shape by (simp add: FormatAsIso8601_def)
  with True parse show ?thesis
    by (auto simp: NormalizeTimestampTime_def ParseTimestampTime_def Let_def)
next
  case False
  then show ?thesis by (auto simp: NormalizeTimestampTime_def ParseTimestampTime_def)
qed

end
