(* ===== verification/Pki.thy ===== *)
theory Pki
  imports Iso_Time Validation_Types
begin

text \<open>
  The certificate library behind the validators. Decoding a certificate, verifying one with
  another's key, its validity window and its extensions are functions of the vendored
  cryptonite library; the model receives them as a record of functions, one field per
  library service the sources call, over an arbitrary type of decoded certificates. What
  the sources compute from the answers (\<open>IsValidAt\<close>, \<open>ReadIssuerBasicConstraints\<close>,
  \<open>CertificateAllowsKeyUsage\<close>, \<open>IssuerCaRejectReason\<close>) is defined here.
\<close>

section \<open>The library services\<close>

text \<open>
  \<open>pki_decode\<close> is \<open>cert_decode\<close> on non-empty input, \<open>pki_verify c i\<close> is \<open>cert_verify\<close> of
  \<open>c\<close> with an adapter made from \<open>i\<close> (false when no adapter can be made), \<open>pki_valid_at\<close> and
  \<open>pki_valid_now\<close> are \<open>cert_check_validity_with_date\<close> and \<open>cert_check_validity\<close>,
  \<open>pki_basic_constraints\<close> is the decoded extension (its \<open>cA\<close> flag and its path length, where
  they are present and convertible), and \<open>pki_key_usage\<close> the decoded key usage as a function
  from bit numbers, \<open>None\<close> when \<open>cert_get_key_usage\<close> gives none. \<open>pki_ext_key_usage\<close> is the
  decoded extended key usage, the object identifiers as their arcs, and
  \<open>pki_issuer_name_is_subject c i\<close> compares the issuer name of \<open>c\<close> with the subject of \<open>i\<close>.
\<close>

record 'cert pki =
  pki_decode :: "bytes \<Rightarrow> 'cert option"
  pki_verify :: "'cert \<Rightarrow> 'cert \<Rightarrow> bool"
  pki_valid_at :: "'cert \<Rightarrow> int \<Rightarrow> bool"
  pki_valid_now :: "'cert \<Rightarrow> bool"
  pki_basic_constraints :: "'cert \<Rightarrow> (int option \<times> int option) option"
  pki_key_usage :: "'cert \<Rightarrow> (nat \<Rightarrow> bool) option"
  pki_ext_key_usage :: "'cert \<Rightarrow> int list list option"
  pki_issuer_name_is_subject :: "'cert \<Rightarrow> 'cert \<Rightarrow> bool"

section \<open>Derived checks of the sources\<close>

definition DecodeCertificateDer :: "'cert pki \<Rightarrow> bytes \<Rightarrow> 'cert option" where
  "DecodeCertificateDer P der = (if der = [] then None else pki_decode P der)"

definition VerifyByIssuer :: "'cert pki \<Rightarrow> 'cert \<Rightarrow> 'cert \<Rightarrow> bool" where
  "VerifyByIssuer P certificate issuer = pki_verify P certificate issuer"

definition IsValidAt :: "'cert pki \<Rightarrow> 'cert \<Rightarrow> string \<Rightarrow> bool" where
  "IsValidAt P certificate validation_time =
     (case ParseIso8601Time validation_time of
        Some val_time \<Rightarrow> pki_valid_at P certificate val_time
      | None \<Rightarrow> pki_valid_now P certificate)"

definition IsCertificateValidAt :: "'cert pki \<Rightarrow> bytes \<Rightarrow> string \<Rightarrow> bool" where
  "IsCertificateValidAt P certificate_der validation_time =
     (if certificate_der = [] then False
      else case DecodeCertificateDer P certificate_der of
        None \<Rightarrow> False
      | Some certificate \<Rightarrow> IsValidAt P certificate validation_time)"

text \<open>
  The moment a piece of revocation evidence is judged at, computed in the same way by the
  list validator, the OCSP validator and the revocation engine: the parsed time, or the
  present when there is none or it cannot be parsed; \<open>now\<close> is \<open>std::time(nullptr)\<close>.
\<close>

definition validation_seconds :: "int \<Rightarrow> string \<Rightarrow> int" where
  "validation_seconds now validation_time =
     (if validation_time = [] then now
      else case ParseIso8601Time validation_time of Some t \<Rightarrow> t | None \<Rightarrow> now)"

record IssuerBasicConstraints =
  bc_present :: bool
  bc_is_ca :: bool
  bc_has_path_len :: bool
  bc_path_len :: int

definition ReadIssuerBasicConstraints :: "'cert pki \<Rightarrow> 'cert \<Rightarrow> IssuerBasicConstraints" where
  "ReadIssuerBasicConstraints P cert =
     (case pki_basic_constraints P cert of
        None \<Rightarrow> \<lparr>bc_present = False, bc_is_ca = False, bc_has_path_len = False, bc_path_len = 0\<rparr>
      | Some (ca, path_len) \<Rightarrow>
          \<lparr>bc_present = True,
           bc_is_ca = (case ca of None \<Rightarrow> False | Some v \<Rightarrow> v \<noteq> 0),
           bc_has_path_len = (path_len \<noteq> None),
           bc_path_len = (case path_len of None \<Rightarrow> 0 | Some v \<Rightarrow> v)\<rparr>)"

text \<open>\<open>KeyUsage_keyCertSign\<close> is bit 5.\<close>

definition KeyUsage_keyCertSign :: nat where
  "KeyUsage_keyCertSign = 5"

definition CertificateAllowsKeyUsage :: "'cert pki \<Rightarrow> 'cert \<Rightarrow> nat \<Rightarrow> bool" where
  "CertificateAllowsKeyUsage P certificate key_usage_bit =
     (case pki_key_usage P certificate of None \<Rightarrow> True | Some usage \<Rightarrow> usage key_usage_bit)"

definition CertificateHasExtendedKeyUsage :: "'cert pki \<Rightarrow> 'cert \<Rightarrow> int list \<Rightarrow> bool" where
  "CertificateHasExtendedKeyUsage P cert oid =
     (if oid = [] then False
      else case pki_ext_key_usage P cert of None \<Rightarrow> False | Some purposes \<Rightarrow> oid \<in> set purposes)"

definition HasTimestampingEku :: "'cert pki \<Rightarrow> 'cert \<Rightarrow> bool" where
  "HasTimestampingEku P cert = CertificateHasExtendedKeyUsage P cert [1, 3, 6, 1, 5, 5, 7, 3, 8]"

definition HasOcspSigningEku :: "'cert pki \<Rightarrow> 'cert \<Rightarrow> bool" where
  "HasOcspSigningEku P cert = CertificateHasExtendedKeyUsage P cert [1, 3, 6, 1, 5, 5, 7, 3, 9]"

definition IssuerHasKeyCertSign :: "'cert pki \<Rightarrow> 'cert \<Rightarrow> bool" where
  "IssuerHasKeyCertSign P cert = CertificateAllowsKeyUsage P cert KeyUsage_keyCertSign"

definition IssuerCaRejectReason :: "'cert pki \<Rightarrow> 'cert \<Rightarrow> nat \<Rightarrow> string" where
  "IssuerCaRejectReason P cert intermediates_below =
     (let bc = ReadIssuerBasicConstraints P cert
      in if \<not> bc_is_ca bc then ''non-ca-issuer''
         else if \<not> IssuerHasKeyCertSign P cert then ''issuer-missing-keyCertSign''
         else if bc_has_path_len bc \<and> int intermediates_below > bc_path_len bc then ''pathlen-exceeded''
         else '''')"

text \<open>A candidate that passes at some depth also passes at every smaller depth.\<close>

lemma IssuerCaRejectReason_mono:
  "IssuerCaRejectReason P c n = [] \<Longrightarrow> m \<le> n \<Longrightarrow> IssuerCaRejectReason P c m = []"
  by (auto simp: IssuerCaRejectReason_def Let_def split: if_splits)

lemma IssuerCaRejectReason_accepts:
  "IssuerCaRejectReason P c n = [] \<longleftrightarrow>
     bc_is_ca (ReadIssuerBasicConstraints P c) \<and> IssuerHasKeyCertSign P c \<and>
     (bc_has_path_len (ReadIssuerBasicConstraints P c) \<longrightarrow>
        int n \<le> bc_path_len (ReadIssuerBasicConstraints P c))"
  by (auto simp: IssuerCaRejectReason_def Let_def)

end
