(* ===== verification/Cert_Chain.thy ===== *)
theory Cert_Chain
  imports Pki
begin

text \<open>
  \<open>core/policy/CertificateChainValidator.cpp\<close>: the breadth-first search for a chain from the
  signer's certificate to a configured trust anchor. The trace text \<open>chain_debug\<close> is not
  modelled (it is written and never read by the validator); everything that decides the
  result is: the decoding of the pools, the budget of 256 issuer candidates, the visited
  set, the order of the two loops, the depth limit and the classification of a failure.
\<close>

section \<open>Inputs and results\<close>

record CertificateChainInput =
  ci_signer_certificate_der :: bytes
  ci_embedded_certificates_der :: "bytes list"
  ci_intermediate_certificates_der :: "bytes list"
  ci_aia_certificates_der :: "bytes list"
  ci_trust_anchors_der :: "bytes list"
  ci_trust_anchor_source :: string
  ci_validation_time :: string

record CertificateChainResult =
  cr_checked :: bool
  cr_trusted :: bool
  cr_chain_valid :: bool
  cr_status :: ChainStatus
  cr_signer_certificate_time_valid :: bool
  cr_issuer_certificate_der :: bytes
  cr_signer_issuer_certificate_der :: bytes
  cr_message :: string

definition checked_result :: CertificateChainResult where
  "checked_result = \<lparr>cr_checked = True, cr_trusted = False, cr_chain_valid = False,
     cr_status = Chain_NotChecked, cr_signer_certificate_time_valid = False,
     cr_issuer_certificate_der = [], cr_signer_issuer_certificate_der = [], cr_message = []\<rparr>"

record 'cert SourceCertificate =
  sc_certificate :: 'cert
  sc_der :: bytes
  sc_source :: string

record 'cert ChainNode =
  cn_certificate :: 'cert
  cn_der :: bytes
  cn_signer_issuer_der :: "bytes option"
  cn_depth :: nat

section \<open>The program\<close>

definition decode_source_group :: "'cert pki \<Rightarrow> bytes list \<times> string \<Rightarrow> 'cert SourceCertificate list" where
  "decode_source_group P grp =
     List.map_filter
       (\<lambda>der. map_option (\<lambda>c. \<lparr>sc_certificate = c, sc_der = der, sc_source = snd grp\<rparr>)
                (DecodeCertificateDer P der))
       (fst grp)"

definition DecodeSourceCandidates ::
    "'cert pki \<Rightarrow> (bytes list \<times> string) list \<Rightarrow> 'cert SourceCertificate list" where
  "DecodeSourceCandidates P groups = concat (map (decode_source_group P) groups)"

text \<open>The loop over the anchors: the first valid anchor whose key verifies the node.\<close>

definition match_anchor ::
    "'cert pki \<Rightarrow> string \<Rightarrow> 'cert SourceCertificate list \<Rightarrow> 'cert \<Rightarrow> 'cert SourceCertificate option" where
  "match_anchor P time anchors certificate =
     find (\<lambda>anchor. IsValidAt P (sc_certificate anchor) time
              \<and> VerifyByIssuer P certificate (sc_certificate anchor)) anchors"

record 'cert search_state =
  ss_queue :: "'cert ChainNode list"
  ss_visited :: "bytes list"
  ss_found_issuer_path :: bool
  ss_found_expired_issuer_path :: bool

text \<open>One iteration of the loop over the issuer candidates of the current node.\<close>

definition issuer_node :: "'cert ChainNode \<Rightarrow> 'cert SourceCertificate \<Rightarrow> 'cert ChainNode" where
  "issuer_node current issuer =
     \<lparr>cn_certificate = sc_certificate issuer, cn_der = sc_der issuer,
      cn_signer_issuer_der = (case cn_signer_issuer_der current of
        Some der \<Rightarrow> Some der | None \<Rightarrow> Some (sc_der issuer)),
      cn_depth = cn_depth current + 1\<rparr>"

definition try_issuer ::
    "'cert pki \<Rightarrow> string \<Rightarrow> 'cert ChainNode \<Rightarrow> 'cert SourceCertificate \<Rightarrow> 'cert search_state \<Rightarrow> 'cert search_state" where
  "try_issuer P time current issuer s =
     (if sc_der issuer \<in> set (ss_visited s) then s
      else if \<not> VerifyByIssuer P (cn_certificate current) (sc_certificate issuer) then s
      else if \<not> IsValidAt P (sc_certificate issuer) time then s\<lparr>ss_found_expired_issuer_path := True\<rparr>
      else if IssuerCaRejectReason P (sc_certificate issuer) (cn_depth current) \<noteq> [] then s
      else s\<lparr>ss_found_issuer_path := True,
             ss_visited := sc_der issuer # ss_visited s,
             ss_queue := ss_queue s @ [issuer_node current issuer]\<rparr>)"

text \<open>The conditions under which a candidate is taken as the issuer of a node.\<close>

definition issuer_accepted :: "'cert pki \<Rightarrow> string \<Rightarrow> 'cert \<Rightarrow> nat \<Rightarrow> 'cert SourceCertificate \<Rightarrow> bool" where
  "issuer_accepted P time c n issuer \<longleftrightarrow>
     VerifyByIssuer P c (sc_certificate issuer) \<and> IsValidAt P (sc_certificate issuer) time
     \<and> IssuerCaRejectReason P (sc_certificate issuer) n = []"

lemma try_issuer_cases:
  obtains (skip) "ss_queue (try_issuer P time current issuer s) = ss_queue s"
      "ss_visited (try_issuer P time current issuer s) = ss_visited s"
      "issuer_accepted P time (cn_certificate current) (cn_depth current) issuer \<longrightarrow> sc_der issuer \<in> set (ss_visited s)"
    | (push) "ss_queue (try_issuer P time current issuer s) = ss_queue s @ [issuer_node current issuer]"
      "ss_visited (try_issuer P time current issuer s) = sc_der issuer # ss_visited s"
      "sc_der issuer \<notin> set (ss_visited s)"
      "issuer_accepted P time (cn_certificate current) (cn_depth current) issuer"
proof (cases "sc_der issuer \<notin> set (ss_visited s)
    \<and> issuer_accepted P time (cn_certificate current) (cn_depth current) issuer")
  case True
  then show ?thesis using push by (simp add: try_issuer_def issuer_accepted_def)
next
  case False
  then show ?thesis using skip by (auto simp: try_issuer_def issuer_accepted_def)
qed

definition trusted_result :: "'cert ChainNode \<Rightarrow> 'cert SourceCertificate \<Rightarrow> CertificateChainResult" where
  "trusted_result current anchor =
     checked_result\<lparr>cr_signer_certificate_time_valid := True, cr_trusted := True,
       cr_chain_valid := True, cr_status := Chain_Trusted,
       cr_issuer_certificate_der := sc_der anchor,
       cr_signer_issuer_certificate_der := (case cn_signer_issuer_der current of
          Some der \<Rightarrow> der | None \<Rightarrow> sc_der anchor),
       cr_message := (if cn_depth current = 0
          then ''Signer certificate validates against trust anchor.''
          else ''Signer certificate validates through issuer certificates and trust anchor.'')\<rparr>"

definition untrusted_result :: "'cert search_state \<Rightarrow> CertificateChainResult" where
  "untrusted_result s =
     (if \<not> ss_found_issuer_path s \<and> ss_found_expired_issuer_path s
      then checked_result\<lparr>cr_signer_certificate_time_valid := True, cr_status := Chain_Expired,
             cr_message := ''Issuer certificate is outside its validity window.''\<rparr>
      else checked_result\<lparr>cr_signer_certificate_time_valid := True,
             cr_status := (if ss_found_issuer_path s then Chain_Incomplete else Chain_Untrusted),
             cr_message := (if ss_found_issuer_path s
               then ''Certificate chain has issuer certificates but does not reach a configured trust anchor.''
               else ''Certificate chain is not trusted by configured trust anchors.'')\<rparr>)"

text \<open>
  The \<open>while\<close> loop over the queue. \<open>try_issuer\<close> either leaves queue and visited set alone or
  moves one unvisited candidate into both, so the queue plus the unvisited candidates shrink.
\<close>

definition unvisited :: "'cert SourceCertificate list \<Rightarrow> bytes list \<Rightarrow> nat" where
  "unvisited candidates visited = card (set (map sc_der candidates) - set visited)"

lemma try_issuer_measure:
  assumes "issuer \<in> set candidates"
  shows "length (ss_queue (try_issuer P time current issuer s)) + unvisited candidates (ss_visited (try_issuer P time current issuer s))
    = length (ss_queue s) + unvisited candidates (ss_visited s)"
proof (cases rule: try_issuer_cases [of P time current issuer s])
  case push
  let ?D = "set (map sc_der candidates) - set (ss_visited s)"
  have "set (map sc_der candidates) - set (sc_der issuer # ss_visited s) = ?D - {sc_der issuer}" by auto
  moreover have "sc_der issuer \<in> ?D" using assms push(3) by auto
  ultimately have "Suc (unvisited candidates (sc_der issuer # ss_visited s)) = unvisited candidates (ss_visited s)"
    unfolding unvisited_def by (metis card_Suc_Diff1 finite_Diff finite_set)
  with push(1,2) show ?thesis by simp
qed simp

lemma fold_try_issuer_measure:
  assumes "set is \<subseteq> set candidates"
  shows "length (ss_queue (fold (try_issuer P time current) is s))
      + unvisited candidates (ss_visited (fold (try_issuer P time current) is s))
    = length (ss_queue s) + unvisited candidates (ss_visited s)"
  using assms by (induction "is" arbitrary: s) (auto simp: try_issuer_measure)

function chain_search ::
    "'cert pki \<Rightarrow> string \<Rightarrow> nat \<Rightarrow> 'cert SourceCertificate list \<Rightarrow> 'cert SourceCertificate list
     \<Rightarrow> 'cert search_state \<Rightarrow> CertificateChainResult" where
  "chain_search P time max_depth anchors candidates s =
     (case ss_queue s of
        [] \<Rightarrow> untrusted_result s
      | current # rest \<Rightarrow>
          let s = s\<lparr>ss_queue := rest\<rparr>
          in if cn_depth current > max_depth
             then chain_search P time max_depth anchors candidates s
             else case match_anchor P time anchors (cn_certificate current) of
               Some anchor \<Rightarrow> trusted_result current anchor
             | None \<Rightarrow>
                 if cn_depth current \<ge> max_depth
                 then chain_search P time max_depth anchors candidates s
                 else chain_search P time max_depth anchors candidates
                        (fold (try_issuer P time current) candidates s))"
  by pat_completeness auto
termination
  by (relation "measure (\<lambda>(P, time, max_depth, anchors, candidates, s).
        length (ss_queue s) + unvisited candidates (ss_visited s))")
    (auto simp: fold_try_issuer_measure)

declare chain_search.simps [simp del]

definition kMaxIssuerCandidates :: nat where
  "kMaxIssuerCandidates = 256"

definition signer_node :: "'cert \<Rightarrow> bytes \<Rightarrow> 'cert ChainNode" where
  "signer_node signer der = \<lparr>cn_certificate = signer, cn_der = der, cn_signer_issuer_der = None, cn_depth = 0\<rparr>"

definition initial_state :: "'cert \<Rightarrow> bytes \<Rightarrow> 'cert search_state" where
  "initial_state signer der = \<lparr>ss_queue = [signer_node signer der], ss_visited = [der],
     ss_found_issuer_path = False, ss_found_expired_issuer_path = False\<rparr>"

definition chain_anchors :: "'cert pki \<Rightarrow> CertificateChainInput \<Rightarrow> 'cert SourceCertificate list" where
  "chain_anchors P input = DecodeSourceCandidates P
     [(ci_trust_anchors_der input,
       if ci_trust_anchor_source input = [] then ''trust-store'' else ci_trust_anchor_source input)]"

definition chain_candidates :: "'cert pki \<Rightarrow> CertificateChainInput \<Rightarrow> 'cert SourceCertificate list" where
  "chain_candidates P input = take kMaxIssuerCandidates (DecodeSourceCandidates P
     [(ci_embedded_certificates_der input, ''embedded''),
      (ci_intermediate_certificates_der input, ''intermediate-store''),
      (ci_aia_certificates_der input, ''AIA'')])"

definition CertificateChainValidator_Validate ::
    "'cert pki \<Rightarrow> CertificateChainInput \<Rightarrow> CertificateChainResult" where
  "CertificateChainValidator_Validate P input =
     (if ci_signer_certificate_der input = [] then
        checked_result\<lparr>cr_status := Chain_SignerMissing, cr_message := ''Signer certificate is missing.''\<rparr>
      else case DecodeCertificateDer P (ci_signer_certificate_der input) of
        None \<Rightarrow> checked_result\<lparr>cr_status := Chain_InvalidSignature,
                  cr_message := ''Signer certificate DER cannot be decoded.''\<rparr>
      | Some signer \<Rightarrow>
          if \<not> IsValidAt P signer (ci_validation_time input) then
            checked_result\<lparr>cr_status := Chain_Expired,
              cr_message := ''Signer certificate is outside its validity window.''\<rparr>
          else if ci_trust_anchors_der input = [] then
            checked_result\<lparr>cr_signer_certificate_time_valid := True, cr_status := Chain_Untrusted,
              cr_message := ''Trust store is empty.''\<rparr>
          else let anchors = chain_anchors P input
               in if anchors = [] then
                    checked_result\<lparr>cr_signer_certificate_time_valid := True, cr_status := Chain_Untrusted,
                      cr_message := ''Trust store does not contain decodable trust anchors.''\<rparr>
                  else let candidates = chain_candidates P input
                       in chain_search P (ci_validation_time input)
                            (length candidates + length anchors + 1) anchors candidates
                            (initial_state signer (ci_signer_certificate_der input)))"

section \<open>The specification: issuer paths\<close>

text \<open>
  \<open>issuer_path P time candidates signer c first n\<close>: the certificate \<open>c\<close> is reached from the
  signer by \<open>n\<close> issuer steps. Every step goes to a candidate that verifies the certificate
  below it, is inside its validity window and is acceptable as a CA with the number of
  intermediates already below it; \<open>first\<close> is the encoding of the signer's own issuer.
\<close>

inductive issuer_path ::
    "'cert pki \<Rightarrow> string \<Rightarrow> 'cert SourceCertificate list \<Rightarrow> 'cert \<Rightarrow> 'cert \<Rightarrow> bytes option \<Rightarrow> nat \<Rightarrow> bool"
  for P time candidates signer where
  path_signer: "issuer_path P time candidates signer signer None 0"
| path_issuer:
    "issuer_path P time candidates signer c first n \<Longrightarrow> issuer \<in> set candidates \<Longrightarrow>
     VerifyByIssuer P c (sc_certificate issuer) \<Longrightarrow> IsValidAt P (sc_certificate issuer) time \<Longrightarrow>
     IssuerCaRejectReason P (sc_certificate issuer) n = [] \<Longrightarrow>
     issuer_path P time candidates signer (sc_certificate issuer)
       (case first of Some der \<Rightarrow> Some der | None \<Rightarrow> Some (sc_der issuer)) (Suc n)"

text \<open>A certificate of a path that a valid anchor has signed.\<close>

definition anchored_path ::
    "'cert pki \<Rightarrow> string \<Rightarrow> 'cert SourceCertificate list \<Rightarrow> 'cert SourceCertificate list \<Rightarrow> 'cert
     \<Rightarrow> bytes option \<Rightarrow> 'cert SourceCertificate \<Rightarrow> bool" where
  "anchored_path P time anchors candidates signer first anchor \<longleftrightarrow>
     (\<exists>c n. issuer_path P time candidates signer c first n \<and> anchor \<in> set anchors
        \<and> IsValidAt P (sc_certificate anchor) time \<and> VerifyByIssuer P c (sc_certificate anchor))"

definition node_path ::
    "'cert pki \<Rightarrow> string \<Rightarrow> 'cert SourceCertificate list \<Rightarrow> 'cert \<Rightarrow> 'cert ChainNode \<Rightarrow> bool" where
  "node_path P time candidates signer node \<longleftrightarrow>
     issuer_path P time candidates signer (cn_certificate node) (cn_signer_issuer_der node) (cn_depth node)"

section \<open>Soundness of the search\<close>

lemma match_anchor_SomeD:
  assumes "match_anchor P time anchors c = Some anchor"
  shows "anchor \<in> set anchors" "IsValidAt P (sc_certificate anchor) time" "VerifyByIssuer P c (sc_certificate anchor)"
  using assms by (auto simp: match_anchor_def find_Some_iff)

lemma match_anchor_None_iff:
  "match_anchor P time anchors c = None \<longleftrightarrow>
     (\<forall>anchor\<in>set anchors. \<not> (IsValidAt P (sc_certificate anchor) time \<and> VerifyByIssuer P c (sc_certificate anchor)))"
  by (auto simp: match_anchor_def find_None_iff)

lemma try_issuer_paths:
  assumes "node_path P time candidates signer current" "issuer \<in> set candidates"
    "\<forall>node\<in>set (ss_queue s). node_path P time candidates signer node"
  shows "\<forall>node\<in>set (ss_queue (try_issuer P time current issuer s)). node_path P time candidates signer node"
proof (cases rule: try_issuer_cases [of P time current issuer s])
  case push
  have "node_path P time candidates signer (issuer_node current issuer)"
    using path_issuer [OF assms(1) [unfolded node_path_def] assms(2)] push(4)
    by (simp add: node_path_def issuer_node_def issuer_accepted_def)
  then show ?thesis using push(1) assms(3) by simp
qed (use assms(3) in simp)

lemma fold_try_issuer_paths:
  assumes "node_path P time candidates signer current" "set is \<subseteq> set candidates"
    "\<forall>node\<in>set (ss_queue s). node_path P time candidates signer node"
  shows "\<forall>node\<in>set (ss_queue (fold (try_issuer P time current) is s)). node_path P time candidates signer node"
  using assms(2,3)
proof (induction "is" arbitrary: s)
  case (Cons i "is")
  have step: "\<forall>node\<in>set (ss_queue (try_issuer P time current i s)). node_path P time candidates signer node"
    by (rule try_issuer_paths [OF assms(1)]) (use Cons.prems in auto)
  have "set is \<subseteq> set candidates" using Cons.prems by simp
  from Cons.IH [OF this step] show ?case by simp
qed simp

lemma untrusted_result_fields [simp]:
  "\<not> cr_trusted (untrusted_result s)" "\<not> cr_chain_valid (untrusted_result s)"
  "cr_checked (untrusted_result s)" "cr_status (untrusted_result s) \<noteq> Chain_Trusted"
  "cr_signer_certificate_time_valid (untrusted_result s)"
  by (auto simp: untrusted_result_def checked_result_def)

lemma trusted_result_fields [simp]:
  "cr_trusted (trusted_result node anchor)" "cr_chain_valid (trusted_result node anchor)"
  "cr_checked (trusted_result node anchor)" "cr_status (trusted_result node anchor) = Chain_Trusted"
  "cr_signer_certificate_time_valid (trusted_result node anchor)"
  "cr_issuer_certificate_der (trusted_result node anchor) = sc_der anchor"
  "cr_signer_issuer_certificate_der (trusted_result node anchor)
     = (case cn_signer_issuer_der node of Some der \<Rightarrow> der | None \<Rightarrow> sc_der anchor)"
  by (auto simp: trusted_result_def checked_result_def)

lemma chain_search_sound:
  assumes "\<forall>node\<in>set (ss_queue s). node_path P time candidates signer node"
    and "cr_trusted (chain_search P time max_depth anchors candidates s)"
  shows "\<exists>node anchor. chain_search P time max_depth anchors candidates s = trusted_result node anchor
    \<and> node_path P time candidates signer node \<and> match_anchor P time anchors (cn_certificate node) = Some anchor"
  using assms
proof (induction P time max_depth anchors candidates s rule: chain_search.induct)
  case (1 P time max_depth anchors candidates s)
  show ?case
  proof (cases "ss_queue s")
    case Nil
    with 1(5) show ?thesis by (simp add: chain_search.simps [of _ _ _ _ _ s])
  next
    case (Cons current rest)
    let ?s = "s\<lparr>ss_queue := rest\<rparr>"
    have paths: "node_path P time candidates signer current"
      "\<forall>node\<in>set (ss_queue ?s). node_path P time candidates signer node"
      using 1(4) Cons by auto
    note fold_paths = fold_try_issuer_paths [OF paths(1) subset_refl paths(2)]
    note unfold = chain_search.simps [of P time max_depth anchors candidates s]
    consider (deep) "cn_depth current > max_depth"
      | (anchor) anchor where "\<not> cn_depth current > max_depth" "match_anchor P time anchors (cn_certificate current) = Some anchor"
      | (last) "\<not> cn_depth current > max_depth" "cn_depth current \<ge> max_depth" "match_anchor P time anchors (cn_certificate current) = None"
      | (expand) "\<not> cn_depth current \<ge> max_depth" "match_anchor P time anchors (cn_certificate current) = None"
      by (metis nat_less_le not_less option.exhaust)
    then show ?thesis
    proof cases
      case deep
      then have "chain_search P time max_depth anchors candidates s = chain_search P time max_depth anchors candidates ?s"
        using Cons unfold by simp
      then show ?thesis using 1(1) [OF Cons refl deep paths(2)] 1(5) by simp
    next
      case anchor
      then show ?thesis using paths(1) Cons unfold by auto
    next
      case last
      then have "chain_search P time max_depth anchors candidates s = chain_search P time max_depth anchors candidates ?s"
        using Cons unfold by simp
      then show ?thesis using 1(2) [OF Cons refl last(1,3,2) paths(2)] 1(5) by simp
    next
      case expand
      then have "chain_search P time max_depth anchors candidates s
          = chain_search P time max_depth anchors candidates (fold (try_issuer P time current) candidates ?s)"
        using Cons unfold by simp
      then show ?thesis using 1(3) [OF Cons refl _ expand(2,1) fold_paths] expand(1) 1(5) by simp
    qed
  qed
qed

section \<open>Completeness of the search\<close>

text \<open>
  The invariant of the breadth-first search, with the set \<open>D\<close> of nodes already dequeued:
  nodes are decoded from their encoding, every visited encoding has a node, no dequeued
  node is signed by a valid anchor, the issuers a dequeued node accepts have nodes at most
  one step deeper, the queue is sorted by depth and spans at most two levels, and a node is
  never deeper than the number of other visited encodings.
\<close>

definition nodes_of :: "'cert ChainNode set \<Rightarrow> 'cert search_state \<Rightarrow> 'cert ChainNode set" where
  "nodes_of D s = D \<union> set (ss_queue s)"

definition expanded ::
    "'cert pki \<Rightarrow> string \<Rightarrow> 'cert SourceCertificate list \<Rightarrow> 'cert ChainNode set \<Rightarrow> 'cert ChainNode \<Rightarrow> bool" where
  "expanded P time issuers N node \<longleftrightarrow>
     (\<forall>i\<in>set issuers. issuer_accepted P time (cn_certificate node) (cn_depth node) i
        \<longrightarrow> (\<exists>y\<in>N. cn_der y = sc_der i \<and> cn_depth y \<le> Suc (cn_depth node)))"

definition bfs_nodes ::
    "'cert pki \<Rightarrow> 'cert SourceCertificate list \<Rightarrow> bytes \<Rightarrow> 'cert ChainNode set \<Rightarrow> 'cert search_state \<Rightarrow> bool" where
  "bfs_nodes P candidates signer_der D s \<longleftrightarrow>
     (\<forall>x\<in>nodes_of D s. DecodeCertificateDer P (cn_der x) = Some (cn_certificate x)
        \<and> cn_depth x < length (ss_visited s))
     \<and> (\<forall>d\<in>set (ss_visited s). \<exists>x\<in>nodes_of D s. cn_der x = d)
     \<and> distinct (ss_visited s) \<and> set (ss_visited s) \<subseteq> insert signer_der (sc_der ` set candidates)"

definition bfs_levels :: "nat \<Rightarrow> 'cert ChainNode set \<Rightarrow> 'cert search_state \<Rightarrow> bool" where
  "bfs_levels k D s \<longleftrightarrow> sorted (map cn_depth (ss_queue s))
     \<and> (\<forall>x\<in>D. cn_depth x \<le> k) \<and> (\<forall>x\<in>set (ss_queue s). k \<le> cn_depth x \<and> cn_depth x \<le> Suc k)"

lemma issuer_node_fields [simp]:
  "cn_certificate (issuer_node c i) = sc_certificate i" "cn_der (issuer_node c i) = sc_der i"
  "cn_depth (issuer_node c i) = Suc (cn_depth c)"
  by (simp_all add: issuer_node_def)

lemma expanded_mono: "expanded P time issuers N x \<Longrightarrow> N \<subseteq> N' \<Longrightarrow> expanded P time issuers N' x"
  unfolding expanded_def by blast

lemma try_issuer_nodes_mono: "nodes_of D s \<subseteq> nodes_of D (try_issuer P time current i s)"
  by (cases rule: try_issuer_cases [of P time current i s]) (auto simp: nodes_of_def)

lemma try_issuer_bfs_nodes:
  assumes "bfs_nodes P candidates sd D s" "current \<in> D" "i \<in> set candidates"
    "DecodeCertificateDer P (sc_der i) = Some (sc_certificate i)"
  shows "bfs_nodes P candidates sd D (try_issuer P time current i s)"
proof (cases rule: try_issuer_cases [of P time current i s])
  case skip
  with assms(1) show ?thesis by (simp add: bfs_nodes_def nodes_of_def)
next
  case push
  have "cn_depth current < length (ss_visited s)" using assms(1,2) by (auto simp: bfs_nodes_def nodes_of_def)
  moreover have nodes: "nodes_of D (try_issuer P time current i s) = insert (issuer_node current i) (nodes_of D s)"
    using push(1) by (auto simp: nodes_of_def)
  ultimately show ?thesis
    using assms(1,3,4) push(2,3) unfolding bfs_nodes_def nodes by (auto simp: less_Suc_eq)
qed

lemma try_issuer_bfs_levels:
  assumes "bfs_levels (cn_depth current) D s"
  shows "bfs_levels (cn_depth current) D (try_issuer P time current i s)"
  by (cases rule: try_issuer_cases [of P time current i s]) (use assms in \<open>auto simp: bfs_levels_def sorted_append\<close>)

lemma try_issuer_expands:
  assumes "bfs_nodes P candidates sd D s" "bfs_levels (cn_depth current) D s"
    "issuer_accepted P time (cn_certificate current) (cn_depth current) i"
  shows "\<exists>y\<in>nodes_of D (try_issuer P time current i s). cn_der y = sc_der i \<and> cn_depth y \<le> Suc (cn_depth current)"
proof (cases rule: try_issuer_cases [of P time current i s])
  case skip
  then obtain y where "y \<in> nodes_of D s" "cn_der y = sc_der i" using assms(1,3) by (auto simp: bfs_nodes_def)
  moreover have "cn_depth y \<le> Suc (cn_depth current)"
    using calculation(1) assms(2) by (auto simp: nodes_of_def bfs_levels_def)
  ultimately show ?thesis using skip(1) by (auto simp: nodes_of_def)
next
  case push
  then show ?thesis by (auto simp: nodes_of_def)
qed

lemma fold_try_issuer_bfs:
  fixes time :: string
  assumes "current \<in> D" "\<forall>i\<in>set candidates. DecodeCertificateDer P (sc_der i) = Some (sc_certificate i)"
    and "set is \<subseteq> set candidates" "bfs_nodes P candidates sd D s" "bfs_levels (cn_depth current) D s"
  defines "s' \<equiv> fold (try_issuer P time current) is s"
  shows "bfs_nodes P candidates sd D s' \<and> bfs_levels (cn_depth current) D s'
    \<and> nodes_of D s \<subseteq> nodes_of D s' \<and> expanded P time is (nodes_of D s') current"
  using assms(3-5) unfolding s'_def
proof (induction "is" arbitrary: s)
  case Nil
  then show ?case by (simp add: expanded_def)
next
  case (Cons i "is")
  let ?t = "try_issuer P time current i s"
  let ?u = "fold (try_issuer P time current) is ?t"
  have i: "i \<in> set candidates" "set is \<subseteq> set candidates" using Cons.prems(1) by auto
  have t: "bfs_nodes P candidates sd D ?t" "bfs_levels (cn_depth current) D ?t"
    using try_issuer_bfs_nodes [OF Cons.prems(2) assms(1) i(1)] assms(2) i(1) try_issuer_bfs_levels [OF Cons.prems(3)]
    by auto
  note IH = Cons.IH [OF i(2) t]
  have "expanded P time [i] (nodes_of D ?t) current"
    using try_issuer_expands [OF Cons.prems(2,3)] by (simp add: expanded_def)
  then have "expanded P time [i] (nodes_of D ?u) current" using IH expanded_mono by blast
  moreover have "expanded P time is (nodes_of D ?u) current" using IH by blast
  ultimately have ex: "expanded P time (i # is) (nodes_of D ?u) current" by (simp add: expanded_def)
  have mono: "nodes_of D s \<subseteq> nodes_of D ?u" using IH try_issuer_nodes_mono by blast
  have "fold (try_issuer P time current) (i # is) s = ?u" by simp
  then show ?case using IH mono ex by metis
qed

text \<open>A set of nodes in which the search has nothing left to do and no anchor was found.\<close>

definition exhausted ::
    "'cert pki \<Rightarrow> string \<Rightarrow> 'cert SourceCertificate list \<Rightarrow> 'cert SourceCertificate list \<Rightarrow> 'cert ChainNode set
     \<Rightarrow> 'cert ChainNode set \<Rightarrow> bool" where
  "exhausted P time anchors candidates D N \<longleftrightarrow>
     (\<forall>x\<in>D. match_anchor P time anchors (cn_certificate x) = None \<and> expanded P time candidates N x)"

lemma bfs_depth_bound:
  assumes "bfs_nodes P candidates sd D s" "x \<in> nodes_of D s"
  shows "cn_depth x \<le> length candidates"
proof -
  have "length (ss_visited s) = card (set (ss_visited s))"
    using assms(1) by (simp add: bfs_nodes_def distinct_card)
  also have "\<dots> \<le> card (insert sd (sc_der ` set candidates))"
    using assms(1) by (intro card_mono) (auto simp: bfs_nodes_def)
  also have "\<dots> \<le> Suc (length candidates)"
    by (metis card_insert_le_m1 card_length length_map list.set_map le_SucI card_insert_if finite_set finite_imageI Suc_le_mono)
  finally show ?thesis using assms by (force simp: bfs_nodes_def)
qed

lemma bfs_pop_levels:
  assumes "bfs_levels k D s" "ss_queue s = current # rest"
  shows "bfs_levels (cn_depth current) (insert current D) (s\<lparr>ss_queue := rest\<rparr>)"
  using assms by (fastforce simp: bfs_levels_def)

lemma chain_search_exhausts:
  assumes "\<forall>i\<in>set candidates. DecodeCertificateDer P (sc_der i) = Some (sc_certificate i)"
    and "length candidates < max_depth"
    and "bfs_nodes P candidates sd D s" "\<exists>k. bfs_levels k D s"
    and "exhausted P time anchors candidates D (nodes_of D s)"
    and "\<not> cr_trusted (chain_search P time max_depth anchors candidates s)"
  shows "\<exists>N. nodes_of D s \<subseteq> N \<and> exhausted P time anchors candidates N N
    \<and> (\<forall>x\<in>N. DecodeCertificateDer P (cn_der x) = Some (cn_certificate x))"
  using assms
proof (induction P time max_depth anchors candidates s arbitrary: D rule: chain_search.induct)
  case (1 P time max_depth anchors candidates s)
  note unfold = chain_search.simps [of P time max_depth anchors candidates s]
  show ?case
  proof (cases "ss_queue s")
    case Nil
    then have "nodes_of D s = D" by (simp add: nodes_of_def)
    then show ?thesis using 1(6,8) by (auto simp: bfs_nodes_def)
  next
    case (Cons current rest)
    let ?s = "s\<lparr>ss_queue := rest\<rparr>" and ?D = "insert current D"
    let ?t = "fold (try_issuer P time current) candidates ?s"
    have same: "nodes_of ?D ?s = nodes_of D s" using Cons by (auto simp: nodes_of_def)
    have depth: "cn_depth current < max_depth"
      using bfs_depth_bound [OF 1(6), of current] 1(5) Cons by (simp add: nodes_of_def)
    have none: "match_anchor P time anchors (cn_certificate current) = None"
      using 1(9) unfold Cons depth by (cases "match_anchor P time anchors (cn_certificate current)") auto
    have run: "chain_search P time max_depth anchors candidates s = chain_search P time max_depth anchors candidates ?t"
      using unfold Cons depth none by simp
    have nodes: "bfs_nodes P candidates sd ?D ?s"
      using 1(6) unfolding bfs_nodes_def same by simp
    obtain k where "bfs_levels k D s" using 1(7) by blast
    note levels = bfs_pop_levels [OF this Cons]
    have fold: "bfs_nodes P candidates sd ?D ?t \<and> bfs_levels (cn_depth current) ?D ?t
        \<and> nodes_of ?D ?s \<subseteq> nodes_of ?D ?t \<and> expanded P time candidates (nodes_of ?D ?t) current"
      by (rule fold_try_issuer_bfs [OF _ 1(4) subset_refl nodes levels]) simp
    then have sub: "nodes_of D s \<subseteq> nodes_of ?D ?t" using same by simp
    have "expanded P time candidates (nodes_of ?D ?t) x" if "x \<in> D" for x
      using expanded_mono [OF _ sub] 1(8) that by (simp add: exhausted_def)
    then have closed: "exhausted P time anchors candidates ?D (nodes_of ?D ?t)"
      using 1(8) none conjunct2 [OF conjunct2 [OF conjunct2 [OF fold]]] unfolding exhausted_def by blast
    have "\<exists>N. nodes_of ?D ?t \<subseteq> N \<and> exhausted P time anchors candidates N N
        \<and> (\<forall>x\<in>N. DecodeCertificateDer P (cn_der x) = Some (cn_certificate x))"
      by (rule 1(3) [OF Cons refl _ none _ 1(4,5) _ _ closed]) (use depth fold 1(9) run in \<open>simp_all, blast\<close>)
    then obtain N where "nodes_of ?D ?t \<subseteq> N" "exhausted P time anchors candidates N N"
      "\<forall>x\<in>N. DecodeCertificateDer P (cn_der x) = Some (cn_certificate x)" by (elim exE conjE)
    then show ?thesis using order_trans [OF sub] by (intro exI [of _ N] conjI)
  qed
qed

lemma exhausted_paths:
  assumes "exhausted P time anchors candidates N N" "x \<in> N" "cn_certificate x = signer" "cn_depth x = 0"
    and "\<forall>x\<in>N. DecodeCertificateDer P (cn_der x) = Some (cn_certificate x)"
    and "\<forall>i\<in>set candidates. DecodeCertificateDer P (sc_der i) = Some (sc_certificate i)"
    and "issuer_path P time candidates signer c first n"
  shows "\<exists>y\<in>N. cn_certificate y = c \<and> cn_depth y \<le> n"
  using assms(7)
proof induction
  case path_signer
  then show ?case using assms(2-4) by auto
next
  case (path_issuer c first n issuer)
  then obtain y where y: "y \<in> N" "cn_certificate y = c" "cn_depth y \<le> n" by blast
  have "issuer_accepted P time c (cn_depth y) issuer"
    using path_issuer(3-5) y(3) IssuerCaRejectReason_mono by (auto simp: issuer_accepted_def)
  then obtain z where z: "z \<in> N" "cn_der z = sc_der issuer" "cn_depth z \<le> Suc (cn_depth y)"
    using assms(1) y(1,2) path_issuer(2) by (auto simp: exhausted_def expanded_def)
  then have "cn_certificate z = sc_certificate issuer" using assms(5,6) path_issuer(2) by (metis option.inject)
  then show ?case using z y(3) by (metis Suc_le_mono le_trans)
qed

section \<open>The validator decides the existence of an anchored path\<close>

lemma DecodeSourceCandidates_decoded:
  "x \<in> set (DecodeSourceCandidates P groups) \<Longrightarrow> DecodeCertificateDer P (sc_der x) = Some (sc_certificate x)"
  by (auto simp: DecodeSourceCandidates_def decode_source_group_def List.map_filter_def)

lemma chain_candidates_decoded:
  "i \<in> set (chain_candidates P input) \<Longrightarrow> DecodeCertificateDer P (sc_der i) = Some (sc_certificate i)"
  unfolding chain_candidates_def by (meson DecodeSourceCandidates_decoded in_set_takeD)

lemma chain_anchors_decoded:
  assumes "a \<in> set (chain_anchors P input)"
  shows "sc_der a \<in> set (ci_trust_anchors_der input)" "DecodeCertificateDer P (sc_der a) = Some (sc_certificate a)"
  using assms by (auto simp: chain_anchors_def DecodeSourceCandidates_def decode_source_group_def List.map_filter_def)

text \<open>What a trusted verdict promises, as a predicate on the input.\<close>

definition trusted_chain ::
    "'cert pki \<Rightarrow> CertificateChainInput \<Rightarrow> bytes option \<Rightarrow> bytes \<Rightarrow> bool" where
  "trusted_chain P input first anchor_der \<longleftrightarrow>
     (\<exists>signer anchor. DecodeCertificateDer P (ci_signer_certificate_der input) = Some signer
        \<and> IsValidAt P signer (ci_validation_time input)
        \<and> anchored_path P (ci_validation_time input) (chain_anchors P input) (chain_candidates P input) signer first anchor
        \<and> sc_der anchor = anchor_der)"

lemma Validate_search:
  assumes "ci_signer_certificate_der input \<noteq> []"
    "DecodeCertificateDer P (ci_signer_certificate_der input) = Some signer"
    "IsValidAt P signer (ci_validation_time input)" "chain_anchors P input \<noteq> []"
  shows "CertificateChainValidator_Validate P input =
    chain_search P (ci_validation_time input)
      (length (chain_candidates P input) + length (chain_anchors P input) + 1)
      (chain_anchors P input) (chain_candidates P input)
      (initial_state signer (ci_signer_certificate_der input))"
proof -
  have "ci_trust_anchors_der input \<noteq> []"
    using assms(4) by (auto simp: chain_anchors_def DecodeSourceCandidates_def decode_source_group_def List.map_filter_def)
  with assms show ?thesis by (simp add: CertificateChainValidator_Validate_def Let_def)
qed

lemma Validate_trusted_cases:
  assumes "cr_trusted (CertificateChainValidator_Validate P input)"
  shows "\<exists>signer. ci_signer_certificate_der input \<noteq> []
    \<and> DecodeCertificateDer P (ci_signer_certificate_der input) = Some signer
    \<and> IsValidAt P signer (ci_validation_time input) \<and> chain_anchors P input \<noteq> []"
  using assms
  by (auto simp: CertificateChainValidator_Validate_def Let_def checked_result_def split: if_splits option.splits)

lemma chain_validator_sound:
  assumes "cr_trusted (CertificateChainValidator_Validate P input)"
  shows "\<exists>first. trusted_chain P input first (cr_issuer_certificate_der (CertificateChainValidator_Validate P input))
    \<and> cr_signer_issuer_certificate_der (CertificateChainValidator_Validate P input)
      = (case first of Some der \<Rightarrow> der | None \<Rightarrow> cr_issuer_certificate_der (CertificateChainValidator_Validate P input))"
proof -
  obtain signer where s: "ci_signer_certificate_der input \<noteq> []"
    "DecodeCertificateDer P (ci_signer_certificate_der input) = Some signer"
    "IsValidAt P signer (ci_validation_time input)" "chain_anchors P input \<noteq> []"
    using Validate_trusted_cases [OF assms] by blast
  let ?t = "ci_validation_time input" and ?C = "chain_candidates P input" and ?A = "chain_anchors P input"
  have init: "\<forall>node\<in>set (ss_queue (initial_state signer (ci_signer_certificate_der input))). node_path P ?t ?C signer node"
    by (simp add: initial_state_def signer_node_def node_path_def path_signer)
  obtain node anchor where run: "CertificateChainValidator_Validate P input = trusted_result node anchor"
    and node: "node_path P ?t ?C signer node" "match_anchor P ?t ?A (cn_certificate node) = Some anchor"
    using chain_search_sound [OF init] assms unfolding Validate_search [OF s] by blast
  have "anchored_path P ?t ?A ?C signer (cn_signer_issuer_der node) anchor"
    using node(1) match_anchor_SomeD [OF node(2)] unfolding anchored_path_def node_path_def by blast
  then show ?thesis
    using s unfolding run by (intro exI [of _ "cn_signer_issuer_der node"]) (auto simp: trusted_chain_def split: option.splits)
qed

lemma chain_validator_complete:
  assumes "trusted_chain P input first anchor_der" "ci_signer_certificate_der input \<noteq> []"
  shows "cr_trusted (CertificateChainValidator_Validate P input)"
proof (rule ccontr)
  let ?t = "ci_validation_time input" and ?C = "chain_candidates P input" and ?A = "chain_anchors P input"
  let ?sd = "ci_signer_certificate_der input"
  assume untrusted: "\<not> cr_trusted (CertificateChainValidator_Validate P input)"
  obtain signer c n anchor where s: "DecodeCertificateDer P ?sd = Some signer" "IsValidAt P signer ?t"
    and path: "issuer_path P ?t ?C signer c first n"
    and anchor: "anchor \<in> set ?A" "IsValidAt P (sc_certificate anchor) ?t" "VerifyByIssuer P c (sc_certificate anchor)"
    using assms(1) by (auto simp: trusted_chain_def anchored_path_def)
  let ?s = "initial_state signer ?sd"
  have "?A \<noteq> []" using anchor(1) by auto
  note run = Validate_search [OF assms(2) s this]
  have init: "bfs_nodes P ?C ?sd {} ?s" "\<exists>k. bfs_levels k {} ?s" "exhausted P ?t ?A ?C {} (nodes_of {} ?s)"
    using s(1) by (auto simp: bfs_nodes_def bfs_levels_def exhausted_def nodes_of_def initial_state_def signer_node_def)
  obtain N where N: "nodes_of {} ?s \<subseteq> N" "exhausted P ?t ?A ?C N N"
    "\<forall>x\<in>N. DecodeCertificateDer P (cn_der x) = Some (cn_certificate x)"
    using chain_search_exhausts [OF _ _ init] chain_candidates_decoded untrusted unfolding run
    by (metis less_add_Suc1 Suc_eq_plus1 add_Suc_right)
  have "signer_node signer ?sd \<in> N" using N(1) by (simp add: nodes_of_def initial_state_def)
  then obtain y where "y \<in> N" "cn_certificate y = c"
    using exhausted_paths [OF N(2) _ _ _ N(3) _ path] chain_candidates_decoded by (fastforce simp: signer_node_def)
  then have "match_anchor P ?t ?A c = None" using N(2) by (auto simp: exhausted_def)
  then show False using anchor by (auto simp: match_anchor_None_iff)
qed

section \<open>The contract of the validator\<close>

text \<open>
  What the clients of the validator rely on: a function from inputs to results, a
  specification of the inputs that deserve trust, and the agreement of the three fields
  that report it.
\<close>

locale chain_validator =
  fixes validate :: "CertificateChainInput \<Rightarrow> CertificateChainResult"
    and deserves_trust :: "CertificateChainInput \<Rightarrow> bool"
  assumes trusted_iff: "cr_trusted (validate input) \<longleftrightarrow> deserves_trust input"
    and status_iff: "cr_status (validate input) = Chain_Trusted \<longleftrightarrow> cr_trusted (validate input)"
    and chain_valid_iff: "cr_chain_valid (validate input) \<longleftrightarrow> cr_trusted (validate input)"
begin

lemma status_deserved: "cr_status (validate input) = Chain_Trusted \<longleftrightarrow> deserves_trust input"
  by (simp add: status_iff trusted_iff)

lemma not_deserved: "\<not> deserves_trust input \<Longrightarrow> \<not> cr_trusted (validate input) \<and> cr_status (validate input) \<noteq> Chain_Trusted"
  by (simp add: status_iff trusted_iff)

end

lemma chain_search_fields:
  "cr_status (chain_search P time m anchors candidates s) = Chain_Trusted
     \<longleftrightarrow> cr_trusted (chain_search P time m anchors candidates s)"
  "cr_chain_valid (chain_search P time m anchors candidates s)
     \<longleftrightarrow> cr_trusted (chain_search P time m anchors candidates s)"
proof (induction P time m anchors candidates s rule: chain_search.induct)
  case (1 P time m anchors candidates s)
  case 1 show ?case
    using "1.IH"(1,3,5) by (subst (1 2) chain_search.simps) (auto simp: Let_def split: list.splits option.splits)
next
  case (1 P time m anchors candidates s)
  case 2 show ?case
    using "1.IH"(2,4,6) by (subst (1 2) chain_search.simps) (auto simp: Let_def split: list.splits option.splits)
qed

lemma Validate_fields:
  "cr_status (CertificateChainValidator_Validate P input) = Chain_Trusted
     \<longleftrightarrow> cr_trusted (CertificateChainValidator_Validate P input)"
  "cr_chain_valid (CertificateChainValidator_Validate P input)
     \<longleftrightarrow> cr_trusted (CertificateChainValidator_Validate P input)"
  by (auto simp: CertificateChainValidator_Validate_def Let_def checked_result_def chain_search_fields split: option.splits)

lemma Validate_trusted_iff:
  "cr_trusted (CertificateChainValidator_Validate P input) \<longleftrightarrow> (\<exists>first anchor_der. trusted_chain P input first anchor_der)"
proof
  assume "\<exists>first anchor_der. trusted_chain P input first anchor_der"
  then obtain first anchor_der where c: "trusted_chain P input first anchor_der" by blast
  then have "ci_signer_certificate_der input \<noteq> []" by (auto simp: trusted_chain_def DecodeCertificateDer_def)
  with c show "cr_trusted (CertificateChainValidator_Validate P input)" by (rule chain_validator_complete)
qed (use chain_validator_sound in blast)

interpretation cv: chain_validator "CertificateChainValidator_Validate P"
  "\<lambda>input. \<exists>first anchor_der. trusted_chain P input first anchor_der" for P
  by unfold_locales (auto simp: Validate_trusted_iff Validate_fields)

text \<open>
  C2. The chain validator is exact. It reports a trusted chain if and only if the signer's
  certificate decodes and is inside its validity window and there is a path of issuers from
  it, through candidates that verify the certificate below, are themselves valid and are
  acceptable as certification authorities at their depth, to a certificate that a valid,
  decodable trust anchor of the input has signed. In particular the breadth-first order,
  the visited set and the depth limit never make it miss such a path among the at most 256
  candidates it admits.
\<close>

theorem chain_validator_exact:
  "cr_trusted (CertificateChainValidator_Validate P input) \<longleftrightarrow>
     (\<exists>signer c first n anchor.
        DecodeCertificateDer P (ci_signer_certificate_der input) = Some signer
        \<and> IsValidAt P signer (ci_validation_time input)
        \<and> issuer_path P (ci_validation_time input) (chain_candidates P input) signer c first n
        \<and> anchor \<in> set (chain_anchors P input)
        \<and> IsValidAt P (sc_certificate anchor) (ci_validation_time input)
        \<and> VerifyByIssuer P c (sc_certificate anchor))"
  unfolding cv.trusted_iff trusted_chain_def anchored_path_def by blast

lemma issuer_path_first:
  assumes "issuer_path P time candidates signer c first n"
  shows "case first of None \<Rightarrow> c = signer
    | Some der \<Rightarrow> \<exists>i\<in>set candidates. sc_der i = der \<and> VerifyByIssuer P signer (sc_certificate i)
        \<and> IsValidAt P (sc_certificate i) time"
  using assms by induction (auto split: option.splits)

text \<open>
  The certificates a trusted result names are the right ones: the reported anchor is an
  entry of the configured anchor list, and the reported issuer of the signer is an entry of
  the candidate pools or of the anchor list that decodes to a certificate which verifies the
  signer's certificate at a moment when it is valid. (The revocation checks use this issuer.)
\<close>

theorem chain_validator_issuers:
  assumes "cr_trusted (CertificateChainValidator_Validate P input)"
  shows "cr_issuer_certificate_der (CertificateChainValidator_Validate P input) \<in> set (ci_trust_anchors_der input)
    \<and> (\<exists>signer issuer.
         DecodeCertificateDer P (ci_signer_certificate_der input) = Some signer
         \<and> DecodeCertificateDer P (cr_signer_issuer_certificate_der (CertificateChainValidator_Validate P input)) = Some issuer
         \<and> VerifyByIssuer P signer issuer \<and> IsValidAt P issuer (ci_validation_time input))"
proof -
  let ?r = "CertificateChainValidator_Validate P input"
  let ?t = "ci_validation_time input" and ?C = "chain_candidates P input" and ?A = "chain_anchors P input"
  obtain first signer anchor c n where
    first: "cr_signer_issuer_certificate_der ?r = (case first of Some der \<Rightarrow> der | None \<Rightarrow> cr_issuer_certificate_der ?r)"
    and signer: "DecodeCertificateDer P (ci_signer_certificate_der input) = Some signer"
    and path: "issuer_path P ?t ?C signer c first n"
    and anchor: "anchor \<in> set ?A" "IsValidAt P (sc_certificate anchor) ?t" "VerifyByIssuer P c (sc_certificate anchor)"
      "sc_der anchor = cr_issuer_certificate_der ?r"
    using chain_validator_sound [OF assms] by (auto simp: trusted_chain_def anchored_path_def)
  have "\<exists>issuer. DecodeCertificateDer P (cr_signer_issuer_certificate_der ?r) = Some issuer
      \<and> VerifyByIssuer P signer issuer \<and> IsValidAt P issuer ?t"
  proof (cases first)
    case None
    then show ?thesis
      using issuer_path_first [OF path] first anchor chain_anchors_decoded(2) [OF anchor(1)] by auto
  next
    case (Some der)
    then show ?thesis
      using issuer_path_first [OF path] first chain_candidates_decoded by fastforce
  qed
  moreover have "cr_issuer_certificate_der ?r \<in> set (ci_trust_anchors_der input)"
    using chain_anchors_decoded(1) [OF anchor(1)] anchor(4) by simp
  ultimately show ?thesis using signer by blast
qed

text \<open>
  A concrete library for evaluating the model: a certificate is a number, its encoding one
  byte, \<open>Suc n\<close> is the issuer of \<open>n\<close>, every certificate is valid and a CA.
\<close>

definition sample_pki :: "nat pki" where
  "sample_pki =
     \<lparr>pki_decode = (\<lambda>der. Some (unat (hd der))),
      pki_verify = (\<lambda>c i. i = Suc c),
      pki_valid_at = (\<lambda>c t. True), pki_valid_now = (\<lambda>c. True),
      pki_basic_constraints = (\<lambda>c. Some (Some 255, None)),
      pki_key_usage = (\<lambda>c. None), pki_ext_key_usage = (\<lambda>c. Some [[1, 3, 6, 1, 5, 5, 7, 3, 8]]),
      pki_issuer_name_is_subject = (\<lambda>c i. i = Suc c)\<rparr>"

definition sample_chain :: CertificateChainInput where
  "sample_chain =
     \<lparr>ci_signer_certificate_der = [1], ci_embedded_certificates_der = [[2], [9]],
      ci_intermediate_certificates_der = [], ci_aia_certificates_der = [[3]],
      ci_trust_anchors_der = [[7], [4]], ci_trust_anchor_source = [],
      ci_validation_time = ''2025-06-01T00:00:00Z''\<rparr>"

lemma sample_chain_result:
  "CertificateChainValidator_Validate sample_pki sample_chain =
     \<lparr>cr_checked = True, cr_trusted = True, cr_chain_valid = True, cr_status = Chain_Trusted,
      cr_signer_certificate_time_valid = True, cr_issuer_certificate_der = [4],
      cr_signer_issuer_certificate_der = [2],
      cr_message = ''Signer certificate validates through issuer certificates and trust anchor.''\<rparr>"
  by code_simp

theorem chain_validator_issuers_witness:
  "cr_trusted (CertificateChainValidator_Validate sample_pki sample_chain)
   \<and> cr_issuer_certificate_der (CertificateChainValidator_Validate sample_pki sample_chain) \<in> {[7], [4]}
   \<and> (\<exists>signer issuer. DecodeCertificateDer sample_pki [1] = Some signer
         \<and> DecodeCertificateDer sample_pki [2] = Some issuer \<and> VerifyByIssuer sample_pki signer issuer)"
  using chain_validator_issuers [of sample_pki sample_chain]
  by (simp add: sample_chain_result) (auto simp: sample_chain_def)

end
