(* ===== verification/Path_Engine.thy ===== *)
theory Path_Engine
  imports Cert_Chain
begin

text \<open>
  \<open>core/validation/PathEngine.{h,cpp}\<close>: which trust anchors a policy admits
  (\<open>PathBuilder::Build\<close>), the validation of one candidate path (\<open>PathValidator::Validate\<close>) and
  the choice of the authoritative one (\<open>PathSelector::Select\<close>). The chain validator is an
  argument of \<open>PathValidator_Validate\<close>, and the lemmas about it are proved from the contract
  \<open>chain_validator\<close>.
\<close>

section \<open>Data\<close>

record PathBuilderInput =
  pbi_signer_certificate_der :: bytes
  pbi_embedded_certificates_der :: "bytes list"
  pbi_intermediate_store_certificates_der :: "bytes list"
  pbi_aia_certificates_der :: "bytes list"
  pbi_current_trust_anchors_der :: "bytes list"
  pbi_historical_trust_anchors_der :: "bytes list"
  pbi_custom_trust_anchors_der :: "bytes list"
  pbi_pinned_trust_anchors_der :: "bytes list"
  pbi_policy :: ValidationPolicy
  pbi_validation_time :: string

record PathCandidate =
  pc_candidate_id :: string
  pc_trust_anchor_source :: string
  pc_signer_certificate_der :: bytes
  pc_embedded_certificates_der :: "bytes list"
  pc_intermediate_certificates_der :: "bytes list"
  pc_aia_certificates_der :: "bytes list"
  pc_trust_anchors_der :: "bytes list"
  pc_uses_historical_trust :: bool
  pc_validation_time :: string

record PathValidationResult =
  pr_candidate_id :: string
  pr_trust_anchor_source :: string
  pr_attempted :: bool
  pr_checked :: bool
  pr_trusted :: bool
  pr_chain_valid :: bool
  pr_signer_certificate_time_valid :: bool
  pr_status :: ChainStatus
  pr_message :: string
  pr_issuer_certificate_der :: bytes
  pr_signer_issuer_certificate_der :: bytes
  pr_uses_historical_trust :: bool

definition default_path_result :: PathValidationResult where
  "default_path_result = \<lparr>pr_candidate_id = [], pr_trust_anchor_source = [], pr_attempted = False,
     pr_checked = False, pr_trusted = False, pr_chain_valid = False,
     pr_signer_certificate_time_valid = False, pr_status = Chain_NotChecked, pr_message = [],
     pr_issuer_certificate_der = [], pr_signer_issuer_certificate_der = [],
     pr_uses_historical_trust = False\<rparr>"

text \<open>\<open>npos\<close> as a selected index is \<open>None\<close>.\<close>

record PathSelection =
  sel_index :: "nat option"
  sel_result :: PathValidationResult
  sel_reason :: string

section \<open>PathBuilder\<close>

definition MakeCandidate :: "PathBuilderInput \<Rightarrow> string \<Rightarrow> string \<Rightarrow> bytes list \<Rightarrow> bool \<Rightarrow> PathCandidate" where
  "MakeCandidate input candidate_id trust_anchor_source trust_anchors uses_historical_trust =
     \<lparr>pc_candidate_id = candidate_id, pc_trust_anchor_source = trust_anchor_source,
      pc_signer_certificate_der = pbi_signer_certificate_der input,
      pc_embedded_certificates_der = pbi_embedded_certificates_der input,
      pc_intermediate_certificates_der = pbi_intermediate_store_certificates_der input,
      pc_aia_certificates_der = pbi_aia_certificates_der input,
      pc_trust_anchors_der = trust_anchors,
      pc_uses_historical_trust = uses_historical_trust,
      pc_validation_time = pbi_validation_time input\<rparr>"

definition AddCurrentCandidate ::
    "PathCandidate list \<Rightarrow> PathBuilderInput \<Rightarrow> string \<Rightarrow> string \<Rightarrow> PathCandidate list" where
  "AddCurrentCandidate candidates input candidate_id trust_anchor_source =
     candidates @ [MakeCandidate input candidate_id trust_anchor_source (pbi_current_trust_anchors_der input) False]"

definition AddHistoricalCandidateIfAllowed ::
    "PathCandidate list \<Rightarrow> PathBuilderInput \<Rightarrow> string \<Rightarrow> PathCandidate list" where
  "AddHistoricalCandidateIfAllowed candidates input candidate_id =
     (if allow_historical_trust (pbi_policy input) \<and> pbi_historical_trust_anchors_der input \<noteq> []
      then candidates @ [MakeCandidate input candidate_id ''historical-tl'' (pbi_historical_trust_anchors_der input) True]
      else candidates)"

definition PathBuilder_Build :: "PathBuilderInput \<Rightarrow> PathCandidate list" where
  "PathBuilder_Build input =
     (case trust_anchor_policy (pbi_policy input) of
        CurrentTLOnly \<Rightarrow> AddCurrentCandidate [] input ''current-tl'' ''current-tl''
      | ExplicitLegacyAnchorBundle \<Rightarrow>
          AddHistoricalCandidateIfAllowed (AddCurrentCandidate [] input ''current-tl'' ''current-tl'') input ''historical-tl''
      | HistoricalAtSigningTime \<Rightarrow>
          AddHistoricalCandidateIfAllowed (AddCurrentCandidate [] input ''current-tl'' ''current-tl'') input ''historical-tl''
      | CustomTrustStore \<Rightarrow>
          [MakeCandidate input ''custom-trust-store'' ''custom-trust-store'' (pbi_custom_trust_anchors_der input) False]
      | PinnedAnchors \<Rightarrow>
          [MakeCandidate input ''pinned-anchors'' ''pinned-anchors'' (pbi_pinned_trust_anchors_der input) False]
      | ForensicAllPossible \<Rightarrow>
          (let candidates =
             (if pbi_current_trust_anchors_der input \<noteq> [] \<or> pbi_historical_trust_anchors_der input = []
              then AddCurrentCandidate [] input ''forensic-current-tl'' ''current-tl'' else [])
           in if pbi_historical_trust_anchors_der input \<noteq> []
              then candidates @ [MakeCandidate input ''forensic-historical-tl'' ''historical-tl''
                                   (pbi_historical_trust_anchors_der input) True]
              else candidates))"

section \<open>PathValidator\<close>

definition chain_input :: "PathCandidate \<Rightarrow> CertificateChainInput" where
  "chain_input candidate =
     \<lparr>ci_signer_certificate_der = pc_signer_certificate_der candidate,
      ci_embedded_certificates_der = pc_embedded_certificates_der candidate,
      ci_intermediate_certificates_der = pc_intermediate_certificates_der candidate,
      ci_aia_certificates_der = pc_aia_certificates_der candidate,
      ci_trust_anchors_der = pc_trust_anchors_der candidate,
      ci_trust_anchor_source = pc_trust_anchor_source candidate,
      ci_validation_time = pc_validation_time candidate\<rparr>"

definition PathValidator_Validate ::
    "(CertificateChainInput \<Rightarrow> CertificateChainResult) \<Rightarrow> PathCandidate \<Rightarrow> PathValidationResult" where
  "PathValidator_Validate validate candidate =
     (let chain = validate (chain_input candidate)
      in \<lparr>pr_candidate_id = pc_candidate_id candidate,
          pr_trust_anchor_source = pc_trust_anchor_source candidate,
          pr_attempted = True, pr_checked = cr_checked chain, pr_trusted = cr_trusted chain,
          pr_chain_valid = cr_chain_valid chain,
          pr_signer_certificate_time_valid = cr_signer_certificate_time_valid chain,
          pr_status = cr_status chain, pr_message = cr_message chain,
          pr_issuer_certificate_der = cr_issuer_certificate_der chain,
          pr_signer_issuer_certificate_der = cr_signer_issuer_certificate_der chain,
          pr_uses_historical_trust = pc_uses_historical_trust candidate\<rparr>)"

section \<open>PathSelector\<close>

definition IsAuthoritativeCandidateAllowed :: "PathValidationResult \<Rightarrow> ValidationPolicy \<Rightarrow> bool" where
  "IsAuthoritativeCandidateAllowed result policy \<longleftrightarrow>
     \<not> pr_uses_historical_trust result \<or> allow_historical_trust policy"

definition PathSelector_Select :: "PathValidationResult list \<Rightarrow> ValidationPolicy \<Rightarrow> PathSelection" where
  "PathSelector_Select results policy =
     (if results = [] then \<lparr>sel_index = None, sel_result = default_path_result, sel_reason = ''no-candidates''\<rparr>
      else case find_index (\<lambda>r. pr_trusted r \<and> IsAuthoritativeCandidateAllowed r policy) results of
        Some i \<Rightarrow> \<lparr>sel_index = Some i, sel_result = results ! i, sel_reason = ''trusted-candidate''\<rparr>
      | None \<Rightarrow>
          (case find_index (\<lambda>r. IsAuthoritativeCandidateAllowed r policy) results of
             Some i \<Rightarrow> \<lparr>sel_index = Some i, sel_result = results ! i, sel_reason = ''fallback-untrusted-candidate''\<rparr>
           | None \<Rightarrow> \<lparr>sel_index = None, sel_result = default_path_result, sel_reason = ''no-authoritative-candidate''\<rparr>))"

section \<open>The selected path\<close>

lemma Select_SomeD:
  assumes "sel_index (PathSelector_Select results policy) = Some i"
  shows "i < length results" "sel_result (PathSelector_Select results policy) = results ! i"
    "IsAuthoritativeCandidateAllowed (results ! i) policy"
  using assms
  by (auto simp: PathSelector_Select_def split: if_splits option.splits dest: find_index_SomeD(1,2))

lemma Select_trusted_iff:
  "pr_trusted (sel_result (PathSelector_Select results policy)) \<longleftrightarrow>
     (\<exists>r\<in>set results. pr_trusted r \<and> IsAuthoritativeCandidateAllowed r policy)"
proof (cases "find_index (\<lambda>r. pr_trusted r \<and> IsAuthoritativeCandidateAllowed r policy) results")
  case None
  then have "\<forall>r\<in>set results. \<not> (pr_trusted r \<and> IsAuthoritativeCandidateAllowed r policy)"
    by (simp add: find_index_None_iff)
  moreover have "\<not> pr_trusted (sel_result (PathSelector_Select results policy))"
    using None calculation
    by (auto simp: PathSelector_Select_def default_path_result_def find_index_Some_iff split: option.splits)
  ultimately show ?thesis by blast
next
  case (Some i)
  then have "results \<noteq> []" "i < length results" "pr_trusted (results ! i)" "IsAuthoritativeCandidateAllowed (results ! i) policy"
    by (auto simp: find_index_Some_iff)
  then show ?thesis using Some by (auto simp: PathSelector_Select_def)
qed

lemma Select_trusted_first:
  assumes "pr_trusted (sel_result (PathSelector_Select results policy))"
  obtains i where "sel_index (PathSelector_Select results policy) = Some i"
    "\<forall>j<i. \<not> (pr_trusted (results ! j) \<and> IsAuthoritativeCandidateAllowed (results ! j) policy)"
proof (cases "find_index (\<lambda>r. pr_trusted r \<and> IsAuthoritativeCandidateAllowed r policy) results")
  case None
  then show ?thesis using assms unfolding Select_trusted_iff by (auto simp: find_index_None_iff)
next
  case (Some i)
  then have "results \<noteq> []" "\<forall>j<i. \<not> (pr_trusted (results ! j) \<and> IsAuthoritativeCandidateAllowed (results ! j) policy)"
    by (auto simp: find_index_Some_iff)
  then show ?thesis using that [of i] Some by (simp add: PathSelector_Select_def)
qed

lemma Build_nonempty: "PathBuilder_Build input \<noteq> []"
  by (auto simp: PathBuilder_Build_def AddCurrentCandidate_def AddHistoricalCandidateIfAllowed_def Let_def
      split: TrustAnchorPolicy.splits)

text \<open>Every candidate carries the signer, the pools and the time of the input unchanged.\<close>

lemma Build_candidate:
  assumes "c \<in> set (PathBuilder_Build input)"
  shows "pc_signer_certificate_der c = pbi_signer_certificate_der input"
    "pc_embedded_certificates_der c = pbi_embedded_certificates_der input"
    "pc_validation_time c = pbi_validation_time input"
  using assms by (auto simp: PathBuilder_Build_def AddCurrentCandidate_def AddHistoricalCandidateIfAllowed_def
      MakeCandidate_def Let_def split: TrustAnchorPolicy.splits if_splits)

text \<open>The anchors a policy admits, and whether they count as historical.\<close>

definition admitted_anchors :: "PathBuilderInput \<Rightarrow> (bytes list \<times> bool) list" where
  "admitted_anchors input =
     (let cur = (pbi_current_trust_anchors_der input, False); hist = (pbi_historical_trust_anchors_der input, True)
      in case trust_anchor_policy (pbi_policy input) of
        CurrentTLOnly \<Rightarrow> [cur]
      | CustomTrustStore \<Rightarrow> [(pbi_custom_trust_anchors_der input, False)]
      | PinnedAnchors \<Rightarrow> [(pbi_pinned_trust_anchors_der input, False)]
      | ForensicAllPossible \<Rightarrow> [cur, hist]
      | _ \<Rightarrow> cur # (if allow_historical_trust (pbi_policy input) then [hist] else []))"

lemma Build_anchors:
  assumes "c \<in> set (PathBuilder_Build input)"
  shows "(pc_trust_anchors_der c, pc_uses_historical_trust c) \<in> set (admitted_anchors input)"
  using assms by (auto simp: PathBuilder_Build_def admitted_anchors_def AddCurrentCandidate_def
      AddHistoricalCandidateIfAllowed_def MakeCandidate_def Let_def split: TrustAnchorPolicy.splits if_splits)

context chain_validator
begin

lemma path_result_trusted: "pr_trusted (PathValidator_Validate validate c) \<longleftrightarrow> deserves_trust (chain_input c)"
  by (simp add: PathValidator_Validate_def Let_def trusted_iff)

lemma path_result_status: "pr_status (PathValidator_Validate validate c) = Chain_Trusted \<longleftrightarrow> deserves_trust (chain_input c)"
  by (simp add: PathValidator_Validate_def Let_def status_deserved)

lemma selected_path_trusted:
  "pr_trusted (sel_result (PathSelector_Select (map (PathValidator_Validate validate) candidates) policy)) \<longleftrightarrow>
     (\<exists>c\<in>set candidates. (pc_uses_historical_trust c \<longrightarrow> allow_historical_trust policy) \<and> deserves_trust (chain_input c))"
  by (auto simp: Select_trusted_iff path_result_trusted IsAuthoritativeCandidateAllowed_def PathValidator_Validate_def Let_def trusted_iff)

end

text \<open>
  C9. The path engine selects a trusted path exactly when one of the candidates the policy
  builds, historical ones only where the policy allows them, has a certificate chain that
  deserves trust; and every candidate it considers uses only the anchors the policy admits.
\<close>

theorem path_engine_exact:
  "(pr_trusted (sel_result (PathSelector_Select
       (map (PathValidator_Validate (CertificateChainValidator_Validate P)) (PathBuilder_Build input)) policy)) \<longleftrightarrow>
     (\<exists>c\<in>set (PathBuilder_Build input).
        (pc_uses_historical_trust c \<longrightarrow> allow_historical_trust policy)
        \<and> (\<exists>first anchor_der. trusted_chain P (chain_input c) first anchor_der)))
   \<and> (\<forall>c\<in>set (PathBuilder_Build input).
        (pc_trust_anchors_der c, pc_uses_historical_trust c) \<in> set (admitted_anchors input)
        \<and> pc_signer_certificate_der c = pbi_signer_certificate_der input
        \<and> pc_validation_time c = pbi_validation_time input)"
  using cv.selected_path_trusted [of P "PathBuilder_Build input" policy] Build_anchors Build_candidate by blast

definition sample_path_input :: PathBuilderInput where
  "sample_path_input = \<lparr>pbi_signer_certificate_der = [1], pbi_embedded_certificates_der = [[2]],
     pbi_intermediate_store_certificates_der = [], pbi_aia_certificates_der = [], pbi_current_trust_anchors_der = [[3]],
     pbi_historical_trust_anchors_der = [[2]], pbi_custom_trust_anchors_der = [], pbi_pinned_trust_anchors_der = [],
     pbi_policy = default_policy, pbi_validation_time = ''2025-06-01T12:00:00Z''\<rparr>"

theorem path_engine_exact_witness:
  "\<exists>c\<in>set (PathBuilder_Build sample_path_input). \<not> pc_uses_historical_trust c \<and> pc_trust_anchors_der c = [[3]]
     \<and> (\<exists>first anchor_der. trusted_chain sample_pki (chain_input c) first anchor_der)"
proof -
  have "pr_trusted (sel_result (PathSelector_Select
      (map (PathValidator_Validate (CertificateChainValidator_Validate sample_pki)) (PathBuilder_Build sample_path_input)) default_policy))"
    by code_simp
  moreover have "\<not> allow_historical_trust default_policy" "admitted_anchors sample_path_input = [([[3]], False)]" by code_simp+
  ultimately show ?thesis
    using path_engine_exact [of sample_pki sample_path_input default_policy] by fastforce
qed

text \<open>
  Historical trust never leaks: whatever the validation results are, the selector
  returns a result that used historical anchors only under a policy that allows them, and
  if it returns a trusted result, no earlier candidate was both trusted and allowed.
\<close>

theorem path_selector_no_historical_leak:
  assumes "sel_index (PathSelector_Select results policy) = Some i"
  shows "i < length results \<and> sel_result (PathSelector_Select results policy) = results ! i
    \<and> (pr_uses_historical_trust (results ! i) \<longrightarrow> allow_historical_trust policy)
    \<and> (pr_trusted (results ! i) \<longrightarrow>
         (\<forall>j<i. pr_trusted (results ! j) \<longrightarrow> pr_uses_historical_trust (results ! j) \<and> \<not> allow_historical_trust policy))"
proof -
  note sel = Select_SomeD [OF assms]
  have "\<forall>j<i. pr_trusted (results ! j) \<longrightarrow> pr_uses_historical_trust (results ! j) \<and> \<not> allow_historical_trust policy"
    if "pr_trusted (results ! i)"
  proof -
    from that sel(2) have "pr_trusted (sel_result (PathSelector_Select results policy))" by simp
    then show ?thesis using assms by (elim Select_trusted_first) (auto simp: IsAuthoritativeCandidateAllowed_def)
  qed
  then show ?thesis using sel by (simp add: IsAuthoritativeCandidateAllowed_def)
qed

theorem path_selector_no_historical_leak_witness:
  "sel_index (PathSelector_Select
     [default_path_result\<lparr>pr_trusted := True, pr_uses_historical_trust := True\<rparr>,
      default_path_result\<lparr>pr_trusted := True\<rparr>] default_policy) = Some 1
   \<and> \<not> pr_uses_historical_trust (default_path_result\<lparr>pr_trusted := True\<rparr>)"
proof -
  let ?r = "[default_path_result\<lparr>pr_trusted := True, pr_uses_historical_trust := True\<rparr>,
      default_path_result\<lparr>pr_trusted := True\<rparr>]"
  have s: "sel_index (PathSelector_Select ?r default_policy) = Some 1"
    by code_simp
  show ?thesis
    using path_selector_no_historical_leak [OF s] s by (simp add: default_policy_def)
qed

end
