(* ===== verification/Ocsp_Validator.thy ===== *)
theory Ocsp_Validator
  imports Cert_Chain Sha256 Http_Client
begin

text \<open>
  \<open>core/policy/OcspValidator.cpp\<close>: asking an OCSP responder about a certificate, or judging a
  stored response. Building and decoding the ASN.1 messages, checking their signatures and
  their validity window are services of cryptonite, sending the request is the HTTP client's;
  both come as records of functions. The binding of a response to the requested certificate,
  the delegated responder, the mapping of statuses and every failure branch are modelled.
\<close>

section \<open>Data and library services\<close>

record OcspCertIdFields =
  id_issuer_name_hash :: bytes
  id_issuer_key_hash :: bytes
  id_serial_number :: bytes

text \<open>A \<open>CertID\<close> as the library holds it; \<open>asn_serial\<close> is the encoded serial number, if encodable.\<close>

record CertID =
  asn_issuerNameHash :: bytes
  asn_issuerKeyHash :: bytes
  asn_serial :: "bytes option"

record OcspMappedCertificateStatus =
  ms_cert_id :: OcspCertIdFields
  ms_status :: string
  ms_revocation_time :: int

record OcspCertStatus =
  api_serial_number :: "bytes option option"
  api_status :: "string option"
  api_revocationTime :: int

datatype resp_validity = Validity_OK | Validity_NextUpdateWarning | Validity_Failed

record ('cert, 'req, 'resp) ocsp_lib =
  eocspreq_generate_from_cert :: "'cert \<Rightarrow> 'cert \<Rightarrow> 'req option"
  verify_adapter_init_by_cert :: "'cert \<Rightarrow> bool"
  digest_adapter_init_default :: bool
  eocspreq_alloc :: "'cert \<Rightarrow> bool"
  eocspreq_add_cert :: "'cert \<Rightarrow> 'cert \<Rightarrow> bool"
  eocspreq_generate :: "'cert \<Rightarrow> 'cert \<Rightarrow> 'req option"
  req_first_cert_id :: "'req \<Rightarrow> CertID option"
  ocspreq_encode :: "'req \<Rightarrow> bytes option"
  ocspresp_decode :: "bytes \<Rightarrow> 'resp option"
  ocspresp_get_status :: "'resp \<Rightarrow> int option option"
  resp_has_response_bytes :: "'resp \<Rightarrow> bool"
  eocspreq_validate_resp :: "'resp \<Rightarrow> int \<Rightarrow> int \<Rightarrow> resp_validity"
  ocspresp_verify :: "'resp \<Rightarrow> 'cert \<Rightarrow> bool"
  ocspresp_get_certs :: "'resp \<Rightarrow> 'cert option list"
  resp_single_cert_ids :: "'resp \<Rightarrow> CertID option list"
  ocspresp_get_certs_status :: "'resp \<Rightarrow> OcspCertStatus option list"

text \<open>\<open>HttpClient::Post\<close>: address, body, content type, accepted type, time limit.\<close>

type_synonym http_post = "string \<Rightarrow> bytes \<Rightarrow> string \<Rightarrow> string \<Rightarrow> int \<Rightarrow> HttpPostResult"

record OcspValidationInput =
  oi_url :: string
  oi_use_nonce :: bool
  oi_timeout_ms :: int
  oi_signer_certificate_der :: bytes
  oi_issuer_certificate_der :: bytes
  oi_validation_time :: string
  oi_response_der :: bytes

record OcspValidationResult =
  or_checked :: bool
  or_responder_answered :: bool
  or_revoked :: bool
  or_status :: RevocationStatus
  or_message :: string
  or_request_evidence_id :: string
  or_response_evidence_id :: string
  or_response_der :: bytes
  or_revocation_time :: int

definition default_ocsp_input :: OcspValidationInput where
  "default_ocsp_input = \<lparr>oi_url = [], oi_use_nonce = True, oi_timeout_ms = 10000,
     oi_signer_certificate_der = [], oi_issuer_certificate_der = [], oi_validation_time = [], oi_response_der = []\<rparr>"

definition default_ocsp_result :: OcspValidationResult where
  "default_ocsp_result = \<lparr>or_checked = False, or_responder_answered = False, or_revoked = False,
     or_status = Rev_NotChecked, or_message = [], or_request_evidence_id = [], or_response_evidence_id = [],
     or_response_der = [], or_revocation_time = 0\<rparr>"

section \<open>The request\<close>

definition EncodeSerialNumber :: "bytes option \<Rightarrow> bytes" where
  "EncodeSerialNumber serial = (case serial of None \<Rightarrow> [] | Some encoded \<Rightarrow> encoded)"

definition ExtractCertIdFields :: "CertID \<Rightarrow> OcspCertIdFields" where
  "ExtractCertIdFields cert_id =
     \<lparr>id_issuer_name_hash = asn_issuerNameHash cert_id, id_issuer_key_hash = asn_issuerKeyHash cert_id,
      id_serial_number = EncodeSerialNumber (asn_serial cert_id)\<rparr>"

definition EncodeRequestAndExtractCertId ::
    "('cert, 'req, 'resp) ocsp_lib \<Rightarrow> 'req \<Rightarrow> string + bytes \<times> OcspCertIdFields" where
  "EncodeRequestAndExtractCertId L request =
     (case req_first_cert_id L request of
        None \<Rightarrow> Inl ''Generated OCSP request does not contain CertID.''
      | Some cert_id \<Rightarrow>
          (case ocspreq_encode L request of
             None \<Rightarrow> Inl ''Failed to encode OCSP request.''
           | Some request_der \<Rightarrow>
               if request_der = [] then Inl ''Generated OCSP request is empty.''
               else Inr (request_der, ExtractCertIdFields cert_id)))"

definition GenerateRequestWithDefaultNonce ::
    "('cert, 'req, 'resp) ocsp_lib \<Rightarrow> 'cert \<Rightarrow> 'cert \<Rightarrow> string + 'req" where
  "GenerateRequestWithDefaultNonce L issuer signer =
     (case eocspreq_generate_from_cert L issuer signer of
        None \<Rightarrow> Inl ''Failed to generate OCSP request.''
      | Some request \<Rightarrow> Inr request)"

definition GenerateRequestWithoutNonce ::
    "('cert, 'req, 'resp) ocsp_lib \<Rightarrow> 'cert \<Rightarrow> 'cert \<Rightarrow> string + 'req" where
  "GenerateRequestWithoutNonce L issuer signer =
     (if \<not> verify_adapter_init_by_cert L issuer then Inl ''Failed to initialize OCSP issuer verify adapter.''
      else if \<not> digest_adapter_init_default L then Inl ''Failed to initialize OCSP digest adapter.''
      else if \<not> eocspreq_alloc L issuer then Inl ''Failed to initialize OCSP request engine.''
      else if \<not> eocspreq_add_cert L issuer signer then Inl ''Failed to add signer certificate to OCSP request.''
      else case eocspreq_generate L issuer signer of
        None \<Rightarrow> Inl ''Failed to generate OCSP request.''
      | Some request \<Rightarrow> Inr request)"

definition BuildRequestDer ::
    "'cert pki \<Rightarrow> ('cert, 'req, 'resp) ocsp_lib \<Rightarrow> OcspValidationInput \<Rightarrow> string + bytes \<times> OcspCertIdFields" where
  "BuildRequestDer P L input =
     (case DecodeCertificateDer P (oi_signer_certificate_der input) of
        None \<Rightarrow> Inl ''Failed to decode signer certificate.''
      | Some signer \<Rightarrow>
        (case DecodeCertificateDer P (oi_issuer_certificate_der input) of
           None \<Rightarrow> Inl ''Failed to decode issuer certificate.''
         | Some issuer \<Rightarrow>
             (case (if oi_use_nonce input then GenerateRequestWithDefaultNonce L issuer signer
                    else GenerateRequestWithoutNonce L issuer signer) of
                Inl message \<Rightarrow> Inl message
              | Inr request \<Rightarrow> EncodeRequestAndExtractCertId L request)))"

section \<open>The statuses of a response\<close>

text \<open>The default status of an entry is the empty string, its time 0.\<close>

definition ExtractResponseCertIds :: "('cert, 'req, 'resp) ocsp_lib \<Rightarrow> 'resp \<Rightarrow> OcspMappedCertificateStatus list" where
  "ExtractResponseCertIds L response =
     (if \<not> resp_has_response_bytes L response then []
      else List.map_filter (map_option (\<lambda>cert_id.
             \<lparr>ms_cert_id = ExtractCertIdFields cert_id, ms_status = [], ms_revocation_time = 0\<rparr>))
             (resp_single_cert_ids L response))"

definition ExtractStatusesWithCryptoniteApi ::
    "('cert, 'req, 'resp) ocsp_lib \<Rightarrow> 'resp \<Rightarrow> OcspMappedCertificateStatus list" where
  "ExtractStatusesWithCryptoniteApi L response =
     List.map_filter (map_option (\<lambda>entry.
       \<lparr>ms_cert_id = \<lparr>id_issuer_name_hash = [], id_issuer_key_hash = [],
          id_serial_number = (case api_serial_number entry of None \<Rightarrow> [] | Some serial \<Rightarrow> EncodeSerialNumber serial)\<rparr>,
        ms_status = (case api_status entry of None \<Rightarrow> ''unknown'' | Some status \<Rightarrow> status),
        ms_revocation_time = api_revocationTime entry\<rparr>))
       (ocspresp_get_certs_status L response)"

definition known_status :: "string \<Rightarrow> string" where
  "known_status status = (if status = [] then ''unknown'' else status)"

fun MergeOcspStatusesByResponseOrder ::
    "OcspMappedCertificateStatus list \<Rightarrow> OcspMappedCertificateStatus list \<Rightarrow> OcspMappedCertificateStatus list" where
  "MergeOcspStatusesByResponseOrder (c # cs) (a # as) =
     c\<lparr>ms_status := known_status (ms_status a), ms_revocation_time := ms_revocation_time a\<rparr>
       # MergeOcspStatusesByResponseOrder cs as"
| "MergeOcspStatusesByResponseOrder cs [] = map (\<lambda>c. c\<lparr>ms_status := known_status (ms_status c)\<rparr>) cs"
| "MergeOcspStatusesByResponseOrder [] as = []"

definition ExtractResponseStatuses :: "('cert, 'req, 'resp) ocsp_lib \<Rightarrow> 'resp \<Rightarrow> OcspMappedCertificateStatus list" where
  "ExtractResponseStatuses L response =
     MergeOcspStatusesByResponseOrder (ExtractResponseCertIds L response) (ExtractStatusesWithCryptoniteApi L response)"

definition SameCertIdFields :: "OcspCertIdFields \<Rightarrow> OcspCertIdFields \<Rightarrow> bool" where
  "SameCertIdFields left right \<longleftrightarrow>
     id_issuer_name_hash left = id_issuer_name_hash right \<and> id_issuer_key_hash left = id_issuer_key_hash right
     \<and> id_serial_number left = id_serial_number right"

text \<open>
  The results are the status and the out-parameters \<open>revoked\<close>, \<open>revocation_time\<close> and
  \<open>message\<close>; the last is \<open>None\<close> where the function leaves it as it was.
\<close>

fun map_status_loop ::
    "OcspCertIdFields \<Rightarrow> OcspMappedCertificateStatus list \<Rightarrow> RevocationStatus \<times> bool \<times> int \<times> string option" where
  "map_status_loop requested [] =
     (Rev_Unknown, False, 0, Some ''OCSP response does not contain status for requested certificate.'')"
| "map_status_loop requested (entry # rest) =
     (if \<not> SameCertIdFields requested (ms_cert_id entry) then map_status_loop requested rest
      else if ms_status entry = ''revoked'' then (Rev_Revoked, True, ms_revocation_time entry, None)
      else if ms_status entry = ''good'' then (Rev_Good, False, 0, None)
      else if ms_status entry = ''unknown'' then (Rev_Unknown, False, 0, None)
      else map_status_loop requested rest)"

definition MapOcspStatusForRequestedCertId ::
    "OcspCertIdFields \<Rightarrow> OcspMappedCertificateStatus list \<Rightarrow> RevocationStatus \<times> bool \<times> int \<times> string option" where
  "MapOcspStatusForRequestedCertId requested statuses =
     (if statuses = [] then
        (Rev_Unknown, False, 0, Some ''OCSP response does not contain certificate status records.'')
      else map_status_loop requested statuses)"

section \<open>The response\<close>

definition VerifiedByIssuer :: "'cert pki \<Rightarrow> 'cert \<Rightarrow> 'cert \<Rightarrow> bool" where
  "VerifiedByIssuer P certificate issuer = pki_verify P certificate issuer"

definition VerifyResponseWithDelegatedResponder ::
    "'cert pki \<Rightarrow> ('cert, 'req, 'resp) ocsp_lib \<Rightarrow> 'resp \<Rightarrow> 'cert \<Rightarrow> bool" where
  "VerifyResponseWithDelegatedResponder P L response issuer =
     list_ex (\<lambda>entry. case entry of
         None \<Rightarrow> False
       | Some candidate \<Rightarrow>
           VerifiedByIssuer P candidate issuer \<and> HasOcspSigningEku P candidate
           \<and> verify_adapter_init_by_cert L candidate \<and> ocspresp_verify L response candidate)
       (ocspresp_get_certs L response)"

definition kEmbeddedEvidenceMaxAgeMinutes :: int where
  "kEmbeddedEvidenceMaxAgeMinutes = 366 * 24 * 60"

definition timeout_minutes :: "OcspValidationInput \<Rightarrow> bool \<Rightarrow> int" where
  "timeout_minutes input is_embedded_response =
     (if is_embedded_response then kEmbeddedEvidenceMaxAgeMinutes
      else if oi_timeout_ms input > 0 then (oi_timeout_ms input + 59999) div 60000 else 1)"

text \<open>\<open>OCSPResponseStatus_successful\<close> is 0.\<close>

definition DecodeAndMapResponse ::
    "'cert pki \<Rightarrow> ('cert, 'req, 'resp) ocsp_lib \<Rightarrow> int \<Rightarrow> OcspValidationInput \<Rightarrow> OcspCertIdFields \<Rightarrow> bytes \<Rightarrow> bool
     \<Rightarrow> RevocationStatus \<times> bool \<times> int \<times> string option" where
  "DecodeAndMapResponse P L now input requested_cert_id response_body is_embedded_response =
     (let invalid = (\<lambda>message. (Rev_Invalid, False, 0, Some message))
      in if response_body = [] then invalid ''OCSP response body is empty.''
         else case ocspresp_decode L response_body of
           None \<Rightarrow> invalid ''Failed to decode OCSP response.''
         | Some response \<Rightarrow>
         (case ocspresp_get_status L response of
           None \<Rightarrow> invalid ''Failed to read OCSP response status.''
         | Some None \<Rightarrow> invalid ''Failed to convert OCSP response status.''
         | Some (Some response_status_value) \<Rightarrow>
             if response_status_value \<noteq> 0 then
               (Rev_ResponderUnavailable, False, 0, Some ''OCSP responder returned non-success status.'')
             else if \<not> resp_has_response_bytes L response then
               invalid ''OCSP successful response does not contain responseBytes.''
             else if eocspreq_validate_resp L response (validation_seconds now (oi_validation_time input))
                       (timeout_minutes input is_embedded_response) = Validity_Failed then
               invalid ''OCSP response validity window check failed.''
             else case DecodeCertificateDer P (oi_issuer_certificate_der input) of
               None \<Rightarrow> invalid ''Failed to decode issuer certificate for OCSP response signature validation.''
             | Some issuer \<Rightarrow>
                 if \<not> verify_adapter_init_by_cert L issuer then
                   invalid ''Failed to initialize OCSP response signature validation adapter.''
                 else if \<not> ocspresp_verify L response issuer
                         \<and> \<not> VerifyResponseWithDelegatedResponder P L response issuer then
                   invalid ''OCSP response signature validation failed.''
                 else MapOcspStatusForRequestedCertId requested_cert_id (ExtractResponseStatuses L response)))"

text \<open>The part of \<open>Validate\<close> after a response body is at hand.\<close>

definition ocsp_judge ::
    "'cert pki \<Rightarrow> ('cert, 'req, 'resp) ocsp_lib \<Rightarrow> int \<Rightarrow> OcspValidationInput \<Rightarrow> OcspCertIdFields \<Rightarrow> bytes \<Rightarrow> bool
     \<Rightarrow> OcspValidationResult \<Rightarrow> OcspValidationResult" where
  "ocsp_judge P L now input requested_cert_id response_body is_embedded_response result =
     (case DecodeAndMapResponse P L now input requested_cert_id response_body is_embedded_response of
        (status, revoked, revocation_time, message) \<Rightarrow>
          result\<lparr>or_responder_answered := True,
            or_response_evidence_id := ComputeSha256Hex response_body,
            or_status := status, or_revoked := revoked, or_revocation_time := revocation_time,
            or_message := (case message of None \<Rightarrow> or_message result | Some m \<Rightarrow> m),
            or_response_der := (if status = Rev_Good \<or> status = Rev_Revoked then response_body else [])\<rparr>)"

definition OcspValidator_Validate ::
    "'cert pki \<Rightarrow> ('cert, 'req, 'resp) ocsp_lib \<Rightarrow> http_post \<Rightarrow> int \<Rightarrow> OcspValidationInput \<Rightarrow> OcspValidationResult" where
  "OcspValidator_Validate P L post now input =
     (if oi_url input = [] \<and> oi_response_der input = [] then
        default_ocsp_result\<lparr>or_message := ''OCSP endpoint is not configured.''\<rparr>
      else case BuildRequestDer P L input of
        Inl message \<Rightarrow> default_ocsp_result\<lparr>or_message := message\<rparr>
      | Inr (request_der, requested_cert_id) \<Rightarrow>
          let result = default_ocsp_result\<lparr>or_request_evidence_id := ComputeSha256Hex request_der, or_checked := True\<rparr>
          in if oi_response_der input \<noteq> [] then
               ocsp_judge P L now input requested_cert_id (oi_response_der input) True result
             else
               let http = post (oi_url input) request_der ''application/ocsp-request''
                            ''application/ocsp-response'' (oi_timeout_ms input)
               in if \<not> http_succeeded http \<or> http_status_code http < 200 \<or> http_status_code http \<ge> 300 then
                    result\<lparr>or_status := Rev_ResponderUnavailable,
                      or_message := (if http_message http = [] then ''OCSP responder unavailable.''
                        else ''OCSP responder unavailable: '' @ http_message http),
                      or_response_evidence_id := (if http_body http = [] then [] else ComputeSha256Hex (http_body http))\<rparr>
                  else ocsp_judge P L now input requested_cert_id (http_body http) False result)"

section \<open>When the validator reaches a verdict\<close>

definition ocsp_signed ::
    "'cert pki \<Rightarrow> ('cert, 'req, 'resp) ocsp_lib \<Rightarrow> 'resp \<Rightarrow> 'cert \<Rightarrow> bool" where
  "ocsp_signed P L response issuer \<longleftrightarrow>
     ocspresp_verify L response issuer
     \<or> (\<exists>responder. Some responder \<in> set (ocspresp_get_certs L response) \<and> pki_verify P responder issuer
          \<and> HasOcspSigningEku P responder \<and> ocspresp_verify L response responder
          \<and> verify_adapter_init_by_cert L responder)"

text \<open>
  A body is an authentic response of the issuer at the moment of validation: it decodes,
  reports success, is inside its validity window, and is signed by the issuer or by a
  responder certificate the issuer signed for that purpose.
\<close>

definition ocsp_authentic ::
    "'cert pki \<Rightarrow> ('cert, 'req, 'resp) ocsp_lib \<Rightarrow> int \<Rightarrow> OcspValidationInput \<Rightarrow> bytes \<Rightarrow> bool \<Rightarrow> 'resp \<Rightarrow> bool" where
  "ocsp_authentic P L now input body embedded response \<longleftrightarrow>
     body \<noteq> [] \<and> ocspresp_decode L body = Some response
     \<and> ocspresp_get_status L response = Some (Some 0) \<and> resp_has_response_bytes L response
     \<and> eocspreq_validate_resp L response (validation_seconds now (oi_validation_time input))
         (timeout_minutes input embedded) \<noteq> Validity_Failed
     \<and> (\<exists>issuer. DecodeCertificateDer P (oi_issuer_certificate_der input) = Some issuer
          \<and> verify_adapter_init_by_cert L issuer \<and> ocsp_signed P L response issuer)"

text \<open>The entry that decides: the first one about the requested certificate with a known status.\<close>

definition decisive :: "OcspCertIdFields \<Rightarrow> OcspMappedCertificateStatus list \<Rightarrow> OcspMappedCertificateStatus option" where
  "decisive requested statuses =
     find (\<lambda>e. ms_cert_id e = requested \<and> ms_status e \<in> {''revoked'', ''good'', ''unknown''}) statuses"

text \<open>The body the validator judges, and whether it was supplied with the input.\<close>

definition ocsp_body :: "http_post \<Rightarrow> OcspValidationInput \<Rightarrow> bytes \<Rightarrow> (bytes \<times> bool) option" where
  "ocsp_body post input request_der =
     (if oi_response_der input \<noteq> [] then Some (oi_response_der input, True)
      else if oi_url input = [] then None
      else let http = post (oi_url input) request_der ''application/ocsp-request''
                        ''application/ocsp-response'' (oi_timeout_ms input)
           in if http_succeeded http \<and> 200 \<le> http_status_code http \<and> http_status_code http < 300
              then Some (http_body http, False) else None)"

definition ocsp_proves ::
    "'cert pki \<Rightarrow> ('cert, 'req, 'resp) ocsp_lib \<Rightarrow> http_post \<Rightarrow> int \<Rightarrow> OcspValidationInput \<Rightarrow> string \<Rightarrow> int \<Rightarrow> bool" where
  "ocsp_proves P L post now input status revocation_time \<longleftrightarrow>
     (\<exists>request_der cert_id body embedded response entry.
        BuildRequestDer P L input = Inr (request_der, cert_id)
        \<and> ocsp_body post input request_der = Some (body, embedded)
        \<and> ocsp_authentic P L now input body embedded response
        \<and> decisive cert_id (ExtractResponseStatuses L response) = Some entry
        \<and> ms_status entry = status \<and> (status = ''revoked'' \<longrightarrow> ms_revocation_time entry = revocation_time))"

lemma SameCertIdFields_eq: "SameCertIdFields left right \<longleftrightarrow> right = left"
  by (auto simp: SameCertIdFields_def)

lemma map_status_decisive:
  "map_status_loop requested statuses =
     (case decisive requested statuses of
        None \<Rightarrow> (Rev_Unknown, False, 0, Some ''OCSP response does not contain status for requested certificate.'')
      | Some e \<Rightarrow>
          if ms_status e = ''revoked'' then (Rev_Revoked, True, ms_revocation_time e, None)
          else if ms_status e = ''good'' then (Rev_Good, False, 0, None)
          else (Rev_Unknown, False, 0, None))"
  by (induction statuses) (auto simp: decisive_def SameCertIdFields_eq)

lemma MapOcspStatus_verdict:
  "fst (MapOcspStatusForRequestedCertId requested statuses) = Rev_Good \<longleftrightarrow>
     (\<exists>e. decisive requested statuses = Some e \<and> ms_status e = ''good'')"
  "fst (MapOcspStatusForRequestedCertId requested statuses) = Rev_Revoked
     \<and> fst (snd (snd (MapOcspStatusForRequestedCertId requested statuses))) = t \<longleftrightarrow>
     (\<exists>e. decisive requested statuses = Some e \<and> ms_status e = ''revoked'' \<and> ms_revocation_time e = t)"
proof -
  have "MapOcspStatusForRequestedCertId requested statuses = map_status_loop requested statuses" if "decisive requested statuses \<noteq> None"
    using that by (cases statuses) (auto simp: MapOcspStatusForRequestedCertId_def decisive_def)
  moreover have "fst (MapOcspStatusForRequestedCertId requested statuses) = Rev_Unknown" if "decisive requested statuses = None"
    using that by (simp add: MapOcspStatusForRequestedCertId_def map_status_decisive)
  ultimately show "fst (MapOcspStatusForRequestedCertId requested statuses) = Rev_Good \<longleftrightarrow>
     (\<exists>e. decisive requested statuses = Some e \<and> ms_status e = ''good'')"
    "fst (MapOcspStatusForRequestedCertId requested statuses) = Rev_Revoked
     \<and> fst (snd (snd (MapOcspStatusForRequestedCertId requested statuses))) = t \<longleftrightarrow>
     (\<exists>e. decisive requested statuses = Some e \<and> ms_status e = ''revoked'' \<and> ms_revocation_time e = t)"
    by (cases "decisive requested statuses"; simp add: map_status_decisive)+
qed

lemma ocsp_signed_iff:
  "ocsp_signed P L response issuer \<longleftrightarrow>
     ocspresp_verify L response issuer \<or> VerifyResponseWithDelegatedResponder P L response issuer"
  by (fastforce simp: ocsp_signed_def VerifyResponseWithDelegatedResponder_def VerifiedByIssuer_def list_ex_iff
      split: option.splits)

lemma DecodeAndMap_authentic:
  assumes "ocsp_authentic P L now input body embedded response"
  shows "DecodeAndMapResponse P L now input cert_id body embedded
    = MapOcspStatusForRequestedCertId cert_id (ExtractResponseStatuses L response)"
  using assms by (auto simp: DecodeAndMapResponse_def ocsp_authentic_def ocsp_signed_iff Let_def)

lemma DecodeAndMap_not_authentic:
  assumes "\<not> (\<exists>response. ocsp_authentic P L now input body embedded response)"
  shows "fst (DecodeAndMapResponse P L now input cert_id body embedded) \<in> {Rev_Invalid, Rev_ResponderUnavailable}"
  using assms
  by (auto simp: DecodeAndMapResponse_def ocsp_authentic_def ocsp_signed_iff Let_def split: option.splits)

lemma ocsp_judge_verdict:
  "or_status (ocsp_judge P L now input cert_id body embedded result) = Rev_Good \<longleftrightarrow>
     (\<exists>response e. ocsp_authentic P L now input body embedded response
        \<and> decisive cert_id (ExtractResponseStatuses L response) = Some e \<and> ms_status e = ''good'')"
  "or_status (ocsp_judge P L now input cert_id body embedded result) = Rev_Revoked
     \<and> or_revocation_time (ocsp_judge P L now input cert_id body embedded result) = t \<longleftrightarrow>
     (\<exists>response e. ocsp_authentic P L now input body embedded response
        \<and> decisive cert_id (ExtractResponseStatuses L response) = Some e \<and> ms_status e = ''revoked''
        \<and> ms_revocation_time e = t)"
proof -
  let ?D = "DecodeAndMapResponse P L now input cert_id body embedded"
  have fields: "or_status (ocsp_judge P L now input cert_id body embedded result) = fst ?D"
    "or_revocation_time (ocsp_judge P L now input cert_id body embedded result) = fst (snd (snd ?D))"
    by (simp_all add: ocsp_judge_def split: prod.splits)
  consider (auth) response where "ocsp_authentic P L now input body embedded response"
    | (none) "\<not> (\<exists>response. ocsp_authentic P L now input body embedded response)" by blast
  then have "(fst ?D = Rev_Good \<longleftrightarrow>
       (\<exists>response e. ocsp_authentic P L now input body embedded response
          \<and> decisive cert_id (ExtractResponseStatuses L response) = Some e \<and> ms_status e = ''good''))
     \<and> (fst ?D = Rev_Revoked \<and> fst (snd (snd ?D)) = t \<longleftrightarrow>
       (\<exists>response e. ocsp_authentic P L now input body embedded response
          \<and> decisive cert_id (ExtractResponseStatuses L response) = Some e \<and> ms_status e = ''revoked''
          \<and> ms_revocation_time e = t))"
  proof cases
    case auth
    have only: "ocsp_authentic P L now input body embedded r \<longleftrightarrow> r = response" for r
      using auth by (auto simp: ocsp_authentic_def)
    show ?thesis
      unfolding only DecodeAndMap_authentic [OF auth, of cert_id] MapOcspStatus_verdict by simp
  next
    case none
    then show ?thesis using DecodeAndMap_not_authentic [OF none, of cert_id] by auto
  qed
  then show "or_status (ocsp_judge P L now input cert_id body embedded result) = Rev_Good \<longleftrightarrow>
     (\<exists>response e. ocsp_authentic P L now input body embedded response
        \<and> decisive cert_id (ExtractResponseStatuses L response) = Some e \<and> ms_status e = ''good'')"
    "or_status (ocsp_judge P L now input cert_id body embedded result) = Rev_Revoked
     \<and> or_revocation_time (ocsp_judge P L now input cert_id body embedded result) = t \<longleftrightarrow>
     (\<exists>response e. ocsp_authentic P L now input body embedded response
        \<and> decisive cert_id (ExtractResponseStatuses L response) = Some e \<and> ms_status e = ''revoked''
        \<and> ms_revocation_time e = t)"
    unfolding fields by blast+
qed

lemma ocsp_judge_checked: "or_checked (ocsp_judge P L now input cert_id body embedded result) = or_checked result"
  by (simp add: ocsp_judge_def split: prod.splits)

lemma Ocsp_Validate_cases:
  obtains (none) "or_status (OcspValidator_Validate P L post now input) \<in> {Rev_NotChecked, Rev_ResponderUnavailable}"
      "\<not> (\<exists>request_der cert_id body embedded. BuildRequestDer P L input = Inr (request_der, cert_id)
          \<and> ocsp_body post input request_der = Some (body, embedded))"
    | (judged) request_der cert_id body embedded result where "BuildRequestDer P L input = Inr (request_der, cert_id)"
      "ocsp_body post input request_der = Some (body, embedded)" "or_checked result"
      "OcspValidator_Validate P L post now input = ocsp_judge P L now input cert_id body embedded result"
proof (cases "BuildRequestDer P L input")
  case (Inl m)
  then show ?thesis using none by (simp add: OcspValidator_Validate_def default_ocsp_result_def)
next
  case (Inr x)
  obtain request_der cert_id where x: "x = (request_der, cert_id)" by (cases x)
  show ?thesis
  proof (cases "ocsp_body post input request_der")
    case None
    then show ?thesis
      using Inr x none
      by (auto simp: OcspValidator_Validate_def default_ocsp_result_def ocsp_body_def Let_def split: if_splits)
  next
    case (Some b)
    then show ?thesis
      using Inr x judged [of request_der cert_id "fst b" "snd b"
        "default_ocsp_result\<lparr>or_request_evidence_id := ComputeSha256Hex request_der, or_checked := True\<rparr>"]
      by (auto simp: OcspValidator_Validate_def default_ocsp_result_def ocsp_body_def Let_def split: if_splits)
  qed
qed

lemma Ocsp_verdicts:
  "(or_status (OcspValidator_Validate P L post now input) = Rev_Good \<longleftrightarrow> ocsp_proves P L post now input ''good'' t)
   \<and> (or_status (OcspValidator_Validate P L post now input) = Rev_Revoked
        \<and> or_revocation_time (OcspValidator_Validate P L post now input) = t
      \<longleftrightarrow> ocsp_proves P L post now input ''revoked'' t)"
proof (cases rule: Ocsp_Validate_cases [of P L post now input])
  case none
  then show ?thesis by (fastforce simp: ocsp_proves_def)
next
  case (judged request_der cert_id body embedded result)
  then show ?thesis
    unfolding ocsp_proves_def judged(4) ocsp_judge_verdict by auto
qed

text \<open>
  C8. The OCSP validator answers \<open>Good\<close> (or \<open>Revoked\<close>, with a revocation time) exactly when a
  response it was given or fetched is authentic for the issuer at the moment of validation and
  the first entry of known status whose full certificate identifier (both issuer hashes and
  the serial number) is that of the request says so.
\<close>

theorem ocsp_validator_exact:
  "(or_status (OcspValidator_Validate P L post now input) = Rev_Good \<longleftrightarrow> ocsp_proves P L post now input ''good'' t)
   \<and> (or_status (OcspValidator_Validate P L post now input) = Rev_Revoked
        \<and> or_revocation_time (OcspValidator_Validate P L post now input) = t
      \<longleftrightarrow> ocsp_proves P L post now input ''revoked'' t)"
  by (rule Ocsp_verdicts)

end
