(* ===== verification/Crl_Validator.thy ===== *)
theory Crl_Validator
  imports Cert_Chain Sha256
begin

text \<open>
  \<open>core/cryptonite/RevocationOps.cpp\<close> and \<open>core/policy/CrlValidator.cpp\<close>: what a certificate
  revocation list says about a certificate, and the validator that combines all available
  lists. Decoding a list, verifying its signature and looking a certificate up in it are
  services of the cryptonite library and come in a record of functions.
\<close>

section \<open>The library services\<close>

text \<open>
  A time of a list is a \<open>utcTime\<close>, a \<open>generalTime\<close> (with the value the library converts it
  to, \<open>-1\<close> on failure) or neither.
\<close>

datatype PKIXTime = PKIX_utcTime int | PKIX_generalTime int | PKIX_nothing

text \<open>
  \<open>crl_decode\<close> is \<open>crl_decode\<close>; \<open>crl_same_issuer\<close> compares the issuer name of a list with the
  issuer name of a certificate; \<open>crl_verify\<close> is \<open>crl_verify\<close> with an adapter made from the
  certificate (false when there is no adapter); \<open>crl_check\<close> is \<open>crl_check_cert\<close>, the error code
  or whether the serial number is listed; \<open>crl_cert_info\<close> the revocation date of the entry, when
  it can be read; \<open>crl_tbs\<close> the update times, when \<open>crl_get_tbs\<close> succeeds.
\<close>

record ('cert, 'crl) crl_lib =
  crl_decode :: "bytes \<Rightarrow> 'crl option"
  crl_same_issuer :: "'crl \<Rightarrow> 'cert \<Rightarrow> bool"
  crl_verify :: "'crl \<Rightarrow> 'cert \<Rightarrow> bool"
  crl_check :: "'crl \<Rightarrow> 'cert \<Rightarrow> int + bool"
  crl_cert_info :: "'crl \<Rightarrow> 'cert \<Rightarrow> PKIXTime option"
  crl_tbs :: "'crl \<Rightarrow> (PKIXTime \<times> PKIXTime) option"

section \<open>RevocationOps.cpp\<close>

definition BuildRcError :: "string \<Rightarrow> int \<Rightarrow> string" where
  "BuildRcError stage rc = stage @ '' failed (cryptonite rc='' @ to_string rc @ '')''"

fun PkixTimeToTimeT :: "PKIXTime \<Rightarrow> int" where
  "PkixTimeToTimeT (PKIX_utcTime t) = t"
| "PkixTimeToTimeT (PKIX_generalTime t) = t"
| "PkixTimeToTimeT PKIX_nothing = -1"

record CrlCheckResult =
  cc_checked :: bool
  cc_revoked :: bool
  cc_crl_valid :: bool
  cc_message :: string
  cc_revocation_time :: int

definition default_crl_check :: CrlCheckResult where
  "default_crl_check = \<lparr>cc_checked = False, cc_revoked = False, cc_crl_valid = False, cc_message = [],
     cc_revocation_time = 0\<rparr>"

definition CheckCertificateRevocation ::
    "'cert pki \<Rightarrow> ('cert, 'crl) crl_lib \<Rightarrow> bytes \<Rightarrow> bytes \<Rightarrow> bytes \<Rightarrow> CrlCheckResult" where
  "CheckCertificateRevocation P C certificate_der crl_der issuer_certificate_der =
     (if certificate_der = [] \<or> crl_der = [] then
        default_crl_check\<lparr>cc_message := ''Certificate or CRL data is empty''\<rparr>
      else case pki_decode P certificate_der of
        None \<Rightarrow> default_crl_check\<lparr>cc_message := ''Certificate decode failed''\<rparr>
      | Some cert \<Rightarrow>
        (case crl_decode C crl_der of
           None \<Rightarrow> default_crl_check\<lparr>cc_message := ''CRL decode failed''\<rparr>
         | Some crl \<Rightarrow>
             let crl_valid = (issuer_certificate_der \<noteq> [] \<and>
                   (case pki_decode P issuer_certificate_der of
                      None \<Rightarrow> False | Some issuer \<Rightarrow> crl_verify C crl issuer));
                 result = default_crl_check\<lparr>cc_crl_valid := crl_valid\<rparr>
             in case crl_check C crl cert of
                  Inl rc \<Rightarrow> result\<lparr>cc_message := BuildRcError ''CRL certificate check'' rc\<rparr>
                | Inr is_revoked \<Rightarrow>
                    result\<lparr>cc_checked := True, cc_revoked := is_revoked,
                      cc_message := (if is_revoked then ''Certificate is revoked'' else ''Certificate is not revoked''),
                      cc_revocation_time :=
                        (if is_revoked then
                           (case crl_cert_info C crl cert of None \<Rightarrow> 0 | Some date \<Rightarrow> PkixTimeToTimeT date)
                         else 0)\<rparr>))"

definition GetCrlValidityWindow :: "('cert, 'crl) crl_lib \<Rightarrow> bytes \<Rightarrow> (int \<times> int) option" where
  "GetCrlValidityWindow C crl_der =
     (if crl_der = [] then None
      else case crl_decode C crl_der of
        None \<Rightarrow> None
      | Some crl \<Rightarrow>
          (case crl_tbs C crl of
             None \<Rightarrow> None
           | Some (this_update, next_update) \<Rightarrow>
               if PkixTimeToTimeT this_update = -1 then None
               else Some (PkixTimeToTimeT this_update,
                          if PkixTimeToTimeT next_update \<noteq> -1 then PkixTimeToTimeT next_update else 0)))"

definition GetCrlNextUpdate :: "('cert, 'crl) crl_lib \<Rightarrow> bytes \<Rightarrow> int option" where
  "GetCrlNextUpdate C crl_der =
     (if crl_der = [] then None
      else case crl_decode C crl_der of
        None \<Rightarrow> None
      | Some crl \<Rightarrow>
          (case crl_tbs C crl of
             None \<Rightarrow> None
           | Some (this_update, next_update) \<Rightarrow>
               if PkixTimeToTimeT next_update \<noteq> -1 then Some (PkixTimeToTimeT next_update) else None))"

section \<open>CrlValidator.cpp\<close>

record CrlValidationInput =
  crli_signer_certificate_der :: bytes
  crli_issuer_certificate_der :: bytes
  crli_crls_der :: "bytes list"
  crli_validation_time :: string

record CrlValidationResult =
  crlr_checked :: bool
  crlr_revoked :: bool
  crlr_status :: RevocationStatus
  crlr_message :: string
  crlr_crl_evidence_id :: string
  crlr_revocation_time :: int

definition default_crl_result :: CrlValidationResult where
  "default_crl_result = \<lparr>crlr_checked = False, crlr_revoked = False, crlr_status = Rev_NotChecked,
     crlr_message = [], crlr_crl_evidence_id = [], crlr_revocation_time = 0\<rparr>"

definition HasDifferentCrlIssuer ::
    "('cert, 'crl) crl_lib \<Rightarrow> bytes \<Rightarrow> 'cert option \<Rightarrow> bool" where
  "HasDifferentCrlIssuer C crl_der certificate =
     (case certificate of
        None \<Rightarrow> False
      | Some cert \<Rightarrow>
          (case crl_decode C crl_der of None \<Rightarrow> False | Some crl \<Rightarrow> \<not> crl_same_issuer C crl cert))"

text \<open>\<open>None\<close> when the list is fresh, otherwise the message of the branch taken.\<close>

definition crl_freshness :: "('cert, 'crl) crl_lib \<Rightarrow> bytes \<Rightarrow> int \<Rightarrow> string option" where
  "crl_freshness C crl_der seconds =
     (case GetCrlValidityWindow C crl_der of
        None \<Rightarrow> None
      | Some (this_update, next_update) \<Rightarrow>
          if seconds < this_update then Some ''CRL is not yet valid at the validation time.''
          else if next_update \<noteq> 0 \<and> seconds > next_update
          then Some ''CRL is stale: nextUpdate is earlier than the validation time.''
          else None)"

record crl_loop_state =
  cl_result :: CrlValidationResult
  cl_saw_invalid :: bool
  cl_saw_unverifiable :: bool
  cl_saw_unrelated :: bool
  cl_saw_stale :: bool
  cl_stale_message :: string
  cl_good_result :: CrlValidationResult

definition note_evidence :: "bytes \<Rightarrow> CrlValidationResult \<Rightarrow> CrlValidationResult" where
  "note_evidence crl_der r =
     (if crlr_crl_evidence_id r = [] then r\<lparr>crlr_crl_evidence_id := ComputeSha256Hex crl_der\<rparr> else r)"

definition crl_candidate :: "CrlCheckResult \<Rightarrow> bytes \<Rightarrow> CrlValidationResult" where
  "crl_candidate check crl_der =
     \<lparr>crlr_checked = True, crlr_revoked = cc_revoked check,
      crlr_status = (if cc_revoked check then Rev_Revoked else Rev_Good),
      crlr_message = cc_message check, crlr_crl_evidence_id = ComputeSha256Hex crl_der,
      crlr_revocation_time = cc_revocation_time check\<rparr>"

text \<open>One iteration of the loop: \<open>Inl\<close> when the function returns from inside it.\<close>

definition crl_step ::
    "'cert pki \<Rightarrow> ('cert, 'crl) crl_lib \<Rightarrow> CrlValidationInput \<Rightarrow> int \<Rightarrow> bytes \<Rightarrow> crl_loop_state
     \<Rightarrow> CrlValidationResult + crl_loop_state" where
  "crl_step P C input seconds crl_der s =
     (if HasDifferentCrlIssuer C crl_der (DecodeCertificateDer P (crli_signer_certificate_der input))
      then Inr (s\<lparr>cl_saw_unrelated := True\<rparr>)
      else
        let freshness = crl_freshness C crl_der seconds;
            check = CheckCertificateRevocation P C (crli_signer_certificate_der input) crl_der
                      (crli_issuer_certificate_der input);
            s = (if cc_message check \<noteq> [] then s\<lparr>cl_result := cl_result s\<lparr>crlr_message := cc_message check\<rparr>\<rparr> else s)
        in if \<not> cc_checked check then Inr (s\<lparr>cl_saw_invalid := True\<rparr>)
           else if crli_issuer_certificate_der input \<noteq> [] \<and> \<not> cc_crl_valid check then
             Inr (s\<lparr>cl_saw_invalid := True,
                    cl_result := cl_result s\<lparr>crlr_checked := True, crlr_status := Rev_Invalid,
                      crlr_message := (if cc_message check = [] then ''CRL signature validation failed.''
                        else ''CRL signature validation failed: '' @ cc_message check)\<rparr>\<rparr>)
           else if freshness \<noteq> None \<and> \<not> cc_revoked check then
             Inr (s\<lparr>cl_saw_stale := True, cl_stale_message := the freshness,
                    cl_result := note_evidence crl_der (cl_result s)\<rparr>)
           else if crli_issuer_certificate_der input = [] \<and> \<not> cc_revoked check then
             Inr (s\<lparr>cl_saw_unverifiable := True, cl_result := note_evidence crl_der (cl_result s)\<rparr>)
           else if cc_revoked check then Inl (crl_candidate check crl_der)
           else Inr (if crlr_checked (cl_good_result s) then s
                     else s\<lparr>cl_good_result := crl_candidate check crl_der\<rparr>))"

fun crl_loop ::
    "'cert pki \<Rightarrow> ('cert, 'crl) crl_lib \<Rightarrow> CrlValidationInput \<Rightarrow> int \<Rightarrow> bytes list \<Rightarrow> crl_loop_state
     \<Rightarrow> CrlValidationResult + crl_loop_state" where
  "crl_loop P C input seconds [] s = Inr s"
| "crl_loop P C input seconds (crl_der # rest) s =
     (case crl_step P C input seconds crl_der s of
        Inl r \<Rightarrow> Inl r
      | Inr s \<Rightarrow> crl_loop P C input seconds rest s)"

text \<open>The part of the function after the loop.\<close>

definition crl_conclusion :: "crl_loop_state \<Rightarrow> CrlValidationResult" where
  "crl_conclusion s =
     (let result = cl_result s
      in if crlr_checked (cl_good_result s) then cl_good_result s
         else if cl_saw_invalid s then result\<lparr>crlr_status := Rev_Invalid, crlr_checked := True\<rparr>
         else if cl_saw_stale s then
           result\<lparr>crlr_checked := True, crlr_status := Rev_Stale,
             crlr_message := (if cl_stale_message s = []
               then ''CRL revocation status is unknown: the CRL is outside its validity window.''
               else cl_stale_message s)\<rparr>
         else if cl_saw_unverifiable s then
           result\<lparr>crlr_checked := False, crlr_status := Rev_Unknown,
             crlr_message := ''CRL revocation status is unknown: the issuer certificate is unavailable, so the CRL signature could not be verified.''\<rparr>
         else if cl_saw_unrelated s then
           result\<lparr>crlr_checked := False, crlr_status := Rev_Unknown,
             crlr_message := ''No local CRL matches the certificate issuer.''\<rparr>
         else result)"

definition crl_initial_state :: crl_loop_state where
  "crl_initial_state = \<lparr>cl_result = default_crl_result\<lparr>crlr_status := Rev_Invalid,
       crlr_message := ''No local CRL produced a valid revocation check.''\<rparr>,
     cl_saw_invalid = False, cl_saw_unverifiable = False, cl_saw_unrelated = False, cl_saw_stale = False,
     cl_stale_message = [], cl_good_result = default_crl_result\<rparr>"

definition CrlValidator_Validate ::
    "'cert pki \<Rightarrow> ('cert, 'crl) crl_lib \<Rightarrow> int \<Rightarrow> CrlValidationInput \<Rightarrow> CrlValidationResult" where
  "CrlValidator_Validate P C now input =
     (if crli_crls_der input = [] then
        default_crl_result\<lparr>crlr_status := Rev_Unknown, crlr_message := ''No local CRLs are available.''\<rparr>
      else case crl_loop P C input (validation_seconds now (crli_validation_time input))
                  (crli_crls_der input) crl_initial_state of
        Inl r \<Rightarrow> r
      | Inr s \<Rightarrow> crl_conclusion s)"

section \<open>What one list proves\<close>

text \<open>
  A list proves a certificate good when it decodes, is issued under the certificate's issuer
  name, carries a signature that verifies with the available issuer certificate, does not
  list the certificate and whose window does not exclude the moment: the window covers the
  moment, or it cannot be read, in which case the source leaves \<open>crl_fresh\<close> as it was. It proves it
  revoked when it is such a list that does list the certificate; the signature must verify
  if an issuer certificate is available, and the window does not matter. The time of a
  revocation is the date of the entry, 0 when it cannot be read.
\<close>

definition crl_window_admits :: "('cert, 'crl) crl_lib \<Rightarrow> bytes \<Rightarrow> int \<Rightarrow> bool" where
  "crl_window_admits C crl_der seconds \<longleftrightarrow>
     GetCrlValidityWindow C crl_der = None
     \<or> (\<exists>this_update next_update. GetCrlValidityWindow C crl_der = Some (this_update, next_update)
          \<and> this_update \<le> seconds \<and> (next_update = 0 \<or> seconds \<le> next_update))"

definition crl_about ::
    "'cert pki \<Rightarrow> ('cert, 'crl) crl_lib \<Rightarrow> bytes \<Rightarrow> bytes \<Rightarrow> 'cert \<Rightarrow> 'crl \<Rightarrow> bool" where
  "crl_about P C certificate_der crl_der cert crl \<longleftrightarrow>
     DecodeCertificateDer P certificate_der = Some cert \<and> crl_der \<noteq> [] \<and> crl_decode C crl_der = Some crl
     \<and> crl_same_issuer C crl cert"

definition crl_signed :: "'cert pki \<Rightarrow> ('cert, 'crl) crl_lib \<Rightarrow> bytes \<Rightarrow> 'crl \<Rightarrow> bool" where
  "crl_signed P C issuer_der crl \<longleftrightarrow>
     (\<exists>issuer. DecodeCertificateDer P issuer_der = Some issuer \<and> crl_verify C crl issuer)"

definition crl_proves_good ::
    "'cert pki \<Rightarrow> ('cert, 'crl) crl_lib \<Rightarrow> CrlValidationInput \<Rightarrow> int \<Rightarrow> bytes \<Rightarrow> bool" where
  "crl_proves_good P C input seconds crl_der \<longleftrightarrow>
     (\<exists>cert crl. crl_about P C (crli_signer_certificate_der input) crl_der cert crl
        \<and> crl_signed P C (crli_issuer_certificate_der input) crl
        \<and> crl_check C crl cert = Inr False \<and> crl_window_admits C crl_der seconds)"

definition crl_proves_revoked ::
    "'cert pki \<Rightarrow> ('cert, 'crl) crl_lib \<Rightarrow> CrlValidationInput \<Rightarrow> bytes \<Rightarrow> bool" where
  "crl_proves_revoked P C input crl_der \<longleftrightarrow>
     (\<exists>cert crl. crl_about P C (crli_signer_certificate_der input) crl_der cert crl
        \<and> (crli_issuer_certificate_der input \<noteq> [] \<longrightarrow> crl_signed P C (crli_issuer_certificate_der input) crl)
        \<and> crl_check C crl cert = Inr True)"

definition crl_revocation_date :: "'cert pki \<Rightarrow> ('cert, 'crl) crl_lib \<Rightarrow> CrlValidationInput \<Rightarrow> bytes \<Rightarrow> int \<Rightarrow> bool" where
  "crl_revocation_date P C input crl_der t \<longleftrightarrow>
     (\<exists>cert crl. crl_about P C (crli_signer_certificate_der input) crl_der cert crl
        \<and> t = (case crl_cert_info C crl cert of None \<Rightarrow> 0 | Some date \<Rightarrow> PkixTimeToTimeT date))"

lemma crl_freshness_None_iff: "crl_freshness C crl_der seconds = None \<longleftrightarrow> crl_window_admits C crl_der seconds"
  by (auto simp: crl_freshness_def crl_window_admits_def split: option.splits)

text \<open>The answers of the two library calls in the terms of the specification.\<close>

lemma CheckCertificateRevocation_checked:
  assumes "\<not> HasDifferentCrlIssuer C crl_der (DecodeCertificateDer P certificate_der)"
  shows "cc_checked (CheckCertificateRevocation P C certificate_der crl_der issuer_der) \<longleftrightarrow>
    (\<exists>cert crl b. crl_about P C certificate_der crl_der cert crl \<and> crl_check C crl cert = Inr b)"
  using assms
  by (auto simp: CheckCertificateRevocation_def HasDifferentCrlIssuer_def crl_about_def DecodeCertificateDer_def
      default_crl_check_def Let_def split: option.splits sum.splits if_splits)

lemma CheckCertificateRevocation_fields:
  assumes "crl_about P C certificate_der crl_der cert crl" "crl_check C crl cert = Inr b"
  shows "cc_checked (CheckCertificateRevocation P C certificate_der crl_der issuer_der)"
    "cc_revoked (CheckCertificateRevocation P C certificate_der crl_der issuer_der) \<longleftrightarrow> b"
    "cc_crl_valid (CheckCertificateRevocation P C certificate_der crl_der issuer_der) \<longleftrightarrow> crl_signed P C issuer_der crl"
    "\<not> HasDifferentCrlIssuer C crl_der (DecodeCertificateDer P certificate_der)"
    "b \<Longrightarrow> cc_revocation_time (CheckCertificateRevocation P C certificate_der crl_der issuer_der)
       = (case crl_cert_info C crl cert of None \<Rightarrow> 0 | Some date \<Rightarrow> PkixTimeToTimeT date)"
  using assms
  by (auto simp: CheckCertificateRevocation_def HasDifferentCrlIssuer_def crl_about_def crl_signed_def
      DecodeCertificateDer_def default_crl_check_def Let_def split: option.splits if_splits)

lemma crl_signed_empty [simp]: "\<not> crl_signed P C [] crl"
  by (auto simp: crl_signed_def DecodeCertificateDer_def)

text \<open>The invariant of the loop, and what one iteration does to it.\<close>

definition crl_inv :: "crl_loop_state \<Rightarrow> bool" where
  "crl_inv s \<longleftrightarrow> (crlr_checked (cl_good_result s) \<longrightarrow> crlr_status (cl_good_result s) = Rev_Good)
     \<and> crlr_status (cl_result s) \<notin> {Rev_Good, Rev_Revoked}"

lemma proves_about:
  assumes "crl_about P C (crli_signer_certificate_der input) crl_der cert crl" "crl_check C crl cert = Inr b"
  shows "crl_proves_good P C input seconds crl_der \<longleftrightarrow>
      \<not> b \<and> crl_signed P C (crli_issuer_certificate_der input) crl \<and> crl_window_admits C crl_der seconds"
    "crl_proves_revoked P C input crl_der \<longleftrightarrow>
      b \<and> (crli_issuer_certificate_der input \<noteq> [] \<longrightarrow> crl_signed P C (crli_issuer_certificate_der input) crl)"
  using assms by (auto simp: crl_proves_good_def crl_proves_revoked_def crl_about_def)

lemma crl_step_unchecked:
  assumes "\<not> (\<exists>cert crl b. crl_about P C (crli_signer_certificate_der input) crl_der cert crl \<and> crl_check C crl cert = Inr b)"
  shows "\<exists>s'. crl_step P C input seconds crl_der s = Inr s' \<and> cl_good_result s' = cl_good_result s
    \<and> crlr_status (cl_result s') = crlr_status (cl_result s)"
proof (cases "HasDifferentCrlIssuer C crl_der (DecodeCertificateDer P (crli_signer_certificate_der input))")
  case False
  then have "\<not> cc_checked (CheckCertificateRevocation P C (crli_signer_certificate_der input) crl_der (crli_issuer_certificate_der input))"
    using CheckCertificateRevocation_checked [OF False] assms by blast
  with False show ?thesis by (simp add: crl_step_def Let_def)
qed (simp add: crl_step_def)

lemma crl_step_checked:
  assumes about: "crl_about P C (crli_signer_certificate_der input) crl_der cert crl" "crl_check C crl cert = Inr b"
    and "\<not> crl_proves_revoked P C input crl_der"
  shows "\<exists>s'. crl_step P C input seconds crl_der s = Inr s'
    \<and> crlr_status (cl_result s') \<in> {crlr_status (cl_result s), Rev_Invalid}
    \<and> (if crl_proves_good P C input seconds crl_der \<and> \<not> crlr_checked (cl_good_result s)
       then crlr_checked (cl_good_result s') \<and> crlr_status (cl_good_result s') = Rev_Good
       else cl_good_result s' = cl_good_result s)"
  using assms(3) CheckCertificateRevocation_fields [OF about]
  unfolding proves_about [OF about] crl_freshness_None_iff [symmetric]
  by (auto simp: crl_step_def Let_def crl_candidate_def note_evidence_def)

lemma crl_step_revoked:
  assumes "crl_proves_revoked P C input crl_der"
  shows "\<exists>r. crl_step P C input seconds crl_der s = Inl r \<and> crlr_checked r \<and> crlr_status r = Rev_Revoked
    \<and> crl_revocation_date P C input crl_der (crlr_revocation_time r)"
proof -
  obtain cert crl where about: "crl_about P C (crli_signer_certificate_der input) crl_der cert crl" "crl_check C crl cert = Inr True"
    using assms by (auto simp: crl_proves_revoked_def)
  show ?thesis
    using assms CheckCertificateRevocation_fields [OF about] about(1) unfolding proves_about [OF about] crl_revocation_date_def
    by (auto simp: crl_step_def Let_def crl_candidate_def)
qed

lemma crl_step_continues:
  assumes "\<not> crl_proves_revoked P C input crl_der" "crl_inv s"
  shows "\<exists>s'. crl_step P C input seconds crl_der s = Inr s' \<and> crl_inv s'
    \<and> (crlr_checked (cl_good_result s') \<longleftrightarrow> crlr_checked (cl_good_result s) \<or> crl_proves_good P C input seconds crl_der)"
proof (cases "\<exists>cert crl b. crl_about P C (crli_signer_certificate_der input) crl_der cert crl \<and> crl_check C crl cert = Inr b")
  case True
  then obtain cert crl b where about: "crl_about P C (crli_signer_certificate_der input) crl_der cert crl" "crl_check C crl cert = Inr b"
    by blast
  show ?thesis using crl_step_checked [OF about assms(1), of seconds s] assms(2) by (auto simp: crl_inv_def split: if_splits)
next
  case False
  then have "\<not> crl_proves_good P C input seconds crl_der" by (auto simp: crl_proves_good_def)
  then show ?thesis using crl_step_unchecked [OF False, of seconds s] assms(2) by (auto simp: crl_inv_def)
qed

lemma crl_loop_outcome:
  assumes "crl_inv s"
  shows "case crl_loop P C input seconds crls s of
      Inl r \<Rightarrow> (\<exists>crl_der\<in>set crls. crl_proves_revoked P C input crl_der) \<and> crlr_checked r \<and> crlr_status r = Rev_Revoked
    | Inr s' \<Rightarrow> \<not> (\<exists>crl_der\<in>set crls. crl_proves_revoked P C input crl_der) \<and> crl_inv s'
        \<and> (crlr_checked (cl_good_result s') \<longleftrightarrow> crlr_checked (cl_good_result s)
             \<or> (\<exists>crl_der\<in>set crls. crl_proves_good P C input seconds crl_der))"
  using assms
proof (induction crls arbitrary: s)
  case (Cons crl_der crls)
  show ?case
  proof (cases "crl_proves_revoked P C input crl_der")
    case True
    then show ?thesis using crl_step_revoked [OF True, of seconds s] by auto
  next
    case False
    then obtain s' where "crl_step P C input seconds crl_der s = Inr s'" "crl_inv s'"
      "crlr_checked (cl_good_result s') \<longleftrightarrow> crlr_checked (cl_good_result s) \<or> crl_proves_good P C input seconds crl_der"
      using crl_step_continues [OF False Cons.prems] by blast
    then show ?thesis using Cons.IH [of s'] False by (auto split: sum.splits)
  qed
qed simp

text \<open>The first list that proves a revocation ends the loop, and its entry gives the time.\<close>

lemma crl_loop_first_revoked:
  assumes "crl_inv s" "\<exists>crl_der\<in>set crls. crl_proves_revoked P C input crl_der"
  shows "\<exists>before crl_der after r. crls = before @ crl_der # after \<and> list_all (\<lambda>c. \<not> crl_proves_revoked P C input c) before
    \<and> crl_proves_revoked P C input crl_der \<and> crl_loop P C input seconds crls s = Inl r
    \<and> crl_revocation_date P C input crl_der (crlr_revocation_time r)"
  using assms
proof (induction crls arbitrary: s)
  case (Cons c crls)
  show ?case
  proof (cases "crl_proves_revoked P C input c")
    case True
    obtain r where "crl_step P C input seconds c s = Inl r" "crl_revocation_date P C input c (crlr_revocation_time r)"
      using crl_step_revoked [OF True, of seconds s] by blast
    then show ?thesis using True by (intro exI [of _ "[]"] exI [of _ c] exI [of _ crls] exI [of _ r]) simp
  next
    case False
    then obtain s' where s': "crl_step P C input seconds c s = Inr s'" "crl_inv s'"
      using crl_step_continues [OF False Cons.prems(1)] by blast
    moreover have "\<exists>d\<in>set crls. crl_proves_revoked P C input d" using Cons.prems(2) False by simp
    ultimately obtain before d after r where "crls = before @ d # after" "list_all (\<lambda>c. \<not> crl_proves_revoked P C input c) before"
      "crl_proves_revoked P C input d" "crl_loop P C input seconds crls s' = Inl r" "crl_revocation_date P C input d (crlr_revocation_time r)"
      using Cons.IH [of s'] by blast
    then show ?thesis using False s'(1) by (intro exI [of _ "c # before"] exI [of _ d] exI [of _ after] exI [of _ r]) simp
  qed
qed simp

lemma crl_initial_inv: "crl_inv crl_initial_state" "\<not> crlr_checked (cl_good_result crl_initial_state)"
  by (simp_all add: crl_inv_def crl_initial_state_def default_crl_result_def)

lemma crl_conclusion_status:
  assumes "crl_inv s"
  shows "crlr_status (crl_conclusion s) = Rev_Good \<longleftrightarrow> crlr_checked (cl_good_result s)"
    "crlr_status (crl_conclusion s) \<noteq> Rev_Revoked"
    "crlr_status (crl_conclusion s) = Rev_Good \<Longrightarrow> crlr_checked (crl_conclusion s)"
  using assms by (auto simp: crl_conclusion_def crl_inv_def Let_def split: if_splits)

lemma CrlValidator_statuses:
  "(crlr_status (CrlValidator_Validate P C now input) = Rev_Revoked \<longleftrightarrow>
      (\<exists>crl_der\<in>set (crli_crls_der input). crl_proves_revoked P C input crl_der))
   \<and> (crlr_status (CrlValidator_Validate P C now input) = Rev_Good \<longleftrightarrow>
      (\<exists>crl_der\<in>set (crli_crls_der input).
         crl_proves_good P C input (validation_seconds now (crli_validation_time input)) crl_der)
      \<and> \<not> (\<exists>crl_der\<in>set (crli_crls_der input). crl_proves_revoked P C input crl_der))
   \<and> (crlr_status (CrlValidator_Validate P C now input) \<in> {Rev_Good, Rev_Revoked} \<longrightarrow>
      crlr_checked (CrlValidator_Validate P C now input))"
proof (cases "crli_crls_der input = []")
  case True
  then show ?thesis by (simp add: CrlValidator_Validate_def default_crl_result_def)
next
  case False
  let ?t = "validation_seconds now (crli_validation_time input)"
  note outcome = crl_loop_outcome [OF crl_initial_inv(1), where P = P and C = C and input = input
      and seconds = ?t and crls = "crli_crls_der input"]
  show ?thesis
  proof (cases "crl_loop P C input ?t (crli_crls_der input) crl_initial_state")
    case (Inl r)
    with outcome False show ?thesis by (simp add: CrlValidator_Validate_def)
  next
    case (Inr s)
    with outcome have s: "crl_inv s" "\<not> (\<exists>crl_der\<in>set (crli_crls_der input). crl_proves_revoked P C input crl_der)"
      "crlr_checked (cl_good_result s) \<longleftrightarrow> (\<exists>crl_der\<in>set (crli_crls_der input). crl_proves_good P C input ?t crl_der)"
      using crl_initial_inv(2) by auto
    have "CrlValidator_Validate P C now input = crl_conclusion s"
      using Inr False by (simp add: CrlValidator_Validate_def)
    then show ?thesis using s crl_conclusion_status [OF s(1)] by auto
  qed
qed

lemma crl_revocation_date_unique: "crl_revocation_date P C input c t \<Longrightarrow> crl_revocation_date P C input c u \<Longrightarrow> t = u"
  by (auto simp: crl_revocation_date_def crl_about_def)

lemma CrlValidator_revocation_time:
  assumes "\<exists>crl_der\<in>set (crli_crls_der input). crl_proves_revoked P C input crl_der"
  shows "crlr_revocation_time (CrlValidator_Validate P C now input) = t \<longleftrightarrow>
    (\<exists>before crl_der after. crli_crls_der input = before @ crl_der # after
       \<and> list_all (\<lambda>c. \<not> crl_proves_revoked P C input c) before \<and> crl_proves_revoked P C input crl_der
       \<and> crl_revocation_date P C input crl_der t)" (is "_ \<longleftrightarrow> ?spec")
proof -
  obtain b c a r where f: "crli_crls_der input = b @ c # a" "list_all (\<lambda>c. \<not> crl_proves_revoked P C input c) b"
    "crl_proves_revoked P C input c"
    and r: "crl_loop P C input (validation_seconds now (crli_validation_time input)) (crli_crls_der input) crl_initial_state = Inl r"
    and date: "crl_revocation_date P C input c (crlr_revocation_time r)"
    using crl_loop_first_revoked [OF crl_initial_inv(1) assms] by blast
  have v: "crlr_revocation_time (CrlValidator_Validate P C now input) = crlr_revocation_time r"
    using r f(1) by (simp add: CrlValidator_Validate_def)
  have unique: "c' = c" if "crli_crls_der input = b' @ c' # a'" "list_all (\<lambda>c. \<not> crl_proves_revoked P C input c) b'"
    "crl_proves_revoked P C input c'" for b' c' a'
  proof -
    let ?d = "dropWhile (\<lambda>c. \<not> crl_proves_revoked P C input c)"
    have "?d (b @ c # a) = c # a" "?d (b' @ c' # a') = c' # a'"
      using f(2,3) that(2,3) by (simp_all add: dropWhile_append2 list_all_iff)
    then show ?thesis using that(1) f(1) by simp
  qed
  show ?thesis
  proof
    assume "crlr_revocation_time (CrlValidator_Validate P C now input) = t"
    then have "crl_revocation_date P C input c t" using date v by simp
    then show ?spec using f by blast
  next
    assume ?spec
    then show "crlr_revocation_time (CrlValidator_Validate P C now input) = t"
      using unique crl_revocation_date_unique [OF _ date] v by metis
  qed
qed

text \<open>
  C7. The list validator decides by evidence, asymmetrically. It answers \<open>Revoked\<close> exactly
  when some list proves the certificate revoked, and \<open>Good\<close> exactly when no list does and
  some list proves it good: a list issued under the certificate's issuer name, signed by the
  available issuer certificate, not listing the certificate, and whose window covers the moment of
  validation or cannot be read at all. So a list without a readable window is accepted as a proof,
  against the documentation. Without an issuer certificate it never answers \<open>Good\<close>.
\<close>

theorem crl_validator_exact:
  "(crlr_status (CrlValidator_Validate P C now input) = Rev_Revoked \<longleftrightarrow>
      (\<exists>crl_der\<in>set (crli_crls_der input). crl_proves_revoked P C input crl_der))
   \<and> (crlr_status (CrlValidator_Validate P C now input) = Rev_Good \<longleftrightarrow>
      (\<exists>crl_der\<in>set (crli_crls_der input).
         crl_proves_good P C input (validation_seconds now (crli_validation_time input)) crl_der)
      \<and> \<not> (\<exists>crl_der\<in>set (crli_crls_der input). crl_proves_revoked P C input crl_der))
   \<and> (crli_issuer_certificate_der input = [] \<longrightarrow> crlr_status (CrlValidator_Validate P C now input) \<noteq> Rev_Good)"
  using CrlValidator_statuses [of P C now input] by (auto simp: crl_proves_good_def)

definition sample_crl_lib :: "(nat, nat) crl_lib" where
  "sample_crl_lib =
     \<lparr>crl_decode = (\<lambda>der. if der = [] then None else Some (unat (hd der))),
      crl_same_issuer = (\<lambda>crl cert. True), crl_verify = (\<lambda>crl issuer. issuer = 2),
      crl_check = (\<lambda>crl cert. Inr (crl = cert)), crl_cert_info = (\<lambda>crl cert. Some (PKIX_utcTime 1000)),
      crl_tbs = (\<lambda>crl. Some (PKIX_utcTime 1, PKIX_nothing))\<rparr>"

text \<open>The witness has a good answer from a list with a window, and one from a list whose window cannot be read.\<close>

theorem crl_validator_exact_witness:
  "crlr_status (CrlValidator_Validate sample_pki sample_crl_lib 5
     \<lparr>crli_signer_certificate_der = [1], crli_issuer_certificate_der = [], crli_crls_der = [[9]],
      crli_validation_time = []\<rparr>) \<noteq> Rev_Good
   \<and> crlr_status (CrlValidator_Validate sample_pki sample_crl_lib 5
     \<lparr>crli_signer_certificate_der = [1], crli_issuer_certificate_der = [2], crli_crls_der = [[9]],
      crli_validation_time = []\<rparr>) = Rev_Good
   \<and> crlr_status (CrlValidator_Validate sample_pki (sample_crl_lib\<lparr>crl_tbs := (\<lambda>crl. Some (PKIX_nothing, PKIX_utcTime 3))\<rparr>) 5
     \<lparr>crli_signer_certificate_der = [1], crli_issuer_certificate_der = [2], crli_crls_der = [[9]],
      crli_validation_time = []\<rparr>) = Rev_Good"
  using crl_validator_exact [of sample_pki sample_crl_lib 5 "\<lparr>crli_signer_certificate_der = [1],
      crli_issuer_certificate_der = [], crli_crls_der = [[9]], crli_validation_time = []\<rparr>"]
    crl_validator_exact [of sample_pki sample_crl_lib 5 "\<lparr>crli_signer_certificate_der = [1],
      crli_issuer_certificate_der = [2], crli_crls_der = [[9]], crli_validation_time = []\<rparr>"]
    crl_validator_exact [of sample_pki "sample_crl_lib\<lparr>crl_tbs := (\<lambda>crl. Some (PKIX_nothing, PKIX_utcTime 3))\<rparr>" 5
      "\<lparr>crli_signer_certificate_der = [1], crli_issuer_certificate_der = [2], crli_crls_der = [[9]], crli_validation_time = []\<rparr>"]
  by (simp add: crl_proves_good_def crl_proves_revoked_def crl_about_def crl_signed_def crl_window_admits_def
      GetCrlValidityWindow_def sample_crl_lib_def sample_pki_def DecodeCertificateDer_def validation_seconds_def)

end
