(* ===== verification/Revocation_Engine.thy ===== *)
theory Revocation_Engine
  imports Ocsp_Validator Crl_Validator
begin

text \<open>
  \<open>core/validation/RevocationEngine.{h,cpp}\<close>: the order in which the sources of revocation
  evidence are consulted (supplied OCSP responses, then local lists, then the network, if the
  caller allows it) and the verdict drawn from the first definite answer. The two validators
  are arguments; the lemmas about the engine are proved from their contract, the locale
  \<open>revocation_sources\<close>, which is interpreted on the models of \<open>OcspValidator\<close> and
  \<open>CrlValidator\<close>.
\<close>

section \<open>Data\<close>

datatype CertificateRole = Role_Signer | Role_IntermediateCa | Role_Tsa | Role_OcspResponder | Role_CrlIssuer

record RevocationEngineInput =
  ri_certificate_der :: bytes
  ri_issuer_certificate_der :: bytes
  ri_role :: CertificateRole
  ri_validation_time :: string
  ri_network_allowed :: bool
  ri_revocation_hard_fail :: bool
  ri_crls_der :: "bytes list"
  ri_embedded_ocsp_response :: bytes
  ri_embedded_ocsp_responses_der :: "bytes list"
  ri_ocsp_url :: string

record RevocationEngineResult =
  rr_overall_status :: OverallStatus
  rr_revocation_status :: RevocationStatus
  rr_because :: "string list"
  rr_warnings :: "string list"
  rr_limitations :: "string list"
  rr_evidence_ids :: "string list"
  rr_revocation_time :: int
  rr_ocsp_attempted :: bool
  rr_crl_attempted :: bool

definition default_revocation_result :: RevocationEngineResult where
  "default_revocation_result = \<lparr>rr_overall_status = Overall_Indeterminate, rr_revocation_status = Rev_NotChecked,
     rr_because = [], rr_warnings = [], rr_limitations = [], rr_evidence_ids = [], rr_revocation_time = 0,
     rr_ocsp_attempted = False, rr_crl_attempted = False\<rparr>"

section \<open>Helpers\<close>

fun RoleToString :: "CertificateRole \<Rightarrow> string" where
  "RoleToString Role_Signer = ''Signer''"
| "RoleToString Role_IntermediateCa = ''IntermediateCa''"
| "RoleToString Role_Tsa = ''Tsa''"
| "RoleToString Role_OcspResponder = ''OcspResponder''"
| "RoleToString Role_CrlIssuer = ''CrlIssuer''"

fun DiagnosticRank :: "RevocationStatus \<Rightarrow> int" where
  "DiagnosticRank Rev_Invalid = 4"
| "DiagnosticRank Rev_Stale = 3"
| "DiagnosticRank Rev_ResponderUnavailable = 2"
| "DiagnosticRank Rev_Unknown = 1"
| "DiagnosticRank _ = 0"

definition KeepMoreSpecificFailure ::
    "RevocationStatus \<Rightarrow> string \<Rightarrow> RevocationStatus \<times> string \<Rightarrow> RevocationStatus \<times> string" where
  "KeepMoreSpecificFailure status message current =
     (if DiagnosticRank status > DiagnosticRank (fst current) then (status, message) else current)"

abbreviation definite :: "RevocationStatus \<Rightarrow> bool" where
  "definite status \<equiv> status = Rev_Good \<or> status = Rev_Revoked"

text \<open>The local variables of the function.\<close>

record engine_state =
  es_final_status :: RevocationStatus
  es_final_revocation_time :: int
  es_detail_message :: string
  es_result :: RevocationEngineResult

definition add_because :: "string \<Rightarrow> engine_state \<Rightarrow> engine_state" where
  "add_because m s = s\<lparr>es_result := es_result s\<lparr>rr_because := rr_because (es_result s) @ [m]\<rparr>\<rparr>"

definition add_warning :: "string \<Rightarrow> engine_state \<Rightarrow> engine_state" where
  "add_warning m s = s\<lparr>es_result := es_result s\<lparr>rr_warnings := rr_warnings (es_result s) @ [m]\<rparr>\<rparr>"

definition add_limitation :: "string \<Rightarrow> engine_state \<Rightarrow> engine_state" where
  "add_limitation m s = s\<lparr>es_result := es_result s\<lparr>rr_limitations := rr_limitations (es_result s) @ [m]\<rparr>\<rparr>"

definition add_evidence :: "string \<Rightarrow> engine_state \<Rightarrow> engine_state" where
  "add_evidence e s =
     (if e = [] then s else s\<lparr>es_result := es_result s\<lparr>rr_evidence_ids := rr_evidence_ids (es_result s) @ [e]\<rparr>\<rparr>)"

definition set_final :: "RevocationStatus \<Rightarrow> int \<Rightarrow> string \<Rightarrow> engine_state \<Rightarrow> engine_state" where
  "set_final status time message s =
     s\<lparr>es_final_status := status, es_final_revocation_time := time, es_detail_message := message\<rparr>"

definition keep_failure :: "RevocationStatus \<Rightarrow> string \<Rightarrow> engine_state \<Rightarrow> engine_state" where
  "keep_failure status message s =
     (case KeepMoreSpecificFailure status message (es_final_status s, es_detail_message s) of
        (current, current_message) \<Rightarrow> s\<lparr>es_final_status := current, es_detail_message := current_message\<rparr>)"

section \<open>The three stages\<close>

text \<open>The bookkeeping common to both uses of the OCSP validator.\<close>

definition note_ocsp :: "OcspValidationResult \<Rightarrow> engine_state \<Rightarrow> engine_state" where
  "note_ocsp r s =
     add_evidence (or_response_evidence_id r) (add_evidence (or_request_evidence_id r)
       (s\<lparr>es_result := es_result s\<lparr>rr_ocsp_attempted := rr_ocsp_attempted (es_result s) \<or> or_checked r\<rparr>\<rparr>))"

definition embedded_ocsp_input :: "RevocationEngineInput \<Rightarrow> bytes \<Rightarrow> OcspValidationInput" where
  "embedded_ocsp_input input response_der =
     default_ocsp_input\<lparr>oi_signer_certificate_der := ri_certificate_der input,
       oi_issuer_certificate_der := ri_issuer_certificate_der input,
       oi_response_der := response_der, oi_validation_time := ri_validation_time input\<rparr>"

definition ocsp_candidates :: "RevocationEngineInput \<Rightarrow> bytes list" where
  "ocsp_candidates input =
     (if ri_embedded_ocsp_response input \<noteq> [] then [ri_embedded_ocsp_response input] else [])
     @ filter (\<lambda>candidate. candidate \<noteq> []) (ri_embedded_ocsp_responses_der input)"

fun embedded_ocsp_stage ::
    "(OcspValidationInput \<Rightarrow> OcspValidationResult) \<Rightarrow> RevocationEngineInput \<Rightarrow> bytes list \<Rightarrow> engine_state \<Rightarrow> engine_state" where
  "embedded_ocsp_stage ocsp input [] s = s"
| "embedded_ocsp_stage ocsp input (response_der # rest) s =
     (let ocsp_res = ocsp (embedded_ocsp_input input response_der);
          s = note_ocsp ocsp_res s
      in if or_checked ocsp_res \<and> definite (or_status ocsp_res) then
           add_because ''uk: The embedded OCSP response was used.''
             (set_final (or_status ocsp_res) (or_revocation_time ocsp_res) (or_message ocsp_res) s)
         else embedded_ocsp_stage ocsp input rest
           (add_warning (''uk: The embedded OCSP response gave no result: '' @ or_message ocsp_res)
             (keep_failure (or_status ocsp_res) (or_message ocsp_res) s)))"

definition crl_input :: "RevocationEngineInput \<Rightarrow> CrlValidationInput" where
  "crl_input input =
     \<lparr>crli_signer_certificate_der = ri_certificate_der input,
      crli_issuer_certificate_der = ri_issuer_certificate_der input,
      crli_crls_der = ri_crls_der input, crli_validation_time = ri_validation_time input\<rparr>"

definition crl_stage ::
    "(CrlValidationInput \<Rightarrow> CrlValidationResult) \<Rightarrow> RevocationEngineInput \<Rightarrow> engine_state \<Rightarrow> engine_state" where
  "crl_stage crl input s =
     (if \<not> definite (es_final_status s) \<and> ri_crls_der input \<noteq> [] then
        let crl_res = crl (crl_input input);
            s = add_evidence (crlr_crl_evidence_id crl_res)
                  (s\<lparr>es_result := es_result s\<lparr>rr_crl_attempted := crlr_checked crl_res\<rparr>\<rparr>)
        in if crlr_checked crl_res \<and> definite (crlr_status crl_res) then
             add_because ''uk: A local CRL was used.''
               (set_final (crlr_status crl_res) (crlr_revocation_time crl_res) (crlr_message crl_res) s)
           else if crlr_checked crl_res \<and> (crlr_status crl_res = Rev_Invalid \<or> crlr_status crl_res = Rev_Stale) then
             add_because (''uk: The local CRL gave no valid status: '' @ crlr_message crl_res)
               (keep_failure (crlr_status crl_res) (crlr_message crl_res) s)
           else
             add_warning (''uk: The local CRL gave no result: '' @ crlr_message crl_res)
               (keep_failure (crlr_status crl_res) (crlr_message crl_res) s)
      else s)"

definition network_ocsp_input :: "RevocationEngineInput \<Rightarrow> OcspValidationInput" where
  "network_ocsp_input input =
     default_ocsp_input\<lparr>oi_url := ri_ocsp_url input, oi_signer_certificate_der := ri_certificate_der input,
       oi_issuer_certificate_der := ri_issuer_certificate_der input, oi_validation_time := ri_validation_time input\<rparr>"

definition network_stage ::
    "(OcspValidationInput \<Rightarrow> OcspValidationResult) \<Rightarrow> RevocationEngineInput \<Rightarrow> engine_state \<Rightarrow> engine_state" where
  "network_stage ocsp input s =
     (if definite (es_final_status s) then s
      else if ri_network_allowed input \<and> ri_ocsp_url input \<noteq> [] then
        let ocsp_res = ocsp (network_ocsp_input input);
            s = note_ocsp ocsp_res s
        in if or_checked ocsp_res \<and> definite (or_status ocsp_res) then
             add_because ''uk: The status came from the network OCSP.''
               (set_final (or_status ocsp_res) (or_revocation_time ocsp_res) (or_message ocsp_res) s)
           else
             let s = keep_failure (or_status ocsp_res) (or_message ocsp_res) s
             in add_warning (''uk: The network OCSP request ended with status: '' @ es_detail_message s) s
      else
        let s = (if \<not> ri_network_allowed input then add_warning ''uk: Network access is forbidden by the configuration.'' s else s)
        in if ri_ocsp_url input = [] then add_warning ''uk: The OCSP address is not configured.'' s else s)"

section \<open>The verdict\<close>

definition set_overall :: "OverallStatus \<Rightarrow> engine_state \<Rightarrow> engine_state" where
  "set_overall st s = s\<lparr>es_result := es_result s\<lparr>rr_overall_status := st\<rparr>\<rparr>"

definition revocation_verdict :: "RevocationEngineInput \<Rightarrow> int \<Rightarrow> engine_state \<Rightarrow> engine_state" where
  "revocation_verdict input validation_time_sec s =
     (let t = es_final_revocation_time s; m = es_detail_message s
      in case es_final_status s of
        Rev_Good \<Rightarrow> add_because ''uk: The certificate is not revoked.'' (set_overall Overall_Valid s)
      | Rev_Revoked \<Rightarrow>
          if t \<noteq> 0 \<and> t > validation_time_sec then
            add_warning (''uk: The certificate was revoked at time: '' @ to_string t)
              (add_because ''uk: The certificate was revoked after the moment of evaluation (valid at signing).''
                (set_overall Overall_Valid s))
          else
            let s = add_because ''uk: The certificate was revoked before the moment of evaluation.''
                      (set_overall Overall_Invalid s)
            in if t \<noteq> 0 then add_because (''uk: Revocation time: '' @ to_string t) s else s
      | Rev_Invalid \<Rightarrow>
          add_warning ''revocation-check-invalid''
            (add_because (''uk: The revocation data are incorrect: '' @ m) (set_overall Overall_Indeterminate s))
      | _ \<Rightarrow>
          let s = add_because (''uk: The revocation status could not be determined: '' @ m) s
          in if ri_revocation_hard_fail input then
               add_warning ''uk: Strict revocation policy (hard fail): status undetermined.''
                 (set_overall Overall_Indeterminate s)
             else
               add_limitation ''uk: Soft revocation policy (soft fail): status unconfirmed.''
                 (set_overall Overall_Indeterminate s))"

definition engine_start :: "RevocationEngineInput \<Rightarrow> engine_state" where
  "engine_start input =
     (let s = \<lparr>es_final_status = Rev_NotChecked, es_final_revocation_time = 0, es_detail_message = [],
               es_result = default_revocation_result\<lparr>rr_because := [''uk: Certificate role: '' @ RoleToString (ri_role input)]\<rparr>\<rparr>
      in if ri_validation_time input \<noteq> [] \<and> ParseIso8601Time (ri_validation_time input) = None
         then add_warning (''uk: validation_time could not be parsed: '' @ ri_validation_time input) s else s)"

definition revocation_evidence ::
    "(OcspValidationInput \<Rightarrow> OcspValidationResult) \<Rightarrow> (CrlValidationInput \<Rightarrow> CrlValidationResult)
     \<Rightarrow> RevocationEngineInput \<Rightarrow> engine_state" where
  "revocation_evidence ocsp crl input =
     network_stage ocsp input (crl_stage crl input
       (embedded_ocsp_stage ocsp input (ocsp_candidates input) (engine_start input)))"

definition RevocationEngine_Validate ::
    "(OcspValidationInput \<Rightarrow> OcspValidationResult) \<Rightarrow> (CrlValidationInput \<Rightarrow> CrlValidationResult) \<Rightarrow> int
     \<Rightarrow> RevocationEngineInput \<Rightarrow> RevocationEngineResult" where
  "RevocationEngine_Validate ocsp crl now input =
     (if ri_certificate_der input = [] then
        default_revocation_result\<lparr>rr_because := [''uk: Certificate role: '' @ RoleToString (ri_role input),
          ''uk: Error: the certificate is empty.'']\<rparr>
      else
        let s = revocation_evidence ocsp crl input;
            s = s\<lparr>es_result := es_result s\<lparr>rr_revocation_status := es_final_status s\<rparr>\<rparr>;
            s = revocation_verdict input (validation_seconds now (ri_validation_time input)) s
        in (es_result s)\<lparr>rr_revocation_time := es_final_revocation_time s\<rparr>)"

section \<open>Which source decided\<close>

lemma state_simps [simp]:
  "es_final_status (add_because m s) = es_final_status s" "es_final_status (add_warning m s) = es_final_status s"
  "es_final_status (add_limitation m s) = es_final_status s" "es_final_status (add_evidence e s) = es_final_status s"
  "es_final_status (note_ocsp r s) = es_final_status s" "es_final_status (set_overall ov s) = es_final_status s"
  "es_final_status (set_final st t m s) = st"
  "es_final_revocation_time (add_because m s) = es_final_revocation_time s"
  "es_final_revocation_time (add_warning m s) = es_final_revocation_time s"
  "es_final_revocation_time (add_limitation m s) = es_final_revocation_time s"
  "es_final_revocation_time (add_evidence e s) = es_final_revocation_time s"
  "es_final_revocation_time (note_ocsp r s) = es_final_revocation_time s"
  "es_final_revocation_time (set_overall ov s) = es_final_revocation_time s"
  "es_final_revocation_time (set_final st t m s) = t"
  "es_final_revocation_time (keep_failure st m s) = es_final_revocation_time s"
  by (simp_all add: add_because_def add_warning_def add_limitation_def add_evidence_def note_ocsp_def
      set_final_def set_overall_def keep_failure_def split: prod.splits)

text \<open>Keeping a failure never produces a definite status out of an indefinite one.\<close>

lemma keep_failure_indefinite:
  assumes "\<not> definite (es_final_status s)"
  shows "\<not> definite (es_final_status (keep_failure st m s))"
proof -
  have "DiagnosticRank (es_final_status s) \<ge> 0" by (cases "es_final_status s") simp_all
  with assms show ?thesis by (cases st) (auto simp: keep_failure_def KeepMoreSpecificFailure_def)
qed

lemma engine_start_fields [simp]:
  "es_final_status (engine_start input) = Rev_NotChecked" "es_final_revocation_time (engine_start input) = 0"
  by (simp_all add: engine_start_def Let_def)

text \<open>
  The sources in the order the engine asks them: the supplied responses, the local lists, the
  network. What a source says is a pair: whether it proves the certificate good, and the times of
  the revocation it proves. The first source that proves anything decides.
\<close>

type_synonym source_answer = "bool \<times> (int \<Rightarrow> bool)"

definition sources_in_order ::
    "(OcspValidationInput \<Rightarrow> bool) \<Rightarrow> (OcspValidationInput \<Rightarrow> int \<Rightarrow> bool) \<Rightarrow> (CrlValidationInput \<Rightarrow> bool)
     \<Rightarrow> (CrlValidationInput \<Rightarrow> int \<Rightarrow> bool) \<Rightarrow> RevocationEngineInput \<Rightarrow> source_answer list" where
  "sources_in_order ocsp_good ocsp_revoked crl_good crl_revoked input =
     map (\<lambda>r. (ocsp_good (embedded_ocsp_input input r), ocsp_revoked (embedded_ocsp_input input r))) (ocsp_candidates input)
     @ (if ri_crls_der input \<noteq> [] then [(crl_good (crl_input input), crl_revoked (crl_input input))] else [])
     @ (if ri_network_allowed input \<and> ri_ocsp_url input \<noteq> []
        then [(ocsp_good (network_ocsp_input input), ocsp_revoked (network_ocsp_input input))] else [])"

fun first_good :: "source_answer list \<Rightarrow> bool" where
  "first_good [] \<longleftrightarrow> False"
| "first_good ((good, revoked) # sources) \<longleftrightarrow> good \<or> (\<nexists>t. revoked t) \<and> first_good sources"

fun first_revoked :: "source_answer list \<Rightarrow> int \<Rightarrow> bool" where
  "first_revoked [] t \<longleftrightarrow> False"
| "first_revoked ((good, revoked) # sources) t \<longleftrightarrow> revoked t \<or> \<not> good \<and> (\<nexists>u. revoked u) \<and> first_revoked sources t"

definition undecided :: "source_answer list \<Rightarrow> bool" where
  "undecided sources \<longleftrightarrow> \<not> first_good sources \<and> (\<nexists>t. first_revoked sources t)"

text \<open>The state after some sources were asked says what the first of them that proves anything says.\<close>

definition says :: "engine_state \<Rightarrow> source_answer list \<Rightarrow> bool" where
  "says s sources \<longleftrightarrow> (es_final_status s = Rev_Good \<longleftrightarrow> first_good sources)
     \<and> (\<forall>t. es_final_status s = Rev_Revoked \<and> es_final_revocation_time s = t \<longleftrightarrow> first_revoked sources t)"

lemma says_definite: "says s sources \<Longrightarrow> definite (es_final_status s) \<longleftrightarrow> \<not> undecided sources"
  by (auto simp: says_def undecided_def)

lemma says_source:
  "says s [(good, revoked)] \<longleftrightarrow> (es_final_status s = Rev_Good \<longleftrightarrow> good)
     \<and> (\<forall>t. es_final_status s = Rev_Revoked \<and> es_final_revocation_time s = t \<longleftrightarrow> revoked t)"
  by (auto simp: says_def)

lemma first_append:
  "first_good (xs @ ys) \<longleftrightarrow> first_good xs \<or> undecided xs \<and> first_good ys"
  "first_revoked (xs @ ys) t \<longleftrightarrow> first_revoked xs t \<or> undecided xs \<and> first_revoked ys t"
  by (induction xs rule: first_good.induct) (auto simp: undecided_def)

lemma says_append:
  assumes "says s xs"
  shows "definite (es_final_status s) \<Longrightarrow> says s (xs @ ys)"
    "\<not> definite (es_final_status s) \<Longrightarrow> says s' ys \<Longrightarrow> says s' (xs @ ys)"
proof -
  show "says s (xs @ ys)" if "definite (es_final_status s)"
    using assms that says_definite [OF assms] by (auto simp: says_def first_append)
  show "says s' (xs @ ys)" if "\<not> definite (es_final_status s)" "says s' ys"
    using that says_definite [OF assms] by (auto simp: says_def first_append undecided_def)
qed

text \<open>
  The contract of the two validators: predicates that say which inputs they answer \<open>Good\<close> or
  \<open>Revoked\<close> on, and that a definite answer is always marked as checked.
\<close>

locale revocation_sources =
  fixes ocsp :: "OcspValidationInput \<Rightarrow> OcspValidationResult"
    and crl :: "CrlValidationInput \<Rightarrow> CrlValidationResult"
    and ocsp_good :: "OcspValidationInput \<Rightarrow> bool"
    and ocsp_revoked :: "OcspValidationInput \<Rightarrow> int \<Rightarrow> bool"
    and crl_good :: "CrlValidationInput \<Rightarrow> bool"
    and crl_revoked :: "CrlValidationInput \<Rightarrow> int \<Rightarrow> bool"
  assumes ocsp_good_iff: "or_status (ocsp i) = Rev_Good \<longleftrightarrow> ocsp_good i"
    and ocsp_revoked_iff: "or_status (ocsp i) = Rev_Revoked \<and> or_revocation_time (ocsp i) = t \<longleftrightarrow> ocsp_revoked i t"
    and ocsp_definite_checked: "definite (or_status (ocsp i)) \<Longrightarrow> or_checked (ocsp i)"
    and crl_good_iff: "crlr_status (crl j) = Rev_Good \<longleftrightarrow> crl_good j"
    and crl_revoked_iff: "crlr_status (crl j) = Rev_Revoked \<and> crlr_revocation_time (crl j) = t \<longleftrightarrow> crl_revoked j t"
    and crl_definite_checked: "definite (crlr_status (crl j)) \<Longrightarrow> crlr_checked (crl j)"
begin

lemma ocsp_source: "says s [(ocsp_good i, ocsp_revoked i)] \<longleftrightarrow>
    (es_final_status s = Rev_Good \<longleftrightarrow> or_status (ocsp i) = Rev_Good)
    \<and> (\<forall>t. es_final_status s = Rev_Revoked \<and> es_final_revocation_time s = t
         \<longleftrightarrow> or_status (ocsp i) = Rev_Revoked \<and> or_revocation_time (ocsp i) = t)"
  unfolding says_source by (simp add: ocsp_good_iff ocsp_revoked_iff)

lemma crl_source: "says s [(crl_good j, crl_revoked j)] \<longleftrightarrow>
    (es_final_status s = Rev_Good \<longleftrightarrow> crlr_status (crl j) = Rev_Good)
    \<and> (\<forall>t. es_final_status s = Rev_Revoked \<and> es_final_revocation_time s = t
         \<longleftrightarrow> crlr_status (crl j) = Rev_Revoked \<and> crlr_revocation_time (crl j) = t)"
  unfolding says_source by (simp add: crl_good_iff crl_revoked_iff)

lemma embedded_stage_says:
  assumes "\<not> definite (es_final_status s)"
  shows "says (embedded_ocsp_stage ocsp input rs s)
    (map (\<lambda>r. (ocsp_good (embedded_ocsp_input input r), ocsp_revoked (embedded_ocsp_input input r))) rs)"
  using assms
proof (induction rs arbitrary: s)
  case Nil
  then show ?case by (simp add: says_def)
next
  case (Cons r rs)
  let ?i = "embedded_ocsp_input input r"
  show ?case
  proof (cases "or_checked (ocsp ?i) \<and> definite (or_status (ocsp ?i))")
    case True
    then have "says (embedded_ocsp_stage ocsp input (r # rs) s) [(ocsp_good ?i, ocsp_revoked ?i)]"
      unfolding ocsp_source by (simp add: Let_def)
    moreover have "definite (es_final_status (embedded_ocsp_stage ocsp input (r # rs) s))" using True by (simp add: Let_def)
    ultimately show ?thesis using says_append(1) by fastforce
  next
    case False
    then have indef: "\<not> definite (or_status (ocsp ?i))" using ocsp_definite_checked by blast
    let ?s = "add_warning (''uk: The embedded OCSP response gave no result: '' @ or_message (ocsp ?i))
      (keep_failure (or_status (ocsp ?i)) (or_message (ocsp ?i)) (note_ocsp (ocsp ?i) s))"
    have s: "\<not> definite (es_final_status ?s)"
      using keep_failure_indefinite [of "note_ocsp (ocsp ?i) s"] Cons.prems(1) by simp
    moreover have "says ?s [(ocsp_good ?i, ocsp_revoked ?i)]" using indef s unfolding ocsp_source by blast
    moreover have "embedded_ocsp_stage ocsp input (r # rs) s = embedded_ocsp_stage ocsp input rs ?s"
      using False by (simp only: embedded_ocsp_stage.simps Let_def if_False)
    ultimately show ?thesis using says_append(2) [OF _ _ Cons.IH [OF s]] by fastforce
  qed
qed

lemma crl_stage_says:
  assumes "says s sources"
  shows "says (crl_stage crl input s)
    (sources @ (if ri_crls_der input \<noteq> [] then [(crl_good (crl_input input), crl_revoked (crl_input input))] else []))"
proof (cases "\<not> definite (es_final_status s) \<and> ri_crls_der input \<noteq> []")
  case True
  define c where "c = crl (crl_input input)"
  define s' where "s' = add_evidence (crlr_crl_evidence_id c) (s\<lparr>es_result := es_result s\<lparr>rr_crl_attempted := crlr_checked c\<rparr>\<rparr>)"
  have indef: "\<not> definite (es_final_status (keep_failure (crlr_status c) (crlr_message c) s'))"
    using True keep_failure_indefinite [of s'] by (simp add: s'_def)
  have checked: "definite (crlr_status c) \<Longrightarrow> crlr_checked c" unfolding c_def by (rule crl_definite_checked)
  have stage: "es_final_status (crl_stage crl input s) = (if definite (crlr_status c) then crlr_status c
        else es_final_status (keep_failure (crlr_status c) (crlr_message c) s'))"
      "definite (crlr_status c) \<Longrightarrow> es_final_revocation_time (crl_stage crl input s) = crlr_revocation_time c"
    using True checked unfolding crl_stage_def c_def [symmetric] Let_def s'_def [symmetric] by simp_all
  have "says (crl_stage crl input s) [(crl_good (crl_input input), crl_revoked (crl_input input))]"
    unfolding crl_source c_def [symmetric] using stage indef by (auto split: if_splits)
  then show ?thesis using says_append(2) [OF assms] True by simp
next
  case False
  then have "crl_stage crl input s = s" by (simp only: crl_stage_def if_False)
  then show ?thesis using says_append(1) [OF assms] False assms by auto
qed

lemma network_stage_says:
  assumes "says s sources"
  shows "says (network_stage ocsp input s) (sources @ (if ri_network_allowed input \<and> ri_ocsp_url input \<noteq> []
    then [(ocsp_good (network_ocsp_input input), ocsp_revoked (network_ocsp_input input))] else []))"
proof (cases "\<not> definite (es_final_status s) \<and> ri_network_allowed input \<and> ri_ocsp_url input \<noteq> []")
  case True
  define r where "r = ocsp (network_ocsp_input input)"
  have indef: "\<not> definite (es_final_status (keep_failure (or_status r) (or_message r) (note_ocsp r s)))"
    using True keep_failure_indefinite [of "note_ocsp r s"] by simp
  have checked: "definite (or_status r) \<Longrightarrow> or_checked r" unfolding r_def by (rule ocsp_definite_checked)
  have stage: "es_final_status (network_stage ocsp input s) = (if definite (or_status r) then or_status r
        else es_final_status (keep_failure (or_status r) (or_message r) (note_ocsp r s)))"
      "definite (or_status r) \<Longrightarrow> es_final_revocation_time (network_stage ocsp input s) = or_revocation_time r"
    using True checked unfolding network_stage_def r_def [symmetric] Let_def by simp_all
  have "says (network_stage ocsp input s) [(ocsp_good (network_ocsp_input input), ocsp_revoked (network_ocsp_input input))]"
    unfolding ocsp_source r_def [symmetric] using stage indef by (auto split: if_splits)
  then show ?thesis using says_append(2) [OF assms] True by simp
next
  case False
  have kept: "es_final_status (network_stage ocsp input s) = es_final_status s"
    "es_final_revocation_time (network_stage ocsp input s) = es_final_revocation_time s"
    using False by (auto simp: network_stage_def Let_def)
  then have "says (network_stage ocsp input s) sources" using assms by (simp add: says_def)
  then show ?thesis using says_append(1) [of "network_stage ocsp input s" sources] kept False by auto
qed

text \<open>The first source that proves anything is what the engine goes by, and none is overlooked.\<close>

lemma evidence_says:
  "says (revocation_evidence ocsp crl input) (sources_in_order ocsp_good ocsp_revoked crl_good crl_revoked input)"
  unfolding revocation_evidence_def sources_in_order_def append_assoc [symmetric]
  by (intro network_stage_says crl_stage_says embedded_stage_says) simp

text \<open>The verdict in terms of the evidence.\<close>

lemma engine_fields:
  assumes "ri_certificate_der input \<noteq> []"
  defines "s \<equiv> revocation_evidence ocsp crl input"
  shows "rr_revocation_status (RevocationEngine_Validate ocsp crl now input) = es_final_status s"
    "rr_revocation_time (RevocationEngine_Validate ocsp crl now input) = es_final_revocation_time s"
    "rr_overall_status (RevocationEngine_Validate ocsp crl now input) =
       (if es_final_status s = Rev_Good \<or> es_final_status s = Rev_Revoked
             \<and> es_final_revocation_time s \<noteq> 0 \<and> es_final_revocation_time s > validation_seconds now (ri_validation_time input)
        then Overall_Valid
        else if es_final_status s = Rev_Revoked then Overall_Invalid else Overall_Indeterminate)"
  using assms(1) unfolding RevocationEngine_Validate_def Let_def s_def [symmetric]
  by (cases "es_final_status s";
      simp add: revocation_verdict_def set_overall_def add_because_def add_warning_def add_limitation_def Let_def)+

lemma engine_verdict:
  fixes now :: int and input :: RevocationEngineInput
  assumes "ri_certificate_der input \<noteq> []"
  defines "sources \<equiv> sources_in_order ocsp_good ocsp_revoked crl_good crl_revoked input"
    and "result \<equiv> RevocationEngine_Validate ocsp crl now input"
    and "moment \<equiv> validation_seconds now (ri_validation_time input)"
  shows "rr_revocation_status result = Rev_Good \<longleftrightarrow> first_good sources"
    "rr_revocation_status result = Rev_Revoked \<and> rr_revocation_time result = t \<longleftrightarrow> first_revoked sources t"
    "rr_overall_status result = Overall_Valid \<longleftrightarrow> first_good sources \<or> (\<exists>t. first_revoked sources t \<and> t \<noteq> 0 \<and> moment < t)"
    "rr_overall_status result = Overall_Invalid \<longleftrightarrow> (\<exists>t. first_revoked sources t \<and> (t = 0 \<or> t \<le> moment))"
    "rr_overall_status result = Overall_Indeterminate \<longleftrightarrow> undecided sources"
proof -
  have e: "es_final_status (revocation_evidence ocsp crl input) = Rev_Good \<longleftrightarrow> first_good sources"
    "first_revoked sources t \<longleftrightarrow> es_final_status (revocation_evidence ocsp crl input) = Rev_Revoked
       \<and> es_final_revocation_time (revocation_evidence ocsp crl input) = t" for t
    using evidence_says [of input] by (auto simp: says_def sources_def)
  note f = engine_fields [OF assms(1), of now, folded result_def moment_def]
  show "rr_revocation_status result = Rev_Good \<longleftrightarrow> first_good sources"
    "rr_revocation_status result = Rev_Revoked \<and> rr_revocation_time result = t \<longleftrightarrow> first_revoked sources t"
    unfolding f e by (rule refl)+
  show "rr_overall_status result = Overall_Valid \<longleftrightarrow> first_good sources \<or> (\<exists>t. first_revoked sources t \<and> t \<noteq> 0 \<and> moment < t)"
    "rr_overall_status result = Overall_Invalid \<longleftrightarrow> (\<exists>t. first_revoked sources t \<and> (t = 0 \<or> t \<le> moment))"
    "rr_overall_status result = Overall_Indeterminate \<longleftrightarrow> undecided sources"
    unfolding f undecided_def e(2) e(1) [symmetric] by auto
qed

end

section \<open>The validators of the program meet the contract\<close>

definition lists_prove_good ::
    "'cert pki \<Rightarrow> ('cert, 'crl) crl_lib \<Rightarrow> int \<Rightarrow> CrlValidationInput \<Rightarrow> bool" where
  "lists_prove_good P C now input \<longleftrightarrow>
     (\<exists>crl_der\<in>set (crli_crls_der input).
        crl_proves_good P C input (validation_seconds now (crli_validation_time input)) crl_der)
     \<and> \<not> (\<exists>crl_der\<in>set (crli_crls_der input). crl_proves_revoked P C input crl_der)"

definition lists_prove_revoked ::
    "'cert pki \<Rightarrow> ('cert, 'crl) crl_lib \<Rightarrow> CrlValidationInput \<Rightarrow> int \<Rightarrow> bool" where
  "lists_prove_revoked P C input t \<longleftrightarrow>
     (\<exists>before crl_der after. crli_crls_der input = before @ crl_der # after
        \<and> list_all (\<lambda>c. \<not> crl_proves_revoked P C input c) before \<and> crl_proves_revoked P C input crl_der
        \<and> crl_revocation_date P C input crl_der t)"

lemma lists_prove_revoked_iff:
  "crlr_status (CrlValidator_Validate P C now j) = Rev_Revoked \<and> crlr_revocation_time (CrlValidator_Validate P C now j) = t
   \<longleftrightarrow> lists_prove_revoked P C j t"
proof (cases "\<exists>crl_der\<in>set (crli_crls_der j). crl_proves_revoked P C j crl_der")
  case True
  then show ?thesis
    using CrlValidator_statuses [of P C now j] CrlValidator_revocation_time [OF True, of now t] unfolding lists_prove_revoked_def by blast
next
  case False
  then show ?thesis using CrlValidator_statuses [of P C now j] by (auto simp: lists_prove_revoked_def)
qed

lemma Ocsp_definite_checked:
  assumes "definite (or_status (OcspValidator_Validate P L post now input))"
  shows "or_checked (OcspValidator_Validate P L post now input)"
  by (cases rule: Ocsp_Validate_cases [of P L post now input]) (use assms in \<open>auto simp: ocsp_judge_checked\<close>)

interpretation rs: revocation_sources "OcspValidator_Validate P L post now" "CrlValidator_Validate P C now"
  "\<lambda>i. ocsp_proves P L post now i ''good'' 0" "\<lambda>i. ocsp_proves P L post now i ''revoked''"
  "lists_prove_good P C now" "lists_prove_revoked P C" for P L post now C
  using CrlValidator_statuses [of P C now] Ocsp_verdicts [of P L post now] Ocsp_definite_checked [of P L post now]
    lists_prove_revoked_iff [of P C now]
  by unfold_locales (auto simp: lists_prove_good_def)

text \<open>
  C3. The revocation engine's verdict is exactly what the first decisive source says. The sources
  are, in this order, the supplied OCSP responses, the local lists, and the responder in the
  network where the input allows it and names an address. The first of them that proves the
  certificate good or revoked gives the status and the time of the revocation; for the lists this
  is the date of the entry in the first list that proves a revocation. The verdict is \<open>Valid\<close> exactly when that source
  proves it good, or revoked strictly after the moment of validation; \<open>Invalid\<close> exactly when it
  proves a revocation without a time or not after that moment; \<open>Indeterminate\<close> exactly when no
  source proves anything.
\<close>

theorem revocation_engine_exact:
  fixes now :: int and input :: RevocationEngineInput and P :: "'cert pki" and C :: "('cert, 'crl) crl_lib"
    and L :: "('cert, 'req, 'resp) ocsp_lib" and post :: http_post
  assumes "ri_certificate_der input \<noteq> []"
  defines "sources \<equiv> sources_in_order (\<lambda>i. ocsp_proves P L post now i ''good'' 0) (\<lambda>i. ocsp_proves P L post now i ''revoked'')
      (lists_prove_good P C now) (lists_prove_revoked P C) input"
    and "result \<equiv> RevocationEngine_Validate (OcspValidator_Validate P L post now) (CrlValidator_Validate P C now) now input"
    and "moment \<equiv> validation_seconds now (ri_validation_time input)"
  shows "(rr_revocation_status result = Rev_Good \<longleftrightarrow> first_good sources)
    \<and> (\<forall>t. rr_revocation_status result = Rev_Revoked \<and> rr_revocation_time result = t \<longleftrightarrow> first_revoked sources t)
    \<and> (rr_overall_status result = Overall_Valid \<longleftrightarrow> first_good sources \<or> (\<exists>t. first_revoked sources t \<and> t \<noteq> 0 \<and> moment < t))
    \<and> (rr_overall_status result = Overall_Invalid \<longleftrightarrow> (\<exists>t. first_revoked sources t \<and> (t = 0 \<or> t \<le> moment)))
    \<and> (rr_overall_status result = Overall_Indeterminate \<longleftrightarrow> \<not> first_good sources \<and> (\<nexists>t. first_revoked sources t))"
  using rs.engine_verdict [OF assms(1), of P L post now C now, folded sources_def result_def moment_def]
  unfolding undecided_def by blast

definition sample_ocsp_lib :: "(nat, nat, nat) ocsp_lib" where
  "sample_ocsp_lib =
     \<lparr>eocspreq_generate_from_cert = (\<lambda>issuer signer. Some signer), verify_adapter_init_by_cert = (\<lambda>c. True),
      digest_adapter_init_default = True, eocspreq_alloc = (\<lambda>c. True), eocspreq_add_cert = (\<lambda>i s. True),
      eocspreq_generate = (\<lambda>i s. Some s),
      req_first_cert_id = (\<lambda>r. Some \<lparr>asn_issuerNameHash = [], asn_issuerKeyHash = [], asn_serial = Some [of_nat r]\<rparr>),
      ocspreq_encode = (\<lambda>r. Some [of_nat r]), ocspresp_decode = (\<lambda>b. Some (unat (hd b))),
      ocspresp_get_status = (\<lambda>r. Some (Some 0)), resp_has_response_bytes = (\<lambda>r. True),
      eocspreq_validate_resp = (\<lambda>r t m. Validity_OK), ocspresp_verify = (\<lambda>r c. True),
      ocspresp_get_certs = (\<lambda>r. []),
      resp_single_cert_ids = (\<lambda>r. [Some \<lparr>asn_issuerNameHash = [], asn_issuerKeyHash = [], asn_serial = Some [1]\<rparr>]),
      ocspresp_get_certs_status = (\<lambda>r. [Some \<lparr>api_serial_number = Some (Some [1]), api_status = Some ''revoked'',
         api_revocationTime = int r\<rparr>])\<rparr>"

definition no_network :: http_post where
  "no_network url body content_type accept timeout =
     default_post_result"

definition sample_revocation_input :: RevocationEngineInput where
  "sample_revocation_input = \<lparr>ri_certificate_der = [1], ri_issuer_certificate_der = [2], ri_role = Role_Signer,
     ri_validation_time = [], ri_network_allowed = False, ri_revocation_hard_fail = True, ri_crls_der = [],
     ri_embedded_ocsp_response = [], ri_embedded_ocsp_responses_der = [[100]], ri_ocsp_url = ''http://ocsp''\<rparr>"

text \<open>A supplied response that reports a revocation at second 100, judged at second 50.\<close>

lemma sample_revocation_proved:
  "first_revoked (sources_in_order (\<lambda>i. ocsp_proves sample_pki sample_ocsp_lib no_network 50 i ''good'' 0)
      (\<lambda>i. ocsp_proves sample_pki sample_ocsp_lib no_network 50 i ''revoked'')
      (lists_prove_good sample_pki sample_crl_lib 50) (lists_prove_revoked sample_pki sample_crl_lib) sample_revocation_input) 100"
proof -
  have "or_status (OcspValidator_Validate sample_pki sample_ocsp_lib no_network 50
        (embedded_ocsp_input sample_revocation_input [100])) = Rev_Revoked
    \<and> or_revocation_time (OcspValidator_Validate sample_pki sample_ocsp_lib no_network 50
        (embedded_ocsp_input sample_revocation_input [100])) = 100"
    by (simp add: OcspValidator_Validate_def embedded_ocsp_input_def sample_revocation_input_def default_ocsp_input_def
        BuildRequestDer_def DecodeCertificateDer_def sample_pki_def sample_ocsp_lib_def GenerateRequestWithDefaultNonce_def
        EncodeRequestAndExtractCertId_def ExtractCertIdFields_def EncodeSerialNumber_def ocsp_judge_def DecodeAndMapResponse_def
        MapOcspStatusForRequestedCertId_def ExtractResponseStatuses_def ExtractResponseCertIds_def
        ExtractStatusesWithCryptoniteApi_def known_status_def SameCertIdFields_def Let_def List.map_filter_def)
  then have "ocsp_proves sample_pki sample_ocsp_lib no_network 50 (embedded_ocsp_input sample_revocation_input [100]) ''revoked'' 100"
    using Ocsp_verdicts by blast
  then show ?thesis
    by (simp add: sources_in_order_def ocsp_candidates_def sample_revocation_input_def)
qed

theorem revocation_engine_exact_witness:
  "rr_overall_status (RevocationEngine_Validate (OcspValidator_Validate sample_pki sample_ocsp_lib no_network 50)
     (CrlValidator_Validate sample_pki sample_crl_lib 50) 50 sample_revocation_input) = Overall_Valid"
proof -
  have "ri_certificate_der sample_revocation_input \<noteq> []" "validation_seconds 50 (ri_validation_time sample_revocation_input) = 50"
    by (simp_all add: sample_revocation_input_def validation_seconds_def)
  then show ?thesis
    using revocation_engine_exact [of sample_revocation_input sample_pki sample_ocsp_lib no_network 50 sample_crl_lib] sample_revocation_proved
    by force
qed

section \<open>Without permission the network has no influence\<close>

lemma Ocsp_embedded_ignores_network:
  "oi_response_der input \<noteq> [] \<Longrightarrow> OcspValidator_Validate P L post now input = OcspValidator_Validate P L post' now input"
  by (simp add: OcspValidator_Validate_def split: sum.splits)

lemma embedded_stage_ignores_network:
  "\<forall>r\<in>set rs. r \<noteq> [] \<Longrightarrow> embedded_ocsp_stage (OcspValidator_Validate P L post now) input rs s
     = embedded_ocsp_stage (OcspValidator_Validate P L post' now) input rs s"
proof (induction rs arbitrary: s)
  case (Cons r rs)
  have "OcspValidator_Validate P L post now (embedded_ocsp_input input r)
      = OcspValidator_Validate P L post' now (embedded_ocsp_input input r)"
    by (rule Ocsp_embedded_ignores_network) (use Cons.prems in \<open>simp add: embedded_ocsp_input_def\<close>)
  moreover have "embedded_ocsp_stage (OcspValidator_Validate P L post now) input rs s
      = embedded_ocsp_stage (OcspValidator_Validate P L post' now) input rs s" for s
    using Cons.IH Cons.prems by simp
  ultimately show ?case by (simp only: embedded_ocsp_stage.simps)
qed simp

lemma RevocationEngine_ignores_network:
  assumes "\<not> ri_network_allowed input"
  shows "RevocationEngine_Validate (OcspValidator_Validate P L post now) crl now input
    = RevocationEngine_Validate (OcspValidator_Validate P L post' now) crl now input"
proof -
  have "\<forall>r\<in>set (ocsp_candidates input). r \<noteq> []" by (auto simp: ocsp_candidates_def)
  note stage = embedded_stage_ignores_network [OF this, of P L post now input _ post']
  show ?thesis
    using assms by (simp add: RevocationEngine_Validate_def revocation_evidence_def network_stage_def stage)
qed

text \<open>
  A revocation check that is not allowed to use the network is not influenced by it: the
  result is the same whatever the HTTP client would answer.
\<close>

theorem revocation_network_isolation:
  assumes "\<not> ri_network_allowed input"
  shows "RevocationEngine_Validate (OcspValidator_Validate P L post now) crl now input
    = RevocationEngine_Validate (OcspValidator_Validate P L post' now) crl now input"
  using assms by (rule RevocationEngine_ignores_network)

theorem revocation_network_isolation_witness:
  "RevocationEngine_Validate (OcspValidator_Validate sample_pki sample_ocsp_lib no_network 50)
     (CrlValidator_Validate sample_pki sample_crl_lib 50) 50 sample_revocation_input
   = RevocationEngine_Validate (OcspValidator_Validate sample_pki sample_ocsp_lib
       (\<lambda>url body ct acc timeout. default_post_result\<lparr>http_succeeded := True, http_status_code := 200, http_body := [1]\<rparr>) 50)
     (CrlValidator_Validate sample_pki sample_crl_lib 50) 50 sample_revocation_input"
  by (rule revocation_network_isolation) (simp add: sample_revocation_input_def)

end
