(* ===== verification/Timestamp_Engine.thy ===== *)
theory Timestamp_Engine
  imports Path_Engine Revocation_Engine
begin

text \<open>
  \<open>core/validation/TimestampEngine.{h,cpp}\<close>: whether an RFC 3161 timestamp is valid and its time
  may be trusted. The engine combines the cryptographic check of the token, the normalisation
  of its time, the validity window and extended key usage of the authority's certificate,
  the trust in that certificate (an endpoint of the trust list, or a path to an anchor), its
  issuer and its revocation status.

  The environment holds what lies outside the validation pipeline: the cryptonite services,
  the HTTP client, the clock, the token functions of \<open>policy/TimestampValidator.cpp\<close>, the
  search for an OCSP address, and the file system. The latter is a state of an arbitrary type:
  loading reads it and a download replaces it.
\<close>

section \<open>The environment\<close>

record TimestampExtractionResult =
  tx_success :: bool
  tx_failure_code :: string
  tx_token_der :: bytes
  tx_message :: string

record TimestampValidationResult =
  tv_valid :: bool
  tv_failure_code :: string
  tv_gen_time :: string
  tv_tsa_certificate_der :: bytes
  tv_embedded_certificates_der :: "bytes list"
  tv_message :: string

record ('cert, 'crl, 'req, 'resp, 'fs) environment =
  env_pki :: "'cert pki"
  env_crl :: "('cert, 'crl) crl_lib"
  env_ocsp :: "('cert, 'req, 'resp) ocsp_lib"
  env_post :: http_post
  env_now :: int
  GetSignatureValue :: "bytes \<Rightarrow> string + bytes"
  ExtractTimestampToken :: "bytes \<Rightarrow> TimestampExtractionResult"
  ValidateTimestampToken :: "bytes \<Rightarrow> bytes \<Rightarrow> bytes list \<Rightarrow> TimestampValidationResult"
  ResolveTsaOcspUrl :: "bytes \<Rightarrow> bytes \<Rightarrow> string \<Rightarrow> string"
  LoadCrlsFromWorkDir :: "'fs \<Rightarrow> string \<Rightarrow> bytes list"
  DownloadAndCacheCrlsForCert :: "bytes \<Rightarrow> string \<Rightarrow> int \<Rightarrow> 'fs \<Rightarrow> 'fs"

abbreviation chain_of :: "('cert, 'crl, 'req, 'resp, 'fs) environment \<Rightarrow> CertificateChainInput \<Rightarrow> CertificateChainResult" where
  "chain_of E \<equiv> CertificateChainValidator_Validate (env_pki E)"

abbreviation revocation_of ::
    "('cert, 'crl, 'req, 'resp, 'fs) environment \<Rightarrow> RevocationEngineInput \<Rightarrow> RevocationEngineResult" where
  "revocation_of E \<equiv> RevocationEngine_Validate
     (OcspValidator_Validate (env_pki E) (env_ocsp E) (env_post E) (env_now E))
     (CrlValidator_Validate (env_pki E) (env_crl E) (env_now E)) (env_now E)"

section \<open>Data\<close>

record TimestampEngineInput =
  ti_cms_der :: bytes
  ti_explicit_timestamp_token_der :: bytes
  ti_explicit_timestamp_imprint_source :: bytes
  ti_validation_time :: string
  ti_policy :: ValidationPolicy
  ti_plan :: ValidationPlan
  ti_current_trust_anchors_der :: "bytes list"
  ti_tsa_trust_anchors_der :: "bytes list"
  ti_historical_trust_anchors_der :: "bytes list"
  ti_historical_tsa_trust_anchors_der :: "bytes list"
  ti_custom_trust_anchors_der :: "bytes list"
  ti_pinned_trust_anchors_der :: "bytes list"
  ti_intermediate_store_certificates_der :: "bytes list"
  ti_additional_tsa_candidate_certificates_der :: "bytes list"
  ti_embedded_crls_der :: "bytes list"
  ti_embedded_ocsp_responses_der :: "bytes list"

record TimestampEngineResult =
  te_valid :: bool
  te_policy_acceptable :: bool
  te_crypto_valid :: bool
  te_gen_time_valid :: bool
  te_certificate_time_valid :: bool
  te_eku_valid :: bool
  te_trust_valid :: bool
  te_historical_trust_used :: bool
  te_revocation_checked :: bool
  te_ocsp_attempted :: bool
  te_crl_attempted :: bool
  te_status :: TimestampStatus
  te_revocation_status :: RevocationStatus
  te_reason_code :: string
  te_trust_source :: string
  te_gen_time :: string
  te_validation_time :: string
  te_tsa_certificate_der :: bytes
  te_tsa_issuer_certificate_der :: bytes
  te_because :: "string list"
  te_warnings :: "string list"
  te_limitations :: "string list"
  te_evidence_ids :: "string list"

definition default_timestamp_result :: TimestampEngineResult where
  "default_timestamp_result =
     \<lparr>te_valid = False, te_policy_acceptable = False, te_crypto_valid = False, te_gen_time_valid = False,
      te_certificate_time_valid = False, te_eku_valid = False, te_trust_valid = False,
      te_historical_trust_used = False, te_revocation_checked = False, te_ocsp_attempted = False,
      te_crl_attempted = False, te_status = Ts_NotChecked, te_revocation_status = Rev_NotChecked,
      te_reason_code = [], te_trust_source = [], te_gen_time = [], te_validation_time = [],
      te_tsa_certificate_der = [], te_tsa_issuer_certificate_der = [], te_because = [], te_warnings = [],
      te_limitations = [], te_evidence_ids = []\<rparr>"

text \<open>The common shape of the failing returns: a status, a reason code and an explanation.\<close>

definition ts_fail :: "TimestampStatus \<Rightarrow> string \<Rightarrow> string \<Rightarrow> TimestampEngineResult \<Rightarrow> TimestampEngineResult" where
  "ts_fail status reason because r =
     r\<lparr>te_status := status, te_reason_code := reason, te_because := te_because r @ [because]\<rparr>"

section \<open>Helpers\<close>

definition append_unique_one :: "bytes \<Rightarrow> bytes list \<Rightarrow> bytes list" where
  "append_unique_one value out = (if value \<noteq> [] \<and> value \<notin> set out then out @ [value] else out)"

definition AppendUnique :: "bytes list \<Rightarrow> bytes list \<Rightarrow> bytes list" where
  "AppendUnique out values = fold append_unique_one values out"

text \<open>The search stops after 512 candidates; the empty vector is \<open>None\<close>.\<close>

definition FindVerifiedIssuerImpl :: "'cert pki \<Rightarrow> bytes \<Rightarrow> bytes list \<Rightarrow> bytes option" where
  "FindVerifiedIssuerImpl P tsa_der candidates =
     (case DecodeCertificateDer P tsa_der of
        None \<Rightarrow> None
      | Some tsa \<Rightarrow>
          find (\<lambda>der. case DecodeCertificateDer P der of
                   None \<Rightarrow> False
                 | Some issuer \<Rightarrow> pki_issuer_name_is_subject P tsa issuer \<and> pki_verify P tsa issuer)
            (take 512 candidates))"

text \<open>\<open>parent_path\<close> of a path with forward slashes.\<close>

definition parent_path :: "string \<Rightarrow> string" where
  "parent_path p =
     (case rfind_char (CHR ''/'') p of
        None \<Rightarrow> []
      | Some i \<Rightarrow>
          let q = rev (dropWhile (\<lambda>c. c = CHR ''/'') (rev (take i p)))
          in if q = [] then ''/'' else q)"

section \<open>The stages\<close>

definition certificate_candidates :: "TimestampEngineInput \<Rightarrow> bytes list" where
  "certificate_candidates input =
     fold (\<lambda>values out. AppendUnique out values)
       [ti_intermediate_store_certificates_der input, ti_tsa_trust_anchors_der input,
        ti_current_trust_anchors_der input, ti_historical_tsa_trust_anchors_der input,
        ti_historical_trust_anchors_der input, ti_custom_trust_anchors_der input,
        ti_pinned_trust_anchors_der input]
       (ti_additional_tsa_candidate_certificates_der input)"

text \<open>Obtaining the token and checking it cryptographically.\<close>

definition ts_token ::
    "('cert, 'crl, 'req, 'resp, 'fs) environment \<Rightarrow> TimestampEngineInput
     \<Rightarrow> TimestampEngineResult + TimestampValidationResult" where
  "ts_token E input =
     (if ti_explicit_timestamp_token_der input \<noteq> [] then
        if ti_explicit_timestamp_imprint_source input = [] then
          Inl (ts_fail Ts_Unsupported ''TIMESTAMP_IMPRINT_SOURCE_MISSING''
            ''uk: Error: the explicit timestamp imprint source is empty.'' default_timestamp_result)
        else Inr (ValidateTimestampToken E (ti_explicit_timestamp_token_der input)
               (ti_explicit_timestamp_imprint_source input) (certificate_candidates input))
      else if ti_cms_der input = [] then
        Inl (ts_fail Ts_Unsupported ''TIMESTAMP_FORMAT_INVALID'' ''uk: Error: the CMS is empty.'' default_timestamp_result)
      else case GetSignatureValue E (ti_cms_der input) of
        Inl error_message \<Rightarrow>
          Inl (ts_fail Ts_Unsupported ''TIMESTAMP_SIGNATURE_VALUE_MISSING''
            (''uk: The signature value could not be extracted: '' @ error_message) default_timestamp_result)
      | Inr signature_value \<Rightarrow>
          let ext_res = ExtractTimestampToken E (ti_cms_der input)
          in if \<not> tx_success ext_res then
               Inl (ts_fail (if tx_failure_code ext_res = ''TIMESTAMP_MISSING'' then Ts_Missing else Ts_InvalidSignature)
                 (tx_failure_code ext_res) (''uk: The timestamp could not be extracted: '' @ tx_message ext_res)
                 default_timestamp_result)
             else Inr (ValidateTimestampToken E (tx_token_der ext_res) signature_value (certificate_candidates input)))"

definition ts_crypto_failure_status :: "string \<Rightarrow> TimestampStatus" where
  "ts_crypto_failure_status failure_code =
     (if failure_code = ''TIMESTAMP_IMPRINT_MISMATCH'' then Ts_InvalidImprint
      else if failure_code = ''TIMESTAMP_IMPRINT_UNSUPPORTED'' \<or> failure_code = ''TIMESTAMP_UNSUPPORTED'' then Ts_Unsupported
      else if failure_code = ''TSA_CERTIFICATE_MISSING'' then Ts_UntrustedTsa
      else Ts_InvalidSignature)"

text \<open>The time of the token and the validity window of the authority's certificate at that time.\<close>

definition ts_time_stage ::
    "'cert pki \<Rightarrow> TimestampValidationResult \<Rightarrow> TimestampEngineResult + TimestampEngineResult" where
  "ts_time_stage P val_res =
     (let r = default_timestamp_result\<lparr>te_gen_time := tv_gen_time val_res\<rparr>
      in if \<not> tv_valid val_res then
           Inl (ts_fail (ts_crypto_failure_status (tv_failure_code val_res)) (tv_failure_code val_res)
             (''uk: The cryptographic check of the timestamp failed: '' @ tv_message val_res) r)
         else
           let r = r\<lparr>te_crypto_valid := True, te_tsa_certificate_der := tv_tsa_certificate_der val_res\<rparr>
           in case NormalizeTimestampTime (tv_gen_time val_res) of
                None \<Rightarrow> Inl (ts_fail Ts_InvalidSignature ''TIMESTAMP_TIME_INVALID''
                  ''uk: genTime is not a correct UTC GeneralizedTime; the present is not substituted.'' r)
              | Some validation_time \<Rightarrow>
                  let r = r\<lparr>te_gen_time_valid := True, te_validation_time := validation_time\<rparr>
                  in if \<not> IsCertificateValidAt P (tv_tsa_certificate_der val_res) validation_time then
                       Inl (ts_fail Ts_TsaExpired ''TSA_CERTIFICATE_TIME_INVALID''
                         ''uk: The TSA certificate is not valid at the time of the timestamp.'' r)
                     else Inr (r\<lparr>te_certificate_time_valid := True\<rparr>))"

text \<open>
  The direct match with an endpoint of the trust list: the source and whether it is
  historical, or \<open>None\<close>.
\<close>

definition use_tl_endpoints :: "ValidationPolicy \<Rightarrow> bool" where
  "use_tl_endpoints policy \<longleftrightarrow>
     trust_anchor_policy policy \<noteq> CustomTrustStore \<and> trust_anchor_policy policy \<noteq> PinnedAnchors"

definition ts_direct_match :: "TimestampEngineInput \<Rightarrow> bytes \<Rightarrow> (string \<times> bool) option" where
  "ts_direct_match input tsa_signer_der =
     (if use_tl_endpoints (ti_policy input)
         \<and> list_ex (\<lambda>anchor_der. anchor_der \<noteq> [] \<and> anchor_der = tsa_signer_der) (ti_tsa_trust_anchors_der input)
      then Some (''current-tl'', False)
      else if use_tl_endpoints (ti_policy input) \<and> allow_historical_trust (ti_policy input)
         \<and> list_ex (\<lambda>anchor_der. anchor_der \<noteq> [] \<and> anchor_der = tsa_signer_der) (ti_historical_tsa_trust_anchors_der input)
      then Some (''historical-tl'', True)
      else None)"

definition ts_path_input :: "TimestampEngineInput \<Rightarrow> TimestampValidationResult \<Rightarrow> string \<Rightarrow> PathBuilderInput" where
  "ts_path_input input val_res timestamp_validation_time =
     \<lparr>pbi_signer_certificate_der = tv_tsa_certificate_der val_res,
      pbi_embedded_certificates_der = AppendUnique (tv_embedded_certificates_der val_res)
        (ti_additional_tsa_candidate_certificates_der input),
      pbi_intermediate_store_certificates_der = ti_intermediate_store_certificates_der input,
      pbi_aia_certificates_der = [],
      pbi_current_trust_anchors_der = ti_tsa_trust_anchors_der input @ ti_current_trust_anchors_der input,
      pbi_historical_trust_anchors_der = ti_historical_tsa_trust_anchors_der input @ ti_historical_trust_anchors_der input,
      pbi_custom_trust_anchors_der = ti_custom_trust_anchors_der input,
      pbi_pinned_trust_anchors_der = ti_pinned_trust_anchors_der input,
      pbi_policy = ti_policy input, pbi_validation_time = timestamp_validation_time\<rparr>"

definition select_path ::
    "(CertificateChainInput \<Rightarrow> CertificateChainResult) \<Rightarrow> PathBuilderInput \<Rightarrow> PathSelection" where
  "select_path validate path_input =
     PathSelector_Select (map (PathValidator_Validate validate) (PathBuilder_Build path_input)) (pbi_policy path_input)"

text \<open>Trust in the authority's certificate: a direct match or a trusted path.\<close>

definition note_direct :: "(string \<times> bool) option \<Rightarrow> TimestampEngineResult \<Rightarrow> TimestampEngineResult" where
  "note_direct direct r =
     (case direct of
        None \<Rightarrow> r
      | Some (source, historical) \<Rightarrow>
          r\<lparr>te_trust_source := source, te_historical_trust_used := historical,
            te_because := te_because r @ [''uk: The TSA certificate equals an endpoint certificate of the trust list (TL direct match).'']\<rparr>)"

definition note_path :: "(string \<times> bool) option \<Rightarrow> PathSelection \<Rightarrow> TimestampEngineResult \<Rightarrow> TimestampEngineResult" where
  "note_path direct selection r =
     (let r = r\<lparr>te_trust_valid := True\<rparr>;
          r = (if direct = None
               then r\<lparr>te_trust_source := pr_trust_anchor_source (sel_result selection),
                      te_historical_trust_used := pr_uses_historical_trust (sel_result selection)\<rparr>
               else r)
      in if te_historical_trust_used r then r\<lparr>te_warnings := te_warnings r @ [''TSA_HISTORICAL_TRUST_USED'']\<rparr> else r)"

definition ts_trust_stage ::
    "('cert, 'crl, 'req, 'resp, 'fs) environment \<Rightarrow> TimestampEngineInput \<Rightarrow> TimestampValidationResult
     \<Rightarrow> TimestampEngineResult \<Rightarrow> TimestampEngineResult + TimestampEngineResult \<times> PathSelection" where
  "ts_trust_stage E input val_res r =
     (let direct = ts_direct_match input (tv_tsa_certificate_der val_res);
          r = note_direct direct r;
          path_input = ts_path_input input val_res (te_validation_time r);
          selection = select_path (chain_of E) path_input
      in if PathBuilder_Build path_input = [] \<and> direct = None then
           Inl (ts_fail Ts_UntrustedTsa ''TSA_UNTRUSTED''
             ''uk: No chain could be built for the TSA certificate (no candidates).'' r)
         else if direct = None \<and> pr_status (sel_result selection) = Chain_Expired then
           Inl (ts_fail Ts_TsaExpired ''TSA_CHAIN_TIME_INVALID''
             ''uk: The TSA certificate or a certificate of its chain is expired at the time of the timestamp.'' r)
         else if direct = None \<and> (sel_index selection = None \<or> \<not> pr_trusted (sel_result selection)) then
           Inl (ts_fail Ts_UntrustedTsa ''TSA_UNTRUSTED''
             (''uk: The TSA certificate is not trusted: '' @ pr_message (sel_result selection)) r)
         else Inr (note_path direct selection r, selection))"

text \<open>The right to issue timestamps, and the issuer the revocation check needs.\<close>

definition soft_policy :: "ValidationPolicy \<Rightarrow> bool" where
  "soft_policy policy \<longleftrightarrow> \<not> revocation_hard_fail policy \<and> \<not> require_trusted_signing_time policy"

definition issuer_pool :: "TimestampEngineInput \<Rightarrow> TimestampValidationResult \<Rightarrow> PathSelection \<Rightarrow> bytes list" where
  "issuer_pool input val_res selection =
     AppendUnique (AppendUnique
       (if pr_signer_issuer_certificate_der (sel_result selection) \<noteq> []
        then [pr_signer_issuer_certificate_der (sel_result selection)] else [])
       (tv_embedded_certificates_der val_res)) (certificate_candidates input)"

definition tsa_has_eku :: "'cert pki \<Rightarrow> bytes \<Rightarrow> bool" where
  "tsa_has_eku P der = (case DecodeCertificateDer P der of None \<Rightarrow> False | Some cert \<Rightarrow> HasTimestampingEku P cert)"

definition ts_issuer_stage ::
    "('cert, 'crl, 'req, 'resp, 'fs) environment \<Rightarrow> TimestampEngineInput \<Rightarrow> TimestampValidationResult
     \<Rightarrow> PathSelection \<Rightarrow> TimestampEngineResult \<Rightarrow> TimestampEngineResult + TimestampEngineResult" where
  "ts_issuer_stage E input val_res selection r =
     (if \<not> tsa_has_eku (env_pki E) (tv_tsa_certificate_der val_res) then
        Inl (ts_fail Ts_UntrustedTsa ''TSA_EKU_INVALID''
          ''uk: The TSA certificate has no EKU for timestamping (1.3.6.1.5.5.7.3.8).'' r)
      else
        let r = r\<lparr>te_eku_valid := True\<rparr>
        in case FindVerifiedIssuerImpl (env_pki E) (tv_tsa_certificate_der val_res) (issuer_pool input val_res selection) of
             None \<Rightarrow>
               Inl ((ts_fail Ts_UntrustedTsa ''TSA_ISSUER_MISSING''
                 ''uk: No cryptographically confirmed issuer of the TSA was found for the revocation check.'' r)
                 \<lparr>te_policy_acceptable := soft_policy (ti_policy input)\<rparr>)
           | Some issuer \<Rightarrow> Inr (r\<lparr>te_tsa_issuer_certificate_der := issuer\<rparr>))"

text \<open>The revocation check, first without the network, then with it if that decided nothing.\<close>

definition ts_work_dir :: "TimestampEngineInput \<Rightarrow> string" where
  "ts_work_dir input =
     (if trust_store_path (ti_plan input) = [] then [] else parent_path (trust_store_path (ti_plan input)))"

definition ts_revocation_input ::
    "('cert, 'crl, 'req, 'resp, 'fs) environment \<Rightarrow> TimestampEngineInput \<Rightarrow> TimestampEngineResult \<Rightarrow> 'fs \<Rightarrow> RevocationEngineInput" where
  "ts_revocation_input E input r fs =
     \<lparr>ri_certificate_der = te_tsa_certificate_der r, ri_issuer_certificate_der = te_tsa_issuer_certificate_der r,
      ri_role = Role_Tsa, ri_validation_time = te_validation_time r, ri_network_allowed = False,
      ri_revocation_hard_fail = revocation_hard_fail (ti_policy input),
      ri_crls_der = (if ts_work_dir input = [] then ti_embedded_crls_der input
        else AppendUnique (ti_embedded_crls_der input) (LoadCrlsFromWorkDir E fs (ts_work_dir input))),
      ri_embedded_ocsp_response = [], ri_embedded_ocsp_responses_der = ti_embedded_ocsp_responses_der input,
      ri_ocsp_url = ResolveTsaOcspUrl E (te_tsa_certificate_der r) (te_tsa_issuer_certificate_der r) (ts_work_dir input)\<rparr>"

definition ts_revocation ::
    "('cert, 'crl, 'req, 'resp, 'fs) environment \<Rightarrow> TimestampEngineInput \<Rightarrow> TimestampEngineResult \<Rightarrow> 'fs
     \<Rightarrow> RevocationEngineResult \<times> 'fs" where
  "ts_revocation E input r fs =
     (let rev_input = ts_revocation_input E input r fs;
          rev_result = revocation_of E rev_input
      in if rr_overall_status rev_result = Overall_Indeterminate \<and> network_allowed (ti_plan input) then
           let fs' = (if ts_work_dir input \<noteq> []
                      then DownloadAndCacheCrlsForCert E (te_tsa_certificate_der r) (ts_work_dir input) (timeout_ms (ti_plan input)) fs
                      else fs);
               crls = (if ts_work_dir input \<noteq> []
                       then AppendUnique (ri_crls_der rev_input) (LoadCrlsFromWorkDir E fs' (ts_work_dir input))
                       else ri_crls_der rev_input)
           in (revocation_of E (rev_input\<lparr>ri_crls_der := crls, ri_network_allowed := True\<rparr>), fs')
         else (rev_result, fs))"

definition note_revocation :: "RevocationEngineResult \<Rightarrow> TimestampEngineResult \<Rightarrow> TimestampEngineResult" where
  "note_revocation rev_result r =
     r\<lparr>te_revocation_status := rr_revocation_status rev_result, te_ocsp_attempted := rr_ocsp_attempted rev_result,
       te_crl_attempted := rr_crl_attempted rev_result,
       te_revocation_checked := rr_ocsp_attempted rev_result \<or> rr_crl_attempted rev_result,
       te_because := te_because r @ rr_because rev_result, te_warnings := te_warnings r @ rr_warnings rev_result,
       te_limitations := te_limitations r @ rr_limitations rev_result,
       te_evidence_ids := te_evidence_ids r @ rr_evidence_ids rev_result\<rparr>"

fun tsa_indeterminate_reason :: "RevocationStatus \<Rightarrow> string" where
  "tsa_indeterminate_reason Rev_Stale = ''TSA_REVOCATION_STALE''"
| "tsa_indeterminate_reason Rev_Invalid = ''TSA_REVOCATION_INVALID''"
| "tsa_indeterminate_reason Rev_ResponderUnavailable = ''TSA_RESPONDER_UNAVAILABLE''"
| "tsa_indeterminate_reason _ = ''TSA_REVOCATION_UNKNOWN''"

definition ts_conclusion ::
    "TimestampEngineInput \<Rightarrow> RevocationEngineResult \<Rightarrow> TimestampEngineResult \<Rightarrow> TimestampEngineResult" where
  "ts_conclusion input rev_result r =
     (if rr_overall_status rev_result = Overall_Invalid then
        ts_fail Ts_UntrustedTsa
          (if rr_revocation_status rev_result = Rev_Revoked then ''TSA_REVOKED'' else ''TSA_REVOCATION_INVALID'')
          ''uk: The TSA certificate was revoked.'' r
      else if rr_overall_status rev_result \<noteq> Overall_Valid then
        (ts_fail Ts_UntrustedTsa (tsa_indeterminate_reason (rr_revocation_status rev_result))
          ''uk: The revocation status of the TSA is not confirmed; a soft policy does not make the time trusted.'' r)
          \<lparr>te_policy_acceptable := soft_policy (ti_policy input)\<rparr>
      else
        (ts_fail Ts_Valid ''TIMESTAMP_VALID'' ''uk: The RFC 3161 timestamp is valid.'' r)
          \<lparr>te_valid := True, te_policy_acceptable := True\<rparr>)"

definition TimestampEngine_Validate ::
    "('cert, 'crl, 'req, 'resp, 'fs) environment \<Rightarrow> TimestampEngineInput \<Rightarrow> 'fs \<Rightarrow> TimestampEngineResult \<times> 'fs" where
  "TimestampEngine_Validate E input fs =
     (case ts_token E input of
        Inl r \<Rightarrow> (r, fs)
      | Inr val_res \<Rightarrow>
        (case ts_time_stage (env_pki E) val_res of
           Inl r \<Rightarrow> (r, fs)
         | Inr r \<Rightarrow>
           (case ts_trust_stage E input val_res r of
              Inl r \<Rightarrow> (r, fs)
            | Inr (r, selection) \<Rightarrow>
              (case ts_issuer_stage E input val_res selection r of
                 Inl r \<Rightarrow> (r, fs)
               | Inr r \<Rightarrow>
                   (case ts_revocation E input r fs of
                      (rev_result, fs') \<Rightarrow> (ts_conclusion input rev_result (note_revocation rev_result r), fs'))))))"

section \<open>What a valid timestamp promises\<close>

definition tsa_direct :: "TimestampEngineInput \<Rightarrow> bytes \<Rightarrow> bool" where
  "tsa_direct input der \<longleftrightarrow> use_tl_endpoints (ti_policy input) \<and> der \<noteq> [] \<and>
     (der \<in> set (ti_tsa_trust_anchors_der input)
      \<or> allow_historical_trust (ti_policy input) \<and> der \<in> set (ti_historical_tsa_trust_anchors_der input))"

definition tsa_path_trusted ::
    "'cert pki \<Rightarrow> TimestampEngineInput \<Rightarrow> TimestampValidationResult \<Rightarrow> string \<Rightarrow> bool" where
  "tsa_path_trusted P input val_res t \<longleftrightarrow>
     (\<exists>c\<in>set (PathBuilder_Build (ts_path_input input val_res t)).
        (pc_uses_historical_trust c \<longrightarrow> allow_historical_trust (ti_policy input))
        \<and> (\<exists>first anchor_der. trusted_chain P (chain_input c) first anchor_der))"

definition tsa_issuer :: "'cert pki \<Rightarrow> bytes \<Rightarrow> bytes \<Rightarrow> bool" where
  "tsa_issuer P tsa_der issuer_der \<longleftrightarrow>
     (\<exists>tsa issuer. DecodeCertificateDer P tsa_der = Some tsa \<and> DecodeCertificateDer P issuer_der = Some issuer
        \<and> pki_issuer_name_is_subject P tsa issuer \<and> pki_verify P tsa issuer)"

lemma direct_match_iff: "ts_direct_match input der \<noteq> None \<longleftrightarrow> tsa_direct input der"
  by (auto simp: ts_direct_match_def tsa_direct_def list_ex_iff)

lemma direct_match_historical:
  "ts_direct_match input der = Some (source, True) \<Longrightarrow> allow_historical_trust (ti_policy input)"
  by (auto simp: ts_direct_match_def split: if_splits)

lemma select_path_trusted:
  "pr_trusted (sel_result (select_path (CertificateChainValidator_Validate P) (ts_path_input input val_res t)))
     \<longleftrightarrow> tsa_path_trusted P input val_res t"
  unfolding select_path_def tsa_path_trusted_def cv.selected_path_trusted by (simp add: ts_path_input_def)

lemma ts_time_stage_Inr:
  assumes "ts_time_stage P val_res = Inr r"
  shows "tv_valid val_res" "NormalizeTimestampTime (tv_gen_time val_res) = Some (te_validation_time r)"
    "IsCertificateValidAt P (tv_tsa_certificate_der val_res) (te_validation_time r)"
    "te_tsa_certificate_der r = tv_tsa_certificate_der val_res" "te_gen_time r = tv_gen_time val_res"
    "te_crypto_valid r" "te_certificate_time_valid r" "\<not> te_historical_trust_used r"
  using assms
  by (auto simp: ts_time_stage_def default_timestamp_result_def Let_def split: if_splits option.splits)

lemma note_simps [simp]:
  "te_validation_time (note_direct d r) = te_validation_time r"
  "te_tsa_certificate_der (note_direct d r) = te_tsa_certificate_der r"
  "te_gen_time (note_direct d r) = te_gen_time r"
  "te_validation_time (note_path d sel r) = te_validation_time r"
  "te_tsa_certificate_der (note_path d sel r) = te_tsa_certificate_der r"
  "te_gen_time (note_path d sel r) = te_gen_time r"
  "te_trust_valid (note_path d sel r)"
  by (auto simp: note_direct_def note_path_def Let_def split: option.splits)

lemma ts_trust_stage_Inr:
  assumes "ts_trust_stage E input val_res r = Inr (r', selection)"
  shows "r' = note_path (ts_direct_match input (tv_tsa_certificate_der val_res)) selection
      (note_direct (ts_direct_match input (tv_tsa_certificate_der val_res)) r)"
    "selection = select_path (chain_of E) (ts_path_input input val_res (te_validation_time r))"
    "tsa_direct input (tv_tsa_certificate_der val_res) \<or> tsa_path_trusted (env_pki E) input val_res (te_validation_time r)"
  using assms direct_match_iff [of input "tv_tsa_certificate_der val_res"]
    select_path_trusted [of "env_pki E" input val_res "te_validation_time r"]
  by (auto simp: ts_trust_stage_def Let_def split: if_splits)

lemma trust_stage_historical:
  assumes "ts_trust_stage E input val_res r = Inr (r', selection)" "\<not> te_historical_trust_used r"
    "te_historical_trust_used r'"
  shows "allow_historical_trust (ti_policy input)"
proof (cases "ts_direct_match input (tv_tsa_certificate_der val_res)")
  case None
  let ?sel = "select_path (chain_of E) (ts_path_input input val_res (te_validation_time r))"
  have r': "r' = note_path None ?sel r" using ts_trust_stage_Inr [OF assms(1)] None by (simp add: note_direct_def)
  have hist: "pr_uses_historical_trust (sel_result ?sel)"
    using assms(3) unfolding r' by (auto simp: note_path_def Let_def split: if_splits)
  obtain i where i: "sel_index ?sel = Some i"
    using assms(1) None by (auto simp: ts_trust_stage_def Let_def note_direct_def split: if_splits)
  show ?thesis
    using Select_SomeD [OF i [unfolded select_path_def]] hist
    by (auto simp: select_path_def IsAuthoritativeCandidateAllowed_def ts_path_input_def)
next
  case (Some x)
  then show ?thesis
    using ts_trust_stage_Inr(1) [OF assms(1)] assms(3) direct_match_historical [of input "tv_tsa_certificate_der val_res"]
    by (cases x) (auto simp: note_path_def note_direct_def Let_def split: if_splits)
qed

lemma FindVerifiedIssuer_Some: "FindVerifiedIssuerImpl P tsa_der pool = Some der \<Longrightarrow> tsa_issuer P tsa_der der \<and> der \<in> set pool"
  by (auto simp: FindVerifiedIssuerImpl_def tsa_issuer_def find_Some_iff split: option.splits)

lemma ts_issuer_stage_Inr:
  assumes "ts_issuer_stage E input val_res selection r = Inr r'"
  shows "tsa_has_eku (env_pki E) (tv_tsa_certificate_der val_res)"
    "tsa_issuer (env_pki E) (tv_tsa_certificate_der val_res) (te_tsa_issuer_certificate_der r')"
    "te_validation_time r' = te_validation_time r" "te_tsa_certificate_der r' = te_tsa_certificate_der r"
    "te_gen_time r' = te_gen_time r" "te_historical_trust_used r' = te_historical_trust_used r"
  using assms FindVerifiedIssuer_Some [of "env_pki E"]
  by (auto simp: ts_issuer_stage_def Let_def split: if_splits option.splits)

text \<open>Every return before the conclusion reports an invalid timestamp.\<close>

lemma early_returns_invalid:
  "ts_token E input = Inl r0 \<Longrightarrow> \<not> te_valid r0 \<and> te_status r0 \<noteq> Ts_Valid"
  "ts_time_stage P val_res = Inl r1 \<Longrightarrow> \<not> te_valid r1 \<and> te_status r1 \<noteq> Ts_Valid"
  "ts_time_stage P val_res = Inr r2 \<Longrightarrow> \<not> te_valid r2"
  by (auto simp: ts_token_def ts_time_stage_def ts_fail_def ts_crypto_failure_status_def default_timestamp_result_def Let_def
      split: if_splits option.splits sum.splits)

lemma valid_field_simps [simp]:
  "te_valid (ts_fail st reason why r) = te_valid r" "te_status (ts_fail st reason why r) = st"
  "te_valid (note_direct d r) = te_valid r" "te_valid (note_path d sel r) = te_valid r"
  by (auto simp: ts_fail_def note_direct_def note_path_def Let_def split: option.splits)

lemma later_returns_invalid:
  "\<not> te_valid r \<Longrightarrow> ts_trust_stage E input val_res r = Inl r0 \<Longrightarrow> \<not> te_valid r0 \<and> te_status r0 \<noteq> Ts_Valid"
  "\<not> te_valid r \<Longrightarrow> ts_trust_stage E input val_res r = Inr (r1, selection) \<Longrightarrow> \<not> te_valid r1"
  "\<not> te_valid r \<Longrightarrow> ts_issuer_stage E input val_res sel r = Inl r2 \<Longrightarrow> \<not> te_valid r2 \<and> te_status r2 \<noteq> Ts_Valid"
  "\<not> te_valid r \<Longrightarrow> ts_issuer_stage E input val_res sel r = Inr r3 \<Longrightarrow> \<not> te_valid r3"
  unfolding ts_trust_stage_def ts_issuer_stage_def Let_def by (auto split: if_splits option.splits)

lemma ts_conclusion_valid:
  assumes "\<not> te_valid r"
  shows "te_valid (ts_conclusion input rr r) \<longleftrightarrow> rr_overall_status rr = Overall_Valid"
    "te_status (ts_conclusion input rr r) = Ts_Valid \<longleftrightarrow> rr_overall_status rr = Overall_Valid"
    "te_valid (ts_conclusion input rr r) \<Longrightarrow> te_policy_acceptable (ts_conclusion input rr r)"
  using assms by (auto simp: ts_conclusion_def ts_fail_def)

lemma ts_conclusion_simps [simp]:
  "te_validation_time (ts_conclusion input rr (note_revocation rr r)) = te_validation_time r"
  "te_gen_time (ts_conclusion input rr (note_revocation rr r)) = te_gen_time r"
  "te_tsa_issuer_certificate_der (ts_conclusion input rr (note_revocation rr r)) = te_tsa_issuer_certificate_der r"
  "te_historical_trust_used (ts_conclusion input rr (note_revocation rr r)) = te_historical_trust_used r"
  "te_valid (note_revocation rr r) = te_valid r"
  by (auto simp: ts_conclusion_def ts_fail_def note_revocation_def)

lemma ts_revocation_run:
  obtains rev_input where "fst (ts_revocation E input r fs) = revocation_of E rev_input"
    "ri_certificate_der rev_input = te_tsa_certificate_der r" "ri_issuer_certificate_der rev_input = te_tsa_issuer_certificate_der r"
    "ri_validation_time rev_input = te_validation_time r"
    "ri_network_allowed rev_input \<longrightarrow> network_allowed (ti_plan input)"
  by (rule that [of "if rr_overall_status (revocation_of E (ts_revocation_input E input r fs)) = Overall_Indeterminate
          \<and> network_allowed (ti_plan input)
        then (ts_revocation_input E input r fs)\<lparr>ri_crls_der := (if ts_work_dir input \<noteq> []
            then AppendUnique (ri_crls_der (ts_revocation_input E input r fs)) (LoadCrlsFromWorkDir E
              (DownloadAndCacheCrlsForCert E (te_tsa_certificate_der r) (ts_work_dir input) (timeout_ms (ti_plan input)) fs) (ts_work_dir input))
            else ri_crls_der (ts_revocation_input E input r fs)), ri_network_allowed := True\<rparr>
        else ts_revocation_input E input r fs"])
    (simp_all add: ts_revocation_def ts_revocation_input_def Let_def)

text \<open>The stages of a run that ends with a valid timestamp.\<close>

lemma timestamp_run:
  assumes "te_valid (fst (TimestampEngine_Validate E input fs)) \<or> te_status (fst (TimestampEngine_Validate E input fs)) = Ts_Valid"
  obtains val_res r1 r2 selection r3 where "ts_token E input = Inr val_res"
    "ts_time_stage (env_pki E) val_res = Inr r1" "ts_trust_stage E input val_res r1 = Inr (r2, selection)"
    "ts_issuer_stage E input val_res selection r2 = Inr r3" "\<not> te_valid r3"
    "fst (TimestampEngine_Validate E input fs)
      = ts_conclusion input (fst (ts_revocation E input r3 fs)) (note_revocation (fst (ts_revocation E input r3 fs)) r3)"
proof -
  obtain val_res where 1: "ts_token E input = Inr val_res"
    using assms early_returns_invalid(1) [of E input]
    by (cases "ts_token E input") (auto simp: TimestampEngine_Validate_def)
  obtain r1 where 2: "ts_time_stage (env_pki E) val_res = Inr r1"
    using assms 1 early_returns_invalid(2) [of "env_pki E" val_res]
    by (cases "ts_time_stage (env_pki E) val_res") (auto simp: TimestampEngine_Validate_def)
  have v1: "\<not> te_valid r1" by (rule early_returns_invalid(3) [OF 2])
  obtain r2 selection where 3: "ts_trust_stage E input val_res r1 = Inr (r2, selection)"
    using assms 1 2 later_returns_invalid(1) [OF v1, of E input val_res]
    by (cases "ts_trust_stage E input val_res r1") (auto simp: TimestampEngine_Validate_def)
  have v2: "\<not> te_valid r2" by (rule later_returns_invalid(2) [OF v1 3])
  obtain r3 where 4: "ts_issuer_stage E input val_res selection r2 = Inr r3"
    using assms 1 2 3 later_returns_invalid(3) [OF v2, of E input val_res selection]
    by (cases "ts_issuer_stage E input val_res selection r2") (auto simp: TimestampEngine_Validate_def)
  show ?thesis
    by (rule that [OF 1 2 3 4 later_returns_invalid(4) [OF v2 4]])
      (simp add: TimestampEngine_Validate_def 1 2 3 4 split: prod.splits)
qed

lemma valid_status:
  assumes "te_valid (fst (TimestampEngine_Validate E input fs))"
  shows "te_status (fst (TimestampEngine_Validate E input fs)) = Ts_Valid"
proof -
  from assms have "te_valid (fst (TimestampEngine_Validate E input fs)) \<or> te_status (fst (TimestampEngine_Validate E input fs)) = Ts_Valid"
    by blast
  then obtain r3 where r: "fst (TimestampEngine_Validate E input fs)
      = ts_conclusion input (fst (ts_revocation E input r3 fs)) (note_revocation (fst (ts_revocation E input r3 fs)) r3)"
    and v: "\<not> te_valid (note_revocation (fst (ts_revocation E input r3 fs)) r3)"
    by (elim timestamp_run) simp
  show ?thesis using assms unfolding r ts_conclusion_valid(1) [OF v] ts_conclusion_valid(2) [OF v] .
qed

text \<open>
  C4. A timestamp the engine calls valid is valid in every respect: the token passed the
  cryptographic check against the signature it stamps; its time is a correct UTC time; the
  authority's certificate was inside its validity window at that time, may issue timestamps,
  and is trusted, as an endpoint of the trust list or through a chain to an anchor the policy
  admits; its issuer was found by name and signature; and the revocation engine, asked about
  that certificate and issuer at that time, called it valid, using the network only if the
  plan allows it. Historical trust is used only where the policy allows it, and the status
  \<open>Valid\<close> is reported for exactly these results.
\<close>

theorem timestamp_engine_sound:
  fixes E :: "('cert, 'crl, 'req, 'resp, 'fs) environment"
  assumes "te_valid (fst (TimestampEngine_Validate E input fs))
    \<or> te_status (fst (TimestampEngine_Validate E input fs)) = Ts_Valid"
  shows "\<exists>val_res rev_input. ts_token E input = Inr val_res \<and> tv_valid val_res
    \<and> te_gen_time (fst (TimestampEngine_Validate E input fs)) = tv_gen_time val_res
    \<and> NormalizeTimestampTime (tv_gen_time val_res) = Some (te_validation_time (fst (TimestampEngine_Validate E input fs)))
    \<and> IsCertificateValidAt (env_pki E) (tv_tsa_certificate_der val_res) (te_validation_time (fst (TimestampEngine_Validate E input fs)))
    \<and> tsa_has_eku (env_pki E) (tv_tsa_certificate_der val_res)
    \<and> (tsa_direct input (tv_tsa_certificate_der val_res)
       \<or> tsa_path_trusted (env_pki E) input val_res (te_validation_time (fst (TimestampEngine_Validate E input fs))))
    \<and> tsa_issuer (env_pki E) (tv_tsa_certificate_der val_res) (ri_issuer_certificate_der rev_input)
    \<and> ri_certificate_der rev_input = tv_tsa_certificate_der val_res
    \<and> ri_validation_time rev_input = te_validation_time (fst (TimestampEngine_Validate E input fs))
    \<and> (ri_network_allowed rev_input \<longrightarrow> network_allowed (ti_plan input))
    \<and> rr_overall_status (revocation_of E rev_input) = Overall_Valid
    \<and> (te_historical_trust_used (fst (TimestampEngine_Validate E input fs)) \<longrightarrow> allow_historical_trust (ti_policy input))
    \<and> te_valid (fst (TimestampEngine_Validate E input fs)) \<and> te_status (fst (TimestampEngine_Validate E input fs)) = Ts_Valid"
proof -
  from assms obtain val_res r1 r2 selection r3 where run: "ts_token E input = Inr val_res"
    "ts_time_stage (env_pki E) val_res = Inr r1" "ts_trust_stage E input val_res r1 = Inr (r2, selection)"
    "ts_issuer_stage E input val_res selection r2 = Inr r3" "\<not> te_valid r3"
    and r: "fst (TimestampEngine_Validate E input fs)
      = ts_conclusion input (fst (ts_revocation E input r3 fs)) (note_revocation (fst (ts_revocation E input r3 fs)) r3)"
    by (rule timestamp_run)
  note t = ts_time_stage_Inr [OF run(2)] and p = ts_trust_stage_Inr [OF run(3)] and i = ts_issuer_stage_Inr [OF run(4)]
  have same: "te_validation_time r3 = te_validation_time r1" "te_tsa_certificate_der r3 = tv_tsa_certificate_der val_res"
    "te_gen_time r3 = tv_gen_time val_res"
    using t(4,5) p(1) i(3-5) by simp_all
  obtain rev_input where rv: "fst (ts_revocation E input r3 fs) = revocation_of E rev_input"
    "ri_certificate_der rev_input = te_tsa_certificate_der r3" "ri_issuer_certificate_der rev_input = te_tsa_issuer_certificate_der r3"
    "ri_validation_time rev_input = te_validation_time r3" "ri_network_allowed rev_input \<longrightarrow> network_allowed (ti_plan input)"
    by (rule ts_revocation_run)
  have v: "rr_overall_status (revocation_of E rev_input) = Overall_Valid"
    using assms ts_conclusion_valid [of "note_revocation (revocation_of E rev_input) r3" input "revocation_of E rev_input"] run(5)
    unfolding r rv(1) by auto
  have h: "te_historical_trust_used r3 \<longrightarrow> allow_historical_trust (ti_policy input)"
    using trust_stage_historical [OF run(3) t(8)] i(6) by simp
  show ?thesis
    using run(1) t p(3) i rv v h same ts_conclusion_valid [of "note_revocation (revocation_of E rev_input) r3" input "revocation_of E rev_input"] run(5)
    unfolding r rv(1) by (intro exI [of _ val_res] exI [of _ rev_input]) auto
qed

text \<open>A concrete environment in which a timestamp is valid.\<close>

definition sample_env :: "(nat, nat, nat, nat, unit) environment" where
  "sample_env =
     \<lparr>env_pki = sample_pki, env_crl = sample_crl_lib, env_ocsp = sample_ocsp_lib, env_post = no_network, env_now = 0,
      GetSignatureValue = (\<lambda>cms. Inr [5]),
      ExtractTimestampToken = (\<lambda>cms. \<lparr>tx_success = True, tx_failure_code = [], tx_token_der = [6], tx_message = []\<rparr>),
      ValidateTimestampToken = (\<lambda>token imprint pool. \<lparr>tv_valid = True, tv_failure_code = [],
        tv_gen_time = ''20250601120000Z'', tv_tsa_certificate_der = [1], tv_embedded_certificates_der = [], tv_message = []\<rparr>),
      ResolveTsaOcspUrl = (\<lambda>tsa issuer dir. []), LoadCrlsFromWorkDir = (\<lambda>fs dir. []),
      DownloadAndCacheCrlsForCert = (\<lambda>der dir timeout fs. fs)\<rparr>"

definition sample_ts_input :: TimestampEngineInput where
  "sample_ts_input =
     \<lparr>ti_cms_der = [7], ti_explicit_timestamp_token_der = [], ti_explicit_timestamp_imprint_source = [],
      ti_validation_time = ''2025-06-01T12:00:00Z'', ti_policy = default_policy\<lparr>revocation_hard_fail := True\<rparr>,
      ti_plan = default_plan\<lparr>trust_store_path := ''w/trust-store'', historical_trust_store_path := ''w/historical-trust-store''\<rparr>,
      ti_current_trust_anchors_der = [[2]], ti_tsa_trust_anchors_der = [[1]], ti_historical_trust_anchors_der = [],
      ti_historical_tsa_trust_anchors_der = [], ti_custom_trust_anchors_der = [], ti_pinned_trust_anchors_der = [],
      ti_intermediate_store_certificates_der = [], ti_additional_tsa_candidate_certificates_der = [],
      ti_embedded_crls_der = [[9]], ti_embedded_ocsp_responses_der = []\<rparr>"

lemma sample_gen_time: "NormalizeTimestampTime ''20250601120000Z'' = Some ''2025-06-01T12:00:00Z''"
  "ParseIso8601Time ''2025-06-01T12:00:00Z'' = Some 1748779200"
  by code_simp+

lemma sample_ts_selection:
  "pr_signer_issuer_certificate_der (sel_result (select_path (CertificateChainValidator_Validate sample_pki)
     (ts_path_input sample_ts_input (ValidateTimestampToken sample_env [6] [5] (certificate_candidates sample_ts_input))
       ''2025-06-01T12:00:00Z''))) = [2]"
  by code_simp

lemma sample_revocation_valid:
  assumes "ri_certificate_der i = [1]" "ri_issuer_certificate_der i = [2]" "ri_crls_der i = [[9]]"
    "ri_validation_time i = ''2025-06-01T12:00:00Z''" "ri_embedded_ocsp_response i = []"
    "ri_embedded_ocsp_responses_der i = []" "ri_ocsp_url i = []"
  shows "rr_overall_status (revocation_of sample_env i) = Overall_Valid"
proof -
  have crl: "lists_prove_good sample_pki sample_crl_lib 0 (crl_input i)"
    using assms by (simp add: lists_prove_good_def crl_input_def crl_proves_good_def
        crl_proves_revoked_def crl_about_def crl_signed_def crl_window_admits_def GetCrlValidityWindow_def validation_seconds_def
        sample_gen_time sample_crl_lib_def sample_pki_def DecodeCertificateDer_def)
  have cert: "ri_certificate_der i \<noteq> []" using assms by simp
  have good: "first_good (sources_in_order (\<lambda>i. ocsp_proves sample_pki sample_ocsp_lib no_network 0 i ''good'' 0)
      (\<lambda>i. ocsp_proves sample_pki sample_ocsp_lib no_network 0 i ''revoked'')
      (lists_prove_good sample_pki sample_crl_lib 0) (lists_prove_revoked sample_pki sample_crl_lib) i)"
    using assms crl by (simp add: sources_in_order_def ocsp_candidates_def)
  have env: "env_pki sample_env = sample_pki" "env_crl sample_env = sample_crl_lib" "env_ocsp sample_env = sample_ocsp_lib"
    "env_post sample_env = no_network" "env_now sample_env = 0" by (simp_all add: sample_env_def)
  show ?thesis
    using rs.engine_verdict(3) [OF cert, of sample_pki sample_ocsp_lib no_network 0 sample_crl_lib 0] good
    unfolding env by blast
qed

definition sample_val_res :: TimestampValidationResult where
  "sample_val_res = ValidateTimestampToken sample_env [6] [5] (certificate_candidates sample_ts_input)"

lemma sample_timestamp_stages:
  "ts_token sample_env sample_ts_input = Inr sample_val_res"
  "\<exists>r. ts_time_stage (env_pki sample_env) sample_val_res = Inr r \<and> te_validation_time r = ''2025-06-01T12:00:00Z''
     \<and> te_tsa_certificate_der r = [1] \<and> \<not> te_valid r"
  "ts_direct_match sample_ts_input (tv_tsa_certificate_der sample_val_res) = Some (''current-tl'', False)"
  "FindVerifiedIssuerImpl sample_pki [1] (AppendUnique (AppendUnique [[2]] []) (certificate_candidates sample_ts_input)) = Some [2]"
proof -
  show "ts_token sample_env sample_ts_input = Inr sample_val_res"
    by (simp add: ts_token_def sample_env_def sample_ts_input_def sample_val_res_def Let_def)
  show "\<exists>r. ts_time_stage (env_pki sample_env) sample_val_res = Inr r \<and> te_validation_time r = ''2025-06-01T12:00:00Z''
     \<and> te_tsa_certificate_der r = [1] \<and> \<not> te_valid r"
    by (simp add: ts_time_stage_def sample_env_def sample_val_res_def sample_gen_time IsCertificateValidAt_def IsValidAt_def
        DecodeCertificateDer_def sample_pki_def default_timestamp_result_def Let_def)
  show "ts_direct_match sample_ts_input (tv_tsa_certificate_der sample_val_res) = Some (''current-tl'', False)" by code_simp
  show "FindVerifiedIssuerImpl sample_pki [1] (AppendUnique (AppendUnique [[2]] []) (certificate_candidates sample_ts_input)) = Some [2]"
    by code_simp
qed

lemma sample_timestamp_valid:
  "te_valid (fst (TimestampEngine_Validate sample_env sample_ts_input ()))"
  "te_gen_time (fst (TimestampEngine_Validate sample_env sample_ts_input ())) = ''20250601120000Z''"
proof -
  note st = sample_timestamp_stages
  obtain r1 where r1: "ts_time_stage (env_pki sample_env) sample_val_res = Inr r1" "te_validation_time r1 = ''2025-06-01T12:00:00Z''"
    "te_tsa_certificate_der r1 = [1]" "\<not> te_valid r1" using st(2) by blast
  let ?sel = "select_path (chain_of sample_env) (ts_path_input sample_ts_input sample_val_res (te_validation_time r1))"
  obtain r2 where r2: "ts_trust_stage sample_env sample_ts_input sample_val_res r1 = Inr (r2, ?sel)"
    using st(3) by (simp add: ts_trust_stage_def Let_def)
  have f2: "te_validation_time r2 = te_validation_time r1" "te_tsa_certificate_der r2 = [1]" "\<not> te_valid r2"
    using ts_trust_stage_Inr(1) [OF r2] r1 by simp_all
  have val: "tv_tsa_certificate_der sample_val_res = [1]" "tv_embedded_certificates_der sample_val_res = []" "env_pki sample_env = sample_pki"
    by (simp_all add: sample_val_res_def sample_env_def)
  have "pr_signer_issuer_certificate_der (sel_result ?sel) = [2]"
    using sample_ts_selection unfolding r1(2) val(3) sample_val_res_def by simp
  then have pool: "issuer_pool sample_ts_input sample_val_res ?sel = AppendUnique (AppendUnique [[2]] []) (certificate_candidates sample_ts_input)"
    using val by (simp add: issuer_pool_def)
  have "tsa_has_eku sample_pki [1]"
    by (simp add: tsa_has_eku_def DecodeCertificateDer_def sample_pki_def HasTimestampingEku_def CertificateHasExtendedKeyUsage_def)
  then obtain r3 where r3: "ts_issuer_stage sample_env sample_ts_input sample_val_res ?sel r2 = Inr r3"
    "te_tsa_issuer_certificate_der r3 = [2]"
    using pool st(4) val by (simp add: ts_issuer_stage_def)
  have f3: "te_validation_time r3 = ''2025-06-01T12:00:00Z''" "te_tsa_certificate_der r3 = [1]" "\<not> te_valid r3"
    using ts_issuer_stage_Inr(3,4) [OF r3(1)] f2 r1(2) later_returns_invalid(4) [OF f2(3) r3(1)] by simp_all
  have v: "rr_overall_status (revocation_of sample_env (ts_revocation_input sample_env sample_ts_input r3 ())) = Overall_Valid"
    by (rule sample_revocation_valid)
      (simp_all add: ts_revocation_input_def f3 r3(2) sample_ts_input_def sample_env_def ts_work_dir_def default_plan_def
        AppendUnique_def)
  then have "fst (ts_revocation sample_env sample_ts_input r3 ())
      = revocation_of sample_env (ts_revocation_input sample_env sample_ts_input r3 ())"
    by (simp add: ts_revocation_def Let_def)
  with v f3(3) show "te_valid (fst (TimestampEngine_Validate sample_env sample_ts_input ()))"
    by (cases "ts_revocation sample_env sample_ts_input r3 ()")
      (simp add: TimestampEngine_Validate_def st(1) r1(1) r2 r3(1) ts_conclusion_valid(1))
  have "te_gen_time r3 = ''20250601120000Z''"
    using ts_time_stage_Inr(5) [OF r1(1)] ts_trust_stage_Inr(1) [OF r2] ts_issuer_stage_Inr(5) [OF r3(1)]
    by (simp add: sample_val_res_def sample_env_def)
  then show "te_gen_time (fst (TimestampEngine_Validate sample_env sample_ts_input ())) = ''20250601120000Z''"
    by (cases "ts_revocation sample_env sample_ts_input r3 ()") (simp add: TimestampEngine_Validate_def st(1) r1(1) r2 r3(1))
qed

theorem timestamp_engine_sound_witness:
  "te_valid (fst (TimestampEngine_Validate sample_env sample_ts_input ()))
   \<and> te_status (fst (TimestampEngine_Validate sample_env sample_ts_input ())) = Ts_Valid"
  using timestamp_engine_sound [of sample_env sample_ts_input "()"] sample_timestamp_valid(1) by blast

end
