(* ===== verification/Signing_Time.thy ===== *)
theory Signing_Time
  imports Validation_Types
begin

text \<open>
  \<open>core/validation/SigningTimeResolver.cpp\<close>: which moment the signature is judged at. The
  order of preference is a proven RFC 3161 timestamp, then the claimed signing time, then
  the time of verification; only the first is ever marked as trusted.
\<close>

section \<open>The program\<close>

definition WithEvidenceId :: "string \<Rightarrow> string \<Rightarrow> string" where
  "WithEvidenceId code_text evidence_id =
     (if evidence_id = [] then code_text else code_text @ '':'' @ evidence_id)"

definition ApplyTrustedTimeRequirement ::
    "SigningTimeResolution \<Rightarrow> ValidationPolicy \<Rightarrow> SigningTimeResolution" where
  "ApplyTrustedTimeRequirement resolution policy =
     (if require_trusted_signing_time policy \<and> \<not> st_trusted_time resolution
      then resolution\<lparr>st_limitations := st_limitations resolution @ [''trusted-signing-time-required'']\<rparr>
      else resolution)"

definition skipped_diagnostics ::
    "SigningTimeCandidate \<Rightarrow> SigningTimeResolution \<Rightarrow> SigningTimeResolution" where
  "skipped_diagnostics candidate resolution =
     (if cand_source candidate \<noteq> Source_Rfc3161Timestamp then resolution
      else
        let w1 = (if \<not> cand_cryptographically_valid candidate
                  then [WithEvidenceId ''rfc3161-timestamp-not-cryptographically-valid''
                          (cand_evidence_id candidate)] else []);
            l1 = (if \<not> cand_trusted candidate
                  then [WithEvidenceId ''rfc3161-timestamp-not-trusted'' (cand_evidence_id candidate)]
                  else []);
            l2 = (if cand_time candidate = []
                  then [WithEvidenceId ''rfc3161-timestamp-time-unavailable'' (cand_evidence_id candidate)]
                  else [])
        in resolution\<lparr>st_warnings := st_warnings resolution @ w1 @ cand_warnings candidate,
                      st_limitations := st_limitations resolution @ l1 @ l2\<rparr>)"

definition CollectSkippedRfc3161Diagnostics ::
    "SigningTimeCandidate list \<Rightarrow> SigningTimeResolution \<Rightarrow> SigningTimeResolution" where
  "CollectSkippedRfc3161Diagnostics candidates resolution = fold skipped_diagnostics candidates resolution"

definition is_trusted_timestamp :: "SigningTimeCandidate \<Rightarrow> bool" where
  "is_trusted_timestamp candidate \<longleftrightarrow>
     cand_source candidate = Source_Rfc3161Timestamp \<and> cand_cryptographically_valid candidate
     \<and> cand_trusted candidate \<and> cand_time candidate \<noteq> []"

definition is_claimed_time :: "SigningTimeCandidate \<Rightarrow> bool" where
  "is_claimed_time candidate \<longleftrightarrow>
     cand_source candidate = Source_ClaimedSigningTime \<and> cand_time candidate \<noteq> []"

definition SigningTimeResolver_Resolve ::
    "SigningTimeCandidate list \<Rightarrow> ValidationContext \<Rightarrow> ValidationPolicy \<Rightarrow> SigningTimeResolution" where
  "SigningTimeResolver_Resolve candidates context policy =
     (case find is_trusted_timestamp candidates of
        Some ts \<Rightarrow>
          default_resolution\<lparr>st_signature_evaluation_time := cand_time ts,
            st_source := Source_Rfc3161Timestamp, st_confidence := Confidence_Trusted,
            st_evidence_id := cand_evidence_id ts, st_warnings := cand_warnings ts,
            st_trusted_time := True\<rparr>
      | None \<Rightarrow>
          let resolution = CollectSkippedRfc3161Diagnostics candidates default_resolution
          in case find is_claimed_time candidates of
               Some claimed \<Rightarrow>
                 ApplyTrustedTimeRequirement
                   (resolution\<lparr>st_signature_evaluation_time := cand_time claimed,
                      st_source := Source_ClaimedSigningTime, st_confidence := Confidence_Claimed,
                      st_evidence_id := cand_evidence_id claimed, st_trusted_time := False,
                      st_warnings := st_warnings resolution @ cand_warnings claimed
                        @ (if \<not> cand_cryptographically_valid claimed
                           then [''claimed-signing-time-not-cryptographically-proven''] else [])\<rparr>) policy
             | None \<Rightarrow>
                 if ctx_verification_time context \<noteq> [] then
                   ApplyTrustedTimeRequirement
                     (resolution\<lparr>st_signature_evaluation_time := ctx_verification_time context,
                        st_source := Source_VerificationTimeFallback,
                        st_confidence := Confidence_Fallback, st_trusted_time := False,
                        st_warnings := st_warnings resolution @ [''verification-time-fallback-used''],
                        st_limitations := st_limitations resolution
                          @ [''signing-time-derived-from-verification-time'']\<rparr>) policy
                 else
                   ApplyTrustedTimeRequirement
                     (resolution\<lparr>st_limitations := st_limitations resolution @ [''signing-time-unavailable'']\<rparr>)
                     policy)"

section \<open>Trusted time has exactly one source\<close>

text \<open>The diagnostics touch only warnings and limitations.\<close>

lemma skipped_diagnostics_frame [simp]:
  "st_trusted_time (skipped_diagnostics c r) = st_trusted_time r"
  "st_signature_evaluation_time (skipped_diagnostics c r) = st_signature_evaluation_time r"
  "st_source (skipped_diagnostics c r) = st_source r"
  by (simp_all add: skipped_diagnostics_def Let_def)

lemma CollectSkipped_frame [simp]:
  "st_trusted_time (CollectSkippedRfc3161Diagnostics cs r) = st_trusted_time r"
  "st_signature_evaluation_time (CollectSkippedRfc3161Diagnostics cs r) = st_signature_evaluation_time r"
  "st_source (CollectSkippedRfc3161Diagnostics cs r) = st_source r"
  unfolding CollectSkippedRfc3161Diagnostics_def
  by (induction cs arbitrary: r) simp_all

lemma Requirement_frame [simp]:
  "st_trusted_time (ApplyTrustedTimeRequirement r p) = st_trusted_time r"
  "st_signature_evaluation_time (ApplyTrustedTimeRequirement r p) = st_signature_evaluation_time r"
  "st_source (ApplyTrustedTimeRequirement r p) = st_source r"
  by (simp_all add: ApplyTrustedTimeRequirement_def)

lemma find_SomeD: "find P xs = Some x \<Longrightarrow> x \<in> set xs \<and> P x"
  by (auto simp: find_Some_iff)

lemma Resolve_trusted_iff:
  "st_trusted_time (SigningTimeResolver_Resolve cs ctx p) \<longleftrightarrow> (\<exists>c \<in> set cs. is_trusted_timestamp c)"
proof (cases "find is_trusted_timestamp cs")
  case None
  then show ?thesis
    by (auto simp: SigningTimeResolver_Resolve_def default_resolution_def Let_def find_None_iff
        split: option.splits)
next
  case (Some c)
  then show ?thesis
    using find_SomeD [OF Some] by (auto simp: SigningTimeResolver_Resolve_def)
qed

lemma Resolve_trusted_time_value:
  assumes "st_trusted_time (SigningTimeResolver_Resolve cs ctx p)"
  shows "\<exists>c \<in> set cs. is_trusted_timestamp c \<and>
     st_signature_evaluation_time (SigningTimeResolver_Resolve cs ctx p) = cand_time c"
proof -
  from assms obtain c where c: "find is_trusted_timestamp cs = Some c"
    unfolding Resolve_trusted_iff by (cases "find is_trusted_timestamp cs") (auto simp: find_None_iff)
  with find_SomeD [OF c] show ?thesis by (auto simp: SigningTimeResolver_Resolve_def)
qed

text \<open>The order of preference as a specification on the time and its source alone.\<close>

definition preferred_time ::
    "SigningTimeCandidate list \<Rightarrow> string \<Rightarrow> string \<times> SigningTimeSource" where
  "preferred_time cs verification_time =
     (case filter is_trusted_timestamp cs of
        c # _ \<Rightarrow> (cand_time c, Source_Rfc3161Timestamp)
      | [] \<Rightarrow> (case filter is_claimed_time cs of
           c # _ \<Rightarrow> (cand_time c, Source_ClaimedSigningTime)
         | [] \<Rightarrow> if verification_time \<noteq> [] then (verification_time, Source_VerificationTimeFallback)
                 else ([], Source_Unavailable)))"

lemma find_filter: "find P xs = (case filter P xs of [] \<Rightarrow> None | x # _ \<Rightarrow> Some x)"
  by (induction xs) auto

text \<open>
  The resolver implements the order of preference: the first proven, trusted timestamp
  with a time, else the first claimed time, else the verification time, else nothing. The
  result is marked trusted exactly when such a timestamp is among the candidates, and a
  policy that requires a trusted time is answered with the limitation
  \<open>trusted-signing-time-required\<close> in every other case.
\<close>

theorem signing_time_resolution:
  "(st_signature_evaluation_time (SigningTimeResolver_Resolve cs ctx p),
    st_source (SigningTimeResolver_Resolve cs ctx p)) = preferred_time cs (ctx_verification_time ctx)
   \<and> (st_trusted_time (SigningTimeResolver_Resolve cs ctx p) \<longleftrightarrow> (\<exists>c \<in> set cs. is_trusted_timestamp c))
   \<and> (require_trusted_signing_time p \<longrightarrow>
        st_trusted_time (SigningTimeResolver_Resolve cs ctx p)
        \<or> ''trusted-signing-time-required'' \<in> set (st_limitations (SigningTimeResolver_Resolve cs ctx p)))"
proof (intro conjI)
  show "(st_signature_evaluation_time (SigningTimeResolver_Resolve cs ctx p),
    st_source (SigningTimeResolver_Resolve cs ctx p)) = preferred_time cs (ctx_verification_time ctx)"
    by (simp add: SigningTimeResolver_Resolve_def preferred_time_def find_filter Let_def
        default_resolution_def split: list.splits)
  show "require_trusted_signing_time p \<longrightarrow>
        st_trusted_time (SigningTimeResolver_Resolve cs ctx p)
        \<or> ''trusted-signing-time-required'' \<in> set (st_limitations (SigningTimeResolver_Resolve cs ctx p))"
    by (simp add: SigningTimeResolver_Resolve_def Let_def ApplyTrustedTimeRequirement_def
        default_resolution_def split: option.splits)
qed (rule Resolve_trusted_iff)

text \<open>A claimed time does not satisfy a policy that requires a trusted one.\<close>

definition claimed_candidate :: SigningTimeCandidate where
  "claimed_candidate = \<lparr>cand_source = Source_ClaimedSigningTime, cand_time = ''2025-05-01T10:00:00Z'',
     cand_evidence_id = [], cand_cryptographically_valid = False, cand_trusted = False,
     cand_warnings = []\<rparr>"

theorem signing_time_resolution_witness:
  "require_trusted_signing_time (policy_of sample_context) \<and>
   ''trusted-signing-time-required''
     \<in> set (st_limitations (SigningTimeResolver_Resolve [claimed_candidate] sample_context
              (policy_of sample_context)))"
proof -
  have r: "require_trusted_signing_time (policy_of sample_context)"
    by (simp add: sample_context_def resolver_simps)
  have "\<not> is_trusted_timestamp claimed_candidate"
    by (simp add: is_trusted_timestamp_def claimed_candidate_def)
  then show ?thesis
    using r signing_time_resolution [of "[claimed_candidate]" sample_context "policy_of sample_context"]
    by auto
qed

end
