(* ===== verification/Trust_Service.thy ===== *)
theory Trust_Service
  imports Trust_List "HOL-Library.List_Lexorder" "HOL-Library.Char_ord"
begin

text \<open>
  \<open>core/validation/TrustServiceEvaluator.{h,cpp}\<close>: which snapshot of the national trust list
  applies to a moment, and what a trust list says about a certificate. The directory with the
  archived snapshots is an argument: \<open>None\<close> when it does not exist, otherwise the names of its
  entries with a flag for regular files, in the order the directory iterator yields them. The
  XML parser (\<open>TrustListParser::Parse\<close>) is an argument too.
\<close>

section \<open>SelectSnapshot\<close>

text \<open>The month of an archived snapshot, from its file name \<open>TL-UA-EC-YYYY-MM.xml\<close>.\<close>

definition is_year_month :: "string \<Rightarrow> bool" where
  "is_year_month ym \<longleftrightarrow> ym ! 4 = CHR ''-'' \<and> isdigit (ym ! 0) \<and> isdigit (ym ! 1) \<and> isdigit (ym ! 2)
     \<and> isdigit (ym ! 3) \<and> isdigit (ym ! 5) \<and> isdigit (ym ! 6)"

definition snapshot_month :: "string \<times> bool \<Rightarrow> string option" where
  "snapshot_month entry =
     (let filename = fst entry; file_ym = take 7 (drop 9 filename)
      in if snd entry \<and> length filename = 20 \<and> take 9 filename = ''TL-UA-EC-'' \<and> drop 16 filename = ''.xml''
            \<and> is_year_month file_ym
         then Some file_ym else None)"

text \<open>
  The loop over the directory, with \<open>earliest_ym\<close>/\<open>earliest_path\<close> and \<open>best_ym\<close>/\<open>best_path\<close> as
  optional pairs (the month is empty exactly when the path is).
\<close>

definition snapshot_step ::
    "string \<Rightarrow> string \<times> bool \<Rightarrow> (string \<times> string) option \<times> (string \<times> string) option
     \<Rightarrow> (string \<times> string) option \<times> (string \<times> string) option" where
  "snapshot_step ref_ym entry = (\<lambda>(earliest, best).
     case snapshot_month entry of
       None \<Rightarrow> (earliest, best)
     | Some file_ym \<Rightarrow>
         ((case earliest of
             None \<Rightarrow> Some (file_ym, fst entry)
           | Some (earliest_ym, _) \<Rightarrow> if file_ym < earliest_ym then Some (file_ym, fst entry) else earliest),
          (if file_ym \<le> ref_ym then
             (case best of
                None \<Rightarrow> Some (file_ym, fst entry)
              | Some (best_ym, _) \<Rightarrow> if file_ym > best_ym then Some (file_ym, fst entry) else best)
           else best)))"

definition SelectSnapshot :: "(string \<times> bool) list option \<Rightarrow> string \<Rightarrow> string \<Rightarrow> bool \<Rightarrow> string" where
  "SelectSnapshot history work_dir trust_list_reference_time strict_current_tl =
     (let current_tl = path_append (path_append work_dir ''trust-list'') ''TL-UA-EC.xml'';
          history_dir = path_append (path_append work_dir ''trust-list'') ''history''
      in if trust_list_reference_time = [] \<or> strict_current_tl then current_tl
         else if length trust_list_reference_time < 7 then current_tl
         else case history of
           None \<Rightarrow> current_tl
         | Some entries \<Rightarrow>
             (case fold (snapshot_step (take 7 trust_list_reference_time)) entries (None, None) of
                (earliest, best) \<Rightarrow>
                  (case best of
                     Some (_, filename) \<Rightarrow> path_append history_dir filename
                   | None \<Rightarrow>
                       (case earliest of
                          Some (_, filename) \<Rightarrow> path_append history_dir filename
                        | None \<Rightarrow> current_tl))))"

section \<open>Evaluate\<close>

record TrustServiceDecision =
  ts_checked :: bool
  ts_service_trusted :: bool
  ts_service_type :: string
  ts_status :: string
  ts_snapshot_evidence_id :: string
  ts_limitations :: "string list"

definition default_trust_service :: TrustServiceDecision where
  "default_trust_service = \<lparr>ts_checked = False, ts_service_trusted = False, ts_service_type = [],
     ts_status = [], ts_snapshot_evidence_id = [], ts_limitations = []\<rparr>"

text \<open>The two nested loops: the first service that lists the certificate.\<close>

definition find_service :: "bytes \<Rightarrow> TrustListServiceRecord list \<Rightarrow> TrustListServiceRecord option" where
  "find_service certificate_der services = find (\<lambda>s. certificate_der \<in> set (sr_certificates s)) services"

definition TrustServiceEvaluator_Evaluate ::
    "(string \<Rightarrow> TrustListParseResult) \<Rightarrow> bytes \<Rightarrow> string \<Rightarrow> string \<Rightarrow> TrustServiceDecision" where
  "TrustServiceEvaluator_Evaluate parse certificate_der trust_list_xml snapshot_evidence_id =
     (let decision = default_trust_service\<lparr>ts_checked := True, ts_snapshot_evidence_id := snapshot_evidence_id\<rparr>
      in if certificate_der = [] then decision\<lparr>ts_limitations := [''empty certificate provided'']\<rparr>
         else let parse_result = parse trust_list_xml
         in if \<not> tl_ok parse_result then
              decision\<lparr>ts_limitations := [''failed to parse trust list: '' @ tl_message parse_result]\<rparr>
            else case find_service certificate_der (tl_services parse_result) of
              Some service \<Rightarrow>
                (let decision = decision\<lparr>ts_service_type := sr_service_type service, ts_status := sr_status service\<rparr>
                 in if str_contains ''/granted'' (sr_status service) then decision\<lparr>ts_service_trusted := True\<rparr>
                    else decision\<lparr>ts_limitations := [''service status is not granted: '' @ sr_status service]\<rparr>)
            | None \<Rightarrow> decision\<lparr>ts_limitations := [''service record not found in trust list'']\<rparr>)"

section \<open>Properties\<close>

text \<open>
  The archived months with their files, and what the loop has computed over a set of them:
  the earliest one, and the latest one that is not after the reference month.
\<close>

definition snapshots :: "(string \<times> bool) list \<Rightarrow> (string \<times> string) set" where
  "snapshots entries = {(m, fst e) | m e. e \<in> set entries \<and> snapshot_month e = Some m}"

definition is_earliest :: "(string \<times> string) set \<Rightarrow> (string \<times> string) option \<Rightarrow> bool" where
  "is_earliest M p = (case p of None \<Rightarrow> M = {} | Some q \<Rightarrow> q \<in> M \<and> (\<forall>r\<in>M. fst q \<le> fst r))"

definition is_latest :: "(string \<times> string) set \<Rightarrow> (string \<times> string) option \<Rightarrow> bool" where
  "is_latest M p = (case p of None \<Rightarrow> M = {} | Some q \<Rightarrow> q \<in> M \<and> (\<forall>r\<in>M. fst r \<le> fst q))"

definition not_after :: "string \<Rightarrow> (string \<times> string) set \<Rightarrow> (string \<times> string) set" where
  "not_after ref_ym M = {r \<in> M. fst r \<le> ref_ym}"

lemma earliest_insert:
  assumes "is_earliest M p"
  shows "is_earliest (insert (m, f) M)
    (case p of None \<Rightarrow> Some (m, f) | Some (q, _) \<Rightarrow> if m < q then Some (m, f) else p)"
  using assms by (cases p) (force simp: is_earliest_def not_less)+

lemma latest_insert:
  assumes "is_latest M p"
  shows "is_latest (insert (m, f) M)
    (case p of None \<Rightarrow> Some (m, f) | Some (q, _) \<Rightarrow> if q < m then Some (m, f) else p)"
  using assms by (cases p) (force simp: is_latest_def not_less)+

lemma not_after_insert:
  "not_after ref_ym (insert (m, f) M) = (if m \<le> ref_ym then insert (m, f) (not_after ref_ym M) else not_after ref_ym M)"
  by (auto simp: not_after_def)

lemma snapshots_Cons:
  "snapshots (e # es) = (case snapshot_month e of None \<Rightarrow> snapshots es | Some m \<Rightarrow> insert (m, fst e) (snapshots es))"
  by (cases e) (auto simp: snapshots_def split: option.splits)

lemma snapshot_fold:
  assumes "is_earliest M (fst s)" "is_latest (not_after ref_ym M) (snd s)"
  shows "is_earliest (M \<union> snapshots es) (fst (fold (snapshot_step ref_ym) es s))
    \<and> is_latest (not_after ref_ym (M \<union> snapshots es)) (snd (fold (snapshot_step ref_ym) es s))"
  using assms
proof (induction es arbitrary: s M)
  case Nil
  then show ?case by (simp add: snapshots_def)
next
  case (Cons e es)
  show ?case
  proof (cases "snapshot_month e")
    case None
    then have "snapshot_step ref_ym e s = s" by (cases s) (simp add: snapshot_step_def)
    then show ?thesis using Cons None by (simp add: snapshots_Cons)
  next
    case (Some m)
    let ?s = "snapshot_step ref_ym e s"
    have "is_earliest (insert (m, fst e) M) (fst ?s)"
      using earliest_insert [OF Cons.prems(1), of m "fst e"] Some
      by (cases s) (auto simp: snapshot_step_def split: option.splits)
    moreover have "is_latest (not_after ref_ym (insert (m, fst e) M)) (snd ?s)"
      using latest_insert [OF Cons.prems(2), of m "fst e"] Cons.prems(2) Some
      by (cases s) (auto simp: snapshot_step_def not_after_insert split: option.splits)
    ultimately show ?thesis using Cons.IH [of "insert (m, fst e) M" ?s] Some by (simp add: snapshots_Cons)
  qed
qed

lemma snapshot_fold_start:
  "is_earliest (snapshots es) (fst (fold (snapshot_step ref_ym) es (None, None)))
   \<and> is_latest (not_after ref_ym (snapshots es)) (snd (fold (snapshot_step ref_ym) es (None, None)))"
  using snapshot_fold [of "{}" "(None, None)" ref_ym es] by (simp add: is_earliest_def is_latest_def not_after_def)

text \<open>
  The trust list snapshot for a moment is the right one: under a policy that admits
  archives, for a reference time of at least a year and a month, the engine reads the archived
  list of the latest month not after the reference month; if every archive is later, the
  earliest archive; and the current list if the archive holds none. With no reference time,
  or under the strict policy, it reads the current list.
\<close>

theorem select_snapshot_correct:
  "(if strict \<or> length ref_time < 7 then
      SelectSnapshot history work_dir ref_time strict = path_append (path_append work_dir ''trust-list'') ''TL-UA-EC.xml''
    else case history of
      None \<Rightarrow> SelectSnapshot history work_dir ref_time strict = path_append (path_append work_dir ''trust-list'') ''TL-UA-EC.xml''
    | Some entries \<Rightarrow>
        (if snapshots entries = {} then
           SelectSnapshot history work_dir ref_time strict = path_append (path_append work_dir ''trust-list'') ''TL-UA-EC.xml''
         else \<exists>ym name. SelectSnapshot history work_dir ref_time strict
              = path_append (path_append (path_append work_dir ''trust-list'') ''history'') name
            \<and> (if not_after (take 7 ref_time) (snapshots entries) = {} then is_earliest (snapshots entries) (Some (ym, name))
               else is_latest (not_after (take 7 ref_time) (snapshots entries)) (Some (ym, name)))))"
proof (cases "strict \<or> length ref_time < 7")
  case True
  then show ?thesis by (auto simp: SelectSnapshot_def Let_def)
next
  case False
  then have ref: "ref_time \<noteq> []" by auto
  show ?thesis
  proof (cases history)
    case None
    then show ?thesis using False ref by (simp add: SelectSnapshot_def Let_def)
  next
    case (Some entries)
    obtain earliest best where f: "fold (snapshot_step (take 7 ref_time)) entries (None, None) = (earliest, best)"
      by (cases "fold (snapshot_step (take 7 ref_time)) entries (None, None)")
    then have inv: "is_earliest (snapshots entries) earliest" "is_latest (not_after (take 7 ref_time) (snapshots entries)) best"
      using snapshot_fold_start [of entries "take 7 ref_time"] by auto
    have empty: "snapshots entries = {} \<longleftrightarrow> earliest = None" "not_after (take 7 ref_time) (snapshots entries) = {} \<longleftrightarrow> best = None"
      using inv by (auto simp: is_earliest_def is_latest_def split: option.splits)
    have run: "SelectSnapshot history work_dir ref_time strict =
        (case best of
           Some (_, name) \<Rightarrow> path_append (path_append (path_append work_dir ''trust-list'') ''history'') name
         | None \<Rightarrow> (case earliest of
             Some (_, name) \<Rightarrow> path_append (path_append (path_append work_dir ''trust-list'') ''history'') name
           | None \<Rightarrow> path_append (path_append work_dir ''trust-list'') ''TL-UA-EC.xml''))"
      using False ref Some f by (simp add: SelectSnapshot_def Let_def)
    show ?thesis
    proof (cases "snapshots entries = {}")
      case True
      then have "earliest = None" "best = None" using empty by (auto simp: not_after_def)
      then show ?thesis using run False Some True by simp
    next
      case nonempty: False
      then obtain p where p: "earliest = Some p" using empty by auto
      have "\<exists>ym name. SelectSnapshot history work_dir ref_time strict
              = path_append (path_append (path_append work_dir ''trust-list'') ''history'') name
            \<and> (if best = None then is_earliest (snapshots entries) (Some (ym, name))
               else is_latest (not_after (take 7 ref_time) (snapshots entries)) (Some (ym, name)))"
        using run p inv by (cases best; cases p) auto
      then show ?thesis using False Some nonempty empty(2) by simp
    qed
  qed
qed

lemma find_service_SomeD:
  "find_service der services = Some s \<Longrightarrow> s \<in> set services \<and> der \<in> set (sr_certificates s)"
  by (auto simp: find_service_def find_Some_iff)

text \<open>
  The verdict is positive exactly when the first service of the parsed list that lists the
  very certificate asked about has a status that contains \<open>/granted\<close>.
\<close>

lemma Evaluate_trusted_iff:
  "ts_service_trusted (TrustServiceEvaluator_Evaluate parse der xml snapshot) \<longleftrightarrow>
     der \<noteq> [] \<and> tl_ok (parse xml) \<and>
     (\<exists>service. find_service der (tl_services (parse xml)) = Some service \<and> str_contains ''/granted'' (sr_status service))"
  by (auto simp: TrustServiceEvaluator_Evaluate_def default_trust_service_def Let_def split: option.splits)

end
