(* ===== verification/Evidence_Store.thy ===== *)
theory Evidence_Store
  imports Sha256 "HOL-Library.List_Lexorder" "HOL-Library.Char_ord" "HOL-Library.Multiset"
begin

text \<open>
  \<open>core/validation/EvidenceStore.{h,cpp}\<close>: the content-addressed store of the evidence a
  validation used. A raw item is named by the SHA-256 digest of its bytes, a derived item by
  the digest of a canonical JSON text of its fields. The member \<open>records_\<close> is a map from
  names to records; the local \<open>std::map\<close> of fields is a list of pairs kept in key order.
  An element is inserted by \<open>emplace\<close>, which keeps an existing entry.
\<close>

section \<open>The program\<close>

record EvidenceRecord =
  ev_id :: string
  ev_type :: string
  ev_source :: string
  ev_bytes :: bytes
  ev_canonical_json :: string

type_synonym EvidenceStore = "string \<rightharpoonup> EvidenceRecord"

definition EvidenceIdForBytes :: "bytes \<Rightarrow> string" where
  "EvidenceIdForBytes bs = ''sha256:'' @ LowerHex (Sha256 bs)"

definition JsonUnicodeEscape :: "char \<Rightarrow> string" where
  "JsonUnicodeEscape ch = [CHR 0x5C] @ ''u00'' @ [kHex ! (code ch div 16), kHex ! (code ch mod 16)]"

definition escape_char :: "char \<Rightarrow> string" where
  "escape_char ch =
     (if ch = CHR 0x22 then [CHR 0x5C, CHR 0x22]
      else if ch = CHR 0x5C then [CHR 0x5C, CHR 0x5C]
      else if ch = CHR 0x08 then [CHR 0x5C, CHR ''b'']
      else if ch = CHR 0x0C then [CHR 0x5C, CHR ''f'']
      else if ch = CHR 0x0A then [CHR 0x5C, CHR ''n'']
      else if ch = CHR 0x0D then [CHR 0x5C, CHR ''r'']
      else if ch = CHR 0x09 then [CHR 0x5C, CHR ''t'']
      else if code ch < 32 then JsonUnicodeEscape ch
      else [ch])"

definition EscapeJsonString :: "string \<Rightarrow> string" where
  "EscapeJsonString value = concat (map escape_char value)"

text \<open>Operations of \<open>std::map\<close> on a list of pairs in key order.\<close>

definition map_contains :: "string \<Rightarrow> (string \<times> string) list \<Rightarrow> bool" where
  "map_contains k m \<longleftrightarrow> k \<in> fst ` set m"

fun map_emplace :: "string \<Rightarrow> string \<Rightarrow> (string \<times> string) list \<Rightarrow> (string \<times> string) list" where
  "map_emplace k v [] = [(k, v)]"
| "map_emplace k v ((k', v') # m) =
     (if k < k' then (k, v) # (k', v') # m
      else if k = k' then (k', v') # m
      else (k', v') # map_emplace k v m)"

definition json_field :: "string \<times> string \<Rightarrow> string" where
  "json_field f = [CHR 0x22] @ EscapeJsonString (fst f) @ [CHR 0x22, CHR '':'', CHR 0x22] @ EscapeJsonString (snd f) @ [CHR 0x22]"

fun json_fields :: "(string \<times> string) list \<Rightarrow> string" where
  "json_fields [] = []"
| "json_fields [f] = json_field f"
| "json_fields (f # g # m) = json_field f @ '','' @ json_fields (g # m)"

definition BuildCanonicalJson :: "(string \<times> string) list \<Rightarrow> string" where
  "BuildCanonicalJson fs = ''{'' @ json_fields fs @ ''}''"

definition PutRawEvidence :: "string \<Rightarrow> bytes \<Rightarrow> string \<Rightarrow> EvidenceStore \<Rightarrow> string \<times> EvidenceStore" where
  "PutRawEvidence type bs source store =
     (let id = EvidenceIdForBytes bs
      in (id, if store id = None
              then store(id \<mapsto> \<lparr>ev_id = id, ev_type = type, ev_source = source, ev_bytes = bs, ev_canonical_json = []\<rparr>)
              else store))"

text \<open>The loop that collects the fields: \<open>None\<close> for the reserved key or a repeated one.\<close>

fun collect_fields :: "(string \<times> string) list \<Rightarrow> (string \<times> string) list \<Rightarrow> (string \<times> string) list option" where
  "collect_fields [] m = Some m"
| "collect_fields (f # fs) m =
     (if fst f = ''type'' \<or> map_contains (fst f) m then None
      else collect_fields fs (map_emplace (fst f) (snd f) m))"

definition derived_record :: "string \<Rightarrow> string \<Rightarrow> (string \<times> string) list \<Rightarrow> string \<Rightarrow> EvidenceRecord" where
  "derived_record eid type canonical_fields canonical_json =
     \<lparr>ev_id = eid, ev_type = type,
      ev_source = (case map_of canonical_fields ''source'' of None \<Rightarrow> [] | Some source \<Rightarrow> source),
      ev_bytes = [], ev_canonical_json = canonical_json\<rparr>"

definition PutDerivedEvidence ::
    "string \<Rightarrow> (string \<times> string) list \<Rightarrow> EvidenceStore \<Rightarrow> string \<times> EvidenceStore" where
  "PutDerivedEvidence type fs store =
     (case collect_fields fs [] of
        None \<Rightarrow> ([], store)
      | Some m \<Rightarrow>
          let canonical_fields = map_emplace ''type'' type m;
              canonical_json = BuildCanonicalJson canonical_fields;
              id = EvidenceIdForBytes (bytes_of_string canonical_json)
          in (id, if store id = None then store(id \<mapsto> derived_record id type canonical_fields canonical_json)
                  else store))"

definition Resolve :: "EvidenceStore \<Rightarrow> string \<Rightarrow> EvidenceRecord option" where
  "Resolve store eid = store eid"

section \<open>The fields are kept sorted\<close>

abbreviation keys :: "(string \<times> string) list \<Rightarrow> string list" where
  "keys m \<equiv> map fst m"

lemma map_emplace_keys: "fst ` set (map_emplace k v m) = insert k (fst ` set m)"
proof (induction m)
  case (Cons f m)
  then show ?case by (cases f) (simp add: insert_commute)
qed simp

lemma map_emplace_sorted: "sorted (keys m) \<Longrightarrow> distinct (keys m) \<Longrightarrow>
    sorted (keys (map_emplace k v m)) \<and> distinct (keys (map_emplace k v m))"
proof (induction m)
  case (Cons f m)
  then have IH: "sorted (keys (map_emplace k v m))" "distinct (keys (map_emplace k v m))" by auto
  have "\<forall>x\<in>insert k (fst ` set m). fst f \<le> x \<and> x \<noteq> fst f" if "fst f < k"
    using Cons.prems that by (auto simp: image_iff)
  then have "\<forall>x\<in>set (keys (map_emplace k v m)). fst f \<le> x \<and> x \<noteq> fst f" if "fst f < k"
    using that unfolding list.set_map map_emplace_keys by blast
  then have "sorted (fst f # keys (map_emplace k v m)) \<and> distinct (fst f # keys (map_emplace k v m))" if "fst f < k"
    using that IH by auto
  moreover have "\<forall>x\<in>set (keys m). k \<le> x \<and> x \<noteq> k" if "k < fst f" using Cons.prems(1) that by fastforce
  ultimately show ?case using Cons.prems by (cases f; cases k "fst f" rule: linorder_cases) auto
qed simp

lemma map_emplace_mset: "k \<notin> set (keys m) \<Longrightarrow> mset (map_emplace k v m) = add_mset (k, v) (mset m)"
  by (induction m) auto

lemma collect_fields_Some:
  assumes "collect_fields fs m = Some m'" "sorted (keys m)" "distinct (keys m)"
  shows "sorted (keys m') \<and> distinct (keys m') \<and> mset m' = mset fs + mset m \<and> ''type'' \<notin> fst ` set fs"
  using assms
proof (induction fs arbitrary: m)
  case (Cons f fs)
  have new: "fst f \<noteq> ''type''" "fst f \<notin> set (keys m)" "collect_fields fs (map_emplace (fst f) (snd f) m) = Some m'"
    using Cons.prems(1) by (auto simp: map_contains_def split: if_splits)
  from Cons.IH [OF new(3)] map_emplace_sorted [OF Cons.prems(2,3)] show ?case
    using new(1,2) by (simp add: map_emplace_mset)
qed simp

lemma collect_fields_iff:
  "collect_fields fs m \<noteq> None \<longleftrightarrow>
     distinct (keys fs) \<and> ''type'' \<notin> set (keys fs) \<and> set (keys fs) \<inter> set (keys m) = {}"
proof (induction fs arbitrary: m)
  case (Cons f fs)
  have "collect_fields (f # fs) m \<noteq> None \<longleftrightarrow>
      fst f \<noteq> ''type'' \<and> fst f \<notin> set (keys m) \<and> collect_fields fs (map_emplace (fst f) (snd f) m) \<noteq> None"
    by (simp add: map_contains_def)
  then show ?case unfolding Cons.IH list.set_map map_emplace_keys by auto
qed simp

text \<open>A sorted list with distinct keys is determined by its elements.\<close>

lemma sorted_fields_unique:
  assumes "sorted (keys m)" "distinct (keys m)" "sorted (keys n)" "distinct (keys n)" "mset m = mset n"
  shows "m = n"
proof -
  have "inj_on fst (set m)" using assms(2) by (simp add: distinct_map)
  moreover have "set m = set n" "distinct m" "distinct n"
    using assms by (auto simp: distinct_map dest: mset_eq_setD)
  ultimately show ?thesis
    using map_sorted_distinct_set_unique [of fst m n] assms by simp
qed

definition canonical :: "(string \<times> string) list \<Rightarrow> (string \<times> string) list \<Rightarrow> bool" where
  "canonical fs m \<longleftrightarrow> sorted (keys m) \<and> distinct (keys m) \<and> mset m = mset fs"

lemma canonical_fields_of:
  assumes "collect_fields fs [] = Some m"
  shows "canonical (fs @ [(''type'', type)]) (map_emplace ''type'' type m)"
proof -
  have m: "sorted (keys m)" "distinct (keys m)" "mset m = mset fs" "''type'' \<notin> fst ` set fs"
    using collect_fields_Some [OF assms] by auto
  then have "''type'' \<notin> set (keys m)" by (metis list.set_map set_mset_mset)
  then show ?thesis using m map_emplace_sorted [OF m(1,2)] by (simp add: canonical_def map_emplace_mset)
qed

section \<open>The canonical text determines the fields\<close>

text \<open>A reference reader of one character and of one string, up to the closing quote.\<close>

definition unescape :: "char \<Rightarrow> char option" where
  "unescape d = map_of [(CHR 0x22, CHR 0x22), (CHR 0x5C, CHR 0x5C), (CHR ''b'', CHR 0x08), (CHR ''f'', CHR 0x0C),
     (CHR ''n'', CHR 0x0A), (CHR ''r'', CHR 0x0D), (CHR ''t'', CHR 0x09)] d"

fun read_char :: "string \<Rightarrow> (char \<times> string) option" where
  "read_char [] = None"
| "read_char (c # s) =
     (if c \<noteq> CHR 0x5C then Some (c, s)
      else case s of
        [] \<Rightarrow> None
      | d # t \<Rightarrow>
          if d \<noteq> CHR ''u'' then map_option (\<lambda>x. (x, t)) (unescape d)
          else (case t of
              _ # _ # h # l # r \<Rightarrow>
                (case (hex_value h, hex_value l) of
                   (Some hi, Some lo) \<Rightarrow> Some (char_of (16 * hi + lo), r) | _ \<Rightarrow> None)
            | _ \<Rightarrow> None))"

lemma read_char_shorter: "read_char s = Some (c, r) \<Longrightarrow> length r < length s"
  by (cases s) (auto split: if_splits list.splits option.splits)

declare read_char.simps [simp del]

function json_read :: "string \<Rightarrow> (string \<times> string) option" where
  "json_read s =
     (case s of
        [] \<Rightarrow> None
      | c # t \<Rightarrow>
          if c = CHR 0x22 then Some ([], t)
          else case read_char s of
            None \<Rightarrow> None
          | Some (x, r) \<Rightarrow> map_option (\<lambda>(v, r'). (x # v, r')) (json_read r))"
  by pat_completeness auto
termination
  by (relation "measure length") (auto dest: read_char_shorter)

declare json_read.simps [simp del]

lemma read_char_escape: "read_char (escape_char c @ r) = Some (c, r)"
proof (cases "c \<in> {CHR 0x22, CHR 0x5C, CHR 0x08, CHR 0x0C, CHR 0x0A, CHR 0x0D, CHR 0x09}")
  case True
  then show ?thesis by (elim insertE) (simp_all add: escape_char_def unescape_def read_char.simps)
next
  case False
  have small: "code c div 16 < 16" "16 * (code c div 16) + code c mod 16 = code c" if "code c < 32"
    using that by auto
  show ?thesis
  proof (cases "code c < 32")
    case True
    then show ?thesis using False small by (simp add: escape_char_def JsonUnicodeEscape_def read_char.simps)
  next
    case big: False
    then show ?thesis using False by (simp add: escape_char_def read_char.simps)
  qed
qed

lemma escape_char_head: "\<exists>d t. escape_char c = d # t \<and> d \<noteq> CHR 0x22"
  by (simp add: escape_char_def JsonUnicodeEscape_def)

lemma json_read_escape: "json_read (EscapeJsonString v @ CHR 0x22 # r) = Some (v, r)"
proof (induction v)
  case Nil
  then show ?case by (simp add: EscapeJsonString_def json_read.simps)
next
  case (Cons c v)
  obtain d t where head: "escape_char c = d # t" "d \<noteq> CHR 0x22" using escape_char_head by blast
  have e: "EscapeJsonString (c # v) @ CHR 0x22 # r = escape_char c @ (EscapeJsonString v @ CHR 0x22 # r)"
    by (simp add: EscapeJsonString_def)
  show ?case
    unfolding e by (subst json_read.simps) (simp add: head read_char_escape [of c, unfolded head(1), simplified] Cons)
qed

definition read_field :: "string \<Rightarrow> ((string \<times> string) \<times> string) option" where
  "read_field s =
     (case json_read (tl s) of
        None \<Rightarrow> None
      | Some (k, t) \<Rightarrow> map_option (\<lambda>(v, r). ((k, v), r)) (json_read (drop 2 t)))"

lemma read_field_json_field: "read_field (json_field f @ r) = Some (f, r)"
  by (simp add: read_field_def json_field_def json_read_escape)

lemma json_fields_inject:
  "json_fields m @ CHR ''}'' # x = json_fields n @ CHR ''}'' # y \<Longrightarrow> m = n"
proof (induction m arbitrary: n rule: json_fields.induct)
  case 1
  then show ?case by (cases n rule: json_fields.cases) (simp_all add: json_field_def)
next
  case (2 f)
  show ?case
  proof (cases n rule: json_fields.cases)
    case 1
    then show ?thesis using 2 by (simp add: json_field_def)
  next
    case (2 g)
    then show ?thesis using arg_cong [OF "2.prems", of read_field] by (simp add: read_field_json_field)
  next
    case (3 g h n')
    then show ?thesis using arg_cong [OF "2.prems", of read_field] by (simp add: read_field_json_field)
  qed
next
  case (3 f g m)
  show ?case
  proof (cases n rule: json_fields.cases)
    case 1
    then show ?thesis using 3 by (simp add: json_field_def)
  next
    case (2 h)
    then show ?thesis using arg_cong [OF "3.prems", of read_field] by (simp add: read_field_json_field)
  next
    case (3 h i n')
    then show ?thesis
      using arg_cong [OF "3.prems", of read_field] "3.IH" [of "i # n'"] by (simp add: read_field_json_field)
  qed
qed

lemma BuildCanonicalJson_inject: "BuildCanonicalJson m = BuildCanonicalJson n \<longleftrightarrow> m = n"
  using json_fields_inject [of m "[]" n "[]"] by (auto simp: BuildCanonicalJson_def)

section \<open>Content addressing\<close>

text \<open>The bytes a record was named by.\<close>

definition record_content :: "EvidenceRecord \<Rightarrow> bytes" where
  "record_content r = (if ev_canonical_json r = [] then ev_bytes r else bytes_of_string (ev_canonical_json r))"

definition store_inv :: "EvidenceStore \<Rightarrow> bool" where
  "store_inv store \<longleftrightarrow>
     (\<forall>x r. Resolve store x = Some r \<longrightarrow> ev_id r = x \<and> x = EvidenceIdForBytes (record_content r))"

text \<open>
  The contract of a content-addressed store: an accepted item is named by the digest of its
  content and can be resolved afterwards; a new record carries that content; nothing else
  changes, and no record is ever replaced; a rejected item changes nothing.
\<close>

locale content_store =
  fixes put :: "'item \<Rightarrow> EvidenceStore \<Rightarrow> string \<times> EvidenceStore"
    and accepts :: "'item \<Rightarrow> bool"
    and content :: "'item \<Rightarrow> bytes"
  assumes put_id: "accepts i \<Longrightarrow> fst (put i store) = EvidenceIdForBytes (content i)"
    and put_rejected: "\<not> accepts i \<Longrightarrow> put i store = ([], store)"
    and put_frame: "x \<noteq> fst (put i store) \<Longrightarrow> Resolve (snd (put i store)) x = Resolve store x"
    and put_keeps: "Resolve store x = Some r \<Longrightarrow> Resolve (snd (put i store)) x = Some r"
    and put_new: "accepts i \<Longrightarrow> Resolve store (fst (put i store)) = None \<Longrightarrow>
      \<exists>r. Resolve (snd (put i store)) (fst (put i store)) = Some r
        \<and> ev_id r = fst (put i store) \<and> record_content r = content i"
begin

definition run :: "'item list \<Rightarrow> EvidenceStore \<Rightarrow> EvidenceStore" where
  "run items store = fold (\<lambda>i st. snd (put i st)) items store"

lemma put_resolves: "accepts i \<Longrightarrow> \<exists>r. Resolve (snd (put i store)) (fst (put i store)) = Some r"
  using put_new [of i store] put_keeps [of store "fst (put i store)"]
  by (cases "Resolve store (fst (put i store))") blast+

lemma put_preserves:
  assumes "store_inv store"
  shows "store_inv (snd (put i store))"
proof (cases "accepts i")
  case True
  show ?thesis
    unfolding store_inv_def
  proof (intro allI impI)
    fix x r
    assume r: "Resolve (snd (put i store)) x = Some r"
    show "ev_id r = x \<and> x = EvidenceIdForBytes (record_content r)"
    proof (cases "Resolve store x")
      case None
      then have "x = fst (put i store)" using put_frame [of x i store] r by fastforce
      then show ?thesis using put_new [OF True, of store] put_id [OF True, of store] None r by auto
    next
      case (Some r')
      then show ?thesis using put_keeps [OF Some, of i] r assms by (simp add: store_inv_def)
    qed
  qed
qed (use assms put_rejected in simp)

lemma run_preserves: "store_inv store \<Longrightarrow> store_inv (run items store)"
  unfolding run_def by (induction items arbitrary: store) (simp_all add: put_preserves)

lemma run_keeps: "Resolve store x = Some r \<Longrightarrow> Resolve (run items store) x = Some r"
  unfolding run_def by (induction items arbitrary: store) (simp_all add: put_keeps)

lemma run_resolves:
  "i \<in> set items \<Longrightarrow> accepts i \<Longrightarrow> \<exists>r. Resolve (run items store) (EvidenceIdForBytes (content i)) = Some r"
proof (induction items arbitrary: store)
  case (Cons j items)
  show ?case
  proof (cases "i = j")
    case True
    then obtain r where "Resolve (snd (put j store)) (EvidenceIdForBytes (content i)) = Some r"
      using put_resolves [of j store] put_id [of j store] Cons.prems(2) by auto
    then show ?thesis using run_keeps [of "snd (put j store)" _ r items] by (auto simp: run_def)
  next
    case False
    then show ?thesis using Cons by (simp add: run_def)
  qed
qed simp

end

text \<open>The calls a validation makes, of both kinds.\<close>

datatype evidence_op = RawEvidence string bytes string | DerivedEvidence string "(string \<times> string) list"

fun put_evidence :: "evidence_op \<Rightarrow> EvidenceStore \<Rightarrow> string \<times> EvidenceStore" where
  "put_evidence (RawEvidence type bs source) store = PutRawEvidence type bs source store"
| "put_evidence (DerivedEvidence type fs) store = PutDerivedEvidence type fs store"

fun op_accepts :: "evidence_op \<Rightarrow> bool" where
  "op_accepts (RawEvidence type bs source) = True"
| "op_accepts (DerivedEvidence type fs) = (collect_fields fs [] \<noteq> None)"

fun op_content :: "evidence_op \<Rightarrow> bytes" where
  "op_content (RawEvidence type bs source) = bs"
| "op_content (DerivedEvidence type fs) =
     bytes_of_string (BuildCanonicalJson (map_emplace ''type'' type (the (collect_fields fs []))))"

interpretation es: content_store put_evidence op_accepts op_content
proof
  fix i store x r
  show "op_accepts i \<Longrightarrow> fst (put_evidence i store) = EvidenceIdForBytes (op_content i)"
    by (cases i) (auto simp: PutRawEvidence_def PutDerivedEvidence_def Let_def)
  show "\<not> op_accepts i \<Longrightarrow> put_evidence i store = ([], store)"
    by (cases i) (auto simp: PutDerivedEvidence_def)
  show "x \<noteq> fst (put_evidence i store) \<Longrightarrow> Resolve (snd (put_evidence i store)) x = Resolve store x"
    by (cases i) (auto simp: PutRawEvidence_def PutDerivedEvidence_def Resolve_def Let_def split: option.splits)
  show "Resolve store x = Some r \<Longrightarrow> Resolve (snd (put_evidence i store)) x = Some r"
    by (cases i) (auto simp: PutRawEvidence_def PutDerivedEvidence_def Resolve_def Let_def split: option.splits)
  show "op_accepts i \<Longrightarrow> Resolve store (fst (put_evidence i store)) = None \<Longrightarrow>
      \<exists>r. Resolve (snd (put_evidence i store)) (fst (put_evidence i store)) = Some r
        \<and> ev_id r = fst (put_evidence i store) \<and> record_content r = op_content i"
    by (cases i) (auto simp: PutRawEvidence_def PutDerivedEvidence_def Resolve_def Let_def record_content_def
        derived_record_def BuildCanonicalJson_def)
qed

text \<open>
  C10. The evidence store is content addressed. After any sequence of insertions of raw and
  derived evidence into an empty store, every stored record carries the name it is stored
  under, and that name is the SHA-256 digest of the record's own content; every accepted
  insertion of the sequence can be resolved by the digest of its content; and a record that is there
  after some of the insertions stays as it is, with its type, source and fields, through all
  later ones.
\<close>

theorem evidence_store_content_addressed:
  "store_inv (fold (\<lambda>i st. snd (put_evidence i st)) ops Map.empty)
   \<and> (\<forall>i\<in>set ops. op_accepts i \<longrightarrow>
        (\<exists>r. Resolve (fold (\<lambda>i st. snd (put_evidence i st)) ops Map.empty) (EvidenceIdForBytes (op_content i)) = Some r
           \<and> EvidenceIdForBytes (record_content r) = EvidenceIdForBytes (op_content i)))
   \<and> (\<forall>n x r. Resolve (fold (\<lambda>i st. snd (put_evidence i st)) (take n ops) Map.empty) x = Some r \<longrightarrow>
        Resolve (fold (\<lambda>i st. snd (put_evidence i st)) ops Map.empty) x = Some r)"
proof -
  have inv: "store_inv (es.run ops Map.empty)" by (rule es.run_preserves) (simp add: store_inv_def Resolve_def)
  then have "\<forall>i\<in>set ops. op_accepts i \<longrightarrow> (\<exists>r. Resolve (es.run ops Map.empty) (EvidenceIdForBytes (op_content i)) = Some r
      \<and> EvidenceIdForBytes (record_content r) = EvidenceIdForBytes (op_content i))"
    using es.run_resolves [of _ ops Map.empty] unfolding store_inv_def by metis
  moreover have "Resolve (es.run ops Map.empty) x = Some r" if "Resolve (es.run (take n ops) Map.empty) x = Some r" for n x r
    using es.run_keeps [OF that, of "drop n ops"] unfolding es.run_def
    by (metis append_take_drop_id comp_apply fold_append)
  ultimately show ?thesis using inv by (auto simp: es.run_def)
qed

theorem evidence_store_content_addressed_witness:
  "\<exists>r. Resolve (snd (put_evidence (RawEvidence ''crl'' [1, 2] ''cache'') Map.empty)) (EvidenceIdForBytes [1, 2]) = Some r
     \<and> EvidenceIdForBytes (record_content r) = EvidenceIdForBytes [1, 2]
     \<and> Resolve (snd (put_evidence (RawEvidence ''crl'' [1, 2] ''network'')
         (snd (put_evidence (RawEvidence ''crl'' [1, 2] ''cache'') Map.empty)))) (EvidenceIdForBytes [1, 2]) = Some r"
proof -
  let ?a = "RawEvidence ''crl'' [1, 2] ''cache''" and ?b = "RawEvidence ''crl'' [1, 2] ''network''"
  obtain r where r: "Resolve (snd (put_evidence ?a Map.empty)) (EvidenceIdForBytes [1, 2]) = Some r"
    "EvidenceIdForBytes (record_content r) = EvidenceIdForBytes [1, 2]"
    using evidence_store_content_addressed [of "[?a]"] by (auto simp del: put_evidence.simps)
  have "Resolve (fold (\<lambda>i st. snd (put_evidence i st)) (take (Suc 0) [?a, ?b]) Map.empty) x = Some r' \<longrightarrow>
      Resolve (fold (\<lambda>i st. snd (put_evidence i st)) [?a, ?b] Map.empty) x = Some r'" for x r'
    using evidence_store_content_addressed [of "[?a, ?b]"] by blast
  then have "Resolve (snd (put_evidence ?b (snd (put_evidence ?a Map.empty)))) (EvidenceIdForBytes [1, 2]) = Some r"
    using r(1) by (simp del: put_evidence.simps)
  with r show ?thesis by blast
qed

lemma collect_fields_perm:
  assumes "mset fs = mset gs"
  shows "collect_fields fs [] = collect_fields gs []"
proof -
  have k: "mset (keys fs) = mset (keys gs)" using assms by (metis mset_map)
  then have ok: "collect_fields fs [] \<noteq> None \<longleftrightarrow> collect_fields gs [] \<noteq> None"
    unfolding collect_fields_iff using mset_eq_imp_distinct_iff [OF k] mset_eq_setD [OF k] by simp
  have unique: "m = n" if "collect_fields fs [] = Some m" "collect_fields gs [] = Some n" for m n
    using collect_fields_Some [OF that(1)] collect_fields_Some [OF that(2)] assms
    by (intro sorted_fields_unique) simp_all
  show ?thesis
  proof (cases "collect_fields fs []")
    case None
    then show ?thesis using ok by simp
  next
    case (Some m)
    then obtain n where "collect_fields gs [] = Some n" using ok by auto
    with Some unique [OF Some this] show ?thesis by simp
  qed
qed

lemma canonical_eq_iff:
  assumes "canonical fs m" "canonical gs n"
  shows "m = n \<longleftrightarrow> mset fs = mset gs"
  using assms sorted_fields_unique [of m n] by (auto simp: canonical_def)

lemma type_field_eq:
  assumes "''type'' \<notin> fst ` set fs" "''type'' \<notin> fst ` set gs"
  shows "mset (fs @ [(''type'', type)]) = mset (gs @ [(''type'', type')]) \<longleftrightarrow> type = type' \<and> mset fs = mset gs"
proof
  assume eq: "mset (fs @ [(''type'', type)]) = mset (gs @ [(''type'', type')])"
  have "(''type'', type) \<in> set (gs @ [(''type'', type')])" using mset_eq_setD [OF eq] by auto
  then have "type = type'" using assms(2) by force
  with eq show "type = type' \<and> mset fs = mset gs" by simp
qed simp

lemma derived_content_eq_iff:
  assumes "collect_fields fs [] = Some m" "collect_fields gs [] = Some n"
  shows "op_content (DerivedEvidence type fs) = op_content (DerivedEvidence type' gs) \<longleftrightarrow> type = type' \<and> mset fs = mset gs"
proof -
  have free: "''type'' \<notin> fst ` set fs" "''type'' \<notin> fst ` set gs"
    using collect_fields_Some [OF assms(1)] collect_fields_Some [OF assms(2)] by auto
  show ?thesis
    using assms canonical_eq_iff [OF canonical_fields_of [OF assms(1), of type] canonical_fields_of [OF assms(2), of type']]
    unfolding type_field_eq [OF free] by (simp add: BuildCanonicalJson_inject)
qed

text \<open>
  The name of derived evidence is canonical: the order in which the fields are given does
  not matter, and two accepted calls hash the same text if and only if they have the same type
  and the same fields, so different evidence gets different names unless SHA-256 collides.
\<close>

theorem derived_evidence_canonical:
  "(mset fs = mset gs \<longrightarrow> PutDerivedEvidence type fs store = PutDerivedEvidence type gs store)
   \<and> (collect_fields fs [] \<noteq> None \<and> collect_fields gs [] \<noteq> None \<longrightarrow>
        (op_content (DerivedEvidence type fs) = op_content (DerivedEvidence type' gs)
         \<longleftrightarrow> type = type' \<and> mset fs = mset gs))"
  using derived_content_eq_iff [of fs _ gs _ type type']
  by (auto simp: PutDerivedEvidence_def dest: collect_fields_perm simp del: op_content.simps)

theorem derived_evidence_canonical_witness:
  "PutDerivedEvidence ''t'' [(''b'', ''1''), (''a'', ''2'')] Map.empty
     = PutDerivedEvidence ''t'' [(''a'', ''2''), (''b'', ''1'')] Map.empty
   \<and> op_content (DerivedEvidence ''t'' [(''b'', ''1'')]) \<noteq> op_content (DerivedEvidence ''t'' [(''b'', ''2'')])"
proof -
  have "PutDerivedEvidence ''t'' [(''b'', ''1''), (''a'', ''2'')] Map.empty
     = PutDerivedEvidence ''t'' [(''a'', ''2''), (''b'', ''1'')] Map.empty"
    using derived_evidence_canonical [of "[(''b'', ''1''), (''a'', ''2'')]" "[(''a'', ''2''), (''b'', ''1'')]" "''t''" Map.empty "''t''"]
    by (simp add: add_mset_commute)
  moreover have "op_content (DerivedEvidence ''t'' [(''b'', ''1'')]) \<noteq> op_content (DerivedEvidence ''t'' [(''b'', ''2'')])"
    using derived_evidence_canonical [of "[(''b'', ''1'')]" "[(''b'', ''2'')]" "''t''" Map.empty "''t''"]
    by (simp add: map_contains_def del: op_content.simps)
  ultimately show ?thesis by blast
qed

end
