(* ===== verification/Validation_Engine.thy ===== *)
theory Validation_Engine
  imports Timestamp_Engine Signing_Time Trust_Service Evidence_Store
begin

text \<open>
  \<open>core/validation/ValidationEngine.{h,cpp}\<close>: the orchestrator. \<open>ValidationEngine_Validate\<close> runs
  the stages in the order of the source (policy, evidence, anchors, timestamp, signing time,
  path, trust list, revocation) and \<open>SynthesizeDecision\<close> turns their results into the decision.
  The file system is a state that directory listings and file reads look at and a download of
  revocation lists replaces.
\<close>

section \<open>Data\<close>

record ValidationReport =
  rep_decision :: ValidationDecision
  rep_path_selection :: PathSelection
  rep_trust_service :: TrustServiceDecision
  rep_signer_revocation :: RevocationEngineResult
  rep_timestamp :: TimestampEngineResult
  rep_timestamp_attempted :: bool
  rep_signing_time_resolution :: SigningTimeResolution
  rep_evidence :: EvidenceStore

text \<open>
  What the engine reads from outside: the entries of a directory (name, whether it is a
  regular file, and its content if it can be read within the size limit) or \<open>None\<close> when there
  is no such directory; the text of a file, if it exists and can be read within the limit; the
  relative path of \<open>std::filesystem::relative\<close>, if it can be computed; the trust list parser.
\<close>

record 'fs storage =
  list_directory :: "'fs \<Rightarrow> string \<Rightarrow> (string \<times> bool \<times> bytes option) list option"
  read_text :: "'fs \<Rightarrow> string \<Rightarrow> string option"
  relative_path :: "string \<Rightarrow> string \<Rightarrow> string option"
  parse_trust_list :: "string \<Rightarrow> TrustListParseResult"

section \<open>Reading certificates and the trust list\<close>

definition path_extension :: "string \<Rightarrow> string" where
  "path_extension filename =
     (case rfind_char (CHR ''.'') filename of
        None \<Rightarrow> [] | Some i \<Rightarrow> if i = 0 then [] else drop i filename)"

definition LoadCertificatesFromDir :: "'fs storage \<Rightarrow> 'fs \<Rightarrow> string \<Rightarrow> bytes list" where
  "LoadCertificatesFromDir F fs dir =
     (case list_directory F fs dir of
        None \<Rightarrow> []
      | Some entries \<Rightarrow>
          List.map_filter (\<lambda>(filename, is_regular_file, content).
            if \<not> is_regular_file then None
            else if path_extension filename \<notin> {''.cer'', ''.crt'', ''.der''} then None
            else case content of None \<Rightarrow> None | Some data \<Rightarrow> if data = [] then None else Some data) entries)"

definition ReadTrustListXml :: "'fs storage \<Rightarrow> 'fs \<Rightarrow> string \<Rightarrow> string" where
  "ReadTrustListXml F fs path = (case read_text F fs path of None \<Rightarrow> [] | Some xml \<Rightarrow> xml)"

definition StableSnapshotId :: "'fs storage \<Rightarrow> string \<Rightarrow> string \<Rightarrow> string" where
  "StableSnapshotId F snapshot_path work_dir =
     (case relative_path F snapshot_path work_dir of
        None \<Rightarrow> ''unknown''
      | Some rel \<Rightarrow>
          if rel = [] then ''unknown''
          else if prefix ''..'' rel then ''unknown''
          else if prefix ''trust-list/history/'' rel then ''history/'' @ drop (length ''trust-list/history/'') rel
          else if prefix ''trust-list/'' rel then ''current''
          else ''unknown'')"

fun RevocationStatusToString :: "RevocationStatus \<Rightarrow> string" where
  "RevocationStatusToString Rev_Good = ''good''"
| "RevocationStatusToString Rev_Revoked = ''revoked''"
| "RevocationStatusToString Rev_Unknown = ''unknown''"
| "RevocationStatusToString Rev_Invalid = ''invalid''"
| "RevocationStatusToString Rev_Stale = ''stale''"
| "RevocationStatusToString Rev_ResponderUnavailable = ''temporarily-unavailable''"
| "RevocationStatusToString Rev_NotChecked = ''not-checked''"

section \<open>SynthesizeDecision\<close>

definition set_decision :: "OverallStatus \<Rightarrow> string \<Rightarrow> string \<Rightarrow> ValidationDecision \<Rightarrow> ValidationDecision" where
  "set_decision status summary because d =
     d\<lparr>dec_overall_status := status, dec_summary := summary, dec_because := dec_because d @ [because]\<rparr>"

definition append_all ::
    "string list \<Rightarrow> string list \<Rightarrow> string list \<Rightarrow> ValidationDecision \<Rightarrow> ValidationDecision" where
  "append_all because warnings limitations d =
     d\<lparr>dec_because := dec_because d @ because, dec_warnings := dec_warnings d @ warnings,
       dec_limitations := dec_limitations d @ limitations\<rparr>"

definition path_trusted :: "PathSelection \<Rightarrow> bool" where
  "path_trusted selection \<longleftrightarrow> sel_index selection \<noteq> None \<and> pr_trusted (sel_result selection)"

definition uses_historical :: "PathSelection \<Rightarrow> bool" where
  "uses_historical selection \<longleftrightarrow> path_trusted selection \<and> pr_uses_historical_trust (sel_result selection)"

definition service_level_ok :: "ValidationPolicy \<Rightarrow> TrustServiceDecision \<Rightarrow> bool" where
  "service_level_ok policy trust_service \<longleftrightarrow> \<not> require_service_level_trust policy \<or> ts_service_trusted trust_service"

definition has_historical_trust_match :: "PathValidationResult list \<Rightarrow> bool" where
  "has_historical_trust_match path_results \<longleftrightarrow>
     list_ex (\<lambda>res. pr_candidate_id res = ''historical-tl'' \<and> pr_trusted res) path_results"

text \<open>\<open>trust_status\<close> and \<open>trust_reason\<close>.\<close>

definition trust_explanation :: "bool \<Rightarrow> PathSelection \<Rightarrow> PathValidationResult list \<Rightarrow> string \<times> string" where
  "trust_explanation trust_valid selection path_results =
     (let result = sel_result selection
      in if trust_valid then
           (''trusted-anchor-validated'',
            if uses_historical selection then ''historical-tl-anchor: '' @ pr_trust_anchor_source result
            else ''current-tl-anchor'')
         else if has_historical_trust_match path_results then
           (''legacy-anchor-not-in-current-tl'', ''legacy-anchor-not-in-current-tl'')
         else if pr_status result = Chain_Incomplete then
           (''certificate-chain-incomplete'', ''legacy-anchor-not-in-current-tl'')
         else if pr_status result = Chain_Expired then (''certificate-chain-time-invalid'', ''expired-chain'')
         else if pr_status result = Chain_InvalidSignature then
           (''certificate-chain-invalid'', ''invalid-chain-signature'')
         else if pr_status result = Chain_Untrusted then
           (if str_contains ''empty'' (pr_message result) then
              (''trust-store-empty'', ''legacy-anchor-not-in-current-tl'')
            else (''untrusted-chain'', ''current-tl-anchor-mismatch''))
         else (''untrusted-chain'', ''no-trusted-path''))"

definition initial_decision :: "bool \<Rightarrow> SigningTimeResolution \<Rightarrow> ValidationDecision" where
  "initial_decision signature_crypto_valid signing_time =
     default_decision\<lparr>dec_signature_valid := signature_crypto_valid,
       dec_trusted_signing_time := (if st_trusted_time signing_time then st_signature_evaluation_time signing_time else []),
       dec_signature_evaluation_time := st_signature_evaluation_time signing_time\<rparr>"

text \<open>The last part of the function, reached when no earlier rule returned.\<close>

definition final_decision ::
    "PathSelection \<Rightarrow> RevocationEngineResult \<Rightarrow> TimestampEngineResult \<Rightarrow> bool \<Rightarrow> SigningTimeResolution
     \<Rightarrow> ValidationContext \<Rightarrow> ValidationDecision \<Rightarrow> ValidationDecision" where
  "final_decision selection signer_revocation timestamp timestamp_attempted signing_time context d =
     (let d = (if st_trusted_time signing_time then
                 d\<lparr>dec_because := dec_because d @ [''uk: The trusted signing time is confirmed by an RFC 3161 timestamp.'']\<rparr>
               else if st_signature_evaluation_time signing_time \<noteq> [] then
                 d\<lparr>dec_warnings := dec_warnings d @ [''uk: The signing time is not confirmed cryptographically - fallback/claimed was used.'']\<rparr>
               else d);
          d = d\<lparr>dec_level_reached :=
                  (if level_code (ctx_level context) \<ge> level_code Level_Extended
                   then (if dec_trust_valid d then Level_Extended else Level_Standard) else Level_Standard),
                dec_qualified_valid := dec_trust_valid d \<and> st_trusted_time signing_time,
                dec_ltv_valid := IsLongTermValidationValid (dec_trust_valid d) (rr_revocation_status signer_revocation)
                  timestamp_attempted (te_valid timestamp)\<rparr>;
          d = (if dec_trust_valid d then
                 (if uses_historical selection then
                    append_all [] [''historical-trust-used''] []
                      (set_decision Overall_Valid ''valid-historical-trust''
                        ''uk: The trust chain was built through an archived trust list (historical-tl).'' d)
                  else set_decision Overall_Valid ''valid'' ''uk: The trust chain was built through the current trust list.'' d)
               else set_decision Overall_Indeterminate ''indeterminate'' ''uk: Trust in the certificate chain could not be established.'' d);
          d = append_all (rr_because signer_revocation) (rr_warnings signer_revocation) (rr_limitations signer_revocation) d;
          d = append_all [] (st_warnings signing_time) (st_limitations signing_time) d
      in if timestamp_attempted then append_all [] (te_warnings timestamp) (te_limitations timestamp) d else d)"

definition SynthesizeDecision ::
    "bool \<Rightarrow> PathSelection \<Rightarrow> PathValidationResult list \<Rightarrow> TrustServiceDecision \<Rightarrow> RevocationEngineResult
     \<Rightarrow> TimestampEngineResult \<Rightarrow> bool \<Rightarrow> SigningTimeResolution \<Rightarrow> ValidationPolicy \<Rightarrow> ValidationContext
     \<Rightarrow> ValidationDecision" where
  "SynthesizeDecision signature_crypto_valid selection path_results trust_service signer_revocation
     timestamp timestamp_attempted signing_time policy context =
     (let d = initial_decision signature_crypto_valid signing_time
      in if ctx_level context = Level_Basic then
           (if \<not> signature_crypto_valid then
              set_decision Overall_Invalid ''invalid'' ''uk: The cryptographic check of the signature failed.'' d
            else set_decision Overall_IntegrityOnly ''integrity-only''
              ''uk: Level Basic: only the integrity of the signature was checked.'' d)
         else if \<not> signature_crypto_valid then
           set_decision Overall_Invalid ''invalid'' ''uk: The cryptographic check of the signature failed.'' d
         else if rr_revocation_status signer_revocation = Rev_Revoked
                 \<and> rr_overall_status signer_revocation = Overall_Invalid then
           append_all (rr_because signer_revocation) [] []
             (set_decision Overall_Invalid ''invalid'' ''uk: The certificate of the signer is revoked.'' d)
         else
           let trust_valid = path_trusted selection \<and> service_level_ok policy trust_service;
               (status, reason) = trust_explanation trust_valid selection path_results;
               d = d\<lparr>dec_trust_valid := trust_valid, dec_trust_status := status, dec_trust_reason := reason\<rparr>
           in if \<not> trust_valid \<and> ctx_profile context = Profile_Strict then
                append_all [] (st_warnings signing_time) (st_limitations signing_time)
                  (append_all [] [] (if pr_message (sel_result selection) = [] then [''no-trusted-path'']
                      else [pr_message (sel_result selection)])
                    (set_decision Overall_Indeterminate ''indeterminate''
                      ''uk: No trust chain to a current root could be built (Strict profile).'' d))
              else if rr_overall_status signer_revocation = Overall_Indeterminate \<and> revocation_hard_fail policy then
                append_all [] (st_warnings signing_time) (st_limitations signing_time)
                  (append_all (rr_because signer_revocation) (rr_warnings signer_revocation) (rr_limitations signer_revocation)
                    (set_decision Overall_Indeterminate ''indeterminate''
                      ''uk: The revocation status of the certificate is not established (hard-fail).'' d))
              else if timestamp_attempted \<and> \<not> te_valid timestamp \<and> require_trusted_signing_time policy then
                append_all (te_because timestamp) (te_warnings timestamp) (te_limitations timestamp)
                  (set_decision Overall_Indeterminate ''indeterminate''
                    ''uk: The RFC 3161 timestamp failed, but a trusted signing time is required.'' d)
              else final_decision selection signer_revocation timestamp timestamp_attempted signing_time context d)"

section \<open>ValidationEngine::Validate\<close>

text \<open>Step 2: the certificates of the signature are registered as evidence.\<close>

definition register_inputs :: "bytes \<Rightarrow> bytes list \<Rightarrow> EvidenceStore" where
  "register_inputs signer embedded =
     fold (\<lambda>cert store. if cert = [] then store else snd (PutRawEvidence ''embedded-certificate'' cert ''cms-embedded'' store))
       embedded
       (if signer = [] then Map.empty else snd (PutRawEvidence ''signer-certificate'' signer ''cms-embedded'' Map.empty))"

text \<open>Step 3: a store below the working directory, empty when there is no such directory.\<close>

definition load_store :: "'fs storage \<Rightarrow> 'fs \<Rightarrow> string \<Rightarrow> string \<Rightarrow> bytes list" where
  "load_store F fs work_dir name = (if work_dir = [] then [] else LoadCertificatesFromDir F fs (path_append work_dir name))"

text \<open>Step 4: the candidates for the signing time known before the timestamp is looked at.\<close>

definition time_candidate :: "SigningTimeSource \<Rightarrow> string \<Rightarrow> SigningTimeCandidate" where
  "time_candidate source time = \<lparr>cand_source = source, cand_time = time, cand_evidence_id = [],
     cand_cryptographically_valid = False, cand_trusted = False, cand_warnings = []\<rparr>"

definition time_candidates :: "ValidationContext \<Rightarrow> SigningTimeCandidate list" where
  "time_candidates context =
     (if ctx_verification_time context \<noteq> []
      then [time_candidate Source_VerificationTimeFallback (ctx_verification_time context)] else [])
     @ (if ctx_claimed_signing_time context \<noteq> []
        then [time_candidate Source_ClaimedSigningTime (ctx_claimed_signing_time context)] else [])"

text \<open>Step 5: the input of the timestamp engine.\<close>

definition engine_ts_input ::
    "'fs storage \<Rightarrow> 'fs \<Rightarrow> ValidationContext \<Rightarrow> bytes list \<Rightarrow> TimestampEngineInput" where
  "engine_ts_input F fs context embedded =
     \<lparr>ti_cms_der = ctx_cms_der context, ti_explicit_timestamp_token_der = [], ti_explicit_timestamp_imprint_source = [],
      ti_validation_time = st_signature_evaluation_time
        (SigningTimeResolver_Resolve (time_candidates context) context (policy_of context)),
      ti_policy = policy_of context, ti_plan = plan_of context,
      ti_current_trust_anchors_der = load_store F fs (ctx_work_dir context) ''trust-store'',
      ti_tsa_trust_anchors_der = load_store F fs (ctx_work_dir context) ''tsa-store'',
      ti_historical_trust_anchors_der = load_store F fs (ctx_work_dir context) ''historical-trust-store'',
      ti_historical_tsa_trust_anchors_der = load_store F fs (ctx_work_dir context) ''historical-tsa-store'',
      ti_custom_trust_anchors_der = [], ti_pinned_trust_anchors_der = [],
      ti_intermediate_store_certificates_der = load_store F fs (ctx_work_dir context) ''intermediate-store'',
      ti_additional_tsa_candidate_certificates_der = embedded,
      ti_embedded_crls_der = ctx_embedded_revocation_crl_der context,
      ti_embedded_ocsp_responses_der = ctx_embedded_revocation_ocsp_der context\<rparr>"

definition run_timestamp ::
    "('cert, 'crl, 'req, 'resp, 'fs) environment \<Rightarrow> 'fs storage \<Rightarrow> ValidationContext \<Rightarrow> bytes list \<Rightarrow> 'fs
     \<Rightarrow> TimestampEngineResult \<times> bool \<times> 'fs" where
  "run_timestamp E F context embedded fs =
     (if ctx_cms_der context = [] then (default_timestamp_result, False, fs)
      else case TimestampEngine_Validate E (engine_ts_input F fs context embedded) fs of
        (timestamp, fs') \<Rightarrow> (timestamp, te_status timestamp \<noteq> Ts_Missing, fs'))"

text \<open>Step 6: the final resolution of the signing time.\<close>

definition timestamp_candidates :: "TimestampEngineResult \<Rightarrow> bool \<Rightarrow> SigningTimeCandidate list" where
  "timestamp_candidates timestamp attempted =
     (if attempted \<and> te_valid timestamp then
        (case NormalizeTimestampTime (te_gen_time timestamp) of
           None \<Rightarrow> []
         | Some time \<Rightarrow>
             [\<lparr>cand_source = Source_Rfc3161Timestamp, cand_time = time,
               cand_evidence_id = (case te_evidence_ids timestamp of [] \<Rightarrow> [] | eid # _ \<Rightarrow> eid),
               cand_cryptographically_valid = True, cand_trusted = True, cand_warnings = []\<rparr>])
      else [])"

definition resolve_signing_time ::
    "ValidationContext \<Rightarrow> TimestampEngineResult \<Rightarrow> bool \<Rightarrow> SigningTimeResolution" where
  "resolve_signing_time context timestamp attempted =
     SigningTimeResolver_Resolve (timestamp_candidates timestamp attempted @ time_candidates context) context (policy_of context)"

text \<open>
  Step 7: the paths. The custom and the pinned anchors of the input keep their default, the
  empty list.
\<close>

definition engine_path_input ::
    "'fs storage \<Rightarrow> 'fs \<Rightarrow> ValidationContext \<Rightarrow> bytes \<Rightarrow> bytes list \<Rightarrow> string \<Rightarrow> PathBuilderInput" where
  "engine_path_input F fs context signer embedded evaluation_time =
     \<lparr>pbi_signer_certificate_der = signer, pbi_embedded_certificates_der = embedded,
      pbi_intermediate_store_certificates_der = load_store F fs (ctx_work_dir context) ''intermediate-store'',
      pbi_aia_certificates_der = [],
      pbi_current_trust_anchors_der = load_store F fs (ctx_work_dir context) ''trust-store'',
      pbi_historical_trust_anchors_der = load_store F fs (ctx_work_dir context) ''historical-trust-store'',
      pbi_custom_trust_anchors_der = [], pbi_pinned_trust_anchors_der = [],
      pbi_policy = policy_of context, pbi_validation_time = evaluation_time\<rparr>"

definition engine_path_results ::
    "('cert, 'crl, 'req, 'resp, 'fs) environment \<Rightarrow> PathBuilderInput \<Rightarrow> PathValidationResult list" where
  "engine_path_results E path_input = map (PathValidator_Validate (chain_of E)) (PathBuilder_Build path_input)"

text \<open>Step 8: the trust list.\<close>

definition run_trust_service ::
    "'fs storage \<Rightarrow> 'fs \<Rightarrow> ValidationContext \<Rightarrow> bytes \<Rightarrow> string \<Rightarrow> TrustServiceDecision" where
  "run_trust_service F fs context signer evaluation_time =
     (let work_dir = ctx_work_dir context;
          strict_current_tl = (trust_anchor_policy (policy_of context) = CurrentTLOnly);
          history = map_option (map (\<lambda>(name, regular, _). (name, regular)))
            (list_directory F fs (path_append (path_append work_dir ''trust-list'') ''history''));
          snapshot_path = SelectSnapshot history work_dir evaluation_time strict_current_tl;
          trust_list_xml = ReadTrustListXml F fs snapshot_path;
          snapshot_id = StableSnapshotId F snapshot_path work_dir
      in if trust_list_xml \<noteq> [] \<and> signer \<noteq> []
         then TrustServiceEvaluator_Evaluate (parse_trust_list F) signer trust_list_xml snapshot_id
         else default_trust_service)"

text \<open>Step 9: the revocation of the signer's certificate.\<close>

definition selected_issuer :: "PathSelection \<Rightarrow> bytes" where
  "selected_issuer selection =
     (if sel_index selection = None then [] else pr_signer_issuer_certificate_der (sel_result selection))"

definition download_crls ::
    "('cert, 'crl, 'req, 'resp, 'fs) environment \<Rightarrow> ValidationContext \<Rightarrow> bytes \<Rightarrow> bytes \<Rightarrow> 'fs \<Rightarrow> 'fs" where
  "download_crls E context signer issuer fs =
     (let plan = plan_of context
      in if network_allowed plan \<and> ctx_work_dir context \<noteq> [] then
           let fs = DownloadAndCacheCrlsForCert E signer (ctx_work_dir context) (timeout_ms plan) fs
           in if issuer \<noteq> [] then DownloadAndCacheCrlsForCert E issuer (ctx_work_dir context) (timeout_ms plan) fs else fs
         else fs)"

definition engine_revocation_input ::
    "('cert, 'crl, 'req, 'resp, 'fs) environment \<Rightarrow> ValidationContext \<Rightarrow> bytes \<Rightarrow> bytes \<Rightarrow> string \<Rightarrow> 'fs \<Rightarrow> RevocationEngineInput" where
  "engine_revocation_input E context signer issuer evaluation_time fs =
     \<lparr>ri_certificate_der = signer, ri_issuer_certificate_der = issuer, ri_role = Role_Signer,
      ri_validation_time = evaluation_time, ri_network_allowed = network_allowed (plan_of context),
      ri_revocation_hard_fail = revocation_hard_fail (policy_of context),
      ri_crls_der = LoadCrlsFromWorkDir E fs (ctx_work_dir context) @ ctx_embedded_revocation_crl_der context,
      ri_embedded_ocsp_response = [], ri_embedded_ocsp_responses_der = ctx_embedded_revocation_ocsp_der context,
      ri_ocsp_url = ctx_ocsp_url context\<rparr>"

definition run_revocation ::
    "('cert, 'crl, 'req, 'resp, 'fs) environment \<Rightarrow> RevocationEngineInput \<Rightarrow> RevocationEngineResult" where
  "run_revocation E rev_input =
     (if ri_certificate_der rev_input \<noteq> [] then revocation_of E rev_input
      else default_revocation_result\<lparr>rr_overall_status := Overall_Indeterminate,
             rr_because := [''uk: There is no signer certificate - the revocation cannot be checked.'']\<rparr>)"

definition note_revocation_evidence :: "RevocationEngineResult \<Rightarrow> EvidenceStore \<Rightarrow> EvidenceStore" where
  "note_revocation_evidence rr store =
     fold (\<lambda>eid store. snd (PutDerivedEvidence ''revocation-evidence'' [(''id'', eid)] store)) (rr_evidence_ids rr) store"

definition ValidationEngine_Validate ::
    "('cert, 'crl, 'req, 'resp, 'fs) environment \<Rightarrow> 'fs storage \<Rightarrow> ValidationContext \<Rightarrow> bytes \<Rightarrow> bytes list \<Rightarrow> 'fs
     \<Rightarrow> ValidationReport \<times> 'fs" where
  "ValidationEngine_Validate E F context signer embedded fs =
     (let policy = policy_of context;
          evidence = register_inputs signer embedded;
          (timestamp, attempted, fs1) = run_timestamp E F context embedded fs;
          signing_time = resolve_signing_time context timestamp attempted;
          evaluation_time = st_signature_evaluation_time signing_time;
          path_results = engine_path_results E (engine_path_input F fs context signer embedded evaluation_time);
          selection = PathSelector_Select path_results policy;
          trust_service = run_trust_service F fs1 context signer evaluation_time;
          issuer = selected_issuer selection;
          fs2 = download_crls E context signer issuer fs1;
          signer_revocation = run_revocation E (engine_revocation_input E context signer issuer evaluation_time fs2);
          evidence = note_revocation_evidence signer_revocation evidence;
          decision = SynthesizeDecision (ctx_signature_crypto_valid context) selection path_results trust_service
            signer_revocation timestamp attempted signing_time policy context;
          decision = (if \<not> ctx_signature_crypto_valid context
            then append_all [''uk: The cryptographic check of the signature is not confirmed by the caller (ValidationContext.signature_crypto_valid=false).''] [] [] decision
            else decision)
      in (\<lparr>rep_decision = decision, rep_path_selection = selection, rep_trust_service = trust_service,
           rep_signer_revocation = signer_revocation, rep_timestamp = timestamp, rep_timestamp_attempted = attempted,
           rep_signing_time_resolution = signing_time, rep_evidence = evidence\<rparr>, fs2))"

section \<open>The rules of the decision\<close>

text \<open>
  The rules of \<open>SynthesizeDecision\<close> in the order it applies them, without the explanations: the
  status as a function of the results of the stages.
\<close>

definition decision_rule ::
    "bool \<Rightarrow> bool \<Rightarrow> RevocationEngineResult \<Rightarrow> bool \<Rightarrow> bool \<Rightarrow> ValidationPolicy \<Rightarrow> ValidationContext \<Rightarrow> OverallStatus" where
  "decision_rule crypto trust revocation attempted ts_valid policy context =
     (if \<not> crypto then Overall_Invalid
      else if ctx_level context = Level_Basic then Overall_IntegrityOnly
      else if rr_revocation_status revocation = Rev_Revoked \<and> rr_overall_status revocation = Overall_Invalid then Overall_Invalid
      else if \<not> trust then Overall_Indeterminate
      else if rr_overall_status revocation = Overall_Indeterminate \<and> revocation_hard_fail policy then Overall_Indeterminate
      else if attempted \<and> \<not> ts_valid \<and> require_trusted_signing_time policy then Overall_Indeterminate
      else Overall_Valid)"

lemma decision_simps [simp]:
  "dec_overall_status (set_decision st smry why d) = st" "dec_overall_status (append_all b w l d) = dec_overall_status d"
  "dec_trust_valid (set_decision st smry why d) = dec_trust_valid d" "dec_trust_valid (append_all b w l d) = dec_trust_valid d"
  "dec_signature_valid (set_decision st smry why d) = dec_signature_valid d" "dec_signature_valid (append_all b w l d) = dec_signature_valid d"
  "dec_qualified_valid (set_decision st smry why d) = dec_qualified_valid d" "dec_qualified_valid (append_all b w l d) = dec_qualified_valid d"
  "dec_ltv_valid (set_decision st smry why d) = dec_ltv_valid d" "dec_ltv_valid (append_all b w l d) = dec_ltv_valid d"
  "dec_summary (set_decision st smry why d) = smry" "dec_summary (append_all b w l d) = dec_summary d"
  by (simp_all add: set_decision_def append_all_def)

lemma final_decision_fields:
  "dec_overall_status (final_decision sel rr ts att st ctx d) = (if dec_trust_valid d then Overall_Valid else Overall_Indeterminate)"
  "dec_trust_valid (final_decision sel rr ts att st ctx d) = dec_trust_valid d"
  "dec_signature_valid (final_decision sel rr ts att st ctx d) = dec_signature_valid d"
  "dec_qualified_valid (final_decision sel rr ts att st ctx d) \<longleftrightarrow> dec_trust_valid d \<and> st_trusted_time st"
  "dec_ltv_valid (final_decision sel rr ts att st ctx d) \<longleftrightarrow>
     IsLongTermValidationValid (dec_trust_valid d) (rr_revocation_status rr) att (te_valid ts)"
  "dec_summary (final_decision sel rr ts att st ctx d)
     = (if dec_trust_valid d then (if uses_historical sel then ''valid-historical-trust'' else ''valid'') else ''indeterminate'')"
  by (simp_all add: final_decision_def Let_def)

lemma SynthesizeDecision_rule:
  "dec_overall_status (SynthesizeDecision crypto sel results service rr ts att st policy ctx)
     = decision_rule crypto (path_trusted sel \<and> service_level_ok policy service) rr att (te_valid ts) policy ctx"
  by (simp add: SynthesizeDecision_def decision_rule_def final_decision_fields Let_def split: prod.split)

section \<open>When a signature is valid\<close>

text \<open>The moment a report judges the signature at, and the path input it used.\<close>

abbreviation report_time :: "ValidationReport \<Rightarrow> string" where
  "report_time r \<equiv> st_signature_evaluation_time (rep_signing_time_resolution r)"

lemma report_fields:
  fixes E :: "('cert, 'crl, 'req, 'resp, 'fs) environment"
  defines "r \<equiv> \<lambda>F context signer embedded fs. fst (ValidationEngine_Validate E F context signer embedded fs)"
  shows "rep_path_selection (r F context signer embedded fs) = PathSelector_Select (engine_path_results E
      (engine_path_input F fs context signer embedded (report_time (r F context signer embedded fs)))) (policy_of context)"
    "\<exists>fs'. rep_trust_service (r F context signer embedded fs)
      = run_trust_service F fs' context signer (report_time (r F context signer embedded fs))"
    "\<exists>fs'. rep_signer_revocation (r F context signer embedded fs) = run_revocation E (engine_revocation_input E context signer
      (selected_issuer (rep_path_selection (r F context signer embedded fs))) (report_time (r F context signer embedded fs)) fs')"
    "(rep_timestamp (r F context signer embedded fs), rep_timestamp_attempted (r F context signer embedded fs))
      = (fst (run_timestamp E F context embedded fs), fst (snd (run_timestamp E F context embedded fs)))"
    "rep_signing_time_resolution (r F context signer embedded fs)
      = resolve_signing_time context (rep_timestamp (r F context signer embedded fs)) (rep_timestamp_attempted (r F context signer embedded fs))"
  by (auto simp: r_def ValidationEngine_Validate_def Let_def split: prod.splits)

lemma report_status:
  fixes E :: "('cert, 'crl, 'req, 'resp, 'fs) environment"
  defines "r \<equiv> \<lambda>F context signer embedded fs. fst (ValidationEngine_Validate E F context signer embedded fs)"
  shows "dec_overall_status (rep_decision (r F context signer embedded fs)) =
    decision_rule (ctx_signature_crypto_valid context)
      (path_trusted (rep_path_selection (r F context signer embedded fs))
       \<and> service_level_ok (policy_of context) (rep_trust_service (r F context signer embedded fs)))
      (rep_signer_revocation (r F context signer embedded fs)) (rep_timestamp_attempted (r F context signer embedded fs))
      (te_valid (rep_timestamp (r F context signer embedded fs))) (policy_of context) context"
  by (simp add: r_def ValidationEngine_Validate_def SynthesizeDecision_rule Let_def split: prod.splits)

lemma run_revocation_statuses:
  "rr_overall_status (run_revocation E i) \<in> {Overall_Valid, Overall_Invalid, Overall_Indeterminate}"
  "rr_overall_status (run_revocation E i) = Overall_Invalid \<Longrightarrow> rr_revocation_status (run_revocation E i) = Rev_Revoked"
  using rs.engine_fields(1,3) [of i "env_pki E" "env_ocsp E" "env_post E" "env_now E" "env_crl E" "env_now E"]
  by (auto simp: run_revocation_def split: if_splits)

text \<open>A signer path the policy accepts: a candidate with a chain that deserves trust.\<close>

definition signer_path_trusted ::
    "('cert, 'crl, 'req, 'resp, 'fs) environment \<Rightarrow> 'fs storage \<Rightarrow> 'fs \<Rightarrow> ValidationContext \<Rightarrow> bytes \<Rightarrow> bytes list \<Rightarrow> string \<Rightarrow> bool" where
  "signer_path_trusted E F fs context signer embedded time \<longleftrightarrow>
     (\<exists>c\<in>set (PathBuilder_Build (engine_path_input F fs context signer embedded time)).
        (pc_uses_historical_trust c \<longrightarrow> allow_historical_trust (policy_of context))
        \<and> (\<exists>first anchor_der. trusted_chain (env_pki E) (chain_input c) first anchor_der))"

lemma path_trusted_Select: "path_trusted (PathSelector_Select results policy) \<longleftrightarrow> pr_trusted (sel_result (PathSelector_Select results policy))"
  by (auto simp: path_trusted_def elim: Select_trusted_first)

lemma report_path_trusted:
  "path_trusted (rep_path_selection (fst (ValidationEngine_Validate E F context signer embedded fs))) \<longleftrightarrow>
     signer_path_trusted E F fs context signer embedded (report_time (fst (ValidationEngine_Validate E F context signer embedded fs)))"
  unfolding report_fields(1) [of E] path_trusted_Select engine_path_results_def cv.selected_path_trusted signer_path_trusted_def
  by (simp add: engine_path_input_def)

lemma decision_rule_valid_iff:
  assumes "rr_overall_status rr \<in> {Overall_Valid, Overall_Invalid, Overall_Indeterminate}"
    "rr_overall_status rr = Overall_Invalid \<Longrightarrow> rr_revocation_status rr = Rev_Revoked"
  shows "decision_rule crypto trust rr att tsv policy ctx = Overall_Valid \<longleftrightarrow>
    crypto \<and> ctx_level ctx \<noteq> Level_Basic \<and> trust
    \<and> (rr_overall_status rr = Overall_Valid \<or> rr_overall_status rr = Overall_Indeterminate \<and> \<not> revocation_hard_fail policy)
    \<and> (require_trusted_signing_time policy \<longrightarrow> att \<longrightarrow> tsv)"
  using assms by (auto simp: decision_rule_def)

text \<open>
  C1. The engine calls a signature valid if and only if the caller confirmed its cryptographic
  check, the level is above Basic, some path the policy admits (from the stores of the working
  directory, at the moment the report names) leads from the signer's certificate to a trust
  anchor, the trust list grants the service where the policy requires it, the revocation
  engine called the signer's certificate valid (or, only under a policy without hard fail,
  could not decide), and no attempted timestamp failed where a trusted time is required.
\<close>

theorem valid_iff_all_checks_pass:
  "dec_overall_status (rep_decision (fst (ValidationEngine_Validate E F context signer embedded fs))) = Overall_Valid \<longleftrightarrow>
     ctx_signature_crypto_valid context \<and> ctx_level context \<noteq> Level_Basic
     \<and> signer_path_trusted E F fs context signer embedded (report_time (fst (ValidationEngine_Validate E F context signer embedded fs)))
     \<and> (require_service_level_trust (policy_of context) \<longrightarrow>
          ts_service_trusted (rep_trust_service (fst (ValidationEngine_Validate E F context signer embedded fs))))
     \<and> (rr_overall_status (rep_signer_revocation (fst (ValidationEngine_Validate E F context signer embedded fs))) = Overall_Valid
        \<or> rr_overall_status (rep_signer_revocation (fst (ValidationEngine_Validate E F context signer embedded fs))) = Overall_Indeterminate
          \<and> \<not> revocation_hard_fail (policy_of context))
     \<and> (require_trusted_signing_time (policy_of context) \<longrightarrow>
          rep_timestamp_attempted (fst (ValidationEngine_Validate E F context signer embedded fs)) \<longrightarrow>
          te_valid (rep_timestamp (fst (ValidationEngine_Validate E F context signer embedded fs))))"
proof -
  let ?r = "fst (ValidationEngine_Validate E F context signer embedded fs)"
  obtain fs' where rv: "rep_signer_revocation ?r = run_revocation E (engine_revocation_input E context signer
      (selected_issuer (rep_path_selection ?r)) (report_time ?r) fs')"
    using report_fields(3) [of E F "context" signer embedded fs] by blast
  show ?thesis
    unfolding report_status [of E] report_path_trusted
    using decision_rule_valid_iff [of "rep_signer_revocation ?r"] run_revocation_statuses [of E] unfolding rv
    by (auto simp: service_level_ok_def)
qed


text \<open>A strict context whose trust store holds the issuer of the signer's certificate.\<close>

definition sample_storage :: "unit storage" where
  "sample_storage =
     \<lparr>list_directory = (\<lambda>fs dir. if dir = ''w/trust-store'' then Some [(''ca.cer'', True, Some [2])]
        else if dir = ''w/tsa-store'' then Some [(''tsa.crt'', True, Some [1])] else None),
      read_text = (\<lambda>fs path. None), relative_path = (\<lambda>path base. None),
      parse_trust_list = (\<lambda>xml. not_parsed [])\<rparr>"

definition sample_strict :: ValidationContext where
  "sample_strict = sample_context\<lparr>ctx_profile := Profile_Strict, ctx_level := Level_Standard, ctx_offline := True,
     ctx_work_dir := ''w'', ctx_claimed_signing_time := ''2025-06-01T12:00:00Z'', ctx_embedded_revocation_crl_der := [[9]]\<rparr>"

lemma sample_run_revocation:
  assumes "ri_certificate_der i = [1]" "ri_issuer_certificate_der i = [2]" "ri_crls_der i = [[9]]"
    "ri_validation_time i = ''2025-06-01T12:00:00Z''" "ri_embedded_ocsp_response i = []"
    "ri_embedded_ocsp_responses_der i = []" "ri_ocsp_url i = []"
  shows "rr_overall_status (run_revocation sample_env i) = Overall_Valid"
  using sample_revocation_valid [OF assms] assms(1) by (simp add: run_revocation_def)

lemma sample_report:
  defines "r \<equiv> fst (ValidationEngine_Validate sample_env sample_storage sample_strict [1] [] ())"
  shows "report_time r = ''2025-06-01T12:00:00Z''" "\<not> rep_timestamp_attempted r"
    "path_trusted (rep_path_selection r)" "selected_issuer (rep_path_selection r) = [2]"
    "rr_overall_status (rep_signer_revocation r) = Overall_Valid"
proof -
  note f = report_fields [of sample_env sample_storage sample_strict "[1]" "[]" "()", folded r_def]
  have ts: "rep_timestamp r = default_timestamp_result" "\<not> rep_timestamp_attempted r"
    using f(4) by (simp_all add: run_timestamp_def sample_strict_def sample_context_def)
  then show "\<not> rep_timestamp_attempted r" by simp
  have "report_time r = st_signature_evaluation_time (resolve_signing_time sample_strict default_timestamp_result False)"
    using f(5) ts by simp
  also have "\<dots> = ''2025-06-01T12:00:00Z''" by code_simp
  finally show time: "report_time r = ''2025-06-01T12:00:00Z''" .
  show "path_trusted (rep_path_selection r)" unfolding f(1) time by code_simp
  show issuer: "selected_issuer (rep_path_selection r) = [2]" unfolding f(1) time by code_simp
  obtain fs' where rev: "rep_signer_revocation r
      = run_revocation sample_env (engine_revocation_input sample_env sample_strict [1] [2] ''2025-06-01T12:00:00Z'' fs')"
    using f(3) unfolding issuer time by blast
  show "rr_overall_status (rep_signer_revocation r) = Overall_Valid"
    unfolding rev by (rule sample_run_revocation)
      (simp_all add: engine_revocation_input_def sample_env_def sample_strict_def sample_context_def)
qed

theorem valid_iff_all_checks_pass_witness:
  "dec_overall_status (rep_decision (fst (ValidationEngine_Validate sample_env sample_storage sample_strict [1] [] ())))
     = Overall_Valid"
proof -
  have "signer_path_trusted sample_env sample_storage () sample_strict [1] []
      (report_time (fst (ValidationEngine_Validate sample_env sample_storage sample_strict [1] [] ())))"
    using sample_report(3) report_path_trusted [of sample_env] by blast
  moreover have "ctx_signature_crypto_valid sample_strict" "ctx_level sample_strict \<noteq> Level_Basic"
    "\<not> require_service_level_trust (policy_of sample_strict)" "\<not> require_trusted_signing_time (policy_of sample_strict)"
    by code_simp+
  ultimately show ?thesis
    using valid_iff_all_checks_pass [of sample_env sample_storage sample_strict "[1]" "[]" "()"] sample_report(5) by blast
qed

section \<open>What the flags of the decision mean\<close>

lemma Synthesize_flags:
  defines "d \<equiv> \<lambda>crypto sel results service rr ts att st policy ctx. SynthesizeDecision crypto sel results service rr ts att st policy ctx"
  shows "dec_trust_valid (d crypto sel results service rr ts att st policy ctx) \<Longrightarrow>
      crypto \<and> ctx_level ctx \<noteq> Level_Basic \<and> path_trusted sel \<and> service_level_ok policy service
      \<and> \<not> (rr_revocation_status rr = Rev_Revoked \<and> rr_overall_status rr = Overall_Invalid)"
    and "dec_qualified_valid (d crypto sel results service rr ts att st policy ctx) \<Longrightarrow>
      dec_overall_status (d crypto sel results service rr ts att st policy ctx) = Overall_Valid
      \<and> dec_trust_valid (d crypto sel results service rr ts att st policy ctx) \<and> st_trusted_time st"
    and "dec_ltv_valid (d crypto sel results service rr ts att st policy ctx) \<Longrightarrow>
      dec_overall_status (d crypto sel results service rr ts att st policy ctx) = Overall_Valid
      \<and> dec_trust_valid (d crypto sel results service rr ts att st policy ctx)
      \<and> rr_revocation_status rr = Rev_Good \<and> att \<and> te_valid ts"
  by (auto simp: d_def SynthesizeDecision_def Let_def initial_decision_def default_decision_def final_decision_fields
      IsLongTermValidationValid_def split: prod.splits if_splits)

lemma report_decision:
  fixes E :: "('cert, 'crl, 'req, 'resp, 'fs) environment"
  defines "r \<equiv> \<lambda>F context signer embedded fs. fst (ValidationEngine_Validate E F context signer embedded fs)"
  shows "\<exists>results. rep_decision (r F context signer embedded fs) =
    (if ctx_signature_crypto_valid context then (\<lambda>d. d)
     else append_all [''uk: The cryptographic check of the signature is not confirmed by the caller (ValidationContext.signature_crypto_valid=false).''] [] [])
      (SynthesizeDecision (ctx_signature_crypto_valid context) (rep_path_selection (r F context signer embedded fs)) results
        (rep_trust_service (r F context signer embedded fs)) (rep_signer_revocation (r F context signer embedded fs))
        (rep_timestamp (r F context signer embedded fs)) (rep_timestamp_attempted (r F context signer embedded fs))
        (rep_signing_time_resolution (r F context signer embedded fs)) (policy_of context) context)"
  by (auto simp: r_def ValidationEngine_Validate_def Let_def split: prod.splits)

lemma trusted_time_from_timestamp:
  assumes "st_trusted_time (resolve_signing_time context timestamp attempted)"
  shows "attempted \<and> te_valid timestamp \<and> NormalizeTimestampTime (te_gen_time timestamp)
    = Some (st_signature_evaluation_time (resolve_signing_time context timestamp attempted))"
proof -
  obtain c where c: "c \<in> set (timestamp_candidates timestamp attempted @ time_candidates context)" "is_trusted_timestamp c"
    and time: "st_signature_evaluation_time (resolve_signing_time context timestamp attempted) = cand_time c"
    using Resolve_trusted_time_value assms unfolding resolve_signing_time_def by blast
  have "c \<notin> set (time_candidates context)"
    using c(2) by (auto simp: time_candidates_def time_candidate_def is_trusted_timestamp_def)
  with c(1) have "c \<in> set (timestamp_candidates timestamp attempted)" by simp
  then have "attempted \<and> te_valid timestamp \<and> NormalizeTimestampTime (te_gen_time timestamp) = Some (cand_time c)"
    by (cases "NormalizeTimestampTime (te_gen_time timestamp)"; cases "attempted \<and> te_valid timestamp")
      (simp_all add: timestamp_candidates_def)
  then show ?thesis unfolding time .
qed

text \<open>
  C5. What the flags of a decision stand on. Trust is reported only with a confirmed
  cryptographic check, a path to an anchor the policy admits at the reported time, and no
  revocation that applies. Qualified validity is reported only for a valid signature whose
  time is the time of a timestamp the timestamp engine accepted, and long-term validity only
  for a valid signature with a good revocation status and an accepted timestamp.
\<close>

theorem decision_flags_sound:
  fixes E :: "('cert, 'crl, 'req, 'resp, 'fs) environment"
  defines "r \<equiv> \<lambda>F context signer embedded fs. fst (ValidationEngine_Validate E F context signer embedded fs)"
  shows "(dec_trust_valid (rep_decision (r F context signer embedded fs)) \<longrightarrow>
      ctx_signature_crypto_valid context
      \<and> signer_path_trusted E F fs context signer embedded (report_time (r F context signer embedded fs))
      \<and> rr_overall_status (rep_signer_revocation (r F context signer embedded fs)) \<noteq> Overall_Invalid)
   \<and> (dec_qualified_valid (rep_decision (r F context signer embedded fs)) \<longrightarrow>
      dec_overall_status (rep_decision (r F context signer embedded fs)) = Overall_Valid
      \<and> rep_timestamp_attempted (r F context signer embedded fs) \<and> te_valid (rep_timestamp (r F context signer embedded fs))
      \<and> NormalizeTimestampTime (te_gen_time (rep_timestamp (r F context signer embedded fs)))
        = Some (report_time (r F context signer embedded fs)))
   \<and> (dec_ltv_valid (rep_decision (r F context signer embedded fs)) \<longrightarrow>
      dec_overall_status (rep_decision (r F context signer embedded fs)) = Overall_Valid
      \<and> rr_revocation_status (rep_signer_revocation (r F context signer embedded fs)) = Rev_Good
      \<and> te_valid (rep_timestamp (r F context signer embedded fs)))"
proof -
  let ?r = "r F context signer embedded fs"
  obtain results where d: "rep_decision ?r = (if ctx_signature_crypto_valid context then (\<lambda>d. d)
     else append_all [''uk: The cryptographic check of the signature is not confirmed by the caller (ValidationContext.signature_crypto_valid=false).''] [] [])
      (SynthesizeDecision (ctx_signature_crypto_valid context) (rep_path_selection ?r) results (rep_trust_service ?r)
        (rep_signer_revocation ?r) (rep_timestamp ?r) (rep_timestamp_attempted ?r) (rep_signing_time_resolution ?r)
        (policy_of context) context)"
    using report_decision [of E F "context" signer embedded fs] unfolding r_def by blast
  let ?s = "SynthesizeDecision (ctx_signature_crypto_valid context) (rep_path_selection ?r) results (rep_trust_service ?r)
        (rep_signer_revocation ?r) (rep_timestamp ?r) (rep_timestamp_attempted ?r) (rep_signing_time_resolution ?r)
        (policy_of context) context"
  have flags: "dec_trust_valid (rep_decision ?r) = dec_trust_valid ?s" "dec_qualified_valid (rep_decision ?r) = dec_qualified_valid ?s"
    "dec_ltv_valid (rep_decision ?r) = dec_ltv_valid ?s" "dec_overall_status (rep_decision ?r) = dec_overall_status ?s"
    unfolding d by simp_all
  obtain i where "rep_signer_revocation ?r = run_revocation E i"
    using report_fields(3) [of E F "context" signer embedded fs] unfolding r_def by blast
  note rv = run_revocation_statuses(2) [of E i, folded this]
  have st: "rep_signing_time_resolution ?r = resolve_signing_time context (rep_timestamp ?r) (rep_timestamp_attempted ?r)"
    using report_fields(5) [of E F "context" signer embedded fs] unfolding r_def .
  show ?thesis
    unfolding flags
    using Synthesize_flags [of "ctx_signature_crypto_valid context" "rep_path_selection ?r" results "rep_trust_service ?r"
        "rep_signer_revocation ?r" "rep_timestamp ?r" "rep_timestamp_attempted ?r" "rep_signing_time_resolution ?r"
        "policy_of context" "context"] rv report_path_trusted [of E F "context" signer embedded fs, folded r_def]
      trusted_time_from_timestamp [of "context" "rep_timestamp ?r" "rep_timestamp_attempted ?r", folded st]
    unfolding r_def by blast
qed

text \<open>The same context with a signature that carries a timestamp.\<close>

definition sample_ltv :: ValidationContext where
  "sample_ltv = sample_strict\<lparr>ctx_cms_der := [7]\<rparr>"

lemma sample_ltv_timestamp:
  defines "r \<equiv> fst (ValidationEngine_Validate sample_env sample_storage sample_ltv [1] [] ())"
  shows "te_valid (rep_timestamp r)" "rep_timestamp_attempted r" "te_gen_time (rep_timestamp r) = ''20250601120000Z''"
proof -
  note f = report_fields [of sample_env sample_storage sample_ltv "[1]" "[]" "()", folded r_def]
  have input: "engine_ts_input sample_storage () sample_ltv [] = sample_ts_input" by code_simp
  have cms: "ctx_cms_der sample_ltv \<noteq> []" by code_simp
  have "run_timestamp sample_env sample_storage sample_ltv [] ()
      = (fst (TimestampEngine_Validate sample_env sample_ts_input ()),
         te_status (fst (TimestampEngine_Validate sample_env sample_ts_input ())) \<noteq> Ts_Missing, ())"
    using cms unfolding run_timestamp_def input by (simp add: case_prod_beta)
  moreover have "te_status (fst (TimestampEngine_Validate sample_env sample_ts_input ())) = Ts_Valid"
    by (rule valid_status) (rule sample_timestamp_valid(1))
  ultimately show "te_valid (rep_timestamp r)" "rep_timestamp_attempted r" "te_gen_time (rep_timestamp r) = ''20250601120000Z''"
    using f(4) sample_timestamp_valid by simp_all
qed

lemma sample_ltv_report:
  defines "r \<equiv> fst (ValidationEngine_Validate sample_env sample_storage sample_ltv [1] [] ())"
  shows "dec_trust_valid (rep_decision r)" "dec_qualified_valid (rep_decision r)"
proof -
  note f = report_fields [of sample_env sample_storage sample_ltv "[1]" "[]" "()", folded r_def]
    and ts = sample_ltv_timestamp [folded r_def]
  have cands: "timestamp_candidates (rep_timestamp r) (rep_timestamp_attempted r) =
      [\<lparr>cand_source = Source_Rfc3161Timestamp, cand_time = ''2025-06-01T12:00:00Z'',
        cand_evidence_id = (case te_evidence_ids (rep_timestamp r) of [] \<Rightarrow> [] | eid # _ \<Rightarrow> eid),
        cand_cryptographically_valid = True, cand_trusted = True, cand_warnings = []\<rparr>]"
    using ts by (simp add: timestamp_candidates_def sample_gen_time)
  have time: "report_time r = ''2025-06-01T12:00:00Z''" "st_trusted_time (rep_signing_time_resolution r)"
    unfolding f(5) resolve_signing_time_def cands by (simp_all add: SigningTimeResolver_Resolve_def is_trusted_timestamp_def)
  have path: "path_trusted (rep_path_selection r)" "selected_issuer (rep_path_selection r) = [2]"
    unfolding f(1) time by code_simp+
  obtain fs' where rev: "rep_signer_revocation r
      = run_revocation sample_env (engine_revocation_input sample_env sample_ltv [1] [2] ''2025-06-01T12:00:00Z'' fs')"
    using f(3) unfolding path time by blast
  have ok: "rr_overall_status (rep_signer_revocation r) = Overall_Valid"
    unfolding rev by (rule sample_run_revocation) (simp_all add: engine_revocation_input_def sample_env_def sample_ltv_def sample_strict_def sample_context_def)
  have pol: "\<not> require_service_level_trust (policy_of sample_ltv)" "ctx_signature_crypto_valid sample_ltv"
    "ctx_level sample_ltv \<noteq> Level_Basic" by code_simp+
  obtain results where d: "rep_decision r = SynthesizeDecision True (rep_path_selection r) results (rep_trust_service r)
        (rep_signer_revocation r) (rep_timestamp r) (rep_timestamp_attempted r) (rep_signing_time_resolution r)
        (policy_of sample_ltv) sample_ltv"
    using report_decision [of sample_env sample_storage sample_ltv "[1]" "[]" "()", folded r_def] pol(2) by auto
  show "dec_trust_valid (rep_decision r)" "dec_qualified_valid (rep_decision r)"
    unfolding d using path(1) ok pol time(2) ts(1)
    by (simp_all add: SynthesizeDecision_def Let_def service_level_ok_def final_decision_fields split: prod.splits)
qed

theorem decision_flags_sound_witness:
  "NormalizeTimestampTime (te_gen_time (rep_timestamp (fst (ValidationEngine_Validate sample_env sample_storage sample_ltv [1] [] ()))))
     = Some (report_time (fst (ValidationEngine_Validate sample_env sample_storage sample_ltv [1] [] ())))
   \<and> signer_path_trusted sample_env sample_storage () sample_ltv [1] []
       (report_time (fst (ValidationEngine_Validate sample_env sample_storage sample_ltv [1] [] ())))"
  using decision_flags_sound [of sample_env sample_storage sample_ltv "[1]" "[]" "()"] sample_ltv_report by blast

section \<open>Offline validation\<close>

lemma revocation_of_ignores_network:
  assumes "\<not> ri_network_allowed i"
  shows "revocation_of (E\<lparr>env_post := post, DownloadAndCacheCrlsForCert := download\<rparr>) i = revocation_of E i"
  using RevocationEngine_ignores_network [OF assms] by simp

lemma TimestampEngine_ignores_network:
  assumes "\<not> network_allowed (ti_plan input)"
  shows "TimestampEngine_Validate (E\<lparr>env_post := post, DownloadAndCacheCrlsForCert := download\<rparr>) input fs
    = TimestampEngine_Validate E input fs"
    "snd (TimestampEngine_Validate E input fs) = fs"
proof -
  let ?E = "E\<lparr>env_post := post, DownloadAndCacheCrlsForCert := download\<rparr>"
  have "ts_revocation_input ?E input r fs = ts_revocation_input E input r fs"
    "\<not> ri_network_allowed (ts_revocation_input E input r fs)" for r
    by (simp_all add: ts_revocation_input_def)
  note rev = this(1) revocation_of_ignores_network [OF this(2), where E = E and post = post and download = download]
  have revocation: "ts_revocation ?E input r fs = ts_revocation E input r fs" "snd (ts_revocation E input r fs) = fs" for r
    using assms unfolding ts_revocation_def Let_def rev by simp_all
  have token: "ts_token ?E input = ts_token E input"
    by (cases "GetSignatureValue E (ti_cms_der input)") (simp_all add: ts_token_def Let_def)
  have stages: "ts_trust_stage ?E input = ts_trust_stage E input"
    "ts_issuer_stage ?E input = ts_issuer_stage E input" "env_pki ?E = env_pki E"
    by (simp_all add: ts_trust_stage_def ts_issuer_stage_def fun_eq_iff)
  show "TimestampEngine_Validate ?E input fs = TimestampEngine_Validate E input fs"
    unfolding TimestampEngine_Validate_def revocation(1) token stages ..
  show "snd (TimestampEngine_Validate E input fs) = fs"
    unfolding TimestampEngine_Validate_def case_prod_beta using revocation(2) by (simp split: sum.split)
qed

lemma download_crls_offline: "\<not> network_allowed (plan_of context) \<Longrightarrow> download_crls E context signer issuer fs = fs"
  by (simp add: download_crls_def Let_def)

lemma validation_offline:
  assumes "\<not> network_allowed (plan_of context)"
  shows "ValidationEngine_Validate (E\<lparr>env_post := post, DownloadAndCacheCrlsForCert := download\<rparr>) F context signer embedded fs
      = ValidationEngine_Validate E F context signer embedded fs
    \<and> snd (ValidationEngine_Validate E F context signer embedded fs) = fs"
proof -
  let ?E = "E\<lparr>env_post := post, DownloadAndCacheCrlsForCert := download\<rparr>"
  have "\<not> network_allowed (ti_plan (engine_ts_input F fs context embedded))"
    using assms by (simp add: engine_ts_input_def)
  note ts' = TimestampEngine_ignores_network [OF this]
  have ts: "run_timestamp ?E F context embedded fs = run_timestamp E F context embedded fs"
      "snd (snd (run_timestamp E F context embedded fs)) = fs"
    unfolding run_timestamp_def ts' by (simp_all add: case_prod_beta ts')
  have input: "engine_revocation_input ?E context signer issuer time fs = engine_revocation_input E context signer issuer time fs"
    "\<not> ri_network_allowed (engine_revocation_input E context signer issuer time fs)" for issuer time
    using assms by (simp_all add: engine_revocation_input_def)
  have rev: "run_revocation ?E (engine_revocation_input ?E context signer issuer time fs)
      = run_revocation E (engine_revocation_input E context signer issuer time fs)" for issuer time
    unfolding input run_revocation_def revocation_of_ignores_network [OF input(2), where E = E and post = post and download = download] ..
  obtain timestamp attempted where run: "run_timestamp E F context embedded fs = (timestamp, attempted, fs)"
    using ts(2) by (metis prod.collapse)
  show ?thesis
    by (simp add: ValidationEngine_Validate_def ts(1) run download_crls_offline [OF assms] rev engine_path_results_def Let_def)
qed

text \<open>
  C6. Where the plan does not allow the network (the caller is offline, the profile is the
  offline one, or a profile or level is unknown), a validation does not depend on what the
  HTTP client or a download of revocation lists would do, and leaves the working directory
  as it is.
\<close>

theorem offline_validation_isolated:
  assumes "\<not> network_allowed (plan_of context)"
  shows "ValidationEngine_Validate (E\<lparr>env_post := post, DownloadAndCacheCrlsForCert := download\<rparr>) F context signer embedded fs
      = ValidationEngine_Validate E F context signer embedded fs
    \<and> snd (ValidationEngine_Validate E F context signer embedded fs) = fs"
  using assms by (rule validation_offline)

theorem offline_validation_isolated_witness:
  "ValidationEngine_Validate (sample_env\<lparr>env_post := (\<lambda>url body ct acc timeout.
       default_post_result\<lparr>http_succeeded := True, http_status_code := 200, http_body := [1]\<rparr>)\<rparr>) sample_storage sample_strict [1] [] ()
   = ValidationEngine_Validate sample_env sample_storage sample_strict [1] [] ()"
proof -
  have "\<not> network_allowed (plan_of sample_strict)" by code_simp
  from offline_validation_isolated [OF this, where E = sample_env and download = "DownloadAndCacheCrlsForCert sample_env"] show ?thesis by simp
qed

section \<open>Two limits of the decision\<close>

lemma no_anchor_no_trust: "ci_trust_anchors_der input = [] \<Longrightarrow> \<not> trusted_chain P input first anchor_der"
  by (auto simp: trusted_chain_def chain_anchors_def DecodeSourceCandidates_def decode_source_group_def anchored_path_def List.map_filter_def)

text \<open>
  C12. The offline profile never reports a valid signature above level Basic: its policy looks
  for anchors only in the custom trust store, and the engine hands the path builder an empty
  one, so no working directory can make a path trusted.
\<close>

theorem offline_profile_never_trusted:
  assumes "ctx_profile context = Profile_Offline" "IsKnownLevel (ctx_level context)"
  shows "\<not> dec_trust_valid (rep_decision (fst (ValidationEngine_Validate E F context signer embedded fs)))
    \<and> dec_overall_status (rep_decision (fst (ValidationEngine_Validate E F context signer embedded fs))) \<noteq> Overall_Valid"
proof -
  let ?r = "fst (ValidationEngine_Validate E F context signer embedded fs)"
  have "trust_anchor_policy (policy_of context) = CustomTrustStore"
    using assms unfolding custom_store_iff_offline_profile by simp
  then have "pc_trust_anchors_der c = []" if "c \<in> set (PathBuilder_Build (engine_path_input F fs context signer embedded time))" for c time
    using that by (simp add: PathBuilder_Build_def engine_path_input_def MakeCandidate_def)
  then have "\<not> signer_path_trusted E F fs context signer embedded time" for time
    using no_anchor_no_trust by (fastforce simp: signer_path_trusted_def chain_input_def)
  then have path: "\<not> path_trusted (rep_path_selection ?r)" unfolding report_path_trusted .
  obtain results where "rep_decision ?r = (if ctx_signature_crypto_valid context then (\<lambda>d. d)
     else append_all [''uk: The cryptographic check of the signature is not confirmed by the caller (ValidationContext.signature_crypto_valid=false).''] [] [])
      (SynthesizeDecision (ctx_signature_crypto_valid context) (rep_path_selection ?r) results (rep_trust_service ?r)
        (rep_signer_revocation ?r) (rep_timestamp ?r) (rep_timestamp_attempted ?r) (rep_signing_time_resolution ?r)
        (policy_of context) context)"
    using report_decision [of E F "context" signer embedded fs] by blast
  then have "\<not> dec_trust_valid (rep_decision ?r)" using path Synthesize_flags(1) by (auto split: if_splits)
  then show ?thesis unfolding report_status [of E] using path by (simp add: decision_rule_def)
qed

theorem offline_profile_never_trusted_witness:
  "dec_overall_status (rep_decision (fst (ValidationEngine_Validate sample_env sample_storage
     (sample_strict\<lparr>ctx_profile := Profile_Offline\<rparr>) [1] [] ()))) \<noteq> Overall_Valid"
proof -
  have "ctx_profile (sample_strict\<lparr>ctx_profile := Profile_Offline\<rparr>) = Profile_Offline"
    "IsKnownLevel (ctx_level (sample_strict\<lparr>ctx_profile := Profile_Offline\<rparr>))" by code_simp+
  from offline_profile_never_trusted [OF this, where E = sample_env and F = sample_storage] show ?thesis by blast
qed

text \<open>
  The demand for a trusted signing time bites only on a timestamp that is present and fails: a
  signature without a timestamp gets the decision it would get without the demand.
\<close>

lemma missing_timestamp_not_enforced:
  "dec_overall_status (SynthesizeDecision crypto sel results service rr ts False st policy ctx)
     = dec_overall_status (SynthesizeDecision crypto sel results service rr ts False st
         (policy\<lparr>require_trusted_signing_time := demand\<rparr>) ctx)"
  unfolding SynthesizeDecision_rule by (simp add: decision_rule_def service_level_ok_def)

end
