(* ===== verification/Verify_Report.thy ===== *)
theory Verify_Report
  imports Validation_Engine
begin

text \<open>
  The public report of a verification: \<open>VerifyReport\<close> and its parts from \<open>core/Session.h\<close>, the
  rules that collapse it into one verdict (\<open>core/session/VerifySummary.cpp\<close>), the functions that
  write it (\<open>core/session/VerifyReportCommit.cpp\<close>, \<open>core/policy/PolicyDecision.cpp\<close>), the verdict of
  each block (\<open>core/policy/VerifyChecks.cpp\<close>) and the projection of the engine's report
  (\<open>core/validation/ValidationReportProjection.cpp\<close>, \<open>ApplyValidationEngineReport\<close> and the
  aggregation over signers of the session). A function that changes a report through a reference
  returns the changed report. The \<open>chain_debug\<close> texts are left out. Reading the names of a
  certificate, \<open>ExtractCertificateMetadata\<close>, is a parameter.
\<close>

section \<open>Data\<close>

datatype ErrorCode =
    Err_None | Err_NotInitialized | Err_SettingsRequired | Err_KeyNotLoaded | Err_InvalidArgument
  | Err_InternalError | Err_NotSupported | Err_GuiNotAvailable | Err_TrustValidationFailed
  | Err_RevocationCheckFailed | Err_OnlineServiceUnavailable | Err_TimestampValidationFailed
  | Err_PolicyValidationFailed

fun ErrorCode_ToString :: "ErrorCode \<Rightarrow> string" where
  "ErrorCode_ToString Err_None = ''OK''"
| "ErrorCode_ToString Err_NotInitialized = ''Session is not initialized''"
| "ErrorCode_ToString Err_SettingsRequired = ''Settings must be configured''"
| "ErrorCode_ToString Err_KeyNotLoaded = ''Private key is not loaded''"
| "ErrorCode_ToString Err_InvalidArgument = ''Invalid argument''"
| "ErrorCode_ToString Err_InternalError = ''Internal error''"
| "ErrorCode_ToString Err_NotSupported = ''Operation is not supported''"
| "ErrorCode_ToString Err_GuiNotAvailable = ''GUI methods are unavailable in this build''"
| "ErrorCode_ToString Err_TrustValidationFailed = ''Trust validation failed''"
| "ErrorCode_ToString Err_RevocationCheckFailed = ''Certificate revocation check failed''"
| "ErrorCode_ToString Err_OnlineServiceUnavailable = ''Online validation service is unavailable''"
| "ErrorCode_ToString Err_TimestampValidationFailed = ''Timestamp validation failed''"
| "ErrorCode_ToString Err_PolicyValidationFailed = ''Verification policy validation failed''"

record DataObjectFormatEntry =
  df_object_reference :: string
  df_mime_type :: string
  df_description :: string

record CertificateMetadata =
  cm_subject :: string
  cm_issuer :: string
  cm_common_name :: string
  cm_organization :: string
  cm_country :: string
  cm_tax_id :: string
  cm_serial_number_hex :: string

definition default_metadata :: CertificateMetadata where
  "default_metadata = \<lparr>cm_subject = [], cm_issuer = [], cm_common_name = [], cm_organization = [], cm_country = [],
     cm_tax_id = [], cm_serial_number_hex = []\<rparr>"

record TimestampEntry =
  tn_signature_index :: int
  tn_kind :: string
  tn_signed_revision_end :: u64
  tn_status :: string
  tn_valid :: bool
  tn_policy_acceptable :: bool
  tn_crypto_valid :: bool
  tn_gen_time_valid :: bool
  tn_certificate_time_valid :: bool
  tn_eku_valid :: bool
  tn_trust_valid :: bool
  tn_revocation_checked :: bool
  tn_historical_trust_used :: bool
  tn_ocsp_attempted :: bool
  tn_crl_attempted :: bool
  tn_gen_time :: string
  tn_validation_time :: string
  tn_reason_code :: string
  tn_trust_source :: string
  tn_tsa_subject :: string
  tn_tsa_issuer :: string
  tn_tsa_serial :: string
  tn_tsa_fingerprint_sha256 :: string
  tn_revocation_status :: string
  tn_because :: "string list"
  tn_warnings :: "string list"
  tn_limitations :: "string list"
  tn_evidence_ids :: "string list"

definition default_timestamp_entry :: TimestampEntry where
  "default_timestamp_entry =
     \<lparr>tn_signature_index = 0, tn_kind = ''signature'', tn_signed_revision_end = 0,
      tn_status = ''timestamp-not-validated'', tn_valid = False, tn_policy_acceptable = False,
      tn_crypto_valid = False, tn_gen_time_valid = False, tn_certificate_time_valid = False,
      tn_eku_valid = False, tn_trust_valid = False, tn_revocation_checked = False,
      tn_historical_trust_used = False, tn_ocsp_attempted = False, tn_crl_attempted = False,
      tn_gen_time = [], tn_validation_time = [], tn_reason_code = [], tn_trust_source = [],
      tn_tsa_subject = [], tn_tsa_issuer = [], tn_tsa_serial = [], tn_tsa_fingerprint_sha256 = [],
      tn_revocation_status = ''not-checked'', tn_because = [], tn_warnings = [], tn_limitations = [],
      tn_evidence_ids = []\<rparr>"

record SignatureEntry =
  se_index :: int
  se_signature_valid :: bool
  se_signer_certificate_present :: bool
  se_qualifying_properties_present :: bool
  se_signing_certificate_digest_valid :: bool
  se_format_profile :: string
  se_timestamp_checked :: bool
  se_timestamp_valid :: bool
  se_timestamp_status :: string
  se_timestamp_details :: "TimestampEntry list"
  se_ltv_valid :: bool
  se_ltv_evidence_bound :: bool
  se_ltv_evidence_validated :: bool
  se_certificate_time_valid :: bool
  se_validation_time_source :: string
  se_chain_checked :: bool
  se_chain_valid :: bool
  se_trust_checked :: bool
  se_trust_valid :: bool
  se_trust_status :: string
  se_trust_mode :: string
  se_trust_reason :: string
  se_historical_trust_used :: bool
  se_historical_anchor_subject :: string
  se_historical_anchor_serial :: string
  se_revocation_checked :: bool
  se_ocsp_checked :: bool
  se_revocation_status :: string
  se_error_code :: ErrorCode
  se_message :: string
  se_signature_policy_present :: bool
  se_signature_policy_id :: string
  se_signature_policy_hash_algo_uri :: string
  se_data_object_formats :: "DataObjectFormatEntry list"

definition default_signature_entry :: SignatureEntry where
  "default_signature_entry =
     \<lparr>se_index = 0, se_signature_valid = False, se_signer_certificate_present = False,
      se_qualifying_properties_present = False, se_signing_certificate_digest_valid = False,
      se_format_profile = [], se_timestamp_checked = False, se_timestamp_valid = False,
      se_timestamp_status = ''timestamp-not-validated'', se_timestamp_details = [], se_ltv_valid = False,
      se_ltv_evidence_bound = False, se_ltv_evidence_validated = False, se_certificate_time_valid = False,
      se_validation_time_source = ''unknown'', se_chain_checked = False, se_chain_valid = False,
      se_trust_checked = False, se_trust_valid = False, se_trust_status = ''not-implemented'',
      se_trust_mode = ''strict'', se_trust_reason = ''not-evaluated'', se_historical_trust_used = False,
      se_historical_anchor_subject = [], se_historical_anchor_serial = [], se_revocation_checked = False,
      se_ocsp_checked = False, se_revocation_status = ''not-checked'', se_error_code = Err_None,
      se_message = [], se_signature_policy_present = False, se_signature_policy_id = [],
      se_signature_policy_hash_algo_uri = [], se_data_object_formats = []\<rparr>"

record VerifyReport =
  vr_has_result :: bool
  vr_execution_succeeded :: bool
  vr_signature_valid :: bool
  vr_trust_valid :: bool
  vr_trust_checked :: bool
  vr_revocation_checked :: bool
  vr_ocsp_checked :: bool
  vr_revocation_evidence_present :: bool
  vr_tsp_checked :: bool
  vr_timestamp_checked :: bool
  vr_timestamp_valid :: bool
  vr_timestamp_status :: string
  vr_timestamp_details :: "TimestampEntry list"
  vr_signer_certificate_present :: bool
  vr_qualifying_properties_present :: bool
  vr_certificate_time_valid :: bool
  vr_validation_time_source :: string
  vr_chain_checked :: bool
  vr_chain_valid :: bool
  vr_trust_list_checked :: bool
  vr_cms_signer_count :: int
  vr_cms_verified_signer_count :: int
  vr_trust_list_update_succeeded :: bool
  vr_operation :: string
  vr_policy :: string
  vr_container_type :: string
  vr_signature_format :: string
  vr_format_profile :: string
  vr_validated_profile :: string
  vr_ltv_valid :: bool
  vr_ltv_evidence_bound :: bool
  vr_ltv_evidence_validated :: bool
  vr_signature_policy_present :: bool
  vr_signature_policy_id :: string
  vr_signature_policy_hash_algo_uri :: string
  vr_data_object_formats :: "DataObjectFormatEntry list"
  vr_container_coverage_complete :: bool
  vr_coverage_status :: string
  vr_container_malformed :: bool
  vr_signatures :: "SignatureEntry list"
  vr_trust_status :: string
  vr_trust_mode :: string
  vr_trust_reason :: string
  vr_historical_trust_used :: bool
  vr_historical_anchor_subject :: string
  vr_historical_anchor_serial :: string
  vr_revocation_status :: string
  vr_trust_list_source :: string
  vr_trust_list_cache_status :: string
  vr_trust_list_last_sync :: string
  vr_error_code :: ErrorCode
  vr_message :: string

definition default_report :: VerifyReport where
  "default_report =
     \<lparr>vr_has_result = False, vr_execution_succeeded = False, vr_signature_valid = False, vr_trust_valid = False,
      vr_trust_checked = False, vr_revocation_checked = False, vr_ocsp_checked = False,
      vr_revocation_evidence_present = False, vr_tsp_checked = False, vr_timestamp_checked = False,
      vr_timestamp_valid = False, vr_timestamp_status = ''timestamp-not-validated'', vr_timestamp_details = [],
      vr_signer_certificate_present = False, vr_qualifying_properties_present = False,
      vr_certificate_time_valid = False, vr_validation_time_source = ''unknown'', vr_chain_checked = False,
      vr_chain_valid = False, vr_trust_list_checked = False, vr_cms_signer_count = 0,
      vr_cms_verified_signer_count = 0, vr_trust_list_update_succeeded = False, vr_operation = [],
      vr_policy = ''crypto-integrity-only'', vr_container_type = ''unknown'', vr_signature_format = ''CMS'',
      vr_format_profile = [], vr_validated_profile = [], vr_ltv_valid = False, vr_ltv_evidence_bound = False,
      vr_ltv_evidence_validated = False, vr_signature_policy_present = False, vr_signature_policy_id = [],
      vr_signature_policy_hash_algo_uri = [], vr_data_object_formats = [], vr_container_coverage_complete = True,
      vr_coverage_status = ''not-applicable'', vr_container_malformed = False, vr_signatures = [],
      vr_trust_status = ''not-implemented'', vr_trust_mode = ''strict'', vr_trust_reason = ''not-evaluated'',
      vr_historical_trust_used = False, vr_historical_anchor_subject = [], vr_historical_anchor_serial = [],
      vr_revocation_status = ''not-checked'', vr_trust_list_source = ''https://czo.gov.ua/download/tl/TL-UA-EC.xml'',
      vr_trust_list_cache_status = ''not-checked'', vr_trust_list_last_sync = [], vr_error_code = Err_None,
      vr_message = []\<rparr>"

section \<open>The one-word summary and the verdict (VerifySummary.cpp)\<close>

record VerifyPolicyDecision =
  vd_valid :: bool
  vd_level :: string
  vd_summary :: string

definition CanOnlineServiceOutageOverrideTrustStatus :: "VerifyReport \<Rightarrow> bool \<Rightarrow> bool" where
  "CanOnlineServiceOutageOverrideTrustStatus report has_policy_failure \<longleftrightarrow>
     (if has_policy_failure then False
      else if vr_trust_status report = ''timestamp-not-fully-validated'' then False
      else \<not> (vr_trust_checked report \<and> \<not> vr_trust_valid report))"

definition TrustFailureErrorCode :: "VerifyReport \<Rightarrow> ErrorCode" where
  "TrustFailureErrorCode report =
     (if vr_trust_status report \<in> {''certificate-revoked'', ''revocation-check-invalid'', ''ocsp-response-invalid''}
      then Err_RevocationCheckFailed
      else if vr_trust_status report \<in> {''ocsp-responder-unavailable'', ''tsp-responder-unavailable''}
      then Err_OnlineServiceUnavailable
      else if vr_trust_status report = ''timestamp-invalid'' then Err_TimestampValidationFailed
      else Err_TrustValidationFailed)"

text \<open>\<open>good\<close> or \<open>valid\<close>: the comparison the source repeats wherever revocation must be confirmed.\<close>

definition revocation_confirmed :: "string \<Rightarrow> bool" where
  "revocation_confirmed status \<longleftrightarrow> status = ''good'' \<or> status = ''valid''"

definition untrusted_summary :: "string \<Rightarrow> string" where
  "untrusted_summary trust_status =
     (if trust_status = ''certificate-revoked'' then ''integrity-but-revoked''
      else if trust_status \<in> {''certificate-time-invalid'', ''certificate-chain-time-invalid''}
      then ''integrity-but-certificate-expired''
      else if trust_status \<in> {''certificate-chain-incomplete'', ''certificate-chain-cycle'', ''signer-certificate-missing'',
          ''legacy-anchor-not-in-current-tl''}
      then ''integrity-but-chain-incomplete''
      else if trust_status \<in> {''trust-store-empty'', ''no-trust-store-configured''} then ''integrity-without-trust-store''
      else if trust_status \<in> {''revocation-check-invalid'', ''ocsp-response-invalid''}
      then ''integrity-but-revocation-check-invalid''
      else ''integrity-but-untrusted-chain'')"

definition ComputeVerifySummary :: "VerifyReport \<Rightarrow> string" where
  "ComputeVerifySummary report =
     (if \<not> vr_has_result report then ''not-executed''
      else if \<not> vr_execution_succeeded report then ''execution-failed''
      else if vr_container_malformed report then ''container-malformed''
      else if \<not> vr_signature_valid report then ''integrity-failed''
      else if \<not> vr_container_coverage_complete report then ''content-not-fully-signed''
      else if vr_trust_checked report \<and> vr_trust_valid report \<and> vr_revocation_checked report
        \<and> vr_revocation_status report = ''temporarily-unavailable'' then ''integrity-but-revocation-unknown''
      else if vr_trust_status report = ''ocsp-responder-unavailable'' \<or> vr_trust_status report = ''tsp-responder-unavailable''
      then ''integrity-but-online-service-unavailable''
      else if vr_trust_status report = ''timestamp-not-fully-validated'' \<or> vr_timestamp_status report = ''timestamp-partial''
      then ''integrity-but-timestamp-not-fully-validated''
      else if vr_signature_valid report \<and> vr_timestamp_checked report \<and> \<not> vr_timestamp_valid report
        \<and> (vr_trust_status report = ''timestamp-invalid'' \<or> vr_timestamp_status report = ''timestamp-invalid'')
      then ''integrity-but-timestamp-invalid''
      else if vr_signature_valid report \<and> vr_trust_checked report \<and> vr_trust_valid report
        \<and> vr_revocation_checked report \<and> vr_revocation_status report = ''unknown''
      then ''integrity-but-revocation-unknown''
      else if vr_signature_valid report \<and> vr_trust_checked report \<and> vr_trust_valid report \<and> vr_revocation_checked report
        \<and> revocation_confirmed (vr_revocation_status report) \<and> vr_timestamp_checked report \<and> vr_timestamp_valid report
      then ''integrity-trust-revocation-and-timestamp''
      else if \<not> vr_trust_checked report then ''integrity-only''
      else if \<not> vr_trust_valid report then untrusted_summary (vr_trust_status report)
      else if vr_revocation_checked report \<and> revocation_confirmed (vr_revocation_status report)
      then ''integrity-trust-and-revocation''
      else ''integrity-and-trust'')"

definition policy_base_valid :: "VerifyReport \<Rightarrow> bool" where
  "policy_base_valid report \<longleftrightarrow>
     vr_has_result report \<and> vr_execution_succeeded report \<and> vr_signature_valid report \<and> vr_trust_checked report
     \<and> vr_trust_valid report \<and> vr_revocation_checked report \<and> revocation_confirmed (vr_revocation_status report)"

definition ComputeVerifyPolicyDecision :: "VerifyReport \<Rightarrow> VerifyPolicyDecision" where
  "ComputeVerifyPolicyDecision report =
     (let summary = ComputeVerifySummary report;
          integrity_only = (\<lambda>text. \<lparr>vd_valid = False, vd_level = ''integrity-only'', vd_summary = text\<rparr>)
      in if \<not> policy_base_valid report \<or> vr_trust_status report = ''timestamp-invalid''
            \<or> vr_timestamp_status report = ''timestamp-invalid'' then integrity_only summary
         else if \<exists>detail \<in> set (vr_timestamp_details report). \<not> tn_valid detail \<and> \<not> tn_policy_acceptable detail
         then integrity_only ''integrity-but-timestamp-not-fully-validated''
         else if vr_trust_status report = ''timestamp-not-fully-validated''
         then integrity_only ''integrity-but-timestamp-not-fully-validated''
         else if vr_trust_status report = ''ocsp-responder-unavailable'' \<or> vr_trust_status report = ''tsp-responder-unavailable''
         then integrity_only summary
         else if vr_timestamp_checked report \<and> vr_timestamp_valid report
         then \<lparr>vd_valid = True, vd_level = ''cades-t'', vd_summary = summary\<rparr>
         else \<lparr>vd_valid = True, vd_level = ''bes'', vd_summary = summary\<rparr>)"

definition ApplyTimestampFailureToTrust :: "VerifyReport \<Rightarrow> VerifyReport" where
  "ApplyTimestampFailureToTrust report =
     (if \<not> vr_trust_valid report then report
      else report\<lparr>vr_trust_valid := False, vr_trust_status := ''timestamp-invalid'',
             vr_error_code := Err_TimestampValidationFailed\<rparr>)"

section \<open>Writing the report (VerifyReportCommit.cpp, PolicyDecision.cpp)\<close>

record VerifyOutcome =
  vo_operation :: string
  vo_execution_succeeded :: bool
  vo_signature_valid :: bool
  vo_error_code :: ErrorCode
  vo_message :: string

definition AppendVerifyReportNote :: "VerifyReport \<Rightarrow> string \<Rightarrow> string \<Rightarrow> VerifyReport" where
  "AppendVerifyReportNote report note_prefix message =
     (if message = [] then report
      else report\<lparr>vr_message :=
        (if vr_message report \<noteq> [] then vr_message report @ ''; '' else []) @ note_prefix @ message\<rparr>)"

definition MakeClearedVerifyReport :: VerifyReport where
  "MakeClearedVerifyReport = default_report\<lparr>vr_policy := ''crypto-integrity-only'',
     vr_trust_status := ''not-implemented'', vr_revocation_status := ''not-checked''\<rparr>"

definition BuildVerifyMessage :: "bool \<Rightarrow> bool \<Rightarrow> string \<Rightarrow> string" where
  "BuildVerifyMessage execution_succeeded signature_valid message =
     (if message \<noteq> [] then message
      else if execution_succeeded \<and> signature_valid then
        ''Signature integrity verified. See policyDecision for the trust verdict.''
      else if execution_succeeded then ''Signature integrity check completed with a negative result.''
      else [])"

definition CommitVerifyOutcome :: "VerifyReport \<Rightarrow> VerifyOutcome \<Rightarrow> VerifyReport" where
  "CommitVerifyOutcome report outcome =
     (let report = report\<lparr>vr_has_result := True, vr_execution_succeeded := vo_execution_succeeded outcome,
            vr_signature_valid := vo_signature_valid outcome, vr_operation := vo_operation outcome\<rparr>;
          report = (if vr_operation report = ''VerifyFileAsicEXades''
            then report\<lparr>vr_container_type := ''ASiC-E'', vr_signature_format := ''XAdES'', vr_format_profile := ''XAdES''\<rparr>
            else report)
      in report\<lparr>vr_error_code := vo_error_code outcome,
           vr_message := BuildVerifyMessage (vo_execution_succeeded outcome) (vo_signature_valid outcome) (vo_message outcome)\<rparr>)"

definition ApplyTimestampDetailsVerdict :: "VerifyReport \<Rightarrow> VerifyReport" where
  "ApplyTimestampDetailsVerdict report =
     (if vr_timestamp_details report = [] then report
      else
        let all_valid = list_all (\<lambda>d. tn_valid d \<and> tn_status d = ''timestamp-valid'') (vr_timestamp_details report);
            any_invalid = list_ex (\<lambda>d. tn_status d = ''timestamp-invalid'') (vr_timestamp_details report);
            valid = (all_valid \<and> \<not> any_invalid)
        in report\<lparr>vr_timestamp_checked := True, vr_tsp_checked := True, vr_timestamp_valid := valid,
             vr_timestamp_status := (if any_invalid then ''timestamp-invalid''
               else if valid then ''timestamp-valid'' else ''timestamp-partial'')\<rparr>)"

definition ApplyFormatTimestampVerdict :: "VerifyReport \<Rightarrow> bool \<Rightarrow> bool \<Rightarrow> VerifyReport" where
  "ApplyFormatTimestampVerdict report crypto_valid canonical_full =
     (if \<not> crypto_valid then report\<lparr>vr_timestamp_valid := False, vr_timestamp_status := ''timestamp-invalid''\<rparr>
      else if vr_timestamp_details report \<noteq> [] then ApplyTimestampDetailsVerdict report
      else if canonical_full then report\<lparr>vr_timestamp_valid := True, vr_timestamp_status := ''timestamp-valid''\<rparr>
      else report\<lparr>vr_timestamp_valid := False, vr_timestamp_status := ''timestamp-partial''\<rparr>)"

definition ApplyEntryTimestampVerdict :: "SignatureEntry \<Rightarrow> bool \<Rightarrow> SignatureEntry" where
  "ApplyEntryTimestampVerdict entry crypto_valid =
     (if \<not> crypto_valid then entry\<lparr>se_timestamp_valid := False, se_timestamp_status := ''timestamp-invalid''\<rparr>
      else entry\<lparr>se_timestamp_valid := False, se_timestamp_status := ''timestamp-partial''\<rparr>)"

definition AppendContainerTimestampMessage :: "VerifyReport \<Rightarrow> string \<Rightarrow> VerifyReport" where
  "AppendContainerTimestampMessage report message = AppendVerifyReportNote report ''ASiC container timestamp: '' message"

definition AppendXadesTimestampMessage :: "VerifyReport \<Rightarrow> string \<Rightarrow> VerifyReport" where
  "AppendXadesTimestampMessage report message = AppendVerifyReportNote report ''XAdES timestamp policy: '' message"

definition UserReportFormatForOperation :: "string \<Rightarrow> string \<times> string" where
  "UserReportFormatForOperation op =
     (if op \<in> {''VerifyData'', ''VerifyDataBase64'', ''VerifyFile'', ''RawVerifyFile''} then (''CAdES detached'', ''cms-detached'')
      else if op \<in> {''VerifyDataInternal'', ''VerifyDataInternalBase64'', ''VerifyDataInternalStr'', ''VerifyDataInternalBase64Str''}
      then (''CAdES attached'', ''cms-attached'')
      else if op = ''VerifyFileAsicS'' then (''ASiC-S'', ''asic-s'')
      else if op = ''VerifyFileAsicE'' then (''ASiC-E'', ''asic-e'')
      else if op = ''VerifyFileAsicEXades'' then (''ASiC-E'', ''XAdES'')
      else (''unknown'', ''unknown''))"

record PolicyValidationResult =
  pv_trust_checked :: bool
  pv_trust_valid :: bool
  pv_revocation_checked :: bool
  pv_ocsp_checked :: bool
  pv_tsp_checked :: bool
  pv_timestamp_checked :: bool
  pv_timestamp_valid :: bool
  pv_chain_checked :: bool
  pv_chain_valid :: bool
  pv_chain_status :: ChainStatus
  pv_revocation_status :: RevocationStatus
  pv_timestamp_status :: TimestampStatus
  pv_trust_status :: string
  pv_revocation_status_text :: string
  pv_policy :: string
  pv_message :: string

definition ApplyPolicyDecision :: "PolicyValidationResult \<Rightarrow> VerifyReport \<Rightarrow> VerifyReport" where
  "ApplyPolicyDecision policy_result report =
     (let report = report\<lparr>
        vr_trust_checked := pv_trust_checked policy_result, vr_trust_valid := pv_trust_valid policy_result,
        vr_revocation_checked := pv_revocation_checked policy_result, vr_ocsp_checked := pv_ocsp_checked policy_result,
        vr_tsp_checked := pv_tsp_checked policy_result, vr_timestamp_checked := pv_timestamp_checked policy_result,
        vr_timestamp_valid := pv_timestamp_valid policy_result, vr_chain_checked := pv_chain_checked policy_result,
        vr_chain_valid := pv_chain_valid policy_result, vr_policy := pv_policy policy_result,
        vr_trust_status := pv_trust_status policy_result, vr_revocation_status := pv_revocation_status_text policy_result\<rparr>
      in if pv_message policy_result \<noteq> [] then report\<lparr>vr_message := pv_message policy_result\<rparr> else report)"

section \<open>The verdict of each block (VerifyChecks.cpp)\<close>

text \<open>A verdict is a pair of status and code.\<close>

type_synonym VerifyCheck = "string \<times> string"

definition HasPolicyWarning :: "VerifyReport \<Rightarrow> bool" where
  "HasPolicyWarning report \<longleftrightarrow>
     vr_historical_trust_used report \<or> vr_timestamp_status report = ''timestamp-partial''
     \<or> vr_trust_status report = ''timestamp-not-fully-validated''
     \<or> vr_trust_status report = ''ocsp-responder-unavailable'' \<or> vr_trust_status report = ''tsp-responder-unavailable''
     \<or> (vr_revocation_checked report \<and> vr_revocation_status report \<noteq> ''valid'' \<and> vr_revocation_status report \<noteq> ''good''
        \<and> vr_revocation_status report \<noteq> ''revoked'' \<and> vr_revocation_status report \<noteq> ''invalid'')"

definition FirstPolicyWarningCode :: "VerifyReport \<Rightarrow> string" where
  "FirstPolicyWarningCode report =
     (if vr_historical_trust_used report then ''HISTORICAL_TRUST_USED''
      else if vr_trust_status report = ''timestamp-not-fully-validated'' \<or> vr_timestamp_status report = ''timestamp-partial''
      then ''TIMESTAMP_NOT_FULLY_VALIDATED''
      else if vr_trust_status report = ''ocsp-responder-unavailable'' \<or> vr_trust_status report = ''tsp-responder-unavailable''
      then ''ONLINE_SERVICE_UNAVAILABLE''
      else ''REVOCATION_STATUS_UNKNOWN'')"

definition SummaryCheck :: "VerifyReport \<Rightarrow> VerifyCheck" where
  "SummaryCheck report =
     (let decision = ComputeVerifyPolicyDecision report
      in if \<not> vr_has_result report then (''skipped'', ''NOT_EXECUTED'')
         else if \<not> vr_execution_succeeded report then (''invalid'', ''VERIFICATION_EXECUTION_FAILED'')
         else if vr_container_malformed report then (''invalid'', ''CONTAINER_MALFORMED'')
         else if \<not> vr_signature_valid report then (''invalid'', ''SIGNATURE_INVALID'')
         else if \<not> vr_container_coverage_complete report then (''invalid'', ''CONTAINER_COVERAGE_INCOMPLETE'')
         else if vd_valid decision then
           (if HasPolicyWarning report then (''warning'', ''SIGNATURE_VALID_WITH_WARNINGS'') else (''valid'', ''SIGNATURE_VALID''))
         else if vr_revocation_status report = ''revoked'' \<or> vr_trust_status report = ''certificate-revoked''
         then (''invalid'', ''CERTIFICATE_REVOKED'')
         else if vr_trust_status report = ''certificate-time-invalid'' \<or> vr_trust_status report = ''certificate-chain-time-invalid''
         then (''invalid'', ''CERTIFICATE_INVALID_AT_VALIDATION_TIME'')
         else if vr_trust_status report = ''revocation-check-invalid'' \<or> vr_trust_status report = ''ocsp-response-invalid''
         then (''invalid'', ''REVOCATION_INVALID'')
         else if vr_trust_status report = ''timestamp-invalid'' \<or> vr_timestamp_status report = ''timestamp-invalid''
         then (''invalid'', ''TIMESTAMP_INVALID'')
         else (''warning'', ''SIGNATURE_INTEGRITY_ONLY''))"

definition SignatureCheck :: "VerifyReport \<Rightarrow> VerifyCheck" where
  "SignatureCheck report =
     (if \<not> vr_has_result report then (''skipped'', ''SIGNATURE_NOT_CHECKED'')
      else if \<not> vr_execution_succeeded report then (''unavailable'', ''SIGNATURE_CHECK_UNAVAILABLE'')
      else if vr_signature_valid report then (''valid'', ''SIGNATURE_CRYPTOGRAPHICALLY_VALID'')
      else (''invalid'', ''SIGNATURE_CRYPTOGRAPHICALLY_INVALID''))"

definition CertificateCheck :: "VerifyReport \<Rightarrow> VerifyCheck" where
  "CertificateCheck report =
     (if \<not> vr_has_result report then (''skipped'', ''CERTIFICATE_NOT_CHECKED'')
      else if \<not> vr_signer_certificate_present report then (''unavailable'', ''SIGNER_CERTIFICATE_MISSING'')
      else if vr_certificate_time_valid report then (''valid'', ''CERTIFICATE_VALID_AT_VALIDATION_TIME'')
      else (''invalid'', ''CERTIFICATE_INVALID_AT_VALIDATION_TIME''))"

definition TrustCheck :: "VerifyReport \<Rightarrow> VerifyCheck" where
  "TrustCheck report =
     (if \<not> vr_trust_checked report then (''skipped'', ''TRUST_NOT_CHECKED'')
      else if vr_trust_valid report then
        (if vr_historical_trust_used report then (''warning'', ''TRUST_VALID_HISTORICAL'') else (''valid'', ''TRUST_VALID''))
      else (''invalid'', ''TRUST_INVALID''))"

definition RevocationCheck :: "VerifyReport \<Rightarrow> VerifyCheck" where
  "RevocationCheck report =
     (if \<not> vr_revocation_checked report then (''skipped'', ''REVOCATION_NOT_CHECKED'')
      else if vr_revocation_status report = ''valid'' \<or> vr_revocation_status report = ''good''
      then (''valid'', ''REVOCATION_VALID'')
      else if vr_revocation_status report = ''revoked'' then (''invalid'', ''CERTIFICATE_REVOKED'')
      else if vr_revocation_status report = ''invalid'' then (''invalid'', ''REVOCATION_INVALID'')
      else if vr_revocation_status report = ''temporarily-unavailable'' then (''unavailable'', ''REVOCATION_UNAVAILABLE'')
      else (''unknown'', ''REVOCATION_UNKNOWN''))"

definition TimestampCheck :: "VerifyReport \<Rightarrow> VerifyCheck" where
  "TimestampCheck report =
     (if \<not> vr_timestamp_checked report then (''skipped'', ''TIMESTAMP_NOT_CHECKED'')
      else if vr_timestamp_status report = ''timestamp-partial'' \<or> vr_trust_status report = ''timestamp-not-fully-validated''
      then (''warning'', ''TIMESTAMP_NOT_FULLY_VALIDATED'')
      else if vr_timestamp_valid report then (''valid'', ''TIMESTAMP_VALID'')
      else (''invalid'', ''TIMESTAMP_INVALID''))"

definition LtvFullyValidated :: "VerifyReport \<Rightarrow> bool" where
  "LtvFullyValidated report \<longleftrightarrow>
     vr_ltv_evidence_validated report \<and> vr_timestamp_valid report \<and> list_all se_ltv_evidence_validated (vr_signatures report)"

definition LtvCheck :: "VerifyReport \<Rightarrow> VerifyCheck" where
  "LtvCheck report =
     (if LtvFullyValidated report then (''valid'', ''LTV_VALID'')
      else if vr_signature_format report = ''XAdES'' \<or> vr_signature_format report = ''PAdES''
      then (''unavailable'', ''LTV_EVIDENCE_UNAVAILABLE'')
      else (''skipped'', ''LTV_NOT_APPLICABLE''))"

definition PolicyCheck :: "VerifyReport \<Rightarrow> VerifyCheck" where
  "PolicyCheck report =
     (if vd_valid (ComputeVerifyPolicyDecision report) then
        (if HasPolicyWarning report then (''warning'', FirstPolicyWarningCode report) else (''valid'', ''POLICY_VALID''))
      else if vr_has_result report then (''invalid'', ''POLICY_INVALID'')
      else (''skipped'', ''POLICY_NOT_EVALUATED''))"

section \<open>The projection of the engine's report (ValidationReportProjection.cpp)\<close>

definition HasSignerCertificateEvidence :: "ValidationReport \<Rightarrow> bool" where
  "HasSignerCertificateEvidence ve_report \<longleftrightarrow>
     (\<exists>record \<in> ran (rep_evidence ve_report). ev_type record = ''signer-certificate'')"

fun CanonicalRevocationStatusString :: "RevocationStatus \<Rightarrow> string" where
  "CanonicalRevocationStatusString Rev_Good = ''valid''"
| "CanonicalRevocationStatusString Rev_Revoked = ''revoked''"
| "CanonicalRevocationStatusString Rev_Invalid = ''invalid''"
| "CanonicalRevocationStatusString Rev_ResponderUnavailable = ''temporarily-unavailable''"
| "CanonicalRevocationStatusString Rev_Stale = ''stale''"
| "CanonicalRevocationStatusString Rev_NotChecked = ''not-checked''"
| "CanonicalRevocationStatusString Rev_Unknown = ''unknown''"

definition CanonicalValidationTimeSource :: "SigningTimeResolution \<Rightarrow> bool \<Rightarrow> string" where
  "CanonicalValidationTimeSource resolution signer_certificate_present =
     (if \<not> signer_certificate_present then ''unknown''
      else case st_source resolution of
        Source_Rfc3161Timestamp \<Rightarrow> if st_trusted_time resolution then ''trustedTimestamp'' else ''signingTime''
      | Source_ClaimedSigningTime \<Rightarrow> ''signingTime''
      | _ \<Rightarrow> ''currentTime'')"

definition timestamp_entry_status :: "TimestampEngineResult \<Rightarrow> string" where
  "timestamp_entry_status result =
     (let status = (case te_status result of
            Ts_Valid \<Rightarrow> ''timestamp-valid''
          | Ts_Missing \<Rightarrow> ''timestamp-not-validated'' | Ts_NotChecked \<Rightarrow> ''timestamp-not-validated''
          | Ts_InvalidImprint \<Rightarrow> ''timestamp-invalid'' | Ts_InvalidSignature \<Rightarrow> ''timestamp-invalid''
          | Ts_Unsupported \<Rightarrow> ''timestamp-invalid''
          | _ \<Rightarrow> ''timestamp-partial'');
          status = (if te_reason_code result \<in> {''TSA_REVOKED'', ''TSA_EKU_INVALID'', ''TIMESTAMP_TIME_INVALID'',
              ''TSA_CERTIFICATE_TIME_INVALID'', ''TSA_CHAIN_TIME_INVALID''} then ''timestamp-invalid'' else status)
      in if te_reason_code result = ''TSA_CERTIFICATE_MISSING'' then ''timestamp-partial'' else status)"

definition ProjectTimestampResult ::
    "(bytes \<Rightarrow> CertificateMetadata option) \<Rightarrow> TimestampEngineResult \<Rightarrow> TimestampEntry" where
  "ProjectTimestampResult extract_metadata result =
     (let entry = default_timestamp_entry\<lparr>
        tn_valid := te_valid result, tn_policy_acceptable := te_policy_acceptable result,
        tn_crypto_valid := te_crypto_valid result, tn_gen_time_valid := te_gen_time_valid result,
        tn_certificate_time_valid := te_certificate_time_valid result, tn_eku_valid := te_eku_valid result,
        tn_trust_valid := te_trust_valid result, tn_revocation_checked := te_revocation_checked result,
        tn_historical_trust_used := te_historical_trust_used result, tn_ocsp_attempted := te_ocsp_attempted result,
        tn_crl_attempted := te_crl_attempted result, tn_gen_time := te_gen_time result,
        tn_validation_time := te_validation_time result, tn_reason_code := te_reason_code result,
        tn_trust_source := te_trust_source result,
        tn_revocation_status := CanonicalRevocationStatusString (te_revocation_status result),
        tn_because := te_because result, tn_warnings := te_warnings result, tn_limitations := te_limitations result,
        tn_evidence_ids := te_evidence_ids result, tn_status := timestamp_entry_status result\<rparr>
      in if te_tsa_certificate_der result = [] then entry
         else
           let entry = entry\<lparr>tn_tsa_fingerprint_sha256 := LowerHex (Sha256 (te_tsa_certificate_der result))\<rparr>
           in case extract_metadata (te_tsa_certificate_der result) of
                None \<Rightarrow> entry
              | Some metadata \<Rightarrow> entry\<lparr>tn_tsa_subject := cm_subject metadata, tn_tsa_issuer := cm_issuer metadata,
                  tn_tsa_serial := cm_serial_number_hex metadata\<rparr>)"

text \<open>The stages of \<open>ProjectVerifyReport\<close>: chain and trust, revocation, timestamp, error code.\<close>

definition project_trust :: "ValidationReport \<Rightarrow> VerifyReport" where
  "project_trust ve_report =
     (let decision = rep_decision ve_report;
          present = HasSignerCertificateEvidence ve_report;
          selection = rep_path_selection ve_report;
          path_selected = sel_index selection \<noteq> None;
          path_trusted = (path_selected \<and> pr_trusted (sel_result selection));
          revocation = rep_signer_revocation ve_report;
          uses_historical = (path_trusted \<and> pr_uses_historical_trust (sel_result selection));
          service = rep_trust_service ve_report;
          report = default_report\<lparr>
            vr_signature_valid := dec_signature_valid decision,
            vr_signer_certificate_present := present,
            vr_chain_checked := path_selected,
            vr_chain_valid := path_trusted,
            vr_certificate_time_valid := path_selected \<and> pr_signer_certificate_time_valid (sel_result selection),
            vr_validation_time_source := CanonicalValidationTimeSource (rep_signing_time_resolution ve_report) present,
            vr_trust_checked := True,
            vr_trust_valid := dec_trust_valid decision,
            vr_revocation_checked := rr_ocsp_attempted revocation \<or> rr_crl_attempted revocation,
            vr_ocsp_checked := rr_ocsp_attempted revocation,
            vr_revocation_status := CanonicalRevocationStatusString (rr_revocation_status revocation),
            vr_historical_trust_used := uses_historical,
            vr_trust_mode := (if uses_historical then ''historical'' else ''strict''),
            vr_historical_anchor_subject :=
              (if uses_historical \<and> pr_signer_issuer_certificate_der (sel_result selection) \<noteq> []
               then pr_trust_anchor_source (sel_result selection) else []),
            vr_trust_status := dec_trust_status decision,
            vr_trust_reason := dec_trust_reason decision\<rparr>
      in if ts_checked service then
           report\<lparr>vr_trust_list_checked := True, vr_trust_list_cache_status := ''snapshot'',
             vr_trust_list_source := (if ts_snapshot_evidence_id service \<noteq> [] then ts_snapshot_evidence_id service
               else vr_trust_list_source report)\<rparr>
         else report)"

definition project_revocation :: "RevocationEngineResult \<Rightarrow> VerifyReport \<Rightarrow> VerifyReport" where
  "project_revocation revocation report =
     (let defeats = (rr_overall_status revocation \<noteq> Overall_Valid)
      in if defeats \<and> rr_revocation_status revocation = Rev_Invalid then
           (let report = report\<lparr>vr_trust_valid := False, vr_trust_status := ''revocation-check-invalid'',
                  vr_error_code := Err_RevocationCheckFailed\<rparr>
            in case rr_because revocation of [] \<Rightarrow> report | b # _ \<Rightarrow> report\<lparr>vr_message := b\<rparr>)
         else if defeats \<and> rr_revocation_status revocation = Rev_Revoked then
           report\<lparr>vr_trust_valid := False, vr_trust_status := ''certificate-revoked'',
             vr_error_code := Err_RevocationCheckFailed, vr_message := ''Certificate is revoked by CRL policy.''\<rparr>
         else if rr_revocation_status revocation = Rev_Revoked then
           (case rr_warnings revocation of
              w # _ \<Rightarrow> report\<lparr>vr_message := w\<rparr>
            | [] \<Rightarrow> (case rr_because revocation of [] \<Rightarrow> report | b # _ \<Rightarrow> report\<lparr>vr_message := b\<rparr>))
         else report)"

fun report_timestamp_status :: "TimestampStatus \<Rightarrow> string" where
  "report_timestamp_status Ts_Valid = ''timestamp-valid''"
| "report_timestamp_status Ts_InvalidImprint = ''timestamp-invalid''"
| "report_timestamp_status Ts_InvalidSignature = ''timestamp-invalid''"
| "report_timestamp_status Ts_Unsupported = ''timestamp-invalid''"
| "report_timestamp_status Ts_UntrustedTsa = ''timestamp-partial''"
| "report_timestamp_status Ts_TsaExpired = ''timestamp-partial''"
| "report_timestamp_status Ts_NotChecked = ''timestamp-not-validated''"
| "report_timestamp_status Ts_Missing = ''timestamp-not-validated''"

definition project_timestamp ::
    "(bytes \<Rightarrow> CertificateMetadata option) \<Rightarrow> ValidationReport \<Rightarrow> VerifyReport \<Rightarrow> VerifyReport" where
  "project_timestamp extract_metadata ve_report report =
     (if rep_timestamp_attempted ve_report then
        ApplyTimestampDetailsVerdict (report\<lparr>
          vr_timestamp_details := vr_timestamp_details report @ [ProjectTimestampResult extract_metadata (rep_timestamp ve_report)],
          vr_timestamp_checked := True, vr_timestamp_valid := te_valid (rep_timestamp ve_report), vr_tsp_checked := True,
          vr_timestamp_status := report_timestamp_status (te_status (rep_timestamp ve_report))\<rparr>)
      else report\<lparr>vr_timestamp_status := ''timestamp-not-validated''\<rparr>)"

definition project_error :: "ValidationDecision \<Rightarrow> VerifyReport \<Rightarrow> VerifyReport" where
  "project_error decision report =
     (case dec_overall_status decision of
        Overall_Indeterminate \<Rightarrow>
          if \<not> dec_trust_valid decision \<and> vr_error_code report = Err_None
          then report\<lparr>vr_error_code := TrustFailureErrorCode report\<rparr> else report
      | Overall_Invalid \<Rightarrow>
          if vr_revocation_status report = ''revoked'' then report\<lparr>vr_error_code := Err_RevocationCheckFailed\<rparr>
          else if vr_error_code report = Err_None then report\<lparr>vr_error_code := Err_InvalidArgument\<rparr> else report
      | _ \<Rightarrow> report)"

definition ProjectVerifyReport :: "(bytes \<Rightarrow> CertificateMetadata option) \<Rightarrow> ValidationReport \<Rightarrow> VerifyReport" where
  "ProjectVerifyReport extract_metadata ve_report =
     project_error (rep_decision ve_report)
       (project_timestamp extract_metadata ve_report
         (project_revocation (rep_signer_revocation ve_report) (project_trust ve_report)))"

text \<open>
  \<open>ApplyValidationEngineReport\<close> of the session: the projected fields are copied into a report whose
  format-specific fields are already set.
\<close>

definition ApplyValidationEngineReport ::
    "(bytes \<Rightarrow> CertificateMetadata option) \<Rightarrow> ValidationReport \<Rightarrow> VerifyReport \<Rightarrow> VerifyReport" where
  "ApplyValidationEngineReport extract_metadata ve_report report =
     (let projected = ProjectVerifyReport extract_metadata ve_report;
          report = report\<lparr>
            vr_signer_certificate_present := vr_signer_certificate_present projected,
            vr_certificate_time_valid := vr_certificate_time_valid projected,
            vr_validation_time_source := vr_validation_time_source projected,
            vr_chain_checked := vr_chain_checked projected, vr_chain_valid := vr_chain_valid projected,
            vr_trust_checked := vr_trust_checked projected, vr_trust_valid := vr_trust_valid projected,
            vr_trust_status := vr_trust_status projected, vr_trust_reason := vr_trust_reason projected,
            vr_trust_mode := vr_trust_mode projected, vr_historical_trust_used := vr_historical_trust_used projected,
            vr_historical_anchor_subject := vr_historical_anchor_subject projected,
            vr_historical_anchor_serial := vr_historical_anchor_serial projected,
            vr_trust_list_checked := vr_trust_list_checked projected,
            vr_trust_list_cache_status := vr_trust_list_cache_status projected,
            vr_trust_list_source := vr_trust_list_source projected,
            vr_revocation_checked := vr_revocation_checked projected, vr_ocsp_checked := vr_ocsp_checked projected,
            vr_revocation_status := vr_revocation_status projected,
            vr_timestamp_checked := vr_timestamp_checked projected, vr_timestamp_valid := vr_timestamp_valid projected,
            vr_tsp_checked := vr_tsp_checked projected, vr_timestamp_status := vr_timestamp_status projected,
            vr_timestamp_details := vr_timestamp_details projected, vr_error_code := vr_error_code projected\<rparr>
      in if vr_message projected \<noteq> [] then report\<lparr>vr_message := vr_message projected\<rparr> else report)"

section \<open>Several signers\<close>

text \<open>
  The signer whose texts stand for all: the first one that is not trusted, else the first one
  whose revocation is not confirmed, else the first.
\<close>

definition representative_signer :: "SignatureEntry list \<Rightarrow> nat" where
  "representative_signer signatures =
     (case find_index (\<lambda>e. \<not> se_trust_valid e) signatures of
        Some i \<Rightarrow> i
      | None \<Rightarrow>
          (case find_index (\<lambda>e. \<not> revocation_confirmed (se_revocation_status e)) signatures of Some i \<Rightarrow> i | None \<Rightarrow> 0))"

definition ApplyPerSignerTrustAggregation :: "VerifyReport \<Rightarrow> VerifyReport" where
  "ApplyPerSignerTrustAggregation report =
     (if vr_signatures report = [] then report
      else
        let signatures = vr_signatures report;
            rep = signatures ! representative_signer signatures;
            report = report\<lparr>
              vr_trust_checked := list_all se_trust_checked signatures,
              vr_trust_valid := list_all se_trust_valid signatures,
              vr_chain_checked := list_all se_chain_checked signatures,
              vr_chain_valid := list_all se_chain_valid signatures,
              vr_certificate_time_valid := list_all se_certificate_time_valid signatures,
              vr_revocation_checked := list_all se_revocation_checked signatures,
              vr_ocsp_checked := list_all se_ocsp_checked signatures,
              vr_validation_time_source := se_validation_time_source rep,
              vr_trust_status := se_trust_status rep, vr_trust_mode := se_trust_mode rep,
              vr_trust_reason := se_trust_reason rep, vr_historical_trust_used := se_historical_trust_used rep,
              vr_historical_anchor_subject := se_historical_anchor_subject rep,
              vr_historical_anchor_serial := se_historical_anchor_serial rep,
              vr_revocation_status := se_revocation_status rep, vr_error_code := se_error_code rep\<rparr>
        in if se_message rep \<noteq> [] then report\<lparr>vr_message := se_message rep\<rparr> else report)"

section \<open>What a positive verdict means\<close>

lemma decision_valid_iff:
  "vd_valid (ComputeVerifyPolicyDecision report) \<longleftrightarrow>
     policy_base_valid report \<and> vr_timestamp_status report \<noteq> ''timestamp-invalid''
     \<and> vr_trust_status report \<notin> {''timestamp-invalid'', ''timestamp-not-fully-validated'', ''ocsp-responder-unavailable'',
          ''tsp-responder-unavailable''}
     \<and> list_all (\<lambda>d. tn_valid d \<or> tn_policy_acceptable d) (vr_timestamp_details report)"
  by (auto simp: ComputeVerifyPolicyDecision_def Let_def list_all_iff)

lemma summary_of_valid:
  assumes "vd_valid (ComputeVerifyPolicyDecision report)" "vr_container_coverage_complete report" "\<not> vr_container_malformed report"
  shows "ComputeVerifySummary report \<in>
    {''integrity-trust-revocation-and-timestamp'', ''integrity-trust-and-revocation'', ''integrity-but-timestamp-not-fully-validated''}"
  using assms by (auto simp: decision_valid_iff policy_base_valid_def revocation_confirmed_def ComputeVerifySummary_def)

text \<open>
  The invariant of the timestamp fields: once a timestamp counts as checked, its flag and its
  status say the same.
\<close>

definition timestamp_consistent :: "VerifyReport \<Rightarrow> bool" where
  "timestamp_consistent report \<longleftrightarrow>
     (vr_timestamp_checked report \<longrightarrow>
        vr_timestamp_status report \<in> {''timestamp-valid'', ''timestamp-invalid'', ''timestamp-partial''}
        \<and> (vr_timestamp_valid report \<longleftrightarrow> vr_timestamp_status report = ''timestamp-valid''))"

lemma details_verdict_consistent:
  "vr_timestamp_details report \<noteq> [] \<Longrightarrow> timestamp_consistent (ApplyTimestampDetailsVerdict report)"
  by (auto simp: ApplyTimestampDetailsVerdict_def timestamp_consistent_def Let_def)

lemma format_verdict_consistent: "timestamp_consistent (ApplyFormatTimestampVerdict report crypto_valid canonical_full)"
  using details_verdict_consistent [of report]
  by (auto simp: ApplyFormatTimestampVerdict_def timestamp_consistent_def)

lemmas timestamp_frame_defs = ApplyTimestampFailureToTrust_def AppendVerifyReportNote_def AppendContainerTimestampMessage_def
  AppendXadesTimestampMessage_def CommitVerifyOutcome_def ApplyPerSignerTrustAggregation_def Let_def

lemma other_writers_consistent:
  assumes "timestamp_consistent report"
  shows "timestamp_consistent (ApplyTimestampFailureToTrust report)"
    "timestamp_consistent (AppendContainerTimestampMessage report message)"
    "timestamp_consistent (AppendXadesTimestampMessage report message)"
    "timestamp_consistent (CommitVerifyOutcome report outcome)"
    "timestamp_consistent (ApplyPerSignerTrustAggregation report)"
  using assms by (simp_all add: timestamp_frame_defs timestamp_consistent_def)

lemma project_timestamp_details:
  "vr_timestamp_details (project_trust ve) = []" "vr_timestamp_checked (project_trust ve) = False"
  "vr_timestamp_details (project_revocation rr report) = vr_timestamp_details report"
  "vr_timestamp_checked (project_revocation rr report) = vr_timestamp_checked report"
  by (simp_all add: project_trust_def project_revocation_def default_report_def Let_def split: list.split)

lemma project_error_frame:
  "vr_timestamp_checked (project_error d report) = vr_timestamp_checked report"
  "vr_timestamp_valid (project_error d report) = vr_timestamp_valid report"
  "vr_timestamp_status (project_error d report) = vr_timestamp_status report"
  "vr_timestamp_details (project_error d report) = vr_timestamp_details report"
  "vr_trust_checked (project_error d report) = vr_trust_checked report"
  "vr_trust_valid (project_error d report) = vr_trust_valid report"
  "vr_trust_status (project_error d report) = vr_trust_status report"
  "vr_revocation_checked (project_error d report) = vr_revocation_checked report"
  "vr_revocation_status (project_error d report) = vr_revocation_status report"
  "vr_historical_trust_used (project_error d report) = vr_historical_trust_used report"
  by (simp_all add: project_error_def split: OverallStatus.split)

lemma projection_consistent: "timestamp_consistent (ProjectVerifyReport meta ve_report)"
proof (cases "rep_timestamp_attempted ve_report")
  case True
  then have "timestamp_consistent (project_timestamp meta ve_report report)" for report
    unfolding project_timestamp_def by (simp add: details_verdict_consistent)
  then show ?thesis by (simp add: ProjectVerifyReport_def timestamp_consistent_def project_error_frame)
next
  case False
  then show ?thesis
    by (simp add: ProjectVerifyReport_def timestamp_consistent_def project_error_frame project_timestamp_def
        project_timestamp_details)
qed

lemma engine_report_consistent: "timestamp_consistent (ApplyValidationEngineReport meta ve_report report)"
  using projection_consistent [of meta ve_report]
  by (simp add: ApplyValidationEngineReport_def timestamp_consistent_def Let_def)

text \<open>
  C36. Five blocks of a report never contradict its summary. For a report whose timestamp fields
  agree (the writers of this theory keep them so), the summary is \<open>valid\<close> exactly when the policy
  decision is positive, the document is covered, the container is sound and there is no warning;
  then the blocks for the signature, trust, revocation and policy are \<open>valid\<close> too and the one for the
  timestamp is \<open>valid\<close> or \<open>skipped\<close>. A document with unsigned content, a broken container or a
  negative policy decision is never summarised as \<open>valid\<close>. Nothing is claimed of the blocks for the certificate and for
  long-term evidence: the summary does not look at the fields of the certificate block, whatever they are.
\<close>

theorem report_blocks_consistent:
  assumes "timestamp_consistent report"
  shows "(fst (SummaryCheck report) = ''valid'' \<longleftrightarrow>
      vd_valid (ComputeVerifyPolicyDecision report) \<and> vr_container_coverage_complete report
      \<and> \<not> vr_container_malformed report \<and> \<not> HasPolicyWarning report)
    \<and> (fst (SummaryCheck report) = ''valid'' \<longrightarrow>
      fst (SignatureCheck report) = ''valid'' \<and> fst (TrustCheck report) = ''valid''
      \<and> fst (RevocationCheck report) = ''valid'' \<and> fst (PolicyCheck report) = ''valid''
      \<and> fst (TimestampCheck report) \<in> {''valid'', ''skipped''}
      \<and> ComputeVerifySummary report \<in> {''integrity-trust-revocation-and-timestamp'', ''integrity-trust-and-revocation''})
    \<and> SummaryCheck (report\<lparr>vr_signer_certificate_present := present, vr_certificate_time_valid := timely\<rparr>) = SummaryCheck report"
proof -
  have base: "vd_valid (ComputeVerifyPolicyDecision report) \<Longrightarrow> policy_base_valid report" by (simp add: decision_valid_iff)
  have iff: "fst (SummaryCheck report) = ''valid'' \<longleftrightarrow>
      vd_valid (ComputeVerifyPolicyDecision report) \<and> vr_container_coverage_complete report
      \<and> \<not> vr_container_malformed report \<and> \<not> HasPolicyWarning report"
    using base by (auto simp: SummaryCheck_def Let_def policy_base_valid_def)
  moreover have "fst (SignatureCheck report) = ''valid'' \<and> fst (TrustCheck report) = ''valid''
      \<and> fst (RevocationCheck report) = ''valid'' \<and> fst (PolicyCheck report) = ''valid''
      \<and> fst (TimestampCheck report) \<in> {''valid'', ''skipped''}
      \<and> ComputeVerifySummary report \<in> {''integrity-trust-revocation-and-timestamp'', ''integrity-trust-and-revocation''}"
    if valid: "vd_valid (ComputeVerifyPolicyDecision report)" "vr_container_coverage_complete report"
      "\<not> vr_container_malformed report" "\<not> HasPolicyWarning report"
  proof -
    note p = base [OF valid(1), unfolded policy_base_valid_def revocation_confirmed_def]
    note w = valid(4) [unfolded HasPolicyWarning_def]
    have t: "vr_timestamp_status report \<noteq> ''timestamp-invalid''" "vr_trust_status report \<noteq> ''timestamp-invalid''"
      using valid(1) by (simp_all add: decision_valid_iff)
    then have "fst (TimestampCheck report) \<in> {''valid'', ''skipped''}"
      using assms w by (auto simp: TimestampCheck_def timestamp_consistent_def)
    moreover have "fst (SignatureCheck report) = ''valid''" "fst (TrustCheck report) = ''valid''"
      "fst (RevocationCheck report) = ''valid''" "fst (PolicyCheck report) = ''valid''"
      using p w valid by (auto simp: SignatureCheck_def TrustCheck_def RevocationCheck_def PolicyCheck_def)
    moreover have "ComputeVerifySummary report \<in> {''integrity-trust-revocation-and-timestamp'', ''integrity-trust-and-revocation''}"
      using p w t valid(2,3) by (auto simp: ComputeVerifySummary_def revocation_confirmed_def)
    ultimately show ?thesis by blast
  qed
  moreover have "SummaryCheck (report\<lparr>vr_signer_certificate_present := present, vr_certificate_time_valid := timely\<rparr>) = SummaryCheck report"
    (is "SummaryCheck ?r = _")
  proof -
    have p: "policy_base_valid ?r = policy_base_valid report" "HasPolicyWarning ?r = HasPolicyWarning report"
      by (simp_all add: policy_base_valid_def revocation_confirmed_def HasPolicyWarning_def)
    have "ComputeVerifySummary ?r = ComputeVerifySummary report"
      unfolding ComputeVerifySummary_def revocation_confirmed_def by (simp cong: if_cong)
    then have d: "ComputeVerifyPolicyDecision ?r = ComputeVerifyPolicyDecision report" unfolding ComputeVerifyPolicyDecision_def p by (simp cong: if_cong)
    show ?thesis unfolding SummaryCheck_def p d by (simp cong: if_cong)
  qed
  ultimately show ?thesis by blast
qed

text \<open>A committed report of a fully valid signature without a timestamp.\<close>

definition sample_good_report :: VerifyReport where
  "sample_good_report =
     default_report\<lparr>vr_has_result := True, vr_execution_succeeded := True, vr_signature_valid := True,
       vr_trust_checked := True, vr_trust_valid := True, vr_trust_status := ''trusted'',
       vr_revocation_checked := True, vr_revocation_status := ''valid''\<rparr>"

theorem report_blocks_consistent_witness:
  "timestamp_consistent sample_good_report \<and> SummaryCheck sample_good_report = (''valid'', ''SIGNATURE_VALID'')
   \<and> fst (RevocationCheck sample_good_report) = ''valid''"
proof -
  have c: "timestamp_consistent sample_good_report" by code_simp
  have "SummaryCheck sample_good_report = (''valid'', ''SIGNATURE_VALID'')" by code_simp
  with report_blocks_consistent [OF c] c show ?thesis by simp
qed

section \<open>From the engine's verdict to the public one\<close>

lemma project_trust_fields:
  "vr_trust_checked (project_trust ve)" "vr_trust_valid (project_trust ve) = dec_trust_valid (rep_decision ve)"
  "vr_trust_status (project_trust ve) = dec_trust_status (rep_decision ve)"
  "vr_revocation_checked (project_trust ve) \<longleftrightarrow>
     rr_ocsp_attempted (rep_signer_revocation ve) \<or> rr_crl_attempted (rep_signer_revocation ve)"
  "vr_revocation_status (project_trust ve) = CanonicalRevocationStatusString (rr_revocation_status (rep_signer_revocation ve))"
  by (simp_all add: project_trust_def Let_def)

lemma project_revocation_fields:
  "vr_trust_checked (project_revocation rr report) = vr_trust_checked report"
  "vr_revocation_checked (project_revocation rr report) = vr_revocation_checked report"
  "vr_revocation_status (project_revocation rr report) = vr_revocation_status report"
  "vr_trust_valid (project_revocation rr report) \<longleftrightarrow> vr_trust_valid report
     \<and> \<not> (rr_overall_status rr \<noteq> Overall_Valid \<and> rr_revocation_status rr \<in> {Rev_Invalid, Rev_Revoked})"
  "vr_trust_status (project_revocation rr report) =
     (if rr_overall_status rr \<noteq> Overall_Valid \<and> rr_revocation_status rr = Rev_Invalid then ''revocation-check-invalid''
      else if rr_overall_status rr \<noteq> Overall_Valid \<and> rr_revocation_status rr = Rev_Revoked then ''certificate-revoked''
      else vr_trust_status report)"
  by (simp_all add: project_revocation_def Let_def split: list.split)

lemma project_timestamp_fields:
  "vr_trust_checked (project_timestamp meta ve report) = vr_trust_checked report"
  "vr_trust_valid (project_timestamp meta ve report) = vr_trust_valid report"
  "vr_trust_status (project_timestamp meta ve report) = vr_trust_status report"
  "vr_revocation_checked (project_timestamp meta ve report) = vr_revocation_checked report"
  "vr_revocation_status (project_timestamp meta ve report) = vr_revocation_status report"
  "vr_timestamp_details (project_timestamp meta ve report) =
     (if rep_timestamp_attempted ve then vr_timestamp_details report @ [ProjectTimestampResult meta (rep_timestamp ve)]
      else vr_timestamp_details report)"
  by (simp_all add: project_timestamp_def ApplyTimestampDetailsVerdict_def Let_def)

lemma project_timestamp_status:
  "vr_timestamp_details report = [] \<Longrightarrow>
    vr_timestamp_status (project_timestamp meta ve report) = ''timestamp-invalid'' \<longleftrightarrow>
      rep_timestamp_attempted ve \<and> timestamp_entry_status (rep_timestamp ve) = ''timestamp-invalid''"
proof -
  assume none: "vr_timestamp_details report = []"
  have "tn_status (ProjectTimestampResult meta (rep_timestamp ve)) = timestamp_entry_status (rep_timestamp ve)"
    by (simp add: ProjectTimestampResult_def Let_def split: option.split)
  then show ?thesis using none by (simp add: project_timestamp_def ApplyTimestampDetailsVerdict_def Let_def)
qed

lemmas projected_fields = project_trust_fields project_revocation_fields project_timestamp_fields project_timestamp_status
  project_error_frame project_timestamp_details

lemma ApplyValidationEngineReport_fields:
  "vr_has_result (ApplyValidationEngineReport meta ve report) = vr_has_result report"
  "vr_execution_succeeded (ApplyValidationEngineReport meta ve report) = vr_execution_succeeded report"
  "vr_signature_valid (ApplyValidationEngineReport meta ve report) = vr_signature_valid report"
  "vr_container_malformed (ApplyValidationEngineReport meta ve report) = vr_container_malformed report"
  "vr_container_coverage_complete (ApplyValidationEngineReport meta ve report) = vr_container_coverage_complete report"
  "vr_trust_checked (ApplyValidationEngineReport meta ve report) = vr_trust_checked (ProjectVerifyReport meta ve)"
  "vr_trust_valid (ApplyValidationEngineReport meta ve report) = vr_trust_valid (ProjectVerifyReport meta ve)"
  "vr_trust_status (ApplyValidationEngineReport meta ve report) = vr_trust_status (ProjectVerifyReport meta ve)"
  "vr_revocation_checked (ApplyValidationEngineReport meta ve report) = vr_revocation_checked (ProjectVerifyReport meta ve)"
  "vr_revocation_status (ApplyValidationEngineReport meta ve report) = vr_revocation_status (ProjectVerifyReport meta ve)"
  "vr_timestamp_status (ApplyValidationEngineReport meta ve report) = vr_timestamp_status (ProjectVerifyReport meta ve)"
  "vr_timestamp_details (ApplyValidationEngineReport meta ve report) = vr_timestamp_details (ProjectVerifyReport meta ve)"
  "vr_error_code (ApplyValidationEngineReport meta ve report) = vr_error_code (ProjectVerifyReport meta ve)"
  by (simp_all add: ApplyValidationEngineReport_def Let_def)

lemma confirmed_iff_Good: "revocation_confirmed (CanonicalRevocationStatusString status) \<longleftrightarrow> status = Rev_Good"
  by (cases status) (simp_all add: revocation_confirmed_def)

definition outage_or_timestamp_status :: "string set" where
  "outage_or_timestamp_status =
     {''timestamp-invalid'', ''timestamp-not-fully-validated'', ''ocsp-responder-unavailable'', ''tsp-responder-unavailable''}"

lemma engine_report_decision:
  assumes "vr_has_result report" "vr_execution_succeeded report"
  shows "vd_valid (ComputeVerifyPolicyDecision (ApplyValidationEngineReport meta ve report)) \<longleftrightarrow>
    vr_signature_valid report \<and> dec_trust_valid (rep_decision ve)
    \<and> rr_revocation_status (rep_signer_revocation ve) = Rev_Good
    \<and> (rr_ocsp_attempted (rep_signer_revocation ve) \<or> rr_crl_attempted (rep_signer_revocation ve))
    \<and> dec_trust_status (rep_decision ve) \<notin> outage_or_timestamp_status
    \<and> (rep_timestamp_attempted ve \<longrightarrow>
         (te_valid (rep_timestamp ve) \<or> te_policy_acceptable (rep_timestamp ve))
         \<and> timestamp_entry_status (rep_timestamp ve) \<noteq> ''timestamp-invalid'')"
proof -
  have entry: "tn_valid (ProjectTimestampResult meta r) = te_valid r"
    "tn_policy_acceptable (ProjectTimestampResult meta r) = te_policy_acceptable r" for r
    by (simp_all add: ProjectTimestampResult_def Let_def split: option.split)
  show ?thesis
    unfolding decision_valid_iff policy_base_valid_def ApplyValidationEngineReport_fields ProjectVerifyReport_def
      projected_fields outage_or_timestamp_status_def confirmed_iff_Good
    using assms by (auto simp: entry projected_fields)
qed

text \<open>
  C38. A certificate that was revoked after the signature is judged differently by the engine and
  by the public report. The engine accepts the signature and the projection keeps the report
  trusted, with no error and the engine's trust status; but the revocation status is \<open>revoked\<close>,
  so the policy decision is negative and the summary says \<open>CERTIFICATE_REVOKED\<close>.
\<close>

theorem late_revocation_rejected:
  assumes "rr_overall_status (rep_signer_revocation ve) = Overall_Valid"
    and "rr_revocation_status (rep_signer_revocation ve) = Rev_Revoked"
    and "dec_overall_status (rep_decision ve) = Overall_Valid" "dec_trust_valid (rep_decision ve)"
    and "vr_has_result report" "vr_execution_succeeded report" "vr_signature_valid report"
      "vr_container_coverage_complete report" "\<not> vr_container_malformed report"
  shows "vr_trust_valid (ApplyValidationEngineReport meta ve report)
    \<and> vr_trust_status (ApplyValidationEngineReport meta ve report) = dec_trust_status (rep_decision ve)
    \<and> vr_error_code (ApplyValidationEngineReport meta ve report) = Err_None
    \<and> \<not> vd_valid (ComputeVerifyPolicyDecision (ApplyValidationEngineReport meta ve report))
    \<and> SummaryCheck (ApplyValidationEngineReport meta ve report) = (''invalid'', ''CERTIFICATE_REVOKED'')"
proof -
  let ?r = "ApplyValidationEngineReport meta ve report"
  have d: "\<not> vd_valid (ComputeVerifyPolicyDecision ?r)"
    using engine_report_decision [OF assms(5,6)] assms(2) by simp
  have f: "vr_trust_valid ?r" "vr_trust_status ?r = dec_trust_status (rep_decision ve)" "vr_revocation_status ?r = ''revoked''"
    using assms(1,2,4) by (simp_all add: ApplyValidationEngineReport_fields ProjectVerifyReport_def projected_fields)
  have "vr_error_code (project_trust ve) = Err_None" by (simp add: project_trust_def default_report_def Let_def)
  then have "vr_error_code (project_revocation (rep_signer_revocation ve) (project_trust ve)) = Err_None"
    using assms(1) by (simp add: project_revocation_def Let_def split: list.split)
  then have "vr_error_code ?r = Err_None"
    using assms(3) by (simp add: ApplyValidationEngineReport_fields ProjectVerifyReport_def project_error_def
        project_timestamp_def ApplyTimestampDetailsVerdict_def Let_def)
  moreover have "SummaryCheck ?r = (''invalid'', ''CERTIFICATE_REVOKED'')"
    using d f(3) assms(5-9) by (simp add: SummaryCheck_def ApplyValidationEngineReport_fields Let_def)
  ultimately show ?thesis using d f by simp
qed

text \<open>The report of the engine for a trusted signer whose certificate was revoked later.\<close>

definition sample_late_report :: ValidationReport where
  "sample_late_report =
     \<lparr>rep_decision = default_decision\<lparr>dec_overall_status := Overall_Valid, dec_signature_valid := True,
        dec_trust_valid := True, dec_trust_status := ''trusted-anchor-validated''\<rparr>,
      rep_path_selection = \<lparr>sel_index = Some 0, sel_result = default_path_result\<lparr>pr_trusted := True\<rparr>, sel_reason = []\<rparr>,
      rep_trust_service = default_trust_service,
      rep_signer_revocation = default_revocation_result\<lparr>rr_overall_status := Overall_Valid,
        rr_revocation_status := Rev_Revoked, rr_crl_attempted := True\<rparr>,
      rep_timestamp = default_timestamp_result, rep_timestamp_attempted = False,
      rep_signing_time_resolution = default_resolution, rep_evidence = Map.empty\<rparr>"

theorem late_revocation_rejected_witness:
  "vr_trust_valid (ApplyValidationEngineReport (\<lambda>_. None) sample_late_report sample_good_report)
   \<and> SummaryCheck (ApplyValidationEngineReport (\<lambda>_. None) sample_late_report sample_good_report) = (''invalid'', ''CERTIFICATE_REVOKED'')"
  using late_revocation_rejected [of sample_late_report sample_good_report "\<lambda>_. None"]
  by (simp add: sample_late_report_def sample_good_report_def default_report_def)

section \<open>One bad signer spoils the verdict\<close>

lemma representative_index: "signatures \<noteq> [] \<Longrightarrow> representative_signer signatures < length signatures"
  by (auto simp: representative_signer_def dest: find_index_SomeD(1) split: option.split)

lemma representative_untrusted:
  assumes "\<not> list_all se_trust_valid signatures"
  shows "\<not> se_trust_valid (signatures ! representative_signer signatures)"
proof -
  obtain i where "find_index (\<lambda>e. \<not> se_trust_valid e) signatures = Some i"
    using assms find_index_None_iff [of "\<lambda>e. \<not> se_trust_valid e" signatures]
    by (cases "find_index (\<lambda>e. \<not> se_trust_valid e) signatures") (auto simp: list_all_iff)
  then show ?thesis using find_index_SomeD(2) by (fastforce simp: representative_signer_def)
qed

lemma representative_unconfirmed:
  assumes "list_all se_trust_valid signatures" "signatures \<noteq> []"
  shows "revocation_confirmed (se_revocation_status (signatures ! representative_signer signatures)) \<longleftrightarrow>
    list_all (\<lambda>e. revocation_confirmed (se_revocation_status e)) signatures"
proof -
  have none: "find_index (\<lambda>e. \<not> se_trust_valid e) signatures = None" using assms(1) by (auto simp: list_all_iff find_index_None_iff)
  show ?thesis
  proof (cases "find_index (\<lambda>e. \<not> revocation_confirmed (se_revocation_status e)) signatures")
    case None
    then have "list_all (\<lambda>e. revocation_confirmed (se_revocation_status e)) signatures"
      by (auto simp: find_index_None_iff list_all_iff)
    moreover from this have "revocation_confirmed (se_revocation_status (signatures ! 0))"
      using assms(2) by (simp add: list_all_length)
    ultimately show ?thesis using none None by (simp add: representative_signer_def)
  next
    case (Some i)
    note i = find_index_SomeD(1,2) [OF Some]
    then have "\<not> list_all (\<lambda>e. revocation_confirmed (se_revocation_status e)) signatures" by (auto simp: list_all_length)
    then show ?thesis using i(2) none Some by (simp add: representative_signer_def)
  qed
qed

text \<open>
  C37. The aggregation over several signers is a conjunction. The combined report can carry a
  positive verdict only if every single signer is trusted, was checked for revocation and is
  confirmed as not revoked; and its texts come from one of the signers, from an untrusted one if
  there is any, and otherwise from one whose revocation is not confirmed if there is any.
\<close>

theorem aggregation_all_signers:
  assumes "vr_signatures report \<noteq> []"
  shows "(policy_base_valid (ApplyPerSignerTrustAggregation report) \<longleftrightarrow>
      vr_has_result report \<and> vr_execution_succeeded report \<and> vr_signature_valid report
      \<and> list_all (\<lambda>e. se_trust_checked e \<and> se_trust_valid e \<and> se_revocation_checked e
          \<and> revocation_confirmed (se_revocation_status e)) (vr_signatures report))
    \<and> (\<exists>e \<in> set (vr_signatures report).
        vr_trust_status (ApplyPerSignerTrustAggregation report) = se_trust_status e
        \<and> vr_revocation_status (ApplyPerSignerTrustAggregation report) = se_revocation_status e
        \<and> vr_error_code (ApplyPerSignerTrustAggregation report) = se_error_code e
        \<and> (\<not> list_all se_trust_valid (vr_signatures report) \<longrightarrow> \<not> se_trust_valid e)
        \<and> (list_all se_trust_valid (vr_signatures report) \<longrightarrow>
             revocation_confirmed (se_revocation_status e)
             = list_all (\<lambda>e. revocation_confirmed (se_revocation_status e)) (vr_signatures report)))"
proof -
  let ?r = "ApplyPerSignerTrustAggregation report" and ?ss = "vr_signatures report"
  let ?e = "?ss ! representative_signer ?ss"
  have f: "vr_has_result ?r = vr_has_result report" "vr_execution_succeeded ?r = vr_execution_succeeded report"
    "vr_signature_valid ?r = vr_signature_valid report" "vr_trust_checked ?r = list_all se_trust_checked ?ss"
    "vr_trust_valid ?r = list_all se_trust_valid ?ss" "vr_revocation_checked ?r = list_all se_revocation_checked ?ss"
    "vr_trust_status ?r = se_trust_status ?e" "vr_revocation_status ?r = se_revocation_status ?e" "vr_error_code ?r = se_error_code ?e"
    using assms by (simp_all add: ApplyPerSignerTrustAggregation_def Let_def)
  have "policy_base_valid ?r \<longleftrightarrow> vr_has_result report \<and> vr_execution_succeeded report \<and> vr_signature_valid report
      \<and> list_all (\<lambda>e. se_trust_checked e \<and> se_trust_valid e \<and> se_revocation_checked e
          \<and> revocation_confirmed (se_revocation_status e)) ?ss"
    unfolding policy_base_valid_def f using representative_unconfirmed [OF _ assms] by (auto simp: list_all_iff)
  moreover have "?e \<in> set ?ss" using representative_index [OF assms] by simp
  ultimately show ?thesis
    using f(7-9) representative_untrusted [of ?ss] representative_unconfirmed [OF _ assms] by (intro conjI bexI [of _ ?e]) auto
qed

definition sample_two_signers :: VerifyReport where
  "sample_two_signers = sample_good_report\<lparr>vr_signatures :=
     [default_signature_entry\<lparr>se_trust_checked := True, se_trust_valid := True, se_trust_status := ''trusted''\<rparr>,
      default_signature_entry\<lparr>se_trust_checked := True, se_trust_status := ''untrusted-chain''\<rparr>]\<rparr>"

theorem aggregation_all_signers_witness:
  "vr_trust_status (ApplyPerSignerTrustAggregation sample_two_signers) = ''untrusted-chain''
   \<and> \<not> policy_base_valid (ApplyPerSignerTrustAggregation sample_two_signers)"
proof -
  have "vr_signatures sample_two_signers \<noteq> []"
    "vr_trust_status (ApplyPerSignerTrustAggregation sample_two_signers) = ''untrusted-chain''"
    "\<not> list_all se_trust_valid (vr_signatures sample_two_signers)"
    by code_simp+
  with aggregation_all_signers [OF this(1)] show ?thesis by (auto simp: list_all_iff)
qed

end
