(* ===== verification/Report_Json.thy ===== *)
theory Report_Json
  imports Json Verify_Report
begin

text \<open>
  The two public reports as JSON: the sections (\<open>core/policy/VerifyReportJson.cpp\<close>), the user report
  (\<open>core/policy/UserReportBuilder.cpp\<close>) and the technical report
  (\<open>GetLastVerifyReport\<close> in \<open>core/session/SessionCertificateOps.ipp\<close>). A writer to the stream is the
  text it appends; \<open>jkey\<close>, \<open>jstr\<close> and \<open>jbool\<close> stand for the literal fragments around a value. The text of
  the debug trace, which the report's model leaves out, is an argument of the technical report.
\<close>

section \<open>Fragments and messages\<close>

definition jkey :: "string \<Rightarrow> string" where
  "jkey name = quote # name @ [quote, CHR '':'']"

definition jstr :: "string \<Rightarrow> string \<Rightarrow> string" where
  "jstr name text = jkey name @ quote # text @ [quote]"

definition jbool :: "string \<Rightarrow> bool \<Rightarrow> string" where
  "jbool name b = jkey name @ BoolJson b"

datatype MessageStyle = Style_None | Style_Bilingual

fun ErrorCodeName :: "ErrorCode \<Rightarrow> string" where
  "ErrorCodeName Err_None = ''None''"
| "ErrorCodeName Err_NotInitialized = ''NotInitialized''"
| "ErrorCodeName Err_SettingsRequired = ''SettingsRequired''"
| "ErrorCodeName Err_KeyNotLoaded = ''KeyNotLoaded''"
| "ErrorCodeName Err_InvalidArgument = ''InvalidArgument''"
| "ErrorCodeName Err_InternalError = ''InternalError''"
| "ErrorCodeName Err_NotSupported = ''NotSupported''"
| "ErrorCodeName Err_GuiNotAvailable = ''GuiNotAvailable''"
| "ErrorCodeName Err_TrustValidationFailed = ''TrustValidationFailed''"
| "ErrorCodeName Err_RevocationCheckFailed = ''RevocationCheckFailed''"
| "ErrorCodeName Err_OnlineServiceUnavailable = ''OnlineServiceUnavailable''"
| "ErrorCodeName Err_TimestampValidationFailed = ''TimestampValidationFailed''"
| "ErrorCodeName Err_PolicyValidationFailed = ''PolicyValidationFailed''"

text \<open>The table of messages in English; the Ukrainian text has the prefix of the development's convention.\<close>

definition message_table :: "(string \<times> string) list" where
  "message_table =
     [(''SIGNATURE_VALID'', ''Electronic signature is valid.''),
      (''SIGNATURE_VALID_WITH_WARNINGS'', ''Electronic signature is valid with warnings.''),
      (''SIGNATURE_INTEGRITY_ONLY'', ''Signature integrity is confirmed, but full policy validation is incomplete.''),
      (''SIGNATURE_CRYPTOGRAPHICALLY_VALID'', ''Signature is cryptographically valid.''),
      (''SIGNATURE_CRYPTOGRAPHICALLY_INVALID'', ''Signature cryptographic validation failed.''),
      (''SIGNATURE_INVALID'', ''Signature cryptographic validation failed.''),
      (''CONTAINER_COVERAGE_INCOMPLETE'', ''Signature does not cover the whole document: part of the content is unsigned.''),
      (''CONTAINER_MALFORMED'', ''Container structure is malformed and cannot be processed; request a new copy from the sender.''),
      (''VERIFICATION_EXECUTION_FAILED'', ''Signature verification could not be completed.''),
      (''NOT_EXECUTED'', ''Signature verification has not been executed yet.''),
      (''CERTIFICATE_VALID_AT_VALIDATION_TIME'', ''Signer certificate is valid at the selected validation time.''),
      (''CERTIFICATE_INVALID_AT_VALIDATION_TIME'', ''Signer certificate is not valid at the selected validation time.''),
      (''SIGNER_CERTIFICATE_MISSING'', ''Signer certificate is not available in the signature evidence.''),
      (''TRUST_VALID'', ''Certificate chain is trusted.''),
      (''TRUST_VALID_HISTORICAL'', ''Certificate chain is trusted using historical trust evidence.''),
      (''TRUST_INVALID'', ''Certificate chain is not trusted.''),
      (''TRUST_NOT_CHECKED'', ''Trust validation was not performed.''),
      (''REVOCATION_VALID'', ''Certificate revocation status is valid.''),
      (''CERTIFICATE_REVOKED'', ''Signer certificate is revoked.''),
      (''REVOCATION_INVALID'', ''Revocation data is invalid.''),
      (''REVOCATION_UNAVAILABLE'', ''Revocation service is temporarily unavailable.''),
      (''REVOCATION_UNKNOWN'', ''Certificate revocation status is unknown.''),
      (''TIMESTAMP_VALID'', ''Trusted timestamp is valid.''),
      (''TIMESTAMP_NOT_FULLY_VALIDATED'', ''Timestamp evidence is present but not fully validated.''),
      (''TIMESTAMP_INVALID'', ''Timestamp validation failed.''),
      (''TIMESTAMP_NOT_CHECKED'', ''Timestamp validation was not performed.''),
      (''LTV_VALID'', ''Long-term validation evidence is valid.''),
      (''LTV_EVIDENCE_UNAVAILABLE'', ''Long-term validation evidence is unavailable or incomplete.''),
      (''POLICY_VALID'', ''Validation policy requirements are satisfied.''),
      (''HISTORICAL_TRUST_USED'', ''Historical trust evidence was used.''),
      (''ONLINE_SERVICE_UNAVAILABLE'', ''One or more online validation services are unavailable.''),
      (''REVOCATION_STATUS_UNKNOWN'', ''Revocation status could not be confirmed completely.''),
      (''POLICY_INVALID'', ''Validation policy requirements are not satisfied.'')]"

definition MessageForCode :: "string \<Rightarrow> string \<times> string" where
  "MessageForCode c =
     (case map_of message_table c of
        Some en \<Rightarrow> (en, ''uk: '' @ en)
      | None \<Rightarrow> (''Check was not performed or is not applicable.'', ''uk: Check was not performed or is not applicable.''))"

definition WriteMessage :: "string \<Rightarrow> string" where
  "WriteMessage c =
     '','' @ jkey ''message'' @ ''{'' @ jstr ''en'' (EscapeJson (fst (MessageForCode c))) @ '',''
       @ jstr ''uk'' (EscapeJson (snd (MessageForCode c))) @ ''}''"

text \<open>The flag \<open>first\<close> of the source is the last argument, its new value the first part of the result.\<close>

definition WriteWarning :: "MessageStyle \<Rightarrow> string \<Rightarrow> bool \<Rightarrow> bool \<times> string" where
  "WriteWarning style c first =
     (False, (if \<not> first then '','' else []) @ ''{'' @ jstr ''code'' c
        @ (if style = Style_Bilingual then WriteMessage c else []) @ ''}'')"

definition WriteStringOrNull :: "string \<Rightarrow> string" where
  "WriteStringOrNull value = (if value = [] then ''null'' else quote # EscapeJson value @ [quote])"

definition OrFallback :: "string \<Rightarrow> string \<Rightarrow> string" where
  "OrFallback value fallback = (if value = [] then fallback else value)"

record FormatFallbacks =
  fb_signature_format :: string
  fb_container_type :: string

section \<open>Sections\<close>

definition WriteCheckFields :: "VerifyCheck \<Rightarrow> MessageStyle \<Rightarrow> string" where
  "WriteCheckFields check style =
     jstr ''status'' (fst check) @ '','' @ jstr ''code'' (snd check)
       @ (if style = Style_Bilingual then WriteMessage (snd check) else [])"

definition WriteSummarySection :: "VerifyReport \<Rightarrow> MessageStyle \<Rightarrow> string" where
  "WriteSummarySection report style =
     jkey ''summary'' @ ''{'' @ WriteCheckFields (SummaryCheck report) style @ '',''
       @ jstr ''summaryCode'' (EscapeJson (ComputeVerifySummary report)) @ ''},''"

definition WriteSignatureSection :: "VerifyReport \<Rightarrow> FormatFallbacks \<Rightarrow> string option \<Rightarrow> MessageStyle \<Rightarrow> string" where
  "WriteSignatureSection report fallbacks validated_profile style =
     jkey ''signature'' @ ''{'' @ WriteCheckFields (SignatureCheck report) style
       @ '','' @ jstr ''format'' (EscapeJson (OrFallback (vr_signature_format report) (fb_signature_format fallbacks)))
       @ '','' @ jstr ''profile'' (EscapeJson (vr_format_profile report))
       @ (case validated_profile of None \<Rightarrow> [] | Some profile \<Rightarrow> '','' @ jstr ''validatedProfile'' (EscapeJson profile))
       @ '','' @ jstr ''coverageStatus'' (EscapeJson (vr_coverage_status report))
       @ '','' @ jstr ''containerType'' (EscapeJson (OrFallback (vr_container_type report) (fb_container_type fallbacks))) @ ''},''"

definition WriteCertificateSection ::
    "VerifyReport \<Rightarrow> bool option \<Rightarrow> CertificateMetadata option \<Rightarrow> MessageStyle \<Rightarrow> string" where
  "WriteCertificateSection report qualifying_properties_present signer_metadata style =
     jkey ''certificate'' @ ''{'' @ WriteCheckFields (CertificateCheck report) style
       @ '','' @ jstr ''validationTimeSource'' (vr_validation_time_source report)
       @ '','' @ jbool ''present'' (vr_signer_certificate_present report)
       @ (case qualifying_properties_present of None \<Rightarrow> [] | Some b \<Rightarrow> '','' @ jbool ''qualifyingPropertiesPresent'' b)
       @ '','' @ jbool ''timeValid'' (vr_certificate_time_valid report)
       @ '','' @ jkey ''chain'' @ ''{'' @ jbool ''checked'' (vr_chain_checked report)
       @ '','' @ jbool ''valid'' (vr_chain_valid report) @ ''}''
       @ (case signer_metadata of
            None \<Rightarrow> []
          | Some m \<Rightarrow>
              '','' @ jkey ''subject'' @ WriteStringOrNull (cm_common_name m)
              @ '','' @ jkey ''issuer'' @ WriteStringOrNull (cm_issuer m)
              @ '','' @ jkey ''serialNumber'' @ WriteStringOrNull (cm_serial_number_hex m)
              @ '','' @ jkey ''organization'' @ WriteStringOrNull (cm_organization m)
              @ '','' @ jkey ''country'' @ WriteStringOrNull (cm_country m))
       @ ''},''"

definition WriteTrustSection :: "VerifyReport \<Rightarrow> MessageStyle \<Rightarrow> string" where
  "WriteTrustSection report style =
     jkey ''trust'' @ ''{'' @ WriteCheckFields (TrustCheck report) style
       @ '','' @ jbool ''checked'' (vr_trust_checked report)
       @ '','' @ jbool ''valid'' (vr_trust_valid report)
       @ '','' @ jstr ''mode'' (EscapeJson (vr_trust_mode report))
       @ '','' @ jstr ''reason'' (EscapeJson (vr_trust_reason report))
       @ '','' @ jstr ''trustStatus'' (EscapeJson (vr_trust_status report))
       @ '','' @ jbool ''historicalTrustUsed'' (vr_historical_trust_used report)
       @ '','' @ jkey ''historicalAnchor'' @ ''{'' @ jstr ''subject'' (EscapeJson (vr_historical_anchor_subject report))
       @ '','' @ jstr ''serial'' (EscapeJson (vr_historical_anchor_serial report)) @ ''}},''"

definition WriteRevocationSection :: "VerifyReport \<Rightarrow> MessageStyle \<Rightarrow> string" where
  "WriteRevocationSection report style =
     jkey ''revocation'' @ ''{'' @ WriteCheckFields (RevocationCheck report) style
       @ '','' @ jbool ''checked'' (vr_revocation_checked report)
       @ '','' @ jbool ''ocspChecked'' (vr_ocsp_checked report)
       @ '','' @ jbool ''crlChecked'' (vr_revocation_checked report \<and> \<not> vr_ocsp_checked report)
       @ '','' @ jbool ''evidencePresent'' (vr_revocation_evidence_present report)
       @ '','' @ jstr ''revocationStatus'' (EscapeJson (vr_revocation_status report)) @ ''},''"

definition write_strings :: "string \<Rightarrow> string list \<Rightarrow> string" where
  "write_strings name values =
     '','' @ jkey name @ ''['' @ join_commas (map (\<lambda>value. quote # EscapeJson value @ [quote]) values) @ '']''"

definition write_timestamp_detail :: "TimestampEntry \<Rightarrow> string" where
  "write_timestamp_detail detail =
     ''{'' @ jkey ''signatureIndex'' @ to_string (tn_signature_index detail)
       @ '','' @ jstr ''kind'' (EscapeJson (tn_kind detail))
       @ '','' @ jkey ''signedRevisionEnd'' @ to_string (uint (tn_signed_revision_end detail))
       @ '','' @ jstr ''status'' (if tn_status detail = ''timestamp-valid'' then ''valid''
                           else if tn_status detail = ''timestamp-invalid'' then ''invalid'' else ''unavailable'')
       @ '','' @ jstr ''timestampStatus'' (EscapeJson (tn_status detail))
       @ '','' @ jbool ''valid'' (tn_valid detail \<and> tn_status detail = ''timestamp-valid'')
       @ '','' @ jbool ''policyAcceptable'' (tn_policy_acceptable detail)
       @ '','' @ jbool ''cryptoValid'' (tn_crypto_valid detail)
       @ '','' @ jbool ''genTimeValid'' (tn_gen_time_valid detail)
       @ '','' @ jbool ''certificateTimeValid'' (tn_certificate_time_valid detail)
       @ '','' @ jbool ''ekuValid'' (tn_eku_valid detail)
       @ '','' @ jbool ''trustValid'' (tn_trust_valid detail)
       @ '','' @ jbool ''revocationChecked'' (tn_revocation_checked detail)
       @ '','' @ jbool ''ocspAttempted'' (tn_ocsp_attempted detail)
       @ '','' @ jbool ''crlAttempted'' (tn_crl_attempted detail)
       @ '','' @ jbool ''historicalTrustUsed'' (tn_historical_trust_used detail)
       @ '','' @ jstr ''genTime'' (EscapeJson (tn_gen_time detail))
       @ '','' @ jstr ''validationTime'' (EscapeJson (tn_validation_time detail))
       @ '','' @ jstr ''reasonCode'' (EscapeJson (tn_reason_code detail))
       @ '','' @ jstr ''trustSource'' (EscapeJson (tn_trust_source detail))
       @ '','' @ jstr ''tsaSubject'' (EscapeJson (tn_tsa_subject detail))
       @ '','' @ jstr ''tsaIssuer'' (EscapeJson (tn_tsa_issuer detail))
       @ '','' @ jstr ''tsaSerial'' (EscapeJson (tn_tsa_serial detail))
       @ '','' @ jstr ''tsaFingerprintSha256'' (EscapeJson (tn_tsa_fingerprint_sha256 detail))
       @ '','' @ jstr ''revocationStatus'' (EscapeJson (tn_revocation_status detail))
       @ write_strings ''because'' (tn_because detail) @ write_strings ''warnings'' (tn_warnings detail)
       @ write_strings ''limitations'' (tn_limitations detail) @ write_strings ''evidenceIds'' (tn_evidence_ids detail) @ ''}''"

definition WriteTimestampDetails :: "TimestampEntry list \<Rightarrow> string" where
  "WriteTimestampDetails details = ''['' @ join_commas (map write_timestamp_detail details) @ '']''"

definition WriteTimestampSection :: "VerifyReport \<Rightarrow> MessageStyle \<Rightarrow> string" where
  "WriteTimestampSection report style =
     jkey ''timestamp'' @ ''{'' @ WriteCheckFields (TimestampCheck report) style
       @ '','' @ jbool ''checked'' (vr_timestamp_checked report)
       @ '','' @ jbool ''tspChecked'' (vr_tsp_checked report)
       @ '','' @ jstr ''timestampStatus'' (EscapeJson (vr_timestamp_status report))
       @ '','' @ jkey ''details'' @ WriteTimestampDetails (vr_timestamp_details report) @ ''},''"

definition WriteLtvSection :: "VerifyReport \<Rightarrow> MessageStyle \<Rightarrow> string" where
  "WriteLtvSection report style =
     jkey ''ltv'' @ ''{'' @ WriteCheckFields (LtvCheck report) style
       @ '','' @ jbool ''valid'' (vr_ltv_valid report)
       @ '','' @ jbool ''evidenceBound'' (vr_ltv_evidence_bound report)
       @ '','' @ jbool ''evidenceValidated'' (vr_ltv_evidence_validated report)
       @ '','' @ jbool ''fullyValidated'' (LtvFullyValidated report)
       @ '','' @ jstr ''fullValidationState'' (fst (LtvCheck report)) @ ''},''"

definition policy_warning_codes :: "VerifyReport \<Rightarrow> string list" where
  "policy_warning_codes report =
     (if vr_historical_trust_used report then [''HISTORICAL_TRUST_USED''] else [])
     @ (if vr_trust_status report = ''timestamp-not-fully-validated'' \<or> vr_timestamp_status report = ''timestamp-partial''
        then [''TIMESTAMP_NOT_FULLY_VALIDATED''] else [])
     @ (if vr_trust_status report = ''ocsp-responder-unavailable'' \<or> vr_trust_status report = ''tsp-responder-unavailable''
        then [''ONLINE_SERVICE_UNAVAILABLE''] else [])
     @ (if vr_revocation_checked report \<and> vr_revocation_status report \<noteq> ''valid'' \<and> vr_revocation_status report \<noteq> ''good''
           \<and> vr_revocation_status report \<noteq> ''revoked'' \<and> vr_revocation_status report \<noteq> ''invalid''
        then [''REVOCATION_STATUS_UNKNOWN''] else [])"

fun write_warnings :: "MessageStyle \<Rightarrow> string list \<Rightarrow> bool \<Rightarrow> string" where
  "write_warnings style [] first = []"
| "write_warnings style (c # cs) first =
     (case WriteWarning style c first of (first, text) \<Rightarrow> text @ write_warnings style cs first)"

definition WritePolicySection :: "VerifyReport \<Rightarrow> MessageStyle \<Rightarrow> string" where
  "WritePolicySection report style =
     jkey ''policy'' @ ''{'' @ WriteCheckFields (PolicyCheck report) style
       @ '','' @ jstr ''level'' (EscapeJson (vd_level (ComputeVerifyPolicyDecision report)))
       @ '','' @ jkey ''warnings'' @ ''['' @ write_warnings style (policy_warning_codes report) True @ '']''
       @ ''},''"

definition WriteDiagnosticsPrefix :: "VerifyReport \<Rightarrow> FormatFallbacks \<Rightarrow> string" where
  "WriteDiagnosticsPrefix report fallbacks =
     jkey ''diagnostics'' @ ''{'' @ jstr ''operation'' (EscapeJson (vr_operation report))
       @ '','' @ jstr ''format'' (EscapeJson (OrFallback (vr_signature_format report) (fb_signature_format fallbacks)))
       @ '','' @ jstr ''profile'' (EscapeJson (vr_format_profile report))
       @ '','' @ jstr ''containerType'' (EscapeJson (OrFallback (vr_container_type report) (fb_container_type fallbacks)))
       @ '','' @ jstr ''errorCode'' (EscapeJson (ErrorCodeName (vr_error_code report)))"

definition WriteDiagnosticsFlagsPrefix :: "VerifyReport \<Rightarrow> string" where
  "WriteDiagnosticsFlagsPrefix report =
     jkey ''flags'' @ ''{'' @ jbool ''hasResult'' (vr_has_result report)
       @ '','' @ jbool ''executionSucceeded'' (vr_execution_succeeded report)
       @ '','' @ jbool ''signatureValid'' (vr_signature_valid report)
       @ '','' @ jbool ''trustChecked'' (vr_trust_checked report)
       @ '','' @ jbool ''trustValid'' (vr_trust_valid report)
       @ '','' @ jbool ''revocationChecked'' (vr_revocation_checked report)
       @ '','' @ jbool ''ocspChecked'' (vr_ocsp_checked report)
       @ '','' @ jbool ''tspChecked'' (vr_tsp_checked report)
       @ '','' @ jbool ''timestampChecked'' (vr_timestamp_checked report)
       @ '','' @ jbool ''timestampValid'' (vr_timestamp_valid report)"

section \<open>The two reports\<close>

definition UserReportBuilder_Build :: "VerifyReport \<Rightarrow> string \<Rightarrow> string \<Rightarrow> CertificateMetadata \<Rightarrow> string" where
  "UserReportBuilder_Build r container_type signature_format signer_metadata =
     (let fallbacks = \<lparr>fb_signature_format = signature_format, fb_container_type = container_type\<rparr>
      in ''{'' @ jstr ''schemaVersion'' ''2.2'' @ '',''
         @ WriteSummarySection r Style_Bilingual
         @ WriteSignatureSection r fallbacks None Style_Bilingual
         @ WriteCertificateSection r None (Some signer_metadata) Style_Bilingual
         @ WriteTrustSection r Style_Bilingual
         @ WriteRevocationSection r Style_Bilingual
         @ WriteTimestampSection r Style_Bilingual
         @ WriteLtvSection r Style_Bilingual
         @ WritePolicySection r Style_Bilingual
         @ WriteDiagnosticsPrefix r fallbacks @ '',''
         @ WriteDiagnosticsFlagsPrefix r @ '','' @ jbool ''ltvValid'' (vr_ltv_valid r) @ ''}}'' @ ''}'')"

record TrustListSyncReport =
  ts_checked :: bool
  ts_update_succeeded :: bool
  ts_source :: string
  ts_cache_status :: string
  ts_last_sync :: string
  ts_xml_signature_status :: string

definition write_data_object_format :: "DataObjectFormatEntry \<Rightarrow> string" where
  "write_data_object_format dof =
     ''{'' @ jstr ''objectReference'' (EscapeJson (df_object_reference dof))
       @ '','' @ jstr ''mimeType'' (EscapeJson (df_mime_type dof))
       @ '','' @ jstr ''description'' (EscapeJson (df_description dof)) @ ''}''"

definition WriteV2DataObjectFormats :: "DataObjectFormatEntry list \<Rightarrow> string" where
  "WriteV2DataObjectFormats formats = ''['' @ join_commas (map write_data_object_format formats) @ '']''"

definition write_signature_entry :: "SignatureEntry \<Rightarrow> string" where
  "write_signature_entry entry =
     ''{'' @ jkey ''index'' @ to_string (se_index entry)
       @ '','' @ jbool ''signatureValid'' (se_signature_valid entry)
       @ '','' @ jbool ''certificatePresent'' (se_signer_certificate_present entry)
       @ '','' @ jbool ''qualifyingPropertiesPresent'' (se_qualifying_properties_present entry)
       @ '','' @ jbool ''signingCertificateDigestValid'' (se_signing_certificate_digest_valid entry)
       @ '','' @ jstr ''profile'' (EscapeJson (se_format_profile entry))
       @ '','' @ jbool ''timestampChecked'' (se_timestamp_checked entry)
       @ '','' @ jbool ''timestampValid'' (se_timestamp_valid entry)
       @ '','' @ jstr ''timestampStatus'' (EscapeJson (se_timestamp_status entry))
       @ '','' @ jkey ''timestamps'' @ WriteTimestampDetails (se_timestamp_details entry)
       @ '','' @ jbool ''ltvValid'' (se_ltv_valid entry)
       @ '','' @ jbool ''ltvEvidenceBound'' (se_ltv_evidence_bound entry)
       @ '','' @ jbool ''ltvEvidenceValidated'' (se_ltv_evidence_validated entry)
       @ '','' @ jkey ''certificate'' @ ''{'' @ jbool ''timeValid'' (se_certificate_time_valid entry)
       @ '','' @ jstr ''validationTimeSource'' (EscapeJson (se_validation_time_source entry))
       @ '','' @ jkey ''chain'' @ ''{'' @ jbool ''checked'' (se_chain_checked entry)
       @ '','' @ jbool ''valid'' (se_chain_valid entry) @ ''}}''
       @ '','' @ jkey ''trust'' @ ''{'' @ jbool ''checked'' (se_trust_checked entry)
       @ '','' @ jbool ''valid'' (se_trust_valid entry)
       @ '','' @ jstr ''mode'' (EscapeJson (se_trust_mode entry))
       @ '','' @ jstr ''reason'' (EscapeJson (se_trust_reason entry))
       @ '','' @ jstr ''trustStatus'' (EscapeJson (se_trust_status entry))
       @ '','' @ jbool ''historicalTrustUsed'' (se_historical_trust_used entry)
       @ '','' @ jkey ''historicalAnchor'' @ ''{'' @ jstr ''subject'' (EscapeJson (se_historical_anchor_subject entry))
       @ '','' @ jstr ''serial'' (EscapeJson (se_historical_anchor_serial entry)) @ ''}}''
       @ '','' @ jkey ''revocation'' @ ''{'' @ jbool ''checked'' (se_revocation_checked entry)
       @ '','' @ jbool ''ocspChecked'' (se_ocsp_checked entry)
       @ '','' @ jstr ''revocationStatus'' (EscapeJson (se_revocation_status entry)) @ ''}''
       @ '','' @ jbool ''signaturePolicyPresent'' (se_signature_policy_present entry)
       @ '','' @ jstr ''signaturePolicyId'' (EscapeJson (se_signature_policy_id entry))
       @ '','' @ jstr ''signaturePolicyHashAlgorithmUri'' (EscapeJson (se_signature_policy_hash_algo_uri entry))
       @ '','' @ jkey ''dataObjectFormats'' @ WriteV2DataObjectFormats (se_data_object_formats entry) @ ''}''"

definition WriteV2Signatures :: "VerifyReport \<Rightarrow> string" where
  "WriteV2Signatures report = jkey ''signatures'' @ ''['' @ join_commas (map write_signature_entry (vr_signatures report)) @ '']''"

definition GetLastVerifyReport :: "TrustListSyncReport \<Rightarrow> string \<Rightarrow> VerifyReport \<Rightarrow> string" where
  "GetLastVerifyReport sync chain_debug r =
     (let no_fallbacks = \<lparr>fb_signature_format = [], fb_container_type = []\<rparr>
      in ''{'' @ jstr ''schemaVersion'' ''2.2'' @ '',''
         @ WriteSummarySection r Style_None
         @ WriteSignatureSection r no_fallbacks (Some (vr_validated_profile r)) Style_None
         @ WriteCertificateSection r (Some (vr_qualifying_properties_present r)) None Style_None
         @ WriteTrustSection r Style_None
         @ WriteRevocationSection r Style_None
         @ WriteTimestampSection r Style_None
         @ WriteLtvSection r Style_None
         @ jkey ''signaturePolicy'' @ ''{'' @ jbool ''present'' (vr_signature_policy_present r)
         @ '','' @ jstr ''id'' (EscapeJson (vr_signature_policy_id r))
         @ '','' @ jstr ''hashAlgorithmUri'' (EscapeJson (vr_signature_policy_hash_algo_uri r)) @ ''},''
         @ jkey ''dataObjectFormats'' @ WriteV2DataObjectFormats (vr_data_object_formats r) @ '',''
         @ WritePolicySection r Style_None
         @ WriteDiagnosticsPrefix r no_fallbacks
         @ '','' @ jstr ''message'' (EscapeJson (vr_message r))
         @ '','' @ jkey ''trustList'' @ ''{'' @ jbool ''checked'' (vr_trust_list_checked r)
         @ '','' @ jstr ''source'' (EscapeJson (vr_trust_list_source r))
         @ '','' @ jstr ''cacheStatus'' (EscapeJson (vr_trust_list_cache_status r))
         @ '','' @ jstr ''lastSync'' (EscapeJson (vr_trust_list_last_sync r))
         @ '','' @ jbool ''updateSucceeded'' (vr_trust_list_update_succeeded r) @ ''}''
         @ '','' @ jkey ''trustListSync'' @ ''{'' @ jbool ''checked'' (ts_checked sync)
         @ '','' @ jstr ''source'' (EscapeJson (ts_source sync))
         @ '','' @ jstr ''cacheStatus'' (EscapeJson (ts_cache_status sync))
         @ '','' @ jstr ''lastSync'' (EscapeJson (ts_last_sync sync))
         @ '','' @ jbool ''updateSucceeded'' (ts_update_succeeded sync)
         @ '','' @ jstr ''xmlSignatureStatus'' (EscapeJson (ts_xml_signature_status sync)) @ ''}''
         @ '','' @ jkey ''chainDebug'' @ ''{'' @ jstr ''trace'' (EscapeJson chain_debug) @ ''}''
         @ '',''
         @ WriteDiagnosticsFlagsPrefix r
         @ '','' @ jkey ''cmsSignerCount'' @ to_string (vr_cms_signer_count r)
         @ '','' @ jkey ''cmsVerifiedSignerCount'' @ to_string (vr_cms_verified_signer_count r)
         @ '','' @ jbool ''signerCertificatePresent'' (vr_signer_certificate_present r)
         @ '','' @ jbool ''certificateTimeValid'' (vr_certificate_time_valid r)
         @ '','' @ jbool ''chainChecked'' (vr_chain_checked r)
         @ '','' @ jbool ''chainValid'' (vr_chain_valid r)
         @ '','' @ jbool ''ltvValid'' (vr_ltv_valid r)
         @ '','' @ jbool ''containerCoverageComplete'' (vr_container_coverage_complete r)
         @ ''}},''
         @ WriteV2Signatures r @ ''}'')"

end
