(* ===== verification/Session_State.thy ===== *)
theory Session_State
  imports Report_Json Utf_Path
begin

text \<open>
  The state of \<open>core/Session.h\<close>: the settings structures, the loaded key, the last error and the
  last reports of a session, and around all sessions the state of the process with the files on
  disk. The operations on it are the theories \<open>Session_Verify\<close>, \<open>Session_Settings\<close>, \<open>Session_Keys\<close>
  and \<open>Session_Sign\<close>. The record \<open>verify_lib\<close> has what they take from elsewhere.
\<close>

section \<open>State\<close>

record Settings =
  cfg_offline_mode :: bool
  cfg_work_dir :: string
  cfg_trust_mode :: string
  cfg_validation_level :: string
  cfg_allow_aia_issuer_fetch :: bool

record OcspSettings =
  os_url :: string
  os_use_nonce :: bool
  os_timeout_ms :: int

record FileStoreSettings =
  fss_base_path :: string
  fss_allow_overwrite :: bool

record TspSettings =
  tsp_url :: string
  tsp_policy_oid :: string
  tsp_timeout_ms :: int
  tsp_imprint_digest_oid :: string

record LdapSettings =
  ldap_url :: string
  ldap_base_dn :: string
  ldap_timeout_ms :: int

record CmpSettings =
  cmp_url :: string
  cmp_profile :: string
  cmp_timeout_ms :: int

datatype XmlSignaturePolicy = Xml_Disabled | Xml_PreferAvailable | Xml_Require

record TrustListSettings =
  tls_url :: string
  tls_timeout_ms :: int
  tls_cache_ttl_hours :: int
  tls_allow_https_bootstrap :: bool
  tls_fail_if_cache_stale :: bool
  tls_xml_signature_policy :: XmlSignaturePolicy
  tls_xml_signer_cert_der :: bytes

datatype KeyFormat = Key_Unknown | Key_Pkcs12 | Key_Jks | Key_Pem | Key_Der

record LastError =
  le_code :: ErrorCode
  le_message :: string

record CmsSignerResult =
  cs_index :: int
  cs_signature_valid :: bool
  cs_certificate_der :: bytes

text \<open>Of \<open>VerifyPolicyInfo\<close> the fields that the session reads.\<close>

record VerifyPolicyInfo =
  pi_signer_certificate_present :: bool
  pi_signer_certificate_der :: bytes
  pi_embedded_certificates_der :: "bytes list"
  pi_signer_count :: int
  pi_verified_signer_count :: int
  pi_signers :: "CmsSignerResult list"

record session =
  is_initialized :: bool
  is_private_key_loaded :: bool
  need_set_settings :: bool
  settings :: Settings
  file_store_settings :: FileStoreSettings
  ocsp_settings :: OcspSettings
  tsp_settings :: TspSettings
  ldap_settings :: LdapSettings
  cmp_settings :: CmpSettings
  trust_list_settings :: TrustListSettings
  last_error :: LastError
  loaded_key :: bytes
  loaded_key_material :: bytes
  loaded_certificate :: bytes
  loaded_key_password :: string
  loaded_key_format :: KeyFormat
  last_verify_report :: VerifyReport
  last_trust_list_sync_report :: TrustListSyncReport
  last_signer_metadata :: CertificateMetadata
  last_user_report_json :: string
  report_epoch :: u64

record 'fs process =
  sessions :: "nat \<Rightarrow> session"
  g_verify_report_epoch :: u64
  t_last_verify_commit_epoch :: "nat \<Rightarrow> u64"
  files :: 'fs

text \<open>
  Verifying a detached and an attached signature gives a message, or the verdict, the content and
  what was found. \<open>CollectCertificatesFromDirectory\<close> reads a store, \<open>FetchMissingIssuers\<close> may change
  the cache on disk, \<open>ReadBinaryFileLimited\<close> reads a file up to a size and gives a reason where it
  fails. The last three are operations of \<open>std::filesystem::path\<close>, which depend on the platform.
\<close>

record 'fs verify_lib =
  VerifyDetached :: "bytes \<Rightarrow> bytes \<Rightarrow> string + bool \<times> VerifyPolicyInfo"
  VerifyAttached :: "bytes \<Rightarrow> string + bool \<times> bytes \<times> VerifyPolicyInfo"
  ExtractCertificateMetadata :: "bytes \<Rightarrow> CertificateMetadata option"
  ExtractSigningTime :: "bytes \<Rightarrow> string option"
  CollectCertificates :: "'fs \<Rightarrow> string \<Rightarrow> bytes list"
  FetchMissingIssuers :: "string \<Rightarrow> int \<Rightarrow> bytes list \<Rightarrow> 'fs \<Rightarrow> bytes list \<times> 'fs"
  ReadBinaryFileLimited :: "'fs \<Rightarrow> string \<Rightarrow> int \<Rightarrow> string + bytes"
  path_is_absolute :: "string \<Rightarrow> bool"
  path_lexically_normal :: "string \<Rightarrow> string"
  path_join :: "string \<Rightarrow> string \<Rightarrow> string"

definition kMaxInputFileSize :: int where
  "kMaxInputFileSize = 64 * 1024 * 1024"

definition ResolveFilePath :: "'fs verify_lib \<Rightarrow> string \<Rightarrow> FileStoreSettings \<Rightarrow> string" where
  "ResolveFilePath L path fss =
     (if path = [] then []
      else if \<not> IsValidUtf8Path (bytes_of_string path)
        \<or> fss_base_path fss \<noteq> [] \<and> \<not> IsValidUtf8Path (bytes_of_string (fss_base_path fss)) then []
      else if path_is_absolute L path \<or> fss_base_path fss = [] then path_lexically_normal L path
      else path_lexically_normal L (path_join L (fss_base_path fss) path))"

definition ReadBinaryFile :: "'fs verify_lib \<Rightarrow> 'fs \<Rightarrow> string \<Rightarrow> string \<Rightarrow> string + bytes" where
  "ReadBinaryFile L fs path label =
     (if path = [] \<or> \<not> IsValidUtf8Path (bytes_of_string path) then Inl (label @ '' path is not valid UTF-8'')
      else case ReadBinaryFileLimited L fs path kMaxInputFileSize of
        Inl reason \<Rightarrow> Inl (label @ '': '' @ reason)
      | Inr data \<Rightarrow> Inr data)"

section \<open>Sessions of a process\<close>

definition upd_session :: "nat \<Rightarrow> (session \<Rightarrow> session) \<Rightarrow> 'fs process \<Rightarrow> 'fs process" where
  "upd_session sid f p = p\<lparr>sessions := (sessions p)(sid := f (sessions p sid))\<rparr>"

end
