(* ===== verification/Session_Verify.thy ===== *)
theory Session_Verify
  imports Session_State Base64
begin

text \<open>
  The verify operations of \<open>core/Session.h\<close> on CMS data: the state of a session they touch, how an
  operation commits its report (\<open>core/session/SessionStateAndNormalization.ipp\<close>,
  \<open>core/session/VerifyReportOwnership.h\<close>), the trust validation shared with the other formats, and
  \<open>VerifyData\<close>, \<open>VerifyDataInternal\<close> and their variants (\<open>core/session/SessionCryptoOps.ipp\<close>).

  The state is that of the process: all sessions, the global epoch counter and the epoch each
  thread committed last. An operation has as arguments the thread that runs it and the session.
  The parts of an operation under the session's mutex are definitions of their own, so that an
  interleaving is a sequence of them. Verifying the CMS, reading names and the signing time,
  fetching issuers and the certificate stores are parameters in the record \<open>verify_lib\<close>.
\<close>

definition default_context :: ValidationContext where
  "default_context = \<lparr>ctx_profile = Profile_Strict, ctx_level = Level_Basic, ctx_verification_time = [], ctx_offline = True,
     ctx_work_dir = [], ctx_cms_der = [], ctx_claimed_signing_time = [], ctx_embedded_revocation_ocsp_der = [],
     ctx_embedded_revocation_crl_der = [], ctx_ocsp_url = [], ctx_signature_crypto_valid = False\<rparr>"

section \<open>Committing a report\<close>

text \<open>The counter has 64 bits and wraps as \<open>std::uint64_t\<close> does.\<close>

definition MarkCommitted :: "nat \<Rightarrow> nat \<Rightarrow> 'fs process \<Rightarrow> 'fs process" where
  "MarkCommitted t sid p =
     (let epoch = g_verify_report_epoch p + 1
      in upd_session sid (\<lambda>s. s\<lparr>report_epoch := epoch\<rparr>)
           (p\<lparr>g_verify_report_epoch := epoch,
              t_last_verify_commit_epoch := (t_last_verify_commit_epoch p)(t := epoch)\<rparr>))"

definition StillOwnedByThisThread :: "nat \<Rightarrow> nat \<Rightarrow> 'fs process \<Rightarrow> bool" where
  "StillOwnedByThisThread t sid p \<longleftrightarrow>
     report_epoch (sessions p sid) \<noteq> 0 \<and> report_epoch (sessions p sid) = t_last_verify_commit_epoch p t"

definition SetError :: "ErrorCode \<Rightarrow> string \<Rightarrow> session \<Rightarrow> session" where
  "SetError err message s = s\<lparr>last_error := \<lparr>le_code = err, le_message = message\<rparr>\<rparr>"

definition ClearError :: "session \<Rightarrow> session" where
  "ClearError s = s\<lparr>last_error := \<lparr>le_code = Err_None, le_message = []\<rparr>\<rparr>"

definition RefreshUserReport :: "string \<Rightarrow> string \<Rightarrow> session \<Rightarrow> session" where
  "RefreshUserReport container_type signature_format s =
     s\<lparr>last_user_report_json :=
       UserReportBuilder_Build (last_verify_report s) container_type signature_format (last_signer_metadata s)\<rparr>"

definition RefreshUserReportForCurrentOperation :: "session \<Rightarrow> session" where
  "RefreshUserReportForCurrentOperation s =
     (case UserReportFormatForOperation (vr_operation (last_verify_report s)) of
        (container_type, signature_format) \<Rightarrow> RefreshUserReport container_type signature_format s)"

definition ClearVerifyReport :: "session \<Rightarrow> session" where
  "ClearVerifyReport s =
     RefreshUserReportForCurrentOperation
       (s\<lparr>last_verify_report := MakeClearedVerifyReport, last_signer_metadata := default_metadata\<rparr>)"

definition SetVerifyReport ::
    "nat \<Rightarrow> nat \<Rightarrow> string \<Rightarrow> bool \<Rightarrow> bool \<Rightarrow> ErrorCode \<Rightarrow> string \<Rightarrow> 'fs process \<Rightarrow> 'fs process" where
  "SetVerifyReport t sid operation execution_succeeded signature_valid err message p =
     (let outcome = \<lparr>vo_operation = operation, vo_execution_succeeded = execution_succeeded,
            vo_signature_valid = signature_valid, vo_error_code = err, vo_message = message\<rparr>;
          p = upd_session sid (\<lambda>s. let s = ClearVerifyReport s
                in s\<lparr>last_verify_report := CommitVerifyOutcome (last_verify_report s) outcome\<rparr>) p
      in upd_session sid (RefreshUserReportForCurrentOperation) (MarkCommitted t sid p))"

definition RecordVerifyFailure ::
    "nat \<Rightarrow> nat \<Rightarrow> string \<Rightarrow> ErrorCode \<Rightarrow> string \<Rightarrow> 'fs process \<Rightarrow> 'fs process" where
  "RecordVerifyFailure t sid operation err message p =
     upd_session sid (SetError err message) (SetVerifyReport t sid operation False False err message p)"

definition OverrideVerifyReportOperation :: "nat \<Rightarrow> nat \<Rightarrow> string \<Rightarrow> 'fs process \<Rightarrow> 'fs process" where
  "OverrideVerifyReportOperation t sid operation p =
     (if \<not> vr_has_result (last_verify_report (sessions p sid)) then p
      else if \<not> StillOwnedByThisThread t sid p then p
      else upd_session sid (\<lambda>s. RefreshUserReportForCurrentOperation
             (s\<lparr>last_verify_report := (last_verify_report s)\<lparr>vr_operation := operation\<rparr>\<rparr>)) p)"

text \<open>The tail of the variants that return text: it renames the report without asking whose it is.\<close>

definition rename_report :: "nat \<Rightarrow> string \<Rightarrow> 'fs process \<Rightarrow> 'fs process" where
  "rename_report sid operation =
     upd_session sid (\<lambda>s. ClearError (RefreshUserReportForCurrentOperation
       (s\<lparr>last_verify_report := (last_verify_report s)\<lparr>vr_operation := operation\<rparr>\<rparr>)))"

text \<open>The last locked section of a CMS verification: the report, the epoch, the names if they could be read.\<close>

definition commit_verified ::
    "nat \<Rightarrow> nat \<Rightarrow> VerifyReport \<Rightarrow> CertificateMetadata option \<Rightarrow> 'fs process \<Rightarrow> 'fs process" where
  "commit_verified t sid report metadata p =
     upd_session sid (\<lambda>s. ClearError (RefreshUserReportForCurrentOperation
         (case metadata of None \<Rightarrow> s | Some m \<Rightarrow> s\<lparr>last_signer_metadata := m\<rparr>)))
       (MarkCommitted t sid (upd_session sid (\<lambda>s. s\<lparr>last_verify_report := report\<rparr>) p))"

section \<open>Trust validation\<close>

definition profile_of_mode :: "string \<Rightarrow> ValidationProfile" where
  "profile_of_mode mode =
     (if mode = ''strict'' then Profile_Strict else if mode = ''ukraine-legal'' then Profile_UkraineLegal
      else if mode = ''offline'' then Profile_Offline else if mode = ''forensic'' then Profile_Forensic
      else Profile_Compatibility)"

definition level_of_setting :: "string \<Rightarrow> ValidationLevel" where
  "level_of_setting level =
     (if level = ''basic'' then Level_Basic else if level = ''extended'' then Level_Extended
      else if level = ''forensic'' then Level_Forensic else Level_Standard)"

definition EnrichWithAiaIssuersIfNeeded ::
    "('cert, 'crl, 'req, 'resp, 'fs) environment \<Rightarrow> 'fs verify_lib \<Rightarrow> string \<Rightarrow> int \<Rightarrow> bool \<Rightarrow> bytes \<Rightarrow> bytes list \<Rightarrow> 'fs
     \<Rightarrow> bytes list \<times> 'fs" where
  "EnrichWithAiaIssuersIfNeeded E L work_dir timeout network_enabled signer embedded fs =
     (if \<not> network_enabled \<or> work_dir = [] \<or> signer = [] then (embedded, fs)
      else
        let anchors = CollectCertificates L fs (path_append work_dir ''trust-store'')
        in if anchors = [] then (embedded, fs)
           else
             let intermediates = CollectCertificates L fs (path_append work_dir ''intermediate-store'');
                 probe = chain_of E \<lparr>ci_signer_certificate_der = signer, ci_embedded_certificates_der = embedded,
                   ci_intermediate_certificates_der = intermediates, ci_aia_certificates_der = [],
                   ci_trust_anchors_der = anchors, ci_trust_anchor_source = ''trust-store'', ci_validation_time = []\<rparr>
             in if cr_status probe \<noteq> Chain_Untrusted \<and> cr_status probe \<noteq> Chain_Incomplete then (embedded, fs)
                else case FetchMissingIssuers L work_dir (if timeout > 0 then timeout else 10000)
                       ([signer] @ embedded @ intermediates) fs of
                  (found, fs) \<Rightarrow> (embedded @ found, fs))"

definition RunFormatTrustValidationOn ::
    "('cert, 'crl, 'req, 'resp, 'fs) environment \<Rightarrow> 'fs storage \<Rightarrow> 'fs verify_lib \<Rightarrow> Settings \<Rightarrow> bytes \<Rightarrow> bytes \<Rightarrow> bytes list
     \<Rightarrow> bytes list \<Rightarrow> bytes list \<Rightarrow> bool \<Rightarrow> VerifyReport \<Rightarrow> 'fs \<Rightarrow> VerifyReport \<times> 'fs" where
  "RunFormatTrustValidationOn E F L cfg signer cms embedded ocsp crl signature_crypto_valid report fs =
     (if signer = [] then (report, fs)
      else
        let ve_ctx = default_context\<lparr>ctx_profile := profile_of_mode (cfg_trust_mode cfg),
              ctx_level := level_of_setting (cfg_validation_level cfg), ctx_offline := cfg_offline_mode cfg,
              ctx_work_dir := cfg_work_dir cfg, ctx_cms_der := cms, ctx_embedded_revocation_ocsp_der := ocsp,
              ctx_embedded_revocation_crl_der := crl, ctx_signature_crypto_valid := signature_crypto_valid\<rparr>
        in case ValidationEngine_Validate E F ve_ctx signer embedded fs of
             (ve_report, fs) \<Rightarrow> (ApplyValidationEngineReport (ExtractCertificateMetadata L) ve_report report, fs))"

definition ApplyPerSignerTrustValidation ::
    "('cert, 'crl, 'req, 'resp, 'fs) environment \<Rightarrow> 'fs storage \<Rightarrow> 'fs verify_lib \<Rightarrow> Settings \<Rightarrow> bytes \<Rightarrow> bytes list
     \<Rightarrow> bytes list \<Rightarrow> bytes list \<Rightarrow> SignatureEntry \<Rightarrow> 'fs \<Rightarrow> SignatureEntry \<times> 'fs" where
  "ApplyPerSignerTrustValidation E F L cfg signer certificate_values ocsp crl entry fs =
     (case RunFormatTrustValidationOn E F L cfg signer [] certificate_values ocsp crl (se_signature_valid entry) default_report fs of
        (temp, fs) \<Rightarrow>
          (entry\<lparr>se_certificate_time_valid := vr_certificate_time_valid temp,
             se_validation_time_source := vr_validation_time_source temp, se_chain_checked := vr_chain_checked temp,
             se_chain_valid := vr_chain_valid temp, se_trust_checked := vr_trust_checked temp,
             se_trust_valid := vr_trust_valid temp, se_trust_status := vr_trust_status temp,
             se_trust_mode := vr_trust_mode temp, se_trust_reason := vr_trust_reason temp,
             se_historical_trust_used := vr_historical_trust_used temp,
             se_historical_anchor_subject := vr_historical_anchor_subject temp,
             se_historical_anchor_serial := vr_historical_anchor_serial temp,
             se_revocation_checked := vr_revocation_checked temp, se_ocsp_checked := vr_ocsp_checked temp,
             se_revocation_status := vr_revocation_status temp, se_error_code := vr_error_code temp,
             se_message := vr_message temp\<rparr>, fs))"

section \<open>Verifying CMS data\<close>

definition signer_entry :: "CmsSignerResult \<Rightarrow> SignatureEntry" where
  "signer_entry signer = default_signature_entry\<lparr>se_index := cs_index signer,
     se_signature_valid := cs_signature_valid signer, se_signer_certificate_present := cs_certificate_der signer \<noteq> []\<rparr>"

definition cms_context :: "'fs verify_lib \<Rightarrow> Settings \<Rightarrow> OcspSettings \<Rightarrow> bytes \<Rightarrow> bool \<Rightarrow> ValidationContext" where
  "cms_context L cfg ocsp cms valid =
     default_context\<lparr>ctx_profile := profile_of_mode (cfg_trust_mode cfg),
       ctx_level := level_of_setting (cfg_validation_level cfg), ctx_offline := cfg_offline_mode cfg,
       ctx_work_dir := cfg_work_dir cfg, ctx_cms_der := cms, ctx_signature_crypto_valid := valid,
       ctx_ocsp_url := (if \<not> cfg_offline_mode cfg then os_url ocsp else []),
       ctx_claimed_signing_time := (case ExtractSigningTime L cms of None \<Rightarrow> [] | Some claimed \<Rightarrow> claimed)\<rparr>"

text \<open>What runs outside the mutex: the report and, if they can be read, the names of the signer.\<close>

definition cms_report ::
    "('cert, 'crl, 'req, 'resp, 'fs) environment \<Rightarrow> 'fs storage \<Rightarrow> 'fs verify_lib \<Rightarrow> Settings \<Rightarrow> OcspSettings \<Rightarrow> string
     \<Rightarrow> bytes \<Rightarrow> bool \<Rightarrow> VerifyPolicyInfo \<Rightarrow> 'fs \<Rightarrow> VerifyReport \<times> CertificateMetadata option \<times> 'fs" where
  "cms_report E F L cfg ocsp operation cms valid info fs =
     (let report = default_report\<lparr>vr_has_result := True, vr_execution_succeeded := True, vr_signature_valid := valid,
            vr_operation := operation, vr_error_code := Err_None, vr_message := BuildVerifyMessage True valid [],
            vr_signer_certificate_present := pi_signer_certificate_present info,
            vr_cms_signer_count := pi_signer_count info, vr_cms_verified_signer_count := pi_verified_signer_count info,
            vr_signatures := map signer_entry (pi_signers info)\<rparr>;
          metadata = (if pi_signer_certificate_der info \<noteq> [] then ExtractCertificateMetadata L (pi_signer_certificate_der info)
            else None);
          (report, fs) = (if valid then
             (case EnrichWithAiaIssuersIfNeeded E L (cfg_work_dir cfg) (os_timeout_ms ocsp)
                     (\<not> cfg_offline_mode cfg \<and> cfg_allow_aia_issuer_fetch cfg) (pi_signer_certificate_der info)
                     (pi_embedded_certificates_der info) fs of
                (embedded_certs, fs) \<Rightarrow>
                  case ValidationEngine_Validate E F (cms_context L cfg ocsp cms valid) (pi_signer_certificate_der info)
                         embedded_certs fs of
                    (ve_report, fs) \<Rightarrow> (ApplyValidationEngineReport (ExtractCertificateMetadata L) ve_report report, fs))
             else (report, fs));
          report = (if valid \<and> \<not> vr_trust_valid report \<and> vr_trust_checked report
            then report\<lparr>vr_error_code := TrustFailureErrorCode report\<rparr> else report)
      in (report, metadata, fs))"

text \<open>
  Each operation returns its result, the flag \<open>is_valid\<close> and the process. Where a file operation
  refuses before it verifies anything, the source leaves the caller's flag as it is; the model
  returns \<open>False\<close> there.
\<close>

definition VerifyData ::
    "('cert, 'crl, 'req, 'resp, 'fs) environment \<Rightarrow> 'fs storage \<Rightarrow> 'fs verify_lib \<Rightarrow> nat \<Rightarrow> nat \<Rightarrow> bytes \<Rightarrow> bytes
     \<Rightarrow> 'fs process \<Rightarrow> bool \<times> bool \<times> 'fs process" where
  "VerifyData E F L t sid data signature p =
     (let s = sessions p sid
      in if \<not> is_initialized s then
           (False, False, SetVerifyReport t sid ''VerifyData'' False False Err_NotInitialized (ErrorCode_ToString Err_NotInitialized)
              (upd_session sid (SetError Err_NotInitialized (ErrorCode_ToString Err_NotInitialized)) p))
         else case VerifyDetached L data signature of
           Inl error_message \<Rightarrow>
             (False, False, upd_session sid (SetError Err_InvalidArgument error_message)
                (SetVerifyReport t sid ''VerifyData'' False False Err_InvalidArgument error_message p))
         | Inr (valid, info) \<Rightarrow>
             (case cms_report E F L (settings s) (ocsp_settings s) ''VerifyData'' signature valid info (files p) of
                (report, metadata, fs) \<Rightarrow> (True, valid, commit_verified t sid report metadata (p\<lparr>files := fs\<rparr>))))"

definition VerifyDataInternal ::
    "('cert, 'crl, 'req, 'resp, 'fs) environment \<Rightarrow> 'fs storage \<Rightarrow> 'fs verify_lib \<Rightarrow> nat \<Rightarrow> nat \<Rightarrow> bytes
     \<Rightarrow> 'fs process \<Rightarrow> bool \<times> bool \<times> bytes \<times> 'fs process" where
  "VerifyDataInternal E F L t sid signed_data p =
     (let s = sessions p sid
      in if \<not> is_initialized s then
           (False, False, [], SetVerifyReport t sid ''VerifyDataInternal'' False False Err_NotInitialized
              (ErrorCode_ToString Err_NotInitialized)
              (upd_session sid (SetError Err_NotInitialized (ErrorCode_ToString Err_NotInitialized)) p))
         else case VerifyAttached L signed_data of
           Inl error_message \<Rightarrow>
             (False, False, [], upd_session sid (SetError Err_InvalidArgument error_message)
                (SetVerifyReport t sid ''VerifyDataInternal'' False False Err_InvalidArgument error_message p))
         | Inr (valid, content, info) \<Rightarrow>
             (case cms_report E F L (settings s) (ocsp_settings s) ''VerifyDataInternal'' signed_data valid info (files p) of
                (report, metadata, fs) \<Rightarrow> (True, valid, content, commit_verified t sid report metadata (p\<lparr>files := fs\<rparr>))))"

definition VerifyDataBase64 ::
    "('cert, 'crl, 'req, 'resp, 'fs) environment \<Rightarrow> 'fs storage \<Rightarrow> 'fs verify_lib \<Rightarrow> nat \<Rightarrow> nat \<Rightarrow> bytes \<Rightarrow> string
     \<Rightarrow> 'fs process \<Rightarrow> bool \<times> bool \<times> 'fs process" where
  "VerifyDataBase64 E F L t sid data signature_base64 p =
     (case Base64Decode signature_base64 of
        None \<Rightarrow> (False, False, upd_session sid (SetError Err_InvalidArgument ''Signature Base64 is invalid'')
          (SetVerifyReport t sid ''VerifyDataBase64'' False False Err_InvalidArgument ''Signature Base64 is invalid'' p))
      | Some signature \<Rightarrow>
          (case VerifyData E F L t sid data signature p of
             (result, valid, p) \<Rightarrow> (result, valid, OverrideVerifyReportOperation t sid ''VerifyDataBase64'' p)))"

definition VerifyDataInternalBase64 ::
    "('cert, 'crl, 'req, 'resp, 'fs) environment \<Rightarrow> 'fs storage \<Rightarrow> 'fs verify_lib \<Rightarrow> nat \<Rightarrow> nat \<Rightarrow> string
     \<Rightarrow> 'fs process \<Rightarrow> bool \<times> bool \<times> bytes \<times> 'fs process" where
  "VerifyDataInternalBase64 E F L t sid signed_data_base64 p =
     (case Base64Decode signed_data_base64 of
        None \<Rightarrow> (False, False, [], upd_session sid (SetError Err_InvalidArgument ''Internal Base64 payload is invalid'')
          (SetVerifyReport t sid ''VerifyDataInternalBase64'' False False Err_InvalidArgument ''Internal Base64 payload is invalid'' p))
      | Some signed_data \<Rightarrow>
          (case VerifyDataInternal E F L t sid signed_data p of
             (result, valid, content, p) \<Rightarrow>
               (result, valid, content, OverrideVerifyReportOperation t sid ''VerifyDataInternalBase64'' p)))"

definition VerifyDataInternalString ::
    "('cert, 'crl, 'req, 'resp, 'fs) environment \<Rightarrow> 'fs storage \<Rightarrow> 'fs verify_lib \<Rightarrow> nat \<Rightarrow> nat \<Rightarrow> bytes
     \<Rightarrow> 'fs process \<Rightarrow> bool \<times> bool \<times> string option \<times> 'fs process" where
  "VerifyDataInternalString E F L t sid signed_data p =
     (case VerifyDataInternal E F L t sid signed_data p of
        (result, valid, content, p) \<Rightarrow>
          if \<not> result then (False, valid, None, OverrideVerifyReportOperation t sid ''VerifyDataInternalStr'' p)
          else (True, valid, Some (string_of_bytes content), rename_report sid ''VerifyDataInternalStr'' p))"

definition VerifyDataInternalBase64String ::
    "('cert, 'crl, 'req, 'resp, 'fs) environment \<Rightarrow> 'fs storage \<Rightarrow> 'fs verify_lib \<Rightarrow> nat \<Rightarrow> nat \<Rightarrow> string
     \<Rightarrow> 'fs process \<Rightarrow> bool \<times> bool \<times> string option \<times> 'fs process" where
  "VerifyDataInternalBase64String E F L t sid signed_data_base64 p =
     (case VerifyDataInternalBase64 E F L t sid signed_data_base64 p of
        (result, valid, content, p) \<Rightarrow>
          if \<not> result then (False, valid, None, OverrideVerifyReportOperation t sid ''VerifyDataInternalBase64Str'' p)
          else (True, valid, Some (string_of_bytes content), rename_report sid ''VerifyDataInternalBase64Str'' p))"

definition VerifyFile ::
    "('cert, 'crl, 'req, 'resp, 'fs) environment \<Rightarrow> 'fs storage \<Rightarrow> 'fs verify_lib \<Rightarrow> nat \<Rightarrow> nat \<Rightarrow> string \<Rightarrow> bytes
     \<Rightarrow> 'fs process \<Rightarrow> bool \<times> bool \<times> 'fs process" where
  "VerifyFile E F L t sid path signature p =
     (let refuse = (\<lambda>message. (False, False, upd_session sid (SetError Err_InvalidArgument message)
            (SetVerifyReport t sid ''VerifyFile'' False False Err_InvalidArgument message p)))
      in case ReadBinaryFile L (files p) (ResolveFilePath L path (file_store_settings (sessions p sid))) ''input file for verification'' of
           Inl error_message \<Rightarrow> refuse error_message
         | Inr data \<Rightarrow>
             if data = [] then refuse ''Input file is empty''
             else case VerifyData E F L t sid data signature p of
               (result, valid, p) \<Rightarrow> (result, valid, OverrideVerifyReportOperation t sid ''VerifyFile'' p))"

definition RawVerifyFile ::
    "('cert, 'crl, 'req, 'resp, 'fs) environment \<Rightarrow> 'fs storage \<Rightarrow> 'fs verify_lib \<Rightarrow> nat \<Rightarrow> nat \<Rightarrow> string \<Rightarrow> string
     \<Rightarrow> 'fs process \<Rightarrow> bool \<times> bool \<times> 'fs process" where
  "RawVerifyFile E F L t sid input_path signature_path p =
     (let refuse = (\<lambda>message. (False, False, upd_session sid (SetError Err_InvalidArgument message)
            (SetVerifyReport t sid ''RawVerifyFile'' False False Err_InvalidArgument message p)))
      in case ReadBinaryFile L (files p) (ResolveFilePath L signature_path (file_store_settings (sessions p sid))) ''signature file'' of
           Inl error_message \<Rightarrow> refuse error_message
         | Inr signature \<Rightarrow>
             if signature = [] then refuse ''Signature file is empty''
             else case VerifyFile E F L t sid input_path signature p of
               (result, valid, p) \<Rightarrow> (result, valid, OverrideVerifyReportOperation t sid ''RawVerifyFile'' p))"

section \<open>A positive verdict\<close>

lemma upd_session_simps [simp]:
  "sessions (upd_session sid f p) sid = f (sessions p sid)" "sid' \<noteq> sid \<Longrightarrow> sessions (upd_session sid f p) sid' = sessions p sid'"
  "g_verify_report_epoch (upd_session sid f p) = g_verify_report_epoch p"
  "t_last_verify_commit_epoch (upd_session sid f p) = t_last_verify_commit_epoch p" "files (upd_session sid f p) = files p"
  by (simp_all add: upd_session_def)

lemma MarkCommitted_simps [simp]:
  "sessions (MarkCommitted t sid p) sid = (sessions p sid)\<lparr>report_epoch := g_verify_report_epoch p + 1\<rparr>"
  "sid' \<noteq> sid \<Longrightarrow> sessions (MarkCommitted t sid p) sid' = sessions p sid'"
  "g_verify_report_epoch (MarkCommitted t sid p) = g_verify_report_epoch p + 1"
  "t_last_verify_commit_epoch (MarkCommitted t sid p) = (t_last_verify_commit_epoch p)(t := g_verify_report_epoch p + 1)"
  by (simp_all add: MarkCommitted_def Let_def)

lemma refresh_simps [simp]:
  "last_verify_report (RefreshUserReportForCurrentOperation s) = last_verify_report s"
  "last_signer_metadata (RefreshUserReportForCurrentOperation s) = last_signer_metadata s"
  "report_epoch (RefreshUserReportForCurrentOperation s) = report_epoch s"
  "last_verify_report (ClearError s) = last_verify_report s" "report_epoch (ClearError s) = report_epoch s"
  "last_signer_metadata (ClearError s) = last_signer_metadata s"
  "last_user_report_json (ClearError s) = last_user_report_json s"
  "last_verify_report (SetError err m s) = last_verify_report s" "report_epoch (SetError err m s) = report_epoch s"
  by (simp_all add: RefreshUserReportForCurrentOperation_def RefreshUserReport_def ClearError_def SetError_def split: prod.split)

lemma commit_verified_report [simp]:
  "last_verify_report (sessions (commit_verified t sid report metadata p) sid) = report"
  by (simp add: commit_verified_def split: option.split)

text \<open>The flag the engine sets on trust stands for a path to an admitted anchor.\<close>

lemma report_trust_valid:
  assumes "dec_trust_valid (rep_decision (fst (ValidationEngine_Validate E F ctx signer embedded fs)))"
  shows "ctx_signature_crypto_valid ctx" "ctx_level ctx \<noteq> Level_Basic"
    "signer_path_trusted E F fs ctx signer embedded (report_time (fst (ValidationEngine_Validate E F ctx signer embedded fs)))"
proof -
  let ?r = "fst (ValidationEngine_Validate E F ctx signer embedded fs)"
  obtain results where d: "rep_decision ?r = (if ctx_signature_crypto_valid ctx then (\<lambda>d. d)
     else append_all [''uk: The cryptographic check of the signature is not confirmed by the caller (ValidationContext.signature_crypto_valid=false).''] [] [])
      (SynthesizeDecision (ctx_signature_crypto_valid ctx) (rep_path_selection ?r) results (rep_trust_service ?r)
        (rep_signer_revocation ?r) (rep_timestamp ?r) (rep_timestamp_attempted ?r) (rep_signing_time_resolution ?r)
        (policy_of ctx) ctx)"
    using report_decision [of E F ctx signer embedded fs] by blast
  then have "dec_trust_valid (SynthesizeDecision (ctx_signature_crypto_valid ctx) (rep_path_selection ?r) results (rep_trust_service ?r)
        (rep_signer_revocation ?r) (rep_timestamp ?r) (rep_timestamp_attempted ?r) (rep_signing_time_resolution ?r)
        (policy_of ctx) ctx)"
    using assms by (simp split: if_splits)
  note flags = Synthesize_flags(1) [OF this]
  then show "ctx_signature_crypto_valid ctx" "ctx_level ctx \<noteq> Level_Basic" by blast+
  show "signer_path_trusted E F fs ctx signer embedded (report_time ?r)"
    using flags unfolding report_path_trusted [symmetric] by blast
qed

text \<open>Where the session's own correction of the error code does not matter.\<close>

lemma decision_ignores_error_code:
  "vd_valid (ComputeVerifyPolicyDecision (report\<lparr>vr_error_code := err\<rparr>)) = vd_valid (ComputeVerifyPolicyDecision report)"
  by (simp add: decision_valid_iff policy_base_valid_def)

lemma cms_report_decision:
  assumes "cms_report E F L cfg ocsp op cms valid info fs = (report, metadata, fs')"
    and "vd_valid (ComputeVerifyPolicyDecision report)"
  shows "\<exists>embedded fs1. EnrichWithAiaIssuersIfNeeded E L (cfg_work_dir cfg) (os_timeout_ms ocsp)
        (\<not> cfg_offline_mode cfg \<and> cfg_allow_aia_issuer_fetch cfg) (pi_signer_certificate_der info)
        (pi_embedded_certificates_der info) fs = (embedded, fs1)
    \<and> valid \<and> vd_valid (ComputeVerifyPolicyDecision (ApplyValidationEngineReport (ExtractCertificateMetadata L)
        (fst (ValidationEngine_Validate E F (cms_context L cfg ocsp cms valid) (pi_signer_certificate_der info) embedded fs1))
        (default_report\<lparr>vr_has_result := True, vr_execution_succeeded := True, vr_signature_valid := valid,
            vr_operation := op, vr_error_code := Err_None, vr_message := BuildVerifyMessage True valid [],
            vr_signer_certificate_present := pi_signer_certificate_present info,
            vr_cms_signer_count := pi_signer_count info, vr_cms_verified_signer_count := pi_verified_signer_count info,
            vr_signatures := map signer_entry (pi_signers info)\<rparr>)))"
proof (cases valid)
  case True
  obtain embedded fs1 where e: "EnrichWithAiaIssuersIfNeeded E L (cfg_work_dir cfg) (os_timeout_ms ocsp)
        (\<not> cfg_offline_mode cfg \<and> cfg_allow_aia_issuer_fetch cfg) (pi_signer_certificate_der info)
        (pi_embedded_certificates_der info) fs = (embedded, fs1)" by force
  then show ?thesis
    using assms True
    by (auto simp: cms_report_def Let_def decision_ignores_error_code split: prod.splits if_splits)
next
  case False
  then have "\<not> policy_base_valid report"
    using assms(1) by (auto simp: cms_report_def Let_def policy_base_valid_def)
  then show ?thesis using assms(2) by (simp add: decision_valid_iff)
qed

end
