(* ===== verification/Imprint.thy ===== *)
theory Imprint
  imports Sha256
begin

text \<open>
  The digest of a timestamp request (\<open>core/policy/ImprintDigest.cpp\<close>): the table of names and object
  identifiers, and the choice of the digest function. The functions of the vendored library are
  the record \<open>digest_lib\<close>; SHA-256 is the project's own. The build has the library.
\<close>

datatype ImprintDigest = Imprint_Kupyna256 | Imprint_Gost34311 | Imprint_Sha256 | Imprint_Sha384 | Imprint_Sha512

record ImprintResult =
  ir_digest_oid :: string
  ir_hash :: bytes

record digest_lib =
  ComputeKupyna256 :: "bytes \<Rightarrow> bytes option"
  ComputeGost34311 :: "bytes \<Rightarrow> bytes option"
  ComputeSha384 :: "bytes \<Rightarrow> bytes option"
  ComputeSha512 :: "bytes \<Rightarrow> bytes option"
  AssignDigestFromCertificateAdapter :: "bytes \<Rightarrow> ImprintDigest \<Rightarrow> bytes \<Rightarrow> string + bytes"

fun ImprintDigestOid :: "ImprintDigest \<Rightarrow> string" where
  "ImprintDigestOid Imprint_Kupyna256 = ''1.2.804.2.1.1.1.1.2.2.1''"
| "ImprintDigestOid Imprint_Gost34311 = ''1.2.804.2.1.1.1.1.2.1''"
| "ImprintDigestOid Imprint_Sha256 = ''2.16.840.1.101.3.4.2.1''"
| "ImprintDigestOid Imprint_Sha384 = ''2.16.840.1.101.3.4.2.2''"
| "ImprintDigestOid Imprint_Sha512 = ''2.16.840.1.101.3.4.2.3''"

definition ShouldUseCertificateAdapter :: "ImprintDigest \<Rightarrow> bool" where
  "ShouldUseCertificateAdapter alg \<longleftrightarrow> alg = Imprint_Gost34311"

definition library_digest :: "ImprintDigest \<Rightarrow> bytes option \<Rightarrow> string \<Rightarrow> string + ImprintResult" where
  "library_digest alg h name =
     (case h of Some hash \<Rightarrow> Inr \<lparr>ir_digest_oid = ImprintDigestOid alg, ir_hash = hash\<rparr>
      | None \<Rightarrow> Inl (''uk: Error computing '' @ name @ '' through cryptonite''))"

fun ComputeImprint :: "digest_lib \<Rightarrow> ImprintDigest \<Rightarrow> bytes \<Rightarrow> string + ImprintResult" where
  "ComputeImprint D Imprint_Kupyna256 data = library_digest Imprint_Kupyna256 (ComputeKupyna256 D data) ''Kupyna-256''"
| "ComputeImprint D Imprint_Gost34311 data = library_digest Imprint_Gost34311 (ComputeGost34311 D data) ''GOST 34.311''"
| "ComputeImprint D Imprint_Sha256 data = Inr \<lparr>ir_digest_oid = ImprintDigestOid Imprint_Sha256, ir_hash = Sha256 data\<rparr>"
| "ComputeImprint D Imprint_Sha384 data = library_digest Imprint_Sha384 (ComputeSha384 D data) ''SHA-384''"
| "ComputeImprint D Imprint_Sha512 data = library_digest Imprint_Sha512 (ComputeSha512 D data) ''SHA-512''"

definition ComputeImprintByCertificate ::
    "digest_lib \<Rightarrow> bytes \<Rightarrow> ImprintDigest \<Rightarrow> bytes \<Rightarrow> string + ImprintResult" where
  "ComputeImprintByCertificate D certificate_der fallback_alg data =
     (if \<not> ShouldUseCertificateAdapter fallback_alg \<or> certificate_der = [] then ComputeImprint D fallback_alg data
      else case AssignDigestFromCertificateAdapter D certificate_der fallback_alg data of
        Inr hash \<Rightarrow> Inr \<lparr>ir_digest_oid = ImprintDigestOid fallback_alg, ir_hash = hash\<rparr>
      | Inl adapter_error \<Rightarrow>
          Inl (if adapter_error = [] then ''uk: Could not compute certificate-aware GOST 34.311'' else adapter_error))"

definition ImprintFromDigestOid :: "string \<Rightarrow> ImprintDigest option" where
  "ImprintFromDigestOid digest_oid =
     (let oid = map tolower digest_oid
      in if oid = ''1.2.804.2.1.1.1.1.2.2.1'' \<or> oid = ''kupyna256'' \<or> oid = ''kupyna-256'' \<or> oid = ''dstu7564-256''
           \<or> oid = ''dstu7564_256'' \<or> oid = ''dstu7564'' \<or> prefix ''1.2.804.2.1.1.1.1.3'' oid then Some Imprint_Kupyna256
         else if oid = ''1.2.804.2.1.1.1.1.2.1'' \<or> oid = ''gost34311'' \<or> oid = ''gost-34311'' then Some Imprint_Gost34311
         else if oid = ''2.16.840.1.101.3.4.2.1'' \<or> oid = ''sha-256'' \<or> oid = ''sha256'' \<or> oid = ''1.2.840.113549.1.1.11''
           \<or> oid = ''1.2.840.10045.4.3.2'' then Some Imprint_Sha256
         else if oid = ''2.16.840.1.101.3.4.2.2'' \<or> oid = ''sha-384'' \<or> oid = ''sha384'' \<or> oid = ''1.2.840.113549.1.1.12''
           \<or> oid = ''1.2.840.10045.4.3.3'' then Some Imprint_Sha384
         else if oid = ''2.16.840.1.101.3.4.2.3'' \<or> oid = ''sha-512'' \<or> oid = ''sha512'' \<or> oid = ''1.2.840.113549.1.1.13''
           \<or> oid = ''1.2.840.10045.4.3.4'' then Some Imprint_Sha512
         else None)"

section \<open>The request names the digest that was computed\<close>

definition digest_of :: "digest_lib \<Rightarrow> ImprintDigest \<Rightarrow> bytes \<Rightarrow> bytes option" where
  "digest_of D alg data =
     (case alg of Imprint_Kupyna256 \<Rightarrow> ComputeKupyna256 D data | Imprint_Gost34311 \<Rightarrow> ComputeGost34311 D data
      | Imprint_Sha256 \<Rightarrow> Some (Sha256 data) | Imprint_Sha384 \<Rightarrow> ComputeSha384 D data | Imprint_Sha512 \<Rightarrow> ComputeSha512 D data)"

lemma ComputeImprint_Inr:
  "ComputeImprint D alg data = Inr imprint \<longleftrightarrow> ir_digest_oid imprint = ImprintDigestOid alg \<and> digest_of D alg data = Some (ir_hash imprint)"
  by (cases imprint; cases alg) (auto simp: digest_of_def library_digest_def split: option.split)

lemma digest_oid_roundtrip: "ImprintFromDigestOid (ImprintDigestOid alg) = Some alg"
  by (cases alg) (simp_all, code_simp+)

lemma digest_oid_case: "ImprintFromDigestOid (map tolower digest_oid) = ImprintFromDigestOid digest_oid"
  by (simp add: ImprintFromDigestOid_def comp_def)

end
