(* ===== verification/Session_Settings.thy ===== *)
theory Session_Settings
  imports Session_Verify Imprint
begin

text \<open>
  The life of a session (\<open>core/session/SessionLifecycle.ipp\<close>): the constructor, \<open>Initialize\<close> and
  \<open>Finalize\<close>, the setters of the settings with the values they refuse, the synchronisation of the
  trust list and the description of the supported media. An operation returns its result and the
  session. The temporary directory and the synchronisation itself are arguments.
\<close>

section \<open>A new session\<close>

definition default_settings :: Settings where
  "default_settings = \<lparr>cfg_offline_mode = True, cfg_work_dir = [], cfg_trust_mode = ''strict'', cfg_validation_level = ''standard'',
     cfg_allow_aia_issuer_fetch = False\<rparr>"

definition default_trust_list_settings :: TrustListSettings where
  "default_trust_list_settings = \<lparr>tls_url = ''https://czo.gov.ua/download/tl/TL-UA-EC.xml'', tls_timeout_ms = 30000,
     tls_cache_ttl_hours = 24, tls_allow_https_bootstrap = True, tls_fail_if_cache_stale = False,
     tls_xml_signature_policy = Xml_PreferAvailable, tls_xml_signer_cert_der = []\<rparr>"

definition default_sync_report :: TrustListSyncReport where
  "default_sync_report = \<lparr>ts_checked = False, ts_update_succeeded = False,
     ts_source = ''https://czo.gov.ua/download/tl/TL-UA-EC.xml'', ts_cache_status = ''not-checked'', ts_last_sync = [],
     ts_xml_signature_status = ''not-checked''\<rparr>"

definition new_session :: session where
  "new_session = ClearVerifyReport
     \<lparr>is_initialized = False, is_private_key_loaded = False, need_set_settings = True, settings = default_settings,
      file_store_settings = \<lparr>fss_base_path = [], fss_allow_overwrite = True\<rparr>,
      ocsp_settings = \<lparr>os_url = [], os_use_nonce = True, os_timeout_ms = 10000\<rparr>,
      tsp_settings = \<lparr>tsp_url = [], tsp_policy_oid = [], tsp_timeout_ms = 10000, tsp_imprint_digest_oid = []\<rparr>,
      ldap_settings = \<lparr>ldap_url = [], ldap_base_dn = [], ldap_timeout_ms = 10000\<rparr>,
      cmp_settings = \<lparr>cmp_url = [], cmp_profile = [], cmp_timeout_ms = 10000\<rparr>,
      trust_list_settings = default_trust_list_settings, last_error = \<lparr>le_code = Err_None, le_message = []\<rparr>,
      loaded_key = [], loaded_key_material = [], loaded_certificate = [], loaded_key_password = [],
      loaded_key_format = Key_Unknown, last_verify_report = default_report,
      last_trust_list_sync_report = default_sync_report, last_signer_metadata = default_metadata,
      last_user_report_json = [], report_epoch = 0\<rparr>"

definition SecureClearLoadedKey :: "session \<Rightarrow> session" where
  "SecureClearLoadedKey s = s\<lparr>loaded_key := [], loaded_key_material := [], loaded_certificate := [], loaded_key_password := [],
     loaded_key_format := Key_Unknown\<rparr>"

text \<open>The argument makes the temporary directory of the session, if it can.\<close>

definition Initialize :: "('fs \<Rightarrow> string option \<times> 'fs) \<Rightarrow> session \<Rightarrow> 'fs \<Rightarrow> bool \<times> session \<times> 'fs" where
  "Initialize make_dir s fs =
     (let (s, fs) =
        (if need_set_settings s then
           let (s, fs) =
             (if cfg_work_dir (settings s) = [] then
                (case make_dir fs of
                   (Some dir, fs) \<Rightarrow> (s\<lparr>settings := (settings s)\<lparr>cfg_work_dir := dir\<rparr>\<rparr>, fs)
                 | (None, fs) \<Rightarrow> (s, fs))
              else (s, fs))
           in (s\<lparr>need_set_settings := False\<rparr>, fs)
         else (s, fs))
      in (True, ClearError (ClearVerifyReport (s\<lparr>is_initialized := True\<rparr>)), fs))"

definition Finalize :: "session \<Rightarrow> bool \<times> session" where
  "Finalize s = (True, ClearError (ClearVerifyReport
     ((SecureClearLoadedKey s)\<lparr>is_private_key_loaded := False, is_initialized := False\<rparr>)))"

section \<open>Settings\<close>

definition IsValidTimeout :: "int \<Rightarrow> bool" where
  "IsValidTimeout t \<longleftrightarrow> t > 0 \<and> t \<le> 300000"

definition IsLikelyUrl :: "string \<Rightarrow> bool" where
  "IsLikelyUrl value \<longleftrightarrow> prefix ''http://'' value \<or> prefix ''https://'' value \<or> prefix ''ldap://'' value"

definition refuse :: "ErrorCode \<Rightarrow> string \<Rightarrow> session \<Rightarrow> bool \<times> session" where
  "refuse err message s = (False, SetError err message s)"

definition SetSettings :: "Settings \<Rightarrow> session \<Rightarrow> bool \<times> session" where
  "SetSettings cfg s =
     (let normalized = (if cfg_trust_mode cfg = [] then cfg\<lparr>cfg_trust_mode := ''strict''\<rparr> else cfg)
      in if cfg_trust_mode normalized \<noteq> ''strict'' \<and> cfg_trust_mode normalized \<noteq> ''compatibility''
           \<and> cfg_trust_mode normalized \<noteq> ''ukraine-legal'' \<and> cfg_trust_mode normalized \<noteq> ''offline''
           \<and> cfg_trust_mode normalized \<noteq> ''forensic''
         then refuse Err_InvalidArgument ''Invalid trust mode; expected strict, compatibility, ukraine-legal, offline or forensic'' s
         else
           let normalized = (if cfg_validation_level normalized = [] then normalized\<lparr>cfg_validation_level := ''standard''\<rparr> else normalized)
           in if cfg_validation_level normalized \<noteq> ''basic'' \<and> cfg_validation_level normalized \<noteq> ''standard''
                \<and> cfg_validation_level normalized \<noteq> ''extended'' \<and> cfg_validation_level normalized \<noteq> ''forensic''
              then refuse Err_InvalidArgument ''Invalid validation level; expected basic, standard, extended or forensic'' s
              else (True, ClearError (s\<lparr>settings := normalized, need_set_settings := False\<rparr>)))"

definition SetFileStoreSettings :: "FileStoreSettings \<Rightarrow> session \<Rightarrow> bool \<times> session" where
  "SetFileStoreSettings fss s = (True, ClearError (s\<lparr>file_store_settings := fss\<rparr>))"

definition SetOcspSettings :: "OcspSettings \<Rightarrow> session \<Rightarrow> bool \<times> session" where
  "SetOcspSettings ocsp s =
     (if os_url ocsp \<noteq> [] \<and> \<not> IsLikelyUrl (os_url ocsp) \<or> \<not> IsValidTimeout (os_timeout_ms ocsp)
      then refuse Err_InvalidArgument ''Invalid OCSP settings'' s
      else (True, ClearError (s\<lparr>ocsp_settings := ocsp\<rparr>)))"

definition SetTspSettings :: "TspSettings \<Rightarrow> session \<Rightarrow> bool \<times> session" where
  "SetTspSettings tsp s =
     (if tsp_url tsp \<noteq> [] \<and> \<not> IsLikelyUrl (tsp_url tsp) \<or> \<not> IsValidTimeout (tsp_timeout_ms tsp)
      then refuse Err_InvalidArgument ''Invalid TSP settings'' s
      else
        let normalized = tsp\<lparr>tsp_imprint_digest_oid := map tolower (tsp_imprint_digest_oid tsp)\<rparr>
        in if tsp_imprint_digest_oid normalized \<noteq> [] \<and> tsp_imprint_digest_oid normalized \<noteq> ''auto''
             \<and> ImprintFromDigestOid (tsp_imprint_digest_oid normalized) = None
           then refuse Err_InvalidArgument ''Invalid TSP imprint digest OID'' s
           else (True, ClearError (s\<lparr>tsp_settings := normalized\<rparr>)))"

definition SetLdapSettings :: "LdapSettings \<Rightarrow> session \<Rightarrow> bool \<times> session" where
  "SetLdapSettings ldap s =
     (if ldap_url ldap \<noteq> [] \<and> \<not> IsLikelyUrl (ldap_url ldap) \<or> \<not> IsValidTimeout (ldap_timeout_ms ldap)
      then refuse Err_InvalidArgument ''Invalid LDAP settings'' s
      else if ldap_url ldap = [] then (True, ClearError (s\<lparr>ldap_settings := ldap\<rparr>))
      else refuse Err_NotSupported (ErrorCode_ToString Err_NotSupported) s)"

definition SetCmpSettings :: "CmpSettings \<Rightarrow> session \<Rightarrow> bool \<times> session" where
  "SetCmpSettings cmp s =
     (if cmp_url cmp \<noteq> [] \<and> \<not> IsLikelyUrl (cmp_url cmp) \<or> \<not> IsValidTimeout (cmp_timeout_ms cmp)
      then refuse Err_InvalidArgument ''Invalid CMP settings'' s
      else if cmp_url cmp = [] then (True, ClearError (s\<lparr>cmp_settings := cmp\<rparr>))
      else refuse Err_NotSupported (ErrorCode_ToString Err_NotSupported) s)"

definition SetTrustListSettings :: "TrustListSettings \<Rightarrow> session \<Rightarrow> bool \<times> session" where
  "SetTrustListSettings trust s =
     (let normalized = (if tls_url trust = [] then trust\<lparr>tls_url := tls_url default_trust_list_settings\<rparr> else trust)
      in if \<not> IsLikelyUrl (tls_url normalized) \<or> \<not> IsValidTimeout (tls_timeout_ms normalized) \<or> tls_cache_ttl_hours normalized \<le> 0
         then refuse Err_InvalidArgument ''Invalid trust list settings'' s
         else (True, ClearError (s\<lparr>trust_list_settings := normalized\<rparr>)))"

section \<open>Trust list and media\<close>

record TrustListSyncResult =
  sr_succeeded :: bool
  sr_source_url :: string
  sr_cache_status :: string
  sr_last_sync :: string
  sr_message :: string
  sr_xml_signature_status :: string

definition SyncTrustList ::
    "(string \<Rightarrow> TrustListSettings \<Rightarrow> 'fs \<Rightarrow> TrustListSyncResult \<times> 'fs) \<Rightarrow> session \<Rightarrow> 'fs \<Rightarrow> bool \<times> session \<times> 'fs" where
  "SyncTrustList sync s fs =
     (if \<not> is_initialized s then (False, SetError Err_NotInitialized (ErrorCode_ToString Err_NotInitialized) s, fs)
      else if cfg_offline_mode (settings s) then
        (False, SetError Err_OnlineServiceUnavailable ''Trust list synchronization is disabled in offline mode''
           (s\<lparr>last_trust_list_sync_report := \<lparr>ts_checked = True, ts_update_succeeded = False,
              ts_source = tls_url (trust_list_settings s), ts_cache_status = ''blocked-offline'', ts_last_sync = [],
              ts_xml_signature_status = ''not-checked-offline''\<rparr>\<rparr>), fs)
      else case sync (cfg_work_dir (settings s)) (trust_list_settings s) fs of
        (result, fs) \<Rightarrow>
          let s = s\<lparr>last_trust_list_sync_report := \<lparr>ts_checked = True, ts_update_succeeded = sr_succeeded result,
                ts_source = sr_source_url result, ts_cache_status = sr_cache_status result, ts_last_sync = sr_last_sync result,
                ts_xml_signature_status = sr_xml_signature_status result\<rparr>\<rparr>
          in if \<not> sr_succeeded result then (False, SetError Err_OnlineServiceUnavailable (sr_message result) s, fs)
             else (True, ClearError s, fs))"

text \<open>The two arguments say whether the build has the cryptographic library and an HTTP stack.\<close>

definition DescribeSupportedMedia :: "bool \<Rightarrow> bool \<Rightarrow> string" where
  "DescribeSupportedMedia cryptonite http =
     ''{'' @ jkey ''version'' @ ''2,'' @ jkey ''media''
       @ ''['' @ [quote] @ ''pkcs12'' @ [quote] @ '','' @ [quote] @ ''pkcs8'' @ [quote] @ '','' @ [quote] @ ''jks'' @ [quote] @ '','' @ [quote] @ ''pem'' @ [quote] @ '','' @ [quote] @ ''der'' @ [quote] @ ''],''
       @ jkey ''gui'' @ ''false,'' @ jbool ''cryptoniteEnabled'' cryptonite @ '','' @ jkey ''signing'' @ ''{''
       @ jbool ''detached'' cryptonite @ '','' @ jbool ''attached'' cryptonite @ '','' @ jbool ''requiresCryptonite'' True @ ''},''
       @ jkey ''verificationPolicy'' @ ''{'' @ jstr ''detached'' ''crypto-integrity-plus-embedded-chain'' @ '',''
       @ jstr ''attached'' ''crypto-integrity-plus-embedded-chain'' @ '','' @ jbool ''embeddedChainValidation'' True @ '',''
       @ jbool ''certificateTimeValidation'' True @ '','' @ jbool ''trustValidation'' cryptonite @ '',''
       @ jbool ''revocationValidation'' cryptonite @ '','' @ jbool ''trustStoreTransport'' True @ ''},''
       @ jkey ''networkProviders'' @ ''{'' @ jbool ''ocsp'' http @ '','' @ jbool ''tsp'' http @ '','' @ jbool ''ldap'' False @ '',''
       @ jbool ''cmp'' False @ ''}}''"

section \<open>What the setters promise\<close>

text \<open>
  The address of the timestamp service is the one field that is not only set by its setter: signing
  stores an address it finds in the trust list, without the check of the setter. The addresses that can come from there are
  the argument \<open>A\<close>.
\<close>

definition settings_ok :: "(string \<Rightarrow> bool) \<Rightarrow> session \<Rightarrow> bool" where
  "settings_ok A s \<longleftrightarrow>
     cfg_trust_mode (settings s) \<in> {''strict'', ''compatibility'', ''ukraine-legal'', ''offline'', ''forensic''}
     \<and> cfg_validation_level (settings s) \<in> {''basic'', ''standard'', ''extended'', ''forensic''}
     \<and> (os_url (ocsp_settings s) = [] \<or> IsLikelyUrl (os_url (ocsp_settings s))) \<and> IsValidTimeout (os_timeout_ms (ocsp_settings s))
     \<and> (tsp_url (tsp_settings s) = [] \<or> IsLikelyUrl (tsp_url (tsp_settings s)) \<or> A (tsp_url (tsp_settings s)))
     \<and> IsValidTimeout (tsp_timeout_ms (tsp_settings s))
     \<and> (tsp_imprint_digest_oid (tsp_settings s) \<in> {[], ''auto''} \<or> ImprintFromDigestOid (tsp_imprint_digest_oid (tsp_settings s)) \<noteq> None)
     \<and> ldap_url (ldap_settings s) = [] \<and> IsValidTimeout (ldap_timeout_ms (ldap_settings s))
     \<and> cmp_url (cmp_settings s) = [] \<and> IsValidTimeout (cmp_timeout_ms (cmp_settings s))
     \<and> IsLikelyUrl (tls_url (trust_list_settings s)) \<and> IsValidTimeout (tls_timeout_ms (trust_list_settings s))
     \<and> tls_cache_ttl_hours (trust_list_settings s) > 0"

lemma session_field_simps [simp]:
  "settings (SetError err m s) = settings s" "settings (ClearError s) = settings s" "settings (ClearVerifyReport s) = settings s"
  "ocsp_settings (SetError err m s) = ocsp_settings s" "ocsp_settings (ClearError s) = ocsp_settings s"
  "ocsp_settings (ClearVerifyReport s) = ocsp_settings s"
  "tsp_settings (SetError err m s) = tsp_settings s" "tsp_settings (ClearError s) = tsp_settings s"
  "tsp_settings (ClearVerifyReport s) = tsp_settings s"
  "ldap_settings (SetError err m s) = ldap_settings s" "ldap_settings (ClearError s) = ldap_settings s"
  "ldap_settings (ClearVerifyReport s) = ldap_settings s"
  "cmp_settings (SetError err m s) = cmp_settings s" "cmp_settings (ClearError s) = cmp_settings s"
  "cmp_settings (ClearVerifyReport s) = cmp_settings s"
  "trust_list_settings (SetError err m s) = trust_list_settings s" "trust_list_settings (ClearError s) = trust_list_settings s"
  "trust_list_settings (ClearVerifyReport s) = trust_list_settings s"
  by (simp_all add: SetError_def ClearError_def ClearVerifyReport_def RefreshUserReportForCurrentOperation_def RefreshUserReport_def
      split: prod.split)

lemma settings_ok_frame:
  assumes "settings s = settings s'" "ocsp_settings s = ocsp_settings s'"
    "tsp_url (tsp_settings s) = [] \<or> IsLikelyUrl (tsp_url (tsp_settings s)) \<or> A (tsp_url (tsp_settings s))" "tsp_timeout_ms (tsp_settings s) = tsp_timeout_ms (tsp_settings s')"
    "tsp_imprint_digest_oid (tsp_settings s) = tsp_imprint_digest_oid (tsp_settings s')"
    "ldap_settings s = ldap_settings s'" "cmp_settings s = cmp_settings s'" "trust_list_settings s = trust_list_settings s'"
    "settings_ok A s'"
  shows "settings_ok A s"
  using assms by (simp add: settings_ok_def)

lemma settings_ok_new: "settings_ok A new_session"
  by (simp add: settings_ok_def new_session_def default_settings_def default_trust_list_settings_def IsValidTimeout_def IsLikelyUrl_def)

lemma settings_ok_simps [simp]: "settings_ok A (SetError err m s) = settings_ok A s" "settings_ok A (ClearError s) = settings_ok A s"
  "settings_ok A (ClearVerifyReport s) = settings_ok A s" "settings_ok A (snd (refuse err m s)) = settings_ok A s"
  by (simp_all add: settings_ok_def refuse_def)

lemma settings_ok_assign:
  "\<lbrakk>settings_ok A s; cfg_trust_mode c \<in> {''strict'', ''compatibility'', ''ukraine-legal'', ''offline'', ''forensic''};
    cfg_validation_level c \<in> {''basic'', ''standard'', ''extended'', ''forensic''}\<rbrakk>
   \<Longrightarrow> settings_ok A (s\<lparr>settings := c, need_set_settings := False\<rparr>)"
  unfolding settings_ok_def by simp

lemma settings_ok_SetSettings:
  assumes "settings_ok A s" shows "settings_ok A (snd (SetSettings cfg s))"
proof -
  define n where "n = (if cfg_trust_mode cfg = [] then cfg\<lparr>cfg_trust_mode := ''strict''\<rparr> else cfg)"
  define m where "m = (if cfg_validation_level n = [] then n\<lparr>cfg_validation_level := ''standard''\<rparr> else n)"
  have same: "cfg_trust_mode m = cfg_trust_mode n" by (simp add: m_def)
  show ?thesis
    using assms settings_ok_assign [OF assms, of m] same
    unfolding SetSettings_def Let_def n_def [symmetric] m_def [symmetric] by (simp only: settings_ok_simps snd_conv split: if_split) blast
qed

lemma settings_ok_setters:
  assumes "settings_ok A s"
  shows "settings_ok A (snd (SetFileStoreSettings fss s))" "settings_ok A (snd (SetOcspSettings ocsp s))"
    "settings_ok A (snd (SetTspSettings tsp s))" "settings_ok A (snd (SetLdapSettings ldap s))" "settings_ok A (snd (SetCmpSettings cmp s))"
    "settings_ok A (snd (SetTrustListSettings trust s))"
proof -
  show "settings_ok A (snd (SetFileStoreSettings fss s))" using assms by (simp add: SetFileStoreSettings_def settings_ok_def)
  show "settings_ok A (snd (SetOcspSettings ocsp s))"
    by (cases "os_url ocsp = []") (use assms in \<open>simp_all add: SetOcspSettings_def\<close>, simp_all add: settings_ok_def)
  show "settings_ok A (snd (SetLdapSettings ldap s))"
    by (cases "ldap_url ldap = []") (use assms in \<open>simp_all add: SetLdapSettings_def\<close>, simp_all add: settings_ok_def)
  show "settings_ok A (snd (SetCmpSettings cmp s))"
    by (cases "cmp_url cmp = []") (use assms in \<open>simp_all add: SetCmpSettings_def\<close>, simp_all add: settings_ok_def)
  show "settings_ok A (snd (SetTspSettings tsp s))"
    by (cases "tsp_url tsp = []") (use assms in \<open>simp_all add: SetTspSettings_def Let_def\<close>, simp_all add: settings_ok_def)
  show "settings_ok A (snd (SetTrustListSettings trust s))"
    by (cases "tls_url trust = []") (use assms in \<open>simp_all add: SetTrustListSettings_def Let_def\<close>, simp_all add: settings_ok_def)
qed

lemma settings_ok_lifecycle:
  assumes "settings_ok A s"
  shows "settings_ok A (fst (snd (Initialize make_dir s fs)))" "settings_ok A (snd (Finalize s))" "settings_ok A (fst (snd (SyncTrustList sync s fs)))"
proof -
  show "settings_ok A (fst (snd (Initialize make_dir s fs)))"
    using assms by (simp add: Initialize_def Let_def split: prod.split option.split) (simp add: settings_ok_def)
  show "settings_ok A (snd (Finalize s))"
    using assms by (simp add: Finalize_def SecureClearLoadedKey_def) (simp add: settings_ok_def)
  show "settings_ok A (fst (snd (SyncTrustList sync s fs)))"
    using assms by (simp add: SyncTrustList_def Let_def split: prod.split) (simp add: settings_ok_def)
qed

text \<open>Where a setter refuses, only the error changes.\<close>

lemma refuse_atomic: "snd (refuse err message s) = s\<lparr>last_error := \<lparr>le_code = err, le_message = message\<rparr>\<rparr>"
  by (simp add: refuse_def SetError_def)

definition settled :: "session \<Rightarrow> bool \<times> session \<Rightarrow> bool" where
  "settled s r \<longleftrightarrow> fst r \<or> snd r = s\<lparr>last_error := last_error (snd r)\<rparr>"

lemma settled_intros:
  "settled s (refuse err message s)" "settled s (True, s')" "settled s r \<Longrightarrow> settled s r' \<Longrightarrow> settled s (if b then r else r')"
  by (simp_all add: settled_def refuse_atomic)

lemma setters_atomic:
  "settled s (SetSettings cfg s)" "settled s (SetOcspSettings ocsp s)" "settled s (SetTspSettings tsp s)"
  "settled s (SetLdapSettings ldap s)" "settled s (SetCmpSettings cmp s)" "settled s (SetTrustListSettings trust s)"
  unfolding SetSettings_def SetOcspSettings_def SetTspSettings_def SetLdapSettings_def SetCmpSettings_def SetTrustListSettings_def Let_def
  by (intro settled_intros)+

lemma sync_offline:
  assumes "cfg_offline_mode (settings s)"
  shows "SyncTrustList sync s fs = SyncTrustList sync' s fs" "\<not> fst (SyncTrustList sync s fs)" "snd (snd (SyncTrustList sync s fs)) = fs"
  using assms by (simp_all add: SyncTrustList_def)

end
