(* ===== verification/Key_Containers.thy ===== *)
theory Key_Containers
  imports Jks Base64
begin

text \<open>
  The other key files of \<open>core/KeyParsers.cpp\<close>: PEM and DER, the container \<open>Key-6.dat\<close> of IIT and the
  PKCS#12 profile \<open>.ZS2\<close>. Parsing is the project's own; the ciphers and digests of the vendored
  library are the record \<open>key_crypto\<close>. The build has the library.
\<close>

section \<open>PEM and DER\<close>

record PemBlock =
  pem_type :: string
  pem_der_payload :: bytes

definition IsBase64Char :: "char \<Rightarrow> bool" where
  "IsBase64Char ch \<longleftrightarrow> isalnum ch \<or> ch = CHR ''+'' \<or> ch = CHR ''/'' \<or> ch = CHR ''=''"

text \<open>What is before and after the first occurrence of a text.\<close>

fun split_sub :: "string \<Rightarrow> string \<Rightarrow> (string \<times> string) option" where
  "split_sub p [] = (if p = [] then Some ([], []) else None)"
| "split_sub p (ch # s) =
     (if prefix p (ch # s) then Some ([], drop (length p) (ch # s))
      else map_option (\<lambda>(before, after). (ch # before, after)) (split_sub p s))"

lemma split_sub_eq: "split_sub p s = Some (u, v) \<Longrightarrow> s = u @ p @ v"
proof (induction s arbitrary: u)
  case Nil
  then show ?case by (simp split: if_splits)
next
  case (Cons ch s)
  then show ?case by (auto split: if_splits simp: prefix_def)
qed

text \<open>
  The loop over the blocks; its argument is the text from \<open>search_pos\<close> on. The line break that ends
  the begin marker is looked for behind its dashes, the end marker behind the line break.
\<close>

function pem_blocks :: "string \<Rightarrow> string + PemBlock list" where
  "pem_blocks text =
     (case split_sub ''-----BEGIN '' text of
        None \<Rightarrow> Inr []
      | Some (_, text) \<Rightarrow>
          (case split_sub ''-----'' text of
             None \<Rightarrow> Inl ''PEM begin marker is invalid''
           | Some (block_type, text) \<Rightarrow>
               (case split_sub [CHR 0x0A] text of
                  None \<Rightarrow> Inl ''PEM end marker is missing''
                | Some (_, text) \<Rightarrow>
                    (case split_sub (''-----END '' @ block_type @ ''-----'') text of
                       None \<Rightarrow> Inl ''PEM end marker is missing''
                     | Some (body, text) \<Rightarrow>
                         let payload = filter IsBase64Char body
                         in if payload = [] then Inl ''PEM payload is empty''
                            else case Base64Decode payload of
                              None \<Rightarrow> Inl ''PEM payload is invalid''
                            | Some decoded \<Rightarrow>
                                (case pem_blocks text of
                                   Inl e \<Rightarrow> Inl e
                                 | Inr blocks \<Rightarrow> Inr (\<lparr>pem_type = block_type, pem_der_payload = decoded\<rparr> # blocks))))))"
  by pat_completeness auto
termination
  by (relation "measure length") (auto dest!: split_sub_eq)

declare pem_blocks.simps [simp del]

definition LoadAll :: "bytes \<Rightarrow> bool \<Rightarrow> string + PemBlock list" where
  "LoadAll input strict_mode =
     (case input of
        [] \<Rightarrow> Inl ''Input key data is empty''
      | b # _ \<Rightarrow>
          if b = 0x30 then Inr [\<lparr>pem_type = ''DER'', pem_der_payload = input\<rparr>]
          else
            sbind (pem_blocks (string_of_bytes input)) (\<lambda>blocks.
            if blocks = [] then Inl ''Unsupported key container format''
            else if strict_mode \<and> \<not> list_all (\<lambda>block. pem_der_payload block \<noteq> [] \<and> hd (pem_der_payload block) = 0x30) blocks
            then Inl ''Strict mode expects ASN.1 DER SEQUENCE payload''
            else Inr blocks))"

definition is_key_block :: "PemBlock \<Rightarrow> bool" where
  "is_key_block block \<longleftrightarrow> str_contains ''PRIVATE KEY'' (pem_type block) \<or> pem_type block = ''DER''"

definition PemDerLoader_Load :: "bytes \<Rightarrow> string + bytes \<times> string" where
  "PemDerLoader_Load input =
     sbind (LoadAll input False) (\<lambda>blocks.
     sbind (need ''PEM/DER does not contain PRIVATE KEY block'' (find is_key_block blocks)) (\<lambda>block.
     Inr (pem_der_payload block, pem_type block)))"

section \<open>The container of IIT\<close>

record key_crypto =
  Gost34311Hash :: "bytes \<Rightarrow> bytes option"
  gost28147_ecb_decrypt :: "bytes \<Rightarrow> bytes \<Rightarrow> bytes option"
  gost28147_mac :: "bytes \<Rightarrow> bytes \<Rightarrow> bytes option"
  dstu7564_kmac :: "bytes \<Rightarrow> bytes \<Rightarrow> bytes option"
  dstu7624_cbc_decrypt :: "bytes \<Rightarrow> bytes \<Rightarrow> bytes \<Rightarrow> bytes option"

record IitContainer =
  iit_mac :: bytes
  iit_pad :: bytes
  iit_body :: bytes

definition tlv_of :: "bytes \<Rightarrow> size_w \<Rightarrow> size_w \<Rightarrow> byte \<Rightarrow> TlvView option" where
  "tlv_of data offset limit expected =
     (case tlv_at data offset limit of Some view \<Rightarrow> if tag view = expected then Some view else None | None \<Rightarrow> None)"

definition value_end :: "TlvView \<Rightarrow> size_w" where
  "value_end view = value_offset view + value_length view"

definition kIitStoreOidValue :: bytes where
  "kIitStoreOidValue = [0x2B, 0x06, 0x01, 0x04, 0x01, 0x81, 0x97, 0x46, 0x01, 0x01, 0x01, 0x02]"

definition OidEquals :: "bytes \<Rightarrow> TlvView \<Rightarrow> bytes \<Rightarrow> bool" where
  "OidEquals data view expected \<longleftrightarrow> tag view = 0x06 \<and> unat (value_length view) = length expected \<and> value_of data view = expected"

definition ParseIitContainer :: "bytes \<Rightarrow> IitContainer option" where
  "ParseIitContainer input =
     Option.bind (tlv_of input 0 (buffer_size input) 0x30) (\<lambda>outer.
     Option.bind (tlv_of input (value_offset outer) (value_end outer) 0x30) (\<lambda>algorithm.
     Option.bind (tlv_of input (value_offset algorithm) (value_end algorithm) 0x06) (\<lambda>oid.
     if \<not> OidEquals input oid kIitStoreOidValue then None
     else
       Option.bind (tlv_of input (next_offset oid) (value_end algorithm) 0x30) (\<lambda>params.
       Option.bind (tlv_of input (value_offset params) (value_end params) 0x04) (\<lambda>mac.
       Option.bind (if next_offset mac < value_end params
           then map_option (value_of input) (tlv_of input (next_offset mac) (value_end params) 0x04)
           else Some []) (\<lambda>pad.
       Option.bind (tlv_of input (next_offset algorithm) (value_end outer) 0x04) (\<lambda>body.
       Some \<lparr>iit_mac = value_of input mac, iit_pad = pad, iit_body = value_of input body\<rparr>)))))))"

definition IitKeyContainerParser_Matches :: "bytes \<Rightarrow> bool" where
  "IitKeyContainerParser_Matches input \<longleftrightarrow> ParseIitContainer input \<noteq> None"

definition kIitKdfPasses :: nat where "kIitKdfPasses = 10000"

definition DeriveIitKey :: "key_crypto \<Rightarrow> string \<Rightarrow> bytes option" where
  "DeriveIitKey K password =
     fold (\<lambda>_ key. Option.bind key (Gost34311Hash K)) [1..<kIitKdfPasses] (Gost34311Hash K (bytes_of_string password))"

definition IitKeyContainerParser_Decrypt :: "key_crypto \<Rightarrow> bytes \<Rightarrow> string \<Rightarrow> string + bytes" where
  "IitKeyContainerParser_Decrypt K input password =
     sbind (need ''IIT key container has malformed structure'' (ParseIitContainer input)) (\<lambda>container.
     sbind (guard ''IIT key container has unexpected MAC length'' (length (iit_mac container) = 4)) (\<lambda>_.
     sbind (guard ''IIT key container has unexpected padding length'' (length (iit_pad container) < 8)) (\<lambda>_.
     sbind (guard ''IIT key container payload is not block aligned''
       (iit_body container \<noteq> [] \<and> (length (iit_body container) + length (iit_pad container)) mod 8 = 0)) (\<lambda>_.
     sbind (guard ''IIT key container requires password'' (password \<noteq> [])) (\<lambda>_.
     sbind (need ''IIT key derivation failed'' (DeriveIitKey K password)) (\<lambda>key.
     sbind (need ''IIT key container decryption failed'' (gost28147_ecb_decrypt K key (iit_body container @ iit_pad container))) (\<lambda>output.
     sbind (guard ''IIT key container decryption produced short output'' (length output \<ge> length (iit_body container))) (\<lambda>_.
     let plaintext = take (length (iit_body container)) output
     in sbind (need ''IIT key container MAC computation failed'' (gost28147_mac K key plaintext)) (\<lambda>computed_mac.
        sbind (guard ''IIT key container password is incorrect (MAC mismatch)''
          (length computed_mac \<ge> 4 \<and> take (length (iit_mac container)) computed_mac = iit_mac container)) (\<lambda>_.
        Inr plaintext))))))))))"

section \<open>The container ZS2\<close>

record Zs2Bag =
  zs_salt :: bytes
  zs_iv :: bytes
  zs_ciphertext :: bytes
  zs_iterations :: u64

definition kOidPkcs7Data :: bytes where
  "kOidPkcs7Data = [0x2A, 0x86, 0x48, 0x86, 0xF7, 0x0D, 0x01, 0x07, 0x01]"

definition kOidShroudedKeyBag :: bytes where
  "kOidShroudedKeyBag = [0x2A, 0x86, 0x48, 0x86, 0xF7, 0x0D, 0x01, 0x0C, 0x0A, 0x01, 0x02]"

definition kOidPbes2 :: bytes where
  "kOidPbes2 = [0x2A, 0x86, 0x48, 0x86, 0xF7, 0x0D, 0x01, 0x05, 0x0D]"

definition kOidPbkdf2 :: bytes where
  "kOidPbkdf2 = [0x2A, 0x86, 0x48, 0x86, 0xF7, 0x0D, 0x01, 0x05, 0x0C]"

definition kOidKupynaKmac256 :: bytes where
  "kOidKupynaKmac256 = [0x2A, 0x86, 0x24, 0x02, 0x01, 0x01, 0x01, 0x01, 0x02, 0x02, 0x04]"

definition kOidKalyna256Cbc :: bytes where
  "kOidKalyna256Cbc = [0x2A, 0x86, 0x24, 0x02, 0x01, 0x01, 0x01, 0x01, 0x01, 0x03, 0x05, 0x02]"

definition oid_at :: "bytes \<Rightarrow> size_w \<Rightarrow> size_w \<Rightarrow> bytes \<Rightarrow> TlvView option" where
  "oid_at data offset limit expected =
     (case tlv_at data offset limit of Some view \<Rightarrow> if OidEquals data view expected then Some view else None | None \<Rightarrow> None)"

text \<open>The bounds of the content and the offset after the structure.\<close>

definition ParseDataContentInfo :: "bytes \<Rightarrow> size_w \<Rightarrow> size_w \<Rightarrow> (size_w \<times> size_w \<times> size_w) option" where
  "ParseDataContentInfo data offset limit =
     Option.bind (tlv_of data offset limit 0x30) (\<lambda>info.
     Option.bind (oid_at data (value_offset info) (value_end info) kOidPkcs7Data) (\<lambda>oid.
     Option.bind (tlv_of data (next_offset oid) (value_end info) 0xA0) (\<lambda>explicit0.
     Option.bind (tlv_of data (value_offset explicit0) (value_end explicit0) 0x04) (\<lambda>octets.
     Some (value_offset octets, value_length octets, next_offset info)))))"

definition ParseZs2Encryption :: "bytes \<Rightarrow> TlvView \<Rightarrow> Zs2Bag option" where
  "ParseZs2Encryption data epki =
     Option.bind (tlv_of data (value_offset epki) (value_end epki) 0x30) (\<lambda>alg.
     Option.bind (oid_at data (value_offset alg) (value_end alg) kOidPbes2) (\<lambda>pbes2_oid.
     Option.bind (tlv_of data (next_offset pbes2_oid) (value_end alg) 0x30) (\<lambda>params.
     Option.bind (tlv_of data (value_offset params) (value_end params) 0x30) (\<lambda>kdf.
     Option.bind (oid_at data (value_offset kdf) (value_end kdf) kOidPbkdf2) (\<lambda>kdf_oid.
     Option.bind (tlv_of data (next_offset kdf_oid) (value_end kdf) 0x30) (\<lambda>kdf_params.
     Option.bind (tlv_of data (value_offset kdf_params) (value_end kdf_params) 0x04) (\<lambda>salt.
     Option.bind (tlv_of data (next_offset salt) (value_end kdf_params) 0x02) (\<lambda>iterations.
     if value_length iterations = 0 \<or> value_length iterations > 4 then None
     else
       let iters = foldl (\<lambda>v b. push_bit 8 v OR ucast b) 0 (value_of data iterations)
       in if iters = 0 then None
          else
            Option.bind (tlv_of data (next_offset iterations) (value_end kdf_params) 0x30) (\<lambda>prf.
            Option.bind (oid_at data (value_offset prf) (value_end prf) kOidKupynaKmac256) (\<lambda>prf_oid.
            Option.bind (tlv_of data (next_offset kdf) (value_end params) 0x30) (\<lambda>enc.
            Option.bind (oid_at data (value_offset enc) (value_end enc) kOidKalyna256Cbc) (\<lambda>enc_oid.
            Option.bind (tlv_of data (next_offset enc_oid) (value_end enc) 0x30) (\<lambda>enc_params.
            Option.bind (tlv_of data (value_offset enc_params) (value_end enc_params) 0x04) (\<lambda>iv.
            if value_length iv \<noteq> 32 then None
            else
              Option.bind (tlv_of data (next_offset alg) (value_end epki) 0x04) (\<lambda>body.
              if value_length body = 0 \<or> value_length body mod 32 \<noteq> 0 then None
              else Some \<lparr>zs_salt = value_of data salt, zs_iv = value_of data iv, zs_ciphertext = value_of data body,
                zs_iterations = iters\<rparr>)))))))))))))))"

text \<open>A loop ends at the limit, gives up on malformed data or returns the first bag.\<close>

datatype scan = Scan_End | Scan_Failed | Scan_Found Zs2Bag

lemma tlv_at_progress:
  assumes "tlv_at data offset limit = Some view"
  shows "unat offset < unat (next_offset view) \<and> unat (next_offset view) \<le> unat limit"
proof -
  let ?lim = "if limit < buffer_size data then limit else buffer_size data"
  let ?view = "\<lparr>tag = 0, value_offset = 0, value_length = 0, next_offset = 0\<rparr>"
  have lim: "unat ?lim \<le> length data" "unat ?lim \<le> unat limit"
    by (auto simp: buffer_size_def unat_of_nat word_less_nat_alt not_less intro: order_trans [OF less_imp_le])
  have parsed: "ParseTlvAt_ptr (data = []) data offset ?lim ?view = Some (True, view)"
    using assms unfolding tlv_at_def ParseTlvAt_limit_def Let_def
    by (auto simp only: split: option.splits prod.splits bool.splits)
  then have "data \<noteq> []" by (auto simp: ParseTlvAt_ptr_def)
  with parsed have "tlv_result (Some (True, view)) (tlv_spec data (unat offset) (unat ?lim))"
    using ParseTlvAt_ptr_correct [OF lim(1), of offset ?view] by simp
  then obtain t voff vlen where spec: "tlv_spec data (unat offset) (unat ?lim) = Some (t, voff, vlen)"
    "unat (next_offset view) = voff + vlen"
    by (auto simp: tlv_result_def split: option.splits)
  then have "len_spec data (Suc (unat offset)) (unat ?lim) = Some (voff, vlen)"
    by (auto simp: tlv_spec_def split: if_splits)
  from len_spec_bounds [OF this] show ?thesis using spec(2) lim(2) by auto
qed

lemma tlv_of_at: "tlv_of data offset limit t = Some view \<Longrightarrow> tlv_at data offset limit = Some view \<and> tag view = t"
  by (simp add: tlv_of_def split: option.splits if_splits)

function zs2_bags :: "bytes \<Rightarrow> size_w \<Rightarrow> size_w \<Rightarrow> scan" where
  "zs2_bags input bag_offset contents_limit =
     (if bag_offset < contents_limit then
        case tlv_of input bag_offset contents_limit 0x30 of
          None \<Rightarrow> Scan_Failed
        | Some bag \<Rightarrow>
            (case tlv_at input (value_offset bag) (value_end bag) of
               None \<Rightarrow> Scan_Failed
             | Some bag_id \<Rightarrow>
                 if \<not> OidEquals input bag_id kOidShroudedKeyBag then zs2_bags input (next_offset bag) contents_limit
                 else case tlv_of input (next_offset bag_id) (value_end bag) 0xA0 of
                   None \<Rightarrow> Scan_Failed
                 | Some bag_value \<Rightarrow>
                     (case tlv_of input (value_offset bag_value) (value_end bag_value) 0x30 of
                        None \<Rightarrow> Scan_Failed
                      | Some epki \<Rightarrow>
                          (case ParseZs2Encryption input epki of
                             Some found \<Rightarrow> Scan_Found found
                           | None \<Rightarrow> zs2_bags input (next_offset bag) contents_limit)))
      else Scan_End)"
  by pat_completeness auto
termination
proof (relation "measure (\<lambda>(input, offset, limit). unat limit - unat offset)", simp_all add: word_less_nat_alt)
qed (metis diff_less_mono2 tlv_at_progress tlv_of_at)+

declare zs2_bags.simps [simp del]

lemma content_info_progress: "ParseDataContentInfo data offset limit = Some (a, b, next) \<Longrightarrow> unat offset < unat next"
  using tlv_at_progress tlv_of_at by (fastforce simp: ParseDataContentInfo_def bind_eq_Some_conv)

function zs2_contents :: "bytes \<Rightarrow> size_w \<Rightarrow> size_w \<Rightarrow> scan" where
  "zs2_contents input offset auth_limit =
     (if offset < auth_limit then
        case ParseDataContentInfo input offset auth_limit of
          None \<Rightarrow> Scan_Failed
        | Some (contents_offset, contents_length, next) \<Rightarrow>
            (case tlv_of input contents_offset (contents_offset + contents_length) 0x30 of
               None \<Rightarrow> Scan_Failed
             | Some safe_contents \<Rightarrow>
                 (case zs2_bags input (value_offset safe_contents) (value_end safe_contents) of
                    Scan_End \<Rightarrow> zs2_contents input next auth_limit
                  | r \<Rightarrow> r))
      else Scan_End)"
  by pat_completeness auto
termination
proof (relation "measure (\<lambda>(input, offset, limit). unat limit - unat offset)", simp_all add: word_less_nat_alt)
qed (auto intro!: diff_less_mono2 dest: content_info_progress)

declare zs2_contents.simps [simp del]

definition ParseZs2FirstBag :: "bytes \<Rightarrow> Zs2Bag option" where
  "ParseZs2FirstBag input =
     Option.bind (tlv_of input 0 (buffer_size input) 0x30) (\<lambda>pfx.
     Option.bind (tlv_of input (value_offset pfx) (value_end pfx) 0x02) (\<lambda>version.
     Option.bind (ParseDataContentInfo input (next_offset version) (value_end pfx)) (\<lambda>(safe_offset, safe_length, _).
     Option.bind (tlv_of input safe_offset (safe_offset + safe_length) 0x30) (\<lambda>auth_safe.
     case zs2_contents input (value_offset auth_safe) (value_end auth_safe) of
       Scan_Found bag \<Rightarrow> Some bag
     | _ \<Rightarrow> None))))"

definition Zs2KeyContainerParser_Matches :: "bytes \<Rightarrow> bool" where
  "Zs2KeyContainerParser_Matches input \<longleftrightarrow> ParseZs2FirstBag input \<noteq> None"

text \<open>The rounds of the key derivation: the last block and the sum so far.\<close>

definition zs2_round :: "key_crypto \<Rightarrow> bytes \<Rightarrow> (bytes \<times> bytes) option \<Rightarrow> (bytes \<times> bytes) option" where
  "zs2_round K kmac_key st =
     Option.bind st (\<lambda>(u, derived).
     Option.bind (dstu7564_kmac K kmac_key u) (\<lambda>u. Some (u, map2 (XOR) derived u)))"

definition DeriveZs2Key :: "key_crypto \<Rightarrow> string \<Rightarrow> bytes \<Rightarrow> u64 \<Rightarrow> bytes option" where
  "DeriveZs2Key K password salt iterations =
     (let kmac_key = take 32 (bytes_of_string password) @ replicate (32 - length password) 0
      in map_option snd ((zs2_round K kmac_key ^^ (unat iterations - 1))
           (map_option (\<lambda>u. (u, u)) (dstu7564_kmac K kmac_key (salt @ [0, 0, 0, 1])))))"

definition strip_padding :: "bytes \<Rightarrow> bytes option" where
  "strip_padding pkcs8 =
     (let pad = (if pkcs8 = [] then 0 else unat (last pkcs8))
      in if pad = 0 \<or> pad > 32 \<or> pad > length pkcs8
           \<or> \<not> list_all (\<lambda>b. unat b = pad) (drop (length pkcs8 - pad) pkcs8) then None
         else Some (take (length pkcs8 - pad) pkcs8))"

definition Zs2KeyContainerParser_Decrypt :: "key_crypto \<Rightarrow> bytes \<Rightarrow> string \<Rightarrow> string + bytes" where
  "Zs2KeyContainerParser_Decrypt K input password =
     sbind (need ''ZS2 key container has malformed structure or unsupported algorithms'' (ParseZs2FirstBag input)) (\<lambda>bag.
     sbind (guard ''ZS2 key container requires password'' (password \<noteq> [])) (\<lambda>_.
     sbind (need ''ZS2 key derivation failed'' (DeriveZs2Key K password (zs_salt bag) (zs_iterations bag))) (\<lambda>key.
     sbind (need ''ZS2 key container decryption failed'' (dstu7624_cbc_decrypt K key (zs_iv bag) (zs_ciphertext bag))) (\<lambda>padded.
     sbind (need ''ZS2 key container password is incorrect (padding mismatch)'' (strip_padding padded)) (\<lambda>pkcs8.
     sbind (need ''ZS2 key container did not decrypt into a DER private key'' (tlv_of pkcs8 0 (buffer_size pkcs8) 0x30)) (\<lambda>check.
     sbind (guard ''ZS2 key container did not decrypt into a DER private key'' (next_offset check = buffer_size pkcs8)) (\<lambda>_.
     Inr pkcs8)))))))"

section \<open>Reading a written PEM file\<close>

text \<open>
  A block as RFC 7468 writes it, and the text that follows it up to the next block or the end of the
  file; the body may be broken into lines in any way.
\<close>

record pem_source =
  ps_type :: string
  ps_body :: string
  ps_der :: bytes
  ps_after :: string

definition pem_text :: "pem_source \<Rightarrow> string" where
  "pem_text b = ''-----BEGIN '' @ ps_type b @ ''-----'' @ [CHR 0x0A] @ ps_body b @ ''-----END '' @ ps_type b @ ''-----'' @ ps_after b"

definition pem_source_ok :: "pem_source \<Rightarrow> bool" where
  "pem_source_ok b \<longleftrightarrow> CHR ''-'' \<notin> set (ps_type b) \<and> CHR ''-'' \<notin> set (ps_body b) \<and> CHR ''-'' \<notin> set (ps_after b) \<and> ps_der b \<noteq> []
     \<and> filter IsBase64Char (ps_body b) = Base64Encode (ps_der b)"

definition pem_block :: "pem_source \<Rightarrow> PemBlock" where
  "pem_block b = \<lparr>pem_type = ps_type b, pem_der_payload = ps_der b\<rparr>"

lemma split_sub_skip: "c \<notin> set u \<Longrightarrow> split_sub (c # p) (u @ c # p @ v) = Some (u, v)"
  by (induction u) auto

lemma byte_of_char_zero: "byte_of_char (CHR ''0'') = 0x30"
  by code_simp

lemma base64_char_not_space: "IsBase64Char ch \<Longrightarrow> \<not> isspace ch"
  by (auto simp: IsBase64Char_def isspace_def isalnum_def isdigit_def isupper_def islower_def)

lemma decode_filtered:
  assumes "filter IsBase64Char body = Base64Encode der" shows "Base64Decode (filter IsBase64Char body) = Some der"
proof -
  have "filter (\<lambda>c. \<not> isspace c) (filter IsBase64Char body) = filter IsBase64Char body"
    by (rule filter_True) (simp add: base64_char_not_space)
  then show ?thesis using assms by (simp add: Base64Decode_def decode_groups_Encode length_Base64Encode)
qed

lemma pem_blocks_step:
  assumes "pem_source_ok b" "CHR ''-'' \<notin> set u"
  shows "pem_blocks (u @ pem_text b @ rest) = (case pem_blocks (ps_after b @ rest) of Inl e \<Rightarrow> Inl e | Inr blocks \<Rightarrow> Inr (pem_block b # blocks))"
proof -
  let ?nl = "CHR 0x0A"
  let ?stop = "''-----END '' @ ps_type b @ ''-----''"
  have body: "filter IsBase64Char (ps_body b) = Base64Encode (ps_der b)" and "ps_der b \<noteq> []"
    using assms(1) by (simp_all add: pem_source_ok_def)
  then have "length (filter IsBase64Char (ps_body b)) \<noteq> 0" by (cases "ps_der b") (simp_all add: length_Base64Encode)
  then have ok: "CHR ''-'' \<notin> set (ps_type b)" "CHR ''-'' \<notin> set (ps_body b)" "filter IsBase64Char (ps_body b) \<noteq> []"
    "Base64Decode (filter IsBase64Char (ps_body b)) = Some (ps_der b)"
    using assms(1) decode_filtered [OF body] by (simp_all only: pem_source_ok_def length_0_conv) simp_all
  have "split_sub ''-----BEGIN '' (u @ pem_text b @ rest)
      = Some (u, ps_type b @ ''-----'' @ [?nl] @ ps_body b @ ?stop @ ps_after b @ rest)"
    using split_sub_skip [OF assms(2), of "''----BEGIN ''"] by (simp add: pem_text_def)
  moreover have "split_sub ''-----'' (ps_type b @ ''-----'' @ [?nl] @ ps_body b @ ?stop @ ps_after b @ rest)
      = Some (ps_type b, [?nl] @ ps_body b @ ?stop @ ps_after b @ rest)"
    using split_sub_skip [OF ok(1), of "''----''"] by simp
  moreover have "split_sub [?nl] ([?nl] @ ps_body b @ ?stop @ ps_after b @ rest) = Some ([], ps_body b @ ?stop @ ps_after b @ rest)"
    by simp
  moreover have "split_sub ?stop (ps_body b @ ?stop @ ps_after b @ rest) = Some (ps_body b, ps_after b @ rest)"
    using split_sub_skip [OF ok(2), of "''----END '' @ ps_type b @ ''-----''"] by simp
  ultimately show ?thesis
    using ok(3,4) by (subst pem_blocks.simps) (simp add: pem_block_def split: sum.split)
qed

lemma pem_blocks_none: "CHR ''-'' \<notin> set u \<Longrightarrow> pem_blocks u = Inr []"
proof -
  assume "CHR ''-'' \<notin> set u"
  then have "split_sub ''-----BEGIN '' u = None" by (induction u) auto
  then show ?thesis by (subst pem_blocks.simps) simp
qed

lemma pem_blocks_text:
  "list_all pem_source_ok bs \<Longrightarrow> CHR ''-'' \<notin> set u \<Longrightarrow> pem_blocks (u @ concat (map pem_text bs)) = Inr (map pem_block bs)"
proof (induction bs arbitrary: u)
  case (Cons b bs)
  then show ?case
    using pem_blocks_step [of b u "concat (map pem_text bs)"] Cons.IH [of "ps_after b"] by (simp add: pem_source_ok_def)
qed (simp add: pem_blocks_none)

text \<open>
  C35. Every PEM file is read back: whatever text without dashes stands before the first block, between the
  blocks and after the last, however the base64 of a block is broken into lines, \<open>LoadAll\<close> returns all
  blocks in order with their types and exactly their bytes. The strict mode adds only the demand that every block is a
  DER sequence. The one exception is a file whose first character is the digit 0, which is taken for DER.
\<close>

theorem pem_roundtrip:
  assumes "list_all pem_source_ok bs" "bs \<noteq> []" "CHR ''-'' \<notin> set preamble"
    and "strict_mode \<longrightarrow> list_all (\<lambda>b. hd (ps_der b) = 0x30) bs"
  shows "LoadAll (bytes_of_string (preamble @ concat (map pem_text bs))) strict_mode =
    (if preamble \<noteq> [] \<and> hd preamble = CHR ''0''
     then Inr [\<lparr>pem_type = ''DER'', pem_der_payload = bytes_of_string (preamble @ concat (map pem_text bs))\<rparr>]
     else Inr (map pem_block bs))"
proof -
  let ?text = "preamble @ concat (map pem_text bs)"
  obtain ch rest where start: "?text = ch # rest" "ch = (if preamble = [] then CHR ''-'' else hd preamble)"
    using assms(2) by (cases preamble; cases bs) (auto simp: pem_text_def)
  have "byte_of_char ch = 0x30 \<longleftrightarrow> ch = CHR ''0''"
    using inj_byte_of_char by (metis (no_types) injD byte_of_char_zero)
  moreover have "list_all (\<lambda>block. pem_der_payload block \<noteq> [] \<and> hd (pem_der_payload block) = 0x30) (map pem_block bs)" if strict_mode
    using assms(1,4) that by (auto simp: list_all_iff pem_block_def pem_source_ok_def)
  moreover have "pem_blocks (ch # rest) = Inr (map pem_block bs)" using pem_blocks_text [OF assms(1,3)] start(1) by simp
  moreover have "string_of_bytes (byte_of_char ch # map byte_of_char rest) = ch # rest"
    by (simp add: string_of_bytes_def comp_def)
  ultimately have "LoadAll (bytes_of_string (ch # rest)) strict_mode =
      (if ch = CHR ''0'' then Inr [\<lparr>pem_type = ''DER'', pem_der_payload = bytes_of_string (ch # rest)\<rparr>] else Inr (map pem_block bs))"
    using assms(2) by (auto simp: LoadAll_def bytes_of_string_def)
  then show ?thesis unfolding start(1) using start(2) by auto
qed

text \<open>An encoded key with a comment before it and its base64 in two lines, and a certificate after another comment.\<close>

definition sample_pem :: "pem_source list" where
  "sample_pem = [\<lparr>ps_type = ''PRIVATE KEY'', ps_body = ''MAA'' @ [CHR 0x0A] @ ''='' @ [CHR 0x0A], ps_der = [0x30, 0], ps_after = [CHR 0x0A] @ ''its certificate:'' @ [CHR 0x0A]\<rparr>,
     \<lparr>ps_type = ''CERTIFICATE'', ps_body = ''MAEF'' @ [CHR 0x0A], ps_der = [0x30, 1, 5], ps_after = [CHR 0x0A]\<rparr>]"

theorem pem_roundtrip_witness:
  "LoadAll (bytes_of_string (''my key: '' @ concat (map pem_text sample_pem))) True
    = Inr [\<lparr>pem_type = ''PRIVATE KEY'', pem_der_payload = [0x30, 0]\<rparr>, \<lparr>pem_type = ''CERTIFICATE'', pem_der_payload = [0x30, 1, 5]\<rparr>]"
proof -
  have "list_all pem_source_ok sample_pem" by code_simp
  from pem_roundtrip [OF this, of "''my key: ''" True] show ?thesis by (simp add: sample_pem_def pem_block_def)
qed

end
