(* ===== verification/Session_Keys.thy ===== *)
theory Session_Keys
  imports Session_Settings Key_Containers Json
begin

text \<open>
  Loading a private key into a session (\<open>core/session/SessionKeyLoading.ipp\<close> and
  \<open>core/session/SessionStateAndNormalization.ipp\<close>): the media descriptor, the detection of the
  container's format, the search for a missing certificate and the commit. The search itself (files
  beside the key, caches, the network) and the pairing of a key with a certificate are in the record
  \<open>key_lib\<close>. Erasing secrets from memory is the assignment of the empty value.
\<close>

section \<open>Formats\<close>

record CertificateHints =
  ch_certificate_path :: string
  ch_certificate_base64 :: string
  ch_key_file_path :: string
  ch_ca_hint :: string
  ch_subject_identifier :: string

definition no_hints :: CertificateHints where
  "no_hints = \<lparr>ch_certificate_path = [], ch_certificate_base64 = [], ch_key_file_path = [], ch_ca_hint = [], ch_subject_identifier = []\<rparr>"

record CertificateResolveRequest =
  rq_key_material :: bytes
  rq_password :: string
  rq_explicit_certificate_der :: bytes
  rq_explicit_certificate_path :: string
  rq_key_file_path :: string
  rq_work_dir :: string
  rq_offline_mode :: bool
  rq_network_timeout_ms :: int
  rq_preferred_ca_hint :: string
  rq_ldap_url :: string
  rq_ldap_base_dn :: string
  rq_http_certificate_url :: string
  rq_cmp_url :: string
  rq_subject_identifier :: string
  rq_ca_registry_url :: string

record 'fs key_lib =
  kl_crypto :: key_crypto
  FindMatchingCertificate :: "bytes \<Rightarrow> bytes list \<Rightarrow> bytes option"
  CertificateResolver_Resolve :: "CertificateResolveRequest \<Rightarrow> 'fs \<Rightarrow> (string + bytes) \<times> 'fs"

definition IsLikelyPem :: "bytes \<Rightarrow> bool" where
  "IsLikelyPem data \<longleftrightarrow> prefix (bytes_of_string ''-----BEGIN '') data"

text \<open>The DER reader without a limit.\<close>

definition tlv_whole :: "bytes \<Rightarrow> size_w \<Rightarrow> TlvView option" where
  "tlv_whole data offset =
     (case ParseTlvAt data offset \<lparr>tag = 0, value_offset = 0, value_length = 0, next_offset = 0\<rparr> of
        Some (True, view) \<Rightarrow> Some view
      | _ \<Rightarrow> None)"

definition IsPkcs12Der :: "bytes \<Rightarrow> bool" where
  "IsPkcs12Der der =
     (case tlv_whole der 0 of
        None \<Rightarrow> False
      | Some outer \<Rightarrow>
          if tag outer \<noteq> 0x30 then False
          else case tlv_whole der (value_offset outer) of
            None \<Rightarrow> False
          | Some version \<Rightarrow>
              if tag version \<noteq> 0x02 then False
              else case tlv_whole der (next_offset version) of
                None \<Rightarrow> False
              | Some auth_safe \<Rightarrow>
                  if tag auth_safe \<noteq> 0x30 then False
                  else case tlv_whole der (value_offset auth_safe) of
                    None \<Rightarrow> False
                  | Some content_type \<Rightarrow> tag content_type = 0x06)"

definition IsValidDerContainer :: "bytes \<Rightarrow> string + unit" where
  "IsValidDerContainer der =
     (if length der < 4 \<or> hd der \<noteq> 0x30 then Inl ''DER container must start with SEQUENCE''
      else case tlv_whole der 0 of
        None \<Rightarrow> Inl ''DER container has invalid ASN.1 layout''
      | Some outer \<Rightarrow>
          if tag outer \<noteq> 0x30 \<or> next_offset outer \<noteq> buffer_size der then Inl ''DER container has invalid ASN.1 layout''
          else Inr ())"

record normalized_key =
  nk_normalized :: bytes
  nk_key_material :: bytes
  nk_certificate :: bytes
  nk_format :: KeyFormat

definition normalize_jks :: "'fs key_lib \<Rightarrow> bytes \<Rightarrow> string \<Rightarrow> string \<Rightarrow> string \<Rightarrow> string + normalized_key" where
  "normalize_jks G key_data store_password key_password jks_alias =
     (if store_password = [] \<and> key_password = [] then Inl ''JKS key store requires store password or key password''
      else
        sbind (LoadPrivateKeyEntry key_data store_password key_password jks_alias) (\<lambda>jks_entry.
        let key = pk_private_key_pkcs8 jks_entry;
            certificate = (case FindMatchingCertificate G key (pk_certificate_chain jks_entry) of
              Some matching \<Rightarrow> matching | None \<Rightarrow> pk_certificate jks_entry)
        in sbind (IsValidDerContainer key) (\<lambda>_.
           sbind (if certificate \<noteq> [] then IsValidDerContainer certificate else Inr ()) (\<lambda>_.
           Inr \<lparr>nk_normalized = key, nk_key_material = key, nk_certificate = certificate, nk_format = Key_Jks\<rparr>))))"

definition normalize_iit :: "'fs key_lib \<Rightarrow> bytes \<Rightarrow> string \<Rightarrow> string \<Rightarrow> string + normalized_key" where
  "normalize_iit G key_data store_password key_password =
     (let iit_password = (if store_password = [] then key_password else store_password)
      in if iit_password = [] then Inl ''IIT key container requires password''
         else
           sbind (IitKeyContainerParser_Decrypt (kl_crypto G) key_data iit_password) (\<lambda>decrypted.
           sbind (IsValidDerContainer decrypted) (\<lambda>_.
           Inr \<lparr>nk_normalized = decrypted, nk_key_material = decrypted, nk_certificate = [], nk_format = Key_Der\<rparr>)))"

definition normalize_zs2 :: "bytes \<Rightarrow> string \<Rightarrow> string \<Rightarrow> string + normalized_key" where
  "normalize_zs2 key_data store_password key_password =
     (if (if store_password = [] then key_password else store_password) = [] then Inl ''ZS2 key container requires password''
      else
        sbind (IsValidDerContainer key_data) (\<lambda>_.
        Inr \<lparr>nk_normalized = key_data, nk_key_material = key_data, nk_certificate = [], nk_format = Key_Pkcs12\<rparr>))"

definition normalize_pem :: "bytes \<Rightarrow> bool \<Rightarrow> string + normalized_key" where
  "normalize_pem key_data strict_pem =
     sbind (LoadAll key_data strict_pem) (\<lambda>blocks.
     sbind (need ''PEM/DER does not contain PRIVATE KEY block'' (find is_key_block blocks)) (\<lambda>block.
     let normalized = pem_der_payload block;
         certificate = (case find (\<lambda>b. pem_type b = ''CERTIFICATE'') blocks of None \<Rightarrow> [] | Some b \<Rightarrow> pem_der_payload b);
         format = (if pem_type block = ''DER'' then if IsPkcs12Der normalized then Key_Pkcs12 else Key_Der else Key_Pem);
         pkcs12 = (pem_type block = ''DER'' \<and> format = Key_Pkcs12)
     in sbind (IsValidDerContainer normalized) (\<lambda>_.
        Inr \<lparr>nk_normalized = normalized, nk_key_material = (if pkcs12 then key_data else normalized),
          nk_certificate = (if pkcs12 then [] else certificate), nk_format = format\<rparr>)))"

definition NormalizeKeyContainer :: "'fs key_lib \<Rightarrow> bytes \<Rightarrow> string \<Rightarrow> string \<Rightarrow> string \<Rightarrow> bool \<Rightarrow> string + normalized_key" where
  "NormalizeKeyContainer G key_data store_password key_password jks_alias strict_pem =
     (if key_data = [] then Inl ''Key container is empty''
      else if prefix [0xFE, 0xED, 0xFE, 0xED] key_data then normalize_jks G key_data store_password key_password jks_alias
      else if IitKeyContainerParser_Matches key_data then normalize_iit G key_data store_password key_password
      else if Zs2KeyContainerParser_Matches key_data then normalize_zs2 key_data store_password key_password
      else if IsLikelyPem key_data \<or> hd key_data = 0x30 then normalize_pem key_data strict_pem
      else Inl ''Unsupported key format'')"

section \<open>Loading\<close>

definition ResolveMissingCertificate ::
    "'fs key_lib \<Rightarrow> bytes \<Rightarrow> string \<Rightarrow> CertificateHints \<Rightarrow> session \<Rightarrow> 'fs \<Rightarrow> (string + bytes) \<times> 'fs" where
  "ResolveMissingCertificate G key_material password hints s fs =
     (case (if ch_certificate_base64 hints = [] then Some [] else Base64Decode (ch_certificate_base64 hints)) of
        None \<Rightarrow> (Inl ''Descriptor certificateBase64 is invalid'', fs)
      | Some explicit_der \<Rightarrow>
          CertificateResolver_Resolve G
            \<lparr>rq_key_material = key_material, rq_password = password, rq_explicit_certificate_der = explicit_der,
             rq_explicit_certificate_path = ch_certificate_path hints, rq_key_file_path = ch_key_file_path hints,
             rq_work_dir = cfg_work_dir (settings s), rq_offline_mode = cfg_offline_mode (settings s),
             rq_network_timeout_ms =
               (if ldap_timeout_ms (ldap_settings s) > 0 then ldap_timeout_ms (ldap_settings s) else os_timeout_ms (ocsp_settings s)),
             rq_preferred_ca_hint = ch_ca_hint hints, rq_ldap_url = ldap_url (ldap_settings s),
             rq_ldap_base_dn = ldap_base_dn (ldap_settings s), rq_http_certificate_url = [], rq_cmp_url = [],
             rq_subject_identifier = ch_subject_identifier hints, rq_ca_registry_url = []\<rparr> fs)"

definition CommitLoadedKey :: "bytes \<Rightarrow> bytes \<Rightarrow> bytes \<Rightarrow> string \<Rightarrow> KeyFormat \<Rightarrow> session \<Rightarrow> session" where
  "CommitLoadedKey normalized key_material certificate store_password format s =
     ClearError ((SecureClearLoadedKey s)\<lparr>loaded_key := normalized, loaded_key_material := key_material,
       loaded_certificate := certificate, loaded_key_password := store_password, loaded_key_format := format,
       is_private_key_loaded := True\<rparr>)"

definition LoadPrivateKeyPayload ::
    "'fs key_lib \<Rightarrow> bytes \<Rightarrow> string \<Rightarrow> string \<Rightarrow> string \<Rightarrow> bool \<Rightarrow> CertificateHints \<Rightarrow> session \<Rightarrow> 'fs \<Rightarrow> bool \<times> session \<times> 'fs" where
  "LoadPrivateKeyPayload G key_data store_password key_password jks_alias strict_pem hints s fs =
     (if key_data = [] then (False, SetError Err_InvalidArgument ''Key container is empty'' s, fs)
      else
        let key_password = (if key_password = [] then store_password else key_password);
            effective_key_password = (if store_password = [] then key_password else store_password)
        in case NormalizeKeyContainer G key_data store_password key_password jks_alias strict_pem of
             Inl error_message \<Rightarrow> (False, SetError Err_InvalidArgument error_message s, fs)
           | Inr nk \<Rightarrow>
               let commit = (\<lambda>certificate. CommitLoadedKey (nk_normalized nk) (nk_key_material nk) certificate
                     effective_key_password (nk_format nk) s)
               in if nk_certificate nk \<noteq> [] then (True, commit (nk_certificate nk), fs)
                  else case ResolveMissingCertificate G (nk_key_material nk) effective_key_password hints s fs of
                    (Inr certificate, fs) \<Rightarrow> (True, commit certificate, fs)
                  | (Inl resolve_error, fs) \<Rightarrow>
                      if ch_certificate_path hints \<noteq> [] \<or> ch_certificate_base64 hints \<noteq> []
                      then (False, SetError Err_InvalidArgument resolve_error s, fs)
                      else (True, commit [], fs))"

text \<open>The first of several names that the descriptor has.\<close>

fun first_string :: "string \<Rightarrow> string list \<Rightarrow> string option" where
  "first_string descriptor [] = None"
| "first_string descriptor (name # names) =
     (case ExtractJsonString descriptor name of Some v \<Rightarrow> Some v | None \<Rightarrow> first_string descriptor names)"

definition string_or_empty :: "string option \<Rightarrow> string" where
  "string_or_empty v = (case v of Some v \<Rightarrow> v | None \<Rightarrow> [])"

definition load_key_file ::
    "'fs verify_lib \<Rightarrow> 'fs key_lib \<Rightarrow> string \<Rightarrow> string \<Rightarrow> string \<Rightarrow> string \<Rightarrow> bool \<Rightarrow> CertificateHints \<Rightarrow> session \<Rightarrow> 'fs
     \<Rightarrow> bool \<times> session \<times> 'fs" where
  "load_key_file L G path store_password key_password jks_alias strict_pem hints s fs =
     (if path = [] then (False, SetError Err_InvalidArgument ''Path is empty'' s, fs)
      else
        let resolved_key_path = ResolveFilePath L path (file_store_settings s)
        in case ReadBinaryFile L fs resolved_key_path ''key file'' of
             Inl error_message \<Rightarrow> (False, SetError Err_InvalidArgument error_message s, fs)
           | Inr key_data \<Rightarrow>
               if key_data = [] then (False, SetError Err_InvalidArgument ''Key file is empty'' s, fs)
               else LoadPrivateKeyPayload G key_data store_password key_password jks_alias strict_pem
                      (hints\<lparr>ch_key_file_path := resolved_key_path\<rparr>) s fs)"

definition ReadPrivateKey ::
    "'fs verify_lib \<Rightarrow> 'fs key_lib \<Rightarrow> string \<Rightarrow> string \<Rightarrow> session \<Rightarrow> 'fs \<Rightarrow> bool \<times> session \<times> 'fs" where
  "ReadPrivateKey L G descriptor password s fs =
     (let password = (case ExtractJsonString descriptor ''password'' of Some v \<Rightarrow> if password = [] then v else password | None \<Rightarrow> password);
          key_password = (case first_string descriptor [''keyPassword'', ''entryPassword''] of Some v \<Rightarrow> v | None \<Rightarrow> password);
          jks_alias = string_or_empty (ExtractJsonString descriptor ''alias'');
          strict_pem = (case ExtractJsonBool descriptor ''strictPem'' of Some b \<Rightarrow> b | None \<Rightarrow> False);
          hints = \<lparr>ch_certificate_path = string_or_empty (first_string descriptor [''certificatePath'', ''certPath'']),
            ch_certificate_base64 = string_or_empty (first_string descriptor [''certificateBase64'', ''certBase64'']),
            ch_key_file_path = [], ch_ca_hint = string_or_empty (first_string descriptor [''ca'', ''provider'']),
            ch_subject_identifier = string_or_empty (first_string descriptor [''edrpou'', ''drfo'', ''subject''])\<rparr>
      in case ExtractJsonString descriptor ''base64'' of
           Some base64_payload \<Rightarrow>
             (case Base64Decode base64_payload of
                None \<Rightarrow> (False, SetError Err_InvalidArgument ''Descriptor base64 is invalid'' s, fs)
              | Some payload \<Rightarrow> LoadPrivateKeyPayload G payload password key_password jks_alias strict_pem hints s fs)
         | None \<Rightarrow>
             (case first_string descriptor [''path'', ''filePath''] of
                Some path \<Rightarrow> load_key_file L G path password key_password jks_alias strict_pem hints s fs
              | None \<Rightarrow> (False, SetError Err_InvalidArgument ''Unsupported key media descriptor'' s, fs)))"

definition ReadPrivateKeyBinary ::
    "'fs key_lib \<Rightarrow> bytes \<Rightarrow> string \<Rightarrow> string \<Rightarrow> string \<Rightarrow> session \<Rightarrow> 'fs \<Rightarrow> bool \<times> session \<times> 'fs" where
  "ReadPrivateKeyBinary G key_data store_password key_password jks_alias s fs =
     LoadPrivateKeyPayload G key_data store_password key_password jks_alias False no_hints s fs"

definition ReadPrivateKeyFile ::
    "'fs verify_lib \<Rightarrow> 'fs key_lib \<Rightarrow> string \<Rightarrow> string \<Rightarrow> string \<Rightarrow> string \<Rightarrow> session \<Rightarrow> 'fs \<Rightarrow> bool \<times> session \<times> 'fs" where
  "ReadPrivateKeyFile L G path store_password key_password jks_alias s fs =
     load_key_file L G path store_password key_password jks_alias False no_hints s fs"

definition ResetPrivateKey :: "session \<Rightarrow> bool \<times> session" where
  "ResetPrivateKey s = (True, ClearError ((SecureClearLoadedKey s)\<lparr>is_private_key_loaded := False\<rparr>))"

definition Session_Base64Encode :: "bytes \<Rightarrow> bool \<times> string" where
  "Session_Base64Encode input = (True, Base64Encode input)"

definition Session_Base64Decode :: "string \<Rightarrow> session \<Rightarrow> bool \<times> bytes \<times> session" where
  "Session_Base64Decode input s =
     (case Base64Decode input of
        Some decoded \<Rightarrow> (True, decoded, ClearError s)
      | None \<Rightarrow> (False, [], SetError Err_InvalidArgument ''Base64 input is not valid'' s))"

section \<open>What a session knows about its key\<close>

definition der_container :: "bytes \<Rightarrow> bool" where
  "der_container der \<longleftrightarrow> IsValidDerContainer der = Inr ()"

text \<open>A loaded key is a whole DER structure of a known format; without a key nothing of one is left.\<close>

definition key_ok :: "session \<Rightarrow> bool" where
  "key_ok s \<longleftrightarrow>
     (if is_private_key_loaded s then der_container (loaded_key s) \<and> loaded_key_material s \<noteq> [] \<and> loaded_key_format s \<noteq> Key_Unknown
      else loaded_key s = [] \<and> loaded_key_material s = [] \<and> loaded_certificate s = [] \<and> loaded_key_password s = []
        \<and> loaded_key_format s = Key_Unknown)"

lemma normalized_valid:
  assumes "NormalizeKeyContainer G key_data sp kp a strict = Inr nk"
  shows "der_container (nk_normalized nk) \<and> nk_key_material nk \<noteq> [] \<and> nk_format nk \<noteq> Key_Unknown"
proof -
  have ne: "der \<noteq> []" if "IsValidDerContainer der = Inr ()" for der
    using that by (auto simp: IsValidDerContainer_def split: if_splits)
  show ?thesis
    using assms unfolding NormalizeKeyContainer_def der_container_def
    by (auto simp: normalize_jks_def normalize_iit_def normalize_zs2_def normalize_pem_def result_iffs Let_def
        split: if_splits dest: ne)
qed

lemma key_field_simps [simp]:
  "is_private_key_loaded (SetError err m s) = is_private_key_loaded s" "loaded_key (SetError err m s) = loaded_key s"
  "loaded_key_material (SetError err m s) = loaded_key_material s" "loaded_certificate (SetError err m s) = loaded_certificate s"
  "loaded_key_password (SetError err m s) = loaded_key_password s" "loaded_key_format (SetError err m s) = loaded_key_format s"
  "is_private_key_loaded (ClearError s) = is_private_key_loaded s" "loaded_key (ClearError s) = loaded_key s"
  "loaded_key_material (ClearError s) = loaded_key_material s" "loaded_certificate (ClearError s) = loaded_certificate s"
  "loaded_key_password (ClearError s) = loaded_key_password s" "loaded_key_format (ClearError s) = loaded_key_format s"
  "is_private_key_loaded (ClearVerifyReport s) = is_private_key_loaded s" "loaded_key (ClearVerifyReport s) = loaded_key s"
  "loaded_key_material (ClearVerifyReport s) = loaded_key_material s" "loaded_certificate (ClearVerifyReport s) = loaded_certificate s"
  "loaded_key_password (ClearVerifyReport s) = loaded_key_password s" "loaded_key_format (ClearVerifyReport s) = loaded_key_format s"
  by (simp_all add: SetError_def ClearError_def ClearVerifyReport_def RefreshUserReportForCurrentOperation_def RefreshUserReport_def
      split: prod.split)

lemma key_ok_error [simp]: "key_ok (SetError err m s) = key_ok s" "key_ok (ClearError s) = key_ok s" "key_ok (ClearVerifyReport s) = key_ok s"
  by (simp_all add: key_ok_def)

text \<open>A load either commits a valid key or changes nothing but the error.\<close>

definition key_loaded :: "session \<Rightarrow> bool \<times> session \<times> 'fs \<Rightarrow> bool" where
  "key_loaded s r \<longleftrightarrow>
     (if fst r then (\<exists>(nk :: normalized_key) certificate password. der_container (nk_normalized nk) \<and> nk_key_material nk \<noteq> [] \<and> nk_format nk \<noteq> Key_Unknown
        \<and> fst (snd r) = CommitLoadedKey (nk_normalized nk) (nk_key_material nk) certificate password (nk_format nk) s)
      else \<exists>m. fst (snd r) = SetError Err_InvalidArgument m s)"

lemma key_loaded_error: "key_loaded s (False, SetError Err_InvalidArgument m s, fs)"
  by (auto simp: key_loaded_def)

lemma key_loaded_commit:
  "NormalizeKeyContainer G key_data sp kp a strict = Inr nk \<Longrightarrow>
   key_loaded s (True, CommitLoadedKey (nk_normalized nk) (nk_key_material nk) certificate password (nk_format nk) s, fs)"
  unfolding key_loaded_def using normalized_valid by fastforce

lemma key_loaded_cases:
  "(b \<Longrightarrow> key_loaded s r) \<Longrightarrow> (\<not> b \<Longrightarrow> key_loaded s r') \<Longrightarrow> key_loaded s (if b then r else r')"
  "(\<And>e. x = Inl e \<Longrightarrow> key_loaded s (f e)) \<Longrightarrow> (\<And>v. x = Inr v \<Longrightarrow> key_loaded s (g v)) \<Longrightarrow> key_loaded s (case x of Inl e \<Rightarrow> f e | Inr v \<Rightarrow> g v)"
  "(o' = None \<Longrightarrow> key_loaded s r) \<Longrightarrow> (\<And>v. o' = Some v \<Longrightarrow> key_loaded s (h v)) \<Longrightarrow> key_loaded s (case o' of None \<Rightarrow> r | Some v \<Rightarrow> h v)"
  "(\<And>u v. p = (u, v) \<Longrightarrow> key_loaded s (k u v)) \<Longrightarrow> key_loaded s (case p of (u, v) \<Rightarrow> k u v)"
  by (simp_all split: sum.split option.split prod.split)

lemma payload_loaded: "key_loaded s (LoadPrivateKeyPayload G key_data sp kp a strict hints s fs)"
  unfolding LoadPrivateKeyPayload_def Let_def
  by (intro key_loaded_cases key_loaded_error) (erule key_loaded_commit)+

lemma file_loaded: "key_loaded s (load_key_file L G path sp kp a strict hints s fs)"
  unfolding load_key_file_def Let_def by (intro key_loaded_cases key_loaded_error payload_loaded)

lemma descriptor_loaded: "key_loaded s (ReadPrivateKey L G descriptor password s fs)"
  unfolding ReadPrivateKey_def Let_def by (intro key_loaded_cases key_loaded_error payload_loaded file_loaded)

lemma commit_simps [simp]:
  "key_ok (CommitLoadedKey n m c p f s) \<longleftrightarrow> der_container n \<and> m \<noteq> [] \<and> f \<noteq> Key_Unknown"
  "settings_ok A (CommitLoadedKey n m c p f s) \<longleftrightarrow> settings_ok A s"
  by (simp_all add: CommitLoadedKey_def SecureClearLoadedKey_def, simp_all add: key_ok_def settings_ok_def)

lemma key_loaded_ok:
  assumes "key_loaded s r" "key_ok s" "settings_ok A s"
  shows "key_ok (fst (snd r)) \<and> settings_ok A (fst (snd r))"
  using assms unfolding key_loaded_def by (cases "fst r") (simp_all only: if_True if_False, (elim exE conjE, simp)+)

end
