(* ===== verification/Cert_Resolver.thy ===== *)
theory Cert_Resolver
  imports Cert_Fetch Ca_Registry Session_Keys Pki Sha256
begin

text \<open>
  The search for the certificate of a key that has none in its container
  (\<open>core/net/CertificateResolver.cpp\<close>), and the comparison of certificates with the keys of a
  container (\<open>core/cryptonite/KeyPairing.cpp\<close>). Candidates come from the caller, from files next to the
  key, from a cache and from the network; one function accepts them. The calls of the cryptographic
  library, the platform's paths and directories and the clock are in the record \<open>resolver_env\<close>.
\<close>

section \<open>Keys of a container\<close>

text \<open>\<open>CollectSpkiFromKeyContainer\<close> gives the public keys of all private keys of a container.\<close>

record ('cert, 'fs) resolver_env =
  rv_pki :: "'cert pki"
  CollectSpkiFromKeyContainer :: "bytes \<Rightarrow> string \<Rightarrow> bytes list option"
  ExtractSubjectPublicKeyInfo :: "bytes \<Rightarrow> string \<Rightarrow> string + bytes"
  ExtractCertificateSubjectPublicKeyInfo :: "bytes \<Rightarrow> bytes option"
  rv_net :: cert_net
  rv_files :: "'fs registry_files"
  rv_is_file :: "'fs \<Rightarrow> string \<Rightarrow> bool"
  rv_is_directory :: "'fs \<Rightarrow> string \<Rightarrow> bool"
  rv_read :: "'fs \<Rightarrow> string \<Rightarrow> int \<Rightarrow> bytes option"
  rv_directory :: "'fs \<Rightarrow> string \<Rightarrow> string list"
  rv_absolute :: "string \<Rightarrow> string option"
  rv_normal :: "string \<Rightarrow> string"
  rv_without_extension :: "string \<Rightarrow> string"
  rv_extension :: "string \<Rightarrow> string"
  rv_now :: int

definition ContainerPublicKeys_Load :: "('cert, 'fs) resolver_env \<Rightarrow> bytes \<Rightarrow> string \<Rightarrow> string + bytes list" where
  "ContainerPublicKeys_Load V key_material password =
     (if key_material = [] then Inl ''ContainerPublicKeys::Load: key material is empty''
      else case CollectSpkiFromKeyContainer V key_material password of
        Some (spki # spki_list) \<Rightarrow> Inr (spki # spki_list)
      | _ \<Rightarrow> Inl ''ContainerPublicKeys::Load: private key decode'')"

definition ContainerPublicKeys_Matches :: "('cert, 'fs) resolver_env \<Rightarrow> bytes list \<Rightarrow> bytes \<Rightarrow> bool" where
  "ContainerPublicKeys_Matches V spki_list certificate_der =
     (if spki_list = [] \<or> certificate_der = [] then False
      else case ExtractCertificateSubjectPublicKeyInfo V certificate_der of
        None \<Rightarrow> False
      | Some cert_spki \<Rightarrow> list_ex (\<lambda>key_spki. key_spki \<noteq> [] \<and> key_spki = cert_spki) spki_list)"

definition CertificateMatchesPrivateKey :: "('cert, 'fs) resolver_env \<Rightarrow> bytes \<Rightarrow> string \<Rightarrow> bytes \<Rightarrow> bool" where
  "CertificateMatchesPrivateKey V key_material password certificate_der =
     (if key_material = [] \<or> certificate_der = [] then False
      else case ContainerPublicKeys_Load V key_material password of
        Inl _ \<Rightarrow> False
      | Inr spki_list \<Rightarrow> ContainerPublicKeys_Matches V spki_list certificate_der)"

definition CryptoniteAdapter_FindMatchingCertificate :: "('cert, 'fs) resolver_env \<Rightarrow> bytes \<Rightarrow> bytes list \<Rightarrow> bytes option" where
  "CryptoniteAdapter_FindMatchingCertificate V key_material chain =
     (if chain = [] then None
      else case ContainerPublicKeys_Load V key_material [] of
        Inl _ \<Rightarrow> None
      | Inr spki_list \<Rightarrow> find (ContainerPublicKeys_Matches V spki_list) chain)"

text \<open>\<open>KeyUsage_digitalSignature\<close> is bit 0, \<open>KeyUsage_nonRepudiation\<close> bit 1.\<close>

definition CertificateAllowsSigning :: "'cert pki \<Rightarrow> 'cert \<Rightarrow> bool" where
  "CertificateAllowsSigning P certificate =
     (case pki_key_usage P certificate of None \<Rightarrow> True | Some usage \<Rightarrow> usage 0 \<or> usage 1)"

definition CertificateAllowsSigningUsage :: "('cert, 'fs) resolver_env \<Rightarrow> bytes \<Rightarrow> bool" where
  "CertificateAllowsSigningUsage V der =
     (case DecodeCertificateDer (rv_pki V) der of None \<Rightarrow> False | Some certificate \<Rightarrow> CertificateAllowsSigning (rv_pki V) certificate)"

section \<open>Candidates\<close>

definition kMissingCertificateMessage :: string where
  "kMissingCertificateMessage = string_of_bytes
     [0xD0, 0x9D, 0xD0, 0xB5, 0x20, 0xD0, 0xB7, 0xD0, 0xBD, 0xD0, 0xB0, 0xD0, 0xB9, 0xD0, 0xB4, 0xD0, 0xB5, 0xD0, 0xBD,
      0xD0, 0xBE, 0x20, 0xD0, 0xB2, 0xD1, 0x96, 0xD0, 0xB4, 0xD0, 0xBA, 0xD1, 0x80, 0xD0, 0xB8, 0xD1, 0x82, 0xD0, 0xB8,
      0xD0, 0xB9, 0x20, 0xD1, 0x81, 0xD0, 0xB5, 0xD1, 0x80, 0xD1, 0x82, 0xD0, 0xB8, 0xD1, 0x84, 0xD1, 0x96, 0xD0, 0xBA,
      0xD0, 0xB0, 0xD1, 0x82, 0x20, 0xD0, 0xB4, 0xD0, 0xBB, 0xD1, 0x8F, 0x20, 0xD0, 0xB7, 0xD0, 0xB0, 0xD0, 0xBA, 0xD1,
      0x80, 0xD0, 0xB8, 0xD1, 0x82, 0xD0, 0xBE, 0xD0, 0xB3, 0xD0, 0xBE, 0x20, 0xD0, 0xBA, 0xD0, 0xBB, 0xD1, 0x8E, 0xD1,
      0x87, 0xD0, 0xB0, 0x2E, 0x20, 0xD0, 0x9F, 0xD0, 0xBE, 0xD0, 0xBA, 0xD0, 0xBB, 0xD0, 0xB0, 0xD0, 0xB4, 0xD1, 0x96,
      0xD1, 0x82, 0xD1, 0x8C, 0x20, 0xD1, 0x84, 0xD0, 0xB0, 0xD0, 0xB9, 0xD0, 0xBB, 0x20, 0xD1, 0x81, 0xD0, 0xB5, 0xD1,
      0x80, 0xD1, 0x82, 0xD0, 0xB8, 0xD1, 0x84, 0xD1, 0x96, 0xD0, 0xBA, 0xD0, 0xB0, 0xD1, 0x82, 0xD0, 0xB0, 0x20, 0x28,
      0x2E, 0x63, 0x65, 0x72, 0x2F, 0x2E, 0x63, 0x72, 0x74, 0x29, 0x20, 0xD0, 0xBF, 0xD0, 0xBE, 0xD1, 0x80, 0xD1, 0x83,
      0xD1, 0x87, 0x20, 0xD1, 0x96, 0xD0, 0xB7, 0x20, 0xD0, 0xBA, 0xD0, 0xBB, 0xD1, 0x8E, 0xD1, 0x87, 0xD0, 0xB5, 0xD0,
      0xBC, 0x20, 0xD0, 0xB0, 0xD0, 0xB1, 0xD0, 0xBE, 0x20, 0xD0, 0xBF, 0xD0, 0xB5, 0xD1, 0x80, 0xD0, 0xB5, 0xD0, 0xB4,
      0xD0, 0xB0, 0xD0, 0xB9, 0xD1, 0x82, 0xD0, 0xB5, 0x20, 0xD1, 0x87, 0xD0, 0xB5, 0xD1, 0x80, 0xD0, 0xB5, 0xD0, 0xB7,
      0x20, 0xD0, 0xBF, 0xD0, 0xB0, 0xD1, 0x80, 0xD0, 0xB0, 0xD0, 0xBC, 0xD0, 0xB5, 0xD1, 0x82, 0xD1, 0x80, 0x20, 0x63,
      0x65, 0x72, 0x74, 0x69, 0x66, 0x69, 0x63, 0x61, 0x74, 0x65, 0x50, 0x61, 0x74, 0x68]"

definition kMaxCertificateFileSize :: int where
  "kMaxCertificateFileSize = 4 * 1024 * 1024"

definition ToLowerHex :: "bytes \<Rightarrow> string" where
  "ToLowerHex digest = concat (map (\<lambda>b. [hex_digit_char (unat b div 16), hex_digit_char (unat b mod 16)]) digest)"

definition Resolver_ReadBinary :: "('cert, 'fs) resolver_env \<Rightarrow> 'fs \<Rightarrow> string \<Rightarrow> bytes option" where
  "Resolver_ReadBinary V fs path =
     (if \<not> rv_is_file V fs path then None
      else case rv_read V fs path kMaxCertificateFileSize of
        None \<Rightarrow> None
      | Some data \<Rightarrow> if data = [] then None else Some data)"

definition NormalizeCertificateBytes :: "bytes \<Rightarrow> bytes option" where
  "NormalizeCertificateBytes raw =
     (if raw = [] then None
      else if hd raw = 0x30 then Some raw
      else
        let content = string_of_bytes raw
        in case find_at ''-----BEGIN'' 0 content of
             None \<Rightarrow> None
           | Some start \<Rightarrow>
               (case find_at [CHR 0x0A] start content of
                  None \<Rightarrow> None
                | Some header_end \<Rightarrow>
                    (case find_at ''-----END'' header_end content of
                       None \<Rightarrow> None
                     | Some footer \<Rightarrow>
                         (case Base64Decode (take (footer - header_end - 1) (drop (header_end + 1) content)) of
                            None \<Rightarrow> None
                          | Some der \<Rightarrow> if der \<noteq> [] \<and> hd der = 0x30 then Some der else None))))"

definition kExtensions :: "string list" where
  "kExtensions = [''.cer'', ''.crt'', ''.der'', ''.pem'']"

definition CollectSidecarCandidates :: "('cert, 'fs) resolver_env \<Rightarrow> 'fs \<Rightarrow> string \<Rightarrow> string list" where
  "CollectSidecarCandidates V fs key_file_path =
     (if key_file_path = [] then []
      else
        let key_path = (if rf_parent (rv_files V) key_file_path = [] then
              (case rv_absolute V key_file_path of
                 Some absolute_path \<Rightarrow> if absolute_path \<noteq> [] then rv_normal V absolute_path else key_file_path
               | None \<Rightarrow> key_file_path)
              else key_file_path);
            dir = rf_parent (rv_files V) key_path
        in if dir = [] \<or> \<not> rv_is_directory V fs dir then []
           else
             let same_name = filter (rv_is_file V fs) (map (\<lambda>ext. rv_without_extension V key_path @ ext) kExtensions);
                 listed = filter (\<lambda>p. rv_is_file V fs p \<and> map tolower (rv_extension V p) \<in> set kExtensions) (rv_directory V fs dir)
             in foldl (\<lambda>candidates p. if p \<in> set candidates then candidates else candidates @ [p]) same_name listed)"

section \<open>Acceptance\<close>

record CertificateResolveResult =
  cr_succeeded :: bool
  cr_certificate_der :: bytes
  cr_source :: string
  cr_source_detail :: string
  cr_spki_sha256 :: string
  cr_rejected_candidates :: int
  cr_message :: string

definition new_resolve_result :: CertificateResolveResult where
  "new_resolve_result = \<lparr>cr_succeeded = False, cr_certificate_der = [], cr_source = [], cr_source_detail = [], cr_spki_sha256 = [],
     cr_rejected_candidates = 0, cr_message = []\<rparr>"

text \<open>The variables of \<open>Resolve\<close> that the lambda changes: the result and \<open>rejected_by_key_usage\<close>.\<close>

type_synonym resolving = "CertificateResolveResult \<times> bool"

definition reject_candidate :: "CertificateResolveResult \<Rightarrow> CertificateResolveResult" where
  "reject_candidate r = r\<lparr>cr_rejected_candidates := cr_rejected_candidates r + 1\<rparr>"

definition accept_candidate ::
    "('cert, 'fs) resolver_env \<Rightarrow> bytes list \<Rightarrow> bytes \<Rightarrow> string \<Rightarrow> string \<Rightarrow> resolving \<Rightarrow> bool \<times> resolving" where
  "accept_candidate V spki_list candidate source detail st =
     (case st of (r, rejected_by_key_usage) \<Rightarrow>
        (case NormalizeCertificateBytes candidate of
           None \<Rightarrow> (False, st)
         | Some der \<Rightarrow>
             if \<not> ContainerPublicKeys_Matches V spki_list der then (False, reject_candidate r, rejected_by_key_usage)
             else if \<not> CertificateAllowsSigningUsage V der then (False, reject_candidate r, True)
             else (True, r\<lparr>cr_succeeded := True, cr_certificate_der := der, cr_source := source, cr_source_detail := detail\<rparr>,
                   rejected_by_key_usage)))"

definition store_certificate :: "('cert, 'fs) resolver_env \<Rightarrow> string \<Rightarrow> bytes \<Rightarrow> 'fs \<Rightarrow> 'fs" where
  "store_certificate V cache_file der fs =
     (if cache_file = [] then fs
      else snd (rf_write (rv_files V) cache_file der (rf_create_directories (rv_files V) (rf_parent (rv_files V) cache_file) fs)))"

text \<open>The loop over candidates, each with the text that names where it is from; the accepted one is stored.\<close>

fun try_candidates ::
    "('cert, 'fs) resolver_env \<Rightarrow> bytes list \<Rightarrow> string \<Rightarrow> string \<Rightarrow> (bytes \<times> string) list \<Rightarrow> resolving \<Rightarrow> 'fs \<Rightarrow> bool \<times> resolving \<times> 'fs" where
  "try_candidates V spki_list cache_file source [] st fs = (False, st, fs)"
| "try_candidates V spki_list cache_file source ((candidate, detail) # candidates) st fs =
     (case accept_candidate V spki_list candidate source detail st of
        (True, st) \<Rightarrow> (True, st, store_certificate V cache_file (cr_certificate_der (fst st)) fs)
      | (False, st) \<Rightarrow> try_candidates V spki_list cache_file source candidates st fs)"

definition sidecar_candidates :: "('cert, 'fs) resolver_env \<Rightarrow> 'fs \<Rightarrow> string \<Rightarrow> (bytes \<times> string) list" where
  "sidecar_candidates V fs key_file_path =
     List.map_filter (\<lambda>path. map_option (\<lambda>raw. (raw, path)) (Resolver_ReadBinary V fs path)) (CollectSidecarCandidates V fs key_file_path)"

section \<open>The network\<close>

text \<open>A stage of the search: \<open>Inl\<close> leaves \<open>Resolve\<close>, with \<open>None\<close> where an exception was thrown.\<close>

type_synonym 'fs resolve_stage = "(CertificateResolveResult option \<times> 'fs) + resolving \<times> string list \<times> 'fs"

definition fetch_attempt :: "string \<Rightarrow> CertificateFetchResult \<Rightarrow> string" where
  "fetch_attempt name fetched = name @ '': '' @
     (if cf_executed fetched then ''no matching certificate among '' @ to_string (int (length (cf_candidates fetched))) @ '' candidate(s)''
      else cf_message fetched)"

definition network_source ::
    "('cert, 'fs) resolver_env \<Rightarrow> bytes list \<Rightarrow> string \<Rightarrow> string \<Rightarrow> string \<Rightarrow> string \<Rightarrow> CertificateFetchResult option
     \<Rightarrow> resolving \<times> string list \<times> 'fs \<Rightarrow> 'fs resolve_stage" where
  "network_source V spki_list cache_file source name url fetched stage =
     (case stage of (st, attempts, fs) \<Rightarrow>
        if url = [] then Inr stage
        else case fetched of
          None \<Rightarrow> Inl (None, fs)
        | Some fetched \<Rightarrow>
            (case try_candidates V spki_list cache_file source (map (\<lambda>c. (c, url)) (cf_candidates fetched)) st fs of
               (True, st, fs) \<Rightarrow> Inl (Some (fst st), fs)
             | (False, st, fs) \<Rightarrow> Inr (st, attempts @ [fetch_attempt name fetched], fs)))"

text \<open>The address of the CMP service, what to report, and the files.\<close>

definition cmp_address :: "('cert, 'fs) resolver_env \<Rightarrow> CertificateResolveRequest \<Rightarrow> 'fs \<Rightarrow> string \<times> string list \<times> 'fs" where
  "cmp_address V request fs =
     (let cmp = rq_cmp_url request
      in if (rq_ldap_url request = [] \<or> cmp = []) \<and> rq_preferred_ca_hint request \<noteq> [] then
           (case CaSettingsRegistry_Load (rv_files V) (cn_get (rv_net V)) (rv_now V) (rq_work_dir request) (rq_offline_mode request)
                   (rq_ca_registry_url request) (rq_network_timeout_ms request) fs of
              (Inl registry_error, fs) \<Rightarrow> (cmp, [''ca-registry: '' @ registry_error], fs)
            | (Inr registry, fs) \<Rightarrow>
                (case CaSettingsRegistry_Find registry (rq_preferred_ca_hint request) of
                   Some ca \<Rightarrow> (if cmp = [] then ca_cmp_url ca else cmp, [], fs)
                 | None \<Rightarrow>
                     (cmp, [''ca-registry: no CA matches hint '' @ [CHR 0x27] @ rq_preferred_ca_hint request @ [CHR 0x27]], fs)))
         else (cmp, [], fs))"

definition fetch_request :: "CertificateResolveRequest \<Rightarrow> string \<Rightarrow> string \<Rightarrow> CertificateFetchRequest" where
  "fetch_request request url base_dn =
     \<lparr>cf_url = url, cf_base_dn = base_dn, cf_subject_hint = rq_subject_identifier request, cf_timeout_ms = rq_network_timeout_ms request\<rparr>"

definition resolve_network ::
    "('cert, 'fs) resolver_env \<Rightarrow> CertificateResolveRequest \<Rightarrow> bytes list \<Rightarrow> string \<Rightarrow> resolving \<Rightarrow> 'fs \<Rightarrow> 'fs resolve_stage" where
  "resolve_network V request spki_list cache_file st fs =
     (case cmp_address V request fs of
        (cmp, attempts, fs) \<Rightarrow>
          let N = rv_net V; ldap = rq_ldap_url request; http_url = rq_http_certificate_url request
          in sbind (network_source V spki_list cache_file ''ldap'' ''ldap'' ldap
                      (LdapCertificateFetcher_Fetch N (fetch_request request ldap (rq_ldap_base_dn request))) (st, attempts, fs)) (\<lambda>stage.
             sbind (network_source V spki_list cache_file ''czo-http'' ''http'' http_url
                      (Some (HttpCertificateFetcher_Fetch N (fetch_request request http_url []))) stage) (\<lambda>stage.
             network_source V spki_list cache_file ''cmp'' ''cmp'' cmp
                      (Some (CmpCertificateFetcher_Fetch N (fetch_request request cmp []))) stage)))"

section \<open>The resolver\<close>

definition ComputeSpkiFingerprint :: "('cert, 'fs) resolver_env \<Rightarrow> bytes \<Rightarrow> string \<Rightarrow> string + string" where
  "ComputeSpkiFingerprint V key_material password =
     (case ExtractSubjectPublicKeyInfo V key_material password of
        Inl error_message \<Rightarrow> Inl error_message
      | Inr spki \<Rightarrow> Inr (ToLowerHex (Sha256 spki)))"

fun join_attempts :: "string list \<Rightarrow> string" where
  "join_attempts [] = []"
| "join_attempts [a] = a"
| "join_attempts (a # b # as) = a @ ''; '' @ join_attempts (b # as)"

definition not_found_message :: "string \<Rightarrow> string list \<Rightarrow> string" where
  "not_found_message spki attempts =
     kMissingCertificateMessage @ '' (spki='' @ spki @ '')'' @
     (if attempts \<noteq> [] then '' ('' @ join_attempts attempts @ '')''
      else '' (no network source configured: set ldap_url, http_certificate_url, cmp_url, or a CA hint resolvable via CAs.json)'')"

text \<open>The two explicit sources end the search in any case.\<close>

definition resolve_explicit ::
    "('cert, 'fs) resolver_env \<Rightarrow> CertificateResolveRequest \<Rightarrow> bytes list \<Rightarrow> CertificateResolveResult \<Rightarrow> 'fs \<Rightarrow> CertificateResolveResult option" where
  "resolve_explicit V request spki_list r fs =
     (let path = rq_explicit_certificate_path request
      in if rq_explicit_certificate_der request \<noteq> [] then
           (case accept_candidate V spki_list (rq_explicit_certificate_der request) ''explicit-der'' ''descriptor'' (r, False) of
              (True, r, _) \<Rightarrow> Some r
            | (False, r, rejected_by_key_usage) \<Rightarrow>
                Some (r\<lparr>cr_message := if rejected_by_key_usage then ''uk: The certificate matches the key, but its keyUsage does not allow signing''
                  else ''The supplied certificate does not match the private key in the container''\<rparr>))
         else if path \<noteq> [] then
           (case Resolver_ReadBinary V fs path of
              None \<Rightarrow> Some (r\<lparr>cr_message := ''Certificate file cannot be read: '' @ path\<rparr>)
            | Some raw \<Rightarrow>
                (case accept_candidate V spki_list raw ''explicit-path'' path (r, False) of
                   (True, r, _) \<Rightarrow> Some r
                 | (False, r, rejected_by_key_usage) \<Rightarrow>
                     Some (r\<lparr>cr_message := if rejected_by_key_usage
                       then ''uk: The certificate matches the key, but its keyUsage does not allow signing: '' @ path
                       else ''The certificate at '' @ path @ '' does not match the private key in the container''\<rparr>)))
         else None)"

definition cache_file_of :: "('cert, 'fs) resolver_env \<Rightarrow> CertificateResolveRequest \<Rightarrow> string \<Rightarrow> string" where
  "cache_file_of V request spki =
     (if rq_work_dir request = [] then []
      else rf_join (rv_files V) (rf_join (rv_files V) (rq_work_dir request) ''cert-cache'') (spki @ ''.cer''))"

text \<open>The levels after the explicit sources: files next to the key, the cache, the network.\<close>

definition resolve_search ::
    "('cert, 'fs) resolver_env \<Rightarrow> CertificateResolveRequest \<Rightarrow> bytes list \<Rightarrow> CertificateResolveResult \<Rightarrow> 'fs \<Rightarrow> CertificateResolveResult option \<times> 'fs" where
  "resolve_search V request spki_list r fs =
     (let spki = cr_spki_sha256 r; cache_file = cache_file_of V request spki
      in case try_candidates V spki_list cache_file ''sidecar'' (sidecar_candidates V fs (rq_key_file_path request)) (r, False) fs of
           (True, st, fs) \<Rightarrow> (Some (fst st), fs)
         | (False, st, fs) \<Rightarrow>
             (case (if cache_file = [] then None else Resolver_ReadBinary V fs cache_file) of
                cached \<Rightarrow>
                  (case (case cached of None \<Rightarrow> (False, st) | Some cached \<Rightarrow> accept_candidate V spki_list cached ''cache'' cache_file st) of
                     (True, st) \<Rightarrow> (Some (fst st), fs)
                   | (False, st) \<Rightarrow>
                       if rq_offline_mode request
                       then (Some ((fst st)\<lparr>cr_message := kMissingCertificateMessage @ '' (offline, spki='' @ spki @ '')''\<rparr>), fs)
                       else case resolve_network V request spki_list cache_file st fs of
                         Inl outcome \<Rightarrow> outcome
                       | Inr (st, attempts, fs) \<Rightarrow> (Some ((fst st)\<lparr>cr_message := not_found_message spki attempts\<rparr>), fs))))"

definition Resolver_Resolve :: "('cert, 'fs) resolver_env \<Rightarrow> CertificateResolveRequest \<Rightarrow> 'fs \<Rightarrow> CertificateResolveResult option \<times> 'fs" where
  "Resolver_Resolve V request fs =
     (let r = new_resolve_result
      in if rq_key_material request = [] then (Some (r\<lparr>cr_message := ''Certificate resolution requires the private key material''\<rparr>), fs)
         else case ComputeSpkiFingerprint V (rq_key_material request) (rq_password request) of
           Inl fingerprint_error \<Rightarrow>
             (Some (r\<lparr>cr_message := ''Unable to derive the public key from the container: '' @ fingerprint_error\<rparr>), fs)
         | Inr spki \<Rightarrow>
             (let r = r\<lparr>cr_spki_sha256 := spki\<rparr>
              in case ContainerPublicKeys_Load V (rq_key_material request) (rq_password request) of
                   Inl container_keys_error \<Rightarrow>
                     (Some (r\<lparr>cr_message := ''Unable to enumerate the container public keys: '' @ container_keys_error\<rparr>), fs)
                 | Inr spki_list \<Rightarrow>
                     (case resolve_explicit V request spki_list r fs of
                        Some r \<Rightarrow> (Some r, fs)
                      | None \<Rightarrow> resolve_search V request spki_list r fs)))"

section \<open>Only matching certificates are accepted\<close>

definition certified :: "('cert, 'fs) resolver_env \<Rightarrow> bytes list \<Rightarrow> bytes \<Rightarrow> bool" where
  "certified V spki_list der \<longleftrightarrow> ContainerPublicKeys_Matches V spki_list der \<and> CertificateAllowsSigningUsage V der \<and> hd der = 0x30"

definition unresolved :: "CertificateResolveResult \<Rightarrow> bool" where
  "unresolved r \<longleftrightarrow> \<not> cr_succeeded r \<and> cr_certificate_der r = []"

definition resolved_from :: "('cert, 'fs) resolver_env \<Rightarrow> bytes list \<Rightarrow> string set \<Rightarrow> CertificateResolveResult \<Rightarrow> bool" where
  "resolved_from V spki_list sources r \<longleftrightarrow> cr_succeeded r \<and> certified V spki_list (cr_certificate_der r) \<and> cr_source r \<in> sources"

lemma unresolved_simps [simp]:
  "unresolved (r\<lparr>cr_message := m\<rparr>) = unresolved r" "unresolved (r\<lparr>cr_spki_sha256 := h\<rparr>) = unresolved r"
  "unresolved (reject_candidate r) = unresolved r" "unresolved new_resolve_result"
  by (simp_all add: unresolved_def reject_candidate_def new_resolve_result_def)

lemma resolved_mono: "resolved_from V spki_list sources r \<Longrightarrow> sources \<subseteq> sources' \<Longrightarrow> resolved_from V spki_list sources' r"
  by (auto simp: resolved_from_def)

lemma normalized_sequence: "NormalizeCertificateBytes raw = Some der \<Longrightarrow> hd der = 0x30 \<and> der \<noteq> []"
  by (auto simp: NormalizeCertificateBytes_def Let_def split: if_splits option.splits)

lemma accept_result:
  assumes "accept_candidate V spki_list candidate source detail st = (ok, st')" "unresolved (fst st)"
  shows "if ok then resolved_from V spki_list {source} (fst st') else unresolved (fst st')"
  using assms
  by (auto simp: accept_candidate_def resolved_from_def certified_def dest: normalized_sequence split: prod.splits option.splits if_splits)

lemma try_result:
  assumes "try_candidates V spki_list cache_file source candidates st fs = (ok, st', fs')" "unresolved (fst st)"
  shows "if ok then resolved_from V spki_list {source} (fst st') \<and> fs' = store_certificate V cache_file (cr_certificate_der (fst st')) fs
    else unresolved (fst st') \<and> fs' = fs"
  using assms
proof (induction candidates arbitrary: st)
  case (Cons c candidates)
  obtain candidate detail where c: "c = (candidate, detail)" by (cases c)
  obtain ok1 st1 where a: "accept_candidate V spki_list candidate source detail st = (ok1, st1)" by (metis surj_pair)
  have "if ok1 then resolved_from V spki_list {source} (fst st1) else unresolved (fst st1)" by (rule accept_result [OF a Cons.prems(2)])
  then show ?case using Cons.IH [of st1] Cons.prems(1) by (cases ok1) (auto simp: c a)
qed simp

definition network_sources :: "string set" where
  "network_sources = {''ldap'', ''czo-http'', ''cmp''}"

definition kept_in :: "('cert, 'fs) resolver_env \<Rightarrow> string \<Rightarrow> CertificateResolveResult \<Rightarrow> 'fs \<Rightarrow> bool" where
  "kept_in V cache_file r fs \<longleftrightarrow> (\<exists>fs0. fs = store_certificate V cache_file (cr_certificate_der r) fs0)"

definition stage_ok :: "('cert, 'fs) resolver_env \<Rightarrow> bytes list \<Rightarrow> string \<Rightarrow> string set \<Rightarrow> 'fs resolve_stage \<Rightarrow> bool" where
  "stage_ok V spki_list cache_file sources stage =
     (case stage of
        Inl (None, fs) \<Rightarrow> True
      | Inl (Some r, fs) \<Rightarrow> resolved_from V spki_list sources r \<and> kept_in V cache_file r fs
      | Inr (st, attempts, fs) \<Rightarrow> unresolved (fst st))"

lemma source_stage:
  assumes "source \<in> sources" "unresolved (fst st)"
  shows "stage_ok V spki_list cache_file sources (network_source V spki_list cache_file source name url fetched (st, attempts, fs))"
proof (cases "url = [] \<or> fetched = None")
  case False
  then obtain f where f: "fetched = Some f" by blast
  obtain ok st' fs' where t: "try_candidates V spki_list cache_file source (map (\<lambda>c. (c, url)) (cf_candidates f)) st fs = (ok, st', fs')"
    by (metis prod_cases3)
  then show ?thesis
    using try_result [OF t assms(2)] False assms(1) by (cases ok) (auto simp: network_source_def f stage_ok_def kept_in_def intro: resolved_mono)
qed (use assms(2) in \<open>auto simp: network_source_def stage_ok_def\<close>)

lemma sbind_stage:
  assumes "stage_ok V spki_list cache_file sources stage" "\<And>st attempts fs. unresolved (fst st) \<Longrightarrow> stage_ok V spki_list cache_file sources (f (st, attempts, fs))"
  shows "stage_ok V spki_list cache_file sources (sbind stage f)"
proof (cases stage)
  case (Inr x)
  obtain st attempts fs where "x = (st, attempts, fs)" by (metis prod_cases3)
  then show ?thesis using assms(1) assms(2) [of st attempts fs] by (simp add: Inr sbind_def stage_ok_def)
qed (use assms(1) in \<open>simp add: sbind_def\<close>)

lemma network_stage: "unresolved (fst st) \<Longrightarrow> stage_ok V spki_list cache_file network_sources (resolve_network V request spki_list cache_file st fs)"
  unfolding resolve_network_def Let_def
  by (cases "cmp_address V request fs")
    (auto intro!: sbind_stage source_stage simp: network_sources_def)

text \<open>The sources a request allows: what the user gave is never replaced, and offline only files are read.\<close>

definition allowed_sources :: "CertificateResolveRequest \<Rightarrow> string set" where
  "allowed_sources request =
     (if rq_explicit_certificate_der request \<noteq> [] then {''explicit-der''}
      else if rq_explicit_certificate_path request \<noteq> [] then {''explicit-path''}
      else {''sidecar'', ''cache''} \<union> (if rq_offline_mode request then {} else network_sources))"

lemma search_result:
  assumes "resolve_search V request spki_list r fs = (Some r', fs')" "unresolved r"
  shows "unresolved r' \<or> resolved_from V spki_list ({''sidecar'', ''cache''} \<union> (if rq_offline_mode request then {} else network_sources)) r'
      \<and> (cr_source r' = ''cache'' \<or> kept_in V (cache_file_of V request (cr_spki_sha256 r)) r' fs')"
    (is "_ \<or> resolved_from V spki_list ?all r' \<and> _")
proof -
  let ?cache = "cache_file_of V request (cr_spki_sha256 r)"
  obtain ok st fs1 where t: "try_candidates V spki_list ?cache ''sidecar'' (sidecar_candidates V fs (rq_key_file_path request)) (r, False) fs = (ok, st, fs1)"
    by (metis prod_cases3)
  have t': "if ok then resolved_from V spki_list {''sidecar''} (fst st) \<and> kept_in V ?cache (fst st) fs1 else unresolved (fst st)"
    using try_result [OF t] assms(2) by (auto simp: kept_in_def split: if_splits)
  show ?thesis
  proof (cases ok)
    case True
    then show ?thesis using assms(1) t t' resolved_mono [of V spki_list "{''sidecar''}" r' ?all] by (simp add: resolve_search_def Let_def)
  next
    case False
    obtain ok2 st2 where a: "(case (if ?cache = [] then None else Resolver_ReadBinary V fs1 ?cache) of None \<Rightarrow> (False, st)
        | Some cached \<Rightarrow> accept_candidate V spki_list cached ''cache'' ?cache st) = (ok2, st2)" by (metis surj_pair)
    have a': "if ok2 then resolved_from V spki_list {''cache''} (fst st2) else unresolved (fst st2)"
      using a accept_result [of V spki_list _ "''cache''" ?cache st ok2 st2] t' False by (auto split: option.splits if_splits)
    have rs: "resolve_search V request spki_list r fs =
        (if ok2 then (Some (fst st2), fs1)
         else if rq_offline_mode request
         then (Some ((fst st2)\<lparr>cr_message := kMissingCertificateMessage @ '' (offline, spki='' @ cr_spki_sha256 r @ '')''\<rparr>), fs1)
         else case resolve_network V request spki_list ?cache st2 fs1 of
           Inl outcome \<Rightarrow> outcome
         | Inr (st, attempts, fs) \<Rightarrow> (Some ((fst st)\<lparr>cr_message := not_found_message (cr_spki_sha256 r) attempts\<rparr>), fs))"
      unfolding resolve_search_def Let_def t using False by (simp add: a)
    show ?thesis
    proof (cases "ok2 \<or> rq_offline_mode request")
      case True
      then show ?thesis
        using assms(1) a' resolved_mono [of V spki_list "{''cache''}" r' ?all] unfolding rs by (cases ok2) (auto simp: resolved_from_def)
    next
      case online: False
      have "stage_ok V spki_list ?cache network_sources (resolve_network V request spki_list ?cache st2 fs1)"
        using network_stage a' online by simp
      then show ?thesis
        using assms(1) online resolved_mono [of V spki_list network_sources r' ?all] unfolding rs
        by (auto simp: stage_ok_def split: sum.splits prod.splits)
    qed
  qed
qed

lemma explicit_result:
  assumes "resolve_explicit V request spki_list r fs = Some r'" "unresolved r"
  shows "unresolved r' \<or> resolved_from V spki_list (allowed_sources request) r'"
  using assms accept_result [of V spki_list _ _ _ "(r, False)"]
  by (fastforce simp: resolve_explicit_def allowed_sources_def Let_def split: if_splits option.splits prod.splits bool.splits)

lemma Resolve_result:
  assumes "Resolver_Resolve V request fs = (Some r, fs')"
  shows "unresolved r \<or> (\<exists>spki_list. ContainerPublicKeys_Load V (rq_key_material request) (rq_password request) = Inr spki_list
    \<and> resolved_from V spki_list (allowed_sources request) r)"
proof -
  consider (failed) "unresolved r"
    | (started) spki_list r0 where "ContainerPublicKeys_Load V (rq_key_material request) (rq_password request) = Inr spki_list"
        "unresolved r0" "(case resolve_explicit V request spki_list r0 fs of Some r \<Rightarrow> (Some r, fs) | None \<Rightarrow> resolve_search V request spki_list r0 fs) = (Some r, fs')"
  proof (cases "rq_key_material request = []")
    case False
    show ?thesis
    proof (cases "ComputeSpkiFingerprint V (rq_key_material request) (rq_password request)")
      case (Inr spki)
      then show ?thesis
        using assms False failed started [of _ "new_resolve_result\<lparr>cr_spki_sha256 := spki\<rparr>"]
        by (cases "ContainerPublicKeys_Load V (rq_key_material request) (rq_password request)") (auto simp: Resolver_Resolve_def Let_def)
    qed (use assms False failed in \<open>auto simp: Resolver_Resolve_def Let_def\<close>)
  qed (use assms failed in \<open>auto simp: Resolver_Resolve_def Let_def\<close>)
  then show ?thesis
  proof cases
    case started
    show ?thesis
    proof (cases "resolve_explicit V request spki_list r0 fs")
      case None
      then have "rq_explicit_certificate_der request = []" "rq_explicit_certificate_path request = []"
        by (auto simp: resolve_explicit_def Let_def split: if_splits option.splits prod.splits bool.splits)
      then show ?thesis using search_result [of V request spki_list r0 fs r fs'] started None by (auto simp: allowed_sources_def)
    next
      case (Some r1)
      then show ?thesis using explicit_result [OF Some started(2)] started by auto
    qed
  qed blast
qed

lemma loaded_matches:
  assumes "ContainerPublicKeys_Load V key_material password = Inr spki_list" "certified V spki_list der"
  shows "CertificateMatchesPrivateKey V key_material password der" "CertificateAllowsSigningUsage V der"
  using assms
  by (auto simp: CertificateMatchesPrivateKey_def ContainerPublicKeys_Load_def certified_def ContainerPublicKeys_Matches_def split: if_splits)

text \<open>Without the network stage the clients of the network do not matter.\<close>

lemma net_irrelevant [simp]:
  "accept_candidate (V\<lparr>rv_net := net\<rparr>) = accept_candidate V" "Resolver_ReadBinary (V\<lparr>rv_net := net\<rparr>) = Resolver_ReadBinary V"
  "sidecar_candidates (V\<lparr>rv_net := net\<rparr>) = sidecar_candidates V" "resolve_explicit (V\<lparr>rv_net := net\<rparr>) = resolve_explicit V"
  "try_candidates (V\<lparr>rv_net := net\<rparr>) = try_candidates V"
proof -
  have m: "ContainerPublicKeys_Matches (V\<lparr>rv_net := net\<rparr>) = ContainerPublicKeys_Matches V" by (simp add: fun_eq_iff ContainerPublicKeys_Matches_def)
  have u: "CertificateAllowsSigningUsage (V\<lparr>rv_net := net\<rparr>) = CertificateAllowsSigningUsage V"
    by (simp add: fun_eq_iff CertificateAllowsSigningUsage_def split: option.split)
  show a: "accept_candidate (V\<lparr>rv_net := net\<rparr>) = accept_candidate V" by (intro ext) (simp only: accept_candidate_def m u)
  show b: "Resolver_ReadBinary (V\<lparr>rv_net := net\<rparr>) = Resolver_ReadBinary V" by (simp add: fun_eq_iff Resolver_ReadBinary_def)
  have flds: "rv_files (V\<lparr>rv_net := net\<rparr>) = rv_files V" "rv_is_file (V\<lparr>rv_net := net\<rparr>) = rv_is_file V" "rv_is_directory (V\<lparr>rv_net := net\<rparr>) = rv_is_directory V"
    "rv_directory (V\<lparr>rv_net := net\<rparr>) = rv_directory V" "rv_absolute (V\<lparr>rv_net := net\<rparr>) = rv_absolute V" "rv_normal (V\<lparr>rv_net := net\<rparr>) = rv_normal V"
    "rv_without_extension (V\<lparr>rv_net := net\<rparr>) = rv_without_extension V" "rv_extension (V\<lparr>rv_net := net\<rparr>) = rv_extension V" by simp_all
  show "sidecar_candidates (V\<lparr>rv_net := net\<rparr>) = sidecar_candidates V"
    by (intro ext, unfold sidecar_candidates_def CollectSidecarCandidates_def b flds) (rule refl)
  show "resolve_explicit (V\<lparr>rv_net := net\<rparr>) = resolve_explicit V" by (intro ext, unfold resolve_explicit_def a b) (rule refl)
  have "try_candidates (V\<lparr>rv_net := net\<rparr>) keys' cache source cs st fs = try_candidates V keys' cache source cs st fs" for keys' cache source cs st fs
    by (induction cs arbitrary: st) (auto simp: a store_certificate_def split: prod.split bool.split)
  then show "try_candidates (V\<lparr>rv_net := net\<rparr>) = try_candidates V" by (simp add: fun_eq_iff)
qed

lemma Resolve_offline:
  fixes fs :: 'fs
  assumes "rq_offline_mode request"
  shows "Resolver_Resolve (V\<lparr>rv_net := net\<rparr>) request fs = Resolver_Resolve V request fs"
proof -
  have c: "cache_file_of (V\<lparr>rv_net := net\<rparr>) = cache_file_of V" by (simp add: fun_eq_iff cache_file_of_def)
  have o: "(if rq_offline_mode request then a else b) = a" for a b :: "CertificateResolveResult option \<times> 'fs" using assms by simp
  have s: "resolve_search (V\<lparr>rv_net := net\<rparr>) request spki_list r fs = resolve_search V request spki_list r fs" for spki_list r
    unfolding resolve_search_def net_irrelevant c o ..
  have f: "ComputeSpkiFingerprint (V\<lparr>rv_net := net\<rparr>) = ComputeSpkiFingerprint V" "ContainerPublicKeys_Load (V\<lparr>rv_net := net\<rparr>) = ContainerPublicKeys_Load V"
    by (simp_all add: fun_eq_iff ComputeSpkiFingerprint_def ContainerPublicKeys_Load_def)
  show ?thesis unfolding Resolver_Resolve_def net_irrelevant f s ..
qed

text \<open>
  C25. The resolver fails closed. A certificate it returns belongs to a key of the container, by the
  whole public key information, and allows signing, whatever a directory, a server, a file or the
  cache offered; a certificate the user named is never replaced by another; a result that is not a
  success has no certificate. Offline the result does not depend on the network.
\<close>

theorem resolver_fail_closed:
  assumes "Resolver_Resolve V request fs = (Some r, fs')"
  shows "(if cr_succeeded r
      then CertificateMatchesPrivateKey V (rq_key_material request) (rq_password request) (cr_certificate_der r)
        \<and> CertificateAllowsSigningUsage V (cr_certificate_der r) \<and> cr_source r \<in> allowed_sources request
      else cr_certificate_der r = [])
    \<and> (rq_offline_mode request \<longrightarrow> Resolver_Resolve (V\<lparr>rv_net := net\<rparr>) request fs = (Some r, fs'))"
  using Resolve_result [OF assms] Resolve_offline [where request = request and V = V and net = net and fs = fs] assms
  by (auto simp: unresolved_def resolved_from_def dest: loaded_matches)

section \<open>The next signature works offline\<close>

lemma Resolve_started:
  assumes "Resolver_Resolve V request fs = (Some r, fs')" "cr_succeeded r"
  obtains spki spki_list where "ComputeSpkiFingerprint V (rq_key_material request) (rq_password request) = Inr spki"
    "ContainerPublicKeys_Load V (rq_key_material request) (rq_password request) = Inr spki_list" "rq_key_material request \<noteq> []"
    "(case resolve_explicit V request spki_list (new_resolve_result\<lparr>cr_spki_sha256 := spki\<rparr>) fs of
        Some r \<Rightarrow> (Some r, fs) | None \<Rightarrow> resolve_search V request spki_list (new_resolve_result\<lparr>cr_spki_sha256 := spki\<rparr>) fs) = (Some r, fs')"
proof -
  have n: "\<not> cr_succeeded (new_resolve_result\<lparr>cr_message := m\<rparr>)" "\<not> cr_succeeded (new_resolve_result\<lparr>cr_spki_sha256 := h, cr_message := m\<rparr>)" for m h
    by (simp_all add: new_resolve_result_def)
  show thesis
    using assms that n by (auto simp: Resolver_Resolve_def Let_def split: if_splits sum.splits)
qed

lemma accept_certified:
  assumes "certified V spki_list der"
  shows "accept_candidate V spki_list der source detail (r, b)
    = (True, r\<lparr>cr_succeeded := True, cr_certificate_der := der, cr_source := source, cr_source_detail := detail\<rparr>, b)"
proof -
  have "der \<noteq> []" using assms by (auto simp: certified_def ContainerPublicKeys_Matches_def)
  then show ?thesis using assms by (simp add: accept_candidate_def certified_def NormalizeCertificateBytes_def)
qed

text \<open>Whether one of the candidates is accepted does not depend on the result so far or on the files.\<close>

lemma try_accepts:
  "fst (try_candidates V spki_list cache_file source candidates st fs) \<longleftrightarrow>
     (\<exists>(raw, detail) \<in> set candidates. \<exists>der. NormalizeCertificateBytes raw = Some der \<and> ContainerPublicKeys_Matches V spki_list der
        \<and> CertificateAllowsSigningUsage V der)"
proof (induction candidates arbitrary: st)
  case (Cons c candidates)
  obtain raw detail r b where c: "c = (raw, detail)" "st = (r, b)" by (metis surj_pair)
  show ?case
    by (cases "NormalizeCertificateBytes raw") (auto simp: c accept_candidate_def Cons.IH)
qed simp

lemma search_offline:
  assumes "rq_offline_mode request" "cache_file_of V request (cr_spki_sha256 r) \<noteq> []" "certified V spki_list der"
    and "Resolver_ReadBinary V fs (cache_file_of V request (cr_spki_sha256 r)) = Some der" "unresolved r"
  shows "\<exists>r' fs'. resolve_search V request spki_list r fs = (Some r', fs') \<and> cr_succeeded r'
    \<and> (if fst (try_candidates V spki_list (cache_file_of V request (cr_spki_sha256 r)) ''sidecar'' (sidecar_candidates V fs (rq_key_file_path request)) (r, False) fs)
       then cr_source r' = ''sidecar'' else cr_source r' = ''cache'' \<and> cr_certificate_der r' = der \<and> fs' = fs)"
proof -
  let ?cache = "cache_file_of V request (cr_spki_sha256 r)"
  obtain ok st fs1 where t: "try_candidates V spki_list ?cache ''sidecar'' (sidecar_candidates V fs (rq_key_file_path request)) (r, False) fs = (ok, st, fs1)"
    by (metis prod_cases3)
  show ?thesis
  proof (cases ok)
    case True
    then show ?thesis using try_result [OF t] assms(5) by (simp add: resolve_search_def t resolved_from_def)
  next
    case False
    obtain r1 b1 where st: "st = (r1, b1)" by (cases st)
    have "fs1 = fs" using try_result [OF t] assms(5) False by simp
    then show ?thesis
      using False assms(2,4) by (simp add: resolve_search_def t st Let_def accept_certified [OF assms(3)])
  qed
qed

text \<open>
  C31. A certificate found in the network is found again without it. After a successful search that
  ended at a network source the same request in offline mode succeeds: from a certificate beside the key file, or
  from the cache with the same certificate and no file changed; and from the cache if
  the candidates beside the key file are what they were at the first search. The laws of the files are that writes
  succeed, which the resolver does not check, and that a file written with success is read back.
\<close>

theorem resolved_again_offline:
  fixes V :: "('cert, 'fs) resolver_env"
  assumes written: "\<And>path data fs. fst (rf_write (rv_files V) path data fs)"
    and read_back: "\<And>path data fs fs'. rf_write (rv_files V) path data fs = (True, fs') \<Longrightarrow> int (length data) \<le> kMaxCertificateFileSize \<Longrightarrow>
      rv_is_file V fs' path \<and> rv_read V fs' path kMaxCertificateFileSize = Some data"
    and paths: "\<And>a b. rf_join (rv_files V) a b \<noteq> []" "rq_work_dir request \<noteq> []"
    and found: "Resolver_Resolve V request fs = (Some r, fs')" "cr_succeeded r" "cr_source r \<in> network_sources"
      "int (length (cr_certificate_der r)) \<le> kMaxCertificateFileSize"
  shows "\<exists>r' fs''. Resolver_Resolve V (request\<lparr>rq_offline_mode := True\<rparr>) fs' = (Some r', fs'') \<and> cr_succeeded r'
    \<and> (cr_source r' = ''sidecar'' \<or> cr_source r' = ''cache'' \<and> cr_certificate_der r' = cr_certificate_der r \<and> fs'' = fs')
    \<and> (sidecar_candidates V fs' (rq_key_file_path request) = sidecar_candidates V fs (rq_key_file_path request) \<longrightarrow> cr_source r' = ''cache'')"
proof -
  obtain spki spki_list where st: "ComputeSpkiFingerprint V (rq_key_material request) (rq_password request) = Inr spki"
    "ContainerPublicKeys_Load V (rq_key_material request) (rq_password request) = Inr spki_list" "rq_key_material request \<noteq> []"
    "(case resolve_explicit V request spki_list (new_resolve_result\<lparr>cr_spki_sha256 := spki\<rparr>) fs of
        Some r \<Rightarrow> (Some r, fs) | None \<Rightarrow> resolve_search V request spki_list (new_resolve_result\<lparr>cr_spki_sha256 := spki\<rparr>) fs) = (Some r, fs')"
    using Resolve_started [OF found(1,2)] by blast
  let ?r0 = "new_resolve_result\<lparr>cr_spki_sha256 := spki\<rparr>" and ?cache = "cache_file_of V request spki" and ?rq = "request\<lparr>rq_offline_mode := True\<rparr>"
  let ?tried = "\<lambda>fs. fst (try_candidates V spki_list ?cache ''sidecar'' (sidecar_candidates V fs (rq_key_file_path request)) (?r0, False) fs)"
  have no_explicit: "rq_explicit_certificate_der request = []" "rq_explicit_certificate_path request = []"
    using Resolve_result [OF found(1)] found(2,3)
    by (auto simp: unresolved_def resolved_from_def allowed_sources_def network_sources_def split: if_splits)
  then have search: "resolve_search V request spki_list ?r0 fs = (Some r, fs')" using st(4) by (simp add: resolve_explicit_def)
  have src: "\<not> unresolved r" "cr_source r \<noteq> ''cache''" "cr_source r \<noteq> ''sidecar''" using found(2,3) by (auto simp: unresolved_def network_sources_def)
  then have k: "resolved_from V spki_list ({''sidecar'', ''cache''} \<union> (if rq_offline_mode request then {} else network_sources)) r" "kept_in V ?cache r fs'"
    using search_result [OF search] by simp_all
  have tried: "\<not> ?tried fs"
    using search src(3) try_result [of V spki_list ?cache "''sidecar''" "sidecar_candidates V fs (rq_key_file_path request)" "(?r0, False)" fs]
    by (auto simp: resolve_search_def Let_def resolved_from_def split: prod.splits)
  have cache: "?cache \<noteq> []" using paths by (simp add: cache_file_of_def)
  then obtain fs1 where w: "fs' = snd (rf_write (rv_files V) ?cache (cr_certificate_der r) fs1)"
    using k(2) by (auto simp: kept_in_def store_certificate_def)
  have c: "certified V spki_list (cr_certificate_der r)" using k(1) by (simp add: resolved_from_def)
  have ne: "cr_certificate_der r \<noteq> []" using c by (auto simp: certified_def ContainerPublicKeys_Matches_def)
  have rd: "Resolver_ReadBinary V fs' ?cache = Some (cr_certificate_der r)"
    using read_back [of ?cache "cr_certificate_der r" fs1 fs'] written [of ?cache "cr_certificate_der r" fs1] w found(4) ne
    by (cases "rf_write (rv_files V) ?cache (cr_certificate_der r) fs1") (simp add: Resolver_ReadBinary_def)
  have cf: "cache_file_of V ?rq (cr_spki_sha256 ?r0) = ?cache" by (simp add: cache_file_of_def)
  obtain r' fs'' where s: "resolve_search V ?rq spki_list ?r0 fs' = (Some r', fs'')" "cr_succeeded r'"
    "if ?tried fs' then cr_source r' = ''sidecar'' else cr_source r' = ''cache'' \<and> cr_certificate_der r' = cr_certificate_der r \<and> fs'' = fs'"
    using search_offline [of ?rq V ?r0 spki_list "cr_certificate_der r" fs', unfolded cf, OF _ cache c rd] by auto
  have "resolve_explicit V ?rq spki_list ?r0 fs' = None" using no_explicit by (simp add: resolve_explicit_def)
  then have res: "Resolver_Resolve V ?rq fs' = (Some r', fs'')" using st(1,2,3) s(1) by (simp add: Resolver_Resolve_def)
  have "\<not> ?tried fs'" if "sidecar_candidates V fs' (rq_key_file_path request) = sidecar_candidates V fs (rq_key_file_path request)"
    using tried unfolding that try_accepts .
  then show ?thesis using res s(2,3) by (cases "?tried fs'") auto
qed

definition sample_resolver :: "(nat, string \<Rightarrow> bytes option) resolver_env" where
  "sample_resolver =
     \<lparr>rv_pki = \<lparr>pki_decode = (\<lambda>der. Some 0), pki_verify = (\<lambda>c i. False), pki_valid_at = (\<lambda>c t. True), pki_valid_now = (\<lambda>c. True),
        pki_basic_constraints = (\<lambda>c. None), pki_key_usage = (\<lambda>c. Some (\<lambda>n. n = 1)), pki_ext_key_usage = (\<lambda>c. None),
        pki_issuer_name_is_subject = (\<lambda>c i. False)\<rparr>,
      CollectSpkiFromKeyContainer = (\<lambda>key password. Some [[5], [7]]), ExtractSubjectPublicKeyInfo = (\<lambda>key password. Inr [5]),
      ExtractCertificateSubjectPublicKeyInfo = (\<lambda>der. Some (tl der)),
      rv_net = \<lparr>on_windows = False, ldap_search = (\<lambda>host port timeout base f. Inl []), ExtractCertificatesFromPkcs7 = (\<lambda>raw. Some [[0x30, 6], [0x30, 7]]),
        IsCertificateDer = (\<lambda>der. False), cn_get = (\<lambda>url acc timeout. default_post_result\<lparr>http_succeeded := True, http_status_code := 200, http_body := [1]\<rparr>),
        cn_post = (\<lambda>url body ct acc timeout. default_post_result)\<rparr>,
      rv_files = sample_registry_files, rv_is_file = (\<lambda>fs path. fs path \<noteq> None), rv_is_directory = (\<lambda>fs path. False),
      rv_read = (\<lambda>fs path limit. fs path), rv_directory = (\<lambda>fs path. []), rv_absolute = (\<lambda>path. None), rv_normal = (\<lambda>path. path),
      rv_without_extension = (\<lambda>path. path), rv_extension = (\<lambda>path. []), rv_now = 0\<rparr>"

definition sample_request :: CertificateResolveRequest where
  "sample_request = \<lparr>rq_key_material = [1], rq_password = [], rq_explicit_certificate_der = [], rq_explicit_certificate_path = [], rq_key_file_path = [],
     rq_work_dir = ''w'', rq_offline_mode = False, rq_network_timeout_ms = 1, rq_preferred_ca_hint = [], rq_ldap_url = [], rq_ldap_base_dn = [],
     rq_http_certificate_url = ''u'', rq_cmp_url = [], rq_subject_identifier = [], rq_ca_registry_url = []\<rparr>"

lemma sample_resolved:
  "\<exists>r fs'. Resolver_Resolve sample_resolver sample_request (\<lambda>path. None) = (Some r, fs') \<and> cr_succeeded r \<and> cr_source r = ''czo-http''
     \<and> cr_certificate_der r = [0x30, 7]"
proof -
  let ?V = sample_resolver and ?rq = sample_request and ?fs = "\<lambda>path. None" and ?h = "ToLowerHex (Sha256 [5])"
  have start: "ComputeSpkiFingerprint ?V [1] [] = Inr ?h" "ContainerPublicKeys_Load ?V [1] [] = Inr [[5], [7]]"
    by (simp_all add: ComputeSpkiFingerprint_def ContainerPublicKeys_Load_def sample_resolver_def)
  have acc: "accept_candidate ?V [[5], [7]] [0x30, 6] source detail (r, b) = (False, reject_candidate r, b)"
    "accept_candidate ?V [[5], [7]] [0x30, 7] source detail (r, b)
      = (True, r\<lparr>cr_succeeded := True, cr_certificate_der := [0x30, 7], cr_source := source, cr_source_detail := detail\<rparr>, b)" for source detail r b
    by (simp_all add: accept_candidate_def NormalizeCertificateBytes_def ContainerPublicKeys_Matches_def CertificateAllowsSigningUsage_def
        DecodeCertificateDer_def CertificateAllowsSigning_def sample_resolver_def)
  have fetched: "cf_candidates (HttpCertificateFetcher_Fetch (rv_net ?V) (fetch_request ?rq ''u'' [])) = [[0x30, 6], [0x30, 7]]"
    by (simp add: HttpCertificateFetcher_Fetch_def fetch_request_def sample_resolver_def AppendCertificates_def IsHttpSuccess_def default_post_result_def)
  have net: "\<exists>st fs'. resolve_network ?V ?rq [[5], [7]] cache (r, b) ?fs = Inl (Some (fst st), fs') \<and> cr_succeeded (fst st)
      \<and> cr_source (fst st) = ''czo-http'' \<and> cr_certificate_der (fst st) = [0x30, 7]" for cache r b
    by (simp add: resolve_network_def cmp_address_def network_source_def sbind_def fetched acc, simp add: sample_request_def fetched [unfolded sample_request_def] acc)
  have "sidecar_candidates ?V ?fs [] = []" by (simp add: sidecar_candidates_def CollectSidecarCandidates_def)
  moreover have "Resolver_ReadBinary ?V ?fs path = None" for path by (simp add: Resolver_ReadBinary_def sample_resolver_def)
  ultimately have "\<exists>st fs'. resolve_search ?V ?rq [[5], [7]] r ?fs = (Some (fst st), fs') \<and> cr_succeeded (fst st)
      \<and> cr_source (fst st) = ''czo-http'' \<and> cr_certificate_der (fst st) = [0x30, 7]" for r
    using net [of "cache_file_of ?V ?rq (cr_spki_sha256 r)" r False]
    by (auto simp: resolve_search_def Let_def sample_request_def)
  moreover have "resolve_explicit ?V ?rq keys' r fs = None" for keys' r fs by (simp add: resolve_explicit_def sample_request_def)
  ultimately show ?thesis using start by (auto simp: Resolver_Resolve_def sample_request_def [THEN arg_cong [where f = rq_key_material]]
      sample_request_def [THEN arg_cong [where f = rq_password]])
qed

theorem resolver_fail_closed_witness:
  "\<exists>r fs'. Resolver_Resolve sample_resolver sample_request (\<lambda>path. None) = (Some r, fs') \<and> cr_succeeded r
     \<and> CertificateMatchesPrivateKey sample_resolver [1] [] (cr_certificate_der r)"
proof -
  obtain r fs' where r: "Resolver_Resolve sample_resolver sample_request (\<lambda>path. None) = (Some r, fs')" "cr_succeeded r" using sample_resolved by blast
  then show ?thesis using resolver_fail_closed [OF r(1), of "rv_net sample_resolver"] by (auto simp: sample_request_def)
qed

theorem resolved_again_offline_witness:
  "\<exists>r fs' r'. Resolver_Resolve sample_resolver sample_request (\<lambda>path. None) = (Some r, fs')
     \<and> Resolver_Resolve sample_resolver (sample_request\<lparr>rq_offline_mode := True\<rparr>) fs' = (Some r', fs') \<and> cr_certificate_der r' = cr_certificate_der r
     \<and> cr_succeeded r' \<and> cr_source r' = ''cache''"
proof -
  obtain r fs' where r: "Resolver_Resolve sample_resolver sample_request (\<lambda>path. None) = (Some r, fs')" "cr_succeeded r" "cr_source r = ''czo-http''"
    "cr_certificate_der r = [0x30, 7]" using sample_resolved by blast
  have "sidecar_candidates sample_resolver fs (rq_key_file_path sample_request) = []" for fs
    by (simp add: sidecar_candidates_def CollectSidecarCandidates_def sample_request_def)
  then show ?thesis
    using resolved_again_offline [of sample_resolver sample_request "\<lambda>path. None" r fs', OF _ _ _ _ r(1,2)] r
    by (auto simp: sample_resolver_def sample_registry_files_def sample_request_def network_sources_def kMaxCertificateFileSize_def)
qed

end
