(* ===== verification/Report_Document.thy ===== *)
theory Report_Document
  imports Report_Json
begin

text \<open>
  The reports as documents: each section written by \<open>Report_Json\<close> is the text of a tree, so both
  reports are well formed whatever strings they carry, and what a reader extracts by a path is
  the field of the report.
\<close>

section \<open>Texts of members\<close>

definition plain :: "string \<Rightarrow> bool" where
  "plain s = list_all (\<lambda>ch. code ch \<ge> 0x20 \<and> ch \<noteq> quote \<and> ch \<noteq> backslash) s"

lemma plain_simps [simp]:
  "plain []" "plain (ch # s) \<longleftrightarrow> code ch \<ge> 0x20 \<and> ch \<noteq> quote \<and> ch \<noteq> backslash \<and> plain s"
  by (simp_all add: plain_def)

lemma plain_escape: "plain s \<Longrightarrow> EscapeJson s = s"
  by (induction s) (auto simp: plain_def EscapeJson_def escape_json_char_def)

definition mtext :: "string \<times> json_tree \<Rightarrow> string" where
  "mtext m = quoted (fst m) @ CHR '':'' # json_text (snd m)"

definition members_text :: "(string \<times> json_tree) list \<Rightarrow> string" where
  "members_text ms = join_commas (map mtext ms)"

lemma object_text: "json_text (J_Object ms) = ''{'' @ members_text ms @ ''}''"
  by (simp add: members_text_def mtext_def case_prod_beta cong: map_cong)

lemma array_text: "json_text (J_Array vs) = ''['' @ join_commas (map json_text vs) @ '']''"
  by simp

lemma members_text_simps [simp]:
  "members_text [m] = mtext m" "members_text (m # n # ms) = mtext m @ CHR '','' # members_text (n # ms)"
  by (simp_all add: members_text_def)

lemma members_text_append:
  "xs \<noteq> [] \<Longrightarrow> ys \<noteq> [] \<Longrightarrow> members_text (xs @ ys) = members_text xs @ CHR '','' # members_text ys"
proof (induction xs)
  case (Cons x xs)
  then show ?case by (cases xs; cases ys) simp_all
qed simp

text \<open>A member with a plain name is what the fragments of the writers say.\<close>

lemma mtext_simps:
  "plain n \<Longrightarrow> mtext (n, J_String v) = jstr n (EscapeJson v)" "plain n \<Longrightarrow> mtext (n, J_Bool b) = jbool n b"
  "plain n \<Longrightarrow> mtext (n, J_Object ms) = jkey n @ ''{'' @ members_text ms @ ''}''"
  "plain n \<Longrightarrow> mtext (n, J_Array vs) = jkey n @ ''['' @ join_commas (map json_text vs) @ '']''"
  "plain n \<Longrightarrow> mtext (n, J_Number i) = jkey n @ to_string i"
  by (simp_all add: mtext_def quoted_def plain_escape jstr_def jbool_def jkey_def object_text del: json_text.simps(6))

lemma jstr_plain: "plain v \<Longrightarrow> jstr n v = jstr n (EscapeJson v)"
  by (simp add: plain_escape)

section \<open>Trees of the sections\<close>

definition check_members :: "VerifyCheck \<Rightarrow> MessageStyle \<Rightarrow> (string \<times> json_tree) list" where
  "check_members check style = [(''status'', J_String (fst check)), (''code'', J_String (snd check))]
     @ (if style = Style_Bilingual then [(''message'', J_Object [(''en'', J_String (fst (MessageForCode (snd check)))),
          (''uk'', J_String (snd (MessageForCode (snd check))))])] else [])"

definition summary_members :: "VerifyReport \<Rightarrow> MessageStyle \<Rightarrow> (string \<times> json_tree) list" where
  "summary_members r style = check_members (SummaryCheck r) style @ [(''summaryCode'', J_String (ComputeVerifySummary r))]"

definition trust_members :: "VerifyReport \<Rightarrow> MessageStyle \<Rightarrow> (string \<times> json_tree) list" where
  "trust_members r style = check_members (TrustCheck r) style
     @ [(''checked'', J_Bool (vr_trust_checked r)), (''valid'', J_Bool (vr_trust_valid r)),
        (''mode'', J_String (vr_trust_mode r)), (''reason'', J_String (vr_trust_reason r)),
        (''trustStatus'', J_String (vr_trust_status r)), (''historicalTrustUsed'', J_Bool (vr_historical_trust_used r)),
        (''historicalAnchor'', J_Object [(''subject'', J_String (vr_historical_anchor_subject r)),
           (''serial'', J_String (vr_historical_anchor_serial r))])]"

definition signature_members :: "VerifyReport \<Rightarrow> FormatFallbacks \<Rightarrow> string option \<Rightarrow> MessageStyle \<Rightarrow> (string \<times> json_tree) list" where
  "signature_members r fallbacks validated_profile style = check_members (SignatureCheck r) style
     @ [(''format'', J_String (OrFallback (vr_signature_format r) (fb_signature_format fallbacks))),
        (''profile'', J_String (vr_format_profile r))]
     @ (case validated_profile of None \<Rightarrow> [] | Some p \<Rightarrow> [(''validatedProfile'', J_String p)])
     @ [(''coverageStatus'', J_String (vr_coverage_status r)),
        (''containerType'', J_String (OrFallback (vr_container_type r) (fb_container_type fallbacks)))]"

definition string_or_null :: "string \<Rightarrow> json_tree" where
  "string_or_null v = (if v = [] then J_Null else J_String v)"

definition certificate_members ::
    "VerifyReport \<Rightarrow> bool option \<Rightarrow> CertificateMetadata option \<Rightarrow> MessageStyle \<Rightarrow> (string \<times> json_tree) list" where
  "certificate_members r qualifying metadata style = check_members (CertificateCheck r) style
     @ [(''validationTimeSource'', J_String (vr_validation_time_source r)), (''present'', J_Bool (vr_signer_certificate_present r))]
     @ (case qualifying of None \<Rightarrow> [] | Some b \<Rightarrow> [(''qualifyingPropertiesPresent'', J_Bool b)])
     @ [(''timeValid'', J_Bool (vr_certificate_time_valid r)),
        (''chain'', J_Object [(''checked'', J_Bool (vr_chain_checked r)), (''valid'', J_Bool (vr_chain_valid r))])]
     @ (case metadata of None \<Rightarrow> [] | Some m \<Rightarrow>
          [(''subject'', string_or_null (cm_common_name m)), (''issuer'', string_or_null (cm_issuer m)),
           (''serialNumber'', string_or_null (cm_serial_number_hex m)), (''organization'', string_or_null (cm_organization m)),
           (''country'', string_or_null (cm_country m))])"

definition revocation_members :: "VerifyReport \<Rightarrow> MessageStyle \<Rightarrow> (string \<times> json_tree) list" where
  "revocation_members r style = check_members (RevocationCheck r) style
     @ [(''checked'', J_Bool (vr_revocation_checked r)), (''ocspChecked'', J_Bool (vr_ocsp_checked r)),
        (''crlChecked'', J_Bool (vr_revocation_checked r \<and> \<not> vr_ocsp_checked r)),
        (''evidencePresent'', J_Bool (vr_revocation_evidence_present r)), (''revocationStatus'', J_String (vr_revocation_status r))]"

definition strings_tree :: "string list \<Rightarrow> json_tree" where
  "strings_tree vs = J_Array (map J_String vs)"

definition timestamp_tree :: "TimestampEntry \<Rightarrow> json_tree" where
  "timestamp_tree d = J_Object
     [(''signatureIndex'', J_Number (tn_signature_index d)), (''kind'', J_String (tn_kind d)),
      (''signedRevisionEnd'', J_Number (uint (tn_signed_revision_end d))),
      (''status'', J_String (if tn_status d = ''timestamp-valid'' then ''valid''
                      else if tn_status d = ''timestamp-invalid'' then ''invalid'' else ''unavailable'')),
      (''timestampStatus'', J_String (tn_status d)), (''valid'', J_Bool (tn_valid d \<and> tn_status d = ''timestamp-valid'')),
      (''policyAcceptable'', J_Bool (tn_policy_acceptable d)), (''cryptoValid'', J_Bool (tn_crypto_valid d)),
      (''genTimeValid'', J_Bool (tn_gen_time_valid d)), (''certificateTimeValid'', J_Bool (tn_certificate_time_valid d)),
      (''ekuValid'', J_Bool (tn_eku_valid d)), (''trustValid'', J_Bool (tn_trust_valid d)),
      (''revocationChecked'', J_Bool (tn_revocation_checked d)), (''ocspAttempted'', J_Bool (tn_ocsp_attempted d)),
      (''crlAttempted'', J_Bool (tn_crl_attempted d)), (''historicalTrustUsed'', J_Bool (tn_historical_trust_used d)),
      (''genTime'', J_String (tn_gen_time d)), (''validationTime'', J_String (tn_validation_time d)),
      (''reasonCode'', J_String (tn_reason_code d)), (''trustSource'', J_String (tn_trust_source d)),
      (''tsaSubject'', J_String (tn_tsa_subject d)), (''tsaIssuer'', J_String (tn_tsa_issuer d)),
      (''tsaSerial'', J_String (tn_tsa_serial d)), (''tsaFingerprintSha256'', J_String (tn_tsa_fingerprint_sha256 d)),
      (''revocationStatus'', J_String (tn_revocation_status d)), (''because'', strings_tree (tn_because d)),
      (''warnings'', strings_tree (tn_warnings d)), (''limitations'', strings_tree (tn_limitations d)),
      (''evidenceIds'', strings_tree (tn_evidence_ids d))]"

definition timestamp_members :: "VerifyReport \<Rightarrow> MessageStyle \<Rightarrow> (string \<times> json_tree) list" where
  "timestamp_members r style = check_members (TimestampCheck r) style
     @ [(''checked'', J_Bool (vr_timestamp_checked r)), (''tspChecked'', J_Bool (vr_tsp_checked r)),
        (''timestampStatus'', J_String (vr_timestamp_status r)),
        (''details'', J_Array (map timestamp_tree (vr_timestamp_details r)))]"

definition ltv_members :: "VerifyReport \<Rightarrow> MessageStyle \<Rightarrow> (string \<times> json_tree) list" where
  "ltv_members r style = check_members (LtvCheck r) style
     @ [(''valid'', J_Bool (vr_ltv_valid r)), (''evidenceBound'', J_Bool (vr_ltv_evidence_bound r)),
        (''evidenceValidated'', J_Bool (vr_ltv_evidence_validated r)), (''fullyValidated'', J_Bool (LtvFullyValidated r)),
        (''fullValidationState'', J_String (fst (LtvCheck r)))]"

definition warning_tree :: "MessageStyle \<Rightarrow> string \<Rightarrow> json_tree" where
  "warning_tree style c = J_Object ((''code'', J_String c) # (if style = Style_Bilingual then
     [(''message'', J_Object [(''en'', J_String (fst (MessageForCode c))), (''uk'', J_String (snd (MessageForCode c)))])] else []))"

definition policy_members :: "VerifyReport \<Rightarrow> MessageStyle \<Rightarrow> (string \<times> json_tree) list" where
  "policy_members r style = check_members (PolicyCheck r) style
     @ [(''level'', J_String (vd_level (ComputeVerifyPolicyDecision r))),
        (''warnings'', J_Array (map (warning_tree style) (policy_warning_codes r)))]"

definition diagnostics_members :: "VerifyReport \<Rightarrow> FormatFallbacks \<Rightarrow> (string \<times> json_tree) list" where
  "diagnostics_members r fallbacks =
     [(''operation'', J_String (vr_operation r)),
      (''format'', J_String (OrFallback (vr_signature_format r) (fb_signature_format fallbacks))),
      (''profile'', J_String (vr_format_profile r)),
      (''containerType'', J_String (OrFallback (vr_container_type r) (fb_container_type fallbacks))),
      (''errorCode'', J_String (ErrorCodeName (vr_error_code r)))]"

definition flag_members :: "VerifyReport \<Rightarrow> (string \<times> json_tree) list" where
  "flag_members r =
     [(''hasResult'', J_Bool (vr_has_result r)), (''executionSucceeded'', J_Bool (vr_execution_succeeded r)),
      (''signatureValid'', J_Bool (vr_signature_valid r)), (''trustChecked'', J_Bool (vr_trust_checked r)),
      (''trustValid'', J_Bool (vr_trust_valid r)), (''revocationChecked'', J_Bool (vr_revocation_checked r)),
      (''ocspChecked'', J_Bool (vr_ocsp_checked r)), (''tspChecked'', J_Bool (vr_tsp_checked r)),
      (''timestampChecked'', J_Bool (vr_timestamp_checked r)), (''timestampValid'', J_Bool (vr_timestamp_valid r))]"

section \<open>The sections are the texts of their trees\<close>

lemma check_text:
  assumes "plain (fst check)" "plain (snd check)"
  shows "WriteCheckFields check style = members_text (check_members check style)" "check_members check style \<noteq> []"
  using assms by (simp_all add: check_members_def WriteCheckFields_def WriteMessage_def mtext_simps jstr_plain)

lemma plain_checks:
  "plain (fst (SummaryCheck r))" "plain (snd (SummaryCheck r))" "plain (fst (SignatureCheck r))" "plain (snd (SignatureCheck r))"
  "plain (fst (CertificateCheck r))" "plain (snd (CertificateCheck r))" "plain (fst (TrustCheck r))" "plain (snd (TrustCheck r))"
  "plain (fst (RevocationCheck r))" "plain (snd (RevocationCheck r))" "plain (fst (TimestampCheck r))" "plain (snd (TimestampCheck r))"
  "plain (fst (LtvCheck r))" "plain (snd (LtvCheck r))" "plain (fst (PolicyCheck r))" "plain (snd (PolicyCheck r))"
  by (simp_all add: SummaryCheck_def SignatureCheck_def CertificateCheck_def TrustCheck_def RevocationCheck_def TimestampCheck_def
      LtvCheck_def PolicyCheck_def FirstPolicyWarningCode_def Let_def)

lemma summary_text: "WriteSummarySection r style = mtext (''summary'', J_Object (summary_members r style)) @ '',''"
  by (simp add: WriteSummarySection_def summary_members_def check_text plain_checks members_text_append mtext_simps)

lemma trust_text: "WriteTrustSection r style = mtext (''trust'', J_Object (trust_members r style)) @ '',''"
  by (simp add: WriteTrustSection_def trust_members_def check_text plain_checks members_text_append mtext_simps)

lemma signature_text:
  "WriteSignatureSection r fb profile style = mtext (''signature'', J_Object (signature_members r fb profile style)) @ '',''"
  by (cases profile)
    (simp_all add: WriteSignatureSection_def signature_members_def check_text plain_checks members_text_append mtext_simps)

lemma string_or_null_text: "plain n \<Longrightarrow> mtext (n, string_or_null v) = jkey n @ WriteStringOrNull v"
  by (simp add: string_or_null_def WriteStringOrNull_def mtext_def quoted_def plain_escape jkey_def)

lemma certificate_text:
  assumes "plain (vr_validation_time_source r)"
  shows "WriteCertificateSection r qualifying metadata style
    = mtext (''certificate'', J_Object (certificate_members r qualifying metadata style)) @ '',''"
  using assms
  by (cases qualifying; cases metadata)
    (simp_all add: WriteCertificateSection_def certificate_members_def check_text plain_checks members_text_append mtext_simps
      jstr_plain string_or_null_text)

lemma revocation_text: "WriteRevocationSection r style = mtext (''revocation'', J_Object (revocation_members r style)) @ '',''"
  by (simp add: WriteRevocationSection_def revocation_members_def check_text plain_checks members_text_append mtext_simps)

lemma write_strings_text: "plain n \<Longrightarrow> write_strings n vs = CHR '','' # mtext (n, strings_tree vs)"
  by (simp add: write_strings_def strings_tree_def mtext_simps comp_def quoted_def)

lemma timestamp_detail_text: "write_timestamp_detail d = json_text (timestamp_tree d)"
  unfolding timestamp_tree_def object_text write_timestamp_detail_def
  by (simp add: mtext_simps write_strings_text jstr_plain)

lemma timestamp_details_text: "plain n \<Longrightarrow> mtext (n, J_Array (map timestamp_tree ds)) = jkey n @ WriteTimestampDetails ds"
  by (simp add: mtext_simps WriteTimestampDetails_def timestamp_detail_text comp_def cong: map_cong)

lemma timestamp_text: "WriteTimestampSection r style = mtext (''timestamp'', J_Object (timestamp_members r style)) @ '',''"
  unfolding timestamp_members_def WriteTimestampSection_def mtext_simps(3) [where n = "''timestamp''", simplified]
  by (simp add: check_text plain_checks members_text_append mtext_simps(1,2) timestamp_details_text)

lemma ltv_text: "WriteLtvSection r style = mtext (''ltv'', J_Object (ltv_members r style)) @ '',''"
  by (simp add: WriteLtvSection_def ltv_members_def check_text plain_checks members_text_append mtext_simps jstr_plain)

lemma warnings_text:
  "list_all plain cs \<Longrightarrow> write_warnings style cs first = (if cs = [] \<or> first then [] else '','') @ join_commas (map (\<lambda>c. json_text (warning_tree style c)) cs)"
proof (induction cs arbitrary: first)
  case (Cons c cs)
  have "snd (WriteWarning style c first) = (if first then [] else '','') @ json_text (warning_tree style c)"
    unfolding warning_tree_def object_text using Cons.prems
    by (simp add: WriteWarning_def WriteMessage_def mtext_simps jstr_plain)
  then show ?case using Cons by (cases cs) (simp_all add: WriteWarning_def)
qed simp

lemma policy_text: "WritePolicySection r style = mtext (''policy'', J_Object (policy_members r style)) @ '',''"
proof -
  have "list_all plain (policy_warning_codes r)" by (simp add: policy_warning_codes_def)
  then show ?thesis
    by (simp add: WritePolicySection_def policy_members_def check_text plain_checks members_text_append mtext_simps warnings_text comp_def)
qed

lemma diagnostics_text: "WriteDiagnosticsPrefix r fb = jkey ''diagnostics'' @ ''{'' @ members_text (diagnostics_members r fb)"
  by (simp add: WriteDiagnosticsPrefix_def diagnostics_members_def mtext_simps)

lemma flags_text: "WriteDiagnosticsFlagsPrefix r = jkey ''flags'' @ ''{'' @ members_text (flag_members r)"
  by (simp add: WriteDiagnosticsFlagsPrefix_def flag_members_def mtext_simps)

section \<open>Both reports\<close>

definition user_document :: "VerifyReport \<Rightarrow> FormatFallbacks \<Rightarrow> CertificateMetadata \<Rightarrow> json_tree" where
  "user_document r fallbacks metadata = J_Object
     [(''schemaVersion'', J_String ''2.2''), (''summary'', J_Object (summary_members r Style_Bilingual)),
      (''signature'', J_Object (signature_members r fallbacks None Style_Bilingual)),
      (''certificate'', J_Object (certificate_members r None (Some metadata) Style_Bilingual)),
      (''trust'', J_Object (trust_members r Style_Bilingual)), (''revocation'', J_Object (revocation_members r Style_Bilingual)),
      (''timestamp'', J_Object (timestamp_members r Style_Bilingual)), (''ltv'', J_Object (ltv_members r Style_Bilingual)),
      (''policy'', J_Object (policy_members r Style_Bilingual)),
      (''diagnostics'', J_Object (diagnostics_members r fallbacks
         @ [(''flags'', J_Object (flag_members r @ [(''ltvValid'', J_Bool (vr_ltv_valid r))]))]))]"

definition format_tree :: "DataObjectFormatEntry \<Rightarrow> json_tree" where
  "format_tree d = J_Object [(''objectReference'', J_String (df_object_reference d)), (''mimeType'', J_String (df_mime_type d)),
     (''description'', J_String (df_description d))]"

definition signature_tree :: "SignatureEntry \<Rightarrow> json_tree" where
  "signature_tree e = J_Object
     [(''index'', J_Number (se_index e)), (''signatureValid'', J_Bool (se_signature_valid e)),
      (''certificatePresent'', J_Bool (se_signer_certificate_present e)),
      (''qualifyingPropertiesPresent'', J_Bool (se_qualifying_properties_present e)),
      (''signingCertificateDigestValid'', J_Bool (se_signing_certificate_digest_valid e)),
      (''profile'', J_String (se_format_profile e)), (''timestampChecked'', J_Bool (se_timestamp_checked e)),
      (''timestampValid'', J_Bool (se_timestamp_valid e)), (''timestampStatus'', J_String (se_timestamp_status e)),
      (''timestamps'', J_Array (map timestamp_tree (se_timestamp_details e))), (''ltvValid'', J_Bool (se_ltv_valid e)),
      (''ltvEvidenceBound'', J_Bool (se_ltv_evidence_bound e)), (''ltvEvidenceValidated'', J_Bool (se_ltv_evidence_validated e)),
      (''certificate'', J_Object [(''timeValid'', J_Bool (se_certificate_time_valid e)),
         (''validationTimeSource'', J_String (se_validation_time_source e)),
         (''chain'', J_Object [(''checked'', J_Bool (se_chain_checked e)), (''valid'', J_Bool (se_chain_valid e))])]),
      (''trust'', J_Object [(''checked'', J_Bool (se_trust_checked e)), (''valid'', J_Bool (se_trust_valid e)),
         (''mode'', J_String (se_trust_mode e)), (''reason'', J_String (se_trust_reason e)),
         (''trustStatus'', J_String (se_trust_status e)), (''historicalTrustUsed'', J_Bool (se_historical_trust_used e)),
         (''historicalAnchor'', J_Object [(''subject'', J_String (se_historical_anchor_subject e)),
            (''serial'', J_String (se_historical_anchor_serial e))])]),
      (''revocation'', J_Object [(''checked'', J_Bool (se_revocation_checked e)), (''ocspChecked'', J_Bool (se_ocsp_checked e)),
         (''revocationStatus'', J_String (se_revocation_status e))]),
      (''signaturePolicyPresent'', J_Bool (se_signature_policy_present e)),
      (''signaturePolicyId'', J_String (se_signature_policy_id e)),
      (''signaturePolicyHashAlgorithmUri'', J_String (se_signature_policy_hash_algo_uri e)),
      (''dataObjectFormats'', J_Array (map format_tree (se_data_object_formats e)))]"

definition no_fallbacks :: FormatFallbacks where
  "no_fallbacks = \<lparr>fb_signature_format = [], fb_container_type = []\<rparr>"

definition technical_flags :: "VerifyReport \<Rightarrow> (string \<times> json_tree) list" where
  "technical_flags r = flag_members r
     @ [(''cmsSignerCount'', J_Number (vr_cms_signer_count r)), (''cmsVerifiedSignerCount'', J_Number (vr_cms_verified_signer_count r)),
        (''signerCertificatePresent'', J_Bool (vr_signer_certificate_present r)),
        (''certificateTimeValid'', J_Bool (vr_certificate_time_valid r)), (''chainChecked'', J_Bool (vr_chain_checked r)),
        (''chainValid'', J_Bool (vr_chain_valid r)), (''ltvValid'', J_Bool (vr_ltv_valid r)),
        (''containerCoverageComplete'', J_Bool (vr_container_coverage_complete r))]"

definition technical_diagnostics :: "TrustListSyncReport \<Rightarrow> string \<Rightarrow> VerifyReport \<Rightarrow> (string \<times> json_tree) list" where
  "technical_diagnostics sync chain_debug r = diagnostics_members r no_fallbacks
     @ [(''message'', J_String (vr_message r)),
        (''trustList'', J_Object [(''checked'', J_Bool (vr_trust_list_checked r)), (''source'', J_String (vr_trust_list_source r)),
           (''cacheStatus'', J_String (vr_trust_list_cache_status r)), (''lastSync'', J_String (vr_trust_list_last_sync r)),
           (''updateSucceeded'', J_Bool (vr_trust_list_update_succeeded r))]),
        (''trustListSync'', J_Object [(''checked'', J_Bool (ts_checked sync)), (''source'', J_String (ts_source sync)),
           (''cacheStatus'', J_String (ts_cache_status sync)), (''lastSync'', J_String (ts_last_sync sync)),
           (''updateSucceeded'', J_Bool (ts_update_succeeded sync)),
           (''xmlSignatureStatus'', J_String (ts_xml_signature_status sync))]),
        (''chainDebug'', J_Object [(''trace'', J_String chain_debug)]), (''flags'', J_Object (technical_flags r))]"

definition technical_document :: "TrustListSyncReport \<Rightarrow> string \<Rightarrow> VerifyReport \<Rightarrow> json_tree" where
  "technical_document sync chain_debug r = J_Object
     [(''schemaVersion'', J_String ''2.2''), (''summary'', J_Object (summary_members r Style_None)),
      (''signature'', J_Object (signature_members r no_fallbacks (Some (vr_validated_profile r)) Style_None)),
      (''certificate'', J_Object (certificate_members r (Some (vr_qualifying_properties_present r)) None Style_None)),
      (''trust'', J_Object (trust_members r Style_None)), (''revocation'', J_Object (revocation_members r Style_None)),
      (''timestamp'', J_Object (timestamp_members r Style_None)), (''ltv'', J_Object (ltv_members r Style_None)),
      (''signaturePolicy'', J_Object [(''present'', J_Bool (vr_signature_policy_present r)),
         (''id'', J_String (vr_signature_policy_id r)), (''hashAlgorithmUri'', J_String (vr_signature_policy_hash_algo_uri r))]),
      (''dataObjectFormats'', J_Array (map format_tree (vr_data_object_formats r))),
      (''policy'', J_Object (policy_members r Style_None)),
      (''diagnostics'', J_Object (technical_diagnostics sync chain_debug r)),
      (''signatures'', J_Array (map signature_tree (vr_signatures r)))]"

lemmas section_texts = summary_text signature_text certificate_text trust_text revocation_text timestamp_text ltv_text policy_text

lemma diagnostics_ne [simp]: "diagnostics_members r fb \<noteq> []" "flag_members r \<noteq> []"
  by (simp_all add: diagnostics_members_def flag_members_def)

lemma user_text:
  assumes "plain (vr_validation_time_source r)"
  shows "UserReportBuilder_Build r container_type signature_format metadata
    = json_text (user_document r \<lparr>fb_signature_format = signature_format, fb_container_type = container_type\<rparr> metadata)"
  using assms unfolding user_document_def object_text UserReportBuilder_Build_def Let_def section_texts diagnostics_text flags_text
  by (simp add: section_texts members_text_append mtext_simps jstr_plain)

lemma formats_text: "plain n \<Longrightarrow> mtext (n, J_Array (map format_tree ds)) = jkey n @ WriteV2DataObjectFormats ds"
proof -
  have "write_data_object_format d = json_text (format_tree d)" for d
    unfolding format_tree_def object_text by (simp add: write_data_object_format_def mtext_simps)
  then show "plain n \<Longrightarrow> mtext (n, J_Array (map format_tree ds)) = jkey n @ WriteV2DataObjectFormats ds"
    by (simp add: mtext_simps WriteV2DataObjectFormats_def comp_def cong: map_cong)
qed

lemma signature_entry_text: "write_signature_entry e = json_text (signature_tree e)"
  unfolding signature_tree_def object_text write_signature_entry_def
  by (simp add: formats_text timestamp_details_text mtext_simps(1,2,3,5))

lemma signatures_text: "WriteV2Signatures r = mtext (''signatures'', J_Array (map signature_tree (vr_signatures r)))"
  by (simp add: WriteV2Signatures_def mtext_simps signature_entry_text comp_def cong: map_cong)

lemma technical_text:
  assumes "plain (vr_validation_time_source r)"
  shows "GetLastVerifyReport sync chain_debug r = json_text (technical_document sync chain_debug r)"
  using assms
  unfolding technical_document_def technical_diagnostics_def technical_flags_def object_text GetLastVerifyReport_def Let_def
    no_fallbacks_def [symmetric] section_texts diagnostics_text flags_text signatures_text
  by (simp add: section_texts members_text_append formats_text mtext_simps(1,2,3,5) jstr_plain)

section \<open>Reading the reports\<close>

lemma depth_le_simps:
  "json_depth (J_Object ms) \<le> n \<longleftrightarrow> n \<noteq> 0 \<and> list_all (\<lambda>m. json_depth (snd m) \<le> n - 1) ms"
  "json_depth (J_Array vs) \<le> n \<longleftrightarrow> n \<noteq> 0 \<and> list_all (\<lambda>v. json_depth v \<le> n - 1) vs"
  by (cases n; auto simp: list_all_iff)+

lemma check_members_depth: "2 \<le> n \<Longrightarrow> list_all (\<lambda>m. json_depth (snd m) \<le> n) (check_members check style)"
  by (simp add: check_members_def depth_le_simps del: json_depth.simps(1,2))

lemma timestamp_tree_depth: "2 \<le> n \<Longrightarrow> json_depth (timestamp_tree d) \<le> n"
  by (simp add: timestamp_tree_def strings_tree_def depth_le_simps list_all_iff del: json_depth.simps(1,2))

lemma format_tree_depth: "1 \<le> n \<Longrightarrow> json_depth (format_tree d) \<le> n"
  by (simp add: format_tree_def depth_le_simps del: json_depth.simps(1,2))

lemma signature_tree_depth: "4 \<le> n \<Longrightarrow> json_depth (signature_tree d) \<le> n"
  by (simp add: signature_tree_def depth_le_simps list_all_iff timestamp_tree_depth format_tree_depth del: json_depth.simps(1,2))

lemma warning_tree_depth: "2 \<le> n \<Longrightarrow> json_depth (warning_tree style c) \<le> n"
  by (simp add: warning_tree_def depth_le_simps del: json_depth.simps(1,2))

lemma section_depths:
  assumes "5 \<le> n"
  shows "list_all (\<lambda>m. json_depth (snd m) \<le> n) (summary_members r style)"
    "list_all (\<lambda>m. json_depth (snd m) \<le> n) (signature_members r fb profile style)"
    "list_all (\<lambda>m. json_depth (snd m) \<le> n) (certificate_members r qualifying metadata style)"
    "list_all (\<lambda>m. json_depth (snd m) \<le> n) (trust_members r style)"
    "list_all (\<lambda>m. json_depth (snd m) \<le> n) (revocation_members r style)"
    "list_all (\<lambda>m. json_depth (snd m) \<le> n) (timestamp_members r style)"
    "list_all (\<lambda>m. json_depth (snd m) \<le> n) (ltv_members r style)"
    "list_all (\<lambda>m. json_depth (snd m) \<le> n) (policy_members r style)"
    "list_all (\<lambda>m. json_depth (snd m) \<le> n) (diagnostics_members r fb)"
    "list_all (\<lambda>m. json_depth (snd m) \<le> n) (flag_members r)"
proof -
  note simps = check_members_depth depth_le_simps list_all_iff [of _ "map _ _"] timestamp_tree_depth warning_tree_depth
  have c: "list_all (\<lambda>m. json_depth (snd m) \<le> n) (check_members check style)" for check
    using check_members_depth assms by simp
  show "list_all (\<lambda>m. json_depth (snd m) \<le> n) (summary_members r style)"
    "list_all (\<lambda>m. json_depth (snd m) \<le> n) (trust_members r style)"
    "list_all (\<lambda>m. json_depth (snd m) \<le> n) (revocation_members r style)"
    "list_all (\<lambda>m. json_depth (snd m) \<le> n) (timestamp_members r style)"
    "list_all (\<lambda>m. json_depth (snd m) \<le> n) (ltv_members r style)"
    "list_all (\<lambda>m. json_depth (snd m) \<le> n) (policy_members r style)"
    "list_all (\<lambda>m. json_depth (snd m) \<le> n) (diagnostics_members r fb)"
    "list_all (\<lambda>m. json_depth (snd m) \<le> n) (flag_members r)"
    using assms c
    by (simp_all add: summary_members_def trust_members_def revocation_members_def timestamp_members_def ltv_members_def
        policy_members_def diagnostics_members_def flag_members_def simps del: json_depth.simps(1,2))
  show "list_all (\<lambda>m. json_depth (snd m) \<le> n) (signature_members r fb profile style)"
    using assms c by (cases profile) (simp_all add: signature_members_def simps del: json_depth.simps(1,2))
  show "list_all (\<lambda>m. json_depth (snd m) \<le> n) (certificate_members r qualifying metadata style)"
    using assms c by (cases qualifying; cases metadata)
      (simp_all add: certificate_members_def string_or_null_def simps del: json_depth.simps(1,2))
qed

lemma technical_depth: "json_depth (technical_document sync chain_debug r) \<le> kMaxJsonNestingDepth"
  by (simp add: technical_document_def technical_diagnostics_def technical_flags_def kMaxJsonNestingDepth_def depth_le_simps
      section_depths list_all_iff [of _ "map _ _"] format_tree_depth signature_tree_depth del: json_depth.simps(1,2))

lemma user_depth: "json_depth (user_document r fb metadata) \<le> kMaxJsonNestingDepth"
  by (simp add: user_document_def kMaxJsonNestingDepth_def depth_le_simps section_depths del: json_depth.simps(1,2))

text \<open>The one string that is written without escaping: everything that sets it gives it a plain text.\<close>

lemma projected_time_source:
  "vr_validation_time_source (ProjectVerifyReport meta ve)
    = CanonicalValidationTimeSource (rep_signing_time_resolution ve) (HasSignerCertificateEvidence ve)"
proof -
  have "vr_validation_time_source (project_revocation rr report) = vr_validation_time_source report"
    "vr_validation_time_source (project_timestamp meta ve' report) = vr_validation_time_source report"
    "vr_validation_time_source (project_error d report) = vr_validation_time_source report" for rr report ve' d
    by (simp_all add: project_revocation_def project_timestamp_def project_error_def ApplyTimestampDetailsVerdict_def
        ApplyTimestampFailureToTrust_def Let_def split: list.split OverallStatus.split)
  moreover have "vr_validation_time_source (project_trust ve)
    = CanonicalValidationTimeSource (rep_signing_time_resolution ve) (HasSignerCertificateEvidence ve)"
    by (simp add: project_trust_def Let_def)
  ultimately show ?thesis by (simp add: ProjectVerifyReport_def)
qed

lemma time_source_plain:
  "plain (CanonicalValidationTimeSource resolution present)" "plain (vr_validation_time_source default_report)"
  "plain (se_validation_time_source default_signature_entry)"
  "plain (vr_validation_time_source (ApplyValidationEngineReport meta ve report))"
  "list_all (\<lambda>e. plain (se_validation_time_source e)) (vr_signatures report) \<Longrightarrow> plain (vr_validation_time_source report)
    \<Longrightarrow> plain (vr_validation_time_source (ApplyPerSignerTrustAggregation report))"
proof -
  show canonical: "plain (CanonicalValidationTimeSource resolution present)" for resolution present
    by (simp add: CanonicalValidationTimeSource_def split: SigningTimeSource.split)
  show "plain (vr_validation_time_source default_report)" "plain (se_validation_time_source default_signature_entry)"
    by (simp_all add: default_report_def default_signature_entry_def)
  show "plain (vr_validation_time_source (ApplyValidationEngineReport meta ve report))"
    using canonical by (simp add: ApplyValidationEngineReport_def projected_time_source Let_def)
  show "list_all (\<lambda>e. plain (se_validation_time_source e)) (vr_signatures report) \<Longrightarrow> plain (vr_validation_time_source report)
    \<Longrightarrow> plain (vr_validation_time_source (ApplyPerSignerTrustAggregation report))"
    using representative_index [of "vr_signatures report"]
    by (auto simp: ApplyPerSignerTrustAggregation_def Let_def list_all_length)
qed

text \<open>
  C40. Both public reports are well-formed JSON. Whatever bytes the names, messages and traces of
  a report hold, the JSON reader of the library takes the technical and the user report as one
  complete value. The source of the validation time, which is written without escaping, must be
  a plain text; every operation of the model sets it so.
\<close>

theorem reports_wellformed:
  assumes "plain (vr_validation_time_source r)"
  shows "SkipJsonValue 0 (GetLastVerifyReport sync chain_debug r) = Some []
    \<and> SkipJsonValue 0 (UserReportBuilder_Build r container_type signature_format metadata) = Some []"
  unfolding technical_text [OF assms] user_text [OF assms]
  using skip_text [OF ends_value_simps(1), of 0 "technical_document sync chain_debug r"] technical_depth [of sync chain_debug r]
    skip_text [OF ends_value_simps(1), of 0 "user_document r \<lparr>fb_signature_format = signature_format, fb_container_type = container_type\<rparr> metadata"]
    user_depth [of r "\<lparr>fb_signature_format = signature_format, fb_container_type = container_type\<rparr>" metadata]
  by (simp add: fits_def)

definition sample_sync :: TrustListSyncReport where
  "sample_sync = \<lparr>ts_checked = False, ts_update_succeeded = False, ts_source = [], ts_cache_status = ''not-checked'',
     ts_last_sync = [], ts_xml_signature_status = ''not-checked''\<rparr>"

theorem reports_wellformed_witness:
  "SkipJsonValue 0 (GetLastVerifyReport sample_sync [CHR 0x22, CHR 0x0A] (sample_good_report\<lparr>vr_message := [CHR 0x22, CHR 0x5C]\<rparr>)) = Some []"
  using reports_wellformed [of "sample_good_report\<lparr>vr_message := [CHR 0x22, CHR 0x5C]\<rparr>" sample_sync "[CHR 0x22, CHR 0x0A]"]
  by (simp add: sample_good_report_def default_report_def)

section \<open>What the reader finds\<close>

lemma technical_flag:
  assumes "plain (vr_validation_time_source r)" "map_of (technical_flags r) name = Some (J_Bool b)"
  shows "ExtractJsonBoolPath (GetLastVerifyReport sync chain_debug r) [''diagnostics'', ''flags'', name] = Some b"
  unfolding technical_text [OF assms(1)] extract_text(2) [OF technical_depth list.distinct(2)]
  using assms(2) by (simp add: technical_document_def technical_diagnostics_def diagnostics_members_def)

lemma technical_status:
  assumes "plain (vr_validation_time_source r)"
  shows "ExtractJsonStringPath (GetLastVerifyReport sync chain_debug r) [''revocation'', ''revocationStatus''] = Some (vr_revocation_status r)"
    "ExtractJsonStringPath (GetLastVerifyReport sync chain_debug r) [''summary'', ''status''] = Some (fst (SummaryCheck r))"
    "ExtractJsonStringPath (GetLastVerifyReport sync chain_debug r) [''certificate'', ''status''] = Some (fst (CertificateCheck r))"
    "ExtractJsonStringPath (GetLastVerifyReport sync chain_debug r) [''trust'', ''status''] = Some (fst (TrustCheck r))"
  unfolding technical_text [OF assms(1)] extract_text(1) [OF technical_depth list.distinct(2)]
  by (simp_all add: technical_document_def summary_members_def trust_members_def certificate_members_def revocation_members_def
      check_members_def)

end
