(* ===== verification/Cli_Exit.thy ===== *)
theory Cli_Exit
  imports Report_Document
begin

text \<open>
  The exit codes of the command line tool: \<open>cli/CliExitCodes.h\<close> chooses the code of a failed operation
  from the error and from facts read back out of the technical report, \<open>cli/CliEvidence.h\<close> decides
  what the failure to write a requested report means.
\<close>

section \<open>Failed signing\<close>

definition kMissingCertificateMessagePrefix :: string where
  "kMissingCertificateMessagePrefix = string_of_bytes
     [0xD0, 0x9D, 0xD0, 0xB5, 0x20, 0xD0, 0xB7, 0xD0, 0xBD, 0xD0, 0xB0, 0xD0, 0xB9, 0xD0, 0xB4, 0xD0, 0xB5, 0xD0, 0xBD, 0xD0,
      0xBE, 0x20, 0xD0, 0xB2, 0xD1, 0x96, 0xD0, 0xB4, 0xD0, 0xBA, 0xD1, 0x80, 0xD0, 0xB8, 0xD1, 0x82, 0xD0, 0xB8, 0xD0, 0xB9,
      0x20, 0xD1, 0x81, 0xD0, 0xB5, 0xD1, 0x80, 0xD1, 0x82, 0xD0, 0xB8, 0xD1, 0x84, 0xD1, 0x96, 0xD0, 0xBA, 0xD0, 0xB0, 0xD1,
      0x82, 0x20, 0xD0, 0xB4, 0xD0, 0xBB, 0xD1, 0x8F, 0x20, 0xD0, 0xB7, 0xD0, 0xB0, 0xD0, 0xBA, 0xD1, 0x80, 0xD0, 0xB8, 0xD1,
      0x82, 0xD0, 0xBE, 0xD0, 0xB3, 0xD0, 0xBE, 0x20, 0xD0, 0xBA, 0xD0, 0xBB, 0xD1, 0x8E, 0xD1, 0x87, 0xD0, 0xB0]"

definition SignFailureExitCode :: "ErrorCode \<Rightarrow> string \<Rightarrow> int" where
  "SignFailureExitCode err message =
     (let missing_certificate = str_contains kMissingCertificateMessagePrefix message
      in if err = Err_KeyNotLoaded \<or> missing_certificate then 2
         else if err = Err_OnlineServiceUnavailable then 3
         else 1)"

section \<open>Failed verification\<close>

record VerifyReportFacts =
  vf_signature_valid :: "bool option"
  vf_container_coverage_complete :: "bool option"
  vf_certificate_time_valid :: "bool option"
  vf_trust_valid :: "bool option"
  vf_timestamp_valid :: "bool option"
  vf_revocation_status :: string
  vf_summary_status :: string
  vf_certificate_status :: string
  vf_trust_status :: string

definition ReadVerifyReportFacts :: "string \<Rightarrow> VerifyReportFacts" where
  "ReadVerifyReportFacts report_json =
     (let flag = (\<lambda>name. ExtractJsonBoolPath report_json [''diagnostics'', ''flags'', name]);
          field = (\<lambda>section name. case ExtractJsonStringPath report_json [section, name] of Some v \<Rightarrow> v | None \<Rightarrow> [])
      in \<lparr>vf_signature_valid = flag ''signatureValid'', vf_container_coverage_complete = flag ''containerCoverageComplete'',
          vf_certificate_time_valid = flag ''certificateTimeValid'', vf_trust_valid = flag ''trustValid'',
          vf_timestamp_valid = flag ''timestampValid'', vf_revocation_status = field ''revocation'' ''revocationStatus'',
          vf_summary_status = field ''summary'' ''status'', vf_certificate_status = field ''certificate'' ''status'',
          vf_trust_status = field ''trust'' ''status''\<rparr>)"

definition IsExplicitlyFalse :: "bool option \<Rightarrow> bool" where
  "IsExplicitlyFalse v \<longleftrightarrow> v = Some False"

definition section_status_is :: "VerifyReportFacts \<Rightarrow> string \<Rightarrow> bool" where
  "section_status_is facts expected \<longleftrightarrow>
     vf_summary_status facts = expected \<or> vf_certificate_status facts = expected \<or> vf_trust_status facts = expected"

definition VerificationFailureExitCode :: "ErrorCode \<Rightarrow> VerifyReportFacts \<Rightarrow> int" where
  "VerificationFailureExitCode err facts =
     (if err = Err_KeyNotLoaded then 2
      else if err = Err_OnlineServiceUnavailable then 3
      else if err = Err_RevocationCheckFailed then 6
      else if IsExplicitlyFalse (vf_signature_valid facts) then 4
      else if IsExplicitlyFalse (vf_container_coverage_complete facts) then 4
      else if IsExplicitlyFalse (vf_certificate_time_valid facts) then 5
      else if section_status_is facts ''certificate-expired'' then 5
      else if vf_revocation_status facts = ''revoked'' \<or> section_status_is facts ''certificate-revoked'' then 6
      else 7)"

section \<open>The requested report\<close>

definition kEvidenceIoExitCode :: int where
  "kEvidenceIoExitCode = 1"

datatype EvidenceOutcome = Evidence_NotRequested | Evidence_Written | Evidence_ReportUnavailable | Evidence_WriteFailed

definition EvidenceOutcomeIsFailure :: "EvidenceOutcome \<Rightarrow> bool" where
  "EvidenceOutcomeIsFailure outcome \<longleftrightarrow> outcome = Evidence_ReportUnavailable \<or> outcome = Evidence_WriteFailed"

definition ApplyEvidenceOutcome :: "EvidenceOutcome \<Rightarrow> int \<Rightarrow> int" where
  "ApplyEvidenceOutcome outcome verdict_exit_code =
     (if EvidenceOutcomeIsFailure outcome then kEvidenceIoExitCode else verdict_exit_code)"

definition WriteEvidence :: "string \<Rightarrow> string option \<Rightarrow> (string \<Rightarrow> string \<Rightarrow> 'fs \<Rightarrow> bool \<times> 'fs) \<Rightarrow> 'fs \<Rightarrow> EvidenceOutcome \<times> 'fs" where
  "WriteEvidence path get_report write fs =
     (if path = [] then (Evidence_NotRequested, fs)
      else case get_report of
        None \<Rightarrow> (Evidence_ReportUnavailable, fs)
      | Some report \<Rightarrow>
          (case write path report fs of
             (False, fs) \<Rightarrow> (Evidence_WriteFailed, fs)
           | (True, fs) \<Rightarrow> (Evidence_Written, fs)))"

section \<open>The code is a function of the report\<close>

text \<open>The table of the manual, on the report itself.\<close>

definition documented_exit_code :: "ErrorCode \<Rightarrow> VerifyReport \<Rightarrow> int" where
  "documented_exit_code err r =
     (if err = Err_KeyNotLoaded then 2
      else if err = Err_OnlineServiceUnavailable then 3
      else if err = Err_RevocationCheckFailed then 6
      else if \<not> vr_signature_valid r \<or> \<not> vr_container_coverage_complete r then 4
      else if \<not> vr_certificate_time_valid r then 5
      else if vr_revocation_status r = ''revoked'' then 6
      else 7)"

lemma check_statuses:
  "fst (SummaryCheck r) \<in> {''valid'', ''invalid'', ''warning'', ''unavailable'', ''skipped''}"
  "fst (CertificateCheck r) \<in> {''valid'', ''invalid'', ''warning'', ''unavailable'', ''skipped''}"
  "fst (TrustCheck r) \<in> {''valid'', ''invalid'', ''warning'', ''unavailable'', ''skipped''}"
  by (simp_all add: SummaryCheck_def CertificateCheck_def TrustCheck_def Let_def)

lemma facts_of_report:
  assumes "plain (vr_validation_time_source r)"
  shows "ReadVerifyReportFacts (GetLastVerifyReport sync chain_debug r) =
    \<lparr>vf_signature_valid = Some (vr_signature_valid r), vf_container_coverage_complete = Some (vr_container_coverage_complete r),
     vf_certificate_time_valid = Some (vr_certificate_time_valid r), vf_trust_valid = Some (vr_trust_valid r),
     vf_timestamp_valid = Some (vr_timestamp_valid r), vf_revocation_status = vr_revocation_status r,
     vf_summary_status = fst (SummaryCheck r), vf_certificate_status = fst (CertificateCheck r), vf_trust_status = fst (TrustCheck r)\<rparr>"
  unfolding ReadVerifyReportFacts_def Let_def technical_status [OF assms]
  by (simp add: technical_flag [OF assms] technical_flags_def flag_members_def)

lemma section_status_never:
  assumes "plain (vr_validation_time_source r)" "expected \<notin> {''valid'', ''invalid'', ''warning'', ''unavailable'', ''skipped''}"
  shows "\<not> section_status_is (ReadVerifyReportFacts (GetLastVerifyReport sync chain_debug r)) expected"
  using assms(2) check_statuses [of r] unfolding facts_of_report [OF assms(1)] section_status_is_def by auto

text \<open>
  C19. The exit code of a failed verification, computed from facts that are parsed out of the text of
  the technical report, is the documented function of the report: the parser never confuses
  sections or misses a fact, whatever texts the report has. The statuses the code also compares
  with, \<open>certificate-expired\<close> and \<open>certificate-revoked\<close>, never occur in the fields it reads.
\<close>

theorem exit_code_of_report:
  assumes "plain (vr_validation_time_source r)"
  shows "VerificationFailureExitCode err (ReadVerifyReportFacts (GetLastVerifyReport sync chain_debug r)) = documented_exit_code err r"
proof -
  let ?facts = "ReadVerifyReportFacts (GetLastVerifyReport sync chain_debug r)"
  have "\<not> section_status_is ?facts ''certificate-expired''" "\<not> section_status_is ?facts ''certificate-revoked''"
    using section_status_never [OF assms] by simp_all
  moreover have "vf_signature_valid ?facts = Some (vr_signature_valid r)"
    "vf_container_coverage_complete ?facts = Some (vr_container_coverage_complete r)"
    "vf_certificate_time_valid ?facts = Some (vr_certificate_time_valid r)" "vf_revocation_status ?facts = vr_revocation_status r"
    by (simp_all add: facts_of_report [OF assms])
  ultimately show ?thesis by (simp add: VerificationFailureExitCode_def documented_exit_code_def IsExplicitlyFalse_def)
qed

theorem exit_code_of_report_witness:
  "VerificationFailureExitCode Err_None (ReadVerifyReportFacts (GetLastVerifyReport sample_sync [CHR 0x22]
     (sample_good_report\<lparr>vr_certificate_time_valid := True, vr_revocation_status := ''revoked'', vr_message := [CHR 0x22, CHR 0x5C]\<rparr>))) = 6"
  using exit_code_of_report [of "sample_good_report\<lparr>vr_certificate_time_valid := True, vr_revocation_status := ''revoked'', vr_message := [CHR 0x22, CHR 0x5C]\<rparr>" Err_None sample_sync "[CHR 0x22]"]
  by (simp add: documented_exit_code_def sample_good_report_def default_report_def)

end
