(* ===== verification/Session_Sign.thy ===== *)
theory Session_Sign
  imports Session_Keys
begin

text \<open>
  The signing operations of \<open>core/session/SessionCryptoOps.ipp\<close> and the choice of a timestamp service
  (\<open>core/session/SessionCertificateOps.ipp\<close>, \<open>core/session/SessionHelpers.ipp\<close>). Making a CMS signature,
  reading and extending it, asking the service and the policy cache are the record \<open>sign_lib\<close>, writing
  files is \<open>file_ops\<close>. Traces written for debugging are left out.
\<close>

datatype TimestampMode = Timestamp_BestEffort | Timestamp_Disabled | Timestamp_Required

record 'fs sign_lib =
  SignDetached :: "bool \<Rightarrow> bytes \<Rightarrow> bytes \<Rightarrow> string \<Rightarrow> bytes \<Rightarrow> string + bytes"
  SignAttached :: "bool \<Rightarrow> bytes \<Rightarrow> bytes \<Rightarrow> string \<Rightarrow> bytes \<Rightarrow> string + bytes"
  GetSignatureValue :: "bytes \<Rightarrow> string + bytes"
  GetSignerDigestAlgorithmOid :: "bytes \<Rightarrow> string option"
  GetTimestamp :: "bytes \<Rightarrow> string \<Rightarrow> string \<Rightarrow> int \<Rightarrow> string \<Rightarrow> string + bytes"
  AppendTspToken :: "bytes \<Rightarrow> bytes \<Rightarrow> string + bytes"
  ResolveGrantedTspUrl :: "'fs \<Rightarrow> string \<Rightarrow> string"
  FormatIssuer :: "bytes \<Rightarrow> string"
  sg_digests :: digest_lib

record 'fs file_ops =
  file_exists :: "'fs \<Rightarrow> string \<Rightarrow> bool"
  WriteBinaryFileAtomic :: "string \<Rightarrow> bytes \<Rightarrow> 'fs \<Rightarrow> bool \<times> 'fs"
  truncate_file :: "string \<Rightarrow> 'fs \<Rightarrow> 'fs"

section \<open>The timestamp service\<close>

definition ResolveDefaultTspUrlFromTrustList :: "'fs sign_lib \<Rightarrow> 'fs \<Rightarrow> string \<Rightarrow> string" where
  "ResolveDefaultTspUrlFromTrustList G fs work_dir = (if work_dir = [] then [] else ResolveGrantedTspUrl G fs work_dir)"

text \<open>Parts of the issuer's name, in the source as UTF-8, and the address used when one of them occurs.\<close>

definition issuer_table :: "(string list \<times> string) list" where
  "issuer_table =
     [([string_of_bytes [0xD0, 0x9F, 0xD0, 0xA0, 0xD0, 0x98, 0xD0, 0x92, 0xD0, 0x90, 0xD0, 0xA2, 0xD0, 0x91, 0xD0, 0x90, 0xD0, 0x9D, 0xD0, 0x9A], ''PRIVATBANK''],
       ''https://acsk.privatbank.ua/services/tsp/''),
      ([string_of_bytes [0xD0, 0x94, 0xD1, 0x96, 0xD1, 0x8F], ''DIIA'', string_of_bytes [0xD1, 0x8E, 0xD1, 0x81, 0xD1, 0x82, 0xD0, 0xB8, 0xD1, 0x86, 0xD1, 0x96, 0xD1, 0x97]],
       ''http://ca.informjust.ua/services/tsp/''),
      ([string_of_bytes [0xD0, 0x94, 0xD0, 0x9F, 0xD0, 0xA1], ''TAX'', string_of_bytes [0xD0, 0x86, 0xD0, 0x94, 0xD0, 0x94]],
       ''http://ca.tax.gov.ua/services/tsp/''),
      ([string_of_bytes [0xD0, 0x9E, 0xD1, 0x89, 0xD0, 0xB0, 0xD0, 0xB4, 0xD0, 0xB1, 0xD0, 0xB0, 0xD0, 0xBD, 0xD0, 0xBA], ''Oschadbank''],
       ''http://ca.oschadbank.ua/public/tsp''),
      ([string_of_bytes [0xD0, 0x9A, 0xD0, 0xB0, 0xD0, 0xB7, 0xD0, 0xBD, 0xD0, 0xB0, 0xD1, 0x87, 0xD0, 0xB5, 0xD0, 0xB9, 0xD1, 0x81, 0xD1, 0x82, 0xD0, 0xB2], ''treasury''],
       ''http://ca.treasury.gov.ua:43221''),
      ([string_of_bytes [0xD0, 0x92, 0xD1, 0x87, 0xD0, 0xB0, 0xD1, 0x81, 0xD0, 0xBD, 0xD0, 0xBE], ''Vchasno''],
       ''http://ca.vchasno.ua/services/tsp/dstu/''),
      ([string_of_bytes [0xD0, 0x94, 0xD0, 0x95, 0xD0, 0x9F, 0xD0, 0x9E, 0xD0, 0x97, 0xD0, 0x98, 0xD0, 0xA2, 0x20, 0xD0, 0xA1, 0xD0, 0x90, 0xD0, 0x99, 0xD0, 0x9D], ''DEPOSIT SIGN''],
       ''http://ca.depositsign.com/services/tsp/dstu/''),
      ([string_of_bytes [0xD0, 0xA3, 0xD0, 0xBA, 0xD1, 0x80, 0xD0, 0xB0, 0xD1, 0x97, 0xD0, 0xBD, 0xD0, 0xB0], ''uakey''],
       ''http://uakey.com.ua/services/tsp/''),
      ([''monobank''],
       ''https://ca.monobank.ua/services/tsp/dstu/''),
      ([''MASTERKEY'', string_of_bytes [0xD0, 0x90, 0xD0, 0xA0, 0xD0, 0xA2, 0x2D, 0xD0, 0x9C, 0xD0, 0x90, 0xD0, 0xA1, 0xD0, 0xA2, 0xD0, 0x95, 0xD0, 0xA0], string_of_bytes [0xD0, 0x90, 0xD1, 0x80, 0xD1, 0x82, 0x2D, 0xD0, 0xBC, 0xD0, 0xB0, 0xD1, 0x81, 0xD1, 0x82, 0xD0, 0xB5, 0xD1, 0x80]],
       ''http://masterkey.ua/services/tsp/''),
      ([string_of_bytes [0xD0, 0xA3, 0xD0, 0xBA, 0xD1, 0x80, 0xD0, 0xB7, 0xD0, 0xB0, 0xD0, 0xBB, 0xD1, 0x96, 0xD0, 0xB7, 0xD0, 0xBD, 0xD0, 0xB8, 0xD1, 0x86, 0xD1, 0x96]],
       ''http://csk.uz.gov.ua/services/tsp/'')]"

definition ResolveDefaultTspUrlFromIssuerTable :: "'fs sign_lib \<Rightarrow> bytes \<Rightarrow> string" where
  "ResolveDefaultTspUrlFromIssuerTable G certificate =
     (if certificate = [] then []
      else
        let issuer_dn = FormatIssuer G certificate
        in if issuer_dn = [] then []
           else case find (\<lambda>(names, url). list_ex (\<lambda>name. str_contains name issuer_dn) names) issuer_table of
             None \<Rightarrow> []
           | Some (names, url) \<Rightarrow> url)"

definition ResolveDefaultTspUrlCombined :: "'fs sign_lib \<Rightarrow> 'fs \<Rightarrow> bytes \<Rightarrow> string \<Rightarrow> string" where
  "ResolveDefaultTspUrlCombined G fs certificate work_dir =
     (let tsp_url = ResolveDefaultTspUrlFromTrustList G fs work_dir
      in if tsp_url \<noteq> [] then tsp_url else ResolveDefaultTspUrlFromIssuerTable G certificate)"

definition ResolveDefaultTspUrl :: "'fs sign_lib \<Rightarrow> session \<Rightarrow> 'fs \<Rightarrow> string" where
  "ResolveDefaultTspUrl G s fs = ResolveDefaultTspUrlCombined G fs (loaded_certificate s) (cfg_work_dir (settings s))"

definition ResolveTspImprint :: "'fs sign_lib \<Rightarrow> TspSettings \<Rightarrow> bytes \<Rightarrow> bytes \<Rightarrow> string + ImprintResult" where
  "ResolveTspImprint G tsp data_to_stamp cms_for_detect =
     (if tsp_imprint_digest_oid tsp \<noteq> [] \<and> tsp_imprint_digest_oid tsp \<noteq> ''auto'' then
        (case ImprintFromDigestOid (tsp_imprint_digest_oid tsp) of
           Some alg \<Rightarrow> ComputeImprint (sg_digests G) alg data_to_stamp
         | None \<Rightarrow> Inl (''ResolveTspImprint: configured imprint digest OID '' @ [CHR 0x27] @ tsp_imprint_digest_oid tsp @ [CHR 0x27] @ '' is unsupported''))
      else
        let resolved_alg =
          (if cms_for_detect \<noteq> [] then
             (case GetSignerDigestAlgorithmOid G cms_for_detect of
                Some oid \<Rightarrow> (case ImprintFromDigestOid oid of Some alg \<Rightarrow> alg | None \<Rightarrow> Imprint_Kupyna256)
              | None \<Rightarrow> Imprint_Kupyna256)
           else Imprint_Kupyna256)
        in ComputeImprint (sg_digests G) resolved_alg data_to_stamp)"

section \<open>Signing\<close>

text \<open>The part after the signature is made, the same in \<open>SignData\<close> and \<open>SignDataInternal\<close>.\<close>

definition stamp_signature ::
    "'fs sign_lib \<Rightarrow> bytes \<Rightarrow> TimestampMode \<Rightarrow> session \<Rightarrow> 'fs \<Rightarrow> bool \<times> bytes \<times> session" where
  "stamp_signature G signature mode s fs =
     (if mode = Timestamp_Disabled then (True, signature, ClearError s)
      else
        let tsp = tsp_settings s;
            offline_mode = cfg_offline_mode (settings s);
            tsp_url' = (if tsp_url tsp = [] then ResolveDefaultTspUrlCombined G fs (loaded_certificate s) (cfg_work_dir (settings s))
              else tsp_url tsp);
            s = (if tsp_url' \<noteq> [] \<and> tsp_url tsp = [] \<and> \<not> offline_mode then s\<lparr>tsp_settings := tsp\<lparr>tsp_url := tsp_url'\<rparr>\<rparr> else s);
            unavailable = (\<lambda>message. if mode = Timestamp_Required
              then (False, [], SetError Err_OnlineServiceUnavailable message s)
              else (True, signature, ClearError (SetError Err_OnlineServiceUnavailable message s)))
        in if tsp_url' \<noteq> [] \<and> \<not> offline_mode then
             (case GetSignatureValue G signature of
                Inl err \<Rightarrow> unavailable (''TSP: GetSignatureValue failed: '' @ err)
              | Inr sig_val \<Rightarrow>
                  (case ResolveTspImprint G tsp sig_val signature of
                     Inl imprint_err \<Rightarrow> unavailable (''TSP: ResolveTspImprint failed: '' @ imprint_err)
                   | Inr imprint \<Rightarrow>
                       (case GetTimestamp G (ir_hash imprint) (ir_digest_oid imprint) tsp_url' (tsp_timeout_ms tsp) (tsp_policy_oid tsp) of
                          Inl tsp_err \<Rightarrow> unavailable (''TSP ['' @ tsp_url' @ '']: '' @ tsp_err)
                        | Inr tsp_token \<Rightarrow>
                            (case AppendTspToken G signature tsp_token of
                               Inr cms_with_tsp \<Rightarrow> (True, cms_with_tsp, ClearError s)
                             | Inl err \<Rightarrow> unavailable (''TSP ['' @ tsp_url' @ '']: AppendTspToken failed: '' @ err)))))
           else if mode = Timestamp_Required then
             (False, [], SetError Err_OnlineServiceUnavailable
                (if offline_mode then ''TSP unavailable in offline mode'' else ''TSP URL is not configured'') s)
           else (True, signature, ClearError s))"

definition sign_with ::
    "(bool \<Rightarrow> bytes \<Rightarrow> bytes \<Rightarrow> string \<Rightarrow> bytes \<Rightarrow> string + bytes) \<Rightarrow> 'fs sign_lib \<Rightarrow> bytes \<Rightarrow> TimestampMode \<Rightarrow> session \<Rightarrow> 'fs
     \<Rightarrow> bool \<times> bytes \<times> session" where
  "sign_with sign G data mode s fs =
     (if \<not> is_initialized s then (False, [], SetError Err_NotInitialized (ErrorCode_ToString Err_NotInitialized) s)
      else if \<not> is_private_key_loaded s then (False, [], SetError Err_KeyNotLoaded (ErrorCode_ToString Err_KeyNotLoaded) s)
      else case sign (loaded_key_format s = Key_Pkcs12) (loaded_key_material s) (loaded_certificate s) (loaded_key_password s) data of
        Inl error_message \<Rightarrow> (False, [], SetError Err_InternalError error_message s)
      | Inr signature \<Rightarrow> stamp_signature G signature mode s fs)"

definition SignData :: "'fs sign_lib \<Rightarrow> bytes \<Rightarrow> TimestampMode \<Rightarrow> session \<Rightarrow> 'fs \<Rightarrow> bool \<times> bytes \<times> session" where
  "SignData G = sign_with (SignDetached G) G"

definition SignDataInternal :: "'fs sign_lib \<Rightarrow> bytes \<Rightarrow> TimestampMode \<Rightarrow> session \<Rightarrow> 'fs \<Rightarrow> bool \<times> bytes \<times> session" where
  "SignDataInternal G = sign_with (SignAttached G) G"

definition SignDataBase64 :: "'fs sign_lib \<Rightarrow> bytes \<Rightarrow> session \<Rightarrow> 'fs \<Rightarrow> bool \<times> string option \<times> session" where
  "SignDataBase64 G data s fs =
     (case SignData G data Timestamp_BestEffort s fs of
        (ok, signature, s) \<Rightarrow> if \<not> ok then (False, None, s) else (True, Some (Base64Encode signature), ClearError s))"

definition SignDataInternalBase64 :: "'fs sign_lib \<Rightarrow> bytes \<Rightarrow> session \<Rightarrow> 'fs \<Rightarrow> bool \<times> string option \<times> session" where
  "SignDataInternalBase64 G data s fs =
     (case SignDataInternal G data Timestamp_BestEffort s fs of
        (ok, signed_data, s) \<Rightarrow> if \<not> ok then (False, None, s) else (True, Some (Base64Encode signed_data), ClearError s))"

definition SignFile ::
    "'fs verify_lib \<Rightarrow> 'fs sign_lib \<Rightarrow> string \<Rightarrow> TimestampMode \<Rightarrow> session \<Rightarrow> 'fs \<Rightarrow> bool \<times> bytes \<times> session" where
  "SignFile L G path mode s fs =
     (case ReadBinaryFile L fs (ResolveFilePath L path (file_store_settings s)) ''input file for signing'' of
        Inl error_message \<Rightarrow> (False, [], SetError Err_InvalidArgument error_message s)
      | Inr data \<Rightarrow>
          if data = [] then (False, [], SetError Err_InvalidArgument ''Input file is empty'' s)
          else case SignData G data mode s fs of
            (ok, signature, s) \<Rightarrow> if \<not> ok then (False, [], s) else (True, signature, s))"

definition RawSignFile ::
    "'fs verify_lib \<Rightarrow> 'fs sign_lib \<Rightarrow> 'fs file_ops \<Rightarrow> string \<Rightarrow> string \<Rightarrow> TimestampMode \<Rightarrow> session \<Rightarrow> 'fs \<Rightarrow> bool \<times> session \<times> 'fs" where
  "RawSignFile L G W input_path signature_path mode s fs =
     (let fs_sig_path = ResolveFilePath L signature_path (file_store_settings s);
          signature_file_exists = file_exists W fs fs_sig_path
      in if \<not> fss_allow_overwrite (file_store_settings s) \<and> signature_file_exists
         then (False, SetError Err_InvalidArgument ''Signature output file already exists'' s, fs)
         else case SignFile L G input_path mode s fs of
           (False, _, s) \<Rightarrow>
             (False, s, if mode = Timestamp_Required \<and> signature_file_exists then truncate_file W fs_sig_path fs else fs)
         | (True, signature, s) \<Rightarrow>
             (case WriteBinaryFileAtomic W fs_sig_path signature fs of
                (False, fs) \<Rightarrow> (False, SetError Err_InternalError ''Unable to write signature output file'' s, fs)
              | (True, fs) \<Rightarrow> (True, ClearError s, fs)))"

definition ShowCertificates :: "session \<Rightarrow> bool \<times> session" where
  "ShowCertificates s = (False, SetError Err_GuiNotAvailable (ErrorCode_ToString Err_GuiNotAvailable) s)"

definition ShowCRLs :: "session \<Rightarrow> bool \<times> session" where
  "ShowCRLs s = (False, SetError Err_GuiNotAvailable (ErrorCode_ToString Err_GuiNotAvailable) s)"

section \<open>What signing promises\<close>

text \<open>
  The signature the caller may expect, as one expression: the digest of the imprint is the configured
  one or that of the signature, the token answers a request for the digest of the signature value.
\<close>

definition or_default :: "'a \<Rightarrow> 'a option \<Rightarrow> 'a" where
  "or_default x v = (case v of None \<Rightarrow> x | Some y \<Rightarrow> y)"

definition imprint_algorithm :: "'fs sign_lib \<Rightarrow> TspSettings \<Rightarrow> bytes \<Rightarrow> ImprintDigest option" where
  "imprint_algorithm G tsp signature =
     (if tsp_imprint_digest_oid tsp \<in> {[], ''auto''}
      then Some (or_default Imprint_Kupyna256
        (if signature = [] then None else Option.bind (GetSignerDigestAlgorithmOid G signature) ImprintFromDigestOid))
      else ImprintFromDigestOid (tsp_imprint_digest_oid tsp))"

definition right :: "'e + 'a \<Rightarrow> 'a option" where
  "right r = (case r of Inl _ \<Rightarrow> None | Inr v \<Rightarrow> Some v)"

definition stamped :: "'fs sign_lib \<Rightarrow> TspSettings \<Rightarrow> string \<Rightarrow> bytes \<Rightarrow> bytes option" where
  "stamped G tsp url signature =
     Option.bind (right (GetSignatureValue G signature)) (\<lambda>sig_val.
     Option.bind (imprint_algorithm G tsp signature) (\<lambda>alg.
     Option.bind (digest_of (sg_digests G) alg sig_val) (\<lambda>hash.
     Option.bind (right (GetTimestamp G hash (ImprintDigestOid alg) url (tsp_timeout_ms tsp) (tsp_policy_oid tsp))) (\<lambda>token.
       right (AppendTspToken G signature token)))))"

definition service_url :: "'fs sign_lib \<Rightarrow> session \<Rightarrow> 'fs \<Rightarrow> string" where
  "service_url G s fs = (if tsp_url (tsp_settings s) = [] then ResolveDefaultTspUrl G s fs else tsp_url (tsp_settings s))"

definition expected_signature ::
    "(bool \<Rightarrow> bytes \<Rightarrow> bytes \<Rightarrow> string \<Rightarrow> bytes \<Rightarrow> string + bytes) \<Rightarrow> 'fs sign_lib \<Rightarrow> bytes \<Rightarrow> TimestampMode \<Rightarrow> session \<Rightarrow> 'fs
     \<Rightarrow> bytes option" where
  "expected_signature sign G data mode s fs =
     (if \<not> is_initialized s \<or> \<not> is_private_key_loaded s then None
      else
        Option.bind (right (sign (loaded_key_format s = Key_Pkcs12) (loaded_key_material s) (loaded_certificate s) (loaded_key_password s) data))
          (\<lambda>signature.
             let stamp = (if cfg_offline_mode (settings s) \<or> service_url G s fs = [] then None
                          else stamped G (tsp_settings s) (service_url G s fs) signature)
             in case mode of
                  Timestamp_Disabled \<Rightarrow> Some signature
                | Timestamp_BestEffort \<Rightarrow> Some (or_default signature stamp)
                | Timestamp_Required \<Rightarrow> stamp))"

definition signing_frame :: "session \<Rightarrow> session \<Rightarrow> bool" where
  "signing_frame s s' \<longleftrightarrow> (\<exists>url. s' = s\<lparr>last_error := last_error s', tsp_settings := (tsp_settings s)\<lparr>tsp_url := url\<rparr>\<rparr>)"

definition signing_outcome :: "bytes option \<Rightarrow> session \<Rightarrow> bool \<times> bytes \<times> session \<Rightarrow> bool" where
  "signing_outcome expected s r \<longleftrightarrow>
     (case r of (ok, signature, s') \<Rightarrow>
        (case expected of None \<Rightarrow> \<not> ok \<and> signature = [] \<and> le_code (last_error s') \<noteq> Err_None
         | Some cms \<Rightarrow> ok \<and> signature = cms \<and> le_code (last_error s') = Err_None)
        \<and> signing_frame s s')"

lemma ResolveTspImprint_cases:
  "ResolveTspImprint G tsp sig_val signature =
     (case imprint_algorithm G tsp signature of
        None \<Rightarrow> Inl (''ResolveTspImprint: configured imprint digest OID '' @ [CHR 0x27] @ tsp_imprint_digest_oid tsp @ [CHR 0x27] @ '' is unsupported'')
      | Some alg \<Rightarrow> ComputeImprint (sg_digests G) alg sig_val)"
  by (simp add: ResolveTspImprint_def imprint_algorithm_def or_default_def split: option.split bind_split)

lemma imprint_right:
  "right (ResolveTspImprint G tsp sig_val signature) =
     Option.bind (imprint_algorithm G tsp signature) (\<lambda>alg. map_option (\<lambda>hash. \<lparr>ir_digest_oid = ImprintDigestOid alg, ir_hash = hash\<rparr>)
       (digest_of (sg_digests G) alg sig_val))"
proof (cases "imprint_algorithm G tsp signature")
  case (Some alg)
  show ?thesis
  proof (cases "ComputeImprint (sg_digests G) alg sig_val")
    case (Inr imprint)
    then show ?thesis using Some ComputeImprint_Inr [of "sg_digests G" alg sig_val imprint]
      by (cases imprint) (simp add: ResolveTspImprint_cases right_def)
  next
    case (Inl e)
    have "digest_of (sg_digests G) alg sig_val = None"
    proof (cases "digest_of (sg_digests G) alg sig_val")
      case (Some hash)
      then have "ComputeImprint (sg_digests G) alg sig_val = Inr \<lparr>ir_digest_oid = ImprintDigestOid alg, ir_hash = hash\<rparr>"
        by (simp add: ComputeImprint_Inr)
      then show ?thesis using Inl by simp
    qed
    then show ?thesis using Some Inl by (simp add: ResolveTspImprint_cases right_def)
  qed
qed (simp add: ResolveTspImprint_cases right_def)

lemma error_fields [simp]:
  "le_code (last_error (SetError err m s)) = err" "le_code (last_error (ClearError s)) = Err_None"
  by (simp_all add: SetError_def ClearError_def)

lemma frame_simps [simp]:
  "signing_frame s (SetError err m s)" "signing_frame s (ClearError s)" "signing_frame s (ClearError (SetError err m s))"
  "signing_frame s (SetError err m (s\<lparr>tsp_settings := (tsp_settings s)\<lparr>tsp_url := url\<rparr>\<rparr>))"
  "signing_frame s (ClearError (s\<lparr>tsp_settings := (tsp_settings s)\<lparr>tsp_url := url\<rparr>\<rparr>))"
  "signing_frame s (ClearError (SetError err m (s\<lparr>tsp_settings := (tsp_settings s)\<lparr>tsp_url := url\<rparr>\<rparr>)))"
  unfolding signing_frame_def
  by (rule exI [of _ "tsp_url (tsp_settings s)"] exI [of _ url], simp add: SetError_def ClearError_def)+

lemma stamped_cases:
  "stamped G tsp url signature =
     (case GetSignatureValue G signature of Inl _ \<Rightarrow> None
      | Inr sig_val \<Rightarrow>
          (case ResolveTspImprint G tsp sig_val signature of Inl _ \<Rightarrow> None
           | Inr imprint \<Rightarrow>
               (case GetTimestamp G (ir_hash imprint) (ir_digest_oid imprint) url (tsp_timeout_ms tsp) (tsp_policy_oid tsp) of
                  Inl _ \<Rightarrow> None | Inr token \<Rightarrow> right (AppendTspToken G signature token))))"
proof (cases "GetSignatureValue G signature")
  case (Inr sig_val)
  show ?thesis
    using imprint_right [of G tsp sig_val signature] Inr
    by (cases "imprint_algorithm G tsp signature"; cases "digest_of (sg_digests G) (the (imprint_algorithm G tsp signature)) sig_val")
      (auto simp: stamped_def right_def split: sum.splits)
qed (simp add: stamped_def right_def)

lemma stamp_signature_outcome:
  "signing_outcome
     (let stamp = (if cfg_offline_mode (settings s) \<or> service_url G s fs = [] then None
                   else stamped G (tsp_settings s) (service_url G s fs) signature)
      in case mode of Timestamp_Disabled \<Rightarrow> Some signature | Timestamp_BestEffort \<Rightarrow> Some (or_default signature stamp)
         | Timestamp_Required \<Rightarrow> stamp)
     s (stamp_signature G signature mode s fs)"
proof (cases mode)
  case Timestamp_Disabled
  then show ?thesis by (simp add: stamp_signature_def signing_outcome_def)
next
  case Timestamp_BestEffort
  then show ?thesis
    by (simp add: stamp_signature_def signing_outcome_def stamped_cases service_url_def ResolveDefaultTspUrl_def or_default_def right_def Let_def
        split: sum.split)
next
  case Timestamp_Required
  then show ?thesis
    by (simp add: stamp_signature_def signing_outcome_def stamped_cases service_url_def ResolveDefaultTspUrl_def or_default_def right_def Let_def
        split: sum.split)
qed

lemma sign_with_outcome: "signing_outcome (expected_signature sign G data mode s fs) s (sign_with sign G data mode s fs)"
proof (cases "sign (loaded_key_format s = Key_Pkcs12) (loaded_key_material s) (loaded_certificate s) (loaded_key_password s) data")
  case (Inr signature)
  then show ?thesis
    using stamp_signature_outcome [of s G fs signature mode] unfolding expected_signature_def sign_with_def
    by (simp add: right_def signing_outcome_def)
qed (simp add: expected_signature_def sign_with_def right_def signing_outcome_def)

text \<open>
  C32. Both signing operations give exactly the expected signature: with a timestamp required, success
  means that a token for the digest of this signature's value was obtained and added, and otherwise
  nothing is returned and an error is set; without a timestamp, or where one could not be had and was
  not required, the plain signature is returned with no error left. Of the session only the error
  and the address of the timestamp service change.
\<close>

theorem signing_refines_expected:
  "signing_outcome (expected_signature (SignDetached G) G data mode s fs) s (SignData G data mode s fs)
   \<and> signing_outcome (expected_signature (SignAttached G) G data mode s fs) s (SignDataInternal G data mode s fs)"
  by (simp add: SignData_def SignDataInternal_def sign_with_outcome)

text \<open>An address that was looked up stays in the settings: the next signature uses it, whatever the trust list or the key then are.\<close>

lemma service_url_kept:
  assumes "is_initialized s" "is_private_key_loaded s" "mode \<noteq> Timestamp_Disabled" "\<not> cfg_offline_mode (settings s)"
    "ResolveDefaultTspUrl G s fs \<noteq> []" "tsp_url (tsp_settings s) = []"
    "SignDetached G (loaded_key_format s = Key_Pkcs12) (loaded_key_material s) (loaded_certificate s) (loaded_key_password s) data = Inr signature"
    "SignData G data mode s fs = (ok, out, s')"
  shows "service_url G (s'\<lparr>loaded_certificate := other\<rparr>) fs' = ResolveDefaultTspUrl G s fs"
  using assms unfolding SignData_def sign_with_def stamp_signature_def ResolveDefaultTspUrl_def Let_def
  by (auto simp: service_url_def ResolveDefaultTspUrl_def SetError_def ClearError_def split: sum.splits if_splits)

end
