(* ===== verification/Session_Verdict.thy ===== *)
theory Session_Verdict
  imports Session_Verify
begin

text \<open>
  What a caller of the verify operations can rely on: a positive verdict in the report of
  \<open>VerifyData\<close> comes from this call and from a trusted path; a report that several threads commit
  to is refined only by the thread that committed it last; and the names in the user report may
  be those of an earlier call.
\<close>

section \<open>Soundness of the committed verdict\<close>

lemma SetVerifyReport_report:
  "last_verify_report (sessions (SetVerifyReport t sid operation ok valid err message p) sid)
    = CommitVerifyOutcome MakeClearedVerifyReport \<lparr>vo_operation = operation, vo_execution_succeeded = ok,
        vo_signature_valid = valid, vo_error_code = err, vo_message = message\<rparr>"
  by (simp add: SetVerifyReport_def ClearVerifyReport_def Let_def)

lemma failed_report_negative:
  "\<not> vd_valid (ComputeVerifyPolicyDecision (last_verify_report
      (sessions (SetVerifyReport t sid operation False valid err message p) sid)))"
  by (simp add: SetVerifyReport_report CommitVerifyOutcome_def Let_def decision_valid_iff policy_base_valid_def)

text \<open>What a positive verdict on a CMS stands for, in terms of the engine's inputs.\<close>

definition cms_trusted ::
    "('cert, 'crl, 'req, 'resp, 'fs) environment \<Rightarrow> 'fs storage \<Rightarrow> 'fs verify_lib \<Rightarrow> session \<Rightarrow> bytes \<Rightarrow> VerifyPolicyInfo
     \<Rightarrow> 'fs \<Rightarrow> bool" where
  "cms_trusted E F L s cms info fs =
     (case EnrichWithAiaIssuersIfNeeded E L (cfg_work_dir (settings s)) (os_timeout_ms (ocsp_settings s))
             (\<not> cfg_offline_mode (settings s) \<and> cfg_allow_aia_issuer_fetch (settings s)) (pi_signer_certificate_der info)
             (pi_embedded_certificates_der info) fs of
        (embedded, fs) \<Rightarrow>
          let ctx = cms_context L (settings s) (ocsp_settings s) cms True;
              r = fst (ValidationEngine_Validate E F ctx (pi_signer_certificate_der info) embedded fs)
          in signer_path_trusted E F fs ctx (pi_signer_certificate_der info) embedded (report_time r)
             \<and> ctx_level ctx \<noteq> Level_Basic
             \<and> rr_revocation_status (rep_signer_revocation r) = Rev_Good
             \<and> (rep_timestamp_attempted r \<longrightarrow> te_valid (rep_timestamp r) \<or> te_policy_acceptable (rep_timestamp r)))"

lemma cms_report_sound:
  assumes "cms_report E F L (settings s) (ocsp_settings s) op cms valid info fs = (report, metadata, fs')"
    and "vd_valid (ComputeVerifyPolicyDecision report)"
  shows "valid \<and> cms_trusted E F L s cms info fs"
proof -
  obtain embedded fs1 where
    e: "EnrichWithAiaIssuersIfNeeded E L (cfg_work_dir (settings s)) (os_timeout_ms (ocsp_settings s))
        (\<not> cfg_offline_mode (settings s) \<and> cfg_allow_aia_issuer_fetch (settings s)) (pi_signer_certificate_der info)
        (pi_embedded_certificates_der info) fs = (embedded, fs1)"
    and valid and d: "vd_valid (ComputeVerifyPolicyDecision (ApplyValidationEngineReport (ExtractCertificateMetadata L)
        (fst (ValidationEngine_Validate E F (cms_context L (settings s) (ocsp_settings s) cms valid) (pi_signer_certificate_der info) embedded fs1))
        (default_report\<lparr>vr_has_result := True, vr_execution_succeeded := True, vr_signature_valid := valid,
            vr_operation := op, vr_error_code := Err_None, vr_message := BuildVerifyMessage True valid [],
            vr_signer_certificate_present := pi_signer_certificate_present info,
            vr_cms_signer_count := pi_signer_count info, vr_cms_verified_signer_count := pi_verified_signer_count info,
            vr_signatures := map signer_entry (pi_signers info)\<rparr>)))"
    using cms_report_decision [OF assms] by blast
  let ?r = "fst (ValidationEngine_Validate E F (cms_context L (settings s) (ocsp_settings s) cms True) (pi_signer_certificate_der info) embedded fs1)"
  have v: "dec_trust_valid (rep_decision ?r)" "rr_revocation_status (rep_signer_revocation ?r) = Rev_Good"
    "rep_timestamp_attempted ?r \<longrightarrow> te_valid (rep_timestamp ?r) \<or> te_policy_acceptable (rep_timestamp ?r)"
    using d \<open>valid\<close> by (subst (asm) engine_report_decision; simp)+
  show ?thesis
    using v report_trust_valid [OF v(1)] \<open>valid\<close> unfolding cms_trusted_def e Let_def by simp
qed

text \<open>
  C16. A positive verdict after \<open>VerifyData\<close> is earned by that call. Whatever report the session
  held before and whichever branch the call takes, if the policy decision of the report it leaves
  behind is positive, then the cryptographic verification of these data and this signature
  succeeded, the returned flag says so, the signer's certificate has a path to an admitted anchor
  at a validation level above Basic, a revocation source answered \<open>good\<close>, and a timestamp that was
  found is valid or acceptable to the policy.
\<close>

theorem verify_data_verdict_sound:
  assumes "VerifyData E F L t sid data signature p = (result, valid, p')"
    and "vd_valid (ComputeVerifyPolicyDecision (last_verify_report (sessions p' sid)))"
  shows "result \<and> valid \<and> is_initialized (sessions p sid)
    \<and> (\<exists>info. VerifyDetached L data signature = Inr (True, info)
         \<and> cms_trusted E F L (sessions p sid) signature info (files p))"
proof (cases "is_initialized (sessions p sid)")
  case False
  then show ?thesis using assms by (auto simp: VerifyData_def Let_def failed_report_negative)
next
  case init: True
  show ?thesis
  proof (cases "VerifyDetached L data signature")
    case (Inl e)
    then show ?thesis using assms init by (auto simp: VerifyData_def Let_def failed_report_negative)
  next
    case (Inr vi)
    obtain v info report metadata fs where vi: "vi = (v, info)"
      and c: "cms_report E F L (settings (sessions p sid)) (ocsp_settings (sessions p sid)) ''VerifyData'' signature v info (files p)
        = (report, metadata, fs)" by (metis prod_cases3 surj_pair)
    then have "result" "valid = v" "last_verify_report (sessions p' sid) = report"
      using assms(1) init Inr by (auto simp: VerifyData_def Let_def)
    then show ?thesis using cms_report_sound [OF c] assms(2) Inr vi init by auto
  qed
qed

text \<open>An offline session in strict mode, with a revocation list in the working directory.\<close>

definition sample_crl_env :: "(nat, nat, nat, nat, unit) environment" where
  "sample_crl_env = sample_env\<lparr>LoadCrlsFromWorkDir := (\<lambda>fs dir. [[9]])\<rparr>"

definition sample_info :: VerifyPolicyInfo where
  "sample_info = \<lparr>pi_signer_certificate_present = True, pi_signer_certificate_der = [1], pi_embedded_certificates_der = [],
     pi_signer_count = 1, pi_verified_signer_count = 1,
     pi_signers = [\<lparr>cs_index = 0, cs_signature_valid = True, cs_certificate_der = [1]\<rparr>]\<rparr>"

definition sample_lib :: "unit verify_lib" where
  "sample_lib =
     \<lparr>VerifyDetached = (\<lambda>data signature. if data = [] then Inl ''No data'' else Inr (True, sample_info)),
      VerifyAttached = (\<lambda>signed. Inr (True, signed, sample_info)), ExtractCertificateMetadata = (\<lambda>der. None),
      ExtractSigningTime = (\<lambda>cms. Some ''2025-06-01T12:00:00Z''), CollectCertificates = (\<lambda>fs dir. []),
      FetchMissingIssuers = (\<lambda>dir timeout certs fs. ([], fs)), ReadBinaryFileLimited = (\<lambda>fs path limit. Inl ''No file''),
      path_is_absolute = (\<lambda>path. True), path_lexically_normal = (\<lambda>path. path), path_join = (@)\<rparr>"

definition sample_session :: session where
  "sample_session =
     \<lparr>is_initialized = True, is_private_key_loaded = False, need_set_settings = False,
      settings = \<lparr>cfg_offline_mode = True, cfg_work_dir = ''w'', cfg_trust_mode = ''strict'',
        cfg_validation_level = ''standard'', cfg_allow_aia_issuer_fetch = False\<rparr>,
      file_store_settings = \<lparr>fss_base_path = [], fss_allow_overwrite = True\<rparr>,
      ocsp_settings = \<lparr>os_url = [], os_use_nonce = False, os_timeout_ms = 0\<rparr>,
      tsp_settings = \<lparr>tsp_url = [], tsp_policy_oid = [], tsp_timeout_ms = 10000, tsp_imprint_digest_oid = []\<rparr>,
      ldap_settings = \<lparr>ldap_url = [], ldap_base_dn = [], ldap_timeout_ms = 10000\<rparr>,
      cmp_settings = \<lparr>cmp_url = [], cmp_profile = [], cmp_timeout_ms = 10000\<rparr>,
      trust_list_settings = \<lparr>tls_url = ''https://tl'', tls_timeout_ms = 30000, tls_cache_ttl_hours = 24,
        tls_allow_https_bootstrap = True, tls_fail_if_cache_stale = False, tls_xml_signature_policy = Xml_PreferAvailable,
        tls_xml_signer_cert_der = []\<rparr>,
      last_error = \<lparr>le_code = Err_None, le_message = []\<rparr>,
      loaded_key = [], loaded_key_material = [], loaded_certificate = [], loaded_key_password = [],
      loaded_key_format = Key_Unknown, last_verify_report = MakeClearedVerifyReport,
      last_trust_list_sync_report = \<lparr>ts_checked = False, ts_update_succeeded = False, ts_source = [],
        ts_cache_status = ''not-checked'', ts_last_sync = [], ts_xml_signature_status = ''not-checked''\<rparr>,
      last_signer_metadata = default_metadata\<lparr>cm_subject := ''Old Signer''\<rparr>, last_user_report_json = [], report_epoch = 0\<rparr>"

definition sample_process :: "unit process" where
  "sample_process = \<lparr>sessions = (\<lambda>_. sample_session), g_verify_report_epoch = 0,
     t_last_verify_commit_epoch = (\<lambda>_. 0), files = ()\<rparr>"

definition sample_ctx :: ValidationContext where
  "sample_ctx = cms_context sample_lib (settings sample_session) (ocsp_settings sample_session) [] True"

lemma sample_ctx_fields: "ctx_embedded_revocation_crl_der sample_ctx = []" "ctx_embedded_revocation_ocsp_der sample_ctx = []"
  "ctx_cms_der sample_ctx = []" "ctx_ocsp_url sample_ctx = []"
  by code_simp+

lemma revocation_by_list:
  assumes "ri_certificate_der i \<noteq> []" "ri_crls_der i \<noteq> []" "ocsp_candidates i = []"
    and "crlr_checked (crl (crl_input i))" "crlr_status (crl (crl_input i)) = Rev_Good"
  shows "rr_revocation_status (RevocationEngine_Validate ocsp crl now i) = Rev_Good"
    "rr_crl_attempted (RevocationEngine_Validate ocsp crl now i)"
proof -
  let ?c = "crl (crl_input i)" and ?s = "engine_start i"
  have ev: "revocation_evidence ocsp crl i = add_because ''uk: A local CRL was used.''
      (set_final Rev_Good (crlr_revocation_time ?c) (crlr_message ?c) (add_evidence (crlr_crl_evidence_id ?c)
         (?s\<lparr>es_result := es_result ?s\<lparr>rr_crl_attempted := True\<rparr>\<rparr>)))"
    using assms by (simp add: revocation_evidence_def crl_stage_def network_stage_def Let_def)
  have attempted: "rr_crl_attempted (es_result (revocation_evidence ocsp crl i))" "es_final_status (revocation_evidence ocsp crl i) = Rev_Good"
    unfolding ev by (simp_all add: add_because_def set_final_def add_evidence_def)
  then show "rr_revocation_status (RevocationEngine_Validate ocsp crl now i) = Rev_Good"
    "rr_crl_attempted (RevocationEngine_Validate ocsp crl now i)"
    using assms(1) by (simp_all add: RevocationEngine_Validate_def Let_def revocation_verdict_def set_overall_def add_because_def)
qed

lemma sample_list_good:
  assumes "crli_signer_certificate_der i = [1]" "crli_issuer_certificate_der i = [2]" "crli_crls_der i = [[9]]"
    "crli_validation_time i = ''2025-06-01T12:00:00Z''"
  shows "crlr_checked (CrlValidator_Validate sample_pki sample_crl_lib now i)"
    "crlr_status (CrlValidator_Validate sample_pki sample_crl_lib now i) = Rev_Good"
  using CrlValidator_statuses [of sample_pki sample_crl_lib now i] assms
  by (simp_all add: crl_proves_good_def crl_proves_revoked_def crl_about_def crl_signed_def crl_window_admits_def
      GetCrlValidityWindow_def sample_crl_lib_def sample_pki_def DecodeCertificateDer_def validation_seconds_def sample_gen_time)

lemma final_decision_status: "dec_trust_status (final_decision sel rr ts att st ctx d) = dec_trust_status d"
  by (simp add: final_decision_def append_all_def set_decision_def Let_def)

lemma sample_ctx_report:
  defines "r \<equiv> fst (ValidationEngine_Validate sample_crl_env sample_storage sample_ctx [1] [] ())"
  shows "dec_trust_valid (rep_decision r)" "dec_trust_status (rep_decision r) = ''trusted-anchor-validated''" "\<not> rep_timestamp_attempted r"
    "rr_revocation_status (rep_signer_revocation r) = Rev_Good" "rr_crl_attempted (rep_signer_revocation r)"
proof -
  note f = report_fields [of sample_crl_env sample_storage sample_ctx "[1]" "[]" "()", folded r_def]
  have ts: "rep_timestamp r = default_timestamp_result" "\<not> rep_timestamp_attempted r"
    using f(4) by (simp_all add: run_timestamp_def sample_ctx_fields)
  then show "\<not> rep_timestamp_attempted r" by simp
  have "report_time r = st_signature_evaluation_time (resolve_signing_time sample_ctx default_timestamp_result False)"
    using f(5) ts by simp
  also have "\<dots> = ''2025-06-01T12:00:00Z''" by code_simp
  finally have time: "report_time r = ''2025-06-01T12:00:00Z''" .
  have path: "path_trusted (rep_path_selection r)" "selected_issuer (rep_path_selection r) = [2]"
    unfolding f(1) time by code_simp+
  have rev: "rep_signer_revocation r
      = run_revocation sample_crl_env (engine_revocation_input sample_crl_env sample_ctx [1] [2] ''2025-06-01T12:00:00Z'' ())"
    using f(3) unfolding path time by simp
  show good: "rr_revocation_status (rep_signer_revocation r) = Rev_Good" "rr_crl_attempted (rep_signer_revocation r)"
    unfolding rev run_revocation_def
    using revocation_by_list [where i = "engine_revocation_input sample_crl_env sample_ctx [1] [2] ''2025-06-01T12:00:00Z'' ()"]
    by (simp_all add: engine_revocation_input_def sample_crl_env_def sample_env_def ocsp_candidates_def crl_input_def
        sample_list_good sample_ctx_fields)
  have ov: "rr_overall_status (rep_signer_revocation r) = Overall_Valid"
    unfolding rev using sample_run_revocation [where i = "engine_revocation_input sample_crl_env sample_ctx [1] [2] ''2025-06-01T12:00:00Z'' ()"]
    by (simp add: run_revocation_def engine_revocation_input_def sample_crl_env_def sample_env_def sample_ctx_fields)
  have pol: "\<not> require_service_level_trust (policy_of sample_ctx)" "ctx_signature_crypto_valid sample_ctx"
    "ctx_level sample_ctx \<noteq> Level_Basic" by code_simp+
  obtain results where d: "rep_decision r = SynthesizeDecision True (rep_path_selection r) results (rep_trust_service r)
        (rep_signer_revocation r) (rep_timestamp r) (rep_timestamp_attempted r) (rep_signing_time_resolution r)
        (policy_of sample_ctx) sample_ctx"
    using report_decision [of sample_crl_env sample_storage sample_ctx "[1]" "[]" "()", folded r_def] pol(2) by auto
  show "dec_trust_valid (rep_decision r)" "dec_trust_status (rep_decision r) = ''trusted-anchor-validated''"
    unfolding d using path good pol ts ov
    by (simp_all add: SynthesizeDecision_def Let_def service_level_ok_def final_decision_fields final_decision_status trust_explanation_def split: prod.splits)
qed

text \<open>The engine's verdict on a valid CMS is the verdict of the report.\<close>

lemma cms_report_positive:
  assumes "cms_report E F L cfg ocsp op cms True info fs = (report, metadata, fs')"
    and "EnrichWithAiaIssuersIfNeeded E L (cfg_work_dir cfg) (os_timeout_ms ocsp)
        (\<not> cfg_offline_mode cfg \<and> cfg_allow_aia_issuer_fetch cfg) (pi_signer_certificate_der info)
        (pi_embedded_certificates_der info) fs = (embedded, fs1)"
    and "r = fst (ValidationEngine_Validate E F (cms_context L cfg ocsp cms True) (pi_signer_certificate_der info) embedded fs1)"
  shows "vd_valid (ComputeVerifyPolicyDecision report) \<longleftrightarrow> dec_trust_valid (rep_decision r)
    \<and> rr_revocation_status (rep_signer_revocation r) = Rev_Good
    \<and> (rr_ocsp_attempted (rep_signer_revocation r) \<or> rr_crl_attempted (rep_signer_revocation r))
    \<and> dec_trust_status (rep_decision r) \<notin> outage_or_timestamp_status
    \<and> (rep_timestamp_attempted r \<longrightarrow> (te_valid (rep_timestamp r) \<or> te_policy_acceptable (rep_timestamp r))
         \<and> timestamp_entry_status (rep_timestamp r) \<noteq> ''timestamp-invalid'')"
proof -
  let ?base = "default_report\<lparr>vr_has_result := True, vr_execution_succeeded := True, vr_signature_valid := True,
            vr_operation := op, vr_error_code := Err_None, vr_message := BuildVerifyMessage True True [],
            vr_signer_certificate_present := pi_signer_certificate_present info,
            vr_cms_signer_count := pi_signer_count info, vr_cms_verified_signer_count := pi_verified_signer_count info,
            vr_signatures := map signer_entry (pi_signers info)\<rparr>"
  have "vd_valid (ComputeVerifyPolicyDecision report)
      = vd_valid (ComputeVerifyPolicyDecision (ApplyValidationEngineReport (ExtractCertificateMetadata L) r ?base))"
    using assms by (auto simp: cms_report_def Let_def decision_ignores_error_code split: prod.splits if_splits)
  then show ?thesis by (simp add: engine_report_decision)
qed

theorem verify_data_verdict_sound_witness:
  "\<exists>p'. VerifyData sample_crl_env sample_storage sample_lib 1 0 [4] [] sample_process = (True, True, p')
     \<and> vd_valid (ComputeVerifyPolicyDecision (last_verify_report (sessions p' 0)))
     \<and> cms_trusted sample_crl_env sample_storage sample_lib sample_session [] sample_info ()"
proof -
  obtain result valid p' where v: "VerifyData sample_crl_env sample_storage sample_lib 1 0 [4] [] sample_process = (result, valid, p')"
    by (metis prod_cases3)
  obtain report metadata fs where c: "cms_report sample_crl_env sample_storage sample_lib (settings sample_session)
      (ocsp_settings sample_session) ''VerifyData'' [] True sample_info () = (report, metadata, fs)" by (metis prod_cases3)
  have enrich: "EnrichWithAiaIssuersIfNeeded sample_crl_env sample_lib work timeout False [1] [] () = ([], ())" for work timeout
    by (simp add: EnrichWithAiaIssuersIfNeeded_def)
  have "vd_valid (ComputeVerifyPolicyDecision report)"
    using cms_report_positive [OF c, of "[]" "()", OF _ refl] sample_ctx_report
    by (simp add: enrich sample_info_def sample_session_def outage_or_timestamp_status_def sample_ctx_def)
  then have d: "vd_valid (ComputeVerifyPolicyDecision (last_verify_report (sessions p' 0)))"
    using v c by (auto simp: VerifyData_def sample_process_def sample_session_def sample_lib_def Let_def)
  show ?thesis
    using verify_data_verdict_sound [OF v d] v d by (auto simp: sample_lib_def sample_process_def)
qed

section \<open>Whose report it is\<close>

text \<open>
  The locked sections of all threads interleave. A step is one of them; next to the process runs a
  ghost that remembers which thread committed the report of a session last. The counter has 64
  bits, so a commit step asks that it has not reached its end.
\<close>

inductive session_step ::
    "'fs process \<times> (nat \<Rightarrow> nat option) \<Rightarrow> 'fs process \<times> (nat \<Rightarrow> nat option) \<Rightarrow> bool" where
  step_failure: "g_verify_report_epoch p \<noteq> - 1 \<Longrightarrow>
    session_step (p, own) (SetVerifyReport t sid operation ok valid err message p, own(sid \<mapsto> t))"
| step_verified: "g_verify_report_epoch p \<noteq> - 1 \<Longrightarrow>
    session_step (p, own) (commit_verified t sid report metadata p, own(sid \<mapsto> t))"
| step_override: "session_step (p, own) (OverrideVerifyReportOperation t sid operation p, own)"
| step_rename: "session_step (p, own) (rename_report sid operation p, own)"
| step_error: "session_step (p, own) (upd_session sid (SetError err message) p, own)"
| step_files: "session_step (p, own) (p\<lparr>files := fs\<rparr>, own)"

inductive session_reachable :: "'fs process \<times> (nat \<Rightarrow> nat option) \<Rightarrow> bool" where
  reachable_start: "\<lbrakk>\<forall>sid. report_epoch (sessions p sid) = 0; g_verify_report_epoch p = 0; \<forall>t. t_last_verify_commit_epoch p t = 0\<rbrakk>
    \<Longrightarrow> session_reachable (p, Map.empty)"
| reachable_step: "\<lbrakk>session_reachable c; session_step c c'\<rbrakk> \<Longrightarrow> session_reachable c'"

definition ownership_inv :: "'fs process \<times> (nat \<Rightarrow> nat option) \<Rightarrow> bool" where
  "ownership_inv = (\<lambda>(p, own). (\<forall>sid. report_epoch (sessions p sid) \<le> g_verify_report_epoch p)
     \<and> (\<forall>t. t_last_verify_commit_epoch p t \<le> g_verify_report_epoch p)
     \<and> (\<forall>sid t. StillOwnedByThisThread t sid p \<longrightarrow> own sid = Some t))"

text \<open>A section that keeps the epochs keeps the invariant; a commit moves one session and one thread past all others.\<close>

definition epochs :: "'fs process \<Rightarrow> (nat \<Rightarrow> u64) \<times> u64 \<times> (nat \<Rightarrow> u64)" where
  "epochs p = (\<lambda>sid. report_epoch (sessions p sid), g_verify_report_epoch p, t_last_verify_commit_epoch p)"

lemma ownership_inv_epochs:
  assumes "epochs p' = epochs p" shows "ownership_inv (p', own) = ownership_inv (p, own)"
proof -
  have "report_epoch (sessions p' sid) = report_epoch (sessions p sid)" for sid
    using assms by (simp add: epochs_def fun_eq_iff)
  then show ?thesis using assms by (simp add: ownership_inv_def epochs_def StillOwnedByThisThread_def)
qed

lemma upd_session_epochs:
  assumes "\<And>s. report_epoch (f s) = report_epoch s" shows "epochs (upd_session sid f p) = epochs p"
  using assms by (auto simp: epochs_def upd_session_def)

lemma MarkCommitted_inv:
  assumes "ownership_inv (p, own)" "g_verify_report_epoch p \<noteq> - 1"
  shows "ownership_inv (MarkCommitted t sid p, own(sid \<mapsto> t))"
proof -
  let ?g = "g_verify_report_epoch p"
  have less: "e < ?g + 1" if "e \<le> ?g" for e :: u64
  proof -
    have "1 + ?g \<noteq> 0" using assms(2) by (metis add.commute add.right_inverse add_left_cancel)
    then show ?thesis using that unatSuc [of ?g] by (simp add: word_less_nat_alt word_le_nat_alt add.commute)
  qed
  have epoch: "report_epoch (sessions (MarkCommitted t sid p) sid') = (if sid' = sid then ?g + 1 else report_epoch (sessions p sid'))" for sid'
    by simp
  have "\<not> ?g + 1 \<le> e" "?g + 1 \<noteq> 0" if "e \<le> ?g" for e :: u64
    using less [OF that] less [of 0] by auto
  then have ne: "report_epoch (sessions p sid') \<noteq> ?g + 1" "t_last_verify_commit_epoch p t' \<noteq> ?g + 1" for sid' t'
    using assms(1) unfolding ownership_inv_def by (metis (mono_tags, lifting) case_prod_conv order_refl)+
  show ?thesis
    using assms(1) unfolding ownership_inv_def StillOwnedByThisThread_def
    by (auto simp: epoch ne ne [symmetric] intro: less_imp_le less)
qed

lemma commit_inv:
  assumes "ownership_inv (p, own)" "g_verify_report_epoch p \<noteq> - 1"
    and "\<And>s. report_epoch (f s) = report_epoch s" "\<And>s. report_epoch (f' s) = report_epoch s"
  shows "ownership_inv (upd_session sid f' (MarkCommitted t sid (upd_session sid f p)), own(sid \<mapsto> t))"
proof -
  have "ownership_inv (upd_session sid f p, own)" "g_verify_report_epoch (upd_session sid f p) \<noteq> - 1"
    using assms by (simp_all add: ownership_inv_epochs [OF upd_session_epochs])
  from MarkCommitted_inv [OF this] show ?thesis
    unfolding ownership_inv_epochs [OF upd_session_epochs, of f', OF assms(4)] .
qed

lemma cleared_epoch:
  "report_epoch ((ClearVerifyReport s)\<lparr>last_verify_report := CommitVerifyOutcome (last_verify_report (ClearVerifyReport s)) outcome\<rparr>)
    = report_epoch s"
  by (simp add: ClearVerifyReport_def)

lemma session_step_inv:
  assumes "session_step c c'" "ownership_inv c" shows "ownership_inv c'"
  using assms
proof cases
  case (step_failure p own t sid operation ok valid err message)
  then show ?thesis
    using assms(2) unfolding step_failure(1,2) SetVerifyReport_def Let_def
    by (intro commit_inv) (assumption | rule cleared_epoch refresh_simps)+
next
  case (step_verified p own t sid report metadata)
  have "report_epoch (ClearError (RefreshUserReportForCurrentOperation
      (case metadata of None \<Rightarrow> s | Some m \<Rightarrow> s\<lparr>last_signer_metadata := m\<rparr>))) = report_epoch s"
    "report_epoch (s\<lparr>last_verify_report := report\<rparr>) = report_epoch s" for s
    by (simp_all split: option.split)
  with step_verified show ?thesis
    using assms(2) unfolding step_verified(1,2) commit_verified_def
    by (intro commit_inv) (assumption | rule refl)+
next
  case (step_override p own t sid operation)
  have "epochs (upd_session sid (\<lambda>s. RefreshUserReportForCurrentOperation
      (s\<lparr>last_verify_report := (last_verify_report s)\<lparr>vr_operation := operation\<rparr>\<rparr>)) p) = epochs p"
    by (rule upd_session_epochs) simp
  then have "epochs (OverrideVerifyReportOperation t sid operation p) = epochs p"
    unfolding OverrideVerifyReportOperation_def by (auto simp only: split: if_splits)
  from ownership_inv_epochs [OF this] show ?thesis using assms(2) unfolding step_override by blast
next
  case (step_rename p own sid operation)
  have "epochs (rename_report sid operation p) = epochs p" 
    unfolding rename_report_def by (rule upd_session_epochs) simp
  from ownership_inv_epochs [OF this] show ?thesis using assms(2) unfolding step_rename by blast
next
  case (step_error p own sid err message)
  have "epochs (upd_session sid (SetError err message) p) = epochs p" by (rule upd_session_epochs) simp
  from ownership_inv_epochs [OF this] show ?thesis using assms(2) unfolding step_error by blast
next
  case (step_files p own fs)
  have "epochs (p\<lparr>files := fs\<rparr>) = epochs p" by (simp add: epochs_def)
  from ownership_inv_epochs [OF this] show ?thesis using assms(2) unfolding step_files by blast
qed

lemma reachable_inv: "session_reachable c \<Longrightarrow> ownership_inv c"
proof (induction rule: session_reachable.induct)
  case (reachable_start p)
  then show ?case by (simp add: ownership_inv_def StillOwnedByThisThread_def)
next
  case (reachable_step c c')
  then show ?case using session_step_inv by blast
qed

text \<open>
  C17. However the locked sections of the threads interleave, over any number of sessions: a thread
  that finds the report still its own is the thread that committed it last, so a refinement of the
  operation's name by any other thread leaves the whole process as it is. The variants that return
  text do not ask: they rename the report whoever committed it.
\<close>

theorem report_ownership:
  assumes "session_reachable (p, own)"
  shows "(StillOwnedByThisThread t sid p \<longrightarrow> own sid = Some t)
    \<and> (own sid \<noteq> Some t \<longrightarrow> OverrideVerifyReportOperation t sid operation p = p)
    \<and> vr_operation (last_verify_report (sessions (rename_report sid operation p) sid)) = operation"
proof -
  have "StillOwnedByThisThread t sid p \<longrightarrow> own sid = Some t"
    using reachable_inv [OF assms] by (simp add: ownership_inv_def)
  then show ?thesis by (auto simp: OverrideVerifyReportOperation_def rename_report_def)
qed

text \<open>Thread 2 commits a report of its own between the commit and the refinement of thread 1.\<close>

definition sample_first :: "unit process" where
  "sample_first = commit_verified 1 0 (default_report\<lparr>vr_has_result := True, vr_operation := ''VerifyDataInternal''\<rparr>) None sample_process"

definition sample_race :: "unit process" where
  "sample_race = commit_verified 2 0 (default_report\<lparr>vr_has_result := True, vr_operation := ''VerifyData''\<rparr>) None sample_first"

lemma sample_race_reachable: "session_reachable (sample_race, [0 \<mapsto> 1, 0 \<mapsto> 2])"
proof -
  have "session_reachable (sample_process, Map.empty)"
    by (rule reachable_start) (simp_all add: sample_process_def sample_session_def)
  moreover have "g_verify_report_epoch sample_process \<noteq> - 1" "g_verify_report_epoch sample_first \<noteq> - 1"
    by (simp_all add: sample_first_def commit_verified_def sample_process_def)
  ultimately show ?thesis
    unfolding sample_race_def using step_verified reachable_step sample_first_def by metis
qed

theorem report_ownership_witness:
  "OverrideVerifyReportOperation 1 0 ''VerifyFile'' sample_race = sample_race
   \<and> vr_operation (last_verify_report (sessions sample_race 0)) = ''VerifyData''
   \<and> vr_operation (last_verify_report (sessions (rename_report 0 ''VerifyDataInternalStr'' sample_race) 0)) = ''VerifyDataInternalStr''"
  using report_ownership [OF sample_race_reachable, of 1 0 "''VerifyFile''"]
    report_ownership [OF sample_race_reachable, of 1 0 "''VerifyDataInternalStr''"]
  by (simp add: sample_race_def)

section \<open>Names of an earlier signer\<close>

lemma applied_operation: "vr_operation (ApplyValidationEngineReport meta ve report) = vr_operation report"
  by (simp add: ApplyValidationEngineReport_def Let_def)

text \<open>
  If the names in the signer's certificate cannot be read, or the signature carries no
  certificate, \<open>VerifyData\<close> commits its new report together with the names that the session kept
  from an earlier call: the user report is built from the new verdict and the earlier signer.
\<close>

theorem stale_signer_names:
  fixes E :: "('cert, 'crl, 'req, 'resp, 'fs) environment" and F :: "'fs storage" and t :: nat
  assumes "is_initialized (sessions p sid)" "VerifyDetached L data signature = Inr (valid, info)"
    and "pi_signer_certificate_der info = [] \<or> ExtractCertificateMetadata L (pi_signer_certificate_der info) = None"
  defines "s' \<equiv> sessions (snd (snd (VerifyData E F L t sid data signature p))) sid"
  shows "vr_operation (last_verify_report s') = ''VerifyData'' \<and> vr_signature_valid (last_verify_report s') = valid
    \<and> last_signer_metadata s' = last_signer_metadata (sessions p sid)
    \<and> last_user_report_json s' =
        (case UserReportFormatForOperation ''VerifyData'' of (container_type, signature_format) \<Rightarrow>
           UserReportBuilder_Build (last_verify_report s') container_type signature_format (last_signer_metadata (sessions p sid)))"
proof -
  let ?s = "sessions p sid"
  obtain report metadata fs where c: "cms_report E F L (settings ?s) (ocsp_settings ?s) ''VerifyData'' signature valid info (files p)
      = (report, metadata, fs)" by (metis prod_cases3)
  have "metadata = None"
    using c assms(3) by (auto simp: cms_report_def Let_def split: prod.splits)
  moreover have report: "vr_operation report = ''VerifyData''" "vr_signature_valid report = valid"
    using c by (auto simp: cms_report_def Let_def ApplyValidationEngineReport_fields applied_operation split: prod.splits if_splits)
  ultimately have s': "s' = ClearError (RefreshUserReportForCurrentOperation
      (?s\<lparr>last_verify_report := report, report_epoch := g_verify_report_epoch p + 1\<rparr>))"
    using assms(1,2) c unfolding s'_def by (simp add: VerifyData_def Let_def commit_verified_def)
  show ?thesis
    unfolding s' using report
    by (simp add: RefreshUserReportForCurrentOperation_def RefreshUserReport_def split: prod.split)
qed

theorem stale_signer_names_witness:
  "\<exists>report. last_user_report_json (sessions (snd (snd (VerifyData sample_crl_env sample_storage sample_lib 1 0 [4] [] sample_process))) 0)
    = UserReportBuilder_Build report ''CAdES detached'' ''cms-detached'' (default_metadata\<lparr>cm_subject := ''Old Signer''\<rparr>)
    \<and> vr_signature_valid report \<and> vr_operation report = ''VerifyData''"
  using stale_signer_names [of sample_process 0 sample_lib "[4]" "[]" True sample_info sample_crl_env sample_storage 1]
  by (auto simp: sample_process_def sample_session_def sample_lib_def UserReportFormatForOperation_def split: prod.splits)

end
