(* ===== verification/Session_Life.thy ===== *)
theory Session_Life
  imports Session_Sign Session_Verdict
begin

text \<open>
  The sessions of a process over time: every call of the lifecycle, the settings, the keys and
  signing, and every locked section of a verification, in any order and on any of the sessions. What
  holds in every reachable state is proved by induction over these steps.
\<close>

section \<open>Calls on one session\<close>

record 'fs session_env =
  en_verify :: "'fs verify_lib"
  en_keys :: "'fs key_lib"
  en_sign :: "'fs sign_lib"
  en_files :: "'fs file_ops"
  en_make_dir :: "'fs \<Rightarrow> string option \<times> 'fs"
  en_sync :: "string \<Rightarrow> TrustListSettings \<Rightarrow> 'fs \<Rightarrow> TrustListSyncResult \<times> 'fs"

inductive session_call :: "'fs session_env \<Rightarrow> session \<times> 'fs \<Rightarrow> session \<times> 'fs \<Rightarrow> bool" for N :: "'fs session_env" where
  call_initialize: "session_call N (s, fs) (snd (Initialize (en_make_dir N) s fs))"
| call_finalize: "session_call N (s, fs) (snd (Finalize s), fs)"
| call_settings: "session_call N (s, fs) (snd (SetSettings cfg s), fs)"
| call_file_store: "session_call N (s, fs) (snd (SetFileStoreSettings fss s), fs)"
| call_ocsp: "session_call N (s, fs) (snd (SetOcspSettings ocsp s), fs)"
| call_tsp: "session_call N (s, fs) (snd (SetTspSettings tsp s), fs)"
| call_ldap: "session_call N (s, fs) (snd (SetLdapSettings ldap s), fs)"
| call_cmp: "session_call N (s, fs) (snd (SetCmpSettings cmp s), fs)"
| call_trust_list: "session_call N (s, fs) (snd (SetTrustListSettings trust s), fs)"
| call_sync: "session_call N (s, fs) (snd (SyncTrustList (en_sync N) s fs))"
| call_read_key: "session_call N (s, fs) (snd (ReadPrivateKey (en_verify N) (en_keys N) descriptor password s fs))"
| call_read_binary: "session_call N (s, fs) (snd (ReadPrivateKeyBinary (en_keys N) key_data store_password key_password jks_alias s fs))"
| call_read_file: "session_call N (s, fs) (snd (ReadPrivateKeyFile (en_verify N) (en_keys N) path store_password key_password jks_alias s fs))"
| call_reset_key: "session_call N (s, fs) (snd (ResetPrivateKey s), fs)"
| call_sign: "session_call N (s, fs) (snd (snd (SignData (en_sign N) data mode s fs)), fs)"
| call_sign_internal: "session_call N (s, fs) (snd (snd (SignDataInternal (en_sign N) data mode s fs)), fs)"
| call_sign_base64: "session_call N (s, fs) (snd (snd (SignDataBase64 (en_sign N) data s fs)), fs)"
| call_sign_internal_base64: "session_call N (s, fs) (snd (snd (SignDataInternalBase64 (en_sign N) data s fs)), fs)"
| call_sign_file: "session_call N (s, fs) (snd (snd (SignFile (en_verify N) (en_sign N) path mode s fs)), fs)"
| call_raw_sign: "session_call N (s, fs) (snd (RawSignFile (en_verify N) (en_sign N) (en_files N) input_path signature_path mode s fs))"
| call_show: "session_call N (s, fs) (snd (ShowCertificates s), fs)"
| call_show_crls: "session_call N (s, fs) (snd (ShowCRLs s), fs)"

definition session_ok :: "(string \<Rightarrow> bool) \<Rightarrow> session \<Rightarrow> bool" where
  "session_ok A s \<longleftrightarrow> key_ok s \<and> settings_ok A s"

lemma session_ok_error [simp]:
  "session_ok A (SetError err m s) = session_ok A s" "session_ok A (ClearError s) = session_ok A s" "session_ok A (ClearVerifyReport s) = session_ok A s"
  by (simp_all add: session_ok_def)

lemma session_ok_new: "session_ok A new_session"
proof -
  have "key_ok new_session" by (simp add: new_session_def) (simp add: key_ok_def)
  then show ?thesis by (simp add: session_ok_def settings_ok_new)
qed

text \<open>The key is not touched by the settings, and what clears it leaves a session without a key.\<close>

definition key_part :: "session \<Rightarrow> bool \<times> bytes \<times> bytes \<times> bytes \<times> string \<times> KeyFormat" where
  "key_part s = (is_private_key_loaded s, loaded_key s, loaded_key_material s, loaded_certificate s, loaded_key_password s, loaded_key_format s)"

lemma key_ok_part: "key_part s = key_part s' \<Longrightarrow> key_ok s = key_ok s'"
  by (simp add: key_part_def key_ok_def)

lemma key_part_simps [simp]:
  "key_part (SetError err m s) = key_part s" "key_part (ClearError s) = key_part s" "key_part (ClearVerifyReport s) = key_part s"
  "key_part (snd (refuse err m s)) = key_part s"
  by (simp_all add: key_part_def refuse_def)

lemma key_part_setters:
  "key_part (snd (SetSettings cfg s)) = key_part s" "key_part (snd (SetFileStoreSettings fss s)) = key_part s"
  "key_part (snd (SetOcspSettings ocsp s)) = key_part s" "key_part (snd (SetTspSettings tsp s)) = key_part s"
  "key_part (snd (SetLdapSettings ldap s)) = key_part s" "key_part (snd (SetCmpSettings cmp s)) = key_part s"
  "key_part (snd (SetTrustListSettings trust s)) = key_part s"
  "key_part (fst (snd (Initialize make_dir s fs))) = key_part s" "key_part (fst (snd (SyncTrustList sync s fs))) = key_part s"
  by (simp_all add: SetSettings_def SetFileStoreSettings_def SetOcspSettings_def SetTspSettings_def SetLdapSettings_def SetCmpSettings_def
      SetTrustListSettings_def Initialize_def SyncTrustList_def Let_def split: prod.split option.split) (simp_all add: key_part_def)

lemma key_ok_cleared: "key_ok (snd (Finalize s))" "key_ok (snd (ResetPrivateKey s))"
  by (simp_all add: Finalize_def ResetPrivateKey_def SecureClearLoadedKey_def) (simp_all add: key_ok_def)

lemma settings_ok_reset: "settings_ok A (snd (ResetPrivateKey s)) = settings_ok A s"
  by (simp add: ResetPrivateKey_def SecureClearLoadedKey_def) (simp add: settings_ok_def)

lemmas session_ok_setters = key_part_setters [THEN key_ok_part] settings_ok_setters settings_ok_SetSettings settings_ok_lifecycle

subsection \<open>Signing\<close>

text \<open>The addresses that the trust list can give.\<close>

definition granted_address :: "'fs sign_lib \<Rightarrow> string \<Rightarrow> bool" where
  "granted_address G url \<longleftrightarrow> (\<exists>fs work_dir. url = ResolveGrantedTspUrl G fs work_dir)"

lemma issuer_table_url: "find P issuer_table = Some (names, url) \<Longrightarrow> IsLikelyUrl url"
proof -
  assume "find P issuer_table = Some (names, url)"
  then have "(names, url) \<in> set issuer_table" by (metis find_Some_iff nth_mem)
  moreover have "list_all (\<lambda>(names, url). IsLikelyUrl url) issuer_table" by (simp add: issuer_table_def IsLikelyUrl_def)
  ultimately show ?thesis by (auto simp: list_all_iff)
qed

lemma resolved_address:
  fixes G :: "'fs sign_lib" and fs certificate work_dir
  defines "url \<equiv> ResolveDefaultTspUrlCombined G fs certificate work_dir"
  shows "url = [] \<or> IsLikelyUrl url \<or> granted_address G url"
  by (auto simp: url_def ResolveDefaultTspUrlCombined_def ResolveDefaultTspUrlFromTrustList_def ResolveDefaultTspUrlFromIssuerTable_def
      granted_address_def Let_def split: option.split dest: issuer_table_url)

lemma sign_with_url:
  "tsp_url (tsp_settings (snd (snd (sign_with sign G data mode s fs))))
     \<in> {tsp_url (tsp_settings s), ResolveDefaultTspUrlCombined G fs (loaded_certificate s) (cfg_work_dir (settings s))}"
  by (simp add: sign_with_def stamp_signature_def Let_def split: sum.split)

lemma sign_with_ok:
  assumes "session_ok (granted_address G) s"
  shows "session_ok (granted_address G) (snd (snd (sign_with sign G data mode s fs)))"
proof -
  define s' where "s' = snd (snd (sign_with sign G data mode s fs))"
  have "signing_frame s s'" using sign_with_outcome [of sign G data mode s fs] by (auto simp: signing_outcome_def s'_def split: prod.splits)
  then obtain url where f: "s' = s\<lparr>last_error := last_error s', tsp_settings := (tsp_settings s)\<lparr>tsp_url := url\<rparr>\<rparr>"
    by (auto simp: signing_frame_def)
  have "key_part s' = key_part s" by (subst f) (simp add: key_part_def)
  then have k: "key_ok s'" using assms key_ok_part [of s' s] by (simp add: session_ok_def)
  have "tsp_url (tsp_settings s) = [] \<or> IsLikelyUrl (tsp_url (tsp_settings s)) \<or> granted_address G (tsp_url (tsp_settings s))"
    using assms by (simp add: session_ok_def settings_ok_def)
  then have u: "tsp_url (tsp_settings s') = [] \<or> IsLikelyUrl (tsp_url (tsp_settings s')) \<or> granted_address G (tsp_url (tsp_settings s'))"
    using sign_with_url [of sign G data mode s fs] resolved_address unfolding s'_def [symmetric] by (metis insertE singletonD)
  have same: "settings s' = settings s" "ocsp_settings s' = ocsp_settings s" "tsp_timeout_ms (tsp_settings s') = tsp_timeout_ms (tsp_settings s)"
    "tsp_imprint_digest_oid (tsp_settings s') = tsp_imprint_digest_oid (tsp_settings s)" "ldap_settings s' = ldap_settings s"
    "cmp_settings s' = cmp_settings s" "trust_list_settings s' = trust_list_settings s" by (subst f, simp)+
  have "settings_ok (granted_address G) s'"
    using settings_ok_frame [where A = "granted_address G", OF same(1,2) u same(3-7)] assms by (simp add: session_ok_def)
  with k show ?thesis by (simp add: session_ok_def s'_def)
qed

lemma signing_ok:
  assumes "session_ok (granted_address G) s"
  shows "session_ok (granted_address G) (snd (snd (SignData G data mode s fs)))" "session_ok (granted_address G) (snd (snd (SignDataInternal G data mode s fs)))"
    "session_ok (granted_address G) (snd (snd (SignDataBase64 G data s fs)))" "session_ok (granted_address G) (snd (snd (SignDataInternalBase64 G data s fs)))"
    "session_ok (granted_address G) (snd (snd (SignFile L G path mode s fs)))"
    "session_ok (granted_address G) (fst (snd (RawSignFile L G W input_path signature_path mode s fs)))"
proof -
  note [simp] = assms sign_with_ok [OF assms]
  show sd: "session_ok (granted_address G) (snd (snd (SignData G data mode s fs)))" for data mode by (simp add: SignData_def)
  show si: "session_ok (granted_address G) (snd (snd (SignDataInternal G data mode s fs)))" for mode by (simp add: SignDataInternal_def)
  show "session_ok (granted_address G) (snd (snd (SignDataBase64 G data s fs)))"
    using sd [of data Timestamp_BestEffort] by (auto simp: SignDataBase64_def split: prod.split)
  show "session_ok (granted_address G) (snd (snd (SignDataInternalBase64 G data s fs)))"
    using si [of Timestamp_BestEffort] by (auto simp: SignDataInternalBase64_def split: prod.split)
  show sf: "session_ok (granted_address G) (snd (snd (SignFile L G path mode s fs)))" for path
    using sd [of _ mode] by (auto simp: SignFile_def split: prod.split sum.split) (metis snd_conv)+
  show "session_ok (granted_address G) (fst (snd (RawSignFile L G W input_path signature_path mode s fs)))"
    using sf [of input_path] by (auto simp: RawSignFile_def Let_def split: prod.split bool.split)
qed

lemma key_reading_ok:
  assumes "session_ok A s"
  shows "session_ok A (fst (snd (ReadPrivateKey L G descriptor password s fs)))"
    "session_ok A (fst (snd (ReadPrivateKeyBinary G key_data sp kp a s fs)))"
    "session_ok A (fst (snd (ReadPrivateKeyFile L G path sp kp a s fs)))"
proof -
  have ok: "session_ok A (fst (snd r))" if "key_loaded s r" for r :: "bool \<times> session \<times> 'fs"
    using key_loaded_ok [OF that, of A] assms by (simp add: session_ok_def)
  show "session_ok A (fst (snd (ReadPrivateKey L G descriptor password s fs)))" by (rule ok [OF descriptor_loaded])
  show "session_ok A (fst (snd (ReadPrivateKeyBinary G key_data sp kp a s fs)))"
    unfolding ReadPrivateKeyBinary_def by (rule ok [OF payload_loaded])
  show "session_ok A (fst (snd (ReadPrivateKeyFile L G path sp kp a s fs)))"
    unfolding ReadPrivateKeyFile_def by (rule ok [OF file_loaded])
qed

lemma session_call_ok:
  assumes "session_call N c c'" "session_ok (granted_address (en_sign N)) (fst c)" shows "session_ok (granted_address (en_sign N)) (fst c')"
  using assms
  by cases (simp_all add: signing_ok key_reading_ok ShowCertificates_def ShowCRLs_def,
    simp_all add: session_ok_def session_ok_setters key_ok_cleared settings_ok_reset)

section \<open>All sessions of a process\<close>

inductive process_step :: "'fs session_env \<Rightarrow> 'fs process \<Rightarrow> 'fs process \<Rightarrow> bool" for N :: "'fs session_env" where
  process_call: "session_call N (sessions p sid, files p) (s', fs') \<Longrightarrow>
    process_step N p (upd_session sid (\<lambda>_. s') (p\<lparr>files := fs'\<rparr>))"
| process_verify: "session_step (p, own) (p', own') \<Longrightarrow> process_step N p p'"

inductive process_reachable :: "'fs session_env \<Rightarrow> 'fs process \<Rightarrow> bool" for N :: "'fs session_env" where
  process_start: "\<forall>sid. sessions p sid = new_session \<Longrightarrow> process_reachable N p"
| process_next: "\<lbrakk>process_reachable N p; process_step N p p'\<rbrakk> \<Longrightarrow> process_reachable N p'"

lemma session_ok_report [simp]:
  "session_ok A (s\<lparr>last_verify_report := r\<rparr>) = session_ok A s" "session_ok A (s\<lparr>report_epoch := e\<rparr>) = session_ok A s"
  "session_ok A (s\<lparr>last_signer_metadata := m\<rparr>) = session_ok A s" "session_ok A (RefreshUserReportForCurrentOperation s) = session_ok A s"
proof -
  show "session_ok A (RefreshUserReportForCurrentOperation s) = session_ok A s"
    by (simp add: session_ok_def RefreshUserReportForCurrentOperation_def RefreshUserReport_def split: prod.split)
      (simp add: key_ok_def settings_ok_def)
qed (simp_all add: session_ok_def key_ok_def settings_ok_def)

lemma MarkCommitted_ok: "session_ok A (sessions (MarkCommitted t sid p) sid') = session_ok A (sessions p sid')"
  by (cases "sid' = sid") simp_all

lemma upd_session_ok:
  assumes "\<And>s. session_ok A (f s) = session_ok A s" shows "session_ok A (sessions (upd_session sid f p) sid') = session_ok A (sessions p sid')"
  using assms by (cases "sid' = sid") simp_all

lemma verify_step_ok:
  assumes "session_step (p, own) (p', own')" shows "session_ok A (sessions p' sid') = session_ok A (sessions p sid')"
  using assms
proof cases
  case step_failure
  then show ?thesis by (simp add: SetVerifyReport_def Let_def upd_session_ok MarkCommitted_ok)
next
  case step_verified
  then show ?thesis by (simp add: commit_verified_def upd_session_ok MarkCommitted_ok split: option.split)
next
  case step_override
  then show ?thesis by (simp add: OverrideVerifyReportOperation_def upd_session_ok)
qed (simp_all add: rename_report_def upd_session_ok)

text \<open>
  C33. In every state a process can reach from new sessions, through any calls on any of them in any
  order and any interleaving of verifications, each session either has a private key, which is a
  complete DER structure of a known format with key material, or has no trace of one; its trust
  mode, level, addresses, digest and time limits are among the values the setters admit. There is
  one exception: the address of the timestamp service may also be one that signing took from the trust
  list and stored without the check of the setter.
\<close>

theorem reachable_sessions_ok:
  assumes "process_reachable N p"
  shows "key_ok (sessions p sid) \<and> settings_ok (granted_address (en_sign N)) (sessions p sid)"
proof -
  have "\<forall>sid. session_ok (granted_address (en_sign N)) (sessions p sid)"
    using assms
  proof induction
    case (process_start p)
    then show ?case by (simp add: session_ok_new)
  next
    case (process_next p p')
    from process_next.hyps(2) show ?case
    proof cases
      case (process_call sid s' fs')
      then have "session_ok (granted_address (en_sign N)) s'" using session_call_ok [of N "(sessions p sid, files p)" "(s', fs')"] process_next.IH by simp
      then have "session_ok (granted_address (en_sign N)) (sessions (upd_session sid (\<lambda>_. s') (p\<lparr>files := fs'\<rparr>)) i)" for i
        using process_next.IH by (cases "i = sid") simp_all
      then show ?thesis using process_call by simp
    next
      case (process_verify own own')
      then show ?thesis using verify_step_ok process_next.IH by blast
    qed
  qed
  then show ?thesis by (simp add: session_ok_def)
qed

section \<open>A session with a key\<close>

definition sample_key_lib :: "unit key_lib" where
  "sample_key_lib =
     \<lparr>kl_crypto = \<lparr>Gost34311Hash = (\<lambda>data. None), gost28147_ecb_decrypt = (\<lambda>key data. None), gost28147_mac = (\<lambda>key data. None),
        dstu7564_kmac = (\<lambda>key data. None), dstu7624_cbc_decrypt = (\<lambda>key iv data. None)\<rparr>,
      FindMatchingCertificate = (\<lambda>key certificates. None), CertificateResolver_Resolve = (\<lambda>request fs. (Inl ''No certificate'', fs))\<rparr>"

definition sample_sign_lib :: "unit sign_lib" where
  "sample_sign_lib =
     \<lparr>SignDetached = (\<lambda>pkcs12 key certificate password data. Inr (0x30 # data)),
      SignAttached = (\<lambda>pkcs12 key certificate password data. Inr (0x31 # data)),
      GetSignatureValue = (\<lambda>signature. Inr signature), GetSignerDigestAlgorithmOid = (\<lambda>signature. None),
      GetTimestamp = (\<lambda>hash oid url timeout policy. Inl ''No service''), AppendTspToken = (\<lambda>signature token. Inr (signature @ token)),
      ResolveGrantedTspUrl = (\<lambda>fs dir. []), FormatIssuer = (\<lambda>certificate. []),
      sg_digests = \<lparr>ComputeKupyna256 = Some, ComputeGost34311 = Some, ComputeSha384 = Some, ComputeSha512 = Some,
        AssignDigestFromCertificateAdapter = (\<lambda>certificate alg data. Inr data)\<rparr>\<rparr>"

definition sample_session_env :: "unit session_env" where
  "sample_session_env =
     \<lparr>en_verify = sample_lib, en_keys = sample_key_lib, en_sign = sample_sign_lib,
      en_files = \<lparr>file_exists = (\<lambda>fs path. False), WriteBinaryFileAtomic = (\<lambda>path data fs. (True, fs)), truncate_file = (\<lambda>path fs. fs)\<rparr>,
      en_make_dir = (\<lambda>fs. (None, fs)),
      en_sync = (\<lambda>dir trust fs. (\<lparr>sr_succeeded = False, sr_source_url = [], sr_cache_status = [], sr_last_sync = [], sr_message = [],
        sr_xml_signature_status = []\<rparr>, fs))\<rparr>"

definition sample_key_read :: "bool \<times> session \<times> unit" where
  "sample_key_read = ReadPrivateKeyBinary sample_key_lib [0x30, 2, 5, 0] ''pw'' [] [] new_session ()"

lemma sample_key_read_loaded: "is_private_key_loaded (fst (snd sample_key_read))"
  by code_simp

theorem reachable_sessions_ok_witness:
  "\<exists>p. process_reachable sample_session_env p \<and> is_private_key_loaded (sessions p 0)
     \<and> key_ok (sessions p 0) \<and> settings_ok (granted_address (en_sign sample_session_env)) (sessions p 0)"
proof -
  let ?p = "\<lparr>sessions = \<lambda>sid. new_session, g_verify_report_epoch = 0, t_last_verify_commit_epoch = \<lambda>t. 0, files = ()\<rparr>"
  let ?q = "upd_session 0 (\<lambda>_. fst (snd sample_key_read)) (?p\<lparr>files := snd (snd sample_key_read)\<rparr>)"
  have "session_call sample_session_env (sessions ?p 0, files ?p) (snd sample_key_read)"
    using call_read_binary [of sample_session_env new_session "()" "[0x30, 2, 5, 0]" "''pw''" "[]" "[]"]
    by (simp add: sample_key_read_def sample_session_env_def)
  then have "process_step sample_session_env ?p ?q"
    using process_call [of sample_session_env ?p 0 "fst (snd sample_key_read)" "snd (snd sample_key_read)"] by (simp only: prod.collapse)
  then have q: "process_reachable sample_session_env ?q"
    using process_next [OF process_start] by (metis (no_types, lifting) process.select_convs(1))
  show ?thesis using q sample_key_read_loaded reachable_sessions_ok [OF q, of 0] by (intro exI [of _ ?q]) simp
qed

end
