(* ===== verification/Cli.thy ===== *)
theory Cli
  imports Cli_Exit Session_Life
begin

text \<open>
  The command line tool (\<open>cli/main.cpp\<close>): options and the configuration file, the configuration of a
  session, and the commands. A run is the exit code with what was written to the two streams and
  the state of the process, whose session 0 the commands use. The operations on XML, PDF and ASiC
  documents, the files and the texts of help are in the record \<open>cli_env\<close>. The exit code of the
  process and the bytes on the streams are all a caller sees.
\<close>

section \<open>Streams and files\<close>

record 'fs cli =
  cl_process :: "'fs process"
  cl_out :: string
  cl_err :: string

record 'fs cli_env =
  ce_session :: "'fs session_env"
  ce_chain_debug :: "session \<Rightarrow> string"
  ce_cryptonite :: bool
  ce_http :: bool
  ReadTextFileLimited :: "'fs \<Rightarrow> string \<Rightarrow> int \<Rightarrow> string + string"
  WriteTextFileAtomic :: "string \<Rightarrow> string \<Rightarrow> 'fs \<Rightarrow> bool \<times> 'fs"
  open_config :: "'fs \<Rightarrow> string \<Rightarrow> string option"
  usage_text :: string
  trust_usage_text :: string
  verify_usage_text :: string
  SignXml :: "string \<Rightarrow> string \<Rightarrow> session \<Rightarrow> 'fs \<Rightarrow> bool \<times> string \<times> session \<times> 'fs"
  SignPdf :: "bytes \<Rightarrow> string \<Rightarrow> session \<Rightarrow> 'fs \<Rightarrow> bool \<times> bytes \<times> session \<times> 'fs"
  SignFileAsicS :: "string \<Rightarrow> string \<Rightarrow> session \<Rightarrow> 'fs \<Rightarrow> bool \<times> session \<times> 'fs"
  SignFileAsicE :: "string \<Rightarrow> string \<Rightarrow> session \<Rightarrow> 'fs \<Rightarrow> bool \<times> session \<times> 'fs"
  SignFileAsicSCades :: "string \<Rightarrow> string \<Rightarrow> session \<Rightarrow> 'fs \<Rightarrow> bool \<times> session \<times> 'fs"
  SignFileAsicECades :: "string \<Rightarrow> string \<Rightarrow> session \<Rightarrow> 'fs \<Rightarrow> bool \<times> session \<times> 'fs"
  VerifyXml :: "string \<Rightarrow> 'fs process \<Rightarrow> bool \<times> bool \<times> 'fs process"
  VerifyPdf :: "bytes \<Rightarrow> 'fs process \<Rightarrow> bool \<times> bool \<times> 'fs process"
  VerifyFileAsicS :: "string \<Rightarrow> 'fs process \<Rightarrow> bool \<times> bool \<times> 'fs process"
  VerifyFileAsicE :: "string \<Rightarrow> 'fs process \<Rightarrow> bool \<times> bool \<times> 'fs process"
  VerifyFileAsicEXades :: "string \<Rightarrow> 'fs process \<Rightarrow> bool \<times> bool \<times> 'fs process"

definition cerr_line :: "string \<Rightarrow> 'fs cli \<Rightarrow> 'fs cli" where
  "cerr_line line st = st\<lparr>cl_err := cl_err st @ line @ [CHR 0x0A]\<rparr>"

definition cout_line :: "string \<Rightarrow> 'fs cli \<Rightarrow> 'fs cli" where
  "cout_line line st = st\<lparr>cl_out := cl_out st @ line @ [CHR 0x0A]\<rparr>"

definition fail_with :: "int \<Rightarrow> string \<Rightarrow> 'fs cli \<Rightarrow> int \<times> 'fs cli" where
  "fail_with exit_code line st = (exit_code, cerr_line line st)"

definition cli_session :: "'fs cli \<Rightarrow> session" where
  "cli_session st = sessions (cl_process st) 0"

definition error_message :: "'fs cli \<Rightarrow> string" where
  "error_message st = le_message (last_error (cli_session st))"

definition cli_files :: "'fs cli \<Rightarrow> 'fs" where
  "cli_files st = files (cl_process st)"

definition set_files :: "'fs \<Rightarrow> 'fs cli \<Rightarrow> 'fs cli" where
  "set_files fs st = st\<lparr>cl_process := (cl_process st)\<lparr>files := fs\<rparr>\<rparr>"

text \<open>A call of an operation of the session, which may change the session and the files.\<close>

definition on_session :: "(session \<Rightarrow> 'fs \<Rightarrow> bool \<times> session \<times> 'fs) \<Rightarrow> 'fs cli \<Rightarrow> bool \<times> 'fs cli" where
  "on_session operation st =
     (case operation (cli_session st) (cli_files st) of
        (ok, s, fs) \<Rightarrow> (ok, set_files fs (st\<lparr>cl_process := upd_session 0 (\<lambda>_. s) (cl_process st)\<rparr>)))"

definition on_process :: "('fs process \<Rightarrow> bool \<times> bool \<times> 'fs process) \<Rightarrow> 'fs cli \<Rightarrow> bool \<times> bool \<times> 'fs cli" where
  "on_process operation st =
     (case operation (cl_process st) of (ok, valid, p) \<Rightarrow> (ok, valid, st\<lparr>cl_process := p\<rparr>))"

definition Cli_ReadBinaryFile :: "'fs cli_env \<Rightarrow> string \<Rightarrow> 'fs cli \<Rightarrow> bytes option" where
  "Cli_ReadBinaryFile C path st =
     (case ReadBinaryFileLimited (en_verify (ce_session C)) (cli_files st) path kMaxInputFileSize of Inl _ \<Rightarrow> None | Inr data \<Rightarrow> Some data)"

definition Cli_ReadTextFile :: "'fs cli_env \<Rightarrow> string \<Rightarrow> 'fs cli \<Rightarrow> string option" where
  "Cli_ReadTextFile C path st =
     (case ReadTextFileLimited C (cli_files st) path kMaxInputFileSize of Inl _ \<Rightarrow> None | Inr content \<Rightarrow> Some content)"

definition Cli_WriteBinaryFile :: "'fs cli_env \<Rightarrow> string \<Rightarrow> bytes \<Rightarrow> 'fs cli \<Rightarrow> bool \<times> 'fs cli" where
  "Cli_WriteBinaryFile C path data st =
     (case WriteBinaryFileAtomic (en_files (ce_session C)) path data (cli_files st) of (ok, fs) \<Rightarrow> (ok, set_files fs st))"

definition Cli_WriteTextFile :: "'fs cli_env \<Rightarrow> string \<Rightarrow> string \<Rightarrow> 'fs cli \<Rightarrow> bool \<times> 'fs cli" where
  "Cli_WriteTextFile C path content st =
     (case WriteTextFileAtomic C path content (cli_files st) of (ok, fs) \<Rightarrow> (ok, set_files fs st))"

definition is_blank :: "char \<Rightarrow> bool" where
  "is_blank ch \<longleftrightarrow> ch = CHR '' '' \<or> ch = CHR 0x09 \<or> ch = CHR 0x0D \<or> ch = CHR 0x0A"

definition Trim :: "string \<Rightarrow> string" where
  "Trim v = rev (dropWhile is_blank (rev (dropWhile is_blank v)))"

text \<open>A password has a limit of its own; blanks at its end are cut off.\<close>

definition ReadPasswordFile :: "'fs cli_env \<Rightarrow> string \<Rightarrow> 'fs cli \<Rightarrow> string + string" where
  "ReadPasswordFile C path st =
     (case ReadBinaryFileLimited (en_verify (ce_session C)) (cli_files st) path (64 * 1024) of
        Inl err \<Rightarrow> Inl err
      | Inr raw \<Rightarrow>
          (let password = rev (dropWhile is_blank (rev (string_of_bytes raw)))
           in if password = [] then Inl ''password file is empty'' else Inr password))"

section \<open>Options\<close>

record CliOptions =
  co_command :: string
  co_subcommand :: string
  co_help :: bool
  co_values :: "string \<rightharpoonup> string"

fun split_lines :: "string \<Rightarrow> string list" where
  "split_lines [] = [[]]"
| "split_lines (ch # s) =
     (if ch = CHR 0x0A then [] # split_lines s
      else case split_lines s of line # lines \<Rightarrow> (ch # line) # lines | [] \<Rightarrow> [[ch]])"

fun config_lines :: "string list \<Rightarrow> (string \<rightharpoonup> string) \<Rightarrow> (string \<rightharpoonup> string) option" where
  "config_lines [] values = Some values"
| "config_lines (line # lines) values =
     (let trimmed = Trim line
      in if trimmed = [] \<or> hd trimmed = CHR ''#'' then config_lines lines values
         else case find_char CHR ''='' trimmed of
           None \<Rightarrow> None
         | Some separator \<Rightarrow>
             config_lines lines (values(Trim (take separator trimmed) \<mapsto> Trim (drop (separator + 1) trimmed))))"

definition LoadConfig :: "string option \<Rightarrow> (string \<rightharpoonup> string) option" where
  "LoadConfig content = (case content of None \<Rightarrow> None | Some content \<Rightarrow> config_lines (split_lines content) Map.empty)"

fun parse_pairs :: "bool \<Rightarrow> string list \<Rightarrow> CliOptions \<Rightarrow> CliOptions option" where
  "parse_pairs has_help [] options = Some options"
| "parse_pairs has_help (arg # args) options =
     (if \<not> prefix ''--'' arg then None
      else if drop 2 arg = ''help'' \<and> has_help then parse_pairs has_help args (options\<lparr>co_help := True\<rparr>)
      else case args of
        [] \<Rightarrow> None
      | v # rest \<Rightarrow> parse_pairs has_help rest (options\<lparr>co_values := (co_values options)(drop 2 arg \<mapsto> v)\<rparr>))"

text \<open>
  The arguments are those after the name of the program. Where they are refused, the result is the
  line for the error stream, if there is one.
\<close>

definition ParseArgs :: "(string \<Rightarrow> string option) \<Rightarrow> string list \<Rightarrow> string option + CliOptions" where
  "ParseArgs read args =
     (case args of
        [] \<Rightarrow> Inl None
      | command # args \<Rightarrow>
          (let options = \<lparr>co_command = command, co_subcommand = [], co_help = False, co_values = Map.empty\<rparr>;
               has_help = (command = ''trust'' \<or> command = ''verify'')
           in if command = ''--help'' \<or> command = ''help'' then Inr (options\<lparr>co_help := True\<rparr>)
              else
                let (options, args) =
                  (case args of
                     candidate # rest \<Rightarrow> if has_help \<and> \<not> prefix ''--'' candidate then (options\<lparr>co_subcommand := candidate\<rparr>, rest) else (options, args)
                   | [] \<Rightarrow> (options, args))
                in if has_help \<and> ''--help'' \<in> set args then Inr (options\<lparr>co_help := True\<rparr>)
                   else case parse_pairs has_help args options of
                     None \<Rightarrow> Inl None
                   | Some options \<Rightarrow>
                       (case co_values options ''config'' of
                          None \<Rightarrow> Inr options
                        | Some path \<Rightarrow>
                            (case LoadConfig (read path) of
                               None \<Rightarrow> Inl (Some (''Cannot read config file: '' @ path))
                             | Some config_values \<Rightarrow> Inr (options\<lparr>co_values := config_values ++ co_values options\<rparr>)))))"

definition GetValue :: "CliOptions \<Rightarrow> string \<Rightarrow> string" where
  "GetValue options key = (case co_values options key of None \<Rightarrow> [] | Some v \<Rightarrow> v)"

text \<open>\<open>std::stoi\<close> with the rest it did not read; \<open>None\<close> where it throws.\<close>

definition stoi :: "string \<Rightarrow> (int \<times> string) option" where
  "stoi s =
     (let t = dropWhile isspace s;
          negative = (case t of ch # _ \<Rightarrow> ch = CHR ''-'' | [] \<Rightarrow> False);
          body = (case t of ch # r \<Rightarrow> if ch = CHR ''-'' \<or> ch = CHR ''+'' then r else t | [] \<Rightarrow> t);
          ds = takeWhile isdigit body;
          v = (if negative then - digits_number 10 ds else digits_number 10 ds)
      in if ds = [] \<or> v < - (2 ^ 31) \<or> v > 2 ^ 31 - 1 then None else Some (v, drop (length ds) body))"

definition TryParseInt :: "CliOptions \<Rightarrow> string \<Rightarrow> int \<Rightarrow> int option" where
  "TryParseInt options key default_value =
     (let v = GetValue options key
      in if v = [] then Some default_value
         else case stoi v of Some (n, []) \<Rightarrow> Some n | _ \<Rightarrow> None)"

definition IsAllowedReportMode :: "string \<Rightarrow> bool" where
  "IsAllowedReportMode m \<longleftrightarrow> m = [] \<or> m = ''technical-json'' \<or> m = ''pretty-json''"

definition IsAllowedValidationProfile :: "string \<Rightarrow> bool" where
  "IsAllowedValidationProfile p \<longleftrightarrow> p = [] \<or> p \<in> set [''strict'', ''compatibility'', ''ukraine-legal'', ''offline'', ''forensic'']"

definition IsAllowedValidationLevel :: "string \<Rightarrow> bool" where
  "IsAllowedValidationLevel l \<longleftrightarrow> l = [] \<or> l \<in> set [''basic'', ''standard'', ''extended'', ''forensic'']"

definition IsAllowedFormat :: "string \<Rightarrow> bool \<Rightarrow> bool" where
  "IsAllowedFormat fmt is_sign \<longleftrightarrow>
     fmt = [] \<or>
     (if is_sign then fmt \<in> set [''cms'', ''cms-detached'', ''cms-attached'', ''cades-bes'', ''cades-t'', ''xades'', ''xades-bes'', ''xades-t'',
        ''pades'', ''pades-b'', ''pades-t'', ''pades-lt'', ''pades-lta'', ''asic-s'', ''asic-e'', ''asic-s-cades'', ''asic-e-cades'']
      else fmt \<in> set [''cms'', ''cms-detached'', ''cms-attached'', ''cades-bes'', ''cades-t'', ''xades'', ''xmldsig'', ''pades'', ''pades-b'',
        ''pades-t'', ''pades-lt'', ''pades-lta'', ''asic-s'', ''asic-e'', ''asic-e-xades'', ''asic-s-cades'', ''asic-e-cades''])"

text \<open>The first option of several names that has a value.\<close>

fun first_value :: "CliOptions \<Rightarrow> string list \<Rightarrow> string" where
  "first_value options [] = []"
| "first_value options (key # keys') = (if GetValue options key \<noteq> [] then GetValue options key else first_value options keys')"

section \<open>A session for a command\<close>

definition cli_settings :: "CliOptions \<Rightarrow> Settings" where
  "cli_settings options =
     (let cfg = default_settings\<lparr>cfg_offline_mode := GetValue options ''offline'' \<noteq> ''false'', cfg_work_dir := GetValue options ''work-dir''\<rparr>;
          trust_mode = GetValue options ''trust-mode'';
          cfg = (if trust_mode \<noteq> [] then cfg\<lparr>cfg_trust_mode := trust_mode\<rparr> else cfg);
          profile = GetValue options ''validation-profile'';
          cfg = (if profile = ''strict'' then cfg\<lparr>cfg_trust_mode := ''strict''\<rparr>
            else if profile = ''compatibility'' \<or> profile = ''ukraine-legal'' then cfg\<lparr>cfg_trust_mode := ''compatibility''\<rparr>
            else if profile = ''offline'' then cfg\<lparr>cfg_offline_mode := True, cfg_trust_mode := ''strict''\<rparr>
            else if profile = ''forensic'' then cfg\<lparr>cfg_trust_mode := ''compatibility''\<rparr>
            else cfg);
          level = GetValue options ''validation-level''
      in if level \<noteq> [] then cfg\<lparr>cfg_validation_level := level\<rparr> else cfg)"

definition ConfigureSession :: "'fs cli_env \<Rightarrow> CliOptions \<Rightarrow> 'fs cli \<Rightarrow> bool \<times> 'fs cli" where
  "ConfigureSession C options st =
     (case on_session (\<lambda>s fs. case SetSettings (cli_settings options) s of (ok, s) \<Rightarrow> (ok, s, fs)) st of
        (ok, st) \<Rightarrow> if \<not> ok then (False, st) else on_session (Initialize (en_make_dir (ce_session C))) st)"

definition optional_member :: "string \<Rightarrow> string \<Rightarrow> string" where
  "optional_member name v = (if v = [] then [] else '','' @ jstr name (EscapeJson v))"

definition key_descriptor :: "string \<Rightarrow> string \<Rightarrow> string \<Rightarrow> string \<Rightarrow> string \<Rightarrow> string \<Rightarrow> string \<Rightarrow> string" where
  "key_descriptor key_path password key_password jks_alias cert_path ca_hint edrpou =
     ''{'' @ jstr ''path'' (EscapeJson key_path)
     @ optional_member ''password'' password @ optional_member ''keyPassword'' key_password @ optional_member ''alias'' jks_alias
     @ optional_member ''certificatePath'' cert_path @ optional_member ''ca'' ca_hint @ optional_member ''subject'' edrpou @ ''}''"

text \<open>A password from a file or from the arguments, not both; an error is written at once.\<close>

definition password_option :: "'fs cli_env \<Rightarrow> CliOptions \<Rightarrow> string list \<Rightarrow> string \<Rightarrow> 'fs cli \<Rightarrow> string + string" where
  "password_option C options names file_name st =
     (let password = first_value options names;
          password_file = GetValue options file_name
      in if password_file = [] then Inr password
         else if password \<noteq> [] then Inl (''Specify either --'' @ hd names @ '' or --'' @ file_name @ '', not both'')
         else case ReadPasswordFile C password_file st of
           Inl read_error \<Rightarrow> Inl (''Cannot read --'' @ file_name @ '': '' @ read_error)
         | Inr password \<Rightarrow> Inr password)"

text \<open>The result, the message of a failed load, and the state.\<close>

definition LoadKeyIfSpecified :: "'fs cli_env \<Rightarrow> CliOptions \<Rightarrow> 'fs cli \<Rightarrow> bool \<times> string \<times> 'fs cli" where
  "LoadKeyIfSpecified C options st =
     (let key_path = first_value options [''key'', ''key-path'', ''key-file'']
      in if key_path = [] then (True, [], st)
         else case password_option C options [''password'', ''pass''] ''password-file'' st of
           Inl line \<Rightarrow> (False, [], cerr_line line st)
         | Inr password \<Rightarrow>
             (case password_option C options [''key-password'', ''entry-password''] ''key-password-file'' st of
                Inl line \<Rightarrow> (False, [], cerr_line line st)
              | Inr key_password \<Rightarrow>
                  (let jks_alias = GetValue options ''alias'';
                       cert_path = first_value options [''cert'', ''cert-path'', ''certificate-path''];
                       ca_hint = first_value options [''ca'', ''provider''];
                       edrpou = first_value options [''edrpou'', ''drfo'', ''subject''];
                       descriptor = key_descriptor key_path password key_password jks_alias cert_path ca_hint edrpou
                   in case on_session (ReadPrivateKey (en_verify (ce_session C)) (en_keys (ce_session C)) descriptor password) st of
                        (True, st) \<Rightarrow> (True, [], st)
                      | (False, st) \<Rightarrow> (False, error_message st, st))))"

definition technical_report :: "'fs cli_env \<Rightarrow> 'fs cli \<Rightarrow> string" where
  "technical_report C st =
     (let s = cli_session st in GetLastVerifyReport (last_trust_list_sync_report s) (ce_chain_debug C s) (last_verify_report s))"

definition MapVerificationExitCode :: "'fs cli_env \<Rightarrow> 'fs cli \<Rightarrow> bool \<Rightarrow> int" where
  "MapVerificationExitCode C st is_valid =
     (if is_valid then 0
      else VerificationFailureExitCode (le_code (last_error (cli_session st))) (ReadVerifyReportFacts (technical_report C st)))"

section \<open>Commands\<close>

definition RunBase64Encode :: "'fs cli_env \<Rightarrow> CliOptions \<Rightarrow> 'fs cli \<Rightarrow> int \<times> 'fs cli" where
  "RunBase64Encode C options st =
     (case Cli_ReadBinaryFile C (GetValue options ''input'') st of
        None \<Rightarrow> fail_with 1 ''Cannot read input'' st
      | Some input \<Rightarrow>
          (let encoded = Base64Encode input; output_path = GetValue options ''output''
           in if output_path = [] then (0, cout_line encoded st)
              else case Cli_WriteBinaryFile C output_path (bytes_of_string encoded) st of (ok, st) \<Rightarrow> (if ok then 0 else 1, st)))"

definition RunBase64Decode :: "'fs cli_env \<Rightarrow> CliOptions \<Rightarrow> 'fs cli \<Rightarrow> int \<times> 'fs cli" where
  "RunBase64Decode C options st =
     (case Cli_ReadBinaryFile C (GetValue options ''input'') st of
        None \<Rightarrow> fail_with 1 ''Cannot read input'' st
      | Some encoded_bytes \<Rightarrow>
          (case Base64Decode (string_of_bytes encoded_bytes) of
             None \<Rightarrow> fail_with 1 ''Invalid base64 input'' st
           | Some decoded \<Rightarrow>
               (let output_path = GetValue options ''output''
                in if output_path = [] then (0, st\<lparr>cl_out := cl_out st @ string_of_bytes decoded\<rparr>)
                   else case Cli_WriteBinaryFile C output_path decoded st of (ok, st) \<Rightarrow> (if ok then 0 else 1, st))))"

definition RunMedia :: "'fs cli_env \<Rightarrow> CliOptions \<Rightarrow> 'fs cli \<Rightarrow> int \<times> 'fs cli" where
  "RunMedia C options st =
     (case ConfigureSession C options st of
        (False, st) \<Rightarrow> fail_with 1 (error_message st) st
      | (True, st) \<Rightarrow> (0, cout_line (DescribeSupportedMedia (ce_cryptonite C) (ce_http C)) st))"

definition RunTrustSync :: "'fs cli_env \<Rightarrow> CliOptions \<Rightarrow> 'fs cli \<Rightarrow> int \<times> 'fs cli" where
  "RunTrustSync C options st =
     (let work_dir = GetValue options ''work-dir'';
          offline = GetValue options ''offline'';
          url = GetValue options ''url'';
          trust = default_trust_list_settings;
          trust = (if url \<noteq> [] then trust\<lparr>tls_url := url\<rparr> else trust)
      in if work_dir = [] then fail_with 1 ''Missing required --work-dir'' st
         else if offline \<noteq> [] \<and> offline \<noteq> ''false'' then fail_with 1 ''trust sync is online-only; use --offline false or omit --offline'' st
         else case (TryParseInt options ''timeout-ms'' (tls_timeout_ms trust), TryParseInt options ''ttl-hours'' (tls_cache_ttl_hours trust)) of
           (Some timeout, Some ttl) \<Rightarrow>
             if timeout \<le> 0 \<or> timeout > 300000 \<or> ttl \<le> 0 then fail_with 1 ''Invalid numeric trust sync option'' st
             else
               let st = snd (on_session (\<lambda>s fs. (True, snd (SetSettings (default_settings\<lparr>cfg_offline_mode := False, cfg_work_dir := work_dir\<rparr>) s), fs)) st);
                   st = snd (on_session (Initialize (en_make_dir (ce_session C))) st)
               in (case on_session (\<lambda>s fs. case SetTrustListSettings (trust\<lparr>tls_timeout_ms := timeout, tls_cache_ttl_hours := ttl\<rparr>) s of
                          (ok, s) \<Rightarrow> (ok, s, fs)) st of
                     (False, st) \<Rightarrow> fail_with 1 (error_message st) st
                   | (True, st) \<Rightarrow>
                       (case on_session (SyncTrustList (en_sync (ce_session C))) st of
                          (synced, st) \<Rightarrow>
                            let st = cout_line (technical_report C st) st
                            in if synced then (0, st)
                               else fail_with (if le_code (last_error (cli_session st)) = Err_OnlineServiceUnavailable then 3 else 1) (error_message st) st))
         | _ \<Rightarrow> fail_with 1 ''Invalid numeric trust sync option'' st)"

text \<open>A document that is read, signed and written; the two outer cases leave the command at once.\<close>

definition sign_document ::
    "string \<Rightarrow> string \<Rightarrow> 'a option \<Rightarrow> ('a \<Rightarrow> session \<Rightarrow> 'fs \<Rightarrow> bool \<times> 'b \<times> session \<times> 'fs) \<Rightarrow> ('b \<Rightarrow> 'fs cli \<Rightarrow> bool \<times> 'fs cli) \<Rightarrow> 'fs cli
     \<Rightarrow> (int \<times> 'fs cli) + bool \<times> 'fs cli" where
  "sign_document what input_path content sign write st =
     (case content of
        None \<Rightarrow> Inl (fail_with 1 (''Cannot read '' @ what @ '': '' @ input_path) st)
      | Some content \<Rightarrow>
          (case sign content (cli_session st) (cli_files st) of
             (success, result, s, fs) \<Rightarrow>
               let st = set_files fs (st\<lparr>cl_process := upd_session 0 (\<lambda>_. s) (cl_process st)\<rparr>)
               in Inr (if success then write result st else (False, st))))"

definition sign_by_format :: "'fs cli_env \<Rightarrow> string \<Rightarrow> string \<Rightarrow> string \<Rightarrow> 'fs cli \<Rightarrow> (int \<times> 'fs cli) + bool \<times> 'fs cli" where
  "sign_by_format C format input_path output_path st =
     (let L = en_verify (ce_session C); G = en_sign (ce_session C);
          raw_sign = (\<lambda>mode. Inr (on_session (RawSignFile L G (en_files (ce_session C)) input_path output_path mode) st));
          sign_xml = (\<lambda>profile. sign_document ''input XML file'' input_path (Cli_ReadTextFile C input_path st)
            (\<lambda>xml_in. SignXml C xml_in profile) (Cli_WriteTextFile C output_path) st)
      in if format = [] \<or> format = ''cms'' \<or> format = ''cms-detached'' then raw_sign Timestamp_BestEffort
         else if format = ''cades-bes'' then raw_sign Timestamp_Disabled
         else if format = ''cades-t'' then raw_sign Timestamp_Required
         else if format = ''cms-attached'' then
           sign_document ''input file'' input_path (Cli_ReadBinaryFile C input_path st)
             (\<lambda>input_bytes s fs. case SignDataInternal G input_bytes Timestamp_BestEffort s fs of (ok, signed_bytes, s) \<Rightarrow> (ok, signed_bytes, s, fs))
             (Cli_WriteBinaryFile C output_path) st
         else if format = ''xades'' \<or> format = ''xades-bes'' then sign_xml ''xades-bes''
         else if format = ''xades-t'' then sign_xml ''xades-t''
         else if format \<in> set [''pades'', ''pades-b'', ''pades-t'', ''pades-lt'', ''pades-lta''] then
           sign_document ''input PDF file'' input_path (Cli_ReadBinaryFile C input_path st)
             (\<lambda>pdf_in. SignPdf C pdf_in (if format = ''pades'' then [] else format)) (Cli_WriteBinaryFile C output_path) st
         else if format = ''asic-s'' then Inr (on_session (SignFileAsicS C input_path output_path) st)
         else if format = ''asic-e'' then Inr (on_session (SignFileAsicE C input_path output_path) st)
         else if format = ''asic-s-cades'' then Inr (on_session (SignFileAsicSCades C input_path output_path) st)
         else if format = ''asic-e-cades'' then Inr (on_session (SignFileAsicECades C input_path output_path) st)
         else Inr (False, st))"

definition RunSignFile :: "'fs cli_env \<Rightarrow> CliOptions \<Rightarrow> 'fs cli \<Rightarrow> int \<times> 'fs cli" where
  "RunSignFile C options st =
     (let format = first_value options [''format'', ''signature-format''];
          input_path = GetValue options ''input'';
          output_path = GetValue options ''output''
      in if \<not> IsAllowedFormat format True then fail_with 1 (''Unknown signature format: '' @ format) st
         else if input_path = [] \<or> output_path = [] then fail_with 1 ''Missing required --input or --output'' st
         else case ConfigureSession C options st of
           (False, st) \<Rightarrow> fail_with 1 (error_message st) st
         | (True, st) \<Rightarrow>
             (case LoadKeyIfSpecified C options st of
                (False, key_error, st) \<Rightarrow> fail_with 2 (if key_error = [] then ''Failed to load private key'' else key_error) st
              | (True, _, st) \<Rightarrow>
                  if \<not> is_private_key_loaded (cli_session st)
                  then fail_with 2 ''Private key is not loaded. Specify --key <path> and --password <pass>'' st
                  else case sign_by_format C format input_path output_path st of
                    Inl result \<Rightarrow> result
                  | Inr (True, st) \<Rightarrow> (0, st)
                  | Inr (False, st) \<Rightarrow>
                      let err = last_error (cli_session st)
                      in fail_with (SignFailureExitCode (le_code err) (le_message err))
                           (if le_message err = [] then ''Sign operation failed'' else le_message err) st))"

text \<open>A verification by its format; the first case leaves the command at once.\<close>

definition verify_by_format ::
    "('cert, 'crl, 'req, 'resp, 'fs) environment \<Rightarrow> 'fs storage \<Rightarrow> 'fs cli_env \<Rightarrow> string \<Rightarrow> string \<Rightarrow> string \<Rightarrow> 'fs cli
     \<Rightarrow> (int \<times> 'fs cli) + bool \<times> bool \<times> 'fs cli" where
  "verify_by_format E F C format input_path signature_path st =
     (let L = en_verify (ce_session C);
          target_file = (if input_path = [] then signature_path else input_path);
          cannot_read = (\<lambda>what. Inl (fail_with 1 (''Cannot read '' @ what @ '': '' @ target_file) st))
      in if format \<in> set [[], ''cms'', ''cms-detached'', ''cades-bes'', ''cades-t''] then
           (if input_path = [] \<or> signature_path = []
            then Inl (fail_with 1 ''CMS detached verification requires both --input and --signature'' st)
            else Inr (on_process (RawVerifyFile E F L 0 0 input_path signature_path) st))
         else if format = ''cms-attached'' then
           (case Cli_ReadBinaryFile C target_file st of
              None \<Rightarrow> cannot_read ''attached CMS file''
            | Some data \<Rightarrow> Inr (on_process (\<lambda>p. case VerifyDataInternal E F L 0 0 data p of (ok, valid, content, p) \<Rightarrow> (ok, valid, p)) st))
         else if format = ''xades'' \<or> format = ''xmldsig'' then
           (case Cli_ReadTextFile C target_file st of None \<Rightarrow> cannot_read ''XML file'' | Some xml \<Rightarrow> Inr (on_process (VerifyXml C xml) st))
         else if format \<in> set [''pades'', ''pades-b'', ''pades-t'', ''pades-lt'', ''pades-lta''] then
           (case Cli_ReadBinaryFile C target_file st of None \<Rightarrow> cannot_read ''PDF file'' | Some pdf \<Rightarrow> Inr (on_process (VerifyPdf C pdf) st))
         else if format = ''asic-s'' then Inr (on_process (VerifyFileAsicS C target_file) st)
         else if format = ''asic-e'' then Inr (on_process (VerifyFileAsicE C target_file) st)
         else if format = ''asic-s-cades'' then Inr (on_process (VerifyFileAsicS C target_file) st)
         else if format = ''asic-e-cades'' then Inr (on_process (VerifyFileAsicE C target_file) st)
         else if format = ''asic-e-xades'' then Inr (on_process (VerifyFileAsicEXades C target_file) st)
         else Inr (False, False, st))"

text \<open>The end of a verification: the requested report, what is printed, and the code.\<close>

definition finish_verify :: "'fs cli_env \<Rightarrow> CliOptions \<Rightarrow> bool \<Rightarrow> bool \<Rightarrow> 'fs cli \<Rightarrow> int \<times> 'fs cli" where
  "finish_verify C options execution_ok valid st =
     (let report_mode = GetValue options ''report'';
          evidence_out = GetValue options ''evidence-out''
      in case WriteEvidence evidence_out (Some (technical_report C st)) (WriteTextFileAtomic C) (cli_files st) of
           (outcome, fs) \<Rightarrow>
             let st = set_files fs st;
                 st = (if outcome = Evidence_ReportUnavailable then cerr_line (''Cannot build evidence report: '' @ error_message st) st
                   else if outcome = Evidence_WriteFailed then cerr_line (''Cannot write evidence file: '' @ evidence_out) st else st)
             in if \<not> execution_ok then
                  (ApplyEvidenceOutcome outcome (MapVerificationExitCode C st False), cerr_line (error_message st) st)
                else
                  (ApplyEvidenceOutcome outcome (MapVerificationExitCode C st valid),
                   cout_line (if report_mode = ''technical-json'' then technical_report C st
                     else if report_mode = ''pretty-json'' then last_user_report_json (cli_session st)
                     else if valid then ''valid'' else ''invalid'') st))"

definition RunVerifyFile ::
    "('cert, 'crl, 'req, 'resp, 'fs) environment \<Rightarrow> 'fs storage \<Rightarrow> 'fs cli_env \<Rightarrow> CliOptions \<Rightarrow> 'fs cli \<Rightarrow> int \<times> 'fs cli" where
  "RunVerifyFile E F C options st =
     (let report_mode = GetValue options ''report'';
          validation_profile = GetValue options ''validation-profile'';
          validation_level = GetValue options ''validation-level'';
          format = first_value options [''format'', ''signature-format''];
          input_path = GetValue options ''input'';
          signature_path = GetValue options ''signature''
      in if \<not> IsAllowedReportMode report_mode then fail_with 1 (''Unknown report mode: '' @ report_mode) st
         else if \<not> IsAllowedValidationProfile validation_profile then fail_with 1 (''Unknown validation profile: '' @ validation_profile) st
         else if \<not> IsAllowedValidationLevel validation_level then fail_with 1 (''Unknown validation level: '' @ validation_level) st
         else if \<not> IsAllowedFormat format False then fail_with 1 (''Unknown signature format: '' @ format) st
         else if input_path = [] \<and> signature_path = [] then fail_with 1 ''Missing required --input'' st
         else case ConfigureSession C options st of
           (False, st) \<Rightarrow> fail_with 1 (error_message st) st
         | (True, st) \<Rightarrow>
             (case verify_by_format E F C format input_path signature_path st of
                Inl result \<Rightarrow> result
              | Inr (execution_ok, valid, st) \<Rightarrow> finish_verify C options execution_ok valid st))"

definition new_process :: "'fs \<Rightarrow> 'fs process" where
  "new_process fs = \<lparr>sessions = (\<lambda>sid. new_session), g_verify_report_epoch = 0, t_last_verify_commit_epoch = (\<lambda>t. 0), files = fs\<rparr>"

definition cli_main ::
    "('cert, 'crl, 'req, 'resp, 'fs) environment \<Rightarrow> 'fs storage \<Rightarrow> 'fs cli_env \<Rightarrow> string list \<Rightarrow> 'fs \<Rightarrow> int \<times> 'fs cli" where
  "cli_main E F C args fs =
     (let st = \<lparr>cl_process = new_process fs, cl_out = [], cl_err = []\<rparr>;
          print = (\<lambda>content st. st\<lparr>cl_out := cl_out st @ content\<rparr>)
      in case ParseArgs (open_config C fs) args of
           Inl line \<Rightarrow> (1, print (usage_text C) (case line of None \<Rightarrow> st | Some line \<Rightarrow> cerr_line line st))
         | Inr options \<Rightarrow>
             (let command = co_command options
              in if command = ''--help'' \<or> command = ''help'' then (0, print (usage_text C) st)
                 else if command = ''media'' then RunMedia C options st
                 else if command = ''base64-encode'' then RunBase64Encode C options st
                 else if command = ''base64-decode'' then RunBase64Decode C options st
                 else if command = ''sign-file'' then RunSignFile C options st
                 else if command = ''verify-file'' then RunVerifyFile E F C options st
                 else if command = ''trust'' then
                   (if co_help options \<or> co_subcommand options = [] then (0, print (trust_usage_text C) st)
                    else if co_subcommand options = ''sync'' then RunTrustSync C options st
                    else (1, print (trust_usage_text C) (cerr_line (''Unknown trust command: '' @ co_subcommand options) st)))
                 else if command = ''verify'' then
                   (if co_help options then (0, print (verify_usage_text C) st) else RunVerifyFile E F C options st)
                 else (1, print (usage_text C) (cerr_line (''Unknown command: '' @ command) st))))"

end
