(* ===== verification/C_Api.thy ===== *)
theory C_Api
  imports Cli
begin

text \<open>
  The C interface (\<open>core/TamgaCApi.cpp\<close>, \<open>include/tamga/tamga_c_api.h\<close>). A handle is a session of its own
  process with the error and the texts the interface keeps, or null. A pointer to text is an
  option, an output parameter an option before and after the call. The operations on XML, PDF and
  ASiC documents and the files are those of the record \<open>cli_env\<close>. Exceptions of the operations and
  failures of allocation are not modelled.
\<close>

section \<open>Codes and handles\<close>

datatype tamga_c_error_code_t =
    TAMGA_C_OK | TAMGA_C_ERR_INVALID_ARGUMENT | TAMGA_C_ERR_KEY_NOT_LOADED | TAMGA_C_ERR_ONLINE_UNAVAILABLE
  | TAMGA_C_ERR_SIGNATURE_INVALID | TAMGA_C_ERR_CERT_EXPIRED | TAMGA_C_ERR_CERT_REVOKED | TAMGA_C_ERR_POLICY_INVALID
  | TAMGA_C_ERR_NOT_INITIALIZED | TAMGA_C_ERR_INTERNAL | TAMGA_C_ERR_NOT_SUPPORTED | TAMGA_C_ERR_SETTINGS_REQUIRED
  | TAMGA_C_ERR_GUI_NOT_AVAILABLE | TAMGA_C_ERR_REVOCATION_FAILED | TAMGA_C_ERR_TRUST_FAILED | TAMGA_C_ERR_TIMESTAMP_FAILED

record 'fs tamga_session_opaque =
  cs_process :: "'fs process"
  cs_last_error_message :: string
  cs_last_error_code :: tamga_c_error_code_t
  cs_last_report_cache :: string
  cs_user_report_cache :: string

type_synonym 'fs tamga_session_t = "'fs tamga_session_opaque option"

fun MapErrorCode :: "ErrorCode \<Rightarrow> tamga_c_error_code_t" where
  "MapErrorCode Err_None = TAMGA_C_OK"
| "MapErrorCode Err_NotInitialized = TAMGA_C_ERR_NOT_INITIALIZED"
| "MapErrorCode Err_SettingsRequired = TAMGA_C_ERR_SETTINGS_REQUIRED"
| "MapErrorCode Err_InvalidArgument = TAMGA_C_ERR_INVALID_ARGUMENT"
| "MapErrorCode Err_KeyNotLoaded = TAMGA_C_ERR_KEY_NOT_LOADED"
| "MapErrorCode Err_OnlineServiceUnavailable = TAMGA_C_ERR_ONLINE_UNAVAILABLE"
| "MapErrorCode Err_RevocationCheckFailed = TAMGA_C_ERR_REVOCATION_FAILED"
| "MapErrorCode Err_TrustValidationFailed = TAMGA_C_ERR_TRUST_FAILED"
| "MapErrorCode Err_TimestampValidationFailed = TAMGA_C_ERR_TIMESTAMP_FAILED"
| "MapErrorCode Err_PolicyValidationFailed = TAMGA_C_ERR_POLICY_INVALID"
| "MapErrorCode Err_NotSupported = TAMGA_C_ERR_NOT_SUPPORTED"
| "MapErrorCode Err_GuiNotAvailable = TAMGA_C_ERR_GUI_NOT_AVAILABLE"
| "MapErrorCode Err_InternalError = TAMGA_C_ERR_INTERNAL"

definition c_session :: "'fs tamga_session_opaque \<Rightarrow> session" where
  "c_session s = sessions (cs_process s) 0"

definition c_files :: "'fs tamga_session_opaque \<Rightarrow> 'fs" where
  "c_files s = files (cs_process s)"

definition set_c_files :: "'fs \<Rightarrow> 'fs tamga_session_opaque \<Rightarrow> 'fs tamga_session_opaque" where
  "set_c_files fs s = s\<lparr>cs_process := (cs_process s)\<lparr>files := fs\<rparr>\<rparr>"

definition call_session :: "(session \<Rightarrow> 'fs \<Rightarrow> 'r \<times> session \<times> 'fs) \<Rightarrow> 'fs tamga_session_opaque \<Rightarrow> 'r \<times> 'fs tamga_session_opaque" where
  "call_session operation s =
     (case operation (c_session s) (c_files s) of
        (r, ss, fs) \<Rightarrow> (r, set_c_files fs (s\<lparr>cs_process := upd_session 0 (\<lambda>_. ss) (cs_process s)\<rparr>)))"

definition call_process ::
    "('fs process \<Rightarrow> bool \<times> bool \<times> 'fs process) \<Rightarrow> 'fs tamga_session_opaque \<Rightarrow> bool \<times> bool \<times> 'fs tamga_session_opaque" where
  "call_process operation s =
     (case operation (cs_process s) of (ok, valid, p) \<Rightarrow> (ok, valid, s\<lparr>cs_process := p\<rparr>))"

definition SetLastError :: "tamga_c_error_code_t \<Rightarrow> string \<Rightarrow> 'fs tamga_session_opaque \<Rightarrow> 'fs tamga_session_opaque" where
  "SetLastError c msg s = s\<lparr>cs_last_error_code := c, cs_last_error_message := msg\<rparr>"

definition SyncSessionError :: "'fs tamga_session_opaque \<Rightarrow> 'fs tamga_session_opaque" where
  "SyncSessionError s =
     (let err = last_error (c_session s)
      in s\<lparr>cs_last_error_code := MapErrorCode (le_code err), cs_last_error_message := le_message err\<rparr>)"

section \<open>Files\<close>

definition no_text :: "string option \<Rightarrow> bool" where
  "no_text p \<longleftrightarrow> p = None \<or> p = Some []"

definition ReadBinaryFileArg :: "'fs cli_env \<Rightarrow> string \<Rightarrow> 'fs tamga_session_opaque \<Rightarrow> bytes option" where
  "ReadBinaryFileArg C path s =
     (if path = [] then None
      else case ReadBinaryFileLimited (en_verify (ce_session C)) (c_files s) path kMaxInputFileSize of Inl _ \<Rightarrow> None | Inr data \<Rightarrow> Some data)"

definition C_ReadTextFile :: "'fs cli_env \<Rightarrow> string \<Rightarrow> 'fs tamga_session_opaque \<Rightarrow> string option" where
  "C_ReadTextFile C path s =
     (if path = [] then None
      else case ReadTextFileLimited C (c_files s) path kMaxInputFileSize of Inl _ \<Rightarrow> None | Inr content \<Rightarrow> Some content)"

definition C_WriteBinaryFile :: "'fs cli_env \<Rightarrow> string \<Rightarrow> bytes \<Rightarrow> 'fs tamga_session_opaque \<Rightarrow> bool \<times> 'fs tamga_session_opaque" where
  "C_WriteBinaryFile C path data s =
     (if path = [] then (False, s)
      else case WriteBinaryFileAtomic (en_files (ce_session C)) path data (c_files s) of (ok, fs) \<Rightarrow> (ok, set_c_files fs s))"

definition C_WriteTextFile :: "'fs cli_env \<Rightarrow> string \<Rightarrow> string \<Rightarrow> 'fs tamga_session_opaque \<Rightarrow> bool \<times> 'fs tamga_session_opaque" where
  "C_WriteTextFile C path content s =
     (if path = [] then (False, s)
      else case WriteTextFileAtomic C path content (c_files s) of (ok, fs) \<Rightarrow> (ok, set_c_files fs s))"

section \<open>Formats\<close>

datatype CApiFormat =
    Fmt_CmsDetached | Fmt_CmsAttached | Fmt_CadesBes | Fmt_CadesT | Fmt_XadesBes | Fmt_XadesT | Fmt_Pades
  | Fmt_AsicS | Fmt_AsicE | Fmt_AsicEXades | Fmt_Invalid

definition TimestampModeForFormat :: "CApiFormat \<Rightarrow> TimestampMode" where
  "TimestampModeForFormat format =
     (case format of Fmt_CadesBes \<Rightarrow> Timestamp_Disabled | Fmt_CadesT \<Rightarrow> Timestamp_Required | _ \<Rightarrow> Timestamp_BestEffort)"

definition ParseFormat :: "string option \<Rightarrow> CApiFormat" where
  "ParseFormat raw =
     (if no_text raw \<or> raw = Some ''cms'' \<or> raw = Some ''cms-detached'' then Fmt_CmsDetached
      else if raw = Some ''cms-attached'' then Fmt_CmsAttached
      else if raw = Some ''cades-bes'' then Fmt_CadesBes
      else if raw = Some ''cades-t'' then Fmt_CadesT
      else if raw = Some ''xades'' \<or> raw = Some ''xades-bes'' then Fmt_XadesBes
      else if raw = Some ''xades-t'' then Fmt_XadesT
      else if raw = Some ''pades'' then Fmt_Pades
      else if raw = Some ''asic-s'' then Fmt_AsicS
      else if raw = Some ''asic-e'' then Fmt_AsicE
      else if raw = Some ''asic-e-xades'' then Fmt_AsicEXades
      else if raw = Some ''xmldsig'' then Fmt_XadesBes
      else Fmt_Invalid)"

definition IsXadesFormat :: "string option \<Rightarrow> bool" where
  "IsXadesFormat raw \<longleftrightarrow> raw = Some ''xades'' \<or> raw = Some ''xades-bes'' \<or> raw = Some ''xades-t''"

definition IsXmlDsigFormat :: "string option \<Rightarrow> bool" where
  "IsXmlDsigFormat raw \<longleftrightarrow> raw = Some ''xmldsig''"

definition IsDetachedCmsFormat :: "CApiFormat \<Rightarrow> bool" where
  "IsDetachedCmsFormat format \<longleftrightarrow> format = Fmt_CmsDetached \<or> format = Fmt_CadesBes \<or> format = Fmt_CadesT"

definition RejectFormat :: "string \<Rightarrow> 'fs tamga_session_opaque \<Rightarrow> tamga_c_error_code_t \<times> 'fs tamga_session_opaque" where
  "RejectFormat message s = (TAMGA_C_ERR_INVALID_ARGUMENT, SetLastError TAMGA_C_ERR_INVALID_ARGUMENT message s)"

definition kVerifyFileOperation :: string where
  "kVerifyFileOperation = ''tamga_session_verify_file''"

definition kVerifyDataOperation :: string where
  "kVerifyDataOperation = ''tamga_session_verify_data''"

text \<open>A refused verification leaves a report of its own; a null handle has none.\<close>

definition RejectVerify :: "string \<Rightarrow> string \<Rightarrow> 'fs tamga_session_t \<Rightarrow> tamga_c_error_code_t \<times> 'fs tamga_session_t" where
  "RejectVerify operation message session =
     (TAMGA_C_ERR_INVALID_ARGUMENT,
      map_option (\<lambda>s. SetLastError TAMGA_C_ERR_INVALID_ARGUMENT message
        (s\<lparr>cs_process := RecordVerifyFailure 0 0 operation Err_InvalidArgument message (cs_process s)\<rparr>)) session)"

section \<open>The session\<close>

definition tamga_session_create :: "'fs cli_env \<Rightarrow> 'fs \<Rightarrow> 'fs tamga_session_opaque" where
  "tamga_session_create C fs =
     snd (call_session (Initialize (en_make_dir (ce_session C)))
       \<lparr>cs_process = new_process fs, cs_last_error_message = [], cs_last_error_code = TAMGA_C_OK, cs_last_report_cache = [],
        cs_user_report_cache = []\<rparr>)"

text \<open>The common end of a call; \<open>fallback\<close> is the code where the session has no error.\<close>

definition finish_call ::
    "(tamga_c_error_code_t \<Rightarrow> tamga_c_error_code_t) \<Rightarrow> bool \<Rightarrow> 'fs tamga_session_opaque \<Rightarrow> tamga_c_error_code_t \<times> 'fs tamga_session_opaque" where
  "finish_call fallback ok s =
     (if \<not> ok then (let s = SyncSessionError s in (fallback (cs_last_error_code s), s))
      else (TAMGA_C_OK, SetLastError TAMGA_C_OK [] s))"

definition or_code :: "tamga_c_error_code_t \<Rightarrow> tamga_c_error_code_t \<Rightarrow> tamga_c_error_code_t" where
  "or_code other c = (if c \<noteq> TAMGA_C_OK then c else other)"

definition with_handle ::
    "('fs tamga_session_opaque \<Rightarrow> tamga_c_error_code_t \<times> 'fs tamga_session_opaque) \<Rightarrow> 'fs tamga_session_t
     \<Rightarrow> tamga_c_error_code_t \<times> 'fs tamga_session_t" where
  "with_handle f session =
     (case session of None \<Rightarrow> (TAMGA_C_ERR_INVALID_ARGUMENT, None) | Some s \<Rightarrow> (case f s of (c, s) \<Rightarrow> (c, Some s)))"

definition tamga_session_configure ::
    "'fs cli_env \<Rightarrow> 'fs tamga_session_t \<Rightarrow> string option \<Rightarrow> int \<Rightarrow> string option \<Rightarrow> tamga_c_error_code_t \<times> 'fs tamga_session_t" where
  "tamga_session_configure C session work_dir offline_mode trust_mode =
     with_handle (\<lambda>s.
       let cfg = default_settings\<lparr>cfg_offline_mode := (offline_mode \<noteq> 0)\<rparr>;
           cfg = (if \<not> no_text work_dir then cfg\<lparr>cfg_work_dir := the work_dir\<rparr> else cfg);
           cfg = (if \<not> no_text trust_mode then cfg\<lparr>cfg_trust_mode := the trust_mode\<rparr> else cfg)
       in case call_session (\<lambda>ss fs. case SetSettings cfg ss of (ok, ss) \<Rightarrow> (ok, ss, fs)) s of
            (ok, s) \<Rightarrow>
              (case (if ok then call_session (Initialize (en_make_dir (ce_session C))) s else (False, s)) of
                 (ok, s) \<Rightarrow> finish_call (\<lambda>c. c) ok s)) session"

definition c_text :: "string option \<Rightarrow> string" where
  "c_text p = (case p of None \<Rightarrow> [] | Some t \<Rightarrow> t)"

definition tamga_session_read_key_file ::
    "'fs cli_env \<Rightarrow> 'fs tamga_session_t \<Rightarrow> string option \<Rightarrow> string option \<Rightarrow> string option \<Rightarrow> string option
     \<Rightarrow> tamga_c_error_code_t \<times> 'fs tamga_session_t" where
  "tamga_session_read_key_file C session path password key_password jks_alias =
     (if path = None \<or> password = None then (TAMGA_C_ERR_INVALID_ARGUMENT, session)
      else with_handle (\<lambda>s.
        case call_session (ReadPrivateKeyFile (en_verify (ce_session C)) (en_keys (ce_session C)) (the path) (the password)
               (c_text key_password) (c_text jks_alias)) s of
          (ok, s) \<Rightarrow> finish_call (\<lambda>c. c) ok s) session)"

definition tamga_session_read_key_descriptor ::
    "'fs cli_env \<Rightarrow> 'fs tamga_session_t \<Rightarrow> string option \<Rightarrow> string option \<Rightarrow> tamga_c_error_code_t \<times> 'fs tamga_session_t" where
  "tamga_session_read_key_descriptor C session descriptor_json password =
     (if descriptor_json = None \<or> password = None then (TAMGA_C_ERR_INVALID_ARGUMENT, session)
      else with_handle (\<lambda>s.
        case call_session (ReadPrivateKey (en_verify (ce_session C)) (en_keys (ce_session C)) (the descriptor_json) (the password)) s of
          (ok, s) \<Rightarrow> finish_call (\<lambda>c. c) ok s) session)"

definition tamga_session_is_key_loaded :: "'fs tamga_session_t \<Rightarrow> int" where
  "tamga_session_is_key_loaded session =
     (case session of None \<Rightarrow> 0 | Some s \<Rightarrow> if is_private_key_loaded (c_session s) then 1 else 0)"

section \<open>Signing\<close>

text \<open>A document that is read, signed and written; the first case leaves the call at once.\<close>

definition c_sign_document ::
    "string \<Rightarrow> 'a option \<Rightarrow> ('a \<Rightarrow> session \<Rightarrow> 'fs \<Rightarrow> bool \<times> 'b \<times> session \<times> 'fs)
     \<Rightarrow> ('b \<Rightarrow> 'fs tamga_session_opaque \<Rightarrow> bool \<times> 'fs tamga_session_opaque) \<Rightarrow> 'fs tamga_session_opaque
     \<Rightarrow> tamga_c_error_code_t \<times> 'fs tamga_session_opaque" where
  "c_sign_document cannot_read content sign store s =
     (case content of
        None \<Rightarrow> (TAMGA_C_ERR_INVALID_ARGUMENT, SetLastError TAMGA_C_ERR_INVALID_ARGUMENT cannot_read s)
      | Some content \<Rightarrow>
          (case call_session (\<lambda>ss fs. case sign content ss fs of (ok, result, ss, fs) \<Rightarrow> ((ok, result), ss, fs)) s of
             ((success, result), s) \<Rightarrow>
               (case (if success then store result s else (False, s)) of
                  (success, s) \<Rightarrow> finish_call (or_code TAMGA_C_ERR_INTERNAL) success s)))"

definition attached_signer :: "'fs cli_env \<Rightarrow> bytes \<Rightarrow> session \<Rightarrow> 'fs \<Rightarrow> bool \<times> bytes \<times> session \<times> 'fs" where
  "attached_signer C data ss fs =
     (case SignDataInternal (en_sign (ce_session C)) data Timestamp_BestEffort ss fs of (ok, signed_data, ss) \<Rightarrow> (ok, signed_data, ss, fs))"

definition c_sign_file ::
    "'fs cli_env \<Rightarrow> CApiFormat \<Rightarrow> string \<Rightarrow> string \<Rightarrow> 'fs tamga_session_opaque \<Rightarrow> tamga_c_error_code_t \<times> 'fs tamga_session_opaque" where
  "c_sign_file C parsed_format input_path output_path s =
     (let N = ce_session C;
          finished = (\<lambda>(success, s). finish_call (or_code TAMGA_C_ERR_INTERNAL) success s);
          raw_sign = (\<lambda>mode. finished (call_session (RawSignFile (en_verify N) (en_sign N) (en_files N) input_path output_path mode) s));
          sign_xml = (\<lambda>profile. c_sign_document ''Cannot read XML input'' (C_ReadTextFile C input_path s)
            (\<lambda>xml_in. SignXml C xml_in profile) (C_WriteTextFile C output_path) s)
      in case parsed_format of
           Fmt_CmsDetached \<Rightarrow> raw_sign (TimestampModeForFormat parsed_format)
         | Fmt_CadesBes \<Rightarrow> raw_sign Timestamp_Disabled
         | Fmt_CadesT \<Rightarrow> raw_sign Timestamp_Required
         | Fmt_CmsAttached \<Rightarrow>
             c_sign_document ''Cannot read input file'' (ReadBinaryFileArg C input_path s) (attached_signer C) (C_WriteBinaryFile C output_path) s
         | Fmt_XadesBes \<Rightarrow> sign_xml ''xades-bes''
         | Fmt_XadesT \<Rightarrow> sign_xml ''xades-t''
         | Fmt_Pades \<Rightarrow>
             c_sign_document ''Cannot read PDF input'' (ReadBinaryFileArg C input_path s) (\<lambda>pdf_in. SignPdf C pdf_in []) (C_WriteBinaryFile C output_path) s
         | Fmt_AsicS \<Rightarrow> finished (call_session (SignFileAsicS C input_path output_path) s)
         | Fmt_AsicE \<Rightarrow> finished (call_session (SignFileAsicE C input_path output_path) s)
         | _ \<Rightarrow> RejectFormat ''Unsupported signature format for signing'' s)"

definition key_missing :: "'fs tamga_session_opaque \<Rightarrow> tamga_c_error_code_t \<times> 'fs tamga_session_opaque" where
  "key_missing s = (TAMGA_C_ERR_KEY_NOT_LOADED, SetLastError TAMGA_C_ERR_KEY_NOT_LOADED ''Private key is not loaded'' s)"

definition tamga_session_sign_file ::
    "'fs cli_env \<Rightarrow> 'fs tamga_session_t \<Rightarrow> string option \<Rightarrow> string option \<Rightarrow> string option \<Rightarrow> tamga_c_error_code_t \<times> 'fs tamga_session_t" where
  "tamga_session_sign_file C session input_path output_path format =
     (if input_path = None \<or> output_path = None then (TAMGA_C_ERR_INVALID_ARGUMENT, session)
      else with_handle (\<lambda>s.
        let parsed_format = ParseFormat format
        in if parsed_format = Fmt_Invalid \<or> parsed_format = Fmt_AsicEXades \<or> IsXmlDsigFormat format
              \<or> (parsed_format = Fmt_XadesBes \<and> \<not> IsXadesFormat format)
           then RejectFormat ''Unsupported signature format for signing'' s
           else if \<not> is_private_key_loaded (c_session s) then key_missing s
           else c_sign_file C parsed_format (the input_path) (the output_path) s) session)"

text \<open>
  The output parameters: \<open>None\<close> where they are left as they are, otherwise what they point to then,
  null or a buffer.
\<close>

definition tamga_session_sign_data ::
    "'fs cli_env \<Rightarrow> 'fs tamga_session_t \<Rightarrow> bytes option \<Rightarrow> nat \<Rightarrow> string option \<Rightarrow> bool \<Rightarrow> bool
     \<Rightarrow> tamga_c_error_code_t \<times> bytes option option \<times> 'fs tamga_session_t" where
  "tamga_session_sign_data C session data data_len format has_out_data has_out_len =
     (case session of
        None \<Rightarrow> (TAMGA_C_ERR_INVALID_ARGUMENT, None, session)
      | Some s \<Rightarrow>
          if data = None \<or> data_len = 0 \<or> \<not> has_out_data \<or> \<not> has_out_len then (TAMGA_C_ERR_INVALID_ARGUMENT, None, session)
          else
            let parsed_format = ParseFormat format;
                failed = (\<lambda>(c, s). (c, Some None, Some s))
            in if parsed_format \<in> {Fmt_Invalid, Fmt_AsicS, Fmt_AsicE, Fmt_AsicEXades} \<or> IsXmlDsigFormat format
                  \<or> (parsed_format = Fmt_XadesBes \<and> \<not> IsXadesFormat format)
               then failed (RejectFormat ''Unsupported signature format for data signing'' s)
               else if \<not> is_private_key_loaded (c_session s) then failed (key_missing s)
               else
                 let input = take data_len (the data);
                     sign = (\<lambda>ss fs.
                       if parsed_format = Fmt_XadesBes \<or> parsed_format = Fmt_XadesT then
                         (case SignXml C (string_of_bytes input) (if parsed_format = Fmt_XadesBes then ''xades-bes'' else ''xades-t'') ss fs of
                            (ok, out_xml, ss, fs) \<Rightarrow> ((ok, if ok then bytes_of_string out_xml else []), ss, fs))
                       else if parsed_format = Fmt_Pades then (case SignPdf C input [] ss fs of (ok, out, ss, fs) \<Rightarrow> ((ok, out), ss, fs))
                       else if parsed_format = Fmt_CmsAttached then (case attached_signer C input ss fs of (ok, out, ss, fs) \<Rightarrow> ((ok, out), ss, fs))
                       else (case SignData (en_sign (ce_session C)) input (TimestampModeForFormat parsed_format) ss fs of
                               (ok, out, ss) \<Rightarrow> ((ok, out), ss, fs)))
                 in case call_session sign s of
                      ((ok, signed_data), s) \<Rightarrow>
                        if \<not> ok \<or> signed_data = [] then failed (finish_call (or_code TAMGA_C_ERR_INTERNAL) False s)
                        else (TAMGA_C_OK, Some (Some signed_data), Some (SetLastError TAMGA_C_OK [] s)))"

section \<open>Verifying\<close>

text \<open>The first case leaves the call at once, with the report of a refused verification.\<close>

definition c_verify_file ::
    "('cert, 'crl, 'req, 'resp, 'fs) environment \<Rightarrow> 'fs storage \<Rightarrow> 'fs cli_env \<Rightarrow> string option \<Rightarrow> string \<Rightarrow> string option
     \<Rightarrow> 'fs tamga_session_opaque \<Rightarrow> string + bool \<times> bool \<times> 'fs tamga_session_opaque" where
  "c_verify_file E F C format input_path signature_path s =
     (let parsed_format = ParseFormat format; L = en_verify (ce_session C)
      in if IsDetachedCmsFormat parsed_format then
           (if no_text signature_path then Inl ''CMS detached requires signature path''
            else Inr (call_process (RawVerifyFile E F L 0 0 input_path (the signature_path)) s))
         else if parsed_format = Fmt_CmsAttached then
           (case ReadBinaryFileArg C input_path s of
              None \<Rightarrow> Inl ''Cannot read attached CMS file''
            | Some data \<Rightarrow> Inr (call_process (\<lambda>p. case VerifyDataInternal E F L 0 0 data p of (ok, valid, content, p) \<Rightarrow> (ok, valid, p)) s))
         else if (parsed_format = Fmt_XadesBes \<or> parsed_format = Fmt_XadesT) \<and> (IsXadesFormat format \<or> IsXmlDsigFormat format) then
           (case C_ReadTextFile C input_path s of None \<Rightarrow> Inl ''Cannot read XML file'' | Some xml \<Rightarrow> Inr (call_process (VerifyXml C xml) s))
         else if parsed_format = Fmt_Pades then
           (case ReadBinaryFileArg C input_path s of None \<Rightarrow> Inl ''Cannot read PDF file'' | Some pdf \<Rightarrow> Inr (call_process (VerifyPdf C pdf) s))
         else if parsed_format = Fmt_AsicS then Inr (call_process (VerifyFileAsicS C input_path) s)
         else if parsed_format = Fmt_AsicE then Inr (call_process (VerifyFileAsicE C input_path) s)
         else if parsed_format = Fmt_AsicEXades then Inr (call_process (VerifyFileAsicEXades C input_path) s)
         else Inl ''Unsupported verification format'')"

definition c_flag :: "bool \<Rightarrow> int" where
  "c_flag b = (if b then 1 else 0)"

definition tamga_session_verify_file ::
    "('cert, 'crl, 'req, 'resp, 'fs) environment \<Rightarrow> 'fs storage \<Rightarrow> 'fs cli_env \<Rightarrow> 'fs tamga_session_t \<Rightarrow> string option \<Rightarrow> string option
     \<Rightarrow> string option \<Rightarrow> int option \<Rightarrow> tamga_c_error_code_t \<times> int option \<times> 'fs tamga_session_t" where
  "tamga_session_verify_file E F C session input_path signature_path format out_valid =
     (let out_valid = map_option (\<lambda>_. 0) out_valid;
          reject = (\<lambda>message. case RejectVerify kVerifyFileOperation message session of (c, session) \<Rightarrow> (c, out_valid, session))
      in case (session, input_path, out_valid) of
           (Some s, Some input_path, Some _) \<Rightarrow>
             (let parsed_format = ParseFormat format
              in if parsed_format = Fmt_Invalid then reject ''Unsupported verification format''
                 else if \<not> IsDetachedCmsFormat parsed_format \<and> \<not> no_text signature_path
                 then reject ''This verification format does not accept a detached signature path''
                 else case c_verify_file E F C format input_path signature_path s of
                   Inl message \<Rightarrow> reject message
                 | Inr (execution_ok, valid, s) \<Rightarrow>
                     (case finish_call (or_code TAMGA_C_ERR_INTERNAL) execution_ok s of (c, s) \<Rightarrow> (c, Some (c_flag valid), Some s)))
         | _ \<Rightarrow> reject ''tamga_session_verify_file requires a session, an input path and an output flag'')"

definition c_verify_data ::
    "('cert, 'crl, 'req, 'resp, 'fs) environment \<Rightarrow> 'fs storage \<Rightarrow> 'fs cli_env \<Rightarrow> string option \<Rightarrow> bytes \<Rightarrow> bytes option \<Rightarrow> nat
     \<Rightarrow> 'fs tamga_session_opaque \<Rightarrow> string + bool \<times> bool \<times> 'fs tamga_session_opaque" where
  "c_verify_data E F C format payload signature signature_len s =
     (let parsed_format = ParseFormat format; L = en_verify (ce_session C);
          has_signature = (signature \<noteq> None \<or> signature_len \<noteq> 0)
      in if parsed_format = Fmt_XadesBes \<and> (IsXadesFormat format \<or> IsXmlDsigFormat format) then
           (if has_signature then Inl ''XAdES verification does not accept a detached signature''
            else Inr (call_process (VerifyXml C (string_of_bytes payload)) s))
         else if parsed_format = Fmt_Pades then
           (if has_signature then Inl ''PAdES verification does not accept a detached signature''
            else Inr (call_process (VerifyPdf C payload) s))
         else if parsed_format = Fmt_CmsAttached then
           (if has_signature then Inl ''Attached CMS verification requires no detached signature''
            else Inr (call_process (\<lambda>p. case VerifyDataInternal E F L 0 0 payload p of (ok, valid, content, p) \<Rightarrow> (ok, valid, p)) s))
         else if IsDetachedCmsFormat parsed_format then
           (if signature = None \<or> signature_len = 0 then Inl ''CMS detached verification requires a non-empty signature''
            else Inr (call_process (VerifyData E F L 0 0 payload (take signature_len (the signature))) s))
         else Inl ''Unsupported verification format for data'')"

definition tamga_session_verify_data ::
    "('cert, 'crl, 'req, 'resp, 'fs) environment \<Rightarrow> 'fs storage \<Rightarrow> 'fs cli_env \<Rightarrow> 'fs tamga_session_t \<Rightarrow> bytes option \<Rightarrow> nat
     \<Rightarrow> bytes option \<Rightarrow> nat \<Rightarrow> string option \<Rightarrow> int option \<Rightarrow> tamga_c_error_code_t \<times> int option \<times> 'fs tamga_session_t" where
  "tamga_session_verify_data E F C session data data_len signature signature_len format out_valid =
     (let out_valid = map_option (\<lambda>_. 0) out_valid;
          reject = (\<lambda>message. case RejectVerify kVerifyDataOperation message session of (c, session) \<Rightarrow> (c, out_valid, session))
      in case (session, data, out_valid) of
           (Some s, Some data, Some _) \<Rightarrow>
             (let parsed_format = ParseFormat format
              in if data_len = 0 then reject ''tamga_session_verify_data requires a session, non-empty data and an output flag''
                 else if parsed_format \<in> {Fmt_Invalid, Fmt_AsicS, Fmt_AsicE, Fmt_AsicEXades, Fmt_XadesT}
                 then reject ''Unsupported verification format for data''
                 else case c_verify_data E F C format (take data_len data) signature signature_len s of
                   Inl message \<Rightarrow> reject message
                 | Inr (execution_ok, valid, s) \<Rightarrow>
                     (case finish_call (or_code TAMGA_C_ERR_INTERNAL) execution_ok s of
                        (c, s) \<Rightarrow> (c, Some (if execution_ok then c_flag valid else 0), Some s)))
         | _ \<Rightarrow> reject ''tamga_session_verify_data requires a session, non-empty data and an output flag'')"

section \<open>Other calls\<close>

definition tamga_session_sync_trust_list :: "'fs cli_env \<Rightarrow> 'fs tamga_session_t \<Rightarrow> tamga_c_error_code_t \<times> 'fs tamga_session_t" where
  "tamga_session_sync_trust_list C session =
     with_handle (\<lambda>s. case call_session (SyncTrustList (en_sync (ce_session C))) s of
       (ok, s) \<Rightarrow> finish_call (or_code TAMGA_C_ERR_ONLINE_UNAVAILABLE) ok s) session"

definition tamga_session_get_last_error :: "'fs tamga_session_t \<Rightarrow> string" where
  "tamga_session_get_last_error session = (case session of None \<Rightarrow> ''Invalid session handle'' | Some s \<Rightarrow> cs_last_error_message s)"

definition tamga_session_get_last_error_code :: "'fs tamga_session_t \<Rightarrow> tamga_c_error_code_t" where
  "tamga_session_get_last_error_code session = (case session of None \<Rightarrow> TAMGA_C_ERR_INVALID_ARGUMENT | Some s \<Rightarrow> cs_last_error_code s)"

definition tamga_session_get_last_report :: "'fs cli_env \<Rightarrow> 'fs tamga_session_t \<Rightarrow> string option \<times> 'fs tamga_session_t" where
  "tamga_session_get_last_report C session =
     (case session of None \<Rightarrow> (None, None)
      | Some s \<Rightarrow>
          (let ss = c_session s;
               report = GetLastVerifyReport (last_trust_list_sync_report ss) (ce_chain_debug C ss) (last_verify_report ss)
           in (Some report, Some (s\<lparr>cs_last_report_cache := report\<rparr>))))"

definition tamga_session_get_user_report :: "'fs tamga_session_t \<Rightarrow> string option \<times> 'fs tamga_session_t" where
  "tamga_session_get_user_report session =
     (case session of None \<Rightarrow> (None, None)
      | Some s \<Rightarrow>
          (let report = last_user_report_json (c_session s) in (Some report, Some (s\<lparr>cs_user_report_cache := report\<rparr>))))"

end
