(* ===== verification/Cli_Verdict.thy ===== *)
theory Cli_Verdict
  imports Cli
begin

text \<open>
  What the command line tool promises: the key descriptor it writes is read back as given, without
  \<open>--offline false\<close> a verification of CMS data is independent of the network, and what its exit code says.
\<close>

section \<open>The key descriptor\<close>

definition descriptor_members :: "string \<Rightarrow> (string \<times> string) list \<Rightarrow> (string \<times> json_tree) list" where
  "descriptor_members key_path optional =
     (''path'', J_String key_path) # map (\<lambda>(n, v). (n, J_String v)) (filter (\<lambda>(n, v). v \<noteq> []) optional)"

lemma members_text_Cons: "members_text (m # ms) = mtext m @ concat (map (\<lambda>n. CHR '','' # mtext n) ms)"
  by (induction ms arbitrary: m) simp_all

lemma optional_members_text:
  assumes "list_all (\<lambda>(n, v). plain n) optional"
  shows "concat (map (\<lambda>n. CHR '','' # mtext n) (map (\<lambda>(n, v). (n, J_String v)) (filter (\<lambda>(n, v). v \<noteq> []) optional)))
    = concat (map (\<lambda>(n, v). optional_member n v) optional)"
  using assms by (induction optional) (auto simp: optional_member_def mtext_simps)

lemma descriptor_text:
  "key_descriptor key_path password key_password jks_alias cert_path ca_hint edrpou
   = json_text (J_Object (descriptor_members key_path
       [(''password'', password), (''keyPassword'', key_password), (''alias'', jks_alias), (''certificatePath'', cert_path),
        (''ca'', ca_hint), (''subject'', edrpou)]))"
  unfolding object_text descriptor_members_def members_text_Cons key_descriptor_def
  by (subst optional_members_text) (simp_all add: mtext_simps)

lemma descriptor_lookup:
  assumes "distinct (''path'' # map fst optional)"
  shows "map_of (descriptor_members key_path optional) name =
    (if name = ''path'' then Some (J_String key_path)
     else case map_of optional name of Some v \<Rightarrow> if v = [] then None else Some (J_String v) | None \<Rightarrow> None)"
proof -
  have "map_of (map (\<lambda>(n, v). (n, J_String v)) (filter (\<lambda>(n, v). v \<noteq> []) optional)) name
    = (case map_of optional name of Some v \<Rightarrow> if v = [] then None else Some (J_String v) | None \<Rightarrow> None)"
    using assms
  proof (induction optional)
    case (Cons x xs)
    then show ?case by (cases x; cases "fst x = name") (auto simp: map_of_eq_None_iff [THEN iffD2] split: option.split)
  qed simp
  then show ?thesis by (simp add: descriptor_members_def)
qed

lemma descriptor_depth: "json_depth (J_Object (descriptor_members key_path optional)) \<le> kMaxJsonNestingDepth"
  by (simp add: descriptor_members_def depth_le_simps list_all_iff kMaxJsonNestingDepth_def case_prod_beta del: json_depth.simps(2))

lemma descriptor_fields:
  fixes key_path password key_password jks_alias cert_path ca_hint edrpou
  defines "d \<equiv> key_descriptor key_path password key_password jks_alias cert_path ca_hint edrpou"
  shows "ExtractJsonString d name =
    (if name = ''path'' then Some key_path
     else case map_of [(''password'', password), (''keyPassword'', key_password), (''alias'', jks_alias), (''certificatePath'', cert_path),
        (''ca'', ca_hint), (''subject'', edrpou)] name of Some v \<Rightarrow> if v = [] then None else Some v | None \<Rightarrow> None)"
    "ExtractJsonBool d name = None"
proof -
  let ?o = "[(''password'', password), (''keyPassword'', key_password), (''alias'', jks_alias), (''certificatePath'', cert_path),
        (''ca'', ca_hint), (''subject'', edrpou)]"
  have o: "distinct (''path'' # map fst ?o)" by simp
  show "ExtractJsonString d name = (if name = ''path'' then Some key_path
     else case map_of ?o name of Some v \<Rightarrow> if v = [] then None else Some v | None \<Rightarrow> None)"
    unfolding d_def descriptor_text ExtractJsonString_def extract_text(1) [OF descriptor_depth list.distinct(2)] tree_path.simps
      descriptor_lookup [OF o] by (simp only: option.case tree_path.simps json_tree.case split: option.split if_split) simp
  show "ExtractJsonBool d name = None"
    unfolding d_def descriptor_text ExtractJsonBool_def extract_text(2) [OF descriptor_depth list.distinct(2)] tree_path.simps
      descriptor_lookup [OF o] by (simp only: option.case tree_path.simps json_tree.case split: option.split if_split) simp
qed

text \<open>
  C21. The descriptor of a key that the tool writes is read by the session as exactly the options the
  user gave: path, passwords, alias and hints, for every byte of them; an absent key password is
  the password.
\<close>

theorem key_descriptor_read:
  "ReadPrivateKey L G (key_descriptor key_path password key_password jks_alias cert_path ca_hint edrpou) password s fs
   = load_key_file L G key_path password (if key_password = [] then password else key_password) jks_alias False
       \<lparr>ch_certificate_path = cert_path, ch_certificate_base64 = [], ch_key_file_path = [], ch_ca_hint = ca_hint,
        ch_subject_identifier = edrpou\<rparr> s fs"
  by (simp add: ReadPrivateKey_def descriptor_fields string_or_empty_def)

section \<open>Without the network\<close>

abbreviation other_network where
  "other_network E post download \<equiv> E\<lparr>env_post := post, DownloadAndCacheCrlsForCert := download\<rparr>"

lemma cms_report_offline:
  assumes "cfg_offline_mode cfg"
  shows "cms_report (other_network E post download) F (L\<lparr>FetchMissingIssuers := fetch\<rparr>) cfg ocsp operation cms valid info fs
      = cms_report E F L cfg ocsp operation cms valid info fs
    \<and> snd (snd (cms_report E F L cfg ocsp operation cms valid info fs)) = fs"
proof -
  let ?c = "cms_context L cfg ocsp cms True"
  have "\<not> network_allowed (plan_of ?c)"
    using assms network_needs_permission [of ?c] by (auto simp: cms_context_def)
  note v = validation_offline [OF this, where E = E and F = F and post = post and download = download]
  have c: "cms_context (L\<lparr>FetchMissingIssuers := fetch\<rparr>) cfg ocsp cms True = ?c" by (simp add: cms_context_def)
  show ?thesis
    using assms v by (cases valid) (simp_all add: cms_report_def EnrichWithAiaIssuersIfNeeded_def c Let_def case_prod_beta)
qed

lemma files_simps [simp]:
  "files (SetVerifyReport t sid operation ok valid err message p) = files p" "files (MarkCommitted t sid p) = files p"
  "files (commit_verified t sid report metadata p) = files p" "files (OverrideVerifyReportOperation t sid operation p) = files p"
  by (simp_all add: SetVerifyReport_def MarkCommitted_def commit_verified_def OverrideVerifyReportOperation_def Let_def)

lemma process_files_same: "files p = fs \<Longrightarrow> p\<lparr>files := fs\<rparr> = p"
  by (cases p) simp

lemma VerifyData_offline:
  assumes "cfg_offline_mode (settings (sessions p sid))"
  shows "VerifyData (other_network E post download) F (L\<lparr>FetchMissingIssuers := fetch\<rparr>) t sid data signature p = VerifyData E F L t sid data signature p
    \<and> files (snd (snd (VerifyData E F L t sid data signature p))) = files p"
proof -
  note r = cms_report_offline [OF assms, where E = E and F = F and L = L and post = post and download = download and fetch = fetch]
  show ?thesis
  proof (cases "VerifyDetached L data signature")
    case (Inr x)
    obtain valid info where x: "x = (valid, info)" by (cases x)
    show ?thesis using r [of "ocsp_settings (sessions p sid)" "''VerifyData''" signature valid info "files p"]
      by (simp add: VerifyData_def Inr x Let_def case_prod_beta)
  qed (simp add: VerifyData_def Let_def)
qed

lemma VerifyDataInternal_offline:
  assumes "cfg_offline_mode (settings (sessions p sid))"
  shows "VerifyDataInternal (other_network E post download) F (L\<lparr>FetchMissingIssuers := fetch\<rparr>) t sid data p = VerifyDataInternal E F L t sid data p
    \<and> files (snd (snd (snd (VerifyDataInternal E F L t sid data p)))) = files p"
proof -
  note r = cms_report_offline [OF assms, where E = E and F = F and L = L and post = post and download = download and fetch = fetch]
  show ?thesis
  proof (cases "VerifyAttached L data")
    case (Inr x)
    obtain valid content info where x: "x = (valid, content, info)" by (cases x)
    show ?thesis using r [of "ocsp_settings (sessions p sid)" "''VerifyDataInternal''" data valid info "files p"]
      by (simp add: VerifyDataInternal_def Inr x Let_def case_prod_beta)
  qed (simp add: VerifyDataInternal_def Let_def)
qed

lemma fetch_irrelevant [simp]:
  "ReadBinaryFile (L\<lparr>FetchMissingIssuers := fetch\<rparr>) = ReadBinaryFile L" "ResolveFilePath (L\<lparr>FetchMissingIssuers := fetch\<rparr>) = ResolveFilePath L"
  by (simp_all add: fun_eq_iff ReadBinaryFile_def ResolveFilePath_def)

lemma RawVerifyFile_offline:
  assumes "cfg_offline_mode (settings (sessions p sid))"
  shows "RawVerifyFile (other_network E post download) F (L\<lparr>FetchMissingIssuers := fetch\<rparr>) t sid input_path signature_path p
      = RawVerifyFile E F L t sid input_path signature_path p
    \<and> files (snd (snd (RawVerifyFile E F L t sid input_path signature_path p))) = files p"
proof -
  note d = VerifyData_offline [OF assms, where E = E and F = F and L = L and post = post and download = download and fetch = fetch]
  have f: "VerifyFile (other_network E post download) F (L\<lparr>FetchMissingIssuers := fetch\<rparr>) t sid path signature p = VerifyFile E F L t sid path signature p
    \<and> files (snd (snd (VerifyFile E F L t sid path signature p))) = files p" for path signature
    using d by (simp add: VerifyFile_def Let_def case_prod_beta split: sum.split)
  then show ?thesis by (simp add: RawVerifyFile_def Let_def case_prod_beta split: sum.split)
qed

text \<open>A session configured by the tool is offline unless that is switched off, and its directory is the one given.\<close>

lemma cli_settings_offline:
  "cfg_offline_mode (cli_settings options) \<longleftrightarrow> GetValue options ''offline'' \<noteq> ''false'' \<or> GetValue options ''validation-profile'' = ''offline''"
  by (simp add: cli_settings_def Let_def)

lemma configured:
  assumes "ConfigureSession C options st = (ok, st')"
  shows "ok \<Longrightarrow> is_initialized (cli_session st')" "cli_files st' = cli_files st"
    "ok \<Longrightarrow> cfg_offline_mode (settings (cli_session st')) = cfg_offline_mode (cli_settings options)"
  using assms
  by (auto simp: ConfigureSession_def on_session_def cli_session_def cli_files_def set_files_def SetSettings_def refuse_def Let_def Initialize_def
      ClearVerifyReport_def RefreshUserReportForCurrentOperation_def RefreshUserReport_def ClearError_def upd_session_def SetError_def
      split: if_splits prod.splits)

definition other_fetch :: "(string \<Rightarrow> int \<Rightarrow> bytes list \<Rightarrow> 'fs \<Rightarrow> bytes list \<times> 'fs) \<Rightarrow> 'fs cli_env \<Rightarrow> 'fs cli_env" where
  "other_fetch fetch C = C\<lparr>ce_session := (ce_session C)\<lparr>en_verify := (en_verify (ce_session C))\<lparr>FetchMissingIssuers := fetch\<rparr>\<rparr>\<rparr>"

definition cms_formats :: "string list" where
  "cms_formats = [[], ''cms'', ''cms-detached'', ''cades-bes'', ''cades-t'', ''cms-attached'']"

lemma other_fetch_simps [simp]:
  "finish_verify (other_fetch fetch C) = finish_verify C" "ConfigureSession (other_fetch fetch C) = ConfigureSession C"
  "Cli_ReadBinaryFile (other_fetch fetch C) = Cli_ReadBinaryFile C"
proof -
  have t: "technical_report (other_fetch fetch C) = technical_report C" by (simp add: fun_eq_iff technical_report_def other_fetch_def)
  have m: "MapVerificationExitCode (other_fetch fetch C) = MapVerificationExitCode C" by (simp add: fun_eq_iff MapVerificationExitCode_def t)
  have d: "en_make_dir (ce_session (other_fetch fetch C)) = en_make_dir (ce_session C)" by (simp add: other_fetch_def)
  have w: "WriteTextFileAtomic (other_fetch fetch C) = WriteTextFileAtomic C" by (simp add: other_fetch_def)
  show "finish_verify (other_fetch fetch C) = finish_verify C" by (intro ext) (simp only: finish_verify_def t m w)
  show "ConfigureSession (other_fetch fetch C) = ConfigureSession C" by (intro ext) (simp only: ConfigureSession_def d)
  show "Cli_ReadBinaryFile (other_fetch fetch C) = Cli_ReadBinaryFile C" by (simp add: fun_eq_iff Cli_ReadBinaryFile_def other_fetch_def)
qed

lemma files_streams [simp]:
  "cli_files (cerr_line line st) = cli_files st" "cli_files (cout_line line st) = cli_files st" "cli_files (set_files fs st) = fs"
  "cli_files (snd (fail_with n line st)) = cli_files st"
  by (simp_all add: cli_files_def cerr_line_def cout_line_def set_files_def fail_with_def)

lemma verify_by_format_cms:
  "format \<in> set [[], ''cms'', ''cms-detached'', ''cades-bes'', ''cades-t''] \<Longrightarrow> verify_by_format E F C format input_path signature_path st =
     (if input_path = [] \<or> signature_path = []
      then Inl (fail_with 1 ''CMS detached verification requires both --input and --signature'' st)
      else Inr (on_process (RawVerifyFile E F (en_verify (ce_session C)) 0 0 input_path signature_path) st))"
  "verify_by_format E F C ''cms-attached'' input_path signature_path st =
     (let target_file = (if input_path = [] then signature_path else input_path)
      in case Cli_ReadBinaryFile C target_file st of
           None \<Rightarrow> Inl (fail_with 1 (''Cannot read attached CMS file: '' @ target_file) st)
         | Some data \<Rightarrow> Inr (on_process (\<lambda>p. case VerifyDataInternal E F (en_verify (ce_session C)) 0 0 data p of
             (ok, valid, content, p) \<Rightarrow> (ok, valid, p)) st))"
  unfolding verify_by_format_def Let_def by (simp only: if_True) (simp split: option.split)

lemma cms_format_cases:
  "format \<in> set cms_formats \<Longrightarrow> format = ''cms-attached'' \<or> format \<in> set [[], ''cms'', ''cms-detached'', ''cades-bes'', ''cades-t'']"
  by (auto simp: cms_formats_def)

lemma verify_by_format_offline:
  assumes "cfg_offline_mode (settings (cli_session st))" "format \<in> set cms_formats"
  shows "verify_by_format (other_network E post download) F (other_fetch fetch C) format input_path signature_path st
      = verify_by_format E F C format input_path signature_path st"
    "verify_by_format E F C format input_path signature_path st = Inl (n, st') \<Longrightarrow> cli_files st' = cli_files st"
    "verify_by_format E F C format input_path signature_path st = Inr (ok, valid, st') \<Longrightarrow> cli_files st' = cli_files st"
proof -
  let ?L = "en_verify (ce_session C)"
  have e: "en_verify (ce_session (other_fetch fetch C)) = ?L\<lparr>FetchMissingIssuers := fetch\<rparr>" by (simp add: other_fetch_def)
  have off: "cfg_offline_mode (settings (sessions (cl_process st) 0))" using assms(1) by (simp add: cli_session_def)
  note raw = RawVerifyFile_offline [OF off, where E = E and F = F and L = ?L and post = post and download = download and fetch = fetch]
  note att = VerifyDataInternal_offline [OF off, where E = E and F = F and L = ?L and post = post and download = download and fetch = fetch]
  from cms_format_cases [OF assms(2)]
  show "verify_by_format (other_network E post download) F (other_fetch fetch C) format input_path signature_path st
      = verify_by_format E F C format input_path signature_path st"
  proof
    assume "format = ''cms-attached''"
    then show ?thesis by (simp add: verify_by_format_cms(2) e on_process_def att Let_def split: option.split)
  next
    assume f: "format \<in> set [[], ''cms'', ''cms-detached'', ''cades-bes'', ''cades-t'']"
    show ?thesis unfolding verify_by_format_cms(1) [OF f] e on_process_def raw [THEN conjunct1] ..
  qed
  from cms_format_cases [OF assms(2)]
  show "verify_by_format E F C format input_path signature_path st = Inl (n, st') \<Longrightarrow> cli_files st' = cli_files st"
  proof
    assume "format = ''cms-attached''" "verify_by_format E F C format input_path signature_path st = Inl (n, st')"
    then show ?thesis by (auto simp: verify_by_format_cms(2) fail_with_def Let_def split: option.splits)
  next
    assume f: "format \<in> set [[], ''cms'', ''cms-detached'', ''cades-bes'', ''cades-t'']"
      and "verify_by_format E F C format input_path signature_path st = Inl (n, st')"
    then show ?thesis unfolding verify_by_format_cms(1) [OF f] by (auto simp: fail_with_def split: if_splits)
  qed
  from cms_format_cases [OF assms(2)]
  show "verify_by_format E F C format input_path signature_path st = Inr (ok, valid, st') \<Longrightarrow> cli_files st' = cli_files st"
  proof
    assume "format = ''cms-attached''" "verify_by_format E F C format input_path signature_path st = Inr (ok, valid, st')"
    then show ?thesis using att [THEN conjunct2, of 0]
      by (auto simp: verify_by_format_cms(2) on_process_def cli_files_def Let_def case_prod_beta split: option.splits)
  next
    assume f: "format \<in> set [[], ''cms'', ''cms-detached'', ''cades-bes'', ''cades-t'']"
      and "verify_by_format E F C format input_path signature_path st = Inr (ok, valid, st')"
    then show ?thesis using raw [THEN conjunct2, of 0 input_path signature_path] unfolding verify_by_format_cms(1) [OF f]
      by (auto simp: on_process_def cli_files_def case_prod_beta split: if_splits)
  qed
qed

lemma finish_verify_files:
  "GetValue options ''evidence-out'' = [] \<Longrightarrow> cli_files (snd (finish_verify C options ok valid st)) = cli_files st"
  by (simp add: finish_verify_def WriteEvidence_def Let_def)

text \<open>
  C18. Unless the user gives \<open>--offline false\<close>, verifying CMS data is independent of the network:
  exit code, output, session and files are the same whatever the HTTP client, a download of
  revocation lists or a search for issuers would answer; and with no report requested nothing on
  disk changes.
\<close>

theorem offline_verify_isolated:
  assumes "GetValue options ''offline'' \<noteq> ''false'' \<or> GetValue options ''validation-profile'' = ''offline''"
    and "first_value options [''format'', ''signature-format''] \<in> set cms_formats"
  shows "RunVerifyFile (other_network E post download) F (other_fetch fetch C) options st = RunVerifyFile E F C options st
    \<and> (GetValue options ''evidence-out'' = [] \<longrightarrow> cli_files (snd (RunVerifyFile E F C options st)) = cli_files st)"
proof (cases "ConfigureSession C options st")
  case (Pair ok st')
  note c = configured [OF Pair]
  show ?thesis
  proof (cases ok)
    case True
    then have off: "cfg_offline_mode (settings (cli_session st'))" using c(3) assms(1) cli_settings_offline by blast
    note v = verify_by_format_offline [OF off assms(2)]
    have "cli_files (snd (RunVerifyFile E F C options st)) = cli_files st" if none: "GetValue options ''evidence-out'' = []"
    proof (cases "verify_by_format E F C (first_value options [''format'', ''signature-format'']) (GetValue options ''input'') (GetValue options ''signature'') st'")
      case (Inl r)
      then have "cli_files (snd r) = cli_files st'" using v(2) by (cases r) simp
      then show ?thesis using c(2) True by (simp add: RunVerifyFile_def Pair Inl Let_def del: first_value.simps)
    next
      case (Inr r)
      then have "cli_files (snd (snd r)) = cli_files st'" using v(3) by (cases r) simp
      then show ?thesis using c(2) True finish_verify_files [OF none, of C "fst r" "fst (snd r)" "snd (snd r)"] by (simp add: RunVerifyFile_def Pair Inr Let_def case_prod_beta del: first_value.simps)
    qed
    moreover have "RunVerifyFile (other_network E post download) F (other_fetch fetch C) options st = RunVerifyFile E F C options st"
      unfolding RunVerifyFile_def Let_def other_fetch_simps Pair using True v(1) [of download post E F fetch C] by (simp del: first_value.simps)
    ultimately show ?thesis by blast
  next
    case False
    then show ?thesis using c(2) by (simp add: RunVerifyFile_def Pair Let_def del: first_value.simps)
  qed
qed

section \<open>The range of the exit codes\<close>

lemma exit_ok_intros:
  "n \<in> {0..7} \<Longrightarrow> fst (fail_with n line st) \<in> {0..7}" "n \<in> {0..7} \<Longrightarrow> fst (n, st) \<in> {0..7}"
  "(b \<Longrightarrow> fst r \<in> {0..7}) \<Longrightarrow> (\<not> b \<Longrightarrow> fst r' \<in> {0..7}) \<Longrightarrow> fst (if b then r else r') \<in> {0..7}"
  "(\<And>v. o' = Some v \<Longrightarrow> fst (h v) \<in> {0..7}) \<Longrightarrow> fst r \<in> {0..7} \<Longrightarrow> fst (case o' of None \<Rightarrow> r | Some v \<Rightarrow> h v) \<in> {0..7}"
  "(\<And>u v. q = (u, v) \<Longrightarrow> fst (k u v) \<in> {0..7}) \<Longrightarrow> fst (case q of (u, v) \<Rightarrow> k u v) \<in> {0..7}"
  "(\<And>e. x = Inl e \<Longrightarrow> fst (f e) \<in> {0..7}) \<Longrightarrow> (\<And>v. x = Inr v \<Longrightarrow> fst (g v) \<in> {0..7}) \<Longrightarrow> fst (case x of Inl e \<Rightarrow> f e | Inr v \<Rightarrow> g v) \<in> {0..7}"
  "fst r \<in> {0..7} \<Longrightarrow> fst r' \<in> {0..7} \<Longrightarrow> fst (case c of True \<Rightarrow> r | False \<Rightarrow> r') \<in> {0..7}"
  for n :: int
  by (simp_all add: fail_with_def split: option.split prod.split sum.split bool.split)

lemma code_ranges:
  "SignFailureExitCode err message \<in> {0..7}" "VerificationFailureExitCode err facts \<in> {0..7}"
  "MapVerificationExitCode C st valid \<in> {0..7}" "n \<in> {0..7} \<Longrightarrow> ApplyEvidenceOutcome outcome n \<in> {0..7}"
proof -
  show v: "VerificationFailureExitCode err facts \<in> {0..7}" for err facts by (simp add: VerificationFailureExitCode_def)
  show "SignFailureExitCode err message \<in> {0..7}" by (simp add: SignFailureExitCode_def Let_def)
  show "MapVerificationExitCode C st valid \<in> {0..7}" using v by (simp add: MapVerificationExitCode_def)
  show "n \<in> {0..7} \<Longrightarrow> ApplyEvidenceOutcome outcome n \<in> {0..7}" by (simp add: ApplyEvidenceOutcome_def kEvidenceIoExitCode_def)
qed

text \<open>Where a command leaves before it has an outcome, its code is 1.\<close>

definition leaves_with_1 :: "(int \<times> 'fs cli) + 'b \<Rightarrow> bool" where
  "leaves_with_1 r \<longleftrightarrow> (case r of Inl e \<Rightarrow> fst e = 1 | Inr _ \<Rightarrow> True)"

lemma leaves_intros:
  "leaves_with_1 (Inl (fail_with 1 line st))" "leaves_with_1 (Inr y)"
  "leaves_with_1 r \<Longrightarrow> leaves_with_1 r' \<Longrightarrow> leaves_with_1 (if b then r else r')"
  "leaves_with_1 r \<Longrightarrow> (\<And>v. leaves_with_1 (h v)) \<Longrightarrow> leaves_with_1 (case o' of None \<Rightarrow> r | Some v \<Rightarrow> h v)"
  "(\<And>u v. leaves_with_1 (k u v)) \<Longrightarrow> leaves_with_1 (case q of (u, v) \<Rightarrow> k u v)"
  by (simp_all add: leaves_with_1_def fail_with_def split: option.split prod.split)

lemma leavesD: "leaves_with_1 r \<Longrightarrow> r = Inl e \<Longrightarrow> fst e = 1"
  by (simp add: leaves_with_1_def)

lemma early_exits:
  "leaves_with_1 (sign_document what input_path content sign store st)"
  "leaves_with_1 (sign_by_format C format input_path output_path st)"
  "leaves_with_1 (verify_by_format E F C format input_path signature_path st)"
proof -
  show d: "leaves_with_1 (sign_document what input_path content sign store st)" for what content sign store
    unfolding sign_document_def Let_def by (intro leaves_intros)
  show "leaves_with_1 (verify_by_format E F C format input_path signature_path st)"
    unfolding verify_by_format_def Let_def by (intro leaves_intros)
  show "leaves_with_1 (sign_by_format C format input_path output_path st)"
    unfolding sign_by_format_def sign_document_def Let_def by (intro leaves_intros)
qed

lemmas early_exit_codes = leavesD [OF early_exits(2)] leavesD [OF early_exits(3)]

lemma command_codes:
  "fst (RunMedia C options st) \<in> {0..7}" "fst (RunBase64Encode C options st) \<in> {0..7}" "fst (RunBase64Decode C options st) \<in> {0..7}"
  "fst (RunTrustSync C options st) \<in> {0..7}" "fst (RunSignFile C options st) \<in> {0..7}" "fst (RunVerifyFile E F C options st) \<in> {0..7}"
proof -
  show "fst (RunMedia C options st) \<in> {0..7}" unfolding RunMedia_def by (intro exit_ok_intros) simp_all
  show "fst (RunBase64Encode C options st) \<in> {0..7}" unfolding RunBase64Encode_def Let_def by (intro exit_ok_intros) simp_all
  show "fst (RunBase64Decode C options st) \<in> {0..7}" unfolding RunBase64Decode_def Let_def by (intro exit_ok_intros) simp_all
  show "fst (RunTrustSync C options st) \<in> {0..7}" unfolding RunTrustSync_def Let_def by (intro exit_ok_intros) simp_all
  show "fst (RunSignFile C options st) \<in> {0..7}" unfolding RunSignFile_def Let_def
    by (intro exit_ok_intros code_ranges) (simp_all add: early_exit_codes)
  have f: "fst (finish_verify C options ok valid st) \<in> {0..7}" for ok valid st unfolding finish_verify_def Let_def
    by (intro exit_ok_intros code_ranges)
  show "fst (RunVerifyFile E F C options st) \<in> {0..7}" unfolding RunVerifyFile_def Let_def
    by (intro exit_ok_intros f) (simp_all add: early_exit_codes)
qed

text \<open>
  Whatever the arguments, the files, the network and the operations on documents do, the tool ends
  with one of the documented exit codes 0 to 7.
\<close>

theorem exit_codes_documented: "fst (cli_main E F C args fs) \<in> {0..7}"
  unfolding cli_main_def Let_def by (intro exit_ok_intros command_codes) simp_all

section \<open>What the exit code says\<close>

lemma RawVerifyFile_crypto:
  assumes "is_initialized (sessions p sid)" "fss = file_store_settings (sessions p sid)"
    "ReadBinaryFile L (files p) (ResolveFilePath L signature_path fss) ''signature file'' = Inr signature" "signature \<noteq> []"
    "ReadBinaryFile L (files p) (ResolveFilePath L input_path fss) ''input file for verification'' = Inr data" "data \<noteq> []"
    "VerifyDetached L data signature = Inr (valid, info)"
  shows "\<exists>p'. RawVerifyFile E F L t sid input_path signature_path p = (True, valid, p')"
  using assms by (simp add: RawVerifyFile_def VerifyFile_def VerifyData_def Let_def case_prod_beta)

lemma failure_exit_code_pos: "VerificationFailureExitCode err facts \<noteq> 0"
  by (simp add: VerificationFailureExitCode_def)

lemma finish_verify_code:
  "GetValue options ''evidence-out'' = [] \<Longrightarrow> fst (finish_verify C options True valid st) = 0 \<longleftrightarrow> valid"
  by (simp add: finish_verify_def WriteEvidence_def ApplyEvidenceOutcome_def EvidenceOutcomeIsFailure_def MapVerificationExitCode_def
      failure_exit_code_pos Let_def)

text \<open>
  C20. The exit code of verifying a detached CMS signature is zero exactly when the signature itself
  verifies: what the engine finds about trust, revocation and timestamps, for any working
  directory, network and policy, does not change it, although the manual promises zero only for
  a signature that is fully valid and other codes for revoked or untrusted certificates.
\<close>

theorem cms_exit_ignores_trust:
  assumes "ConfigureSession C options st = (True, st')" "IsAllowedReportMode (GetValue options ''report'')"
    "IsAllowedValidationProfile (GetValue options ''validation-profile'')" "IsAllowedValidationLevel (GetValue options ''validation-level'')"
    and "first_value options [''format'', ''signature-format''] \<in> set [[], ''cms'', ''cms-detached'', ''cades-bes'', ''cades-t'']"
    and "GetValue options ''input'' \<noteq> []" "GetValue options ''signature'' \<noteq> []" "GetValue options ''evidence-out'' = []"
    and "L = en_verify (ce_session C)" "fss = file_store_settings (cli_session st')"
    and "ReadBinaryFile L (cli_files st') (ResolveFilePath L (GetValue options ''signature'') fss) ''signature file'' = Inr signature" "signature \<noteq> []"
    and "ReadBinaryFile L (cli_files st') (ResolveFilePath L (GetValue options ''input'') fss) ''input file for verification'' = Inr data" "data \<noteq> []"
    and "VerifyDetached L data signature = Inr (valid, info)"
  shows "fst (RunVerifyFile E F C options st) = 0 \<longleftrightarrow> valid"
proof -
  have allowed: "IsAllowedFormat (first_value options [''format'', ''signature-format'']) False"
    using assms(5) by (auto simp: IsAllowedFormat_def simp del: first_value.simps)
  have "is_initialized (sessions (cl_process st') 0)" using configured(1) [OF assms(1)] by (simp add: cli_session_def)
  then obtain p' where "RawVerifyFile E F L 0 0 (GetValue options ''input'') (GetValue options ''signature'') (cl_process st') = (True, valid, p')"
    using RawVerifyFile_crypto [OF _ assms(10) [unfolded cli_session_def] assms(11) [unfolded cli_files_def] assms(12)
        assms(13) [unfolded cli_files_def] assms(14,15), where E = E and F = F and t = 0] by blast
  then have "verify_by_format E F C (first_value options [''format'', ''signature-format'']) (GetValue options ''input'') (GetValue options ''signature'') st'
      = Inr (True, valid, st'\<lparr>cl_process := p'\<rparr>)"
    unfolding verify_by_format_cms(1) [OF assms(5)] using assms(6,7,9) by (simp add: on_process_def)
  then show ?thesis
    unfolding RunVerifyFile_def Let_def using assms(1,2,3,4,6) allowed finish_verify_code [OF assms(8)]
    by (simp del: first_value.simps)
qed

definition sample_cli_env :: "unit cli_env" where
  "sample_cli_env =
     \<lparr>ce_session = sample_session_env\<lparr>en_verify := sample_lib\<lparr>ReadBinaryFileLimited := (\<lambda>fs path limit. Inr [1])\<rparr>\<rparr>,
      ce_chain_debug = (\<lambda>s. []), ce_cryptonite = True, ce_http = True, ReadTextFileLimited = (\<lambda>fs path limit. Inl ''No file''),
      WriteTextFileAtomic = (\<lambda>path content fs. (True, fs)), open_config = (\<lambda>fs path. None), usage_text = [], trust_usage_text = [],
      verify_usage_text = [], SignXml = (\<lambda>xml profile s fs. (False, [], s, fs)), SignPdf = (\<lambda>pdf profile s fs. (False, [], s, fs)),
      SignFileAsicS = (\<lambda>input out s fs. (False, s, fs)), SignFileAsicE = (\<lambda>input out s fs. (False, s, fs)),
      SignFileAsicSCades = (\<lambda>input out s fs. (False, s, fs)), SignFileAsicECades = (\<lambda>input out s fs. (False, s, fs)),
      VerifyXml = (\<lambda>xml p. (False, False, p)), VerifyPdf = (\<lambda>pdf p. (False, False, p)),
      VerifyFileAsicS = (\<lambda>path p. (False, False, p)), VerifyFileAsicE = (\<lambda>path p. (False, False, p)),
      VerifyFileAsicEXades = (\<lambda>path p. (False, False, p))\<rparr>"

definition sample_options :: CliOptions where
  "sample_options = \<lparr>co_command = ''verify-file'', co_subcommand = [], co_help = False,
     co_values = [''input'' \<mapsto> ''d'', ''signature'' \<mapsto> ''s'']\<rparr>"

definition sample_cli :: "unit cli" where
  "sample_cli = \<lparr>cl_process = new_process (), cl_out = [], cl_err = []\<rparr>"

lemma sample_values [simp]:
  "GetValue sample_options ''report'' = []" "GetValue sample_options ''validation-profile'' = []" "GetValue sample_options ''validation-level'' = []"
  "GetValue sample_options ''format'' = []" "GetValue sample_options ''signature-format'' = []" "GetValue sample_options ''evidence-out'' = []"
  "GetValue sample_options ''input'' = ''d''" "GetValue sample_options ''signature'' = ''s''" "GetValue sample_options ''offline'' = []"
  "GetValue sample_options ''trust-mode'' = []" "GetValue sample_options ''work-dir'' = []"
  by (simp_all add: GetValue_def sample_options_def)

lemma sample_configured:
  "\<exists>st'. ConfigureSession sample_cli_env sample_options sample_cli = (True, st')
     \<and> file_store_settings (cli_session st') = \<lparr>fss_base_path = [], fss_allow_overwrite = True\<rparr>"
  by (simp add: new_session_def ConfigureSession_def on_session_def SetSettings_def cli_settings_def default_settings_def Initialize_def cli_session_def
      sample_cli_def new_process_def set_files_def ClearError_def ClearVerifyReport_def RefreshUserReportForCurrentOperation_def
      RefreshUserReport_def Let_def split: prod.split)

theorem cms_exit_ignores_trust_witness:
  "fst (RunVerifyFile sample_env sample_storage sample_cli_env sample_options sample_cli) = 0"
proof -
  let ?L = "en_verify (ce_session sample_cli_env)"
  obtain st' where c: "ConfigureSession sample_cli_env sample_options sample_cli = (True, st')"
    and f: "file_store_settings (cli_session st') = \<lparr>fss_base_path = [], fss_allow_overwrite = True\<rparr>" using sample_configured by blast
  have p: "IsValidUtf8Path (bytes_of_string ''d'')" "IsValidUtf8Path (bytes_of_string ''s'')" by code_simp+
  have r: "ReadBinaryFile ?L fs (ResolveFilePath ?L path (file_store_settings (cli_session st'))) label = Inr [1]"
    if "IsValidUtf8Path (bytes_of_string path)" "path \<noteq> []" for path label fs
    using that unfolding f by (simp add: ReadBinaryFile_def ResolveFilePath_def sample_cli_env_def sample_session_env_def sample_lib_def)
  show ?thesis
    using cms_exit_ignores_trust [OF c, where E = sample_env and F = sample_storage and L = ?L and data = "[1]" and signature = "[1]"
        and valid = True and info = sample_info, OF _ _ _ _ _ _ _ refl refl] p r
    by (simp add: IsAllowedReportMode_def IsAllowedValidationProfile_def IsAllowedValidationLevel_def sample_cli_env_def
        sample_session_env_def sample_lib_def)
qed

theorem offline_verify_isolated_witness:
  "RunVerifyFile (other_network sample_env (\<lambda>url body ct acc timeout. default_post_result) (DownloadAndCacheCrlsForCert sample_env)) sample_storage
     (other_fetch (\<lambda>dir timeout certs fs. ([[1]], fs)) sample_cli_env) sample_options sample_cli
   = RunVerifyFile sample_env sample_storage sample_cli_env sample_options sample_cli
   \<and> cli_files (snd (RunVerifyFile sample_env sample_storage sample_cli_env sample_options sample_cli)) = ()"
  using offline_verify_isolated [where options = sample_options and E = sample_env and F = sample_storage and C = sample_cli_env
      and st = sample_cli and post = "\<lambda>url body ct acc timeout. default_post_result" and download = "DownloadAndCacheCrlsForCert sample_env"
      and fetch = "\<lambda>dir timeout certs fs. ([[1]], fs)"]
  by (simp add: cms_formats_def)

end
