(* ===== verification/C_Api_Calls.thy ===== *)
theory C_Api_Calls
  imports C_Api Cli_Verdict
begin

text \<open>
  What the C interface promises: the code, the output flag and the report of a verification of CMS
  data agree with each other; signing a file is signing its content; and one error that is returned
  but not kept.
\<close>

section \<open>Verifying\<close>

text \<open>A verify operation of the session commits a report on its own outcome.\<close>

definition reports_outcome :: "bool \<times> bool \<times> 'fs process \<Rightarrow> bool" where
  "reports_outcome = (\<lambda>(ok, valid, p).
     let r = last_verify_report (sessions p 0)
     in vr_has_result r \<and> vr_execution_succeeded r = ok \<and> vr_signature_valid r = valid
        \<and> (\<not> ok \<longrightarrow> \<not> valid \<and> le_code (last_error (sessions p 0)) \<noteq> Err_None))"

lemma refused_reports:
  assumes "err \<noteq> Err_None"
  shows "reports_outcome (False, False, upd_session 0 (SetError err m) (SetVerifyReport t 0 operation False False err m p))"
    "reports_outcome (False, False, SetVerifyReport t 0 operation False False err m (upd_session 0 (SetError err m) p))"
proof -
  let ?q = "upd_session 0 (SetError err m) p"
  have e: "last_error (sessions (SetVerifyReport t 0 operation ok valid err m q) 0) = last_error (sessions q 0)" for ok valid q
    by (simp add: SetVerifyReport_def ClearVerifyReport_def RefreshUserReportForCurrentOperation_def RefreshUserReport_def Let_def split: prod.split)
  show "reports_outcome (False, False, upd_session 0 (SetError err m) (SetVerifyReport t 0 operation False False err m p))"
    "reports_outcome (False, False, SetVerifyReport t 0 operation False False err m ?q)"
    using assms by (simp_all add: reports_outcome_def SetVerifyReport_report CommitVerifyOutcome_def Let_def e)
qed

lemma override_reports: "reports_outcome (ok, valid, p) \<Longrightarrow> reports_outcome (ok, valid, OverrideVerifyReportOperation t 0 operation p)"
  by (auto simp: reports_outcome_def OverrideVerifyReportOperation_def RefreshUserReportForCurrentOperation_def RefreshUserReport_def Let_def
      split: prod.split)

lemma applied_outcome:
  "vr_has_result (ApplyValidationEngineReport meta ve report) = vr_has_result report"
  "vr_execution_succeeded (ApplyValidationEngineReport meta ve report) = vr_execution_succeeded report"
  "vr_signature_valid (ApplyValidationEngineReport meta ve report) = vr_signature_valid report"
  by (simp_all add: ApplyValidationEngineReport_def Let_def)

lemma cms_reports:
  assumes "cms_report E F L cfg ocsp operation cms valid info fs = (report, metadata, fs')"
  shows "reports_outcome (True, valid, commit_verified t 0 report metadata p)"
  using assms by (auto simp: reports_outcome_def cms_report_def Let_def applied_outcome split: prod.splits if_splits)

lemma VerifyData_reports: "reports_outcome (VerifyData E F L t 0 data signature p)"
proof (cases "VerifyDetached L data signature")
  case (Inr x)
  then show ?thesis
    by (cases x) (auto simp: VerifyData_def Let_def intro: refused_reports cms_reports split: prod.split)
qed (simp add: VerifyData_def Let_def refused_reports)

lemma VerifyDataInternal_reports:
  "reports_outcome (case VerifyDataInternal E F L t 0 data p of (ok, valid, content, p) \<Rightarrow> (ok, valid, p))"
proof (cases "VerifyAttached L data")
  case (Inr x)
  then show ?thesis
    by (cases x) (auto simp: VerifyDataInternal_def Let_def intro: refused_reports cms_reports split: prod.split)
qed (simp add: VerifyDataInternal_def Let_def refused_reports)

lemma override_result: "reports_outcome r \<Longrightarrow> reports_outcome (case r of (ok, valid, p) \<Rightarrow> (ok, valid, OverrideVerifyReportOperation t 0 operation p))"
  by (cases r) (simp add: override_reports)

lemma RawVerifyFile_reports: "reports_outcome (RawVerifyFile E F L t 0 input_path signature_path p)"
proof -
  have "reports_outcome (VerifyFile E F L t 0 path signature p)" for path signature
    by (auto simp: VerifyFile_def Let_def intro: refused_reports override_result VerifyData_reports split: sum.split)
  then show ?thesis
    by (auto simp: RawVerifyFile_def Let_def intro: refused_reports override_result split: sum.split)
qed

text \<open>The result of a call: the code is kept, the flag and the code are those of the report.\<close>

definition call_reported :: "int option \<Rightarrow> tamga_c_error_code_t \<times> int option \<times> 'fs tamga_session_t \<Rightarrow> bool" where
  "call_reported out_valid = (\<lambda>(c, flag, session).
     case session of None \<Rightarrow> False
     | Some s \<Rightarrow>
         let r = last_verify_report (c_session s)
         in vr_has_result r \<and> cs_last_error_code s = c \<and> (c = TAMGA_C_OK \<longleftrightarrow> vr_execution_succeeded r)
            \<and> flag = map_option (\<lambda>_. c_flag (c = TAMGA_C_OK \<and> vr_signature_valid r)) out_valid)"

lemma MapErrorCode_OK [simp]: "MapErrorCode err = TAMGA_C_OK \<longleftrightarrow> err = Err_None"
  by (cases err) simp_all

lemma rejected_reported:
  "call_reported out_valid (case RejectVerify operation message (Some s) of (c, session) \<Rightarrow> (c, map_option (\<lambda>_. 0) out_valid, session))"
  by (simp add: call_reported_def RejectVerify_def RecordVerifyFailure_def SetLastError_def c_session_def SetVerifyReport_report
      CommitVerifyOutcome_def Let_def c_flag_def)

lemma finished_reported:
  assumes "reports_outcome (operation (cs_process s))" "call_process operation s = (ok, valid, s')"
  shows "call_reported (Some old) (case finish_call (or_code TAMGA_C_ERR_INTERNAL) ok s' of (c, s) \<Rightarrow> (c, Some (c_flag valid), Some s))"
proof -
  obtain p where p: "operation (cs_process s) = (ok, valid, p)" "s' = s\<lparr>cs_process := p\<rparr>"
    using assms(2) by (auto simp: call_process_def split: prod.splits)
  show ?thesis
    using assms(1) unfolding p
    by (cases ok) (simp_all add: reports_outcome_def call_reported_def finish_call_def SyncSessionError_def SetLastError_def c_session_def or_code_def Let_def c_flag_def)
qed

definition CmsFormat :: "CApiFormat \<Rightarrow> bool" where
  "CmsFormat format \<longleftrightarrow> IsDetachedCmsFormat format \<or> format = Fmt_CmsAttached"

text \<open>What is verified in the two calls, where nothing is refused.\<close>

lemma c_verify_file_calls:
  assumes "CmsFormat (ParseFormat format)" "c_verify_file E F C format input_path signature_path s = Inr r"
  shows "\<exists>operation. r = call_process operation s \<and> reports_outcome (operation (cs_process s))"
  using assms unfolding c_verify_file_def CmsFormat_def Let_def
  by (auto split: if_splits option.splits simp: IsDetachedCmsFormat_def intro: RawVerifyFile_reports VerifyDataInternal_reports)

lemma c_verify_data_calls:
  assumes "CmsFormat (ParseFormat format)" "c_verify_data E F C format payload signature signature_len s = Inr r"
  shows "\<exists>operation. r = call_process operation s \<and> reports_outcome (operation (cs_process s))"
  using assms unfolding c_verify_data_def CmsFormat_def Let_def
  by (auto split: if_splits simp: IsDetachedCmsFormat_def intro: VerifyData_reports VerifyDataInternal_reports)

lemma rejected_flag:
  "call_reported (Some old) (case RejectVerify operation message (Some s) of (c, session) \<Rightarrow> (c, Some 0, session))"
  "call_reported None (case RejectVerify operation message (Some s) of (c, session) \<Rightarrow> (c, None, session))"
  using rejected_reported [of "Some old"] rejected_reported [of None] by simp_all

lemma dispatched_reported:
  assumes "\<And>r. dispatch = Inr r \<Longrightarrow> \<exists>operation. r = call_process operation s \<and> reports_outcome (operation (cs_process s))"
  shows "call_reported (Some old) (case dispatch of
      Inl message \<Rightarrow> (case RejectVerify name message (Some s) of (c, session) \<Rightarrow> (c, Some 0, session))
    | Inr (ok, valid, s) \<Rightarrow> (case finish_call (or_code TAMGA_C_ERR_INTERNAL) ok s of (c, s) \<Rightarrow> (c, Some (c_flag valid), Some s)))"
proof (cases dispatch)
  case (Inr r)
  obtain ok valid s' where r: "r = (ok, valid, s')" by (cases r)
  then obtain operation where "call_process operation s = (ok, valid, s')" "reports_outcome (operation (cs_process s))"
    using assms [OF Inr] by auto
  then show ?thesis using finished_reported [of operation s ok valid s'] by (simp add: Inr r)
qed (simp add: rejected_flag)

lemma verify_file_reported:
  assumes "CmsFormat (ParseFormat format) \<or> ParseFormat format = Fmt_Invalid"
  shows "call_reported out_valid (tamga_session_verify_file E F C (Some s) input_path signature_path format out_valid)"
proof (cases "ParseFormat format = Fmt_Invalid \<or> input_path = None \<or> out_valid = None")
  case False
  then obtain old path where o: "out_valid = Some old" "input_path = Some path" by auto
  have cms: "CmsFormat (ParseFormat format)" using assms False by simp
  show ?thesis
    using False dispatched_reported [OF c_verify_file_calls [OF cms]]
    by (auto simp: tamga_session_verify_file_def o Let_def rejected_flag)
qed (auto simp: tamga_session_verify_file_def Let_def rejected_reported rejected_flag split: option.split)

text \<open>Where a verification of a buffer was not carried out the flag is 0, which the operations of the session already say.\<close>

lemma failed_flag:
  assumes "c_verify_data E F C format payload signature signature_len s = Inr (ok, valid, s')" "CmsFormat (ParseFormat format)"
  shows "(if ok then c_flag valid else 0) = c_flag valid"
proof -
  obtain operation where "(ok, valid, s') = call_process operation s" "reports_outcome (operation (cs_process s))"
    using c_verify_data_calls [OF assms(2,1)] by blast
  then have "\<not> ok \<longrightarrow> \<not> valid" by (auto simp: call_process_def reports_outcome_def Let_def split: prod.splits)
  then show ?thesis by (auto simp: c_flag_def)
qed

lemma verify_data_reported:
  assumes "CmsFormat (ParseFormat format) \<or> ParseFormat format = Fmt_Invalid"
  shows "call_reported out_valid (tamga_session_verify_data E F C (Some s) data data_len signature signature_len format out_valid)"
proof (cases "ParseFormat format = Fmt_Invalid \<or> data = None \<or> out_valid = None \<or> data_len = 0")
  case False
  then obtain old b where o: "out_valid = Some old" "data = Some b" by auto
  have cms: "CmsFormat (ParseFormat format)" using assms False by simp
  then have "ParseFormat format \<notin> {Fmt_Invalid, Fmt_AsicS, Fmt_AsicE, Fmt_AsicEXades, Fmt_XadesT}"
    by (auto simp: CmsFormat_def IsDetachedCmsFormat_def)
  moreover have "call_reported (Some old) (case c_verify_data E F C format (take data_len b) signature signature_len s of
      Inl message \<Rightarrow> (case RejectVerify kVerifyDataOperation message (Some s) of (c, session) \<Rightarrow> (c, Some 0, session))
    | Inr (ok, valid, s) \<Rightarrow> (case finish_call (or_code TAMGA_C_ERR_INTERNAL) ok s of (c, s) \<Rightarrow> (c, Some (c_flag valid), Some s)))"
    by (rule dispatched_reported) (rule c_verify_data_calls [OF cms])
  ultimately show ?thesis
    using False failed_flag [OF _ cms, of E F C "take data_len b" signature signature_len s]
    by (cases "c_verify_data E F C format (take data_len b) signature signature_len s")
      (auto simp: tamga_session_verify_data_def o Let_def rejected_flag split: prod.splits)
qed (auto simp: tamga_session_verify_data_def Let_def rejected_reported rejected_flag split: option.split)

text \<open>
  C27. After every verification of CMS data through the C interface, of files or of buffers and also
  where the arguments or the format are refused, the report of the session is about this call: the
  code returned is the one kept, it is \<open>TAMGA_C_OK\<close> exactly if the report says that the
  verification was carried out, and the output flag is 1 exactly if it was and the report calls the
  signature valid. A flag that was 1 before does not survive a refused call.
\<close>

theorem c_verification_reported:
  assumes "CmsFormat (ParseFormat format) \<or> ParseFormat format = Fmt_Invalid"
  shows "call_reported out_valid (tamga_session_verify_file E F C (Some s) input_path signature_path format out_valid)
    \<and> call_reported out_valid (tamga_session_verify_data E F C (Some s) data data_len signature signature_len format out_valid)"
  using verify_file_reported [OF assms] verify_data_reported [OF assms] by blast

definition sample_handle :: "unit tamga_session_opaque" where
  "sample_handle = tamga_session_create sample_cli_env ()"

theorem c_verification_reported_witness:
  "ParseFormat (Some ''cades-t'') = Fmt_CadesT
   \<and> call_reported (Some 1) (tamga_session_verify_file sample_env sample_storage sample_cli_env (Some sample_handle) (Some ''d'') (Some ''s'') (Some ''cades-t'') (Some 1))
   \<and> call_reported (Some 1) (tamga_session_verify_data sample_env sample_storage sample_cli_env (Some sample_handle) (Some [1]) 1 None 0 (Some ''cades-t'') (Some 1))"
  using c_verification_reported [of "Some ''cades-t''" "Some 1" sample_env sample_storage sample_cli_env sample_handle "Some ''d''" "Some ''s''" "Some [1]" 1 None 0]
  by (simp add: ParseFormat_def no_text_def CmsFormat_def IsDetachedCmsFormat_def)

section \<open>Signing\<close>

lemma detached_not_refused:
  assumes "IsDetachedCmsFormat (ParseFormat format)"
  shows "\<not> IsXmlDsigFormat format"
    "ParseFormat format \<notin> {Fmt_Invalid, Fmt_AsicS, Fmt_AsicE, Fmt_AsicEXades, Fmt_XadesBes, Fmt_XadesT, Fmt_Pades, Fmt_CmsAttached}"
proof -
  show p: "ParseFormat format \<notin> {Fmt_Invalid, Fmt_AsicS, Fmt_AsicE, Fmt_AsicEXades, Fmt_XadesBes, Fmt_XadesT, Fmt_Pades, Fmt_CmsAttached}"
    using assms by (auto simp: IsDetachedCmsFormat_def)
  show "\<not> IsXmlDsigFormat format" using p by (auto simp: IsXmlDsigFormat_def ParseFormat_def no_text_def)
qed

lemma c_sign_file_detached:
  assumes "IsDetachedCmsFormat format"
  shows "c_sign_file C format input_path output_path s =
    (case call_session (RawSignFile (en_verify (ce_session C)) (en_sign (ce_session C)) (en_files (ce_session C)) input_path output_path
       (TimestampModeForFormat format)) s of (success, s) \<Rightarrow> finish_call (or_code TAMGA_C_ERR_INTERNAL) success s)"
  using assms by (auto simp: IsDetachedCmsFormat_def c_sign_file_def TimestampModeForFormat_def Let_def)

definition after_call :: "session \<Rightarrow> 'fs \<Rightarrow> 'fs tamga_session_opaque \<Rightarrow> 'fs tamga_session_opaque" where
  "after_call ss fs s = set_c_files fs (s\<lparr>cs_process := upd_session 0 (\<lambda>_. ss) (cs_process s)\<rparr>)"

lemma after_call_simps [simp]:
  "c_session (after_call ss fs s) = ss" "c_files (after_call ss fs s) = fs" "c_files (SetLastError c m s) = c_files s"
  "c_session (set_c_files fs s) = c_session s" "c_files (SyncSessionError s) = c_files s" "cs_last_error_code (SyncSessionError s) = MapErrorCode (le_code (last_error (c_session s)))"
  by (simp_all add: after_call_def c_session_def c_files_def set_c_files_def SetLastError_def SyncSessionError_def Let_def)

lemma sign_data_detached:
  assumes "IsDetachedCmsFormat (ParseFormat format)" "data \<noteq> []"
  shows "tamga_session_sign_data C (Some s) (Some data) (length data) format True True =
    (if \<not> is_private_key_loaded (c_session s) then (TAMGA_C_ERR_KEY_NOT_LOADED, Some None, Some (snd (key_missing s)))
     else case SignData (en_sign (ce_session C)) data (TimestampModeForFormat (ParseFormat format)) (c_session s) (c_files s) of
       (ok, signature, ss) \<Rightarrow>
         let s' = after_call ss (c_files s) s
         in if \<not> ok \<or> signature = [] then (or_code TAMGA_C_ERR_INTERNAL (MapErrorCode (le_code (last_error ss))), Some None, Some (SyncSessionError s'))
            else (TAMGA_C_OK, Some (Some signature), Some (SetLastError TAMGA_C_OK [] s')))"
  using detached_not_refused [OF assms(1)] assms(2)
  by (simp add: tamga_session_sign_data_def key_missing_def Let_def call_session_def finish_call_def case_prod_beta after_call_def [symmetric])

lemma sign_file_detached:
  assumes "IsDetachedCmsFormat (ParseFormat format)"
  shows "tamga_session_sign_file C (Some s) (Some input_path) (Some output_path) format =
    (if \<not> is_private_key_loaded (c_session s) then (TAMGA_C_ERR_KEY_NOT_LOADED, Some (snd (key_missing s)))
     else case RawSignFile (en_verify (ce_session C)) (en_sign (ce_session C)) (en_files (ce_session C)) input_path output_path
         (TimestampModeForFormat (ParseFormat format)) (c_session s) (c_files s) of
       (ok, ss, fs) \<Rightarrow>
         let s' = after_call ss fs s
         in if \<not> ok then (or_code TAMGA_C_ERR_INTERNAL (MapErrorCode (le_code (last_error ss))), Some (SyncSessionError s'))
            else (TAMGA_C_OK, Some (SetLastError TAMGA_C_OK [] s')))"
  using detached_not_refused [OF assms] c_sign_file_detached [OF assms, of C input_path output_path s]
  by (simp add: tamga_session_sign_file_def with_handle_def key_missing_def Let_def call_session_def finish_call_def case_prod_beta after_call_def [symmetric])

text \<open>The timestamp each detached format stands for, as the header \<open>tamga_c_api.h\<close> documents it.\<close>

definition documented_timestamp :: "string option \<Rightarrow> TimestampMode option" where
  "documented_timestamp format =
     (if format \<in> {None, Some [], Some ''cms'', Some ''cms-detached''} then Some Timestamp_BestEffort
      else if format = Some ''cades-bes'' then Some Timestamp_Disabled
      else if format = Some ''cades-t'' then Some Timestamp_Required
      else None)"

lemma documented_detached:
  assumes "documented_timestamp format = Some mode"
  shows "IsDetachedCmsFormat (ParseFormat format)" "TimestampModeForFormat (ParseFormat format) = mode"
proof -
  consider "format = None" | "format = Some []" | "format = Some ''cms''" | "format = Some ''cms-detached''"
    | "format = Some ''cades-bes''" | "format = Some ''cades-t''"
    using assms unfolding documented_timestamp_def by (metis insertE option.distinct(1) singletonD)
  then have "IsDetachedCmsFormat (ParseFormat format) \<and> TimestampModeForFormat (ParseFormat format) = mode"
    by cases (use assms in \<open>simp_all add: documented_timestamp_def ParseFormat_def no_text_def IsDetachedCmsFormat_def TimestampModeForFormat_def\<close>)
  then show "IsDetachedCmsFormat (ParseFormat format)" "TimestampModeForFormat (ParseFormat format) = mode" by simp_all
qed

text \<open>
  C28. For the detached formats, signing a file through the C interface is signing its content, and
  both give the signature that the abstract specification of signing expects with the timestamp the
  header documents for the format. Where it expects none, both calls fail with the same code. Where it
  expects one, the call for data returns it, and the call for a file writes the same bytes to the output file;
  it fails with \<open>TAMGA_C_ERR_INTERNAL\<close> where they cannot be written. The
  input file is read and is not empty, and the output file may be written. The one difference: a signature of no
  bytes, which the cryptographic library should never make, is an error of the call for data only.
\<close>

theorem sign_file_as_data:
  fixes C s and data :: bytes and mode :: TimestampMode
  defines "N \<equiv> ce_session C" and "L \<equiv> en_verify (ce_session C)" and "fss \<equiv> file_store_settings (c_session s)"
  defines "expected \<equiv> expected_signature (SignDetached (en_sign N)) (en_sign N) data mode (c_session s) (c_files s)"
  assumes "documented_timestamp format = Some mode"
    and "ReadBinaryFile L (c_files s) (ResolveFilePath L input_path fss) ''input file for signing'' = Inr data" "data \<noteq> []"
    and "fss_allow_overwrite fss \<or> \<not> file_exists (en_files N) (c_files s) (ResolveFilePath L output_path fss)"
  shows "\<exists>c out s1 c' s2. tamga_session_sign_data C (Some s) (Some data) (length data) format True True = (c, out, Some s1)
    \<and> tamga_session_sign_file C (Some s) (Some input_path) (Some output_path) format = (c', Some s2)
    \<and> (case expected of
         None \<Rightarrow> c' = c \<and> c \<noteq> TAMGA_C_OK \<and> out = Some None
       | Some signature \<Rightarrow>
           (if signature = [] then c = TAMGA_C_ERR_INTERNAL else c = TAMGA_C_OK \<and> out = Some (Some signature))
           \<and> (case WriteBinaryFileAtomic (en_files N) (ResolveFilePath L output_path fss) signature (c_files s) of
                (written, fs') \<Rightarrow> c' = (if written then TAMGA_C_OK else TAMGA_C_ERR_INTERNAL) \<and> c_files s2 = fs'))"
proof -
  note detached = documented_detached(1) [OF assms(5)] and m = documented_detached(2) [OF assms(5)]
  obtain ok signature ss where sd: "SignData (en_sign N) data mode (c_session s) (c_files s) = (ok, signature, ss)" by (metis prod_cases3)
  have outcome: "case expected of None \<Rightarrow> \<not> ok \<and> signature = [] \<and> le_code (last_error ss) \<noteq> Err_None
      | Some cms \<Rightarrow> ok \<and> signature = cms \<and> le_code (last_error ss) = Err_None"
    using sign_with_outcome [of "SignDetached (en_sign N)" "en_sign N" data mode "c_session s" "c_files s"] sd
    by (simp add: SignData_def signing_outcome_def expected_def)
  obtain written fs' where w: "WriteBinaryFileAtomic (en_files N) (ResolveFilePath L output_path fss) signature (c_files s) = (written, fs')"
    by (cases "WriteBinaryFileAtomic (en_files N) (ResolveFilePath L output_path fss) signature (c_files s)")
  have raw: "RawSignFile L (en_sign N) (en_files N) input_path output_path mode (c_session s) (c_files s)
      = (if \<not> ok then (False, ss, if mode = Timestamp_Required \<and> file_exists (en_files N) (c_files s) (ResolveFilePath L output_path fss)
           then truncate_file (en_files N) (ResolveFilePath L output_path fss) (c_files s) else c_files s)
         else if written then (True, ClearError ss, fs')
         else (False, SetError Err_InternalError ''Unable to write signature output file'' ss, fs'))"
    using assms(6,7,8) sd w by (cases written) (auto simp: RawSignFile_def SignFile_def fss_def Let_def)
  note data_call = sign_data_detached [OF detached assms(7), of C s, unfolded m, folded N_def]
    and file_call = sign_file_detached [OF detached, of C s input_path output_path, unfolded m, folded N_def]
  have L: "en_verify N = L" by (simp add: L_def N_def)
  show ?thesis
  proof (cases "is_private_key_loaded (c_session s)")
    case False
    then have "expected = None" by (simp add: expected_def expected_signature_def)
    then show ?thesis unfolding data_call file_call using False by (simp add: key_missing_def)
  next
    case True
    show ?thesis
    proof (cases expected)
      case None
      then have "\<not> ok" "MapErrorCode (le_code (last_error ss)) \<noteq> TAMGA_C_OK" using outcome by simp_all
      then show ?thesis unfolding data_call file_call using True None by (simp add: sd raw L Let_def or_code_def)
    next
      case (Some cms)
      then have "ok" "signature = cms" "le_code (last_error ss) = Err_None" using outcome by simp_all
      moreover have "le_code (last_error (SetError Err_InternalError t ss)) = Err_InternalError" for t by (simp add: SetError_def)
      ultimately show ?thesis
        unfolding data_call file_call using True Some w by (simp add: sd raw L Let_def or_code_def)
    qed
  qed
qed

definition sample_loaded :: "unit tamga_session_opaque" where
  "sample_loaded = sample_handle\<lparr>cs_process := upd_session 0 (\<lambda>_. sample_session\<lparr>is_initialized := True, is_private_key_loaded := True\<rparr>)
     (cs_process sample_handle)\<rparr>"

lemma sample_loaded_session: "c_session sample_loaded = sample_session\<lparr>is_initialized := True, is_private_key_loaded := True\<rparr>"
  by (simp add: sample_loaded_def c_session_def)

theorem sign_file_as_data_witness:
  "\<exists>s1 s2. tamga_session_sign_data sample_cli_env (Some sample_loaded) (Some [1]) 1 (Some ''cades-bes'') True True
      = (TAMGA_C_OK, Some (Some [0x30, 1]), Some s1)
    \<and> tamga_session_sign_file sample_cli_env (Some sample_loaded) (Some ''d'') (Some ''s'') (Some ''cades-bes'') = (TAMGA_C_OK, Some s2)"
proof -
  have p: "IsValidUtf8Path (bytes_of_string ''d'')" by code_simp
  let ?fss = "file_store_settings (c_session sample_loaded)"
  let ?N = "ce_session sample_cli_env"
  have r: "ReadBinaryFile (en_verify ?N) (c_files sample_loaded) (ResolveFilePath (en_verify ?N) ''d'' ?fss) ''input file for signing'' = Inr [1]"
    "fss_allow_overwrite ?fss"
    using p by (simp_all add: sample_loaded_session sample_session_def ReadBinaryFile_def ResolveFilePath_def sample_cli_env_def
        sample_session_env_def sample_lib_def)
  have w: "fst (WriteBinaryFileAtomic (en_files ?N) (ResolveFilePath (en_verify ?N) ''s'' ?fss) signature (c_files sample_loaded))" for signature
    by (simp add: sample_cli_env_def sample_session_env_def)
  have e: "expected_signature (SignDetached (en_sign ?N)) (en_sign ?N) [1] Timestamp_Disabled (c_session sample_loaded) (c_files sample_loaded)
      = Some [0x30, 1]"
    by (simp add: expected_signature_def right_def sample_loaded_session sample_cli_env_def sample_session_env_def sample_sign_lib_def)
  have "documented_timestamp (Some ''cades-bes'') = Some Timestamp_Disabled" by (simp add: documented_timestamp_def)
  from sign_file_as_data [OF this r(1), of "''s''", unfolded e] r(2) w [of "[0x30, 1]"] show ?thesis
    by (auto simp: case_prod_beta)
qed

text \<open>
  Where a signature was made and the output file cannot be written, the call for the attached
  format returns \<open>TAMGA_C_ERR_INTERNAL\<close>, but the error code kept for
  \<open>tamga_session_get_last_error_code\<close> is \<open>TAMGA_C_OK\<close>: the helper that writes sets no error.
\<close>

theorem write_failure_not_kept:
  assumes "is_initialized (c_session s)" "is_private_key_loaded (c_session s)" "input_path \<noteq> []" "output_path \<noteq> []"
    and "ReadBinaryFileLimited (en_verify (ce_session C)) (c_files s) input_path kMaxInputFileSize = Inr data"
    and "SignAttached (en_sign (ce_session C)) (loaded_key_format (c_session s) = Key_Pkcs12) (loaded_key_material (c_session s))
      (loaded_certificate (c_session s)) (loaded_key_password (c_session s)) data = Inr signature"
    and "\<And>signature. \<not> fst (WriteBinaryFileAtomic (en_files (ce_session C)) output_path signature (c_files s))"
    and "tamga_session_sign_file C (Some s) (Some input_path) (Some output_path) (Some ''cms-attached'') = (c, session)"
  shows "c = TAMGA_C_ERR_INTERNAL \<and> tamga_session_get_last_error_code session = TAMGA_C_OK"
proof -
  let ?G = "en_sign (ce_session C)"
  obtain ok cms ss where sd: "SignDataInternal ?G data Timestamp_BestEffort (c_session s) (c_files s) = (ok, cms, ss)" by (metis prod_cases3)
  have "ok" "le_code (last_error ss) = Err_None"
    using sign_with_outcome [of "SignAttached ?G" ?G data Timestamp_BestEffort "c_session s" "c_files s"] sd assms(1,2,6)
    by (auto simp: SignDataInternal_def signing_outcome_def expected_signature_def right_def split: option.splits)
  moreover obtain fs' where "WriteBinaryFileAtomic (en_files (ce_session C)) output_path cms (c_files s) = (False, fs')"
    using assms(7) [of cms] by (cases "WriteBinaryFileAtomic (en_files (ce_session C)) output_path cms (c_files s)") simp
  ultimately show ?thesis
    using assms(2,3,4,5,8) sd
    by (auto simp: tamga_session_sign_file_def with_handle_def ParseFormat_def no_text_def IsXmlDsigFormat_def c_sign_file_def c_sign_document_def
        ReadBinaryFileArg_def attached_signer_def call_session_def after_call_def [symmetric] C_WriteBinaryFile_def finish_call_def
        or_code_def tamga_session_get_last_error_code_def Let_def)
qed

definition sample_full_disk :: "unit cli_env" where
  "sample_full_disk = sample_cli_env\<lparr>ce_session := (ce_session sample_cli_env)\<lparr>en_files :=
     (en_files (ce_session sample_cli_env))\<lparr>WriteBinaryFileAtomic := (\<lambda>path data fs. (False, fs))\<rparr>\<rparr>\<rparr>"

theorem write_failure_not_kept_witness:
  "fst (tamga_session_sign_file sample_full_disk (Some sample_loaded) (Some ''d'') (Some ''s'') (Some ''cms-attached'')) = TAMGA_C_ERR_INTERNAL
   \<and> tamga_session_get_last_error_code (snd (tamga_session_sign_file sample_full_disk (Some sample_loaded) (Some ''d'') (Some ''s'') (Some ''cms-attached''))) = TAMGA_C_OK"
  using write_failure_not_kept [of sample_loaded "''d''" "''s''" sample_full_disk "[1]" "[0x31, 1]",
      OF _ _ _ _ _ _ _ surjective_pairing]
  by (simp add: sample_loaded_session sample_full_disk_def sample_cli_env_def sample_session_env_def sample_sign_lib_def sample_lib_def)

end
