(* ===== verification/Key_Loading.thy ===== *)
theory Key_Loading
  imports Cert_Resolver C_Api_Calls
begin

text \<open>
  Keys, the resolver and the command line tool together: a session that takes certificates from the
  resolver, and the exit code for a key without a certificate.
\<close>

section \<open>A session with the resolver\<close>

text \<open>
  The key library of a session whose resolver is the model's. An exception leaves the resolver only
  in the network stage.
\<close>

definition uses_resolver :: "'fs key_lib \<Rightarrow> ('cert, 'fs) resolver_env \<Rightarrow> bool" where
  "uses_resolver G V \<longleftrightarrow> (\<forall>request fs r fs'. Resolver_Resolve V request fs = (Some r, fs') \<longrightarrow>
     CertificateResolver_Resolve G request fs = (if cr_succeeded r then Inr (cr_certificate_der r) else Inl (cr_message r), fs'))"

lemma resolver_returns:
  assumes "rq_offline_mode request"
  shows "\<exists>r fs'. Resolver_Resolve V request fs = (Some r, fs')"
proof -
  have "\<exists>r' fs'. resolve_search V request spki_list r fs = (Some r', fs')" for spki_list r
    using assms by (auto simp: resolve_search_def Let_def split: prod.split bool.split)
  then show ?thesis by (auto simp: Resolver_Resolve_def Let_def split: sum.split option.split)
qed

lemma missing_certificate:
  assumes "uses_resolver G V" "cfg_offline_mode (settings s)"
    and "ResolveMissingCertificate G key_material password hints s fs = (Inr certificate, fs')"
  shows "CertificateMatchesPrivateKey V key_material password certificate \<and> CertificateAllowsSigningUsage V certificate"
proof -
  obtain request where q: "rq_offline_mode request" "rq_key_material request = key_material" "rq_password request = password"
    "CertificateResolver_Resolve G request fs = (Inr certificate, fs')"
  proof (cases "if ch_certificate_base64 hints = [] then Some [] else Base64Decode (ch_certificate_base64 hints)")
    case None
    then show ?thesis using assms(3) unfolding ResolveMissingCertificate_def None by simp
  next
    case (Some explicit_der)
    note call = assms(3) [unfolded ResolveMissingCertificate_def Some option.case]
    show ?thesis by (rule that [OF _ _ _ call]) (simp_all add: assms(2))
  qed
  obtain r fs1 where r: "Resolver_Resolve V request fs = (Some r, fs1)" using resolver_returns [OF q(1), of V fs] by blast
  then have c: "cr_succeeded r" "certificate = cr_certificate_der r"
    using assms(1) q(4) by (auto simp: uses_resolver_def split: if_splits)
  then show ?thesis
    using Resolve_result [OF r] q by (auto simp: unresolved_def resolved_from_def dest: loaded_matches)
qed

text \<open>
  C26. Where the container has no certificate of its own, a session that works offline ends loading
  with no certificate or with one that belongs to a key of this container and allows signing.
  The certificates inside a key store or a PEM text are not compared here.
\<close>

theorem loaded_certificate_matches:
  assumes "uses_resolver G V" "cfg_offline_mode (settings s)"
    and "NormalizeKeyContainer G key_data store_password (if key_password = [] then store_password else key_password) jks_alias strict_pem = Inr nk"
    and "nk_certificate nk = []"
    and "LoadPrivateKeyPayload G key_data store_password key_password jks_alias strict_pem hints s fs = (True, s', fs')"
  shows "is_private_key_loaded s' \<and> (loaded_certificate s' = []
    \<or> CertificateMatchesPrivateKey V (loaded_key_material s') (loaded_key_password s') (loaded_certificate s')
      \<and> CertificateAllowsSigningUsage V (loaded_certificate s'))"
proof -
  let ?kp = "if key_password = [] then store_password else key_password"
  let ?password = "if store_password = [] then ?kp else store_password"
  have ne: "key_data \<noteq> []" using assms(5) by (auto simp: LoadPrivateKeyPayload_def)
  obtain resolved fs1 where m: "ResolveMissingCertificate G (nk_key_material nk) ?password hints s fs = (resolved, fs1)" by force
  have commit: "is_private_key_loaded (CommitLoadedKey n material certificate password format s)"
    "loaded_certificate (CommitLoadedKey n material certificate password format s) = certificate"
    "loaded_key_material (CommitLoadedKey n material certificate password format s) = material"
    "loaded_key_password (CommitLoadedKey n material certificate password format s) = password" for n material certificate password format s
    by (simp_all add: CommitLoadedKey_def Let_def ClearError_def SecureClearLoadedKey_def)
  show ?thesis
  proof (cases resolved)
    case (Inr certificate)
    then have "s' = CommitLoadedKey (nk_normalized nk) (nk_key_material nk) certificate ?password (nk_format nk) s"
      using assms(3,4,5) m ne by (simp add: LoadPrivateKeyPayload_def Let_def split: if_splits)
    then show ?thesis using missing_certificate [OF assms(1,2)] m Inr by (simp add: commit)
  next
    case (Inl e)
    then have "s' = CommitLoadedKey (nk_normalized nk) (nk_key_material nk) [] ?password (nk_format nk) s"
      using assms(3,4,5) m ne by (simp add: LoadPrivateKeyPayload_def Let_def split: if_splits)
    then show ?thesis by (simp add: commit)
  qed
qed

definition sample_resolving_lib :: "(string \<Rightarrow> bytes option) key_lib" where
  "sample_resolving_lib =
     \<lparr>kl_crypto = kl_crypto sample_key_lib, FindMatchingCertificate = CryptoniteAdapter_FindMatchingCertificate sample_resolver,
      CertificateResolver_Resolve = (\<lambda>request fs. case Resolver_Resolve sample_resolver request fs of
        (Some r, fs') \<Rightarrow> (if cr_succeeded r then Inr (cr_certificate_der r) else Inl (cr_message r), fs') | (None, fs') \<Rightarrow> (Inl [], fs'))\<rparr>"

definition sample_hints :: CertificateHints where
  "sample_hints = no_hints\<lparr>ch_certificate_base64 := ''MAc=''\<rparr>"

lemma sample_explicit:
  assumes "rq_explicit_certificate_der request = [0x30, 7]" "rq_key_material request \<noteq> []"
  shows "\<exists>r. Resolver_Resolve sample_resolver request fs = (Some r, fs) \<and> cr_succeeded r \<and> cr_certificate_der r = [0x30, 7]"
proof -
  have c: "certified sample_resolver [[5], [7]] [0x30, 7]"
    by (simp add: certified_def ContainerPublicKeys_Matches_def CertificateAllowsSigningUsage_def DecodeCertificateDer_def
        CertificateAllowsSigning_def sample_resolver_def)
  have "ComputeSpkiFingerprint sample_resolver key password = Inr (ToLowerHex (Sha256 [5]))"
    "key \<noteq> [] \<Longrightarrow> ContainerPublicKeys_Load sample_resolver key password = Inr [[5], [7]]" for key password
    by (simp_all add: ComputeSpkiFingerprint_def ContainerPublicKeys_Load_def sample_resolver_def)
  then show ?thesis
    using assms by (simp add: Resolver_Resolve_def resolve_explicit_def accept_certified [OF c] Let_def)
qed

theorem loaded_certificate_matches_witness:
  "\<exists>s' fs'. LoadPrivateKeyPayload sample_resolving_lib [0x30, 2, 5, 0] ''pw'' [] [] False sample_hints sample_session (\<lambda>path. None) = (True, s', fs')
     \<and> loaded_certificate s' = [0x30, 7] \<and> CertificateMatchesPrivateKey sample_resolver (loaded_key_material s') (loaded_key_password s') [0x30, 7]"
proof -
  let ?G = sample_resolving_lib
  have u: "uses_resolver ?G sample_resolver" by (simp add: uses_resolver_def sample_resolving_lib_def)
  have "\<exists>nk. NormalizeKeyContainer ?G [0x30, 2, 5, 0] ''pw'' ''pw'' [] False = Inr nk \<and> nk_certificate nk = [] \<and> nk_key_material nk \<noteq> []"
  proof -
    have "NormalizeKeyContainer ?G [0x30, 2, 5, 0] ''pw'' ''pw'' [] False = normalize_pem [0x30, 2, 5, 0] False"
    proof -
      have "\<not> IitKeyContainerParser_Matches [0x30, 2, 5, 0]" "\<not> Zs2KeyContainerParser_Matches [0x30, 2, 5, 0]" by code_simp+
      then show ?thesis by (simp add: NormalizeKeyContainer_def)
    qed
    moreover have "\<exists>nk. normalize_pem [0x30, 2, 5, 0] False = Inr nk \<and> nk_certificate nk = [] \<and> nk_key_material nk \<noteq> []"
      by (rule exI [of _ "projr (normalize_pem [0x30, 2, 5, 0] False)"]) code_simp
    ultimately show ?thesis by simp
  qed
  then obtain nk where nk: "NormalizeKeyContainer ?G [0x30, 2, 5, 0] ''pw'' ''pw'' [] False = Inr nk" "nk_certificate nk = []" "nk_key_material nk \<noteq> []" by blast
  have b: "Base64Decode ''MAc='' = Some [0x30, 7]" by code_simp
  have "ResolveMissingCertificate ?G (nk_key_material nk) ''pw'' sample_hints sample_session (\<lambda>path. None) = (Inr [0x30, 7], \<lambda>path. None)"
  proof -
    let ?d = "[0x30, 7] :: bytes"
    have "CertificateResolver_Resolve ?G request fs = (Inr ?d, fs)"
      if "rq_explicit_certificate_der request = ?d" "rq_key_material request = nk_key_material nk" for request fs
      using sample_explicit [of request fs] that nk(3) by (auto simp: sample_resolving_lib_def)
    then show ?thesis by (simp add: ResolveMissingCertificate_def sample_hints_def no_hints_def b)
  qed
  then have l: "LoadPrivateKeyPayload ?G [0x30, 2, 5, 0] ''pw'' [] [] False sample_hints sample_session (\<lambda>path. None)
      = (True, CommitLoadedKey (nk_normalized nk) (nk_key_material nk) [0x30, 7] ''pw'' (nk_format nk) sample_session, \<lambda>path. None)"
    using nk by (simp add: LoadPrivateKeyPayload_def)
  show ?thesis
    using loaded_certificate_matches [OF u _ _ _ l] nk(1,2) l by (simp add: sample_session_def CommitLoadedKey_def ClearError_def SecureClearLoadedKey_def)
qed

section \<open>The exit code for a missing certificate\<close>

text \<open>The tool knows the failure by the beginning of the resolver's message.\<close>

lemma missing_certificate_exit: "SignFailureExitCode err (kMissingCertificateMessage @ rest) = 2"
proof -
  obtain more where e: "kMissingCertificateMessage = kMissingCertificateMessagePrefix @ more"
  proof -
    have "\<exists>more. kMissingCertificateMessage = kMissingCertificateMessagePrefix @ more"
    by (rule exI [of _ "drop (length kMissingCertificateMessagePrefix) kMissingCertificateMessage"])
      (simp add: kMissingCertificateMessage_def kMissingCertificateMessagePrefix_def string_of_bytes_def)
    then show thesis using that by blast
  qed
  have "str_contains kMissingCertificateMessagePrefix (kMissingCertificateMessage @ rest)"
    unfolding e append_assoc by (rule str_contains_prefixI)
  then show ?thesis by (simp add: SignFailureExitCode_def)
qed

end
