(* ===== verification/Spec2Isabelle.thy ===== *)
theory Spec2Isabelle
  imports Hex Jks_Store Trust_Signature Key_Loading
begin

text \<open>
  Verification of Tamga, a C++17 library, command line tool and 1C component for Ukrainian
  qualified electronic signatures. This theory is the root of the development; the
  definitions and theorems are in the theories it imports.

  \<^bold>\<open>The program.\<close> A \<open>Session\<close> (\<open>src/src/lib/core/Session.h\<close>) has settings, a private key and the report of the
  last verification. Signing makes a CMS signature with the vendored library and adds a timestamp.
  Verifying checks the signature and hands the signer's certificate to the validation engine
  (\<open>core/validation\<close>), which builds a path to a trust anchor, checks revocation and timestamps,
  evaluates the trust service and decides. The engine's report is projected on the session's report,
  a policy decision is taken from it, and two JSON documents are written from it. Below are the
  network client with its access policy and helpers for text, DER, hashes and JSON. A key without a
  certificate sends the session to the certificate resolver (\<open>core/net\<close>). Above are two ways in: the
  command line tool (\<open>cli\<close>) and the C interface (\<open>core/TamgaCApi.cpp\<close>).

  \<^bold>\<open>Theories, from the bottom.\<close>

  \<^item> \<open>Tamga_Prelude\<close>: types and lemmas on lists, strings, options and words that all others share.
  \<^item> \<open>Base64\<close>, \<open>Hex\<close>, \<open>Der\<close>, \<open>Utf\<close>, \<open>Utf_Path\<close>, \<open>Json\<close>: the helpers of \<open>util\<close>. Encoders and decoders are
    inverse, the DER reader returns what was encoded and reads nothing outside its limit, the
    JSON reader finds on a path exactly what the tree has there and refuses what is nested too deep.
  \<^item> \<open>Iso_Time\<close>, \<open>Sha256\<close>, \<open>Sha1\<close>, \<open>Imprint\<close>: times, the two hash functions of the project against reference
    definitions in the style of the standard, the digests of a timestamp request.
  \<^item> \<open>Validation_Types\<close>, \<open>Pki\<close>: the types of \<open>core/validation/ValidationTypes.h\<close>, the policy resolver,
    and the view of certificates, lists and responses the engine has.
  \<^item> \<open>Cert_Chain\<close>, \<open>Path_Engine\<close>: \<open>CertificateChainValidator\<close> and \<open>PathEngine\<close>. The breadth-first search says
    trusted exactly when a chain exists; the selector never uses historical anchors where the
    policy forbids them. The locale \<open>chain_validator\<close> is what the path engine relies on.
  \<^item> \<open>Crl_Validator\<close>, \<open>Ocsp_Validator\<close>, \<open>Revocation_Engine\<close>: exactly when a certificate is called good or
    revoked, and that the first source in order that proves something decides. The locale \<open>revocation_sources\<close> is the
    contract between the engine and the two validators.
  \<^item> \<open>Trust_List\<close>, \<open>Trust_Signature\<close>: \<open>TrustListParser\<close> and the check of the list's signature. What a service has is
    in the list; a pinned certificate is the one that verifies, in a document with one certificate;
    and two ways in which a changed or foreign list passes the check.
  \<^item> \<open>Timestamp_Engine\<close>, \<open>Signing_Time\<close>, \<open>Trust_Service\<close>, \<open>Evidence_Store\<close>: the further stages of a validation.
    The locale \<open>content_store\<close> is the contract of the store.
  \<^item> \<open>Validation_Engine\<close>: \<open>ValidationEngine::Validate\<close> and the synthesis of the decision: valid exactly when
    all checks pass; without permission the network is not used and nothing on disk changes.
  \<^item> \<open>Http_Policy\<close>, \<open>Http_Syntax\<close>, \<open>Http_Client\<close>: which addresses may be asked, redirects, and the client on
    the WinHTTP backend: every request follows a check of its own address, at most six requests
    are made, the body is bounded.
  \<^item> \<open>Verify_Report\<close>, \<open>Report_Json\<close>, \<open>Report_Document\<close>: the report of a verification, the verdicts taken
    from it, the bytes of the two documents, and that they are well-formed JSON for every content.
  \<^item> \<open>Session_State\<close>, \<open>Session_Verify\<close>, \<open>Session_Verdict\<close>: the state of a session, the verify operations on CMS
    data, soundness of a positive verdict, ownership of the report under all interleavings.
  \<^item> \<open>Jks\<close>, \<open>Jks_Store\<close>, \<open>Key_Containers\<close>: the key containers of \<open>core/KeyParsers.cpp\<close>. A store written as Java
    writes it and a text of PEM blocks with text around them are read back.
  \<^item> \<open>Session_Settings\<close>, \<open>Session_Keys\<close>, \<open>Session_Sign\<close>, \<open>Session_Life\<close>: lifecycle, settings, keys and signing.
    Signing refines an abstract specification of the three timestamp modes; what holds of keys
    and settings holds in every reachable state.
  \<^item> \<open>Cli_Exit\<close>, \<open>Cli\<close>, \<open>Cli_Verdict\<close>: options, commands and exit codes of \<open>cli/main.cpp\<close>. The key descriptor the tool
    writes is read back as given, verification of CMS data does not depend on the network unless
    this is asked for, and what its exit code says and does not say.
  \<^item> \<open>C_Api\<close>, \<open>C_Api_Calls\<close>: the functions of the C interface on a handle or null. The code, the flag and the
    report of a verification of CMS data agree, signing a file is signing its content, and a
    failure to write a file is returned but not kept as the last error.
  \<^item> \<open>Cert_Fetch\<close>, \<open>Ca_Registry\<close>, \<open>Cert_Resolver\<close>: where certificates come from. A subject cannot change the
    directory's filter, the registry is read back from its compact text and from the file it is kept in,
    the resolver accepts only a certificate that matches the key and finds it again offline.
  \<^item> \<open>Key_Loading\<close>: the session whose resolver is the model's: the certificate it ends up with belongs to
    the key, and a key without one gives its own exit code.

  \<^bold>\<open>Conventions.\<close> A struct is a record whose fields have a prefix per struct, an enumeration a datatype, a
  failing function returns an option or a sum. Sizes, tags and counters where overflow matters are
  words. Strings are bytes; Ukrainian messages of the source are given in English after \<open>uk:\<close>, except where
  the program compares with them. The clock is an argument. The file system is a state of any type
  together with a record of functions on it. Each theory opens with what it takes as an argument.

  \<^bold>\<open>Arguments that stand for other code.\<close> The vendored cryptographic library (decoding of certificates and
  signatures, signing, GOST and DSTU primitives), the platform (files, sockets, paths, address
  literals), and these parts of the project: the validator of timestamp tokens, the timestamp client,
  the caches of revocation lists, the synchronisation of the trust list, the digests and values of
  XML signatures, the operations on XML, PDF and ASiC documents. The parser of the trust list is an
  argument of the engine and modelled on its own. The resolver of certificates is an argument of \<open>Session_Keys\<close>; the
  theory \<open>Key_Loading\<close> puts the model of it in its place. Theorems that need a law of an argument
  state it as a hypothesis and have a witness with a concrete function.

  \<^bold>\<open>Termination and bounds.\<close> No function has fuel of its own, except where the source counts: the chain
  search visits at most the budget of the source, the client follows at most five redirects, JSON
  nesting is limited as in the source. All loops are functions with a termination proof.

  \<^bold>\<open>Not modelled.\<close> XML, XAdES, PAdES and ASiC documents, the timestamp client and the validator of
  timestamp tokens, the synchronisation of the trust list, the issuer fetcher, the caches of revocation
  lists and of the policy, the 1C component. They are left out because much of their work is calls of
  the cryptographic library, of XML and ZIP code or of the host application. Also not modelled: erasing of
  secrets from memory, debug traces, failures of allocation and, in the C interface, exceptions.
\<close>

end
